(* ===== verification/Prelude.thy ===== *)
theory Prelude
  imports Main "HOL-Library.List_Lexorder" "HOL-Library.Char_ord"
begin

text \<open>
  What every component of the development shares: the error values of the Go code
  (\<open>errors.go\<close>, \<open>ports.go\<close>), the state-and-error computations in which
  its stateful functions are written, and the functions of the Go packages
  \<open>strings\<close> and \<open>strconv\<close> that it calls.

  A Go string is a list of bytes, here the \<open>string\<close> of HOL. Case mapping and white
  space are modelled on ASCII bytes, the only ones the code's own constants hold.
\<close>

section \<open>Automation\<close>

named_theorems monad_simps \<open>unfolding of the state-and-error combinators\<close>
named_theorems record_simps \<open>reading the fields of the rows the store writes\<close>
named_theorems where_simps \<open>evaluating the predicates of queries\<close>

section \<open>Errors\<close>

text \<open>\<open>ErrorCode\<close> of \<open>errors.go\<close>.\<close>

datatype ErrorCode =
    CodeBadRequest | CodeValidation | CodeInvalidEmail | CodePasswordTooShort
  | CodePasswordTooLong | CodeInvalidCredentials | CodeEmailNotVerified | CodeEmailMismatch
  | CodeEmailAlreadyVerified | CodeInvalidPassword | CodeCredentialNotFound
  | CodeAccountNotFound | CodeUnlinkLastAccount | CodeLinkingNotAllowed
  | CodeLinkingDifferentEmails | CodeAccountLinkedElsewhere | CodeAccountNotLinked
  | CodeOAuthSignUpDisabled | CodeProviderNotSupported | CodeTokenRefreshUnsupported
  | CodeRefreshTokenNotFound | CodeFailedRefreshToken | CodeSignUpDisabled
  | CodeUserAlreadyExists | CodeUnauthorized | CodeForbidden | CodeCannotImpersonateAdmins
  | CodeCannotImpersonateUsers | CodeSessionNotFresh | CodeNotFound | CodeConflict
  | CodeRateLimited | CodeInvalidOrigin | CodeInvalidCSRF | CodeInvalidToken
  | CodeProviderFailure | CodeMethodNotAllowed | CodeSchemaMismatch | CodeInternal
  | CodeTOTPAlreadyEnabled | CodeEmpty

text \<open>
  The error values: the sentinel variables of \<open>ports.go\<close> and \<open>errors.go\<close>, a plain
  \<open>errors.New\<close> or \<open>fmt.Errorf\<close> text, a text that wraps another error
  (\<open>%w\<close>), and the public \<open>Error\<close> with its code, message, status, retry
  delay in nanoseconds and cause.
\<close>

datatype go_error =
    ErrNotFound | ErrConflict | ErrReplay | ErrAccountNotLinked | ErrSignUpDisabled
  | ErrAmbiguousAccount | ErrNoSession | ErrSessionExpired
  | ErrText string
  | ErrWrap string go_error
  | ErrPublic ErrorCode string int int "go_error option"

text \<open>\<open>publicError\<close>: a structured error without a retry delay.\<close>

definition publicError :: "ErrorCode \<Rightarrow> string \<Rightarrow> int \<Rightarrow> go_error option \<Rightarrow> go_error" where
  "publicError code message status cause = ErrPublic code message status 0 cause"

text \<open>\<open>errors.Is\<close>: the chain of wrapped errors is searched for the target.\<close>

fun errors_Is :: "go_error \<Rightarrow> go_error \<Rightarrow> bool" where
  "errors_Is (ErrWrap m e) t \<longleftrightarrow> ErrWrap m e = t \<or> errors_Is e t"
| "errors_Is (ErrPublic c m st ra (Some e)) t \<longleftrightarrow>
     ErrPublic c m st ra (Some e) = t \<or> errors_Is e t"
| "errors_Is ErrSessionExpired t \<longleftrightarrow> t = ErrSessionExpired \<or> t = ErrNoSession"
| "errors_Is e t \<longleftrightarrow> e = t"

text \<open>\<open>errors.As\<close> at the type \<open>*Error\<close>: the first public error of the chain.\<close>

fun errors_As :: "go_error \<Rightarrow> go_error option" where
  "errors_As (ErrWrap m e) = errors_As e"
| "errors_As (ErrPublic c m st ra e) = Some (ErrPublic c m st ra e)"
| "errors_As e = None"

lemma errors_Is_refl [simp]: "errors_Is e e"
proof (cases e)
  case (ErrPublic c m st ra cause)
  then show ?thesis by (cases cause) simp_all
qed simp_all

section \<open>Computations with state and errors\<close>

text \<open>
  A Go function that reads and writes a state and returns \<open>(value, error)\<close> is a
  function from the state to \<open>Inl error\<close> or \<open>Inr value\<close> and the new state. An
  error keeps the state reached so far: only a transaction undoes effects.
\<close>

type_synonym ('s, 'a) prog = "'s \<Rightarrow> (go_error + 'a) \<times> 's"

definition ret :: "'a \<Rightarrow> ('s, 'a) prog" where
  [monad_simps]: "ret a = (\<lambda>s. (Inr a, s))"

definition fail :: "go_error \<Rightarrow> ('s, 'a) prog" where
  [monad_simps]: "fail e = (\<lambda>s. (Inl e, s))"

definition lift :: "go_error + 'a \<Rightarrow> ('s, 'a) prog" where
  [monad_simps]: "lift r = (\<lambda>s. (r, s))"

definition bindM :: "('s, 'a) prog \<Rightarrow> ('a \<Rightarrow> ('s, 'b) prog) \<Rightarrow> ('s, 'b) prog" where
  "bindM m f = (\<lambda>s. case m s of (Inl e, s') \<Rightarrow> (Inl e, s') | (Inr a, s') \<Rightarrow> f a s')"

text \<open>\<open>if cond { return err }\<close>\<close>

definition failIf :: "bool \<Rightarrow> go_error \<Rightarrow> ('s, unit) prog" where
  "failIf b e = (if b then fail e else ret ())"

text \<open>\<open>v, err := f()\<close> where the code looks at the error itself.\<close>

definition tryM :: "('s, 'a) prog \<Rightarrow> ('s, go_error + 'a) prog" where
  "tryM m = (\<lambda>s. case m s of (r, s') \<Rightarrow> (Inr r, s'))"

text \<open>\<open>if err := f(); err != nil { return wrap(err) }\<close>\<close>

definition mapErr :: "(go_error \<Rightarrow> go_error) \<Rightarrow> ('s, 'a) prog \<Rightarrow> ('s, 'a) prog" where
  "mapErr g m = (\<lambda>s. case m s of (Inl e, s') \<Rightarrow> (Inl (g e), s') | (Inr a, s') \<Rightarrow> (Inr a, s'))"

lemma bindM_Inr [monad_simps]: "m s = (Inr a, s') \<Longrightarrow> bindM m f s = f a s'"
  by (simp add: bindM_def)

lemma bindM_Inl [monad_simps]: "m s = (Inl e, s') \<Longrightarrow> bindM m f s = (Inl e, s')"
  by (simp add: bindM_def)

lemma bindM_ret [simp]: "bindM (ret a) f = f a"
  by (simp add: bindM_def ret_def)

lemma bindM_fail [simp]: "bindM (fail e) f = fail e"
  by (simp add: bindM_def fail_def)

lemma bindM_lift [simp]:
  "bindM (lift (Inr a)) f = f a" "bindM (lift (Inl e)) f = fail e"
  by (simp_all add: bindM_def lift_def fail_def)

lemma bindM_failIf [simp]: "bindM (failIf b e) f = (if b then fail e else f ())"
  by (simp add: failIf_def)

lemma bindM_assoc: "bindM (bindM m f) g = bindM m (\<lambda>x. bindM (f x) g)"
  by (simp add: bindM_def fun_eq_iff split: prod.split sum.split)

lemma tryM_eq [monad_simps]: "m s = (r, s') \<Longrightarrow> tryM m s = (Inr r, s')"
  by (simp add: tryM_def)

lemma mapErr_eq [monad_simps]:
  "m s = (Inl e, s') \<Longrightarrow> mapErr g m s = (Inl (g e), s')"
  "m s = (Inr a, s') \<Longrightarrow> mapErr g m s = (Inr a, s')"
  by (simp_all add: mapErr_def)

lemma bindM_Inr_elim:
  assumes "bindM m f s = (Inr b, t)"
  obtains a u where "m s = (Inr a, u)" and "f a u = (Inr b, t)"
  using assms by (auto simp: bindM_def split: prod.splits sum.splits)

lemma bindM_Inl_elim:
  assumes "bindM m f s = (Inl e, t)"
  obtains "m s = (Inl e, t)" | a u where "m s = (Inr a, u)" and "f a u = (Inl e, t)"
  using assms by (auto simp: bindM_def split: prod.splits sum.splits)

lemma failIf_eq: "failIf b e s = (if b then (Inl e, s) else (Inr (), s))"
  by (simp add: failIf_def fail_def ret_def)

text \<open>
  A predicate on states kept by both branches of a computation. The rules follow the
  combinators, so the invariant of a component is carried through its composed operations
  by \<open>intro\<close>.
\<close>

definition keeps :: "('s \<Rightarrow> bool) \<Rightarrow> ('s, 'a) prog \<Rightarrow> bool" where
  "keeps P m \<longleftrightarrow> (\<forall>s. P s \<longrightarrow> P (snd (m s)))"

lemma keepsI: "(\<And>s. P s \<Longrightarrow> P (snd (m s))) \<Longrightarrow> keeps P m"
  by (simp add: keeps_def)

lemma keepsD: "keeps P m \<Longrightarrow> P s \<Longrightarrow> P (snd (m s))"
  by (simp add: keeps_def)

lemma keepsE: "keeps P m \<Longrightarrow> m s = (r, t) \<Longrightarrow> P s \<Longrightarrow> P t"
  by (metis keeps_def snd_conv)

lemma keeps_ret [intro!]: "keeps P (ret a)"
  and keeps_fail [intro!]: "keeps P (fail e)"
  and keeps_lift [intro!]: "keeps P (lift r)"
  and keeps_failIf [intro!]: "keeps P (failIf b e)"
  by (simp_all add: keeps_def ret_def fail_def lift_def failIf_def)

lemma keeps_bindM [intro!]:
  "keeps P m \<Longrightarrow> (\<And>a. keeps P (f a)) \<Longrightarrow> keeps P (bindM m f)"
  by (auto simp: keeps_def bindM_def split: prod.splits sum.splits)

lemma keeps_tryM [intro!]: "keeps P m \<Longrightarrow> keeps P (tryM m)"
  by (auto simp: keeps_def tryM_def split: prod.splits)

lemma keeps_mapErr [intro!]: "keeps P m \<Longrightarrow> keeps P (mapErr g m)"
  by (auto simp: keeps_def mapErr_def split: prod.splits sum.splits)

lemma keeps_if [intro!]: "keeps P m \<Longrightarrow> keeps P n \<Longrightarrow> keeps P (if b then m else n)"
  by simp

lemma keeps_case_option [intro!]:
  "keeps P n \<Longrightarrow> (\<And>x. keeps P (m x)) \<Longrightarrow> keeps P (case z of None \<Rightarrow> n | Some x \<Rightarrow> m x)"
  by (cases z) simp_all

lemma keeps_case_list [intro!]:
  "keeps P n \<Longrightarrow> (\<And>x xs. keeps P (m x xs)) \<Longrightarrow> keeps P (case z of [] \<Rightarrow> n | x # xs \<Rightarrow> m x xs)"
  by (cases z) simp_all

lemma keeps_case_sum [intro!]:
  "(\<And>e. keeps P (n e)) \<Longrightarrow> (\<And>x. keeps P (m x)) \<Longrightarrow> keeps P (case z of Inl e \<Rightarrow> n e | Inr x \<Rightarrow> m x)"
  by (cases z) simp_all

lemma keeps_case_prod [intro!]:
  "(\<And>x y. keeps P (m x y)) \<Longrightarrow> keeps P (case z of (x, y) \<Rightarrow> m x y)"
  by (cases z) simp_all

lemma keeps_Let [intro!]: "keeps P (m v) \<Longrightarrow> keeps P (Let v m)"
  by simp

lemmas keeps_rules = keeps_ret keeps_fail keeps_lift keeps_failIf keeps_bindM keeps_tryM
  keeps_mapErr keeps_if keeps_case_option keeps_case_list keeps_case_sum keeps_case_prod keeps_Let

text \<open>A loop over a list that stops at the first error.\<close>

fun foldE :: "('b \<Rightarrow> 'a \<Rightarrow> 'e + 'b) \<Rightarrow> 'b \<Rightarrow> 'a list \<Rightarrow> 'e + 'b" where
  "foldE f acc [] = Inr acc"
| "foldE f acc (x # xs) = (case f acc x of Inl e \<Rightarrow> Inl e | Inr acc' \<Rightarrow> foldE f acc' xs)"

lemma foldE_invariant:
  assumes "foldE f acc xs = Inr res" and "P acc"
    and "\<And>a x b. x \<in> set xs \<Longrightarrow> P a \<Longrightarrow> f a x = Inr b \<Longrightarrow> P b"
  shows "P res"
  using assms
proof (induction xs arbitrary: acc)
  case (Cons x xs)
  from Cons.prems(1) obtain b where b: "f acc x = Inr b" "foldE f b xs = Inr res"
    by (auto split: sum.splits)
  from Cons.prems(2,3) b(1) have "P b" by auto
  with b(2) Cons.prems(3) show ?case by (intro Cons.IH) auto
qed simp

text \<open>Writing an entry of a Go map held as an association list.\<close>

fun put :: "'k \<Rightarrow> 'v \<Rightarrow> ('k \<times> 'v) list \<Rightarrow> ('k \<times> 'v) list" where
  "put k v [] = [(k, v)]"
| "put k v ((a, b) # m) = (if a = k then (k, v) # m else (a, b) # put k v m)"

lemma map_of_put [simp]: "map_of (put k v m) = (map_of m)(k \<mapsto> v)"
  by (induction k v m rule: put.induct) auto

lemma set_put: "fst ` set (put k v m) = insert k (fst ` set m)"
  by (induction k v m rule: put.induct) auto

lemma distinct_put: "distinct (map fst m) \<Longrightarrow> distinct (map fst (put k v m))"
proof (induction k v m rule: put.induct)
  case (2 k v a b m)
  have "set (map fst (put k v m)) = insert k (set (map fst m))"
    using set_put [of k v m] by simp
  with 2 show ?case by auto
qed simp

section \<open>Strings\<close>

text \<open>\<open>strings.HasPrefix\<close>, \<open>HasSuffix\<close>, \<open>Contains\<close>.\<close>

definition HasPrefix :: "string \<Rightarrow> string \<Rightarrow> bool" where
  "HasPrefix s p \<longleftrightarrow> take (length p) s = p"

definition HasSuffix :: "string \<Rightarrow> string \<Rightarrow> bool" where
  "HasSuffix s p \<longleftrightarrow> HasPrefix (rev s) (rev p)"

fun strings_Contains :: "string \<Rightarrow> string \<Rightarrow> bool" where
  "strings_Contains [] p \<longleftrightarrow> p = []"
| "strings_Contains (c # s) p \<longleftrightarrow> HasPrefix (c # s) p \<or> strings_Contains s p"

lemma HasPrefix_append [simp]: "HasPrefix (p @ s) p"
  by (simp add: HasPrefix_def)

lemma HasPrefix_iff: "HasPrefix s p \<longleftrightarrow> (\<exists>t. s = p @ t)"
  by (metis HasPrefix_def append_take_drop_id append_eq_conv_conj)

text \<open>\<open>strings.CutPrefix\<close>\<close>

definition CutPrefix :: "string \<Rightarrow> string \<Rightarrow> string option" where
  "CutPrefix s p = (if HasPrefix s p then Some (drop (length p) s) else None)"

text \<open>\<open>strings.ToLower\<close>, \<open>TrimSpace\<close>, \<open>Fields\<close>, \<open>Join\<close>.\<close>

definition lower_char :: "char \<Rightarrow> char" where
  "lower_char c =
     (if CHR ''A'' \<le> c \<and> c \<le> CHR ''Z'' then char_of (of_char c + 32 :: nat) else c)"

definition ToLower :: "string \<Rightarrow> string" where
  "ToLower s = map lower_char s"

definition is_space :: "char \<Rightarrow> bool" where
  "is_space c \<longleftrightarrow> c \<in> {CHR '' '', CHR 0x09, CHR 0x0A, CHR 0x0B, CHR 0x0C, CHR 0x0D}"

definition TrimSpace :: "string \<Rightarrow> string" where
  "TrimSpace s = rev (dropWhile is_space (rev (dropWhile is_space s)))"

function Fields :: "string \<Rightarrow> string list" where
  "Fields s =
     (let t = dropWhile is_space s in
      if t = [] then []
      else takeWhile (\<lambda>c. \<not> is_space c) t # Fields (dropWhile (\<lambda>c. \<not> is_space c) t))"
  by pat_completeness auto
termination
proof (relation "measure length", simp)
  fix s t :: string
  assume t: "t = dropWhile is_space s" and ne: "t \<noteq> []"
  from ne t have "\<not> is_space (hd t)" using hd_dropWhile by blast
  with ne have "length (dropWhile (\<lambda>c. \<not> is_space c) t) < length t"
    by (cases t) (auto simp: le_imp_less_Suc length_dropWhile_le)
  also have "\<dots> \<le> length s" using t by (simp add: length_dropWhile_le)
  finally show "(dropWhile (\<lambda>c. \<not> is_space c) t, s) \<in> measure length" by simp
qed

declare Fields.simps [simp del]

fun Join :: "string list \<Rightarrow> string \<Rightarrow> string" where
  "Join [] sep = []"
| "Join [x] sep = x"
| "Join (x # y # ys) sep = x @ sep @ Join (y # ys) sep"

text \<open>\<open>strings.Compare\<close>: bytewise lexicographic order.\<close>

definition strings_Compare :: "string \<Rightarrow> string \<Rightarrow> int" where
  "strings_Compare a b = (if a = b then 0 else if a < b then -1 else 1)"

text \<open>\<open>strings.ContainsAny\<close>\<close>

definition ContainsAny :: "string \<Rightarrow> string \<Rightarrow> bool" where
  "ContainsAny s cs \<longleftrightarrow> list_ex (\<lambda>c. c \<in> set cs) s"

text \<open>\<open>strconv.Itoa\<close>\<close>

fun nat_digits :: "nat \<Rightarrow> string" where
  "nat_digits n =
     (if n < 10 then [char_of (48 + n)] else nat_digits (n div 10) @ [char_of (48 + n mod 10)])"

declare nat_digits.simps [simp del]

definition Itoa :: "int \<Rightarrow> string" where
  "Itoa i = (if i < 0 then ''-'' @ nat_digits (nat (- i)) else nat_digits (nat i))"

end
