(* ===== verification/Go_Values.thy ===== *)
theory Go_Values
  imports Prelude
begin

text \<open>
  The dynamic values of a database row and the queries of \<open>database.go\<close>.

  A \<open>Record\<close> is Go's \<open>map[string]any\<close>. The \<open>any\<close> is one of the dynamic
  types the code stores. Times are instants, in nanoseconds from the zero time of Go's
  package \<open>time\<close>, so \<open>t.UTC()\<close> is the identity and \<open>IsZero\<close> is \<open>t = 0\<close>.
  A \<open>float64\<close> is modelled at its integral values below \<open>2^53\<close>, where the
  arithmetic of the counters that use it is exact. The maps inside a value are
  association lists sorted by key, so that equality of values is
  \<open>reflect.DeepEqual\<close>.
\<close>

section \<open>Values\<close>

type_synonym gtime = int

type_synonym strmap = "(string \<times> string) list"

datatype val =
    VNil
  | VStr string
  | VBool bool
  | VInt int
  | VFloat int
  | VTime gtime
  | VTimePtr "gtime option"
  | VStrs "string list"
  | VArr "val list"
  | VStrMap strmap
  | VMap "(string \<times> val) list"
  | VStruct string "(string \<times> val) list"

type_synonym Record = "string \<rightharpoonup> val"

text \<open>Reading \<open>row[field]\<close>: a missing key gives Go's nil.\<close>

definition fld :: "Record \<Rightarrow> string \<Rightarrow> val" where
  "fld r f = (case r f of None \<Rightarrow> VNil | Some v \<Rightarrow> v)"

lemma fld_upd [simp]: "fld (r(k \<mapsto> v)) f = (if f = k then v else fld r f)"
  by (simp add: fld_def)

lemma fld_empty [simp]: "fld Map.empty f = VNil"
  by (simp add: fld_def)

text \<open>A map literal \<open>map[string]string{...}\<close>, kept sorted by key.\<close>

fun smap_put :: "string \<Rightarrow> string \<Rightarrow> strmap \<Rightarrow> strmap" where
  "smap_put k v [] = [(k, v)]"
| "smap_put k v ((a, b) # m) =
     (if k = a then (k, v) # m else if k < a then (k, v) # (a, b) # m
      else (a, b) # smap_put k v m)"

definition smap_of :: "(string \<times> string) list \<Rightarrow> strmap" where
  "smap_of kvs = foldl (\<lambda>m (k, v). smap_put k v m) [] kvs"

text \<open>Reading \<open>m[key]\<close>: a missing key gives the empty string.\<close>

definition smap_get :: "strmap \<Rightarrow> string \<Rightarrow> string" where
  "smap_get m k = (case map_of m k of None \<Rightarrow> '''' | Some v \<Rightarrow> v)"

lemma map_of_smap_put [simp]: "map_of (smap_put k v m) = (map_of m)(k \<mapsto> v)"
  by (induction k v m rule: smap_put.induct) auto

lemma smap_get_put [simp]: "smap_get (smap_put k v m) k' = (if k' = k then v else smap_get m k')"
  by (simp add: smap_get_def)

lemma smap_get_Nil [simp]: "smap_get [] k = ''''"
  by (simp add: smap_get_def)

definition smap_sorted :: "strmap \<Rightarrow> bool" where
  "smap_sorted m \<longleftrightarrow> sorted (map fst m) \<and> distinct (map fst m)"

lemma set_smap_put: "fst ` set (smap_put k v m) = insert k (fst ` set m)"
  by (induction k v m rule: smap_put.induct) auto

lemma smap_sorted_put: "smap_sorted m \<Longrightarrow> smap_sorted (smap_put k v m)"
proof (induction k v m rule: smap_put.induct)
  case (2 k v a b m)
  have keys: "set (map fst (smap_put k v m)) = insert k (set (map fst m))"
    using set_smap_put [of k v m] by simp
  from 2 keys show ?case
    by (auto simp: smap_sorted_def simp flip: set_map)
qed (simp add: smap_sorted_def)

section \<open>Printing\<close>

text \<open>
  \<open>fmt.Sprint\<close>. A time prints in Go's default layout; the calendar date of a day number
  counts from 1 March of the year 0, in eras of 400 years.
\<close>

definition civil_date :: "int \<Rightarrow> int \<times> int \<times> int" where
  "civil_date day =
     (let z = day + 306; era = z div 146097; doe = z mod 146097;
          yoe = (doe - doe div 1460 + doe div 36524 - doe div 146096) div 365;
          doy = doe - (365 * yoe + yoe div 4 - yoe div 100);
          mp = (5 * doy + 2) div 153;
          d = doy - (153 * mp + 2) div 5 + 1;
          m = (if mp < 10 then mp + 3 else mp - 9);
          y = yoe + era * 400
      in (if m \<le> 2 then y + 1 else y, m, d))"

definition pad_left :: "nat \<Rightarrow> string \<Rightarrow> string" where
  "pad_left n s = replicate (n - length s) (CHR ''0'') @ s"

definition time_fraction :: "int \<Rightarrow> string" where
  "time_fraction ns =
     (let ds = rev (dropWhile (\<lambda>c. c = CHR ''0'') (rev (pad_left 9 (Itoa ns))))
      in if ds = [] then [] else ''.'' @ ds)"

definition time_String :: "gtime \<Rightarrow> string" where
  "time_String t =
     (let secs = t div 1000000000; ns = t mod 1000000000; sd = secs mod 86400 in
      case civil_date (secs div 86400) of (y, m, d) \<Rightarrow>
        pad_left 4 (Itoa y) @ ''-'' @ pad_left 2 (Itoa m) @ ''-'' @ pad_left 2 (Itoa d) @ '' '' @
        pad_left 2 (Itoa (sd div 3600)) @ '':'' @ pad_left 2 (Itoa (sd div 60 mod 60)) @ '':'' @
        pad_left 2 (Itoa (sd mod 60)) @ time_fraction ns @ '' +0000 UTC'')"

fun Sprint :: "val \<Rightarrow> string" where
  "Sprint VNil = ''<nil>''"
| "Sprint (VStr s) = s"
| "Sprint (VBool b) = (if b then ''true'' else ''false'')"
| "Sprint (VInt i) = Itoa i"
| "Sprint (VFloat i) = Itoa i"
| "Sprint (VTime t) = time_String t"
| "Sprint (VTimePtr None) = ''<nil>''"
| "Sprint (VTimePtr (Some t)) = time_String t"
| "Sprint (VStrs xs) = ''['' @ Join xs '' '' @ '']''"
| "Sprint (VArr xs) = ''['' @ Join (map Sprint xs) '' '' @ '']''"
| "Sprint (VStrMap m) = ''map['' @ Join (map (\<lambda>(k, v). k @ '':'' @ v) m) '' '' @ '']''"
| "Sprint (VMap m) = ''map['' @ Join (map (\<lambda>(k, v). k @ '':'' @ Sprint v) m) '' '' @ '']''"
| "Sprint (VStruct n m) = ''{'' @ Join (map (\<lambda>(k, v). Sprint v) m) '' '' @ ''}''"

section \<open>Queries\<close>

datatype WhereOperator =
    OpUnset | WhereEQ | WhereNE | WhereLT | WhereLTE | WhereGT | WhereGTE | WhereIn
  | WhereNotIn | WhereContains | WhereStartsWith | WhereEndsWith | OpOther string

datatype WhereConnector = ConnUnset | WhereAND | WhereOR | ConnOther string

datatype StringMode = ModeUnset | StringSensitive | StringInsensitive | ModeOther string

record Where =
  Field :: string
  Operator :: WhereOperator
  Value :: val
  Connector :: WhereConnector
  Mode :: StringMode

definition Eq :: "string \<Rightarrow> val \<Rightarrow> Where" where
  "Eq field v = \<lparr>Field = field, Operator = WhereEQ, Value = v, Connector = WhereAND,
                 Mode = StringSensitive\<rparr>"

text \<open>The literal \<open>{Field: f, Operator: op, Value: v}\<close>, with the other fields unset.\<close>

definition Cond :: "string \<Rightarrow> WhereOperator \<Rightarrow> val \<Rightarrow> Where" where
  "Cond field oper v = \<lparr>Field = field, Operator = oper, Value = v, Connector = ConnUnset,
                       Mode = ModeUnset\<rparr>"

datatype JoinRelation = JoinOneToOne | JoinOneToMany | JoinManyToMany | JoinOther string

record Join =
  j_Model :: string
  j_From :: string
  j_To :: string
  j_Limit :: int
  j_Relation :: JoinRelation

record Sort =
  s_Field :: string
  s_Direction :: string

record CreateQuery =
  cq_Model :: string
  cq_Data :: Record
  cq_Select :: "string list"
  cq_ForceAllowID :: bool

record FindOneQuery =
  fo_Model :: string
  fo_Where :: "Where list"
  fo_Select :: "string list"
  fo_Joins :: "Join list"

record FindManyQuery =
  fm_Model :: string
  fm_Where :: "Where list"
  fm_Limit :: int
  fm_Offset :: int
  fm_Select :: "string list"
  fm_Sort :: "Sort option"
  fm_Joins :: "Join list"

record CountQuery =
  ct_Model :: string
  ct_Where :: "Where list"

record UpdateQuery =
  uq_Model :: string
  uq_Where :: "Where list"
  uq_Update :: Record

record DeleteQuery =
  dq_Model :: string
  dq_Where :: "Where list"

record IncrementQuery =
  iq_Model :: string
  iq_Where :: "Where list"
  iq_Increment :: "(string \<times> int) list"
  iq_Set :: Record

record AdapterCapabilities =
  cap_JSON :: bool
  cap_Dates :: bool
  cap_Booleans :: bool
  cap_Arrays :: bool
  cap_NumericIDs :: bool
  cap_UUIDs :: bool
  cap_Joins :: bool
  cap_Transactions :: bool

section \<open>Validation of predicates\<close>

text \<open>
  \<open>ValidateWhere\<close>: the loop body gives one item its defaults or rejects it, and the loop
  stops at the first rejected item.
\<close>

definition supported_operator :: "WhereOperator \<Rightarrow> bool" where
  "supported_operator oper \<longleftrightarrow>
     oper \<in> {WhereEQ, WhereNE, WhereLT, WhereLTE, WhereGT, WhereGTE, WhereIn, WhereNotIn,
            WhereContains, WhereStartsWith, WhereEndsWith}"

definition validate_item :: "Where \<Rightarrow> go_error + Where" where
  "validate_item item =
     (if Field item = '''' then Inl (ErrText ''betterauth: where field is required'')
      else
       (let item = (if Operator item = OpUnset then item\<lparr>Operator := WhereEQ\<rparr> else item) in
        if \<not> supported_operator (Operator item)
        then Inl (ErrText ''betterauth: unsupported where operator'')
        else
          (let item = (if Connector item = ConnUnset then item\<lparr>Connector := WhereAND\<rparr> else item) in
           if Connector item \<noteq> WhereAND \<and> Connector item \<noteq> WhereOR
           then Inl (ErrText ''betterauth: unsupported where connector'')
           else
            (let item = (if Mode item = ModeUnset then item\<lparr>Mode := StringSensitive\<rparr> else item) in
             if Mode item \<noteq> StringSensitive \<and> Mode item \<noteq> StringInsensitive
             then Inl (ErrText ''betterauth: unsupported string mode'')
             else Inr item))))"

fun validate_items :: "Where list \<Rightarrow> go_error + Where list" where
  "validate_items [] = Inr []"
| "validate_items (w # ws) =
     (case validate_item w of
        Inl e \<Rightarrow> Inl e
      | Inr w' \<Rightarrow> (case validate_items ws of Inl e \<Rightarrow> Inl e | Inr ws' \<Rightarrow> Inr (w' # ws')))"

definition ValidateWhere :: "Where list \<Rightarrow> bool \<Rightarrow> go_error + Where list" where
  "ValidateWhere ws allowEmpty =
     (if ws = [] \<and> \<not> allowEmpty then Inl (ErrText ''betterauth: empty where clause is unsafe'')
      else validate_items ws)"

lemma validate_item_Eq [where_simps]: "f \<noteq> '''' \<Longrightarrow> validate_item (Eq f v) = Inr (Eq f v)"
  by (simp add: validate_item_def Eq_def supported_operator_def)

text \<open>The defaults of an item with a supported operator and nothing else set.\<close>

definition full_cond :: "string \<Rightarrow> WhereOperator \<Rightarrow> val \<Rightarrow> Where" where
  "full_cond field oper v = \<lparr>Field = field, Operator = oper, Value = v, Connector = WhereAND,
                       Mode = StringSensitive\<rparr>"

lemma validate_item_Cond [where_simps]:
  "f \<noteq> '''' \<Longrightarrow> oper \<in> {WhereEQ, WhereNE, WhereGT, WhereStartsWith} \<Longrightarrow>
   validate_item (Cond f oper v) = Inr (full_cond f oper v)"
  by (auto simp: validate_item_def Cond_def full_cond_def supported_operator_def)

lemma ValidateWhere_simps [where_simps]:
  "ValidateWhere (w # ws) b = validate_items (w # ws)"
  "ValidateWhere [] True = Inr []"
  "ValidateWhere [] False = Inl (ErrText ''betterauth: empty where clause is unsafe'')"
  by (simp_all add: ValidateWhere_def)

lemma ValidateWhere_allow: "ws \<noteq> [] \<Longrightarrow> ValidateWhere ws b = ValidateWhere ws c"
  by (simp add: ValidateWhere_def)

definition item_ok :: "Where \<Rightarrow> bool" where
  "item_ok w \<longleftrightarrow> Field w \<noteq> '''' \<and> supported_operator (Operator w)
     \<and> Connector w \<in> {WhereAND, WhereOR} \<and> Mode w \<in> {StringSensitive, StringInsensitive}"

lemma validate_item_ok: "validate_item w = Inr w' \<Longrightarrow> item_ok w'"
  by (auto simp: validate_item_def item_ok_def supported_operator_def Let_def split: if_splits)

lemma validate_item_id: "item_ok w \<Longrightarrow> validate_item w = Inr w"
  by (auto simp: validate_item_def item_ok_def supported_operator_def)

lemma validate_items_ok: "validate_items ws = Inr ws' \<Longrightarrow> list_all item_ok ws' \<and> length ws' = length ws"
  by (induction ws arbitrary: ws') (auto split: sum.splits dest: validate_item_ok)

lemma validate_items_id: "list_all item_ok ws \<Longrightarrow> validate_items ws = Inr ws"
  by (induction ws) (auto simp: validate_item_id)

section \<open>Evaluating predicates\<close>

text \<open>\<open>number\<close>, \<open>compare\<close>, \<open>match\<close> and \<open>matches\<close> of \<open>adapter/memory/memory.go\<close>.\<close>

definition number :: "val \<Rightarrow> int option" where
  "number v = (case v of VInt i \<Rightarrow> Some i | VFloat i \<Rightarrow> Some i | _ \<Rightarrow> None)"

definition compare :: "val \<Rightarrow> val \<Rightarrow> int" where
  "compare l r =
     (case (l, r) of
        (VTime a, VTime b) \<Rightarrow> (if a < b then -1 else if a = b then 0 else 1)
      | _ \<Rightarrow>
        (case (number l, number r) of
           (Some a, Some b) \<Rightarrow> (if a < b then -1 else if a = b then 0 else 1)
         | _ \<Rightarrow> strings_Compare (Sprint l) (Sprint r)))"

definition match :: "val \<Rightarrow> Where \<Rightarrow> bool" where
  "match actual0 c =
     (let actual = (if Mode c = StringInsensitive then VStr (ToLower (Sprint actual0)) else actual0);
          expected = (if Mode c = StringInsensitive then VStr (ToLower (Sprint (Value c))) else Value c)
      in case Operator c of
           WhereEQ \<Rightarrow> actual = expected
         | WhereNE \<Rightarrow> actual \<noteq> expected
         | WhereLT \<Rightarrow> compare actual expected < 0
         | WhereLTE \<Rightarrow> compare actual expected \<le> 0
         | WhereGT \<Rightarrow> compare actual expected > 0
         | WhereGTE \<Rightarrow> compare actual expected \<ge> 0
         | WhereContains \<Rightarrow> strings_Contains (Sprint actual) (Sprint expected)
         | WhereStartsWith \<Rightarrow> HasPrefix (Sprint actual) (Sprint expected)
         | WhereEndsWith \<Rightarrow> HasSuffix (Sprint actual) (Sprint expected)
         | WhereIn \<Rightarrow> (case expected of VStrs xs \<Rightarrow> actual \<in> VStr ` set xs
                                     | VArr xs \<Rightarrow> actual \<in> set xs | _ \<Rightarrow> False)
         | WhereNotIn \<Rightarrow> \<not> (case expected of VStrs xs \<Rightarrow> actual \<in> VStr ` set xs
                                     | VArr xs \<Rightarrow> actual \<in> set xs | _ \<Rightarrow> False)
         | _ \<Rightarrow> False)"

fun matches_loop :: "Record \<Rightarrow> Where list \<Rightarrow> bool \<Rightarrow> bool \<Rightarrow> bool \<Rightarrow> bool" where
  "matches_loop r [] andM orP orM \<longleftrightarrow> andM \<and> (\<not> orP \<or> orM)"
| "matches_loop r (c # cs) andM orP orM =
     (let result = match (fld r (Field c)) c in
      if Connector c = WhereOR then matches_loop r cs andM True (orM \<or> result)
      else matches_loop r cs (andM \<and> result) orP orM)"

definition matches :: "Record \<Rightarrow> Where list \<Rightarrow> bool" where
  "matches r ws = (if ws = [] then True else matches_loop r ws True False False)"

lemma matches_loop_iff:
  "matches_loop r ws a p q \<longleftrightarrow>
     a \<and> (\<forall>c\<in>set ws. Connector c \<noteq> WhereOR \<longrightarrow> match (fld r (Field c)) c) \<and>
     (p \<or> (\<exists>c\<in>set ws. Connector c = WhereOR) \<longrightarrow>
        q \<or> (\<exists>c\<in>set ws. Connector c = WhereOR \<and> match (fld r (Field c)) c))"
  by (induction ws arbitrary: a p q) (auto simp: Let_def)

lemma matches_iff:
  "matches r ws \<longleftrightarrow>
     (\<forall>c\<in>set ws. Connector c \<noteq> WhereOR \<longrightarrow> match (fld r (Field c)) c) \<and>
     ((\<exists>c\<in>set ws. Connector c = WhereOR) \<longrightarrow>
        (\<exists>c\<in>set ws. Connector c = WhereOR \<and> match (fld r (Field c)) c))"
  by (auto simp: matches_def matches_loop_iff)

lemma matches_Nil [where_simps]: "matches r []"
  by (simp add: matches_def)

lemma matches_Eq_Cons [where_simps]:
  "matches r (Eq f v # ws) \<longleftrightarrow> fld r f = v \<and> matches r ws"
  by (auto simp: matches_iff Eq_def match_def)

lemma matches_full_Cons [where_simps]:
  "matches r (full_cond f oper v # ws) \<longleftrightarrow> match (fld r f) (full_cond f oper v) \<and> matches r ws"
  by (auto simp: matches_iff full_cond_def)

lemma match_full [where_simps]:
  "match a (full_cond f WhereNE v) \<longleftrightarrow> a \<noteq> v"
  "match a (full_cond f WhereEQ v) \<longleftrightarrow> a = v"
  "match a (full_cond f WhereGT v) \<longleftrightarrow> compare a v > 0"
  "match a (full_cond f WhereStartsWith v) \<longleftrightarrow> HasPrefix (Sprint a) (Sprint v)"
  by (simp_all add: match_def full_cond_def)

lemma compare_time [where_simps]: "compare (VTime a) (VTime b) > 0 \<longleftrightarrow> a > b"
  by (simp add: compare_def)

end
