(* ===== verification/Schema.thy ===== *)
theory Schema
  imports Go_Values
begin

text \<open>
  The logical schema of \<open>schema.go\<close> and its validation in \<open>schema_adapter.go\<close>. A Go
  map from names to definitions is an association list in the order a \<open>range\<close> visits it.
\<close>

section \<open>Models and fields\<close>

definition ModelUser :: string where "ModelUser = ''user''"
definition ModelSession :: string where "ModelSession = ''session''"
definition ModelAccount :: string where "ModelAccount = ''account''"
definition ModelVerification :: string where "ModelVerification = ''verification''"
definition ModelAuditEvent :: string where "ModelAuditEvent = ''auditEvent''"
definition ModelOutboxEvent :: string where "ModelOutboxEvent = ''outboxEvent''"

lemmas model_defs =
  ModelUser_def ModelSession_def ModelAccount_def ModelVerification_def ModelAuditEvent_def
  ModelOutboxEvent_def

lemma models_distinct [simp]:
  "distinct [ModelUser, ModelSession, ModelAccount, ModelVerification, ModelAuditEvent, ModelOutboxEvent]"
  by (simp add: model_defs)

datatype FieldType =
    FieldTypeUnset | FieldString | FieldNumber | FieldBoolean | FieldDate | FieldJSON
  | FieldStringArray | FieldTypeOther string

record FieldSchema =
  fs_Type :: FieldType
  fs_Required :: bool
  fs_DefaultValue :: val
  fs_Unique :: bool
  fs_Index :: bool
  fs_References :: string
  fs_Input :: bool
  fs_Returned :: bool
  fs_FieldName :: string

record IndexSchema =
  ix_Name :: string
  ix_Fields :: "string list"
  ix_Unique :: bool

record ModelSchema =
  ms_ModelName :: string
  ms_Fields :: "(string \<times> FieldSchema) list"
  ms_Indexes :: "IndexSchema list"

type_synonym Schema = "(string \<times> ModelSchema) list"

text \<open>The zero value of \<open>FieldSchema\<close>, with its type set.\<close>

definition fieldOf :: "FieldType \<Rightarrow> FieldSchema" where
  "fieldOf t = \<lparr>fs_Type = t, fs_Required = False, fs_DefaultValue = VNil, fs_Unique = False,
     fs_Index = False, fs_References = '''', fs_Input = False, fs_Returned = False,
     fs_FieldName = ''''\<rparr>"

text \<open>Reading \<open>model.Fields[name]\<close>: the zero value where the name is missing.\<close>

definition fieldAt :: "ModelSchema \<Rightarrow> string \<Rightarrow> FieldSchema" where
  "fieldAt m f = (case map_of (ms_Fields m) f of None \<Rightarrow> fieldOf FieldTypeUnset | Some d \<Rightarrow> d)"

section \<open>The core schema\<close>

definition req :: "FieldType \<Rightarrow> FieldSchema" where
  "req t = (fieldOf t)\<lparr>fs_Required := True\<rparr>"

definition CoreSchema :: Schema where
  "CoreSchema = [
    (ModelUser, \<lparr>ms_ModelName = '''', ms_Fields = [
       (''id'', (req FieldString)\<lparr>fs_Unique := True, fs_Returned := True\<rparr>),
       (''email'', (req FieldString)\<lparr>fs_Unique := True, fs_Input := True, fs_Returned := True\<rparr>),
       (''emailVerified'', (req FieldBoolean)\<lparr>fs_Returned := True\<rparr>),
       (''name'', (fieldOf FieldString)\<lparr>fs_Input := True, fs_Returned := True\<rparr>),
       (''image'', (fieldOf FieldString)\<lparr>fs_Input := True, fs_Returned := True\<rparr>),
       (''createdAt'', (req FieldDate)\<lparr>fs_Returned := True\<rparr>),
       (''updatedAt'', (req FieldDate)\<lparr>fs_Returned := True\<rparr>),
       (''disabledAt'', fieldOf FieldDate)], ms_Indexes = []\<rparr>),
    (ModelSession, \<lparr>ms_ModelName = '''', ms_Fields = [
       (''id'', (req FieldString)\<lparr>fs_Unique := True\<rparr>),
       (''userId'', (req FieldString)\<lparr>fs_Index := True, fs_References := ModelUser\<rparr>),
       (''tokenHash'', (req FieldString)\<lparr>fs_Unique := True\<rparr>),
       (''expiresAt'', req FieldDate), (''createdAt'', req FieldDate),
       (''updatedAt'', req FieldDate), (''lastSeenAt'', req FieldDate),
       (''revokedAt'', fieldOf FieldDate), (''impersonatedBy'', fieldOf FieldString),
       (''impersonationId'', fieldOf FieldString)], ms_Indexes = []\<rparr>),
    (ModelAccount, \<lparr>ms_ModelName = '''', ms_Fields = [
       (''id'', (req FieldString)\<lparr>fs_Unique := True\<rparr>),
       (''userId'', (req FieldString)\<lparr>fs_Index := True, fs_References := ModelUser\<rparr>),
       (''providerId'', req FieldString), (''accountId'', req FieldString),
       (''password'', fieldOf FieldString), (''accessToken'', fieldOf FieldString),
       (''refreshToken'', fieldOf FieldString), (''idToken'', fieldOf FieldString),
       (''accessTokenExpiresAt'', fieldOf FieldDate), (''refreshTokenExpiresAt'', fieldOf FieldDate),
       (''scope'', fieldOf FieldString), (''createdAt'', req FieldDate),
       (''updatedAt'', req FieldDate)],
      ms_Indexes = [\<lparr>ix_Name = ''uniq_provider_account'', ix_Fields = [''providerId'', ''accountId''],
                     ix_Unique = True\<rparr>]\<rparr>),
    (ModelVerification, \<lparr>ms_ModelName = '''', ms_Fields = [
       (''id'', (req FieldString)\<lparr>fs_Unique := True\<rparr>), (''identifier'', req FieldString),
       (''value'', (req FieldString)\<lparr>fs_Unique := True\<rparr>), (''expiresAt'', req FieldDate),
       (''createdAt'', req FieldDate), (''metadata'', fieldOf FieldJSON)], ms_Indexes = []\<rparr>),
    (ModelAuditEvent, \<lparr>ms_ModelName = '''', ms_Fields = [
       (''id'', (req FieldString)\<lparr>fs_Unique := True\<rparr>), (''schemaVersion'', req FieldNumber),
       (''action'', req FieldString), (''actorUserId'', req FieldString),
       (''subjectUserId'', req FieldString), (''sessionId'', fieldOf FieldString),
       (''occurredAt'', req FieldDate), (''request'', fieldOf FieldJSON),
       (''details'', fieldOf FieldJSON)], ms_Indexes = []\<rparr>),
    (ModelOutboxEvent, \<lparr>ms_ModelName = '''', ms_Fields = [
       (''id'', (req FieldString)\<lparr>fs_Unique := True\<rparr>), (''schemaVersion'', req FieldNumber),
       (''name'', req FieldString), (''aggregateId'', req FieldString),
       (''occurredAt'', req FieldDate), (''payload'', fieldOf FieldJSON),
       (''publishedAt'', fieldOf FieldDate)], ms_Indexes = []\<rparr>)]"

section \<open>Merging extensions\<close>

text \<open>\<open>containsIndex\<close>, and the three loops of \<open>MergeSchema\<close>, innermost first.\<close>

definition containsIndex :: "IndexSchema list \<Rightarrow> IndexSchema \<Rightarrow> bool" where
  "containsIndex indexes candidate \<longleftrightarrow>
     list_ex (\<lambda>e. ix_Name e = ix_Name candidate \<and> ix_Unique e = ix_Unique candidate \<and>
                  ix_Fields e = ix_Fields candidate) indexes"

definition merge_field ::
  "(string \<times> FieldSchema) list \<Rightarrow> string \<times> FieldSchema \<Rightarrow> go_error + (string \<times> FieldSchema) list" where
  "merge_field current fd =
     (case fd of (field, definition) \<Rightarrow>
       (case map_of current field of
          Some existing \<Rightarrow>
            if fs_Type definition \<noteq> FieldTypeUnset \<and> fs_Type definition \<noteq> fs_Type existing
            then Inl (ErrText ''betterauth: cannot change core field type'')
            else Inr (put field
                   (if fs_FieldName definition \<noteq> '''' then existing\<lparr>fs_FieldName := fs_FieldName definition\<rparr>
                    else existing) current)
        | None \<Rightarrow> Inr (put field definition current)))"

definition merge_index :: "IndexSchema list \<Rightarrow> IndexSchema \<Rightarrow> IndexSchema list" where
  "merge_index current index = (if containsIndex current index then current else current @ [index])"

definition merge_model :: "Schema \<Rightarrow> string \<times> ModelSchema \<Rightarrow> go_error + Schema" where
  "merge_model result nm =
     (case nm of (name, model) \<Rightarrow>
       (case map_of result name of
          None \<Rightarrow> Inr (put name model result)
        | Some current \<Rightarrow>
            if ms_ModelName model \<noteq> '''' \<and> ms_ModelName current \<noteq> ''''
               \<and> ms_ModelName current \<noteq> ms_ModelName model
            then Inl (ErrText ''betterauth: conflicting model name'')
            else
              (let current = (if ms_ModelName model \<noteq> '''' then current\<lparr>ms_ModelName := ms_ModelName model\<rparr>
                              else current) in
               case foldE merge_field (ms_Fields current) (ms_Fields model) of
                 Inl e \<Rightarrow> Inl e
               | Inr merged \<Rightarrow>
                   Inr (put name (current\<lparr>ms_Fields := merged,
                          ms_Indexes := foldl merge_index (ms_Indexes current) (ms_Indexes model)\<rparr>)
                        result))))"

definition MergeSchema :: "Schema \<Rightarrow> Schema list \<Rightarrow> go_error + Schema" where
  "MergeSchema base extensions = foldE (foldE merge_model) base extensions"

section \<open>Validation\<close>

text \<open>\<open>validateSchema\<close>: the stored names, and the loops over models, fields and indexes.\<close>

definition storedField :: "ModelSchema \<Rightarrow> string \<Rightarrow> string" where
  "storedField m logical =
     (let name = fs_FieldName (fieldAt m logical) in if name \<noteq> '''' then name else logical)"

definition storedModel :: "string \<Rightarrow> ModelSchema \<Rightarrow> string" where
  "storedModel logical m = (if ms_ModelName m = '''' then logical else ms_ModelName m)"

definition check_field ::
  "(string \<times> string) list \<Rightarrow> string \<times> FieldSchema \<Rightarrow> go_error + (string \<times> string) list" where
  "check_field seen fd =
     (case fd of (logicalField, definition) \<Rightarrow>
       let stored = (if fs_FieldName definition = '''' then logicalField else fs_FieldName definition) in
       case map_of seen stored of
         Some previous \<Rightarrow>
           if previous \<noteq> logicalField then Inl (ErrText ''betterauth: fields collide'')
           else Inr (put stored logicalField seen)
       | None \<Rightarrow> Inr (put stored logicalField seen))"

definition check_index ::
  "ModelSchema \<Rightarrow> string list \<Rightarrow> IndexSchema \<Rightarrow> go_error + string list" where
  "check_index model names index =
     (if ix_Name index = '''' \<or> length (ix_Fields index) < 2
      then Inl (ErrText ''betterauth: invalid compound index'')
      else if ix_Name index \<in> set names then Inl (ErrText ''betterauth: duplicate index'')
      else if \<not> list_all (\<lambda>f. map_of (ms_Fields model) f \<noteq> None) (ix_Fields index)
      then Inl (ErrText ''betterauth: index references unknown field'')
      else Inr (ix_Name index # names))"

definition check_model ::
  "(string \<times> string) list \<Rightarrow> string \<times> ModelSchema \<Rightarrow> go_error + (string \<times> string) list" where
  "check_model seen lm =
     (case lm of (logical, model) \<Rightarrow>
       let stored = storedModel logical model in
       if (case map_of seen stored of Some previous \<Rightarrow> previous \<noteq> logical | None \<Rightarrow> False)
       then Inl (ErrText ''betterauth: models map to the same name'')
       else
         (case foldE check_field [] (ms_Fields model) of
            Inl e \<Rightarrow> Inl e
          | Inr _ \<Rightarrow>
            (case foldE (check_index model) [] (ms_Indexes model) of
               Inl e \<Rightarrow> Inl e
             | Inr _ \<Rightarrow> Inr (put stored logical seen))))"

definition validateSchema :: "Schema \<Rightarrow> go_error + unit" where
  "validateSchema schema =
     (case foldE check_model [] schema of Inl e \<Rightarrow> Inl e | Inr _ \<Rightarrow> Inr ())"

section \<open>The rules the memory adapter enforces\<close>

text \<open>\<open>rules\<close> and \<open>rulesFromSchema\<close> of \<open>adapter/memory/memory.go\<close>.\<close>

record rules =
  r_ids :: "string \<rightharpoonup> string"
  r_unique :: "string \<Rightarrow> string list list"

definition model_keys :: "ModelSchema \<Rightarrow> string list list" where
  "model_keys model =
     (let idField = storedField model ''id'' in
      map (\<lambda>f. [storedField model f])
        (filter (\<lambda>f. fs_Unique (fieldAt model f) \<and> storedField model f \<noteq> idField)
          (sort (map fst (ms_Fields model))))
      @ map (\<lambda>index. map (storedField model) (ix_Fields index))
          (filter (\<lambda>index. ix_Unique index \<and> ix_Fields index \<noteq> []) (ms_Indexes model)))"

definition rules_step :: "rules \<Rightarrow> string \<times> ModelSchema \<Rightarrow> rules" where
  "rules_step r lm =
     (case lm of (logicalModel, model) \<Rightarrow>
       let stored = storedModel logicalModel model in
       r\<lparr>r_ids := (r_ids r)(stored \<mapsto> storedField model ''id''),
         r_unique := (r_unique r)(stored := r_unique r stored @ model_keys model)\<rparr>)"

definition rulesFromSchema :: "Schema \<Rightarrow> rules" where
  "rulesFromSchema schema = foldl rules_step \<lparr>r_ids = Map.empty, r_unique = (\<lambda>_. [])\<rparr> schema"

text \<open>What the core schema comes to.\<close>

lemma core_schema_valid: "validateSchema CoreSchema = Inr ()"
  by code_simp

lemma core_ids:
  "map (r_ids (rulesFromSchema CoreSchema))
     [ModelUser, ModelSession, ModelAccount, ModelVerification, ModelAuditEvent, ModelOutboxEvent]
   = replicate 6 (Some ''id'')"
  by code_simp

lemma core_unique_list:
  "map (r_unique (rulesFromSchema CoreSchema))
     [ModelUser, ModelSession, ModelAccount, ModelVerification, ModelAuditEvent, ModelOutboxEvent]
   = [[[''email'']], [[''tokenHash'']], [[''providerId'', ''accountId'']], [[''value'']], [], []]"
  by code_simp

lemma core_unique [simp]:
  "r_unique (rulesFromSchema CoreSchema) ModelUser = [[''email'']]"
  "r_unique (rulesFromSchema CoreSchema) ModelSession = [[''tokenHash'']]"
  "r_unique (rulesFromSchema CoreSchema) ModelAccount = [[''providerId'', ''accountId'']]"
  "r_unique (rulesFromSchema CoreSchema) ModelVerification = [[''value'']]"
  "r_unique (rulesFromSchema CoreSchema) ModelAuditEvent = []"
  "r_unique (rulesFromSchema CoreSchema) ModelOutboxEvent = []"
  using core_unique_list by simp_all

lemma foldl_rules_ids:
  "r_ids (foldl rules_step r ms) m \<in>
     insert (r_ids r m) ((\<lambda>(l, d). Some (storedField d ''id'')) ` set ms)"
proof (induction ms arbitrary: r)
  case (Cons lm ms)
  show ?case
    using Cons.IH [of "rules_step r lm"]
    by (cases lm) (auto simp: rules_step_def Let_def split: if_splits)
qed simp

lemma core_id_cases: "r_ids (rulesFromSchema CoreSchema) m \<in> {None, Some ''id''}"
proof -
  have "list_all (\<lambda>(l, d). storedField d ''id'' = ''id'') CoreSchema" by code_simp
  then have "(\<lambda>(l, d). Some (storedField d ''id'')) ` set CoreSchema \<subseteq> {Some ''id''}"
    by (auto simp: list_all_iff)
  with foldl_rules_ids [of "\<lparr>r_ids = Map.empty, r_unique = (\<lambda>_. [])\<rparr>" CoreSchema m]
  show ?thesis by (auto simp: rulesFromSchema_def)
qed

end
