(* ===== verification/Adapter.thy ===== *)
theory Adapter
  imports Schema
begin

text \<open>
  The interface \<open>DatabaseAdapter\<close> of \<open>database.go\<close>: a record of the adapter's
  methods over a state \<open>'s\<close>, and the contract the methods promise, as a locale. The contract
  reads the state only through the table of each model, a map from record id to record, so it
  fixes neither the order in which an adapter visits rows nor which of several matching rows a
  single-row method takes.
\<close>

section \<open>The interface\<close>

text \<open>
  \<open>Transaction\<close> runs its callback between \<open>db_begin\<close> and, by the callback's result,
  \<open>db_rollback\<close> or \<open>db_commit\<close>; both see the state before the transaction and the
  state the callback left. Variables a callback assigns in its enclosing function are its result.
\<close>

record 's database_adapter =
  db_create :: "CreateQuery \<Rightarrow> ('s, Record) prog"
  db_findOne :: "FindOneQuery \<Rightarrow> ('s, Record option) prog"
  db_findMany :: "FindManyQuery \<Rightarrow> ('s, Record list) prog"
  db_count :: "CountQuery \<Rightarrow> ('s, int) prog"
  db_update :: "UpdateQuery \<Rightarrow> ('s, Record option) prog"
  db_updateMany :: "UpdateQuery \<Rightarrow> ('s, int) prog"
  db_delete :: "DeleteQuery \<Rightarrow> ('s, unit) prog"
  db_deleteMany :: "DeleteQuery \<Rightarrow> ('s, int) prog"
  db_consumeOne :: "DeleteQuery \<Rightarrow> ('s, Record option) prog"
  db_incrementOne :: "IncrementQuery \<Rightarrow> ('s, Record option) prog"
  db_begin :: "'s \<Rightarrow> 's"
  db_rollback :: "'s \<Rightarrow> 's \<Rightarrow> 's"
  db_commit :: "'s \<Rightarrow> 's \<Rightarrow> (go_error + unit) \<times> 's"

definition Transaction :: "'s database_adapter \<Rightarrow> ('s, 'a) prog \<Rightarrow> ('s, 'a) prog" where
  "Transaction db callback = (\<lambda>s.
     case callback (db_begin db s) of
       (Inl e, t) \<Rightarrow> (Inl e, db_rollback db s t)
     | (Inr a, t) \<Rightarrow>
         (case db_commit db s t of (Inl e, u) \<Rightarrow> (Inl e, u) | (Inr _, u) \<Rightarrow> (Inr a, u)))"

section \<open>Rows and keys\<close>

text \<open>\<open>project\<close>: the selected fields of a record, all of them when none is named.\<close>

definition project :: "Record \<Rightarrow> string list \<Rightarrow> Record" where
  "project r fs = (if fs = [] then r else (\<lambda>f. if f \<in> set fs then r f else None))"

lemma project_Nil [simp]: "project r [] = r"
  by (simp add: project_def)

text \<open>The field writes of an update: every field of the update but the id field.\<close>

definition set_fields :: "string \<Rightarrow> Record \<Rightarrow> Record \<Rightarrow> Record" where
  "set_fields idField update r =
     (\<lambda>f. if f = idField then r f else case update f of None \<Rightarrow> r f | Some v \<Rightarrow> Some v)"

lemma set_fields_id [simp]: "set_fields idf u r idf = r idf"
  by (simp add: set_fields_def)

lemma fld_set_fields:
  "fld (set_fields idf u r) f =
     (if f = idf then fld r f else case u f of None \<Rightarrow> fld r f | Some v \<Rightarrow> v)"
  by (simp add: set_fields_def fld_def split: option.split)

lemma fld_set_fields_same [simp]: "u f = None \<Longrightarrow> fld (set_fields idf u r) f = fld r f"
  by (simp add: fld_set_fields)

text \<open>\<open>sameUniqueKey\<close>: like SQL, a key with a nil or missing value never collides.\<close>

fun sameUniqueKey :: "Record \<Rightarrow> Record \<Rightarrow> string list \<Rightarrow> bool" where
  "sameUniqueKey l r [] \<longleftrightarrow> True"
| "sameUniqueKey l r (f # fs) \<longleftrightarrow>
     (if fld l f = VNil \<or> fld r f = VNil \<or> fld l f \<noteq> fld r f then False else sameUniqueKey l r fs)"

lemma sameUniqueKey_cong:
  "(\<And>f. f \<in> set fs \<Longrightarrow> fld l f = fld l' f) \<Longrightarrow> (\<And>f. f \<in> set fs \<Longrightarrow> fld r f = fld r' f) \<Longrightarrow>
   sameUniqueKey l r fs = sameUniqueKey l' r' fs"
  by (induction fs) auto

lemma sameUniqueKey_sym: "sameUniqueKey l r fs = sameUniqueKey r l fs"
  by (induction fs) auto

lemma sameUniqueKey_iff:
  "sameUniqueKey l r fs \<longleftrightarrow> (\<forall>f\<in>set fs. fld l f \<noteq> VNil \<and> fld r f \<noteq> VNil \<and> fld l f = fld r f)"
  by (induction fs) auto

text \<open>The rows of a table as the contract sees them.\<close>

type_synonym table_map = "string \<rightharpoonup> Record"

definition hits :: "table_map \<Rightarrow> Where list \<Rightarrow> string set" where
  "hits t ws = {i. \<exists>r. t i = Some r \<and> matches r ws}"

lemma hits_iff: "i \<in> hits t ws \<longleftrightarrow> (case t i of None \<Rightarrow> False | Some r \<Rightarrow> matches r ws)"
  by (simp add: hits_def split: option.split)

definition key_clash :: "string list list \<Rightarrow> table_map \<Rightarrow> Record \<Rightarrow> string \<Rightarrow> bool" where
  "key_clash keys t cand except \<longleftrightarrow>
     (\<exists>i r. t i = Some r \<and> i \<noteq> except \<and> (\<exists>k\<in>set keys. sameUniqueKey r cand k))"

definition keys_unique :: "string list list \<Rightarrow> table_map \<Rightarrow> bool" where
  "keys_unique keys t \<longleftrightarrow>
     (\<forall>i j r r'. t i = Some r \<longrightarrow> t j = Some r' \<longrightarrow> i \<noteq> j \<longrightarrow>
        (\<forall>k\<in>set keys. \<not> sameUniqueKey r r' k))"

lemma keys_uniqueD:
  "keys_unique keys t \<Longrightarrow> t i = Some r \<Longrightarrow> t j = Some r' \<Longrightarrow> k \<in> set keys \<Longrightarrow>
   sameUniqueKey r r' k \<Longrightarrow> i = j"
  unfolding keys_unique_def by blast

lemma keys_unique_empty [simp]: "keys_unique keys (\<lambda>_. None)"
  by (simp add: keys_unique_def)

lemma keys_unique_upd:
  assumes "keys_unique keys t" and "\<not> key_clash keys t r i"
  shows "keys_unique keys (t(i \<mapsto> r))"
  using assms unfolding keys_unique_def key_clash_def
  by (auto simp: sameUniqueKey_sym) blast+

lemma keys_unique_sub:
  assumes "keys_unique keys t" and "\<And>i r. t' i = Some r \<Longrightarrow> t i = Some r"
  shows "keys_unique keys t'"
  using assms unfolding keys_unique_def by blast

lemma no_clash_untouched:
  assumes "keys_unique keys t" and "t i = Some r"
    and "\<And>k f. k \<in> set keys \<Longrightarrow> f \<in> set k \<Longrightarrow> fld r' f = fld r f"
  shows "\<not> key_clash keys t r' i"
proof
  assume "key_clash keys t r' i"
  then obtain j q k where j: "t j = Some q" "j \<noteq> i" "k \<in> set keys" "sameUniqueKey q r' k"
    by (auto simp: key_clash_def)
  from j(4) assms(3) [OF j(3)] have "sameUniqueKey q r k"
    by (metis sameUniqueKey_cong)
  with assms(1,2) j show False by (auto dest: keys_uniqueD)
qed

section \<open>The contract\<close>

text \<open>
  \<open>T s m\<close> is the table of model \<open>m\<close>; \<open>inv\<close> the adapter's invariant; \<open>in_tx\<close>
  says that the state is inside a transaction; \<open>uniq\<close> and \<open>idf\<close> are the unique keys and
  the id field of a model. Every law of a method says what it returns and the whole table map
  it leaves, for any state of the invariant and any valid predicate.
\<close>

locale database_contract =
  fixes db :: "'s database_adapter"
    and T :: "'s \<Rightarrow> string \<Rightarrow> table_map"
    and inv :: "'s \<Rightarrow> bool"
    and in_tx :: "'s \<Rightarrow> bool"
    and uniq :: "string \<Rightarrow> string list list"
    and idf :: "string \<Rightarrow> string"
  assumes row_id: "inv s \<Longrightarrow> T s m i = Some r \<Longrightarrow> i \<noteq> '''' \<and> fld r (idf m) = VStr i"
    and row_keys: "inv s \<Longrightarrow> keys_unique (uniq m) (T s m)"
    and finite_table: "inv s \<Longrightarrow> finite (dom (T s m))"
    and findOne_law: "inv s \<Longrightarrow> fo_Joins fq = [] \<Longrightarrow> ValidateWhere (fo_Where fq) True = Inr w \<Longrightarrow>
      \<exists>res. db_findOne db fq s = (Inr res, s) \<and>
        (case res of None \<Rightarrow> hits (T s (fo_Model fq)) w = {}
         | Some p \<Rightarrow> \<exists>i r. T s (fo_Model fq) i = Some r \<and> matches r w \<and> p = project r (fo_Select fq))"
    and findMany_law: "inv s \<Longrightarrow> fm_Joins mq = [] \<Longrightarrow> fm_Offset mq = 0 \<Longrightarrow> fm_Select mq = [] \<Longrightarrow>
      0 \<le> fm_Limit mq \<Longrightarrow> fm_Limit mq \<le> 1000 \<Longrightarrow> ValidateWhere (fm_Where mq) True = Inr w \<Longrightarrow>
      \<exists>ids rs. db_findMany db mq s = (Inr rs, s) \<and> distinct ids \<and>
        set ids \<subseteq> hits (T s (fm_Model mq)) w \<and> map Some rs = map (T s (fm_Model mq)) ids \<and>
        (let limit = (if fm_Limit mq = 0 then 100 else fm_Limit mq) in
         int (length ids) \<le> limit \<and>
         (int (length ids) < limit \<longrightarrow> set ids = hits (T s (fm_Model mq)) w))"
    and count_law: "inv s \<Longrightarrow> ValidateWhere (ct_Where nq) True = Inr w \<Longrightarrow>
      \<exists>n. db_count db nq s = (Inr n, s) \<and> 0 \<le> n \<and> n \<le> int (card (hits (T s (ct_Model nq)) w)) \<and>
        (n < 1000 \<longrightarrow> n = int (card (hits (T s (ct_Model nq)) w)))"
    and create_law: "inv s \<Longrightarrow> fld (cq_Data kq) (idf (cq_Model kq)) = VStr i \<Longrightarrow> i \<noteq> '''' \<Longrightarrow>
      (if T s (cq_Model kq) i \<noteq> None \<or> key_clash (uniq (cq_Model kq)) (T s (cq_Model kq)) (cq_Data kq) ''''
       then db_create db kq s = (Inl ErrConflict, s)
       else \<exists>s'. db_create db kq s = (Inr (project (cq_Data kq) (cq_Select kq)), s') \<and> inv s' \<and>
              in_tx s' = in_tx s \<and>
              T s' = (T s)(cq_Model kq := (T s (cq_Model kq))(i \<mapsto> cq_Data kq)))"
    and create_no_id: "inv s \<Longrightarrow> \<nexists>i. fld (cq_Data kq) (idf (cq_Model kq)) = VStr i \<and> i \<noteq> '''' \<Longrightarrow>
      \<exists>e. db_create db kq s = (Inl e, s)"
    and update_law: "inv s \<Longrightarrow> ValidateWhere (uq_Where uq) False = Inr w \<Longrightarrow>
      (hits (T s (uq_Model uq)) w = {} \<and> db_update db uq s = (Inr None, s)) \<or>
      (\<exists>i r. T s (uq_Model uq) i = Some r \<and> matches r w \<and>
        (let r' = set_fields (idf (uq_Model uq)) (uq_Update uq) r in
         if key_clash (uniq (uq_Model uq)) (T s (uq_Model uq)) r' i
         then db_update db uq s = (Inl ErrConflict, s)
         else \<exists>s'. db_update db uq s = (Inr (Some r'), s') \<and> inv s' \<and> in_tx s' = in_tx s \<and>
                T s' = (T s)(uq_Model uq := (T s (uq_Model uq))(i \<mapsto> r'))))"
    and updateMany_law: "inv s \<Longrightarrow> ValidateWhere (uq_Where uq) False = Inr w \<Longrightarrow>
      (\<exists>s'. inv s' \<and> in_tx s' = in_tx s \<and> (\<forall>m. m \<noteq> uq_Model uq \<longrightarrow> T s' m = T s m) \<and>
        (db_updateMany db uq s = (Inl ErrConflict, s') \<and>
           (\<exists>k\<in>set (uniq (uq_Model uq)). \<exists>f\<in>set k. uq_Update uq f \<noteq> None) \<or>
         (\<exists>n. db_updateMany db uq s = (Inr n, s') \<and>
           T s' (uq_Model uq) = (\<lambda>i. case T s (uq_Model uq) i of None \<Rightarrow> None
             | Some r \<Rightarrow> Some (if matches r w then set_fields (idf (uq_Model uq)) (uq_Update uq) r else r)))))"
    and delete_law: "inv s \<Longrightarrow> ValidateWhere (dq_Where dq) False = Inr w \<Longrightarrow>
      \<exists>s'. db_delete db dq s = (Inr (), s') \<and> inv s' \<and> in_tx s' = in_tx s \<and>
        (hits (T s (dq_Model dq)) w = {} \<and> T s' = T s \<or>
         (\<exists>i\<in>hits (T s (dq_Model dq)) w. T s' = (T s)(dq_Model dq := (T s (dq_Model dq))(i := None))))"
    and deleteMany_law: "inv s \<Longrightarrow> ValidateWhere (dq_Where dq) False = Inr w \<Longrightarrow>
      \<exists>s' n. db_deleteMany db dq s = (Inr n, s') \<and> inv s' \<and> in_tx s' = in_tx s \<and>
        T s' = (T s)(dq_Model dq := (\<lambda>i. if i \<in> hits (T s (dq_Model dq)) w then None
                                       else T s (dq_Model dq) i))"
    and consumeOne_law: "inv s \<Longrightarrow> ValidateWhere (dq_Where dq) False = Inr w \<Longrightarrow>
      (hits (T s (dq_Model dq)) w = {} \<and> db_consumeOne db dq s = (Inr None, s)) \<or>
      (\<exists>i r s'. T s (dq_Model dq) i = Some r \<and> matches r w \<and>
        db_consumeOne db dq s = (Inr (Some r), s') \<and> inv s' \<and> in_tx s' = in_tx s \<and>
        T s' = (T s)(dq_Model dq := (T s (dq_Model dq))(i := None)))"
    and begin_law: "inv s \<Longrightarrow> inv (db_begin db s) \<and> T (db_begin db s) = T s \<and> in_tx (db_begin db s)"
    and rollback_law: "inv s \<Longrightarrow> \<not> in_tx s \<Longrightarrow> inv t \<Longrightarrow> in_tx t \<Longrightarrow> db_rollback db s t = s"
    and commit_law: "inv s \<Longrightarrow> \<not> in_tx s \<Longrightarrow> inv t \<Longrightarrow> in_tx t \<Longrightarrow>
      \<exists>u. db_commit db s t = (Inr (), u) \<and> inv u \<and> \<not> in_tx u \<and> T u = T t"
begin

text \<open>Both outcomes of a transaction, from any callback that keeps the invariant.\<close>

lemma transaction_error:
  assumes "inv s" and "\<not> in_tx s" and "keeps (\<lambda>t. inv t \<and> in_tx t) f"
    and "Transaction db f s = (Inl e, u)"
  shows "u = s \<and> (\<exists>t. f (db_begin db s) = (Inl e, t))"
proof -
  obtain r t where f: "f (db_begin db s) = (r, t)" by fastforce
  have t: "inv t \<and> in_tx t"
    using keepsE [OF assms(3) f] begin_law [OF assms(1)] by blast
  show ?thesis
    using assms(4) f t rollback_law [OF assms(1,2)] commit_law [OF assms(1,2)]
    by (cases r) (fastforce simp: Transaction_def)+
qed

lemma transaction_ok:
  assumes "inv s" and "\<not> in_tx s" and "f (db_begin db s) = (Inr a, t)" and "inv t" and "in_tx t"
  obtains u where "Transaction db f s = (Inr a, u)" and "inv u" and "\<not> in_tx u" and "T u = T t"
proof -
  obtain u where "db_commit db s t = (Inr (), u) \<and> inv u \<and> \<not> in_tx u \<and> T u = T t"
    using commit_law [OF assms(1,2,4,5)] by blast
  with assms(3) that show thesis by (simp add: Transaction_def)
qed

lemma transaction_fail:
  assumes "inv s" and "\<not> in_tx s" and "f (db_begin db s) = (Inl e, t)" and "inv t" and "in_tx t"
  shows "Transaction db f s = (Inl e, s)"
  using assms rollback_law [OF assms(1,2,4,5)] by (simp add: Transaction_def)

end

end
