(* ===== verification/Models.thy ===== *)
theory Models
  imports Adapter
begin

text \<open>
  The domain types of \<open>types.go\<close> and \<open>ports.go\<close>, and the conversions between them and
  database rows at the end of \<open>store.go\<close>.
\<close>

section \<open>Types\<close>

record User =
  u_ID :: string
  u_Email :: string
  u_Name :: string
  u_ImageURL :: string
  u_EmailVerified :: bool
  u_CreatedAt :: gtime
  u_UpdatedAt :: gtime
  u_DisabledAt :: "gtime option"

record Session =
  ss_ID :: string
  ss_UserID :: string
  ss_TokenHash :: string
  ss_ExpiresAt :: gtime
  ss_CreatedAt :: gtime
  ss_UpdatedAt :: gtime
  ss_LastSeenAt :: gtime
  ss_RevokedAt :: "gtime option"
  ss_ImpersonatorID :: string
  ss_ImpersonationID :: string

record PasswordCredential =
  pc_UserID :: string
  pc_PasswordHash :: string
  pc_UpdatedAt :: gtime

record OAuthAccount =
  oa_ID :: string
  oa_UserID :: string
  oa_Provider :: string
  oa_ProviderAccountID :: string
  oa_Scope :: string
  oa_CreatedAt :: gtime
  oa_UpdatedAt :: gtime

record OAuthProfile =
  op_Provider :: string
  op_Issuer :: string
  op_ProviderAccountID :: string
  op_PreviousProviderAccountID :: string
  op_Email :: string
  op_EmailVerified :: bool
  op_Name :: string
  op_ImageURL :: string

record ProviderTokens =
  pt_AccessToken :: string
  pt_RefreshToken :: string
  pt_IDToken :: string
  pt_Scope :: string
  pt_AccessTokenExpiresAt :: gtime
  pt_RefreshTokenExpiresAt :: gtime

record RequestMetadata =
  rm_RequestID :: string
  rm_IP :: string
  rm_UserAgent :: string

record AuditEvent =
  ae_ID :: string
  ae_SchemaVersion :: int
  ae_Action :: string
  ae_ActorUserID :: string
  ae_SubjectUserID :: string
  ae_SessionID :: string
  ae_OccurredAt :: gtime
  ae_Request :: RequestMetadata
  ae_Details :: strmap

record DomainEvent =
  de_ID :: string
  de_SchemaVersion :: int
  de_Name :: string
  de_AggregateID :: string
  de_OccurredAt :: gtime
  de_Payload :: strmap

datatype OneTimePurpose =
    PurposePasswordReset | PurposeEmailVerify | PurposeEmailChange
  | PurposeEmailChangeConfirmation | PurposeUserDeletion | PurposeOAuthState

fun purpose_string :: "OneTimePurpose \<Rightarrow> string" where
  "purpose_string PurposePasswordReset = ''password_reset''"
| "purpose_string PurposeEmailVerify = ''email_verify''"
| "purpose_string PurposeEmailChange = ''email_change''"
| "purpose_string PurposeEmailChangeConfirmation = ''email_change_confirmation''"
| "purpose_string PurposeUserDeletion = ''user_deletion''"
| "purpose_string PurposeOAuthState = ''oauth_state''"

lemma purpose_string_inject [simp]: "purpose_string p = purpose_string q \<longleftrightarrow> p = q"
  by (cases p; cases q) simp_all

definition EventUserCreated :: string where "EventUserCreated = ''user.created''"
definition AuditImpersonationStart :: string where
  "AuditImpersonationStart = ''admin.impersonation.started''"
definition AuditImpersonationStop :: string where
  "AuditImpersonationStop = ''admin.impersonation.stopped''"

record OneTimeToken =
  ot_ID :: string
  ot_UserID :: string
  ot_Hash :: string
  ot_Purpose :: OneTimePurpose
  ot_ExpiresAt :: gtime
  ot_CreatedAt :: gtime
  ot_Metadata :: strmap

record OAuthState =
  os_ID :: string
  os_Hash :: string
  os_PKCEVerifier :: string
  os_Nonce :: string
  os_RedirectURI :: string
  os_ReturnTo :: string
  os_ErrorReturnTo :: string
  os_NewUserReturnTo :: string
  os_LinkUserID :: string
  os_RequestSignUp :: bool
  os_ExpiresAt :: gtime
  os_CreatedAt :: gtime

record Mail =
  ml_Kind :: string
  ml_To :: string
  ml_Token :: string
  ml_ActionURL :: string
  ml_ExpiresAt :: gtime

record CreateEmailUserParams =
  ce_User :: User
  ce_PasswordHash :: string
  ce_Session :: Session
  ce_CreateSession :: bool
  ce_Event :: DomainEvent

record ChangePasswordParams =
  cp_UserID :: string
  cp_PreviousHash :: string
  cp_ReplacementHash :: string
  cp_CurrentTokenHash :: string
  cp_ReplacementSession :: Session
  cp_RevokeOtherSessions :: bool

record StoredOAuthAccount =
  so_Account :: OAuthAccount
  so_Tokens :: ProviderTokens

record OAuthUpsertPolicy =
  pol_AllowImplicitLink :: bool
  pol_RequireLocalVerification :: bool
  pol_UpdateUserInfoOnLink :: bool
  pol_UpdateAccountOnSignIn :: bool
  pol_AllowSignUp :: bool

section \<open>Fields of rows\<close>

definition recordString :: "Record \<Rightarrow> string \<Rightarrow> go_error + string" where
  "recordString row field =
     (case fld row field of
        VStr v \<Rightarrow> if v = '''' then Inl (ErrText (''betterauth: adapter returned invalid '' @ field)) else Inr v
      | _ \<Rightarrow> Inl (ErrText (''betterauth: adapter returned invalid '' @ field)))"

definition recordTime :: "Record \<Rightarrow> string \<Rightarrow> go_error + gtime" where
  "recordTime row field =
     (case fld row field of
        VTime t \<Rightarrow> if t = 0 then Inl (ErrText (''betterauth: adapter returned invalid '' @ field)) else Inr t
      | _ \<Rightarrow> Inl (ErrText (''betterauth: adapter returned invalid '' @ field)))"

definition optionalString :: "val \<Rightarrow> string" where
  "optionalString v = (case v of VStr s \<Rightarrow> s | _ \<Rightarrow> '''')"

definition optionalBool :: "val \<Rightarrow> bool" where
  "optionalBool v = (case v of VBool b \<Rightarrow> b | _ \<Rightarrow> False)"

definition optionalTimePtr :: "val \<Rightarrow> gtime option" where
  "optionalTimePtr v = (case v of VTime t \<Rightarrow> Some t | VTimePtr p \<Rightarrow> p | _ \<Rightarrow> None)"

definition optionalTime :: "val \<Rightarrow> gtime" where
  "optionalTime v = (case optionalTimePtr v of Some t \<Rightarrow> t | None \<Rightarrow> 0)"

definition nullableTime :: "gtime option \<Rightarrow> val" where
  "nullableTime v = (case v of None \<Rightarrow> VNil | Some t \<Rightarrow> VTime t)"

definition nullableTimeValue :: "gtime \<Rightarrow> val" where
  "nullableTimeValue t = (if t = 0 then VNil else VTime t)"

definition recordStringMap :: "val \<Rightarrow> strmap" where
  "recordStringMap v =
     (case v of
        VMap m \<Rightarrow> concat (map (\<lambda>(k, item). case item of VStr s \<Rightarrow> [(k, s)] | _ \<Rightarrow> []) m)
      | VStrMap m \<Rightarrow> m
      | _ \<Rightarrow> [])"

definition mergeStringMaps :: "strmap list \<Rightarrow> strmap" where
  "mergeStringMaps values = foldl (foldl (\<lambda>m (k, v). smap_put k v m)) [] values"

lemma optional_simps [simp]:
  "optionalString (VStr s) = s" "optionalString VNil = ''''"
  "optionalBool (VBool b) = b" "optionalTimePtr (nullableTime p) = p"
  "optionalTime (nullableTimeValue t) = t" "optionalTimePtr VNil = None"
  "optionalTimePtr (VTime u) = Some u"
  by (simp_all add: optionalString_def optionalBool_def optionalTimePtr_def nullableTime_def
      optionalTime_def nullableTimeValue_def split: option.split)

lemma recordString_ok [simp]: "fld r f = VStr s \<Longrightarrow> s \<noteq> '''' \<Longrightarrow> recordString r f = Inr s"
  by (simp add: recordString_def)

lemma recordTime_ok [simp]: "fld r f = VTime t \<Longrightarrow> t \<noteq> 0 \<Longrightarrow> recordTime r f = Inr t"
  by (simp add: recordTime_def)

lemma recordString_Inr: "recordString r f = Inr s \<longleftrightarrow> fld r f = VStr s \<and> s \<noteq> ''''"
  by (auto simp: recordString_def split: val.splits)

lemma recordTime_Inr: "recordTime r f = Inr t \<longleftrightarrow> fld r f = VTime t \<and> t \<noteq> 0"
  by (auto simp: recordTime_def split: val.splits)

lemma recordString_Inl: "recordString r f = Inl e \<Longrightarrow> \<exists>m. e = ErrText m"
  by (auto simp: recordString_def split: val.splits if_splits)

section \<open>Rows of the models\<close>

definition userRecord :: "User \<Rightarrow> Record" where
  "userRecord user = [''id'' \<mapsto> VStr (u_ID user), ''email'' \<mapsto> VStr (u_Email user),
     ''name'' \<mapsto> VStr (u_Name user), ''image'' \<mapsto> VStr (u_ImageURL user),
     ''emailVerified'' \<mapsto> VBool (u_EmailVerified user), ''createdAt'' \<mapsto> VTime (u_CreatedAt user),
     ''updatedAt'' \<mapsto> VTime (u_UpdatedAt user), ''disabledAt'' \<mapsto> nullableTime (u_DisabledAt user)]"

text \<open>Sequencing in the sum type, for the checks of a conversion.\<close>

definition bindE :: "go_error + 'a \<Rightarrow> ('a \<Rightarrow> go_error + 'b) \<Rightarrow> go_error + 'b" where
  "bindE r f = (case r of Inl e \<Rightarrow> Inl e | Inr a \<Rightarrow> f a)"

lemma bindE_simps [simp]: "bindE (Inr a) f = f a" "bindE (Inl e) f = Inl e"
  by (simp_all add: bindE_def)

lemma bindE_Inr: "bindE r f = Inr b \<longleftrightarrow> (\<exists>a. r = Inr a \<and> f a = Inr b)"
  by (cases r) auto

definition userFromRecord :: "Record option \<Rightarrow> go_error + User" where
  "userFromRecord row0 =
     (case row0 of
        None \<Rightarrow> Inl ErrNotFound
      | Some row \<Rightarrow>
          bindE (recordString row ''id'') (\<lambda>uid.
          bindE (recordString row ''email'') (\<lambda>email.
          bindE (recordTime row ''createdAt'') (\<lambda>created.
          bindE (recordTime row ''updatedAt'') (\<lambda>updated.
            Inr \<lparr>u_ID = uid, u_Email = email, u_Name = optionalString (fld row ''name''),
              u_ImageURL = optionalString (fld row ''image''),
              u_EmailVerified = optionalBool (fld row ''emailVerified''),
              u_CreatedAt = created, u_UpdatedAt = updated,
              u_DisabledAt = optionalTimePtr (fld row ''disabledAt'')\<rparr>)))))"

definition sessionRecord :: "Session \<Rightarrow> Record" where
  "sessionRecord session = [''id'' \<mapsto> VStr (ss_ID session), ''userId'' \<mapsto> VStr (ss_UserID session),
     ''tokenHash'' \<mapsto> VStr (ss_TokenHash session), ''expiresAt'' \<mapsto> VTime (ss_ExpiresAt session),
     ''createdAt'' \<mapsto> VTime (ss_CreatedAt session), ''updatedAt'' \<mapsto> VTime (ss_UpdatedAt session),
     ''lastSeenAt'' \<mapsto> VTime (ss_LastSeenAt session),
     ''revokedAt'' \<mapsto> nullableTime (ss_RevokedAt session),
     ''impersonatedBy'' \<mapsto> VStr (ss_ImpersonatorID session),
     ''impersonationId'' \<mapsto> VStr (ss_ImpersonationID session)]"

definition sessionFromRecord :: "Record option \<Rightarrow> go_error + Session" where
  "sessionFromRecord row0 =
     (case row0 of
        None \<Rightarrow> Inl ErrNotFound
      | Some row \<Rightarrow>
          bindE (recordString row ''id'') (\<lambda>sid.
          bindE (recordString row ''userId'') (\<lambda>userID.
          bindE (recordString row ''tokenHash'') (\<lambda>hash.
          bindE (recordTime row ''expiresAt'') (\<lambda>expires.
          bindE (recordTime row ''createdAt'') (\<lambda>created.
          bindE (recordTime row ''updatedAt'') (\<lambda>updated.
          bindE (recordTime row ''lastSeenAt'') (\<lambda>lastSeen.
            Inr \<lparr>ss_ID = sid, ss_UserID = userID, ss_TokenHash = hash, ss_ExpiresAt = expires,
              ss_CreatedAt = created, ss_UpdatedAt = updated, ss_LastSeenAt = lastSeen,
              ss_RevokedAt = optionalTimePtr (fld row ''revokedAt''),
              ss_ImpersonatorID = optionalString (fld row ''impersonatedBy''),
              ss_ImpersonationID = optionalString (fld row ''impersonationId'')\<rparr>))))))))"

definition accountFromRecord :: "Record option \<Rightarrow> go_error + OAuthAccount" where
  "accountFromRecord row0 =
     (case row0 of
        None \<Rightarrow> Inl ErrNotFound
      | Some row \<Rightarrow>
          bindE (recordString row ''id'') (\<lambda>aid.
          bindE (recordString row ''userId'') (\<lambda>userID.
          bindE (recordString row ''providerId'') (\<lambda>providerID.
          bindE (recordString row ''accountId'') (\<lambda>accountID.
          bindE (recordTime row ''createdAt'') (\<lambda>createdAt.
          bindE (recordTime row ''updatedAt'') (\<lambda>updatedAt.
            Inr \<lparr>oa_ID = aid, oa_UserID = userID, oa_Provider = providerID,
              oa_ProviderAccountID = accountID, oa_Scope = optionalString (fld row ''scope''),
              oa_CreatedAt = createdAt, oa_UpdatedAt = updatedAt\<rparr>)))))))"

definition domainEventRecord :: "DomainEvent \<Rightarrow> Record" where
  "domainEventRecord event = [''id'' \<mapsto> VStr (de_ID event),
     ''schemaVersion'' \<mapsto> VInt (de_SchemaVersion event), ''name'' \<mapsto> VStr (de_Name event),
     ''aggregateId'' \<mapsto> VStr (de_AggregateID event), ''occurredAt'' \<mapsto> VTime (de_OccurredAt event),
     ''payload'' \<mapsto> VStrMap (de_Payload event)]"

definition metadataValue :: "RequestMetadata \<Rightarrow> val" where
  "metadataValue r = VStruct ''RequestMetadata'' [(''RequestID'', VStr (rm_RequestID r)),
     (''IP'', VStr (rm_IP r)), (''UserAgent'', VStr (rm_UserAgent r))]"

definition auditEventRecord :: "AuditEvent \<Rightarrow> Record" where
  "auditEventRecord event = [''id'' \<mapsto> VStr (ae_ID event),
     ''schemaVersion'' \<mapsto> VInt (ae_SchemaVersion event), ''action'' \<mapsto> VStr (ae_Action event),
     ''actorUserId'' \<mapsto> VStr (ae_ActorUserID event), ''subjectUserId'' \<mapsto> VStr (ae_SubjectUserID event),
     ''sessionId'' \<mapsto> VStr (ae_SessionID event), ''occurredAt'' \<mapsto> VTime (ae_OccurredAt event),
     ''request'' \<mapsto> metadataValue (ae_Request event), ''details'' \<mapsto> VStrMap (ae_Details event)]"

text \<open>The values the store writes are well-formed: ids and hashes not empty, times set.\<close>

definition user_wf :: "User \<Rightarrow> bool" where
  "user_wf u \<longleftrightarrow> u_ID u \<noteq> '''' \<and> u_Email u \<noteq> '''' \<and> u_CreatedAt u \<noteq> 0 \<and> u_UpdatedAt u \<noteq> 0"

definition session_wf :: "Session \<Rightarrow> bool" where
  "session_wf s \<longleftrightarrow> ss_ID s \<noteq> '''' \<and> ss_UserID s \<noteq> '''' \<and> ss_TokenHash s \<noteq> '''' \<and>
     ss_ExpiresAt s \<noteq> 0 \<and> ss_CreatedAt s \<noteq> 0 \<and> ss_UpdatedAt s \<noteq> 0 \<and> ss_LastSeenAt s \<noteq> 0"

lemma fld_userRecord [record_simps, simp]:
  "fld (userRecord u) ''id'' = VStr (u_ID u)"
  "fld (userRecord u) ''email'' = VStr (u_Email u)"
  "fld (userRecord u) ''name'' = VStr (u_Name u)"
  "fld (userRecord u) ''image'' = VStr (u_ImageURL u)"
  "fld (userRecord u) ''emailVerified'' = VBool (u_EmailVerified u)"
  "fld (userRecord u) ''createdAt'' = VTime (u_CreatedAt u)"
  "fld (userRecord u) ''updatedAt'' = VTime (u_UpdatedAt u)"
  "fld (userRecord u) ''disabledAt'' = nullableTime (u_DisabledAt u)"
  by (simp_all add: userRecord_def)

lemma fld_sessionRecord [record_simps, simp]:
  "fld (sessionRecord s) ''id'' = VStr (ss_ID s)"
  "fld (sessionRecord s) ''userId'' = VStr (ss_UserID s)"
  "fld (sessionRecord s) ''tokenHash'' = VStr (ss_TokenHash s)"
  "fld (sessionRecord s) ''expiresAt'' = VTime (ss_ExpiresAt s)"
  "fld (sessionRecord s) ''createdAt'' = VTime (ss_CreatedAt s)"
  "fld (sessionRecord s) ''updatedAt'' = VTime (ss_UpdatedAt s)"
  "fld (sessionRecord s) ''lastSeenAt'' = VTime (ss_LastSeenAt s)"
  "fld (sessionRecord s) ''revokedAt'' = nullableTime (ss_RevokedAt s)"
  "fld (sessionRecord s) ''impersonatedBy'' = VStr (ss_ImpersonatorID s)"
  "fld (sessionRecord s) ''impersonationId'' = VStr (ss_ImpersonationID s)"
  by (simp_all add: sessionRecord_def)

lemma userFromRecord_record: "user_wf u \<Longrightarrow> userFromRecord (Some (userRecord u)) = Inr u"
  by (simp add: userFromRecord_def user_wf_def)

lemma sessionFromRecord_record: "session_wf s \<Longrightarrow> sessionFromRecord (Some (sessionRecord s)) = Inr s"
  by (simp add: sessionFromRecord_def session_wf_def)

lemma sessionFromRecord_Inr:
  "sessionFromRecord (Some row) = Inr s \<Longrightarrow>
   fld row ''id'' = VStr (ss_ID s) \<and> fld row ''userId'' = VStr (ss_UserID s) \<and>
   fld row ''tokenHash'' = VStr (ss_TokenHash s) \<and> fld row ''expiresAt'' = VTime (ss_ExpiresAt s) \<and>
   fld row ''createdAt'' = VTime (ss_CreatedAt s) \<and>
   ss_RevokedAt s = optionalTimePtr (fld row ''revokedAt'') \<and> session_wf s"
  by (auto simp: sessionFromRecord_def bindE_Inr recordString_Inr recordTime_Inr session_wf_def)

lemma userFromRecord_Inr:
  "userFromRecord (Some row) = Inr u \<Longrightarrow>
   fld row ''id'' = VStr (u_ID u) \<and> fld row ''email'' = VStr (u_Email u) \<and>
   u_EmailVerified u = optionalBool (fld row ''emailVerified'') \<and>
   u_DisabledAt u = optionalTimePtr (fld row ''disabledAt'') \<and> user_wf u"
  by (auto simp: userFromRecord_def bindE_Inr recordString_Inr recordTime_Inr user_wf_def)

end
