(* ===== verification/Store.thy ===== *)
theory Store
  imports Models
begin

text \<open>
  The typed store \<open>databaseStore\<close> of \<open>store.go\<close>, with \<open>account_identity.go\<close> and
  \<open>oauth_scopes.go\<close>. A method takes the adapter first; inside a transaction its callback
  uses the same adapter on the transaction's state.
\<close>

section \<open>Queries as the store writes them\<close>

definition findOneQ :: "string \<Rightarrow> Where list \<Rightarrow> FindOneQuery" where
  "findOneQ model ws = \<lparr>fo_Model = model, fo_Where = ws, fo_Select = [], fo_Joins = []\<rparr>"

definition findManyQ :: "string \<Rightarrow> Where list \<Rightarrow> int \<Rightarrow> Sort option \<Rightarrow> FindManyQuery" where
  "findManyQ model ws limit srt = \<lparr>fm_Model = model, fm_Where = ws, fm_Limit = limit, fm_Offset = 0,
     fm_Select = [], fm_Sort = srt, fm_Joins = []\<rparr>"

definition createQ :: "string \<Rightarrow> Record \<Rightarrow> CreateQuery" where
  "createQ model data = \<lparr>cq_Model = model, cq_Data = data, cq_Select = [], cq_ForceAllowID = True\<rparr>"

definition updateQ :: "string \<Rightarrow> Where list \<Rightarrow> Record \<Rightarrow> UpdateQuery" where
  "updateQ model ws update = \<lparr>uq_Model = model, uq_Where = ws, uq_Update = update\<rparr>"

definition deleteQ :: "string \<Rightarrow> Where list \<Rightarrow> DeleteQuery" where
  "deleteQ model ws = \<lparr>dq_Model = model, dq_Where = ws\<rparr>"

lemma query_sel [simp]:
  "fo_Model (findOneQ m ws) = m" "fo_Where (findOneQ m ws) = ws" "fo_Select (findOneQ m ws) = []"
  "fo_Joins (findOneQ m ws) = []"
  "fm_Model (findManyQ m ws l srt) = m" "fm_Where (findManyQ m ws l srt) = ws"
  "fm_Limit (findManyQ m ws l srt) = l" "fm_Offset (findManyQ m ws l srt) = 0"
  "fm_Select (findManyQ m ws l srt) = []" "fm_Joins (findManyQ m ws l srt) = []"
  "fm_Sort (findManyQ m ws l srt) = srt"
  "cq_Model (createQ m d) = m" "cq_Data (createQ m d) = d" "cq_Select (createQ m d) = []"
  "uq_Model (updateQ m ws u) = m" "uq_Where (updateQ m ws u) = ws" "uq_Update (updateQ m ws u) = u"
  "dq_Model (deleteQ m ws) = m" "dq_Where (deleteQ m ws) = ws"
  by (simp_all add: findOneQ_def findManyQ_def createQ_def updateQ_def deleteQ_def)

text \<open>Reading a row that may be nil: every field of a nil map is nil.\<close>

definition orNil :: "Record option \<Rightarrow> Record" where
  "orNil row = (case row of None \<Rightarrow> Map.empty | Some r \<Rightarrow> r)"

lemma orNil_simps [simp]: "orNil (Some r) = r" "orNil None = Map.empty"
  by (simp_all add: orNil_def)

section \<open>Account identities and scopes\<close>

definition credentialProvider :: string where "credentialProvider = ''credential''"

definition accountKeyWhere :: "string \<Rightarrow> string \<Rightarrow> Where list" where
  "accountKeyWhere providerID accountID =
     [Eq ''providerId'' (VStr providerID), Eq ''accountId'' (VStr accountID)]"

definition credentialIdentityWhere :: "string \<Rightarrow> Where list" where
  "credentialIdentityWhere userID = accountKeyWhere credentialProvider userID"

definition FindAccountByKey ::
  "'s database_adapter \<Rightarrow> string \<Rightarrow> string \<Rightarrow> ('s, Record option) prog" where
  "FindAccountByKey db providerID accountID =
     bindM (db_findMany db (findManyQ ModelAccount (accountKeyWhere providerID accountID) 2 None)) (\<lambda>rows.
       if length rows > 1 then fail (ErrWrap (''provider '' @ providerID) ErrAmbiguousAccount)
       else case rows of [] \<Rightarrow> ret None | r # _ \<Rightarrow> ret (Some r))"

definition findProfileAccount ::
  "'s database_adapter \<Rightarrow> OAuthProfile \<Rightarrow> gtime \<Rightarrow> ('s, Record option) prog" where
  "findProfileAccount tx profile now =
     bindM (FindAccountByKey tx (op_Provider profile) (op_ProviderAccountID profile)) (\<lambda>account.
       case account of
         Some row \<Rightarrow> ret (Some row)
       | None \<Rightarrow>
         (let previous = TrimSpace (op_PreviousProviderAccountID profile) in
          if previous = '''' \<or> previous = op_ProviderAccountID profile then ret None
          else
            bindM (FindAccountByKey tx (op_Provider profile) previous) (\<lambda>legacy.
              case legacy of
                None \<Rightarrow> ret None
              | Some row \<Rightarrow>
                  bindM (lift (recordString row ''id'')) (\<lambda>aid.
                  bindM (db_update tx (updateQ ModelAccount
                      [Eq ''id'' (VStr aid), Eq ''providerId'' (VStr (op_Provider profile)),
                       Eq ''accountId'' (VStr previous)]
                      [''accountId'' \<mapsto> VStr (op_ProviderAccountID profile), ''updatedAt'' \<mapsto> VTime now]))
                  (\<lambda>updated. case updated of None \<Rightarrow> fail ErrConflict | Some r \<Rightarrow> ret (Some r))))))"

fun merge_scopes_loop :: "string list \<Rightarrow> string list \<Rightarrow> string list" where
  "merge_scopes_loop [] ordered = ordered"
| "merge_scopes_loop (scope # scopes) ordered =
     (if scope \<in> set ordered then merge_scopes_loop scopes ordered
      else merge_scopes_loop scopes (ordered @ [scope]))"

definition mergeOAuthScopes :: "string \<Rightarrow> string \<Rightarrow> string" where
  "mergeOAuthScopes existing incoming =
     Join (merge_scopes_loop (Fields incoming) (merge_scopes_loop (Fields existing) [])) '' ''"

section \<open>Users and credentials\<close>

definition FindUserByEmail :: "'s database_adapter \<Rightarrow> string \<Rightarrow> ('s, User) prog" where
  "FindUserByEmail db email =
     bindM (db_findOne db (findOneQ ModelUser [Eq ''email'' (VStr email)])) (\<lambda>row.
       lift (userFromRecord row))"

definition FindUserByID :: "'s database_adapter \<Rightarrow> string \<Rightarrow> ('s, User) prog" where
  "FindUserByID db uid =
     bindM (db_findOne db (findOneQ ModelUser [Eq ''id'' (VStr uid)])) (\<lambda>row.
       lift (userFromRecord row))"

definition credentialRow :: "string \<Rightarrow> string \<Rightarrow> gtime \<Rightarrow> gtime \<Rightarrow> Record" where
  "credentialRow userID passwordHash created updated =
     [''id'' \<mapsto> VStr (userID @ '':credential''), ''userId'' \<mapsto> VStr userID,
      ''providerId'' \<mapsto> VStr credentialProvider, ''accountId'' \<mapsto> VStr userID,
      ''password'' \<mapsto> VStr passwordHash, ''createdAt'' \<mapsto> VTime created, ''updatedAt'' \<mapsto> VTime updated]"

definition CreateEmailUser :: "'s database_adapter \<Rightarrow> CreateEmailUserParams \<Rightarrow> ('s, User) prog" where
  "CreateEmailUser db params = Transaction db (
     bindM (db_create db (createQ ModelUser (userRecord (ce_User params)))) (\<lambda>userRow.
     bindM (lift (userFromRecord (Some userRow))) (\<lambda>created.
     bindM (db_create db (createQ ModelAccount
       (credentialRow (u_ID (ce_User params)) (ce_PasswordHash params)
          (u_CreatedAt (ce_User params)) (u_UpdatedAt (ce_User params))))) (\<lambda>_.
     bindM (if ce_CreateSession params
            then bindM (db_create db (createQ ModelSession (sessionRecord (ce_Session params)))) (\<lambda>_. ret ())
            else ret ()) (\<lambda>_.
     bindM (db_create db (createQ ModelOutboxEvent (domainEventRecord (ce_Event params)))) (\<lambda>_.
       ret created))))))"

definition FindPasswordCredential :: "'s database_adapter \<Rightarrow> string \<Rightarrow> ('s, PasswordCredential) prog" where
  "FindPasswordCredential db userID =
     bindM (db_findOne db (findOneQ ModelAccount (credentialIdentityWhere userID))) (\<lambda>row.
     bindM (lift (recordString (orNil row) ''password'')) (\<lambda>password.
     bindM (lift (recordTime (orNil row) ''updatedAt'')) (\<lambda>updated.
       ret \<lparr>pc_UserID = userID, pc_PasswordHash = password, pc_UpdatedAt = updated\<rparr>)))"

definition ReplacePasswordHash ::
  "'s database_adapter \<Rightarrow> string \<Rightarrow> string \<Rightarrow> string \<Rightarrow> gtime \<Rightarrow> ('s, unit) prog" where
  "ReplacePasswordHash db userID previous replacement now =
     bindM (db_update db (updateQ ModelAccount
       (credentialIdentityWhere userID @ [Eq ''password'' (VStr previous)])
       [''password'' \<mapsto> VStr replacement, ''updatedAt'' \<mapsto> VTime now])) (\<lambda>_. ret ())"

definition SetPasswordHash ::
  "'s database_adapter \<Rightarrow> string \<Rightarrow> string \<Rightarrow> gtime \<Rightarrow> ('s, unit) prog" where
  "SetPasswordHash db userID passwordHash now = Transaction db (
     let ws = credentialIdentityWhere userID @ [Eq ''userId'' (VStr userID)] in
     bindM (tryM (db_findOne db (findOneQ ModelAccount ws))) (\<lambda>found.
       let notFound = (case found of Inl err \<Rightarrow> errors_Is err ErrNotFound | Inr _ \<Rightarrow> True);
           account = (case found of Inl _ \<Rightarrow> None | Inr row \<Rightarrow> row) in
       if \<not> notFound then (case found of Inl err \<Rightarrow> fail err | Inr _ \<Rightarrow> ret ())
       else if account \<noteq> None then
         bindM (db_update db (updateQ ModelAccount ws
           [''password'' \<mapsto> VStr passwordHash, ''updatedAt'' \<mapsto> VTime now])) (\<lambda>updated.
           if updated = None then fail ErrReplay else ret ())
       else
         bindM (db_create db (createQ ModelAccount (credentialRow userID passwordHash now now)))
           (\<lambda>_. ret ())))"

text \<open>The writes that revoke sessions.\<close>

definition revokeUpdate :: "gtime \<Rightarrow> Record" where
  "revokeUpdate at = [''revokedAt'' \<mapsto> VTime at, ''updatedAt'' \<mapsto> VTime at]"

definition ChangePasswordAndRotate :: "'s database_adapter \<Rightarrow> ChangePasswordParams \<Rightarrow> ('s, Session) prog" where
  "ChangePasswordAndRotate db params = Transaction db (
     let at = ss_CreatedAt (cp_ReplacementSession params) in
     bindM (db_update db (updateQ ModelAccount
       (credentialIdentityWhere (cp_UserID params) @
         [Eq ''userId'' (VStr (cp_UserID params)), Eq ''password'' (VStr (cp_PreviousHash params))])
       [''password'' \<mapsto> VStr (cp_ReplacementHash params), ''updatedAt'' \<mapsto> VTime at])) (\<lambda>account.
     if account = None then fail ErrReplay
     else
       bindM (if cp_RevokeOtherSessions params
         then bindM (db_updateMany db (updateQ ModelSession
           [Eq ''userId'' (VStr (cp_UserID params)), Eq ''revokedAt'' VNil] (revokeUpdate at))) (\<lambda>_. ret ())
         else bindM (db_update db (updateQ ModelSession
           [Eq ''userId'' (VStr (cp_UserID params)), Eq ''tokenHash'' (VStr (cp_CurrentTokenHash params)),
            Eq ''revokedAt'' VNil] (revokeUpdate at)))
           (\<lambda>current. if current = None then fail ErrReplay else ret ())) (\<lambda>_.
       bindM (db_create db (createQ ModelSession (sessionRecord (cp_ReplacementSession params)))) (\<lambda>row.
         lift (sessionFromRecord (Some row))))))"

definition UpdateUser :: "'s database_adapter \<Rightarrow> string \<Rightarrow> Record \<Rightarrow> gtime \<Rightarrow> ('s, User) prog" where
  "UpdateUser db userID changes now =
     bindM (db_update db (updateQ ModelUser [Eq ''id'' (VStr userID)]
       (changes(''updatedAt'' \<mapsto> VTime now)))) (\<lambda>row.
       if row = None then fail ErrNotFound else lift (userFromRecord row))"

definition VerifyUserEmail :: "'s database_adapter \<Rightarrow> string \<Rightarrow> gtime \<Rightarrow> ('s, User) prog" where
  "VerifyUserEmail db userID now = UpdateUser db userID [''emailVerified'' \<mapsto> VBool True] now"

definition DeleteUser :: "'s database_adapter \<Rightarrow> string \<Rightarrow> ('s, unit) prog" where
  "DeleteUser db userID = Transaction db (
     bindM (db_deleteMany db (deleteQ ModelSession [Eq ''userId'' (VStr userID)])) (\<lambda>_.
     bindM (db_deleteMany db (deleteQ ModelAccount [Eq ''userId'' (VStr userID)])) (\<lambda>_.
       db_delete db (deleteQ ModelUser [Eq ''id'' (VStr userID)]))))"

section \<open>Accounts\<close>

text \<open>The loop that converts the rows of a listing, stopping at the first bad row.\<close>

fun convertRows :: "(Record option \<Rightarrow> go_error + 'a) \<Rightarrow> Record list \<Rightarrow> go_error + 'a list" where
  "convertRows conv [] = Inr []"
| "convertRows conv (row # rows) =
     bindE (conv (Some row)) (\<lambda>x. bindE (convertRows conv rows) (\<lambda>xs. Inr (x # xs)))"

definition ListAccounts :: "'s database_adapter \<Rightarrow> string \<Rightarrow> ('s, OAuthAccount list) prog" where
  "ListAccounts db userID =
     bindM (db_findMany db (findManyQ ModelAccount [Eq ''userId'' (VStr userID)] 0
       (Some \<lparr>s_Field = ''createdAt'', s_Direction = ''asc''\<rparr>))) (\<lambda>rows.
       lift (convertRows accountFromRecord rows))"

text \<open>The check of both unlink methods that another account remains.\<close>

definition guardLastAccount :: "'s database_adapter \<Rightarrow> string \<Rightarrow> bool \<Rightarrow> ('s, unit) prog" where
  "guardLastAccount tx userID allowLast =
     (if \<not> allowLast then
        bindM (db_count tx \<lparr>ct_Model = ModelAccount, ct_Where = [Eq ''userId'' (VStr userID)]\<rparr>) (\<lambda>count.
          if count \<le> 1 then fail ErrConflict else ret ())
      else ret ())"

definition UnlinkAccount ::
  "'s database_adapter \<Rightarrow> string \<Rightarrow> string \<Rightarrow> string \<Rightarrow> bool \<Rightarrow> ('s, unit) prog" where
  "UnlinkAccount db userID providerID accountID allowLast = Transaction db (
     bindM (guardLastAccount db userID allowLast) (\<lambda>_.
     let ws = [Eq ''userId'' (VStr userID), Eq ''providerId'' (VStr providerID)] @
              (if accountID \<noteq> '''' then [Eq ''accountId'' (VStr accountID)] else []) in
     bindM (db_findOne db (findOneQ ModelAccount ws)) (\<lambda>account.
     case account of
       None \<Rightarrow> fail ErrNotFound
     | Some row \<Rightarrow>
         bindM (lift (recordString row ''id'')) (\<lambda>aid.
           db_delete db (deleteQ ModelAccount [Eq ''id'' (VStr aid), Eq ''userId'' (VStr userID)])))))"

definition UnlinkAccountByID ::
  "'s database_adapter \<Rightarrow> string \<Rightarrow> string \<Rightarrow> bool \<Rightarrow> ('s, unit) prog" where
  "UnlinkAccountByID db userID accountRecordID allowLast = Transaction db (
     bindM (guardLastAccount db userID allowLast) (\<lambda>_.
     bindM (db_findOne db ((findOneQ ModelAccount
        [Eq ''id'' (VStr accountRecordID), Eq ''userId'' (VStr userID)])\<lparr>fo_Select := [''id'']\<rparr>)) (\<lambda>row.
     case row of
       None \<Rightarrow> fail ErrNotFound
     | Some _ \<Rightarrow>
         db_delete db (deleteQ ModelAccount
           [Eq ''id'' (VStr accountRecordID), Eq ''userId'' (VStr userID)]))))"

definition tokenFields :: "ProviderTokens \<Rightarrow> gtime \<Rightarrow> Record" where
  "tokenFields tokens now =
     [''accessToken'' \<mapsto> VStr (pt_AccessToken tokens), ''refreshToken'' \<mapsto> VStr (pt_RefreshToken tokens),
      ''idToken'' \<mapsto> VStr (pt_IDToken tokens), ''scope'' \<mapsto> VStr (pt_Scope tokens),
      ''accessTokenExpiresAt'' \<mapsto> nullableTimeValue (pt_AccessTokenExpiresAt tokens),
      ''refreshTokenExpiresAt'' \<mapsto> nullableTimeValue (pt_RefreshTokenExpiresAt tokens),
      ''updatedAt'' \<mapsto> VTime now]"

definition oauthAccountRow ::
  "string \<Rightarrow> string \<Rightarrow> OAuthProfile \<Rightarrow> ProviderTokens \<Rightarrow> gtime \<Rightarrow> Record" where
  "oauthAccountRow accountID userID profile tokens now =
     tokenFields tokens now ++
     [''id'' \<mapsto> VStr accountID, ''userId'' \<mapsto> VStr userID, ''providerId'' \<mapsto> VStr (op_Provider profile),
      ''accountId'' \<mapsto> VStr (op_ProviderAccountID profile), ''createdAt'' \<mapsto> VTime now]"

definition LinkOAuthAccount ::
  "'s database_adapter \<Rightarrow> string \<Rightarrow> string \<Rightarrow> OAuthProfile \<Rightarrow> ProviderTokens \<Rightarrow> gtime \<Rightarrow> ('s, unit) prog" where
  "LinkOAuthAccount db accountID userID profile tokens now = Transaction db (
     bindM (findProfileAccount db profile now) (\<lambda>existing.
     case existing of
       Some row \<Rightarrow>
         bindM (lift (recordString row ''userId'')) (\<lambda>owner.
         if owner \<noteq> userID then fail ErrConflict
         else
           bindM (lift (recordString row ''id'')) (\<lambda>aid.
           let tokens = tokens\<lparr>pt_Scope := mergeOAuthScopes (optionalString (fld row ''scope'')) (pt_Scope tokens)\<rparr> in
           bindM (db_update db (updateQ ModelAccount [Eq ''id'' (VStr aid), Eq ''userId'' (VStr userID)]
             (tokenFields tokens now))) (\<lambda>_. ret ())))
     | None \<Rightarrow>
         bindM (db_create db (createQ ModelAccount (oauthAccountRow accountID userID profile tokens now)))
           (\<lambda>_. ret ())))"

definition storedAccount :: "Record option \<Rightarrow> go_error + StoredOAuthAccount" where
  "storedAccount row0 =
     (case row0 of
        None \<Rightarrow> Inl ErrNotFound
      | Some row \<Rightarrow>
          bindE (accountFromRecord (Some row)) (\<lambda>account.
            Inr \<lparr>so_Account = account, so_Tokens = \<lparr>pt_AccessToken = optionalString (fld row ''accessToken''),
              pt_RefreshToken = optionalString (fld row ''refreshToken''),
              pt_IDToken = optionalString (fld row ''idToken''), pt_Scope = optionalString (fld row ''scope''),
              pt_AccessTokenExpiresAt = optionalTime (fld row ''accessTokenExpiresAt''),
              pt_RefreshTokenExpiresAt = optionalTime (fld row ''refreshTokenExpiresAt'')\<rparr>\<rparr>))"

definition OAuthAccountTokens ::
  "'s database_adapter \<Rightarrow> string \<Rightarrow> string \<Rightarrow> string \<Rightarrow> ('s, StoredOAuthAccount) prog" where
  "OAuthAccountTokens db userID providerID accountID =
     bindM (db_findOne db (findOneQ ModelAccount
       ([Eq ''userId'' (VStr userID), Eq ''providerId'' (VStr providerID)] @
        (if accountID \<noteq> '''' then [Eq ''accountId'' (VStr accountID)] else [])))) (\<lambda>row.
       lift (storedAccount row))"

definition OAuthAccountTokensByID ::
  "'s database_adapter \<Rightarrow> string \<Rightarrow> string \<Rightarrow> ('s, StoredOAuthAccount) prog" where
  "OAuthAccountTokensByID db userID accountRecordID =
     bindM (db_findOne db (findOneQ ModelAccount
       [Eq ''id'' (VStr accountRecordID), Eq ''userId'' (VStr userID)])) (\<lambda>row.
       lift (storedAccount row))"

definition UpdateOAuthAccountTokens ::
  "'s database_adapter \<Rightarrow> string \<Rightarrow> string \<Rightarrow> ProviderTokens \<Rightarrow> gtime \<Rightarrow> ('s, unit) prog" where
  "UpdateOAuthAccountTokens db userID accountID tokens now =
     bindM (db_update db (updateQ ModelAccount [Eq ''id'' (VStr accountID), Eq ''userId'' (VStr userID)]
       (tokenFields tokens now))) (\<lambda>row. if row = None then fail ErrNotFound else ret ())"

section \<open>Sessions\<close>

definition CreateSession :: "'s database_adapter \<Rightarrow> Session \<Rightarrow> ('s, Session) prog" where
  "CreateSession db session =
     bindM (db_create db (createQ ModelSession (sessionRecord session))) (\<lambda>row.
       lift (sessionFromRecord (Some row)))"

definition SessionByTokenHash :: "'s database_adapter \<Rightarrow> string \<Rightarrow> ('s, Session \<times> User) prog" where
  "SessionByTokenHash db hash =
     bindM (db_findOne db (findOneQ ModelSession [Eq ''tokenHash'' (VStr hash)])) (\<lambda>row.
     bindM (lift (sessionFromRecord row)) (\<lambda>session.
     bindM (FindUserByID db (ss_UserID session)) (\<lambda>user.
       ret (session, user))))"

definition RotateSession :: "'s database_adapter \<Rightarrow> string \<Rightarrow> Session \<Rightarrow> ('s, Session) prog" where
  "RotateSession db oldHash replacement = Transaction db (
     bindM (db_update db (updateQ ModelSession
       [Eq ''tokenHash'' (VStr oldHash), Eq ''revokedAt'' VNil]
       (revokeUpdate (ss_CreatedAt replacement)))) (\<lambda>old.
     if old = None then fail ErrReplay
     else
       bindM (db_create db (createQ ModelSession (sessionRecord replacement))) (\<lambda>row.
         lift (sessionFromRecord (Some row)))))"

definition RevokeSession :: "'s database_adapter \<Rightarrow> string \<Rightarrow> gtime \<Rightarrow> ('s, unit) prog" where
  "RevokeSession db hash at =
     bindM (tryM (db_update db (updateQ ModelSession
       [Eq ''tokenHash'' (VStr hash), Eq ''revokedAt'' VNil] (revokeUpdate at)))) (\<lambda>r.
       case r of
         Inl err \<Rightarrow> if errors_Is err ErrNotFound then ret () else fail err
       | Inr _ \<Rightarrow> ret ())"

definition RevokeUserSessions :: "'s database_adapter \<Rightarrow> string \<Rightarrow> gtime \<Rightarrow> ('s, unit) prog" where
  "RevokeUserSessions db userID at =
     bindM (db_updateMany db (updateQ ModelSession
       [Eq ''userId'' (VStr userID), Eq ''revokedAt'' VNil] (revokeUpdate at))) (\<lambda>_. ret ())"

definition ListSessions :: "'s database_adapter \<Rightarrow> string \<Rightarrow> gtime \<Rightarrow> ('s, Session list) prog" where
  "ListSessions db userID now =
     bindM (db_findMany db (findManyQ ModelSession
       [Eq ''userId'' (VStr userID), Eq ''revokedAt'' VNil, Cond ''expiresAt'' WhereGT (VTime now)] 0
       (Some \<lparr>s_Field = ''createdAt'', s_Direction = ''desc''\<rparr>))) (\<lambda>rows.
       lift (convertRows sessionFromRecord rows))"

definition RevokeSessionByID ::
  "'s database_adapter \<Rightarrow> string \<Rightarrow> string \<Rightarrow> gtime \<Rightarrow> ('s, bool) prog" where
  "RevokeSessionByID db userID sessionID at =
     bindM (db_update db (updateQ ModelSession
       [Eq ''id'' (VStr sessionID), Eq ''userId'' (VStr userID), Eq ''revokedAt'' VNil]
       (revokeUpdate at))) (\<lambda>row. ret (row \<noteq> None))"

definition RevokeOtherSessions ::
  "'s database_adapter \<Rightarrow> string \<Rightarrow> string \<Rightarrow> gtime \<Rightarrow> ('s, unit) prog" where
  "RevokeOtherSessions db userID currentSessionID at =
     bindM (db_updateMany db (updateQ ModelSession
       [Eq ''userId'' (VStr userID), Cond ''id'' WhereNE (VStr currentSessionID), Eq ''revokedAt'' VNil]
       (revokeUpdate at))) (\<lambda>_. ret ())"

definition UpdateSession ::
  "'s database_adapter \<Rightarrow> string \<Rightarrow> string \<Rightarrow> Record \<Rightarrow> gtime \<Rightarrow> ('s, Session) prog" where
  "UpdateSession db userID tokenHash changes now =
     bindM (db_update db (updateQ ModelSession
       [Eq ''userId'' (VStr userID), Eq ''tokenHash'' (VStr tokenHash), Eq ''revokedAt'' VNil]
       (changes(''updatedAt'' \<mapsto> VTime now)))) (\<lambda>row.
       if row = None then fail ErrNotFound else lift (sessionFromRecord row))"

definition RotateSessionWithAudit ::
  "'s database_adapter \<Rightarrow> string \<Rightarrow> Session \<Rightarrow> AuditEvent \<Rightarrow> ('s, Session) prog" where
  "RotateSessionWithAudit db actorTokenHash session audit = Transaction db (
     bindM (db_update db (updateQ ModelSession
       [Eq ''tokenHash'' (VStr actorTokenHash), Eq ''revokedAt'' VNil]
       (revokeUpdate (ss_CreatedAt session)))) (\<lambda>rotated.
     if rotated = None then fail ErrReplay
     else
       bindM (db_create db (createQ ModelSession (sessionRecord session))) (\<lambda>row.
       bindM (lift (sessionFromRecord (Some row))) (\<lambda>created.
       bindM (db_create db (createQ ModelAuditEvent (auditEventRecord audit))) (\<lambda>_.
         ret created)))))"

section \<open>Single-use tokens\<close>

definition tokenIdentifier :: "OneTimeToken \<Rightarrow> string" where
  "tokenIdentifier token =
     (if ot_Purpose token = PurposeEmailChange \<or> ot_Purpose token = PurposeEmailChangeConfirmation
      then purpose_string (ot_Purpose token) @ '':'' @ ot_UserID token
      else purpose_string (ot_Purpose token))"

definition tokenRow :: "OneTimeToken \<Rightarrow> Record" where
  "tokenRow token =
     [''id'' \<mapsto> VStr (ot_ID token), ''identifier'' \<mapsto> VStr (tokenIdentifier token),
      ''value'' \<mapsto> VStr (ot_Hash token), ''expiresAt'' \<mapsto> VTime (ot_ExpiresAt token),
      ''createdAt'' \<mapsto> VTime (ot_CreatedAt token),
      ''metadata'' \<mapsto> VStrMap (mergeStringMaps [ot_Metadata token, [(''userId'', ot_UserID token)]])]"

definition PutOneTimeToken :: "'s database_adapter \<Rightarrow> OneTimeToken \<Rightarrow> ('s, unit) prog" where
  "PutOneTimeToken db token =
     (let create = bindM (db_create db (createQ ModelVerification (tokenRow token))) (\<lambda>_. ret ()) in
      if ot_Purpose token \<noteq> PurposeEmailChange \<and> ot_Purpose token \<noteq> PurposeEmailChangeConfirmation
      then create
      else Transaction db (
        bindM (db_deleteMany db (deleteQ ModelVerification
          [Eq ''identifier'' (VStr (tokenIdentifier token))])) (\<lambda>_. create)))"

text \<open>The predicates that select a live token: by its exact identifier, or by a prefix.\<close>

definition liveToken :: "string \<Rightarrow> string \<Rightarrow> gtime \<Rightarrow> Where list" where
  "liveToken identifier hash now =
     [Eq ''identifier'' (VStr identifier), Eq ''value'' (VStr hash),
      Cond ''expiresAt'' WhereGT (VTime now)]"

definition liveTokenPrefix :: "string \<Rightarrow> string \<Rightarrow> gtime \<Rightarrow> Where list" where
  "liveTokenPrefix prefix hash now =
     [Cond ''identifier'' WhereStartsWith (VStr prefix), Eq ''value'' (VStr hash),
      Cond ''expiresAt'' WhereGT (VTime now)]"

definition HasOneTimeToken ::
  "'s database_adapter \<Rightarrow> OneTimePurpose \<Rightarrow> string \<Rightarrow> gtime \<Rightarrow> ('s, bool) prog" where
  "HasOneTimeToken db purpose hash now =
     bindM (tryM (db_findOne db (findOneQ ModelVerification
       (liveToken (purpose_string purpose) hash now)))) (\<lambda>r.
       case r of
         Inl err \<Rightarrow> if errors_Is err ErrNotFound then ret False else fail err
       | Inr row \<Rightarrow> ret (row \<noteq> None))"

definition ConsumeUserDeletion ::
  "'s database_adapter \<Rightarrow> string \<Rightarrow> string \<Rightarrow> gtime \<Rightarrow> ('s, unit) prog" where
  "ConsumeUserDeletion db hash userID now =
     bindM (db_consumeOne db (deleteQ ModelVerification
       (liveToken (purpose_string PurposeUserDeletion) hash now))) (\<lambda>token.
       if token = None \<or> smap_get (recordStringMap (fld (orNil token) ''metadata'')) ''userId'' \<noteq> userID
       then fail ErrReplay else ret ())"

definition ConsumeEmailChange ::
  "'s database_adapter \<Rightarrow> string \<Rightarrow> gtime \<Rightarrow> ('s, User \<times> string) prog" where
  "ConsumeEmailChange db hash now = Transaction db (
     bindM (db_consumeOne db (deleteQ ModelVerification
       (liveTokenPrefix (purpose_string PurposeEmailChange @ '':'') hash now))) (\<lambda>token.
     case token of
       None \<Rightarrow> fail ErrReplay
     | Some row \<Rightarrow>
       (let metadata = recordStringMap (fld row ''metadata'') in
        if smap_get metadata ''userId'' = '''' \<or> smap_get metadata ''newEmail'' = '''' then fail ErrReplay
        else
          bindM (db_update db (updateQ ModelUser [Eq ''id'' (VStr (smap_get metadata ''userId''))]
            [''email'' \<mapsto> VStr (smap_get metadata ''newEmail''), ''emailVerified'' \<mapsto> VBool True,
             ''updatedAt'' \<mapsto> VTime now])) (\<lambda>row.
            if row = None then fail ErrNotFound
            else bindM (lift (userFromRecord row)) (\<lambda>user. ret (user, smap_get metadata ''returnTo''))))))"

definition ConsumeEmailChangeConfirmation ::
  "'s database_adapter \<Rightarrow> string \<Rightarrow> gtime \<Rightarrow> ('s, User \<times> string \<times> string) prog" where
  "ConsumeEmailChangeConfirmation db hash now =
     bindM (db_consumeOne db (deleteQ ModelVerification
       (liveTokenPrefix (purpose_string PurposeEmailChangeConfirmation @ '':'') hash now))) (\<lambda>token.
     case token of
       None \<Rightarrow> fail ErrReplay
     | Some row \<Rightarrow>
       (let metadata = recordStringMap (fld row ''metadata'') in
        if smap_get metadata ''userId'' = '''' \<or> smap_get metadata ''newEmail'' = '''' then fail ErrReplay
        else bindM (FindUserByID db (smap_get metadata ''userId'')) (\<lambda>user.
          ret (user, smap_get metadata ''newEmail'', smap_get metadata ''returnTo''))))"

definition ConsumePasswordReset ::
  "'s database_adapter \<Rightarrow> string \<Rightarrow> string \<Rightarrow> gtime \<Rightarrow> ('s, User) prog" where
  "ConsumePasswordReset db hash passwordHash now = Transaction db (
     bindM (db_consumeOne db (deleteQ ModelVerification
       (liveToken (purpose_string PurposePasswordReset) hash now))) (\<lambda>token.
     case token of
       None \<Rightarrow> fail ErrReplay
     | Some row \<Rightarrow>
       (let userID = smap_get (recordStringMap (fld row ''metadata'')) ''userId'' in
        if userID = '''' then fail ErrReplay
        else
          bindM (db_update db (updateQ ModelAccount
            (credentialIdentityWhere userID @ [Eq ''userId'' (VStr userID)])
            [''password'' \<mapsto> VStr passwordHash, ''updatedAt'' \<mapsto> VTime now])) (\<lambda>account.
          bindM (if account = None
            then bindM (db_create db (createQ ModelAccount (credentialRow userID passwordHash now now))) (\<lambda>_. ret ())
            else ret ()) (\<lambda>_.
          bindM (db_findOne db (findOneQ ModelUser [Eq ''id'' (VStr userID)])) (\<lambda>userRow.
            lift (userFromRecord userRow)))))))"

definition ConsumeEmailVerification ::
  "'s database_adapter \<Rightarrow> string \<Rightarrow> gtime \<Rightarrow> ('s, User) prog" where
  "ConsumeEmailVerification db hash now =
     bindM (db_consumeOne db (deleteQ ModelVerification
       (liveToken (purpose_string PurposeEmailVerify) hash now))) (\<lambda>token.
     case token of
       None \<Rightarrow> fail ErrReplay
     | Some row \<Rightarrow>
       (let userID = smap_get (recordStringMap (fld row ''metadata'')) ''userId'' in
        if userID = '''' then fail ErrReplay else FindUserByID db userID))"

definition oauthStateRow :: "OAuthState \<Rightarrow> Record" where
  "oauthStateRow state =
     [''id'' \<mapsto> VStr (os_ID state), ''identifier'' \<mapsto> VStr (purpose_string PurposeOAuthState),
      ''value'' \<mapsto> VStr (os_Hash state), ''expiresAt'' \<mapsto> VTime (os_ExpiresAt state),
      ''createdAt'' \<mapsto> VTime (os_CreatedAt state),
      ''metadata'' \<mapsto> VStrMap (smap_of [(''pkceVerifier'', os_PKCEVerifier state),
        (''nonce'', os_Nonce state), (''redirectURI'', os_RedirectURI state),
        (''returnTo'', os_ReturnTo state), (''errorReturnTo'', os_ErrorReturnTo state),
        (''newUserReturnTo'', os_NewUserReturnTo state), (''linkUserId'', os_LinkUserID state),
        (''requestSignUp'', if os_RequestSignUp state then ''true'' else ''false'')])]"

definition PutOAuthState :: "'s database_adapter \<Rightarrow> OAuthState \<Rightarrow> ('s, unit) prog" where
  "PutOAuthState db state =
     bindM (db_create db (createQ ModelVerification (oauthStateRow state))) (\<lambda>_. ret ())"

definition ConsumeOAuthState :: "'s database_adapter \<Rightarrow> string \<Rightarrow> gtime \<Rightarrow> ('s, OAuthState) prog" where
  "ConsumeOAuthState db hash now =
     bindM (db_consumeOne db (deleteQ ModelVerification
       (liveToken (purpose_string PurposeOAuthState) hash now))) (\<lambda>token.
     case token of
       None \<Rightarrow> fail ErrReplay
     | Some row \<Rightarrow>
       (let meta = recordStringMap (fld row ''metadata'');
            sid = (case recordString row ''id'' of Inr v \<Rightarrow> v | Inl _ \<Rightarrow> '''') in
        bindM (lift (recordTime row ''expiresAt'')) (\<lambda>expires.
        bindM (lift (recordTime row ''createdAt'')) (\<lambda>created.
          ret \<lparr>os_ID = sid, os_Hash = hash, os_PKCEVerifier = smap_get meta ''pkceVerifier'',
            os_Nonce = smap_get meta ''nonce'', os_RedirectURI = smap_get meta ''redirectURI'',
            os_ReturnTo = smap_get meta ''returnTo'', os_ErrorReturnTo = smap_get meta ''errorReturnTo'',
            os_NewUserReturnTo = smap_get meta ''newUserReturnTo'',
            os_LinkUserID = smap_get meta ''linkUserId'',
            os_RequestSignUp = (smap_get meta ''requestSignUp'' = ''true''),
            os_ExpiresAt = expires, os_CreatedAt = created\<rparr>))))"

section \<open>OAuth sign-in\<close>

text \<open>
  The parts of \<open>UpsertOAuthUser\<close>'s callback: the account exists, there is no account (the user
  is found by email or created, then linked), and the verification of the local email, which both
  share.
\<close>

definition verifyMatchingEmail ::
  "'s database_adapter \<Rightarrow> OAuthProfile \<Rightarrow> gtime \<Rightarrow> User \<Rightarrow> ('s, User) prog" where
  "verifyMatchingEmail tx profile at user =
     (if op_EmailVerified profile \<and> \<not> u_EmailVerified user \<and> op_Email profile = u_Email user then
        bindM (db_update tx (updateQ ModelUser [Eq ''id'' (VStr (u_ID user))]
          [''emailVerified'' \<mapsto> VBool True, ''updatedAt'' \<mapsto> VTime at])) (\<lambda>row.
          lift (userFromRecord row))
      else ret user)"

definition upsertExisting ::
  "'s database_adapter \<Rightarrow> OAuthProfile \<Rightarrow> ProviderTokens \<Rightarrow> gtime \<Rightarrow> OAuthUpsertPolicy \<Rightarrow> Record \<Rightarrow> ('s, User) prog" where
  "upsertExisting tx profile tokens at policy account =
     bindM (lift (recordString account ''userId'')) (\<lambda>userID.
     bindM (db_findOne tx (findOneQ ModelUser [Eq ''id'' (VStr userID)])) (\<lambda>row.
     bindM (lift (userFromRecord row)) (\<lambda>user.
     bindM (if pol_UpdateAccountOnSignIn policy then
         (let tokens = tokens\<lparr>pt_Scope := mergeOAuthScopes (optionalString (fld account ''scope'')) (pt_Scope tokens)\<rparr> in
          bindM (lift (recordString account ''id'')) (\<lambda>accountID.
          bindM (db_update tx (updateQ ModelAccount [Eq ''id'' (VStr accountID), Eq ''userId'' (VStr (u_ID user))]
            (tokenFields tokens at))) (\<lambda>_. ret ())))
       else ret ()) (\<lambda>_.
       verifyMatchingEmail tx profile at user))))"

definition upsertNewUser :: "OAuthProfile \<Rightarrow> Session \<Rightarrow> User" where
  "upsertNewUser profile session =
     \<lparr>u_ID = ss_UserID session, u_Email = op_Email profile, u_Name = op_Name profile,
      u_ImageURL = op_ImageURL profile, u_EmailVerified = op_EmailVerified profile,
      u_CreatedAt = ss_CreatedAt session, u_UpdatedAt = ss_CreatedAt session, u_DisabledAt = None\<rparr>"

definition upsertUser ::
  "'s database_adapter \<Rightarrow> OAuthProfile \<Rightarrow> Session \<Rightarrow> DomainEvent \<Rightarrow> OAuthUpsertPolicy \<Rightarrow>
   ('s, User \<times> bool) prog" where
  "upsertUser tx profile session event policy =
     bindM (tryM (db_findOne tx (findOneQ ModelUser [Eq ''email'' (VStr (op_Email profile))]))) (\<lambda>found.
     bindM (case found of
              Inl err \<Rightarrow> if errors_Is err ErrNotFound then ret None else fail err
            | Inr row \<Rightarrow> ret row) (\<lambda>row.
     case row of
       None \<Rightarrow>
         if \<not> pol_AllowSignUp policy then fail ErrSignUpDisabled
         else
           (let user = upsertNewUser profile session in
            bindM (db_create tx (createQ ModelUser (userRecord user))) (\<lambda>_.
            bindM (db_create tx (createQ ModelOutboxEvent (domainEventRecord event))) (\<lambda>_.
              ret (user, True))))
     | Some r \<Rightarrow>
         bindM (lift (userFromRecord (Some r))) (\<lambda>user.
           if \<not> pol_AllowImplicitLink policy \<or> (pol_RequireLocalVerification policy \<and> \<not> u_EmailVerified user)
           then fail ErrAccountNotLinked else ret (user, False))))"

definition upsertUserInfo ::
  "'s database_adapter \<Rightarrow> OAuthProfile \<Rightarrow> gtime \<Rightarrow> OAuthUpsertPolicy \<Rightarrow> User \<Rightarrow> bool \<Rightarrow> ('s, User) prog" where
  "upsertUserInfo tx profile at policy user isNew =
     (if \<not> isNew \<and> pol_UpdateUserInfoOnLink policy then
        (let update = [''updatedAt'' \<mapsto> VTime at];
             update = (if op_Name profile \<noteq> '''' then update(''name'' \<mapsto> VStr (op_Name profile)) else update);
             update = (if op_ImageURL profile \<noteq> '''' then update(''image'' \<mapsto> VStr (op_ImageURL profile)) else update) in
         if op_Name profile \<noteq> '''' \<or> op_ImageURL profile \<noteq> '''' then
           bindM (db_update tx (updateQ ModelUser [Eq ''id'' (VStr (u_ID user))] update)) (\<lambda>row.
             lift (userFromRecord row))
         else ret user)
      else ret user)"

definition upsertMissing ::
  "'s database_adapter \<Rightarrow> OAuthProfile \<Rightarrow> ProviderTokens \<Rightarrow> Session \<Rightarrow> DomainEvent \<Rightarrow> OAuthUpsertPolicy \<Rightarrow>
   ('s, User \<times> bool) prog" where
  "upsertMissing tx profile tokens session event policy =
     (let at = ss_CreatedAt session in
      bindM (upsertUser tx profile session event policy) (\<lambda>(user, isNew).
      bindM (db_create tx (createQ ModelAccount
        (oauthAccountRow (de_ID event @ '':account'') (u_ID user) profile tokens at))) (\<lambda>_.
      bindM (if \<not> isNew then verifyMatchingEmail tx profile at user else ret user) (\<lambda>user.
      bindM (upsertUserInfo tx profile at policy user isNew) (\<lambda>user. ret (user, isNew))))))"

definition UpsertOAuthUser ::
  "'s database_adapter \<Rightarrow> OAuthProfile \<Rightarrow> ProviderTokens \<Rightarrow> Session \<Rightarrow> DomainEvent \<Rightarrow> OAuthUpsertPolicy \<Rightarrow>
   ('s, User \<times> Session \<times> bool) prog" where
  "UpsertOAuthUser db profile tokens session event policy = Transaction db (
     bindM (findProfileAccount db profile (ss_CreatedAt session)) (\<lambda>account.
     bindM (case account of
         Some row \<Rightarrow> bindM (upsertExisting db profile tokens (ss_CreatedAt session) policy row) (\<lambda>user. ret (user, False))
       | None \<Rightarrow> upsertMissing db profile tokens session event policy) (\<lambda>(user, isNew).
     bindM (db_create db (createQ ModelSession (sessionRecord (session\<lparr>ss_UserID := u_ID user\<rparr>)))) (\<lambda>row.
     bindM (lift (sessionFromRecord (Some row))) (\<lambda>created.
       ret (user, created, isNew))))))"

end
