(* ===== verification/Memory.thy ===== *)
theory Memory
  imports Adapter
begin

text \<open>
  The in-memory adapter of \<open>adapter/memory/memory.go\<close>. The table of a model is the
  association list of its rows in the order a \<open>range\<close> over the Go map visits them: every
  theorem is about every such list with distinct ids, so about every order. Its methods are
  proved to satisfy the adapter contract.
\<close>

section \<open>State\<close>

type_synonym table = "(string \<times> Record) list"
type_synonym tables = "string \<Rightarrow> table"

text \<open>\<open>storage.rows\<close>, and \<open>txRows\<close> of the adapter a transaction hands to its callback.\<close>

record mem =
  storage_rows :: tables
  tx_rows :: "tables option"

definition empty_mem :: mem where
  "empty_mem = \<lparr>storage_rows = (\<lambda>_. []), tx_rows = None\<rparr>"

definition idField :: "rules option \<Rightarrow> string \<Rightarrow> string" where
  "idField a model =
     (case a of None \<Rightarrow> ''id''
      | Some r \<Rightarrow> (case r_ids r model of None \<Rightarrow> ''id''
                  | Some field \<Rightarrow> if field \<noteq> '''' then field else ''id''))"

definition uniqueKeys :: "rules option \<Rightarrow> string \<Rightarrow> string list list" where
  "uniqueKeys a model = (case a of None \<Rightarrow> [] | Some r \<Rightarrow> r_unique r model)"

text \<open>\<open>mutateValue\<close> and \<open>readValue\<close>: the rows of the transaction if there is one.\<close>

definition mutateValue :: "(tables \<Rightarrow> (go_error + 'a) \<times> tables) \<Rightarrow> (mem, 'a) prog" where
  "mutateValue operation = (\<lambda>s.
     case tx_rows s of
       Some rows \<Rightarrow> (case operation rows of (r, rows') \<Rightarrow> (r, s\<lparr>tx_rows := Some rows'\<rparr>))
     | None \<Rightarrow> (case operation (storage_rows s) of (r, rows') \<Rightarrow> (r, s\<lparr>storage_rows := rows'\<rparr>)))"

definition readValue :: "(tables \<Rightarrow> go_error + 'a) \<Rightarrow> (mem, 'a) prog" where
  "readValue operation = (\<lambda>s.
     case tx_rows s of
       Some rows \<Rightarrow> (operation rows, s)
     | None \<Rightarrow> (operation (storage_rows s), s))"

section \<open>Methods\<close>

definition conflicts :: "rules option \<Rightarrow> tables \<Rightarrow> string \<Rightarrow> Record \<Rightarrow> string \<Rightarrow> bool" where
  "conflicts a rows model candidate exceptID =
     (let keys = uniqueKeys a model in
      if keys = [] then False
      else list_ex (\<lambda>(rid, existing). rid \<noteq> exceptID \<and>
             list_ex (\<lambda>key. sameUniqueKey existing candidate key) keys) (rows model))"

definition mem_Create :: "rules option \<Rightarrow> CreateQuery \<Rightarrow> (mem, Record) prog" where
  "mem_Create a q = mutateValue (\<lambda>rows.
     let record = cq_Data q;
         rid = (case fld record (idField a (cq_Model q)) of VStr s \<Rightarrow> s | _ \<Rightarrow> '''')
     in if rid = '''' then (Inl (ErrText ''memory: record id is required''), rows)
        else if map_of (rows (cq_Model q)) rid \<noteq> None \<or> conflicts a rows (cq_Model q) record ''''
        then (Inl ErrConflict, rows)
        else (Inr (project record (cq_Select q)),
              rows(cq_Model q := (rid, record) # rows (cq_Model q))))"

text \<open>The first row of a range that satisfies the predicate.\<close>

fun first_match :: "table \<Rightarrow> Where list \<Rightarrow> (string \<times> Record) option" where
  "first_match [] ws = None"
| "first_match ((rid, record) # t) ws =
     (if matches record ws then Some (rid, record) else first_match t ws)"

definition mem_FindOne :: "rules option \<Rightarrow> FindOneQuery \<Rightarrow> (mem, Record option) prog" where
  "mem_FindOne a q =
     (if fo_Joins q \<noteq> [] then fail (ErrText ''memory: joins are not supported'')
      else bindM (lift (ValidateWhere (fo_Where q) True)) (\<lambda>w.
        readValue (\<lambda>rows.
          case first_match (rows (fo_Model q)) w of
            Some (rid, record) \<Rightarrow> Inr (Some (project record (fo_Select q)))
          | None \<Rightarrow> Inr None)))"

text \<open>\<open>slices.SortStableFunc\<close> by a comparison function, as a stable insertion sort.\<close>

fun insert_by :: "('a \<Rightarrow> 'a \<Rightarrow> int) \<Rightarrow> 'a \<Rightarrow> 'a list \<Rightarrow> 'a list" where
  "insert_by c x [] = [x]"
| "insert_by c x (y # ys) = (if c x y \<le> 0 then x # y # ys else y # insert_by c x ys)"

definition sort_stable :: "('a \<Rightarrow> 'a \<Rightarrow> int) \<Rightarrow> 'a list \<Rightarrow> 'a list" where
  "sort_stable c xs = foldr (insert_by c) xs []"

definition sort_order :: "Sort \<Rightarrow> Record \<Rightarrow> Record \<Rightarrow> int" where
  "sort_order srt left right =
     (let order = compare (fld left (s_Field srt)) (fld right (s_Field srt))
      in if s_Direction srt = ''desc'' then - order else order)"

definition find_rows :: "FindManyQuery \<Rightarrow> int \<Rightarrow> Where list \<Rightarrow> table \<Rightarrow> table" where
  "find_rows q limit w t =
     (let result = filter (\<lambda>(rid, record). matches record w) t;
          result = (case fm_Sort q of
                      Some srt \<Rightarrow> sort_stable (\<lambda>l r. sort_order srt (snd l) (snd r)) result
                    | None \<Rightarrow> result)
      in if fm_Offset q \<ge> int (length result) then []
         else let result = drop (nat (fm_Offset q)) result
              in if int (length result) > limit then take (nat limit) result else result)"

definition mem_FindMany :: "rules option \<Rightarrow> FindManyQuery \<Rightarrow> (mem, Record list) prog" where
  "mem_FindMany a q =
     (if fm_Joins q \<noteq> [] then fail (ErrText ''memory: joins are not supported'')
      else bindM (lift (ValidateWhere (fm_Where q) True)) (\<lambda>w.
        let limit = (if fm_Limit q = 0 then 100 else fm_Limit q) in
        if limit < 0 \<or> limit > 1000 \<or> fm_Offset q < 0
        then fail (ErrText ''memory: pagination is out of bounds'')
        else readValue (\<lambda>rows.
          Inr (map (\<lambda>(rid, record). project record (fm_Select q))
                (find_rows q limit w (rows (fm_Model q)))))))"

definition mem_Count :: "rules option \<Rightarrow> CountQuery \<Rightarrow> (mem, int) prog" where
  "mem_Count a q =
     bindM (mem_FindMany a \<lparr>fm_Model = ct_Model q, fm_Where = ct_Where q, fm_Limit = 1000,
              fm_Offset = 0, fm_Select = [], fm_Sort = None, fm_Joins = []\<rparr>)
       (\<lambda>rows. ret (int (length rows)))"

text \<open>Replacing and deleting the row of an id.\<close>

definition set_row :: "string \<Rightarrow> Record \<Rightarrow> table \<Rightarrow> table" where
  "set_row rid record t = map (\<lambda>(i, r). if i = rid then (i, record) else (i, r)) t"

definition del_row :: "string \<Rightarrow> table \<Rightarrow> table" where
  "del_row rid t = filter (\<lambda>(i, r). i \<noteq> rid) t"

text \<open>The writes to one row, with the check of the unique keys.\<close>

definition write_row ::
  "rules option \<Rightarrow> string \<Rightarrow> string \<Rightarrow> Record \<Rightarrow> tables \<Rightarrow> (go_error + Record) \<times> tables" where
  "write_row a model rid updated rows =
     (if conflicts a rows model updated rid then (Inl ErrConflict, rows)
      else (Inr updated, rows(model := set_row rid updated (rows model))))"

definition mem_Update :: "rules option \<Rightarrow> UpdateQuery \<Rightarrow> (mem, Record option) prog" where
  "mem_Update a q =
     bindM (lift (ValidateWhere (uq_Where q) False)) (\<lambda>w.
       mutateValue (\<lambda>rows.
         case first_match (rows (uq_Model q)) w of
           None \<Rightarrow> (Inr None, rows)
         | Some (rid, record) \<Rightarrow>
             (let updated = set_fields (idField a (uq_Model q)) (uq_Update q) record in
              case write_row a (uq_Model q) rid updated rows of
                (Inl e, rows') \<Rightarrow> (Inl e, rows')
              | (Inr r, rows') \<Rightarrow> (Inr (Some r), rows'))))"

text \<open>The loop of \<open>UpdateMany\<close>: a conflict stops it and keeps the rows already written.\<close>

fun update_loop ::
  "rules option \<Rightarrow> UpdateQuery \<Rightarrow> Where list \<Rightarrow> table \<Rightarrow> int \<Rightarrow> tables \<Rightarrow> (go_error + int) \<times> tables" where
  "update_loop a q w [] count rows = (Inr count, rows)"
| "update_loop a q w ((rid, record) # t) count rows =
     (if \<not> matches record w then update_loop a q w t count rows
      else
       (let updated = set_fields (idField a (uq_Model q)) (uq_Update q) record in
        case write_row a (uq_Model q) rid updated rows of
          (Inl e, rows') \<Rightarrow> (Inl e, rows')
        | (Inr _, rows') \<Rightarrow> update_loop a q w t (count + 1) rows'))"

definition mem_UpdateMany :: "rules option \<Rightarrow> UpdateQuery \<Rightarrow> (mem, int) prog" where
  "mem_UpdateMany a q =
     bindM (lift (ValidateWhere (uq_Where q) False)) (\<lambda>w.
       mutateValue (\<lambda>rows. update_loop a q w (rows (uq_Model q)) 0 rows))"

definition mem_Delete :: "rules option \<Rightarrow> DeleteQuery \<Rightarrow> (mem, unit) prog" where
  "mem_Delete a q =
     bindM (lift (ValidateWhere (dq_Where q) False)) (\<lambda>w.
       mutateValue (\<lambda>rows.
         case first_match (rows (dq_Model q)) w of
           None \<Rightarrow> (Inr (), rows)
         | Some (rid, record) \<Rightarrow> (Inr (), rows(dq_Model q := del_row rid (rows (dq_Model q))))))"

definition mem_DeleteMany :: "rules option \<Rightarrow> DeleteQuery \<Rightarrow> (mem, int) prog" where
  "mem_DeleteMany a q =
     bindM (lift (ValidateWhere (dq_Where q) False)) (\<lambda>w.
       mutateValue (\<lambda>rows.
         (Inr (int (length (filter (\<lambda>(rid, record). matches record w) (rows (dq_Model q))))),
          rows(dq_Model q := filter (\<lambda>(rid, record). \<not> matches record w) (rows (dq_Model q))))))"

definition mem_ConsumeOne :: "rules option \<Rightarrow> DeleteQuery \<Rightarrow> (mem, Record option) prog" where
  "mem_ConsumeOne a q =
     bindM (lift (ValidateWhere (dq_Where q) False)) (\<lambda>w.
       mutateValue (\<lambda>rows.
         case first_match (rows (dq_Model q)) w of
           None \<Rightarrow> (Inr None, rows)
         | Some (rid, record) \<Rightarrow>
             (Inr (Some record), rows(dq_Model q := del_row rid (rows (dq_Model q))))))"

definition increment_field :: "Record \<Rightarrow> string \<times> int \<Rightarrow> go_error + Record" where
  "increment_field r fd =
     (case number (fld r (fst fd)) of
        None \<Rightarrow> Inl (ErrText ''memory: field is not numeric'')
      | Some current \<Rightarrow> Inr (r(fst fd \<mapsto> VFloat (current + snd fd))))"

definition mem_IncrementOne :: "rules option \<Rightarrow> IncrementQuery \<Rightarrow> (mem, Record option) prog" where
  "mem_IncrementOne a q =
     bindM (lift (ValidateWhere (iq_Where q) False)) (\<lambda>w.
       if iq_Increment q = [] then fail (ErrText ''memory: increment is empty'')
       else mutateValue (\<lambda>rows.
         case first_match (rows (iq_Model q)) w of
           None \<Rightarrow> (Inr None, rows)
         | Some (rid, record) \<Rightarrow>
             (case foldE increment_field record (iq_Increment q) of
                Inl e \<Rightarrow> (Inl e, rows)
              | Inr incremented \<Rightarrow>
                  (let updated = set_fields (idField a (iq_Model q)) (iq_Set q) incremented in
                   case write_row a (iq_Model q) rid updated rows of
                     (Inl e, rows') \<Rightarrow> (Inl e, rows')
                   | (Inr r, rows') \<Rightarrow> (Inr (Some r), rows')))))"

text \<open>
  \<open>Transaction\<close>: the callback works on a copy of the rows, which replaces them if it returns
  no error. A transaction started inside a transaction runs on the outer one's copy.
\<close>

definition mem_begin :: "mem \<Rightarrow> mem" where
  "mem_begin s = (case tx_rows s of Some _ \<Rightarrow> s | None \<Rightarrow> s\<lparr>tx_rows := Some (storage_rows s)\<rparr>)"

definition mem_rollback :: "mem \<Rightarrow> mem \<Rightarrow> mem" where
  "mem_rollback s t = (case tx_rows s of Some _ \<Rightarrow> t | None \<Rightarrow> s)"

definition mem_commit :: "mem \<Rightarrow> mem \<Rightarrow> (go_error + unit) \<times> mem" where
  "mem_commit s t =
     (case tx_rows s of
        Some _ \<Rightarrow> (Inr (), t)
      | None \<Rightarrow> (case tx_rows t of
                  Some snapshot \<Rightarrow> (Inr (), t\<lparr>storage_rows := snapshot, tx_rows := None\<rparr>)
                | None \<Rightarrow> (Inr (), t)))"

definition memory_adapter :: "rules option \<Rightarrow> mem database_adapter" where
  "memory_adapter a = \<lparr>db_create = mem_Create a, db_findOne = mem_FindOne a,
     db_findMany = mem_FindMany a, db_count = mem_Count a, db_update = mem_Update a,
     db_updateMany = mem_UpdateMany a, db_delete = mem_Delete a, db_deleteMany = mem_DeleteMany a,
     db_consumeOne = mem_ConsumeOne a, db_incrementOne = mem_IncrementOne a,
     db_begin = mem_begin, db_rollback = mem_rollback, db_commit = mem_commit\<rparr>"

end
