(* ===== verification/Memory_Laws.thy ===== *)
theory Memory_Laws
  imports Memory "HOL-Library.Multiset"
begin

text \<open>
  The invariant of the memory adapter, the effect of each method on the table maps, and the
  interpretation of the adapter contract on it.
\<close>

section \<open>The invariant\<close>

definition table_ok :: "rules option \<Rightarrow> string \<Rightarrow> table \<Rightarrow> bool" where
  "table_ok a m t \<longleftrightarrow>
     distinct (map fst t) \<and>
     (\<forall>(i, r)\<in>set t. i \<noteq> '''' \<and> fld r (idField a m) = VStr i) \<and>
     keys_unique (uniqueKeys a m) (map_of t)"

definition tables_ok :: "rules option \<Rightarrow> tables \<Rightarrow> bool" where
  "tables_ok a rows \<longleftrightarrow> (\<forall>m. table_ok a m (rows m))"

definition mem_inv :: "rules option \<Rightarrow> mem \<Rightarrow> bool" where
  "mem_inv a s \<longleftrightarrow> tables_ok a (storage_rows s) \<and>
     (case tx_rows s of None \<Rightarrow> True | Some rows \<Rightarrow> tables_ok a rows)"

text \<open>The rows the methods see, and whether a transaction is open.\<close>

definition cur_rows :: "mem \<Rightarrow> tables" where
  "cur_rows s = (case tx_rows s of None \<Rightarrow> storage_rows s | Some rows \<Rightarrow> rows)"

definition set_rows :: "tables \<Rightarrow> mem \<Rightarrow> mem" where
  "set_rows rows s = (case tx_rows s of None \<Rightarrow> s\<lparr>storage_rows := rows\<rparr>
                      | Some _ \<Rightarrow> s\<lparr>tx_rows := Some rows\<rparr>)"

definition mem_table :: "mem \<Rightarrow> string \<Rightarrow> table_map" where
  "mem_table s m = map_of (cur_rows s m)"

definition mem_in_tx :: "mem \<Rightarrow> bool" where
  "mem_in_tx s \<longleftrightarrow> tx_rows s \<noteq> None"

lemma mutateValue_eq:
  "mutateValue f s = (case f (cur_rows s) of (r, rows) \<Rightarrow> (r, set_rows rows s))"
  by (simp add: mutateValue_def cur_rows_def set_rows_def split: option.split)

lemma readValue_eq: "readValue f s = (f (cur_rows s), s)"
  by (simp add: readValue_def cur_rows_def split: option.split)

lemma set_rows_cur [simp]: "set_rows (cur_rows s) s = s"
  by (simp add: set_rows_def cur_rows_def split: option.split)

lemma cur_set_rows [simp]: "cur_rows (set_rows rows s) = rows"
  by (simp add: set_rows_def cur_rows_def split: option.split)

lemma in_tx_set_rows [simp]: "mem_in_tx (set_rows rows s) = mem_in_tx s"
  by (simp add: set_rows_def mem_in_tx_def split: option.split)

lemma mem_inv_cur: "mem_inv a s \<Longrightarrow> tables_ok a (cur_rows s)"
  by (simp add: mem_inv_def cur_rows_def split: option.splits)

lemma mem_inv_set: "mem_inv a s \<Longrightarrow> tables_ok a rows \<Longrightarrow> mem_inv a (set_rows rows s)"
  by (simp add: mem_inv_def set_rows_def split: option.splits)

lemma mem_inv_empty: "mem_inv a empty_mem"
  by (simp add: mem_inv_def empty_mem_def tables_ok_def table_ok_def)

lemma tables_okD: "tables_ok a rows \<Longrightarrow> table_ok a m (rows m)"
  by (simp add: tables_ok_def)

lemma tables_ok_upd: "tables_ok a rows \<Longrightarrow> table_ok a m t \<Longrightarrow> tables_ok a (rows(m := t))"
  by (simp add: tables_ok_def)

lemma table_ok_row: "table_ok a m t \<Longrightarrow> map_of t i = Some r \<Longrightarrow> i \<noteq> '''' \<and> fld r (idField a m) = VStr i"
  by (auto simp: table_ok_def dest: map_of_SomeD)

section \<open>Tables\<close>

lemma map_fst_set_row [simp]: "map fst (set_row i r t) = map fst t"
  by (induction t) (auto simp: set_row_def)

lemma map_of_set_row:
  "map_of (set_row i r t) = (if i \<in> fst ` set t then (map_of t)(i \<mapsto> r) else map_of t)"
  by (induction t) (auto simp: set_row_def fun_eq_iff)

lemma map_of_del_row: "map_of (del_row i t) = (map_of t)(i := None)"
  by (induction t) (auto simp: del_row_def fun_eq_iff)

lemma distinct_filter_fst: "distinct (map fst t) \<Longrightarrow> distinct (map fst (filter P t))"
  by (induction t) auto

lemma map_of_filter_rows:
  assumes "distinct (map fst t)"
  shows "map_of (filter (\<lambda>(i, r). P i r) t) =
    (\<lambda>i. case map_of t i of None \<Rightarrow> None | Some r \<Rightarrow> if P i r then Some r else None)"
proof
  fix i
  show "map_of (filter (\<lambda>(i, r). P i r) t) i =
    (case map_of t i of None \<Rightarrow> None | Some r \<Rightarrow> if P i r then Some r else None)"
    using assms
  proof (induction t)
    case (Cons jq t)
    obtain j q where jq: "jq = (j, q)" by fastforce
    have "map_of t j = None" using Cons.prems jq by (simp add: map_of_eq_None_iff)
    with Cons jq show ?case by (cases "i = j") auto
  qed simp
qed

lemma first_match_None:
  "distinct (map fst t) \<Longrightarrow> first_match t w = None \<longleftrightarrow> hits (map_of t) w = {}"
proof (induction t)
  case (Cons ir t)
  obtain i r where ir: "ir = (i, r)" by fastforce
  have notin: "map_of t i = None" using Cons.prems ir by (simp add: map_of_eq_None_iff)
  show ?case
  proof (cases "matches r w")
    case True
    then show ?thesis using ir by (auto simp: hits_def)
  next
    case False
    have "hits (map_of (ir # t)) w = hits (map_of t) w"
      using False notin ir by (auto simp: hits_def split: if_splits)
    moreover have "first_match (ir # t) w = first_match t w" using False ir by simp
    ultimately show ?thesis using Cons by (metis distinct.simps(2) list.simps(9))
  qed
qed (simp add: hits_def)

lemma first_match_Some:
  "distinct (map fst t) \<Longrightarrow> first_match t w = Some (i, r) \<Longrightarrow> map_of t i = Some r \<and> matches r w"
proof (induction t)
  case (Cons jq t)
  obtain j q where jq: "jq = (j, q)" by fastforce
  show ?case
  proof (cases "matches q w")
    case True
    with Cons.prems jq show ?thesis by auto
  next
    case False
    with Cons jq have "map_of t i = Some r \<and> matches r w" by auto
    moreover from this Cons.prems(1) jq have "i \<noteq> j"
      by (force dest: map_of_SomeD)
    ultimately show ?thesis using jq by simp
  qed
qed simp

lemma conflicts_iff:
  assumes "table_ok a m (rows m)"
  shows "conflicts a rows m c e = key_clash (uniqueKeys a m) (map_of (rows m)) c e"
proof -
  have d: "distinct (map fst (rows m))" using assms by (simp add: table_ok_def)
  have "conflicts a rows m c e =
    (\<exists>(i, r)\<in>set (rows m). i \<noteq> e \<and> (\<exists>k\<in>set (uniqueKeys a m). sameUniqueKey r c k))"
    by (auto simp: conflicts_def Let_def list_ex_iff)
  also have "\<dots> = key_clash (uniqueKeys a m) (map_of (rows m)) c e"
    using d by (auto simp: key_clash_def dest: map_of_SomeD)
  finally show ?thesis .
qed

lemma table_ok_insert:
  assumes "table_ok a m t" and "map_of t i = None" and "\<not> key_clash (uniqueKeys a m) (map_of t) r ''''"
    and "i \<noteq> ''''" and "fld r (idField a m) = VStr i"
  shows "table_ok a m ((i, r) # t)"
proof -
  have "\<not> key_clash (uniqueKeys a m) (map_of t) r i"
    using assms(1,2,3) unfolding key_clash_def by (metis table_ok_row)
  with assms show ?thesis
    using keys_unique_upd [of "uniqueKeys a m" "map_of t" r i]
    by (auto simp: table_ok_def map_of_eq_None_iff)
qed

lemma table_ok_set_row:
  assumes "table_ok a m t" and "map_of t i = Some r0" and "\<not> key_clash (uniqueKeys a m) (map_of t) r i"
    and "fld r (idField a m) = VStr i"
  shows "table_ok a m (set_row i r t)"
proof -
  from assms(2) have i: "i \<in> fst ` set t" by (metis domI dom_map_of_conv_image_fst)
  have "i \<noteq> ''''" using assms(1,2) by (metis table_ok_row)
  then have "\<forall>(j, q)\<in>set (set_row i r t). j \<noteq> '''' \<and> fld q (idField a m) = VStr j"
    using assms(1,4) by (auto simp: set_row_def table_ok_def split: if_splits)
  with assms i show ?thesis
    using keys_unique_upd [of "uniqueKeys a m" "map_of t" r i]
    by (simp add: table_ok_def map_of_set_row)
qed

lemma table_ok_filter:
  assumes "table_ok a m t" shows "table_ok a m (filter P t)"
proof -
  have "\<And>i r. map_of (filter P t) i = Some r \<Longrightarrow> map_of t i = Some r"
  proof -
    fix i r assume "map_of (filter P t) i = Some r"
    then have "(i, r) \<in> set t" by (auto dest: map_of_SomeD)
    with assms show "map_of t i = Some r" by (simp add: table_ok_def)
  qed
  moreover have "keys_unique (uniqueKeys a m) (map_of t)" using assms by (simp add: table_ok_def)
  ultimately have "keys_unique (uniqueKeys a m) (map_of (filter P t))"
    by (rule keys_unique_sub [rotated])
  with assms show ?thesis by (auto simp: table_ok_def distinct_filter_fst)
qed

lemma table_ok_del_row: "table_ok a m t \<Longrightarrow> table_ok a m (del_row i t)"
  by (simp add: del_row_def table_ok_filter)

lemma write_row_cases:
  assumes ok: "tables_ok a rows" and row: "map_of (rows m) i = Some r0"
    and idr: "fld r (idField a m) = VStr i"
  shows "if key_clash (uniqueKeys a m) (map_of (rows m)) r i
    then write_row a m i r rows = (Inl ErrConflict, rows)
    else write_row a m i r rows = (Inr r, rows(m := set_row i r (rows m))) \<and>
         tables_ok a (rows(m := set_row i r (rows m))) \<and>
         map_of (set_row i r (rows m)) = (map_of (rows m))(i \<mapsto> r)"
proof -
  from row have "i \<in> fst ` set (rows m)" by (metis domI dom_map_of_conv_image_fst)
  then show ?thesis
    using conflicts_iff [of a m rows, OF tables_okD [OF ok]] table_ok_set_row [OF tables_okD [OF ok] row _ idr]
      tables_ok_upd [OF ok]
    by (auto simp: write_row_def map_of_set_row)
qed

lemma update_loop_cases:
  assumes "tables_ok a rows" and "distinct (map fst t)"
    and "\<And>i r. (i, r) \<in> set t \<Longrightarrow> map_of (rows (uq_Model q)) i = Some r"
    and "update_loop a q w t n rows = (res, rows')"
  shows "tables_ok a rows' \<and> (\<forall>m. m \<noteq> uq_Model q \<longrightarrow> rows' m = rows m) \<and>
    (case res of
       Inl e \<Rightarrow> e = ErrConflict \<and>
         (\<exists>k\<in>set (uniqueKeys a (uq_Model q)). \<exists>f\<in>set k. uq_Update q f \<noteq> None)
     | Inr n' \<Rightarrow> map_of (rows' (uq_Model q)) = (\<lambda>i. case map_of (rows (uq_Model q)) i of None \<Rightarrow> None
         | Some r \<Rightarrow> Some (if i \<in> fst ` set t \<and> matches r w
              then set_fields (idField a (uq_Model q)) (uq_Update q) r else r)))"
  using assms
proof (induction t arbitrary: n rows)
  case Nil
  then show ?case by (auto simp: fun_eq_iff split: option.split)
next
  case (Cons ir t)
  let ?m = "uq_Model q"
  obtain i r where ir: "ir = (i, r)" by fastforce
  have row: "map_of (rows ?m) i = Some r" using Cons.prems(3) ir by simp
  have i_t: "i \<notin> fst ` set t" using Cons.prems(2) ir by simp
  show ?case
  proof (cases "matches r w")
    case False
    from False Cons.prems(4) ir have run: "update_loop a q w t n rows = (res, rows')" by simp
    have "\<And>j x. (j, x) \<in> set t \<Longrightarrow> map_of (rows ?m) j = Some x" using Cons.prems(3) by simp
    note ih = Cons.IH [OF Cons.prems(1) _ this run]
    have "\<And>j x. map_of (rows ?m) j = Some x \<Longrightarrow>
        (j \<in> fst ` set t \<and> matches x w) = (j \<in> fst ` set (ir # t) \<and> matches x w)"
      using False row ir by auto
    with ih Cons.prems(2) show ?thesis
      by (auto simp: fun_eq_iff split: sum.splits option.splits)
  next
    case True
    let ?u = "set_fields (idField a ?m) (uq_Update q) r"
    let ?rows1 = "rows(?m := set_row i ?u (rows ?m))"
    have idu: "fld ?u (idField a ?m) = VStr i"
      using table_ok_row [OF tables_okD [OF Cons.prems(1)] row] by (simp add: fld_def)
    note w = write_row_cases [OF Cons.prems(1) row idu]
    show ?thesis
    proof (cases "key_clash (uniqueKeys a ?m) (map_of (rows ?m)) ?u i")
      case clash: True
      with w True Cons.prems(4) ir have "res = Inl ErrConflict" "rows' = rows" by auto
      moreover have "\<exists>k\<in>set (uniqueKeys a ?m). \<exists>f\<in>set k. uq_Update q f \<noteq> None"
      proof (rule ccontr)
        assume "\<not> ?thesis"
        then have "\<And>k f. k \<in> set (uniqueKeys a ?m) \<Longrightarrow> f \<in> set k \<Longrightarrow> fld ?u f = fld r f"
          by (simp add: fld_set_fields)
        moreover have "keys_unique (uniqueKeys a ?m) (map_of (rows ?m))"
          using tables_okD [OF Cons.prems(1), of ?m] by (simp add: table_ok_def)
        ultimately show False
          using no_clash_untouched [of "uniqueKeys a ?m" "map_of (rows ?m)" i r ?u] row clash by blast
      qed
      ultimately show ?thesis using Cons.prems(1) by simp
    next
      case ok: False
      from w ok have w': "write_row a ?m i ?u rows = (Inr ?u, ?rows1)" "tables_ok a ?rows1"
        "map_of (set_row i ?u (rows ?m)) = (map_of (rows ?m))(i \<mapsto> ?u)" by simp_all
      from True Cons.prems(4) ir w'(1)
      have run: "update_loop a q w t (n + 1) ?rows1 = (res, rows')" by (simp add: Let_def)
      have "\<And>j x. (j, x) \<in> set t \<Longrightarrow> map_of (?rows1 ?m) j = Some x"
        using Cons.prems(3) i_t w'(3) by force
      from Cons.IH [OF w'(2) _ this run] Cons.prems(2) ir True row i_t w'(3) show ?thesis
        by (auto simp: fun_eq_iff split: sum.splits option.splits)
    qed
  qed
qed

section \<open>The methods\<close>

lemma mem_table_set [simp]: "mem_table (set_rows rows s) m = map_of (rows m)"
  by (simp add: mem_table_def)

lemma mem_create_cases:
  assumes inv: "mem_inv a s" and idd: "fld (cq_Data q) (idField a (cq_Model q)) = VStr i" and ne: "i \<noteq> ''''"
  shows "if mem_table s (cq_Model q) i \<noteq> None \<or>
      key_clash (uniqueKeys a (cq_Model q)) (mem_table s (cq_Model q)) (cq_Data q) ''''
    then mem_Create a q s = (Inl ErrConflict, s)
    else \<exists>s'. mem_Create a q s = (Inr (project (cq_Data q) (cq_Select q)), s') \<and> mem_inv a s' \<and>
      mem_in_tx s' = mem_in_tx s \<and>
      mem_table s' = (mem_table s)(cq_Model q := (mem_table s (cq_Model q))(i \<mapsto> cq_Data q))"
proof -
  let ?m = "cq_Model q" and ?rows = "cur_rows s"
  note ok = tables_okD [OF mem_inv_cur [OF inv], of ?m]
  note cf = conflicts_iff [of a ?m ?rows, OF ok]
  show ?thesis
  proof (cases "mem_table s ?m i \<noteq> None \<or> key_clash (uniqueKeys a ?m) (mem_table s ?m) (cq_Data q) ''''")
    case True
    with cf idd ne show ?thesis
      by (auto simp: mem_Create_def mutateValue_eq mem_table_def Let_def)
  next
    case False
    let ?t = "(i, cq_Data q) # ?rows ?m"
    have "table_ok a ?m ?t"
      using False ok ne idd by (intro table_ok_insert) (auto simp: mem_table_def)
    then have "mem_inv a (set_rows (?rows(?m := ?t)) s)"
      using inv by (intro mem_inv_set tables_ok_upd mem_inv_cur)
    moreover have "mem_Create a q s =
        (Inr (project (cq_Data q) (cq_Select q)), set_rows (?rows(?m := ?t)) s)"
      using False cf idd ne by (auto simp: mem_Create_def mutateValue_eq mem_table_def Let_def)
    ultimately show ?thesis using False by (auto simp: fun_eq_iff mem_table_def)
  qed
qed

lemma mem_create_no_id:
  assumes "\<nexists>i. fld (cq_Data q) (idField a (cq_Model q)) = VStr i \<and> i \<noteq> ''''"
  shows "\<exists>e. mem_Create a q s = (Inl e, s)"
  using assms by (auto simp: mem_Create_def mutateValue_eq Let_def split: val.splits)

lemma mem_find_cases:
  assumes inv: "mem_inv a s" and "fo_Joins q = []" and "ValidateWhere (fo_Where q) True = Inr w"
  shows "\<exists>res. mem_FindOne a q s = (Inr res, s) \<and>
    (case res of None \<Rightarrow> hits (mem_table s (fo_Model q)) w = {}
     | Some p \<Rightarrow> \<exists>i r. mem_table s (fo_Model q) i = Some r \<and> matches r w \<and> p = project r (fo_Select q))"
proof -
  have d: "distinct (map fst (cur_rows s (fo_Model q)))"
    using tables_okD [OF mem_inv_cur [OF inv]] by (simp add: table_ok_def)
  show ?thesis
  proof (cases "first_match (cur_rows s (fo_Model q)) w")
    case None
    moreover from this have "hits (mem_table s (fo_Model q)) w = {}"
      using first_match_None [OF d] by (simp add: mem_table_def)
    ultimately show ?thesis using assms by (simp add: mem_FindOne_def readValue_eq)
  next
    case (Some ir)
    obtain i r where "ir = (i, r)" by fastforce
    with Some assms first_match_Some [OF d, of w i r] show ?thesis
      by (auto simp: mem_FindOne_def readValue_eq mem_table_def)
  qed
qed

text \<open>The three methods that write to, or take, the first matching row.\<close>

lemma first_match_cases:
  assumes inv: "mem_inv a s"
  obtains (none) "first_match (cur_rows s m) w = None" and "hits (mem_table s m) w = {}"
  | (some) i r where "first_match (cur_rows s m) w = Some (i, r)" and "mem_table s m i = Some r"
      and "matches r w" and "i \<noteq> ''''" and "fld r (idField a m) = VStr i"
proof -
  have ok: "table_ok a m (cur_rows s m)" using inv by (intro tables_okD mem_inv_cur)
  then have d: "distinct (map fst (cur_rows s m))" by (simp add: table_ok_def)
  show thesis
  proof (cases "first_match (cur_rows s m) w")
    case None
    with first_match_None [OF d] show thesis by (auto simp: mem_table_def intro: none)
  next
    case (Some ir)
    then obtain i r where "first_match (cur_rows s m) w = Some (i, r)" by (cases ir) auto
    with first_match_Some [OF d this] table_ok_row [OF ok, of i r] show thesis
      by (auto simp: mem_table_def intro: some)
  qed
qed

lemma mem_update_cases:
  assumes inv: "mem_inv a s" and v: "ValidateWhere (uq_Where q) False = Inr w"
  shows "(hits (mem_table s (uq_Model q)) w = {} \<and> mem_Update a q s = (Inr None, s)) \<or>
    (\<exists>i r. mem_table s (uq_Model q) i = Some r \<and> matches r w \<and>
      (let r' = set_fields (idField a (uq_Model q)) (uq_Update q) r in
       if key_clash (uniqueKeys a (uq_Model q)) (mem_table s (uq_Model q)) r' i
       then mem_Update a q s = (Inl ErrConflict, s)
       else \<exists>s'. mem_Update a q s = (Inr (Some r'), s') \<and> mem_inv a s' \<and> mem_in_tx s' = mem_in_tx s \<and>
              mem_table s' = (mem_table s)(uq_Model q := (mem_table s (uq_Model q))(i \<mapsto> r'))))"
    (is "?none \<or> ?some")
  using inv
proof (cases rule: first_match_cases [where m = "uq_Model q" and w = w])
  case none
  then have ?none using v by (simp add: mem_Update_def mutateValue_eq)
  then show ?thesis ..
next
  case (some i r)
  let ?m = "uq_Model q"
  let ?u = "set_fields (idField a ?m) (uq_Update q) r"
  let ?rows = "(cur_rows s)(?m := set_row i ?u (cur_rows s ?m))"
  have idu: "fld ?u (idField a ?m) = VStr i" using some(5) by (simp add: fld_def)
  note w = write_row_cases [OF mem_inv_cur [OF inv] some(2) [unfolded mem_table_def] idu]
  have ?some
  proof (cases "key_clash (uniqueKeys a ?m) (mem_table s ?m) ?u i")
    case True
    with w v some show ?thesis
      by (intro exI [of _ i] exI [of _ r])
        (simp add: mem_Update_def mutateValue_eq mem_table_def)
  next
    case False
    with w have w': "write_row a ?m i ?u (cur_rows s) = (Inr ?u, ?rows)" "tables_ok a ?rows"
      "map_of (set_row i ?u (cur_rows s ?m)) = (map_of (cur_rows s ?m))(i \<mapsto> ?u)"
      by (simp_all add: mem_table_def)
    have "mem_Update a q s = (Inr (Some ?u), set_rows ?rows s)"
      using w'(1) v some by (simp add: mem_Update_def mutateValue_eq)
    moreover have "mem_table (set_rows ?rows s) = (mem_table s)(?m := (mem_table s ?m)(i \<mapsto> ?u))"
      using w'(3) by (auto simp: fun_eq_iff mem_table_def)
    ultimately show ?thesis
      using some(2,3) False mem_inv_set [OF inv w'(2)]
      by (intro exI [of _ i] exI [of _ r]) (auto simp: Let_def)
  qed
  then show ?thesis ..
qed

lemma mem_updateMany_cases:
  assumes inv: "mem_inv a s" and v: "ValidateWhere (uq_Where q) False = Inr w"
  shows "\<exists>s'. mem_inv a s' \<and> mem_in_tx s' = mem_in_tx s \<and>
      (\<forall>m. m \<noteq> uq_Model q \<longrightarrow> mem_table s' m = mem_table s m) \<and>
      (mem_UpdateMany a q s = (Inl ErrConflict, s') \<and>
         (\<exists>k\<in>set (uniqueKeys a (uq_Model q)). \<exists>f\<in>set k. uq_Update q f \<noteq> None) \<or>
       (\<exists>n. mem_UpdateMany a q s = (Inr n, s') \<and>
         mem_table s' (uq_Model q) = (\<lambda>i. case mem_table s (uq_Model q) i of None \<Rightarrow> None
           | Some r \<Rightarrow> Some (if matches r w
                then set_fields (idField a (uq_Model q)) (uq_Update q) r else r))))"
proof -
  let ?m = "uq_Model q" and ?rows = "cur_rows s"
  obtain res rows' where run: "update_loop a q w (?rows ?m) 0 ?rows = (res, rows')" by fastforce
  have ok: "table_ok a ?m (?rows ?m)" using inv by (intro tables_okD mem_inv_cur)
  then have d: "distinct (map fst (?rows ?m))" by (simp add: table_ok_def)
  then have "\<And>i r. (i, r) \<in> set (?rows ?m) \<Longrightarrow> map_of (?rows ?m) i = Some r" by simp
  note c = update_loop_cases [OF mem_inv_cur [OF inv] d this run]
  have eq: "mem_UpdateMany a q s = (res, set_rows rows' s)"
    using v run by (simp add: mem_UpdateMany_def mutateValue_eq)
  have dom: "\<And>i r. map_of (?rows ?m) i = Some r \<Longrightarrow> i \<in> fst ` set (?rows ?m)"
    by (metis domI dom_map_of_conv_image_fst)
  show ?thesis
    using c eq mem_inv_set [OF inv] dom
    by (intro exI [of _ "set_rows rows' s"])
      (auto simp: mem_table_def fun_eq_iff split: sum.splits option.splits)
qed

lemma mem_delete_cases:
  assumes inv: "mem_inv a s" and v: "ValidateWhere (dq_Where q) False = Inr w"
  shows "\<exists>s'. mem_Delete a q s = (Inr (), s') \<and> mem_inv a s' \<and> mem_in_tx s' = mem_in_tx s \<and>
    (hits (mem_table s (dq_Model q)) w = {} \<and> mem_table s' = mem_table s \<or>
     (\<exists>i\<in>hits (mem_table s (dq_Model q)) w.
        mem_table s' = (mem_table s)(dq_Model q := (mem_table s (dq_Model q))(i := None))))"
  using inv
proof (cases rule: first_match_cases [where m = "dq_Model q" and w = w])
  case none
  with v inv show ?thesis by (intro exI [of _ s]) (simp add: mem_Delete_def mutateValue_eq)
next
  case (some i r)
  let ?rows = "(cur_rows s)(dq_Model q := del_row i (cur_rows s (dq_Model q)))"
  have "mem_inv a (set_rows ?rows s)"
    using inv by (intro mem_inv_set tables_ok_upd table_ok_del_row tables_okD mem_inv_cur)
  moreover have "i \<in> hits (mem_table s (dq_Model q)) w" using some by (auto simp: hits_def)
  moreover have "mem_table (set_rows ?rows s) = (mem_table s)(dq_Model q := (mem_table s (dq_Model q))(i := None))"
    by (auto simp: fun_eq_iff mem_table_def map_of_del_row)
  ultimately show ?thesis using v some
    by (intro exI [of _ "set_rows ?rows s"]) (auto simp: mem_Delete_def mutateValue_eq)
qed

lemma mem_deleteMany_cases:
  assumes inv: "mem_inv a s" and v: "ValidateWhere (dq_Where q) False = Inr w"
  shows "\<exists>s' n. mem_DeleteMany a q s = (Inr n, s') \<and> mem_inv a s' \<and> mem_in_tx s' = mem_in_tx s \<and>
    mem_table s' = (mem_table s)(dq_Model q := (\<lambda>i. if i \<in> hits (mem_table s (dq_Model q)) w then None
                                  else mem_table s (dq_Model q) i))"
proof -
  let ?m = "dq_Model q"
  let ?rows = "(cur_rows s)(?m := filter (\<lambda>(i, r). \<not> matches r w) (cur_rows s ?m))"
  have ok: "table_ok a ?m (cur_rows s ?m)" using inv by (intro tables_okD mem_inv_cur)
  have "mem_inv a (set_rows ?rows s)"
    using inv ok by (intro mem_inv_set tables_ok_upd table_ok_filter mem_inv_cur)
  moreover have "mem_table (set_rows ?rows s) = (mem_table s)(?m := (\<lambda>i. if i \<in> hits (mem_table s ?m) w then None
                                  else mem_table s ?m i))"
    using ok map_of_filter_rows [of "cur_rows s ?m" "\<lambda>i r. \<not> matches r w"]
    by (intro ext) (simp add: mem_table_def hits_iff table_ok_def split: option.split)
  ultimately show ?thesis using v
    by (intro exI [of _ "set_rows ?rows s"]) (auto simp: mem_DeleteMany_def mutateValue_eq)
qed

lemma mem_consume_cases:
  assumes inv: "mem_inv a s" and v: "ValidateWhere (dq_Where q) False = Inr w"
  shows "(hits (mem_table s (dq_Model q)) w = {} \<and> mem_ConsumeOne a q s = (Inr None, s)) \<or>
    (\<exists>i r s'. mem_table s (dq_Model q) i = Some r \<and> matches r w \<and>
      mem_ConsumeOne a q s = (Inr (Some r), s') \<and> mem_inv a s' \<and> mem_in_tx s' = mem_in_tx s \<and>
      mem_table s' = (mem_table s)(dq_Model q := (mem_table s (dq_Model q))(i := None)))"
  using inv
proof (cases rule: first_match_cases [where m = "dq_Model q" and w = w])
  case none
  with v show ?thesis by (simp add: mem_ConsumeOne_def mutateValue_eq)
next
  case (some i r)
  let ?rows = "(cur_rows s)(dq_Model q := del_row i (cur_rows s (dq_Model q)))"
  have "mem_inv a (set_rows ?rows s)"
    using inv by (intro mem_inv_set tables_ok_upd table_ok_del_row tables_okD mem_inv_cur)
  moreover have "mem_table (set_rows ?rows s) = (mem_table s)(dq_Model q := (mem_table s (dq_Model q))(i := None))"
    by (auto simp: fun_eq_iff mem_table_def map_of_del_row)
  moreover have "mem_ConsumeOne a q s = (Inr (Some r), set_rows ?rows s)"
    using v some by (simp add: mem_ConsumeOne_def mutateValue_eq)
  ultimately show ?thesis using some(2,3) by auto
qed

section \<open>Listing\<close>

lemma mset_insert_by: "mset (insert_by c x xs) = add_mset x (mset xs)"
  by (induction xs) auto

lemma mset_sort_stable [simp]: "mset (sort_stable c xs) = mset xs"
  unfolding sort_stable_def by (induction xs) (auto simp: mset_insert_by)

lemma set_sort_stable [simp]: "set (sort_stable c xs) = set xs"
  by (metis mset_sort_stable set_mset_mset)

lemma length_sort_stable [simp]: "length (sort_stable c xs) = length xs"
  by (metis mset_sort_stable size_mset)

lemma sorted_insert_by:
  assumes "sorted_wrt (\<lambda>a b. c a b \<le> 0) xs"
    and "\<And>a b. a \<in> set (x # xs) \<Longrightarrow> b \<in> set (x # xs) \<Longrightarrow> c a b \<le> 0 \<or> c b a \<le> (0::int)"
    and "\<And>a b d. a \<in> set (x # xs) \<Longrightarrow> b \<in> set (x # xs) \<Longrightarrow> d \<in> set (x # xs) \<Longrightarrow>
      c a b \<le> 0 \<Longrightarrow> c b d \<le> 0 \<Longrightarrow> c a d \<le> 0"
  shows "sorted_wrt (\<lambda>a b. c a b \<le> 0) (insert_by c x xs)"
  using assms
proof (induction xs)
  case Nil
  show ?case by simp
next
  case (Cons y ys)
  have ins: "set (insert_by c x ys) = insert x (set ys)"
    by (metis mset_insert_by set_mset_add_mset_insert set_mset_mset)
  show ?case
  proof (cases "c x y \<le> 0")
    case True
    then show ?thesis using Cons.prems(1) Cons.prems(3) [of x y] by auto
  next
    case False
    have "sorted_wrt (\<lambda>a b. c a b \<le> 0) (insert_by c x ys)"
    proof (rule Cons.IH)
      show "sorted_wrt (\<lambda>a b. c a b \<le> 0) ys" using Cons.prems(1) by simp
    next
      fix a b assume "a \<in> set (x # ys)" "b \<in> set (x # ys)"
      then show "c a b \<le> 0 \<or> c b a \<le> 0" using Cons.prems(2) [of a b] by auto
    next
      fix a b d assume "a \<in> set (x # ys)" "b \<in> set (x # ys)" "d \<in> set (x # ys)" "c a b \<le> 0" "c b d \<le> 0"
      then show "c a d \<le> 0" using Cons.prems(3) [of a b d] by auto
    qed
    moreover have "c y x \<le> 0" using False Cons.prems(2) [of x y] by auto
    ultimately show ?thesis using False Cons.prems(1) ins by auto
  qed
qed

lemma sorted_sort_stable:
  assumes "\<And>a b. a \<in> set xs \<Longrightarrow> b \<in> set xs \<Longrightarrow> c a b \<le> 0 \<or> c b a \<le> (0::int)"
    and "\<And>a b d. a \<in> set xs \<Longrightarrow> b \<in> set xs \<Longrightarrow> d \<in> set xs \<Longrightarrow>
      c a b \<le> 0 \<Longrightarrow> c b d \<le> 0 \<Longrightarrow> c a d \<le> 0"
  shows "sorted_wrt (\<lambda>a b. c a b \<le> 0) (sort_stable c xs)"
  using assms
proof (induction xs)
  case Nil
  show ?case by (simp add: sort_stable_def)
next
  case (Cons x xs)
  have sorted: "sorted_wrt (\<lambda>a b. c a b \<le> 0) (sort_stable c xs)"
  proof (rule Cons.IH)
    fix a b assume "a \<in> set xs" "b \<in> set xs"
    then show "c a b \<le> 0 \<or> c b a \<le> 0" using Cons.prems(1) [of a b] by auto
  next
    fix a b d assume "a \<in> set xs" "b \<in> set xs" "d \<in> set xs" "c a b \<le> 0" "c b d \<le> 0"
    then show "c a d \<le> 0" using Cons.prems(2) [of a b d] by auto
  qed
  have "sorted_wrt (\<lambda>a b. c a b \<le> 0) (insert_by c x (sort_stable c xs))"
  proof (rule sorted_insert_by [OF sorted])
    fix a b assume "a \<in> set (x # sort_stable c xs)" "b \<in> set (x # sort_stable c xs)"
    then show "c a b \<le> 0 \<or> c b a \<le> 0" using Cons.prems(1) [of a b] by simp
  next
    fix a b d assume "a \<in> set (x # sort_stable c xs)" "b \<in> set (x # sort_stable c xs)"
      "d \<in> set (x # sort_stable c xs)" "c a b \<le> 0" "c b d \<le> 0"
    then show "c a d \<le> 0" using Cons.prems(2) [of a b d] by simp
  qed
  then show ?case by (simp add: sort_stable_def)
qed

text \<open>The rows a listing returns, before the projection.\<close>

lemma find_rows_props:
  assumes d: "distinct (map fst t)" and off: "fm_Offset q = 0" and lim: "0 \<le> limit"
  shows "set (find_rows q limit w t) \<subseteq> {(i, r). map_of t i = Some r \<and> matches r w}"
    and "distinct (map fst (find_rows q limit w t))"
    and "int (length (find_rows q limit w t)) \<le> limit"
    and "int (length (find_rows q limit w t)) < limit \<Longrightarrow>
      fst ` set (find_rows q limit w t) = hits (map_of t) w"
proof -
  define f where "f = filter (\<lambda>(i, r). matches r w) t"
  define g where "g = (case fm_Sort q of None \<Rightarrow> f
      | Some srt \<Rightarrow> sort_stable (\<lambda>l r. sort_order srt (snd l) (snd r)) f)"
  have g: "mset g = mset f" by (simp add: g_def split: option.split)
  have sg: "set g = set f" using g by (metis set_mset_mset)
  have dg: "distinct (map fst g)"
    using d g by (metis distinct_filter_fst f_def mset_eq_imp_distinct_iff mset_map)
  have r: "find_rows q limit w t = take (nat limit) g"
    using off lim by (auto simp: find_rows_def Let_def f_def g_def split: option.splits)
  have sf: "set f = {(i, r). map_of t i = Some r \<and> matches r w}"
    using d by (auto simp: f_def)
  show "set (find_rows q limit w t) \<subseteq> {(i, r). map_of t i = Some r \<and> matches r w}"
    using r sg sf by (metis set_take_subset)
  show "distinct (map fst (find_rows q limit w t))"
    using dg r by (simp flip: take_map)
  show "int (length (find_rows q limit w t)) \<le> limit" using r lim by simp
  assume "int (length (find_rows q limit w t)) < limit"
  then have "find_rows q limit w t = g" using r lim by simp
  then show "fst ` set (find_rows q limit w t) = hits (map_of t) w"
    using sg sf by (force simp: hits_def)
qed

lemma mem_findMany_cases:
  assumes inv: "mem_inv a s" and q: "fm_Joins q = []" "fm_Offset q = 0" "fm_Select q = []"
    "0 \<le> fm_Limit q" "fm_Limit q \<le> 1000" and v: "ValidateWhere (fm_Where q) True = Inr w"
  shows "\<exists>ids rs. mem_FindMany a q s = (Inr rs, s) \<and> distinct ids \<and>
    set ids \<subseteq> hits (mem_table s (fm_Model q)) w \<and> map Some rs = map (mem_table s (fm_Model q)) ids \<and>
    (let limit = (if fm_Limit q = 0 then 100 else fm_Limit q) in
     int (length ids) \<le> limit \<and>
     (int (length ids) < limit \<longrightarrow> set ids = hits (mem_table s (fm_Model q)) w))"
proof -
  define limit where "limit = (if fm_Limit q = 0 then 100 else fm_Limit q)"
  let ?t = "cur_rows s (fm_Model q)"
  have d: "distinct (map fst ?t)"
    using tables_okD [OF mem_inv_cur [OF inv]] by (simp add: table_ok_def)
  have lim: "0 \<le> limit" "limit \<le> 1000" using q by (auto simp: limit_def)
  define rows where "rows = find_rows q limit w ?t"
  note p = find_rows_props [OF d q(2) lim(1), of w, folded rows_def]
  have "mem_FindMany a q s = (Inr (map snd rows), s)"
    using q v lim by (simp add: mem_FindMany_def readValue_eq limit_def [symmetric] rows_def
        case_prod_unfold Let_def)
  moreover have "map Some (map snd rows) = map (mem_table s (fm_Model q)) (map fst rows)"
    using p(1) by (auto simp: mem_table_def)
  moreover have "set (map fst rows) \<subseteq> hits (mem_table s (fm_Model q)) w"
    using p(1) by (auto simp: mem_table_def hits_def)
  ultimately show ?thesis
    using p(2-4) unfolding limit_def [symmetric]
    by (intro exI [of _ "map fst rows"] exI [of _ "map snd rows"]) (simp add: mem_table_def)
qed

lemma mem_count_cases:
  assumes inv: "mem_inv a s" and v: "ValidateWhere (ct_Where q) True = Inr w"
  shows "\<exists>n. mem_Count a q s = (Inr n, s) \<and> 0 \<le> n \<and> n \<le> int (card (hits (mem_table s (ct_Model q)) w)) \<and>
    (n < 1000 \<longrightarrow> n = int (card (hits (mem_table s (ct_Model q)) w)))"
proof -
  let ?q = "\<lparr>fm_Model = ct_Model q, fm_Where = ct_Where q, fm_Limit = 1000, fm_Offset = 0,
     fm_Select = [], fm_Sort = None, fm_Joins = []\<rparr>"
  let ?h = "hits (mem_table s (ct_Model q)) w"
  from mem_findMany_cases [OF inv, of ?q w] v obtain ids rs where
    f: "mem_FindMany a ?q s = (Inr rs, s)" "distinct ids" "set ids \<subseteq> ?h"
      "map Some rs = map (mem_table s (ct_Model q)) ids"
      "int (length ids) \<le> 1000" "int (length ids) < 1000 \<longrightarrow> set ids = ?h"
    by auto
  have len: "length rs = length ids" using f(4) by (metis length_map)
  have "finite ?h"
    by (rule finite_subset [of _ "dom (mem_table s (ct_Model q))"])
      (auto simp: hits_def mem_table_def finite_dom_map_of)
  then have "length ids \<le> card ?h" using f(2,3) by (metis card_mono distinct_card)
  moreover have "int (length ids) < 1000 \<longrightarrow> length ids = card ?h"
    using f(2,6) by (metis distinct_card)
  ultimately show ?thesis using f(1) len by (simp add: mem_Count_def bindM_def ret_def)
qed

section \<open>Transactions\<close>

lemma mem_table_eq: "mem_table s = (\<lambda>m. map_of (cur_rows s m))"
  by (simp add: fun_eq_iff mem_table_def)

lemma mem_begin_props:
  "mem_inv a s \<Longrightarrow> mem_inv a (mem_begin s) \<and> mem_table (mem_begin s) = mem_table s \<and> mem_in_tx (mem_begin s)"
  by (auto simp: mem_begin_def mem_inv_def mem_in_tx_def mem_table_eq cur_rows_def
      split: option.splits)

lemma mem_commit_props:
  "mem_inv a s \<Longrightarrow> \<not> mem_in_tx s \<Longrightarrow> mem_inv a t \<Longrightarrow> mem_in_tx t \<Longrightarrow>
   \<exists>u. mem_commit s t = (Inr (), u) \<and> mem_inv a u \<and> \<not> mem_in_tx u \<and> mem_table u = mem_table t"
  by (auto simp: mem_commit_def mem_inv_def mem_in_tx_def mem_table_eq cur_rows_def
      split: option.splits)

section \<open>The contract holds\<close>

lemma memory_adapter_sel [simp]:
  "db_create (memory_adapter a) = mem_Create a" "db_findOne (memory_adapter a) = mem_FindOne a"
  "db_findMany (memory_adapter a) = mem_FindMany a" "db_count (memory_adapter a) = mem_Count a"
  "db_update (memory_adapter a) = mem_Update a" "db_updateMany (memory_adapter a) = mem_UpdateMany a"
  "db_delete (memory_adapter a) = mem_Delete a" "db_deleteMany (memory_adapter a) = mem_DeleteMany a"
  "db_consumeOne (memory_adapter a) = mem_ConsumeOne a"
  "db_incrementOne (memory_adapter a) = mem_IncrementOne a" "db_begin (memory_adapter a) = mem_begin"
  "db_rollback (memory_adapter a) = mem_rollback" "db_commit (memory_adapter a) = mem_commit"
  by (simp_all add: memory_adapter_def)

interpretation mem: database_contract "memory_adapter a" mem_table "mem_inv a" mem_in_tx
  "uniqueKeys a" "idField a" for a
proof (unfold_locales, goal_cases)
  case (1 s m i r)
  then show ?case
    using table_ok_row [OF tables_okD [OF mem_inv_cur]] by (simp add: mem_table_def)
next
  case (2 s m)
  then show ?case
    using tables_okD [OF mem_inv_cur, of a s m] by (simp add: mem_table_def table_ok_def)
next
  case (3 s m)
  show ?case by (simp add: mem_table_def finite_dom_map_of)
next
  case (4 s fq w)
  then show ?case unfolding memory_adapter_sel by (rule mem_find_cases)
next
  case (5 s mq w)
  then show ?case unfolding memory_adapter_sel by (rule mem_findMany_cases)
next
  case (6 s nq w)
  then show ?case unfolding memory_adapter_sel by (rule mem_count_cases)
next
  case (7 s kq i)
  then show ?case unfolding memory_adapter_sel by (rule mem_create_cases)
next
  case (8 s kq)
  then show ?case unfolding memory_adapter_sel by (intro mem_create_no_id)
next
  case (9 s uq w)
  then show ?case unfolding memory_adapter_sel by (rule mem_update_cases)
next
  case (10 s uq w)
  then show ?case unfolding memory_adapter_sel by (rule mem_updateMany_cases)
next
  case (11 s dq w)
  then show ?case unfolding memory_adapter_sel by (rule mem_delete_cases)
next
  case (12 s dq w)
  then show ?case unfolding memory_adapter_sel by (rule mem_deleteMany_cases)
next
  case (13 s dq w)
  then show ?case unfolding memory_adapter_sel by (rule mem_consume_cases)
next
  case (14 s)
  then show ?case unfolding memory_adapter_sel by (rule mem_begin_props)
next
  case (15 s t)
  then show ?case by (simp add: mem_rollback_def mem_in_tx_def)
next
  case (16 s t)
  then show ?case unfolding memory_adapter_sel by (rule mem_commit_props)
qed

end
