(* ===== verification/Store_Laws.thy ===== *)
theory Store_Laws
  imports Store Memory_Laws
begin

text \<open>
  The contract of an adapter on the core schema, and the behaviour of its methods on the
  queries the store writes: each method as a rule of elimination into its outcomes, and the
  predicates on states it keeps.
\<close>

section \<open>The core models\<close>

definition core_models :: "string list" where
  "core_models = [ModelUser, ModelSession, ModelAccount, ModelVerification, ModelAuditEvent,
     ModelOutboxEvent]"

text \<open>A new row is refused when its id is taken or one of its unique keys is.\<close>

definition row_blocked :: "string list list \<Rightarrow> table_map \<Rightarrow> string \<Rightarrow> Record \<Rightarrow> bool" where
  "row_blocked keys t i d \<longleftrightarrow> t i \<noteq> None \<or> key_clash keys t d ''''"

text \<open>An update that writes no field of a unique key cannot collide.\<close>

definition key_free :: "string list list \<Rightarrow> Record \<Rightarrow> bool" where
  "key_free keys u \<longleftrightarrow> (\<forall>k\<in>set keys. \<forall>f\<in>set k. u f = None)"

lemma key_free_simps [simp]:
  "key_free [] u" "key_free (k # ks) u \<longleftrightarrow> list_all (\<lambda>f. u f = None) k \<and> key_free ks u"
  by (auto simp: key_free_def list_all_iff)

lemma key_free_no_clash:
  assumes "keys_unique keys t" and "t i = Some r" and "key_free keys u"
  shows "\<not> key_clash keys t (set_fields idf u r) i"
  using assms by (intro no_clash_untouched) (auto simp: key_free_def)

locale core_store = database_contract db T inv in_tx uniq idf
  for db :: "'s database_adapter" and T inv in_tx uniq idf +
  assumes core_idf: "m \<in> set core_models \<Longrightarrow> idf m = ''id''"
    and core_uniq: "uniq ModelUser = [[''email'']]" "uniq ModelSession = [[''tokenHash'']]"
      "uniq ModelAccount = [[''providerId'', ''accountId'']]" "uniq ModelVerification = [[''value'']]"
      "uniq ModelAuditEvent = []" "uniq ModelOutboxEvent = []"
begin

lemma core_id [simp]:
  "idf ModelUser = ''id''" "idf ModelSession = ''id''" "idf ModelAccount = ''id''"
  "idf ModelVerification = ''id''" "idf ModelAuditEvent = ''id''" "idf ModelOutboxEvent = ''id''"
  by (simp_all add: core_idf core_models_def)

lemmas core_simps [simp] = core_uniq

lemma row_has_id:
  assumes "inv s" and "m \<in> set core_models" and "T s m i = Some r"
  shows "fld r ''id'' = VStr i" and "i \<noteq> ''''"
  using row_id [OF assms(1,3)] core_idf [OF assms(2)] by auto

section \<open>Outcomes of the methods\<close>

lemma create_step:
  assumes "inv s" and "m \<in> set core_models" and "fld d ''id'' = VStr i" and "i \<noteq> ''''"
  obtains (conflict) "row_blocked (uniq m) (T s m) i d" and "db_create db (createQ m d) s = (Inl ErrConflict, s)"
  | (ok) s' where "\<not> row_blocked (uniq m) (T s m) i d" and "db_create db (createQ m d) s = (Inr d, s')"
      and "inv s'" and "in_tx s' = in_tx s" and "T s' = (T s)(m := (T s m)(i \<mapsto> d))"
proof -
  have "if row_blocked (uniq m) (T s m) i d then db_create db (createQ m d) s = (Inl ErrConflict, s)
        else \<exists>s'. db_create db (createQ m d) s = (Inr d, s') \<and> inv s' \<and> in_tx s' = in_tx s \<and>
              T s' = (T s)(m := (T s m)(i \<mapsto> d))"
    using create_law [of s "createQ m d" i] assms core_idf [OF assms(2)]
    unfolding row_blocked_def query_sel project_Nil by simp
  with that show thesis by (auto split: if_splits)
qed

lemma findOne_step:
  assumes "inv s" and "ValidateWhere ws True = Inr w"
  obtains (none) "hits (T s m) w = {}" and "db_findOne db (findOneQ m ws) s = (Inr None, s)"
  | (some) i r where "T s m i = Some r" and "matches r w" and "db_findOne db (findOneQ m ws) s = (Inr (Some r), s)"
proof -
  obtain res where res: "db_findOne db (findOneQ m ws) s = (Inr res, s)"
      "case res of None \<Rightarrow> hits (T s m) w = {}
       | Some p \<Rightarrow> \<exists>i r. T s m i = Some r \<and> matches r w \<and> p = project r []"
    using findOne_law [of s "findOneQ m ws" w] assms unfolding query_sel by auto
  then show thesis by (cases res) (auto intro: that)
qed

lemma update_step:
  assumes "inv s" and "m \<in> set core_models" and "ValidateWhere ws False = Inr w"
  obtains (none) "hits (T s m) w = {}" and "db_update db (updateQ m ws u) s = (Inr None, s)"
  | (conflict) i r where "T s m i = Some r" and "matches r w"
      and "key_clash (uniq m) (T s m) (set_fields ''id'' u r) i"
      and "db_update db (updateQ m ws u) s = (Inl ErrConflict, s)"
  | (ok) i r s' where "T s m i = Some r" and "matches r w"
      and "\<not> key_clash (uniq m) (T s m) (set_fields ''id'' u r) i"
      and "db_update db (updateQ m ws u) s = (Inr (Some (set_fields ''id'' u r)), s')"
      and "inv s'" and "in_tx s' = in_tx s" and "T s' = (T s)(m := (T s m)(i \<mapsto> set_fields ''id'' u r))"
  using update_law [of s "updateQ m ws u" w] assms core_idf [OF assms(2)] that
  unfolding query_sel Let_def by (auto split: if_splits)

text \<open>The update of a row whose unique keys stay as they are.\<close>

lemma update_free_step:
  assumes "inv s" and "m \<in> set core_models" and "ValidateWhere ws False = Inr w"
    and "key_free (uniq m) u"
  obtains (none) "hits (T s m) w = {}" and "db_update db (updateQ m ws u) s = (Inr None, s)"
  | (ok) i r s' where "T s m i = Some r" and "matches r w"
      and "db_update db (updateQ m ws u) s = (Inr (Some (set_fields ''id'' u r)), s')"
      and "inv s'" and "in_tx s' = in_tx s" and "T s' = (T s)(m := (T s m)(i \<mapsto> set_fields ''id'' u r))"
  using assms(1-3)
proof (cases rule: update_step [where u = u])
  case (conflict i r)
  with key_free_no_clash [OF row_keys [OF assms(1)] conflict(1) assms(4)] show thesis by blast
qed (auto intro: that)

lemma updateMany_step:
  assumes "inv s" and "m \<in> set core_models" and "ValidateWhere ws False = Inr w"
    and "key_free (uniq m) u"
  obtains n s' where "db_updateMany db (updateQ m ws u) s = (Inr n, s')" and "inv s'"
    and "in_tx s' = in_tx s"
    and "T s' = (T s)(m := (\<lambda>i. case T s m i of None \<Rightarrow> None
           | Some r \<Rightarrow> Some (if matches r w then set_fields ''id'' u r else r)))"
proof -
  have idf: "idf m = ''id''" using core_idf assms(2) .
  obtain s' where s': "inv s'" "in_tx s' = in_tx s" "\<And>m'. m' \<noteq> m \<Longrightarrow> T s' m' = T s m'"
    and alt: "db_updateMany db (updateQ m ws u) s = (Inl ErrConflict, s') \<and>
           (\<exists>k\<in>set (uniq m). \<exists>f\<in>set k. u f \<noteq> None) \<or>
         (\<exists>n. db_updateMany db (updateQ m ws u) s = (Inr n, s') \<and>
           T s' m = (\<lambda>i. case T s m i of None \<Rightarrow> None
             | Some r \<Rightarrow> Some (if matches r w then set_fields ''id'' u r else r)))"
    using updateMany_law [of s "updateQ m ws u" w, unfolded query_sel idf, OF assms(1,3)]
    by (elim exE conjE) (simp only: simp_thms)
  from assms(4) have "\<not> (\<exists>k\<in>set (uniq m). \<exists>f\<in>set k. u f \<noteq> None)"
    by (auto simp: key_free_def)
  with alt obtain n where "db_updateMany db (updateQ m ws u) s = (Inr n, s')"
    and "T s' m = (\<lambda>i. case T s m i of None \<Rightarrow> None
             | Some r \<Rightarrow> Some (if matches r w then set_fields ''id'' u r else r))"
    by (elim disjE conjE exE) simp_all
  moreover from s'(3) have "T s' = (T s)(m := T s' m)"
    by (intro ext) simp
  ultimately show thesis using s'(1,2) by (intro that [of n s']) simp_all
qed

lemma delete_step:
  assumes "inv s" and "ValidateWhere ws False = Inr w"
  obtains (none) s' where "hits (T s m) w = {}" and "db_delete db (deleteQ m ws) s = (Inr (), s')"
      and "inv s'" and "in_tx s' = in_tx s" and "T s' = T s"
  | (ok) i r s' where "T s m i = Some r" and "matches r w" and "db_delete db (deleteQ m ws) s = (Inr (), s')"
      and "inv s'" and "in_tx s' = in_tx s" and "T s' = (T s)(m := (T s m)(i := None))"
  using delete_law [of s "deleteQ m ws" w] assms that unfolding query_sel by (auto simp: hits_def)

lemma deleteMany_step:
  assumes "inv s" and "ValidateWhere ws False = Inr w"
  obtains n s' where "db_deleteMany db (deleteQ m ws) s = (Inr n, s')" and "inv s'"
    and "in_tx s' = in_tx s"
    and "T s' = (T s)(m := (\<lambda>i. if i \<in> hits (T s m) w then None else T s m i))"
  using deleteMany_law [of s "deleteQ m ws" w] assms that unfolding query_sel by auto

lemma consume_step:
  assumes "inv s" and "ValidateWhere ws False = Inr w"
  obtains (none) "hits (T s m) w = {}" and "db_consumeOne db (deleteQ m ws) s = (Inr None, s)"
  | (ok) i r s' where "T s m i = Some r" and "matches r w"
      and "db_consumeOne db (deleteQ m ws) s = (Inr (Some r), s')"
      and "inv s'" and "in_tx s' = in_tx s" and "T s' = (T s)(m := (T s m)(i := None))"
  using consumeOne_law [of s "deleteQ m ws" w] assms that unfolding query_sel by auto

end

section \<open>The adapter of the core schema in memory\<close>

definition core_db :: "mem database_adapter" where
  "core_db = memory_adapter (Some (rulesFromSchema CoreSchema))"

text \<open>The states between the calls of a store: the adapter's invariant, and no transaction.\<close>

definition core_inv :: "mem \<Rightarrow> bool" where
  "core_inv s \<longleftrightarrow> mem_inv (Some (rulesFromSchema CoreSchema)) s \<and> \<not> mem_in_tx s"

lemma core_inv_empty: "core_inv empty_mem"
  unfolding core_inv_def using mem_inv_empty by (simp add: mem_in_tx_def empty_mem_def)

interpretation core: core_store core_db mem_table "mem_inv (Some (rulesFromSchema CoreSchema))"
  mem_in_tx "uniqueKeys (Some (rulesFromSchema CoreSchema))" "idField (Some (rulesFromSchema CoreSchema))"
  unfolding core_db_def
proof unfold_locales
  fix m :: string
  show "idField (Some (rulesFromSchema CoreSchema)) m = ''id''"
    using core_id_cases [of m] by (auto simp: idField_def split: option.split)
qed (simp_all add: uniqueKeys_def)

end
