(* ===== verification/Store_Keeps.thy ===== *)
theory Store_Keeps
  imports Store_Laws
begin

text \<open>
  Properties of the tables that every method of the store keeps. The locale takes a predicate
  on tables and the row creations, updates and deletions under which it is stable; its lemmas
  say of each method which writes it makes. Both results of a method are covered: an error
  leaves a state with the property, too.
\<close>

section \<open>Stable properties\<close>

locale table_property = core_store db T inv in_tx uniq idf
  for db :: "'s database_adapter" and T inv in_tx uniq idf +
  fixes P :: "(string \<Rightarrow> table_map) \<Rightarrow> bool"
    and cre :: "string \<Rightarrow> Record \<Rightarrow> bool"
    and upd :: "string \<Rightarrow> Record \<Rightarrow> bool"
    and del :: "string \<Rightarrow> bool"
  assumes P_create: "P tb \<Longrightarrow> cre m d \<Longrightarrow> tb m i = None \<Longrightarrow> fld d ''id'' = VStr i \<Longrightarrow> m \<in> set core_models \<Longrightarrow>
      P (tb(m := (tb m)(i \<mapsto> d)))"
    and P_update: "P tb \<Longrightarrow> upd m u \<Longrightarrow> tb m i = Some r \<Longrightarrow> m \<in> set core_models \<Longrightarrow>
      P (tb(m := (tb m)(i \<mapsto> set_fields ''id'' u r)))"
    and P_updateMany: "P tb \<Longrightarrow> upd m u \<Longrightarrow> m \<in> set core_models \<Longrightarrow>
      P (tb(m := (\<lambda>i. case tb m i of None \<Rightarrow> None
                 | Some r \<Rightarrow> Some (if matches r w then set_fields ''id'' u r else r))))"
    and P_delete: "P tb \<Longrightarrow> del m \<Longrightarrow> (\<And>i. t i = tb m i \<or> t i = None) \<Longrightarrow> P (tb(m := t))"
begin

definition K :: "bool \<Rightarrow> 's \<Rightarrow> bool" where
  "K b t \<longleftrightarrow> inv t \<and> in_tx t = b \<and> P (T t)"

lemma P_delete_one: "P tb \<Longrightarrow> del m \<Longrightarrow> P (tb(m := (tb m)(i := None)))"
  by (rule P_delete) simp_all

lemma P_delete_hits: "P tb \<Longrightarrow> del m \<Longrightarrow> P (tb(m := (\<lambda>i. if i \<in> h then None else tb m i)))"
  by (rule P_delete) simp_all

lemma K_create:
  assumes "cre m d" and "m \<in> set core_models"
  shows "keeps (K b) (db_create db (createQ m d))"
proof (rule keepsI)
  fix s assume s: "K b s"
  show "K b (snd (db_create db (createQ m d) s))"
  proof (cases "\<exists>i. fld d ''id'' = VStr i \<and> i \<noteq> ''''")
    case True
    then obtain i where i: "fld d ''id'' = VStr i" "i \<noteq> ''''" by blast
    from s have "inv s" by (simp add: K_def)
    then show ?thesis using assms(2) i
    proof (cases rule: create_step [where d = d])
      case (ok s')
      with s assms i show ?thesis by (simp add: K_def row_blocked_def P_create)
    qed (use s in simp)
  next
    case False
    then obtain e where "db_create db (createQ m d) s = (Inl e, s)"
      using create_no_id [of s "createQ m d"] s core_idf [OF assms(2)] unfolding K_def by auto
    with s show ?thesis by simp
  qed
qed

lemma K_findOne:
  assumes "fo_Joins q = []" and "ValidateWhere (fo_Where q) True = Inr w"
  shows "keeps (K b) (db_findOne db q)"
proof (rule keepsI)
  fix s assume s: "K b s"
  then obtain r where "db_findOne db q s = (Inr r, s)"
    using findOne_law [of s q w] assms unfolding K_def by blast
  with s show "K b (snd (db_findOne db q s))" by simp
qed

lemma K_findMany:
  assumes "ValidateWhere ws True = Inr w" and "0 \<le> l" and "l \<le> 1000"
  shows "keeps (K b) (db_findMany db (findManyQ m ws l srt))"
proof (rule keepsI)
  fix s assume s: "K b s"
  then obtain r where "db_findMany db (findManyQ m ws l srt) s = (Inr r, s)"
    using findMany_law [of s "findManyQ m ws l srt" w] assms unfolding K_def query_sel by blast
  with s show "K b (snd (db_findMany db (findManyQ m ws l srt) s))" by simp
qed

lemma K_count:
  assumes "ValidateWhere (ct_Where q) True = Inr w"
  shows "keeps (K b) (db_count db q)"
proof (rule keepsI)
  fix s assume s: "K b s"
  then obtain r where "db_count db q s = (Inr r, s)"
    using count_law [of s q w] assms unfolding K_def by blast
  with s show "K b (snd (db_count db q s))" by simp
qed

lemma K_update:
  assumes "upd m u" and "m \<in> set core_models" and "ValidateWhere ws False = Inr w"
  shows "keeps (K b) (db_update db (updateQ m ws u))"
proof (rule keepsI)
  fix s assume s: "K b s"
  then have "inv s" by (simp add: K_def)
  then show "K b (snd (db_update db (updateQ m ws u) s))" using assms(2,3)
  proof (cases rule: update_step [where u = u])
    case (ok i r s')
    with s assms show ?thesis by (simp add: K_def P_update)
  qed (use s in simp_all)
qed

lemma K_updateMany:
  assumes "upd m u" and "m \<in> set core_models" and "ValidateWhere ws False = Inr w"
    and "key_free (uniq m) u"
  shows "keeps (K b) (db_updateMany db (updateQ m ws u))"
proof (rule keepsI)
  fix s assume s: "K b s"
  then have "inv s" by (simp add: K_def)
  from updateMany_step [OF this assms(2-4)] obtain n s' where
    "db_updateMany db (updateQ m ws u) s = (Inr n, s')" "inv s'" "in_tx s' = in_tx s"
    "T s' = (T s)(m := (\<lambda>i. case T s m i of None \<Rightarrow> None
           | Some r \<Rightarrow> Some (if matches r w then set_fields ''id'' u r else r)))" by blast
  with s assms show "K b (snd (db_updateMany db (updateQ m ws u) s))"
    unfolding K_def by (simp only: snd_conv P_updateMany)
qed

lemma K_delete:
  assumes "del m" and "ValidateWhere ws False = Inr w"
  shows "keeps (K b) (db_delete db (deleteQ m ws))"
proof (rule keepsI)
  fix s assume s: "K b s"
  then have "inv s" by (simp add: K_def)
  then show "K b (snd (db_delete db (deleteQ m ws) s))" using assms(2)
  proof (cases rule: delete_step [where m = m])
    case (ok i r s')
    with s assms(1) show ?thesis by (simp add: K_def P_delete_one)
  qed (use s in \<open>simp add: K_def\<close>)
qed

lemma K_deleteMany:
  assumes "del m" and "ValidateWhere ws False = Inr w"
  shows "keeps (K b) (db_deleteMany db (deleteQ m ws))"
proof (rule keepsI)
  fix s assume s: "K b s"
  then have "inv s" by (simp add: K_def)
  from deleteMany_step [OF this assms(2), of m] obtain n s' where
    "db_deleteMany db (deleteQ m ws) s = (Inr n, s')" "inv s'" "in_tx s' = in_tx s"
    "T s' = (T s)(m := (\<lambda>i. if i \<in> hits (T s m) w then None else T s m i))" by blast
  with s assms(1) show "K b (snd (db_deleteMany db (deleteQ m ws) s))"
    unfolding K_def by (simp only: snd_conv P_delete_hits)
qed

lemma K_consume:
  assumes "del m" and "ValidateWhere ws False = Inr w"
  shows "keeps (K b) (db_consumeOne db (deleteQ m ws))"
proof (rule keepsI)
  fix s assume s: "K b s"
  then have "inv s" by (simp add: K_def)
  then show "K b (snd (db_consumeOne db (deleteQ m ws) s))" using assms(2)
  proof (cases rule: consume_step [where m = m])
    case (ok i r s')
    with s assms(1) show ?thesis by (simp add: K_def P_delete_one)
  qed (use s in simp)
qed

lemma K_Transaction:
  assumes "keeps (K True) f"
  shows "keeps (K False) (Transaction db f)"
proof (rule keepsI)
  fix s assume s: "K False s"
  then have inv: "inv s" "\<not> in_tx s" by (simp_all add: K_def)
  from begin_law [OF inv(1)] s have "K True (db_begin db s)" by (simp add: K_def)
  moreover obtain r t where f: "f (db_begin db s) = (r, t)" by fastforce
  ultimately have t: "K True t" using keepsE [OF assms f] by blast
  then have t': "inv t" "in_tx t" by (simp_all add: K_def)
  show "K False (snd (Transaction db f s))"
  proof (cases r)
    case (Inl e)
    with f have "Transaction db f s = (Inl e, s)" using t' inv by (intro transaction_fail) simp_all
    with s show ?thesis by simp
  next
    case (Inr a)
    with f obtain u where "Transaction db f s = (Inr a, u)" "inv u" "\<not> in_tx u" "T u = T t"
      using transaction_ok [OF inv, of f a t] t' by blast
    with t show ?thesis by (simp add: K_def)
  qed
qed

section \<open>The methods of the store\<close>

lemmas K_rules = K_create K_findOne K_findMany K_count K_update K_updateMany K_delete K_deleteMany
  K_consume K_Transaction keeps_rules

lemma revokeUpdate_other [simp]: "revokeUpdate at ''tokenHash'' = None"
  by (simp add: revokeUpdate_def)

lemma K_CreateEmailUser:
  "cre ModelUser (userRecord (ce_User p)) \<Longrightarrow>
   (\<And>hash t t'. cre ModelAccount (credentialRow (u_ID (ce_User p)) hash t t')) \<Longrightarrow>
   (ce_CreateSession p \<Longrightarrow> cre ModelSession (sessionRecord (ce_Session p))) \<Longrightarrow>
   cre ModelOutboxEvent (domainEventRecord (ce_Event p)) \<Longrightarrow>
   keeps (K False) (CreateEmailUser db p)"
  unfolding CreateEmailUser_def
  by (cases "ce_CreateSession p") (simp_all only: if_True if_False, (intro K_rules; simp add: core_models_def)+)

lemma K_FindUserByEmail: "keeps (K b) (FindUserByEmail db email)"
  unfolding FindUserByEmail_def by (intro K_rules) (simp_all add: where_simps)

lemma K_FindUserByID: "keeps (K b) (FindUserByID db uid)"
  unfolding FindUserByID_def by (intro K_rules) (simp_all add: where_simps)

lemma K_FindPasswordCredential: "keeps (K b) (FindPasswordCredential db uid)"
  unfolding FindPasswordCredential_def credentialIdentityWhere_def accountKeyWhere_def
  by (intro K_rules) (simp_all add: where_simps)

lemma K_ReplacePasswordHash:
  "upd ModelAccount [''password'' \<mapsto> VStr new, ''updatedAt'' \<mapsto> VTime now] \<Longrightarrow>
   keeps (K b) (ReplacePasswordHash db uid old new now)"
  unfolding ReplacePasswordHash_def credentialIdentityWhere_def accountKeyWhere_def
  by (intro K_rules) (simp_all add: where_simps core_models_def)

lemma K_SetPasswordHash:
  "upd ModelAccount [''password'' \<mapsto> VStr hash, ''updatedAt'' \<mapsto> VTime now] \<Longrightarrow>
   cre ModelAccount (credentialRow uid hash now now) \<Longrightarrow>
   keeps (K False) (SetPasswordHash db uid hash now)"
  unfolding SetPasswordHash_def credentialIdentityWhere_def accountKeyWhere_def Let_def
  by (intro K_rules) (simp_all add: where_simps core_models_def)

lemma K_ChangePasswordAndRotate:
  "(\<And>hash t. upd ModelAccount [''password'' \<mapsto> VStr hash, ''updatedAt'' \<mapsto> VTime t]) \<Longrightarrow>
   (\<And>t. upd ModelSession (revokeUpdate t)) \<Longrightarrow>
   cre ModelSession (sessionRecord (cp_ReplacementSession p)) \<Longrightarrow>
   keeps (K False) (ChangePasswordAndRotate db p)"
  unfolding ChangePasswordAndRotate_def credentialIdentityWhere_def accountKeyWhere_def Let_def
  by (intro K_rules) (simp_all add: where_simps core_models_def)

lemma K_UpdateUser:
  "upd ModelUser (changes(''updatedAt'' \<mapsto> VTime now)) \<Longrightarrow>
   keeps (K b) (UpdateUser db uid changes now)"
  unfolding UpdateUser_def by (intro K_rules) (simp_all add: where_simps core_models_def)

lemma K_VerifyUserEmail:
  "upd ModelUser [''emailVerified'' \<mapsto> VBool True, ''updatedAt'' \<mapsto> VTime now] \<Longrightarrow>
   keeps (K b) (VerifyUserEmail db uid now)"
  unfolding VerifyUserEmail_def by (rule K_UpdateUser) simp

lemma K_DeleteUser:
  "del ModelSession \<Longrightarrow> del ModelAccount \<Longrightarrow> del ModelUser \<Longrightarrow> keeps (K False) (DeleteUser db uid)"
  unfolding DeleteUser_def by (intro K_rules) (simp_all add: where_simps)

lemma K_ListAccounts: "keeps (K b) (ListAccounts db uid)"
  unfolding ListAccounts_def by (intro K_rules) (simp_all add: where_simps)

lemma K_guardLastAccount: "keeps (K b) (guardLastAccount db uid allow)"
  unfolding guardLastAccount_def by (intro K_rules) (simp_all add: where_simps)

lemma K_UnlinkAccount:
  "del ModelAccount \<Longrightarrow> keeps (K False) (UnlinkAccount db uid pid aid allow)"
  unfolding UnlinkAccount_def Let_def
  by (cases "aid = ''''") (intro K_rules K_guardLastAccount; simp add: where_simps)+

lemma K_UnlinkAccountByID:
  "del ModelAccount \<Longrightarrow> keeps (K False) (UnlinkAccountByID db uid rid allow)"
  unfolding UnlinkAccountByID_def
  by (intro K_rules K_guardLastAccount) (simp_all add: where_simps)

lemma K_FindAccountByKey: "keeps (K b) (FindAccountByKey db pid aid)"
  unfolding FindAccountByKey_def accountKeyWhere_def
  by (intro K_rules) (simp_all add: where_simps)

lemma K_findProfileAccount:
  "(\<And>a. upd ModelAccount [''accountId'' \<mapsto> VStr a, ''updatedAt'' \<mapsto> VTime now]) \<Longrightarrow>
   keeps (K b) (findProfileAccount db profile now)"
  unfolding findProfileAccount_def Let_def
  by (intro K_rules K_FindAccountByKey) (simp_all add: where_simps core_models_def)

lemma K_LinkOAuthAccount:
  "(\<And>a. upd ModelAccount [''accountId'' \<mapsto> VStr a, ''updatedAt'' \<mapsto> VTime now]) \<Longrightarrow>
   (\<And>tk. upd ModelAccount (tokenFields tk now)) \<Longrightarrow>
   cre ModelAccount (oauthAccountRow aid uid profile tokens now) \<Longrightarrow>
   keeps (K False) (LinkOAuthAccount db aid uid profile tokens now)"
  unfolding LinkOAuthAccount_def Let_def
  by (intro K_rules K_findProfileAccount) (simp_all add: where_simps core_models_def)

lemma K_OAuthAccountTokens: "keeps (K b) (OAuthAccountTokens db uid pid aid)"
  unfolding OAuthAccountTokens_def
  by (cases "aid = ''''") (intro K_rules; simp add: where_simps)+

lemma K_OAuthAccountTokensByID: "keeps (K b) (OAuthAccountTokensByID db uid rid)"
  unfolding OAuthAccountTokensByID_def by (intro K_rules) (simp_all add: where_simps)

lemma K_UpdateOAuthAccountTokens:
  "upd ModelAccount (tokenFields tokens now) \<Longrightarrow>
   keeps (K b) (UpdateOAuthAccountTokens db uid aid tokens now)"
  unfolding UpdateOAuthAccountTokens_def
  by (intro K_rules) (simp_all add: where_simps core_models_def)

lemma K_CreateSession:
  "cre ModelSession (sessionRecord session) \<Longrightarrow> keeps (K b) (CreateSession db session)"
  unfolding CreateSession_def by (intro K_rules) (simp_all add: core_models_def)

lemma K_SessionByTokenHash: "keeps (K b) (SessionByTokenHash db hash)"
  unfolding SessionByTokenHash_def
  by (intro K_rules K_FindUserByID) (simp_all add: where_simps)

lemma K_RotateSession:
  "(\<And>t. upd ModelSession (revokeUpdate t)) \<Longrightarrow> cre ModelSession (sessionRecord replacement) \<Longrightarrow>
   keeps (K False) (RotateSession db old replacement)"
  unfolding RotateSession_def by (intro K_rules) (simp_all add: where_simps core_models_def)

lemma K_RevokeSession:
  "(\<And>t. upd ModelSession (revokeUpdate t)) \<Longrightarrow> keeps (K b) (RevokeSession db hash at)"
  unfolding RevokeSession_def by (intro K_rules) (simp_all add: where_simps core_models_def)

lemma K_RevokeUserSessions:
  "(\<And>t. upd ModelSession (revokeUpdate t)) \<Longrightarrow> keeps (K b) (RevokeUserSessions db uid at)"
  unfolding RevokeUserSessions_def by (intro K_rules) (simp_all add: where_simps core_models_def)

lemma K_ListSessions: "keeps (K b) (ListSessions db uid now)"
  unfolding ListSessions_def by (intro K_rules) (simp_all add: where_simps)

lemma K_RevokeSessionByID:
  "(\<And>t. upd ModelSession (revokeUpdate t)) \<Longrightarrow> keeps (K b) (RevokeSessionByID db uid sid at)"
  unfolding RevokeSessionByID_def by (intro K_rules) (simp_all add: where_simps core_models_def)

lemma K_RevokeOtherSessions:
  "(\<And>t. upd ModelSession (revokeUpdate t)) \<Longrightarrow> keeps (K b) (RevokeOtherSessions db uid sid at)"
  unfolding RevokeOtherSessions_def by (intro K_rules) (simp_all add: where_simps core_models_def)

lemma K_UpdateSession:
  "upd ModelSession (changes(''updatedAt'' \<mapsto> VTime now)) \<Longrightarrow>
   keeps (K b) (UpdateSession db uid hash changes now)"
  unfolding UpdateSession_def by (intro K_rules) (simp_all add: where_simps core_models_def)

lemma K_RotateSessionWithAudit:
  "(\<And>t. upd ModelSession (revokeUpdate t)) \<Longrightarrow> cre ModelSession (sessionRecord session) \<Longrightarrow>
   cre ModelAuditEvent (auditEventRecord audit) \<Longrightarrow>
   keeps (K False) (RotateSessionWithAudit db hash session audit)"
  unfolding RotateSessionWithAudit_def by (intro K_rules) (simp_all add: where_simps core_models_def)

lemma K_PutOneTimeToken:
  "cre ModelVerification (tokenRow token) \<Longrightarrow> del ModelVerification \<Longrightarrow>
   keeps (K False) (PutOneTimeToken db token)"
  unfolding PutOneTimeToken_def Let_def by (intro K_rules) (simp_all add: where_simps core_models_def)

lemma K_HasOneTimeToken: "keeps (K b) (HasOneTimeToken db purpose hash now)"
  unfolding HasOneTimeToken_def liveToken_def by (intro K_rules) (simp_all add: where_simps)

lemma K_ConsumeUserDeletion:
  "del ModelVerification \<Longrightarrow> keeps (K b) (ConsumeUserDeletion db hash uid now)"
  unfolding ConsumeUserDeletion_def liveToken_def by (intro K_rules) (simp_all add: where_simps)

lemma K_ConsumeEmailChange:
  "del ModelVerification \<Longrightarrow>
   (\<And>e. upd ModelUser [''email'' \<mapsto> VStr e, ''emailVerified'' \<mapsto> VBool True, ''updatedAt'' \<mapsto> VTime now]) \<Longrightarrow>
   keeps (K False) (ConsumeEmailChange db hash now)"
  unfolding ConsumeEmailChange_def liveTokenPrefix_def Let_def
  by (intro K_rules) (simp_all add: where_simps core_models_def)

lemma K_ConsumeEmailChangeConfirmation:
  "del ModelVerification \<Longrightarrow> keeps (K b) (ConsumeEmailChangeConfirmation db hash now)"
  unfolding ConsumeEmailChangeConfirmation_def liveTokenPrefix_def Let_def
  by (intro K_rules K_FindUserByID) (simp_all add: where_simps)

lemma K_ConsumePasswordReset:
  "del ModelVerification \<Longrightarrow>
   (\<And>t. upd ModelAccount [''password'' \<mapsto> VStr hash', ''updatedAt'' \<mapsto> VTime t]) \<Longrightarrow>
   (\<And>uid. cre ModelAccount (credentialRow uid hash' now now)) \<Longrightarrow>
   keeps (K False) (ConsumePasswordReset db hash hash' now)"
  unfolding ConsumePasswordReset_def liveToken_def credentialIdentityWhere_def accountKeyWhere_def Let_def
  by (intro K_rules) (simp_all add: where_simps core_models_def)

lemma K_ConsumeEmailVerification:
  "del ModelVerification \<Longrightarrow> keeps (K b) (ConsumeEmailVerification db hash now)"
  unfolding ConsumeEmailVerification_def liveToken_def Let_def
  by (intro K_rules K_FindUserByID) (simp_all add: where_simps)

lemma K_PutOAuthState:
  "cre ModelVerification (oauthStateRow state) \<Longrightarrow> keeps (K b) (PutOAuthState db state)"
  unfolding PutOAuthState_def by (intro K_rules) (simp_all add: core_models_def)

lemma K_ConsumeOAuthState:
  "del ModelVerification \<Longrightarrow> keeps (K b) (ConsumeOAuthState db hash now)"
  unfolding ConsumeOAuthState_def liveToken_def Let_def by (intro K_rules) (simp_all add: where_simps)

lemma K_verifyMatchingEmail:
  "(\<And>t. upd ModelUser [''emailVerified'' \<mapsto> VBool True, ''updatedAt'' \<mapsto> VTime t]) \<Longrightarrow>
   keeps (K b) (verifyMatchingEmail db profile at user)"
  unfolding verifyMatchingEmail_def by (intro K_rules) (simp_all add: where_simps core_models_def)

lemma K_upsertExisting:
  "(\<And>t. upd ModelUser [''emailVerified'' \<mapsto> VBool True, ''updatedAt'' \<mapsto> VTime t]) \<Longrightarrow>
   (\<And>tk. upd ModelAccount (tokenFields tk at)) \<Longrightarrow>
   keeps (K b) (upsertExisting db profile tokens at policy account)"
  unfolding upsertExisting_def Let_def
  by (intro K_rules K_verifyMatchingEmail) (simp_all add: where_simps core_models_def)

lemma K_upsertMissing:
  "(\<And>u. dom u \<subseteq> {''updatedAt'', ''name'', ''image'', ''emailVerified''} \<Longrightarrow> upd ModelUser u) \<Longrightarrow>
   cre ModelUser (userRecord (upsertNewUser profile session)) \<Longrightarrow>
   cre ModelOutboxEvent (domainEventRecord event) \<Longrightarrow>
   (\<And>aid uid. cre ModelAccount (oauthAccountRow aid uid profile tokens (ss_CreatedAt session))) \<Longrightarrow>
   keeps (K b) (upsertMissing db profile tokens session event policy)"
  unfolding upsertMissing_def upsertUser_def upsertUserInfo_def Let_def
  by (intro K_rules K_verifyMatchingEmail) (auto simp: where_simps core_models_def)

lemma K_UpsertOAuthUser:
  "(\<And>a t. upd ModelAccount [''accountId'' \<mapsto> VStr a, ''updatedAt'' \<mapsto> VTime t]) \<Longrightarrow>
   (\<And>tk t. upd ModelAccount (tokenFields tk t)) \<Longrightarrow>
   (\<And>u. dom u \<subseteq> {''updatedAt'', ''name'', ''image'', ''emailVerified''} \<Longrightarrow> upd ModelUser u) \<Longrightarrow>
   cre ModelUser (userRecord (upsertNewUser profile session)) \<Longrightarrow>
   cre ModelOutboxEvent (domainEventRecord event) \<Longrightarrow>
   (\<And>aid uid. cre ModelAccount (oauthAccountRow aid uid profile tokens (ss_CreatedAt session))) \<Longrightarrow>
   (\<And>uid. cre ModelSession (sessionRecord (session\<lparr>ss_UserID := uid\<rparr>))) \<Longrightarrow>
   keeps (K False) (UpsertOAuthUser db profile tokens session event policy)"
  unfolding UpsertOAuthUser_def
  by (intro K_rules K_findProfileAccount K_upsertExisting K_upsertMissing)
    (auto simp: where_simps core_models_def)

end

end
