(* ===== verification/Examples.thy ===== *)
theory Examples
  imports Store_Laws
begin

text \<open>
  A concrete database of the core schema: one user with a password and a linked account, two
  sessions, and one token of each kind. The instances of the theorems at a concrete input use
  it; its invariant is decided by computation.
\<close>

section \<open>States from rows\<close>

definition state_of :: "(string \<times> table) list \<Rightarrow> mem" where
  "state_of ts = \<lparr>storage_rows = (\<lambda>m. case map_of ts m of None \<Rightarrow> [] | Some t \<Rightarrow> t), tx_rows = None\<rparr>"

definition table_check :: "rules option \<Rightarrow> string \<Rightarrow> table \<Rightarrow> bool" where
  "table_check a m t \<longleftrightarrow> distinct (map fst t) \<and>
     list_all (\<lambda>(i, r). i \<noteq> '''' \<and> fld r (idField a m) = VStr i) t \<and>
     sorted_wrt (\<lambda>(i, r) (j, q). \<forall>k\<in>set (uniqueKeys a m). \<not> sameUniqueKey r q k) t"

lemma sorted_wrt_keys:
  assumes "sorted_wrt (\<lambda>(i, r) (j, q). \<forall>k\<in>set ks. \<not> sameUniqueKey r q k) t"
    and "(i, r) \<in> set t" and "(j, q) \<in> set t" and "i \<noteq> j" and "k \<in> set ks"
  shows "\<not> sameUniqueKey r q k"
  using assms(1-3)
proof (induction t)
  case (Cons x t)
  then show ?case
    using assms(4,5) by (auto simp: list_all_iff sameUniqueKey_sym [of q r])
qed simp

lemma table_check_ok: "table_check a m t \<Longrightarrow> table_ok a m t"
  unfolding table_check_def table_ok_def keys_unique_def
  by (auto simp: list_all_iff dest!: map_of_SomeD dest: sorted_wrt_keys)

lemma state_of_inv:
  assumes "list_all (\<lambda>(m, t). table_check (Some (rulesFromSchema CoreSchema)) m t) ts"
  shows "core_inv (state_of ts)"
proof -
  have "table_ok (Some (rulesFromSchema CoreSchema)) m (case map_of ts m of None \<Rightarrow> [] | Some t \<Rightarrow> t)" for m
    using assms
    by (auto simp: list_all_iff dest!: map_of_SomeD intro: table_check_ok split: option.split)
      (simp add: table_ok_def)
  then show ?thesis
    by (simp add: core_inv_def mem_inv_def tables_ok_def mem_in_tx_def state_of_def)
qed

lemma state_of_table [simp]:
  "mem_table (state_of ts) m = (case map_of ts m of None \<Rightarrow> Map.empty | Some t \<Rightarrow> map_of t)"
  by (simp add: mem_table_def cur_rows_def state_of_def split: option.split)

section \<open>The rows\<close>

definition ex_user :: User where
  "ex_user = \<lparr>u_ID = ''u1'', u_Email = ''ann@x.io'', u_Name = ''Ann'', u_ImageURL = '''',
     u_EmailVerified = False, u_CreatedAt = 10, u_UpdatedAt = 10, u_DisabledAt = None\<rparr>"

definition ex_session :: "string \<Rightarrow> string \<Rightarrow> gtime \<Rightarrow> Session" where
  "ex_session sid hash at = \<lparr>ss_ID = sid, ss_UserID = ''u1'', ss_TokenHash = hash,
     ss_ExpiresAt = at + 1000, ss_CreatedAt = at, ss_UpdatedAt = at, ss_LastSeenAt = at,
     ss_RevokedAt = None, ss_ImpersonatorID = '''', ss_ImpersonationID = ''''\<rparr>"

definition ex_profile :: OAuthProfile where
  "ex_profile = \<lparr>op_Provider = ''google'', op_Issuer = '''', op_ProviderAccountID = ''g1'',
     op_PreviousProviderAccountID = '''', op_Email = ''ann@x.io'', op_EmailVerified = True,
     op_Name = ''Ann'', op_ImageURL = ''''\<rparr>"

definition ex_tokens :: ProviderTokens where
  "ex_tokens = \<lparr>pt_AccessToken = ''at'', pt_RefreshToken = ''rt'', pt_IDToken = '''',
     pt_Scope = ''openid email'', pt_AccessTokenExpiresAt = 500, pt_RefreshTokenExpiresAt = 0\<rparr>"

definition ex_token :: "string \<Rightarrow> string \<Rightarrow> OneTimePurpose \<Rightarrow> strmap \<Rightarrow> OneTimeToken" where
  "ex_token tid hash purpose meta = \<lparr>ot_ID = tid, ot_UserID = ''u1'', ot_Hash = hash,
     ot_Purpose = purpose, ot_ExpiresAt = 1000, ot_CreatedAt = 10, ot_Metadata = meta\<rparr>"

definition ex_oauth_state :: OAuthState where
  "ex_oauth_state = \<lparr>os_ID = ''v9'', os_Hash = ''k9'', os_PKCEVerifier = ''pk'', os_Nonce = ''n'',
     os_RedirectURI = ''https://x.io/cb'', os_ReturnTo = ''/'', os_ErrorReturnTo = '''',
     os_NewUserReturnTo = '''', os_LinkUserID = '''', os_RequestSignUp = True,
     os_ExpiresAt = 1000, os_CreatedAt = 10\<rparr>"

definition ex_rows :: "(string \<times> table) list" where
  "ex_rows =
     [(ModelUser, [(''u1'', userRecord ex_user)]),
      (ModelSession, [(''s1'', sessionRecord (ex_session ''s1'' ''h1'' 10)),
                      (''s2'', sessionRecord (ex_session ''s2'' ''h2'' 20))]),
      (ModelAccount, [(''u1:credential'', credentialRow ''u1'' ''ph'' 10 10),
                      (''a1'', oauthAccountRow ''a1'' ''u1'' ex_profile ex_tokens 10)]),
      (ModelVerification,
        [(''v1'', tokenRow (ex_token ''v1'' ''k1'' PurposePasswordReset [])),
         (''v2'', tokenRow (ex_token ''v2'' ''k2'' PurposeEmailChange [(''newEmail'', ''bob@x.io'')])),
         (''v3'', tokenRow (ex_token ''v3'' ''k3'' PurposeUserDeletion []))])]"

definition ex_state :: mem where "ex_state = state_of ex_rows"

lemmas ex_defs = ex_user_def ex_session_def ex_profile_def ex_tokens_def ex_token_def
  ex_oauth_state_def

lemmas row_defs = userRecord_def sessionRecord_def credentialRow_def oauthAccountRow_def
  tokenFields_def tokenRow_def oauthStateRow_def tokenIdentifier_def credentialProvider_def
  nullableTime_def nullableTimeValue_def

lemma core_rules_simps [simp]:
  "idField (Some (rulesFromSchema CoreSchema)) m = ''id''"
  "uniqueKeys (Some (rulesFromSchema CoreSchema)) ModelUser = [[''email'']]"
  "uniqueKeys (Some (rulesFromSchema CoreSchema)) ModelSession = [[''tokenHash'']]"
  "uniqueKeys (Some (rulesFromSchema CoreSchema)) ModelAccount = [[''providerId'', ''accountId'']]"
  "uniqueKeys (Some (rulesFromSchema CoreSchema)) ModelVerification = [[''value'']]"
  "uniqueKeys (Some (rulesFromSchema CoreSchema)) ModelAuditEvent = []"
  "uniqueKeys (Some (rulesFromSchema CoreSchema)) ModelOutboxEvent = []"
  using core_id_cases [of m] by (auto simp: idField_def uniqueKeys_def split: option.split)

lemma ex_inv: "core_inv ex_state"
  unfolding ex_state_def
  by (rule state_of_inv) (simp add: ex_rows_def table_check_def fld_def ex_defs row_defs map_add_def)

lemma ex_tables [simp]:
  "mem_table ex_state ModelUser = [''u1'' \<mapsto> userRecord ex_user]"
  "mem_table ex_state ModelSession =
     [''s2'' \<mapsto> sessionRecord (ex_session ''s2'' ''h2'' 20), ''s1'' \<mapsto> sessionRecord (ex_session ''s1'' ''h1'' 10)]"
  "mem_table ex_state ModelAccount =
     [''a1'' \<mapsto> oauthAccountRow ''a1'' ''u1'' ex_profile ex_tokens 10,
      ''u1:credential'' \<mapsto> credentialRow ''u1'' ''ph'' 10 10]"
  "mem_table ex_state ModelVerification =
     [''v3'' \<mapsto> tokenRow (ex_token ''v3'' ''k3'' PurposeUserDeletion []),
      ''v2'' \<mapsto> tokenRow (ex_token ''v2'' ''k2'' PurposeEmailChange [(''newEmail'', ''bob@x.io'')]),
      ''v1'' \<mapsto> tokenRow (ex_token ''v1'' ''k1'' PurposePasswordReset [])]"
  "mem_table ex_state ModelAuditEvent = Map.empty"
  "mem_table ex_state ModelOutboxEvent = Map.empty"
  by (simp_all add: ex_state_def ex_rows_def model_defs)


text \<open>Evaluation of the adapter on a concrete state, by rewriting.\<close>

lemmas core_rules_names = core_rules_simps [unfolded model_defs]

lemmas mem_exec = core_db_def memory_adapter_sel mem_Create_def mem_FindOne_def mem_FindMany_def
  mem_Count_def mem_Update_def mem_UpdateMany_def mem_Delete_def mem_DeleteMany_def
  mem_ConsumeOne_def mutateValue_def readValue_def write_row_def conflicts_def set_row_def
  del_row_def set_fields_def mem_begin_def mem_rollback_def mem_commit_def Transaction_def
  bindM_def ret_def fail_def lift_def tryM_def Let_def ex_state_def state_of_def ex_rows_def
  fld_def map_add_def model_defs core_rules_names where_simps row_defs ex_defs

lemmas row_exec = recordStringMap_def mergeStringMaps_def smap_get_def userFromRecord_def
  sessionFromRecord_def recordString_def recordTime_def optionalTimePtr_def optionalString_def
  optionalBool_def

end
