(* ===== verification/Store_Calls.thy ===== *)
theory Store_Calls
  imports Store_Keeps Examples
begin

text \<open>
  The interface \<open>authStore\<close> of \<open>ports.go\<close> as a datatype of calls, its runs on an adapter,
  the states a store can reach, and what holds in all of them: unique keys, a revoked session
  that stays revoked, a used token that is not accepted again.
\<close>

section \<open>Calls\<close>

datatype store_call =
    CallCreateEmailUser CreateEmailUserParams
  | CallFindUserByEmail string
  | CallFindUserByID string
  | CallPasswordCredential string
  | CallReplacePasswordHash string string string gtime
  | CallSetPasswordHash string string gtime
  | CallChangePasswordAndRotate ChangePasswordParams
  | CallUpdateUser string Record gtime
  | CallVerifyUserEmail string gtime
  | CallDeleteUser string
  | CallListAccounts string
  | CallUnlinkAccount string string string bool
  | CallUnlinkAccountByID string string bool
  | CallLinkOAuthAccount string string OAuthProfile ProviderTokens gtime
  | CallOAuthAccountTokens string string string
  | CallOAuthAccountTokensByID string string
  | CallUpdateOAuthAccountTokens string string ProviderTokens gtime
  | CallUpsertOAuthUser OAuthProfile ProviderTokens Session DomainEvent OAuthUpsertPolicy
  | CallCreateSession Session
  | CallSessionByTokenHash string
  | CallRotateSession string Session
  | CallRevokeSession string gtime
  | CallRevokeUserSessions string gtime
  | CallListSessions string gtime
  | CallRevokeSessionByID string string gtime
  | CallRevokeOtherSessions string string gtime
  | CallUpdateSession string string Record gtime
  | CallRotateSessionWithAudit string Session AuditEvent
  | CallPutOneTimeToken OneTimeToken
  | CallHasOneTimeToken OneTimePurpose string gtime
  | CallConsumeUserDeletion string string gtime
  | CallConsumeEmailChange string gtime
  | CallConsumeEmailChangeConfirmation string gtime
  | CallConsumePasswordReset string string gtime
  | CallConsumeEmailVerification string gtime
  | CallPutOAuthState OAuthState
  | CallConsumeOAuthState string gtime

definition void :: "('s, 'a) prog \<Rightarrow> ('s, unit) prog" where
  "void m = bindM m (\<lambda>_. ret ())"

primrec run_call :: "'s database_adapter \<Rightarrow> store_call \<Rightarrow> ('s, unit) prog" where
  "run_call db (CallCreateEmailUser p) = void (CreateEmailUser db p)"
| "run_call db (CallFindUserByEmail e) = void (FindUserByEmail db e)"
| "run_call db (CallFindUserByID u) = void (FindUserByID db u)"
| "run_call db (CallPasswordCredential u) = void (FindPasswordCredential db u)"
| "run_call db (CallReplacePasswordHash u old new now) = ReplacePasswordHash db u old new now"
| "run_call db (CallSetPasswordHash u h now) = SetPasswordHash db u h now"
| "run_call db (CallChangePasswordAndRotate p) = void (ChangePasswordAndRotate db p)"
| "run_call db (CallUpdateUser u changes now) = void (UpdateUser db u changes now)"
| "run_call db (CallVerifyUserEmail u now) = void (VerifyUserEmail db u now)"
| "run_call db (CallDeleteUser u) = DeleteUser db u"
| "run_call db (CallListAccounts u) = void (ListAccounts db u)"
| "run_call db (CallUnlinkAccount u p a l) = UnlinkAccount db u p a l"
| "run_call db (CallUnlinkAccountByID u r l) = UnlinkAccountByID db u r l"
| "run_call db (CallLinkOAuthAccount a u p tk now) = LinkOAuthAccount db a u p tk now"
| "run_call db (CallOAuthAccountTokens u p a) = void (OAuthAccountTokens db u p a)"
| "run_call db (CallOAuthAccountTokensByID u r) = void (OAuthAccountTokensByID db u r)"
| "run_call db (CallUpdateOAuthAccountTokens u a tk now) = UpdateOAuthAccountTokens db u a tk now"
| "run_call db (CallUpsertOAuthUser p tk se ev pol) = void (UpsertOAuthUser db p tk se ev pol)"
| "run_call db (CallCreateSession se) = void (CreateSession db se)"
| "run_call db (CallSessionByTokenHash h) = void (SessionByTokenHash db h)"
| "run_call db (CallRotateSession h se) = void (RotateSession db h se)"
| "run_call db (CallRevokeSession h at) = RevokeSession db h at"
| "run_call db (CallRevokeUserSessions u at) = RevokeUserSessions db u at"
| "run_call db (CallListSessions u now) = void (ListSessions db u now)"
| "run_call db (CallRevokeSessionByID u i at) = void (RevokeSessionByID db u i at)"
| "run_call db (CallRevokeOtherSessions u i at) = RevokeOtherSessions db u i at"
| "run_call db (CallUpdateSession u h changes now) = void (UpdateSession db u h changes now)"
| "run_call db (CallRotateSessionWithAudit h se ae) = void (RotateSessionWithAudit db h se ae)"
| "run_call db (CallPutOneTimeToken tk) = PutOneTimeToken db tk"
| "run_call db (CallHasOneTimeToken p h now) = void (HasOneTimeToken db p h now)"
| "run_call db (CallConsumeUserDeletion h u now) = ConsumeUserDeletion db h u now"
| "run_call db (CallConsumeEmailChange h now) = void (ConsumeEmailChange db h now)"
| "run_call db (CallConsumeEmailChangeConfirmation h now) = void (ConsumeEmailChangeConfirmation db h now)"
| "run_call db (CallConsumePasswordReset h p now) = void (ConsumePasswordReset db h p now)"
| "run_call db (CallConsumeEmailVerification h now) = void (ConsumeEmailVerification db h now)"
| "run_call db (CallPutOAuthState st) = PutOAuthState db st"
| "run_call db (CallConsumeOAuthState h now) = void (ConsumeOAuthState db h now)"

text \<open>A sequence of calls: a call that fails does not stop the ones after it.\<close>

primrec run_calls :: "'s database_adapter \<Rightarrow> store_call list \<Rightarrow> 's \<Rightarrow> 's" where
  "run_calls db [] s = s"
| "run_calls db (c # cs) s = run_calls db cs (snd (run_call db c s))"

text \<open>The steps and the reachable states of a store on the in-memory adapter.\<close>

inductive store_step :: "mem \<Rightarrow> store_call \<Rightarrow> mem \<Rightarrow> bool" where
  call: "run_call core_db c s = (r, t) \<Longrightarrow> store_step s c t"

inductive store_reachable :: "mem \<Rightarrow> bool" where
  init: "store_reachable empty_mem"
| step: "store_reachable s \<Longrightarrow> store_step s c t \<Longrightarrow> store_reachable t"

inductive_cases store_step_elim: "store_step s c t"

inductive_simps store_step_iff: "store_step s c t"

lemma keeps_void: "keeps P m \<Longrightarrow> keeps P (void m)"
  unfolding void_def by (intro keeps_bindM keeps_ret)

section \<open>Writes of a call\<close>

text \<open>The calls that write neither the token hash nor the revocation mark of a session.\<close>

definition session_safe :: "store_call \<Rightarrow> bool" where
  "session_safe c = (case c of
     CallUpdateSession u h changes now \<Rightarrow> changes ''revokedAt'' = None \<and> changes ''tokenHash'' = None
   | _ \<Rightarrow> True)"

text \<open>
  Of these, the calls that delete no session either. The handlers pass \<open>UpdateSession\<close> only the
  additional fields of the configuration.
\<close>

definition revoke_safe :: "store_call \<Rightarrow> bool" where
  "revoke_safe c \<longleftrightarrow> session_safe c \<and> (case c of CallDeleteUser u \<Rightarrow> False | _ \<Rightarrow> True)"

text \<open>The token hashes a call may store.\<close>

definition puts_token :: "store_call \<Rightarrow> string \<Rightarrow> bool" where
  "puts_token c h = (case c of
     CallPutOneTimeToken tk \<Rightarrow> ot_Hash tk = h
   | CallPutOAuthState st \<Rightarrow> os_Hash st = h
   | _ \<Rightarrow> False)"

text \<open>The calls that may start a session with token hash \<open>h\<close>.\<close>

definition starts_session :: "store_call \<Rightarrow> string \<Rightarrow> bool" where
  "starts_session c h = (case c of
     CallCreateEmailUser p \<Rightarrow> ce_CreateSession p \<and> ss_TokenHash (ce_Session p) = h
   | CallChangePasswordAndRotate p \<Rightarrow> ss_TokenHash (cp_ReplacementSession p) = h
   | CallUpsertOAuthUser p tk se ev pol \<Rightarrow> ss_TokenHash se = h
   | CallCreateSession se \<Rightarrow> ss_TokenHash se = h
   | CallRotateSession h' se \<Rightarrow> ss_TokenHash se = h
   | CallRotateSessionWithAudit h' se ae \<Rightarrow> ss_TokenHash se = h
   | _ \<Rightarrow> False)"

context table_property
begin

lemmas K_call_rules = K_CreateEmailUser K_FindUserByEmail K_FindUserByID
  K_FindPasswordCredential K_ReplacePasswordHash K_SetPasswordHash K_ChangePasswordAndRotate
  K_UpdateUser K_VerifyUserEmail K_ListAccounts K_UnlinkAccount K_UnlinkAccountByID
  K_LinkOAuthAccount K_OAuthAccountTokens K_OAuthAccountTokensByID K_UpdateOAuthAccountTokens
  K_UpsertOAuthUser K_CreateSession K_SessionByTokenHash K_RotateSession K_RevokeSession
  K_RevokeUserSessions K_ListSessions K_RevokeSessionByID K_RevokeOtherSessions
  K_RotateSessionWithAudit K_HasOneTimeToken K_ConsumeUserDeletion K_ConsumeEmailChange
  K_ConsumeEmailChangeConfirmation K_ConsumePasswordReset K_ConsumeEmailVerification
  K_ConsumeOAuthState

lemma K_run_call:
  assumes cre: "\<And>m d. m \<noteq> ModelVerification \<Longrightarrow> m \<noteq> ModelSession \<Longrightarrow> cre m d"
    and start: "\<And>se. starts_session c (ss_TokenHash se) \<Longrightarrow> cre ModelSession (sessionRecord se)"
    and put: "\<And>tk. c = CallPutOneTimeToken tk \<Longrightarrow> cre ModelVerification (tokenRow tk)"
    and state: "\<And>st. c = CallPutOAuthState st \<Longrightarrow> cre ModelVerification (oauthStateRow st)"
    and upd: "\<And>m u. m \<noteq> ModelSession \<Longrightarrow> m \<noteq> ModelVerification \<Longrightarrow> upd m u" "\<And>t. upd ModelSession (revokeUpdate t)"
    and sess: "\<And>u h changes now. c = CallUpdateSession u h changes now \<Longrightarrow>
       upd ModelSession (changes(''updatedAt'' \<mapsto> VTime now))"
    and del: "del ModelVerification" "del ModelAccount" "del ModelUser"
    and user: "\<And>u. c = CallDeleteUser u \<Longrightarrow> del ModelSession"
  shows "keeps (K False) (run_call db c)"
proof -
  have models: "ModelUser \<noteq> ModelVerification" "ModelAccount \<noteq> ModelVerification"
    "ModelAuditEvent \<noteq> ModelVerification" "ModelOutboxEvent \<noteq> ModelVerification"
    "ModelUser \<noteq> ModelSession" "ModelAccount \<noteq> ModelSession" "ModelAuditEvent \<noteq> ModelSession"
    "ModelOutboxEvent \<noteq> ModelSession"
    by (simp_all add: ModelUser_def ModelSession_def ModelAccount_def ModelVerification_def
        ModelAuditEvent_def ModelOutboxEvent_def)
  note c = cre [OF models(1,5)] cre [OF models(2,6)] cre [OF models(3,7)] cre [OF models(4,8)]
  note u = upd(1) [OF models(5,1)] upd(1) [OF models(6,2)] upd(2)
  note s = start [unfolded starts_session_def]
  show ?thesis
  proof (cases c)
    case (CallUpdateSession w h changes now)
    then show ?thesis by (simp add: keeps_void K_UpdateSession sess)
  next
    case (CallDeleteUser w)
    then show ?thesis by (simp add: K_DeleteUser user del)
  next
    case (CallPutOneTimeToken tk)
    then show ?thesis by (simp add: K_PutOneTimeToken put del)
  next
    case (CallPutOAuthState st)
    then show ?thesis by (simp add: K_PutOAuthState state)
  qed (simp only: run_call.simps, ((intro keeps_void K_call_rules c u del); rule s; simp)[1])+
qed

lemma K_run_calls:
  assumes "\<And>c. c \<in> set cs \<Longrightarrow> keeps (K False) (run_call db c)" and "K False s"
  shows "K False (run_calls db cs s)"
  using assms
proof (induction cs arbitrary: s)
  case (Cons c cs)
  have "K False (snd (run_call db c s))"
    by (rule keepsD [where P = "K False"]) (simp_all add: Cons.prems)
  with Cons.IH Cons.prems(1) show ?case by simp
qed simp

end

end
