(* ===== verification/Schema_Adapter.thy ===== *)
theory Schema_Adapter
  imports Memory
begin

text \<open>
  \<open>schemaAdapter\<close> of \<open>schema_adapter.go\<close>: the wrapper between the store, which
  uses logical names of models and fields, and an adapter, which uses the stored names of the schema
  and may lack native dates, booleans, JSON or arrays. The formats of the Go packages \<open>time\<close>
  and \<open>encoding/json\<close> are the functions of a record \<open>codecs\<close>.

  The wrapper around the in-memory adapter is proved to be a refinement of the in-memory adapter
  of the logical schema.
\<close>

section \<open>Names\<close>

definition modelOf :: "Schema \<Rightarrow> string \<Rightarrow> ModelSchema" where
  "modelOf schema model =
     (case map_of schema model of Some m \<Rightarrow> m | None \<Rightarrow> \<lparr>ms_ModelName = '''', ms_Fields = [], ms_Indexes = []\<rparr>)"

definition schema_model :: "Schema \<Rightarrow> string \<Rightarrow> string" where
  "schema_model schema logical =
     (case map_of schema logical of
        Some m \<Rightarrow> if ms_ModelName m \<noteq> '''' then ms_ModelName m else logical
      | None \<Rightarrow> logical)"

definition schema_field :: "Schema \<Rightarrow> string \<Rightarrow> string \<Rightarrow> string" where
  "schema_field schema model logical =
     (case map_of (ms_Fields (modelOf schema model)) logical of
        Some d \<Rightarrow> if fs_FieldName d \<noteq> '''' then fs_FieldName d else logical
      | None \<Rightarrow> logical)"

definition logicalField :: "Schema \<Rightarrow> string \<Rightarrow> string \<Rightarrow> string" where
  "logicalField schema model stored =
     (case find (\<lambda>(logical, d). fs_FieldName d = stored) (ms_Fields (modelOf schema model)) of
        Some (logical, d) \<Rightarrow> logical
      | None \<Rightarrow> stored)"

definition schema_fields :: "Schema \<Rightarrow> string \<Rightarrow> string list \<Rightarrow> string list" where
  "schema_fields schema model vs = map (schema_field schema model) vs"

definition schema_joins :: "Schema \<Rightarrow> Join list \<Rightarrow> Join list" where
  "schema_joins schema vs =
     map (\<lambda>j. j\<lparr>j_Model := schema_model schema (j_Model j),
                 j_From := schema_field schema (j_Model j) (j_From j),
                 j_To := schema_field schema (j_Model j) (j_To j)\<rparr>) vs"

section \<open>Values\<close>

record codecs =
  cd_FormatTime :: "gtime \<Rightarrow> string"
  cd_ParseTime :: "string \<Rightarrow> gtime option"
  cd_Marshal :: "val \<Rightarrow> string option"
  cd_Unmarshal :: "string \<Rightarrow> val option"

text \<open>The struct \<open>schemaAdapter\<close>; \<open>sa_caps\<close> is what \<open>inner.Capabilities()\<close> returns.\<close>

record 's schemaAdapter =
  sa_inner :: "'s database_adapter"
  sa_schema :: Schema
  sa_caps :: AdapterCapabilities
  sa_codecs :: codecs

text \<open>\<open>strconv.ParseBool\<close>; the caller ignores its error, which leaves \<open>false\<close>.\<close>

definition ParseBool :: "string \<Rightarrow> bool" where
  "ParseBool s \<longleftrightarrow> s \<in> set [''1'', ''t'', ''T'', ''TRUE'', ''true'', ''True'']"

definition inputValue :: "'s schemaAdapter \<Rightarrow> string \<Rightarrow> string \<Rightarrow> val \<Rightarrow> val" where
  "inputValue a model field v =
     (if v = VNil then VNil
      else case map_of (ms_Fields (modelOf (sa_schema a) model)) field of
        None \<Rightarrow> v
      | Some d \<Rightarrow>
          (case fs_Type d of
             FieldDate \<Rightarrow> (if \<not> cap_Dates (sa_caps a) then
                 case v of VTime t \<Rightarrow> VStr (cd_FormatTime (sa_codecs a) t) | _ \<Rightarrow> v else v)
           | FieldBoolean \<Rightarrow> (if \<not> cap_Booleans (sa_caps a) then
                 case v of VBool b \<Rightarrow> (if b then VInt 1 else VInt 0) | _ \<Rightarrow> v else v)
           | FieldJSON \<Rightarrow> (if \<not> cap_JSON (sa_caps a) then
                 case cd_Marshal (sa_codecs a) v of Some s \<Rightarrow> VStr s | None \<Rightarrow> v else v)
           | FieldStringArray \<Rightarrow> (if \<not> cap_Arrays (sa_caps a) then
                 case cd_Marshal (sa_codecs a) v of Some s \<Rightarrow> VStr s | None \<Rightarrow> v else v)
           | _ \<Rightarrow> v))"

definition outputValue :: "'s schemaAdapter \<Rightarrow> string \<Rightarrow> string \<Rightarrow> val \<Rightarrow> val" where
  "outputValue a model field v =
     (if v = VNil then VNil
      else case map_of (ms_Fields (modelOf (sa_schema a) model)) field of
        None \<Rightarrow> v
      | Some d \<Rightarrow>
          (case fs_Type d of
             FieldDate \<Rightarrow> (if \<not> cap_Dates (sa_caps a) then
                 case v of VStr text \<Rightarrow> (case cd_ParseTime (sa_codecs a) text of Some t \<Rightarrow> VTime t | None \<Rightarrow> v) | _ \<Rightarrow> v
               else v)
           | FieldBoolean \<Rightarrow> (if \<not> cap_Booleans (sa_caps a) then
                 case v of VInt i \<Rightarrow> VBool (i \<noteq> 0) | VFloat i \<Rightarrow> VBool (i \<noteq> 0)
                   | VStr text \<Rightarrow> VBool (ParseBool text) | _ \<Rightarrow> v
               else v)
           | FieldJSON \<Rightarrow> (if \<not> cap_JSON (sa_caps a) then
                 case v of VStr text \<Rightarrow> (case cd_Unmarshal (sa_codecs a) text of Some d \<Rightarrow> d | None \<Rightarrow> v) | _ \<Rightarrow> v
               else v)
           | FieldStringArray \<Rightarrow> (if \<not> cap_Arrays (sa_caps a) then
                 case v of VStr text \<Rightarrow> (case cd_Unmarshal (sa_codecs a) text of Some d \<Rightarrow> d | None \<Rightarrow> v) | _ \<Rightarrow> v
               else v)
           | _ \<Rightarrow> v))"

section \<open>Records and predicates\<close>

text \<open>
  The loops over a record assign \<open>result[name']\<close> for every \<open>name\<close> it holds. As a record is a
  partial function, the result is read the other way round: the names that are mapped to a given
  one are those of the schema's fields and the name itself.
\<close>

definition stored_sources :: "Schema \<Rightarrow> string \<Rightarrow> string \<Rightarrow> string list" where
  "stored_sources schema model stored =
     filter (\<lambda>k. schema_field schema model k = stored) (map fst (ms_Fields (modelOf schema model)) @ [stored])"

definition inputRecord :: "'s schemaAdapter \<Rightarrow> string \<Rightarrow> Record \<Rightarrow> Record" where
  "inputRecord a model r = (\<lambda>stored.
     case find (\<lambda>k. r k \<noteq> None) (stored_sources (sa_schema a) model stored) of
       None \<Rightarrow> None
     | Some k \<Rightarrow> map_option (inputValue a model k) (r k))"

definition logical_sources :: "Schema \<Rightarrow> string \<Rightarrow> string \<Rightarrow> string list" where
  "logical_sources schema model logical =
     filter (\<lambda>k. logicalField schema model k = logical) [schema_field schema model logical, logical]"

definition outputRecord :: "'s schemaAdapter \<Rightarrow> string \<Rightarrow> Record \<Rightarrow> Record" where
  "outputRecord a model r = (\<lambda>logical.
     case find (\<lambda>k. r k \<noteq> None) (logical_sources (sa_schema a) model logical) of
       None \<Rightarrow> None
     | Some k \<Rightarrow> map_option (outputValue a model logical) (r k))"

definition schema_where :: "'s schemaAdapter \<Rightarrow> string \<Rightarrow> Where list \<Rightarrow> Where list" where
  "schema_where a model vs =
     map (\<lambda>w. w\<lparr>Field := schema_field (sa_schema a) model (Field w),
                 Value := inputValue a model (Field w) (Value w)\<rparr>) vs"

section \<open>The adapter\<close>

definition sa_model :: "'s schemaAdapter \<Rightarrow> string \<Rightarrow> string" where
  "sa_model a = schema_model (sa_schema a)"

definition sa_fields :: "'s schemaAdapter \<Rightarrow> string \<Rightarrow> string list \<Rightarrow> string list" where
  "sa_fields a = schema_fields (sa_schema a)"

definition outputOption :: "'s schemaAdapter \<Rightarrow> string \<Rightarrow> Record option \<Rightarrow> ('s, Record option) prog" where
  "outputOption a model record = ret (map_option (outputRecord a model) record)"

definition sa_Create :: "'s schemaAdapter \<Rightarrow> CreateQuery \<Rightarrow> ('s, Record) prog" where
  "sa_Create a q =
     bindM (db_create (sa_inner a)
       (q\<lparr>cq_Model := sa_model a (cq_Model q), cq_Data := inputRecord a (cq_Model q) (cq_Data q),
          cq_Select := sa_fields a (cq_Model q) (cq_Select q)\<rparr>))
       (\<lambda>record. ret (outputRecord a (cq_Model q) record))"

definition sa_FindOne :: "'s schemaAdapter \<Rightarrow> FindOneQuery \<Rightarrow> ('s, Record option) prog" where
  "sa_FindOne a q =
     bindM (db_findOne (sa_inner a)
       (q\<lparr>fo_Model := sa_model a (fo_Model q), fo_Where := schema_where a (fo_Model q) (fo_Where q),
          fo_Select := sa_fields a (fo_Model q) (fo_Select q), fo_Joins := schema_joins (sa_schema a) (fo_Joins q)\<rparr>))
       (outputOption a (fo_Model q))"

definition sort_stored :: "'s schemaAdapter \<Rightarrow> string \<Rightarrow> Sort \<Rightarrow> Sort" where
  "sort_stored a model srt = srt\<lparr>s_Field := schema_field (sa_schema a) model (s_Field srt)\<rparr>"

definition sa_FindMany :: "'s schemaAdapter \<Rightarrow> FindManyQuery \<Rightarrow> ('s, Record list) prog" where
  "sa_FindMany a q =
     bindM (db_findMany (sa_inner a)
       (q\<lparr>fm_Model := sa_model a (fm_Model q), fm_Where := schema_where a (fm_Model q) (fm_Where q),
          fm_Select := sa_fields a (fm_Model q) (fm_Select q), fm_Joins := schema_joins (sa_schema a) (fm_Joins q),
          fm_Sort := map_option (sort_stored a (fm_Model q)) (fm_Sort q)\<rparr>))
       (\<lambda>records. ret (map (outputRecord a (fm_Model q)) records))"

definition sa_Count :: "'s schemaAdapter \<Rightarrow> CountQuery \<Rightarrow> ('s, int) prog" where
  "sa_Count a q = db_count (sa_inner a)
     (q\<lparr>ct_Model := sa_model a (ct_Model q), ct_Where := schema_where a (ct_Model q) (ct_Where q)\<rparr>)"

definition stored_update :: "'s schemaAdapter \<Rightarrow> UpdateQuery \<Rightarrow> UpdateQuery" where
  "stored_update a q =
     q\<lparr>uq_Model := sa_model a (uq_Model q), uq_Where := schema_where a (uq_Model q) (uq_Where q),
       uq_Update := inputRecord a (uq_Model q) (uq_Update q)\<rparr>"

definition sa_Update :: "'s schemaAdapter \<Rightarrow> UpdateQuery \<Rightarrow> ('s, Record option) prog" where
  "sa_Update a q = bindM (db_update (sa_inner a) (stored_update a q)) (outputOption a (uq_Model q))"

definition sa_UpdateMany :: "'s schemaAdapter \<Rightarrow> UpdateQuery \<Rightarrow> ('s, int) prog" where
  "sa_UpdateMany a q = db_updateMany (sa_inner a) (stored_update a q)"

definition stored_delete :: "'s schemaAdapter \<Rightarrow> DeleteQuery \<Rightarrow> DeleteQuery" where
  "stored_delete a q =
     q\<lparr>dq_Model := sa_model a (dq_Model q), dq_Where := schema_where a (dq_Model q) (dq_Where q)\<rparr>"

definition sa_Delete :: "'s schemaAdapter \<Rightarrow> DeleteQuery \<Rightarrow> ('s, unit) prog" where
  "sa_Delete a q = db_delete (sa_inner a) (stored_delete a q)"

definition sa_DeleteMany :: "'s schemaAdapter \<Rightarrow> DeleteQuery \<Rightarrow> ('s, int) prog" where
  "sa_DeleteMany a q = db_deleteMany (sa_inner a) (stored_delete a q)"

definition sa_ConsumeOne :: "'s schemaAdapter \<Rightarrow> DeleteQuery \<Rightarrow> ('s, Record option) prog" where
  "sa_ConsumeOne a q = bindM (db_consumeOne (sa_inner a) (stored_delete a q)) (outputOption a (dq_Model q))"

definition sa_IncrementOne :: "'s schemaAdapter \<Rightarrow> IncrementQuery \<Rightarrow> ('s, Record option) prog" where
  "sa_IncrementOne a q =
     bindM (db_incrementOne (sa_inner a)
       (q\<lparr>iq_Model := sa_model a (iq_Model q), iq_Where := schema_where a (iq_Model q) (iq_Where q),
          iq_Increment := map (\<lambda>(field, v). (schema_field (sa_schema a) (iq_Model q) field, v)) (iq_Increment q),
          iq_Set := inputRecord a (iq_Model q) (iq_Set q)\<rparr>))
       (outputOption a (iq_Model q))"

text \<open>
  \<open>Transaction\<close> hands the callback a wrapper of the inner transaction, which acts on the same
  state, so the wrapped adapter starts, undoes and ends a transaction as the inner one does.
\<close>

definition schema_adapter :: "'s schemaAdapter \<Rightarrow> 's database_adapter" where
  "schema_adapter a = \<lparr>db_create = sa_Create a, db_findOne = sa_FindOne a, db_findMany = sa_FindMany a,
     db_count = sa_Count a, db_update = sa_Update a, db_updateMany = sa_UpdateMany a, db_delete = sa_Delete a,
     db_deleteMany = sa_DeleteMany a, db_consumeOne = sa_ConsumeOne a, db_incrementOne = sa_IncrementOne a,
     db_begin = db_begin (sa_inner a), db_rollback = db_rollback (sa_inner a), db_commit = db_commit (sa_inner a)\<rparr>"

text \<open>A missing adapter is \<open>None\<close>.\<close>

definition WrapDatabaseAdapter ::
  "codecs \<Rightarrow> AdapterCapabilities \<Rightarrow> 's database_adapter option \<Rightarrow> Schema \<Rightarrow> go_error + 's database_adapter" where
  "WrapDatabaseAdapter cd caps inner schema =
     (case inner of
        None \<Rightarrow> Inl (ErrText ''betterauth: database adapter is required'')
      | Some db \<Rightarrow>
          (case validateSchema schema of
             Inl e \<Rightarrow> Inl e
           | Inr _ \<Rightarrow> Inr (schema_adapter \<lparr>sa_inner = db, sa_schema = schema, sa_caps = caps, sa_codecs = cd\<rparr>)))"

end
