(* ===== verification/Schema_Refinement.thy ===== *)
theory Schema_Refinement
  imports Schema_Adapter Memory_Laws
begin

text \<open>
  The schema adapter around the in-memory adapter refines the in-memory adapter of the logical
  schema: a computation on logical names and the same computation through the wrapper give the same
  results, and the tables keep corresponding row by row. \<open>validateSchema\<close> is what makes the
  renaming injective.
\<close>

section \<open>Simulation of computations\<close>

definition simulates :: "('t \<Rightarrow> 's) \<Rightarrow> ('t \<Rightarrow> bool) \<Rightarrow> ('s, 'a) prog \<Rightarrow> ('t, 'a) prog \<Rightarrow> bool" where
  "simulates rep ok p q \<longleftrightarrow>
     (\<forall>t. ok t \<longrightarrow> p (rep t) = (fst (q t), rep (snd (q t))) \<and> ok (snd (q t)))"

named_theorems sim_rules \<open>rules that carry a simulation through the combinators\<close>

lemma simulatesD:
  "simulates rep ok p q \<Longrightarrow> ok t \<Longrightarrow> p (rep t) = (fst (q t), rep (snd (q t))) \<and> ok (snd (q t))"
  by (simp add: simulates_def)

lemma sim_pure [sim_rules]:
  "simulates rep ok (ret a) (ret a)" "simulates rep ok (fail e) (fail e)"
  "simulates rep ok (lift r) (lift r)" "simulates rep ok (failIf b e) (failIf b e)"
  by (simp_all add: simulates_def ret_def fail_def lift_def failIf_def)

lemma sim_bindM [sim_rules]:
  assumes "simulates rep ok p q" and "\<And>a. simulates rep ok (f a) (g a)"
  shows "simulates rep ok (bindM p f) (bindM q g)"
  using assms unfolding simulates_def bindM_def
  by (auto split: prod.splits sum.splits)

lemma sim_tryM [sim_rules]: "simulates rep ok p q \<Longrightarrow> simulates rep ok (tryM p) (tryM q)"
  by (auto simp: simulates_def tryM_def split: prod.splits)

lemma sim_mapErr [sim_rules]: "simulates rep ok p q \<Longrightarrow> simulates rep ok (mapErr g p) (mapErr g q)"
  by (fastforce simp: simulates_def mapErr_def split: prod.splits sum.splits)

lemma sim_cases [sim_rules]:
  "\<lbrakk>simulates rep ok p q; simulates rep ok p' q'\<rbrakk> \<Longrightarrow>
     simulates rep ok (if b then p else p') (if b then q else q')"
  "\<lbrakk>simulates rep ok p q; \<And>x. simulates rep ok (f x) (g x)\<rbrakk> \<Longrightarrow>
     simulates rep ok (case z of None \<Rightarrow> p | Some x \<Rightarrow> f x) (case z of None \<Rightarrow> q | Some x \<Rightarrow> g x)"
  "\<lbrakk>simulates rep ok p q; \<And>x xs. simulates rep ok (h x xs) (k x xs)\<rbrakk> \<Longrightarrow>
     simulates rep ok (case l of [] \<Rightarrow> p | x # xs \<Rightarrow> h x xs) (case l of [] \<Rightarrow> q | x # xs \<Rightarrow> k x xs)"
  "\<lbrakk>\<And>e. simulates rep ok (c e) (d e); \<And>x. simulates rep ok (c' x) (d' x)\<rbrakk> \<Longrightarrow>
     simulates rep ok (case y of Inl e \<Rightarrow> c e | Inr x \<Rightarrow> c' x) (case y of Inl e \<Rightarrow> d e | Inr x \<Rightarrow> d' x)"
  "\<lbrakk>\<And>x y. simulates rep ok (u x y) (v x y)\<rbrakk> \<Longrightarrow>
     simulates rep ok (case pr of (x, y) \<Rightarrow> u x y) (case pr of (x, y) \<Rightarrow> v x y)"
  by (auto split: option.split list.split sum.split prod.split)

lemma sim_Let [sim_rules]: "simulates rep ok (f v) (g v) \<Longrightarrow> simulates rep ok (Let v f) (Let v g)"
  by simp

section \<open>What validation gives\<close>

definition storedName :: "string \<times> FieldSchema \<Rightarrow> string" where
  "storedName fd = (if fs_FieldName (snd fd) = '''' then fst fd else fs_FieldName (snd fd))"

lemma check_field_Inr:
  "check_field seen fd = Inr x \<longleftrightarrow> x = put (storedName fd) (fst fd) seen \<and>
     (map_of seen (storedName fd) = None \<or> map_of seen (storedName fd) = Some (fst fd))"
  by (auto simp: check_field_def storedName_def Let_def split: prod.splits option.splits)

lemma check_field_seen:
  assumes "foldE check_field seen fs = Inr seen'"
  shows "(\<forall>s p. map_of seen s = Some p \<longrightarrow> map_of seen' s = Some p) \<and>
         (\<forall>fd \<in> set fs. map_of seen' (storedName fd) = Some (fst fd))"
  using assms
proof (induction fs arbitrary: seen)
  case (Cons fd fs)
  obtain k d where fd: "fd = (k, d)" by fastforce
  let ?s = "storedName fd"
  from Cons.prems have ok: "map_of seen ?s = None \<or> map_of seen ?s = Some k"
    and rest: "foldE check_field (put ?s k seen) fs = Inr seen'"
    by (auto simp: check_field_Inr fd split: sum.splits)
  note IH = Cons.IH [OF rest]
  have "map_of (put ?s k seen) ?s = Some k" by simp
  moreover have "map_of seen s = Some p \<Longrightarrow> map_of (put ?s k seen) s = Some p" for s p
    using ok by auto
  ultimately show ?case using IH fd by (metis fst_conv set_ConsD)
qed simp

lemma storedName_inj:
  assumes "foldE check_field [] fs = Inr seen" and "fd \<in> set fs" and "gd \<in> set fs"
    and "storedName fd = storedName gd"
  shows "fst fd = fst gd"
  using check_field_seen [OF assms(1)] assms(2-4) by (metis option.inject)

definition storedModelName :: "string \<times> ModelSchema \<Rightarrow> string" where
  "storedModelName lm = storedModel (fst lm) (snd lm)"

lemma check_model_Inr:
  "check_model seen lm = Inr x \<longleftrightarrow> x = put (storedModelName lm) (fst lm) seen \<and>
     (map_of seen (storedModelName lm) = None \<or> map_of seen (storedModelName lm) = Some (fst lm)) \<and>
     (\<exists>fs. foldE check_field [] (ms_Fields (snd lm)) = Inr fs) \<and>
     (\<exists>ns. foldE (check_index (snd lm)) [] (ms_Indexes (snd lm)) = Inr ns)"
  by (auto simp: check_model_def storedModelName_def Let_def split: prod.splits option.splits sum.splits)

lemma check_model_seen:
  assumes "foldE check_model seen ms = Inr seen'"
  shows "(\<forall>s p. map_of seen s = Some p \<longrightarrow> map_of seen' s = Some p) \<and>
         (\<forall>lm \<in> set ms. map_of seen' (storedModelName lm) = Some (fst lm) \<and>
            (\<exists>fs. foldE check_field [] (ms_Fields (snd lm)) = Inr fs) \<and>
            (\<exists>ns. foldE (check_index (snd lm)) [] (ms_Indexes (snd lm)) = Inr ns))"
  using assms
proof (induction ms arbitrary: seen)
  case (Cons lm ms)
  obtain l m where lm: "lm = (l, m)" by fastforce
  let ?s = "storedModelName lm"
  from Cons.prems have ok: "map_of seen ?s = None \<or> map_of seen ?s = Some l"
    and rest: "foldE check_model (put ?s l seen) ms = Inr seen'"
    and parts: "\<exists>fs. foldE check_field [] (ms_Fields m) = Inr fs" "\<exists>ns. foldE (check_index m) [] (ms_Indexes m) = Inr ns"
    by (auto simp: check_model_Inr lm split: sum.splits)
  note IH = Cons.IH [OF rest]
  have "map_of (put ?s l seen) ?s = Some l" by simp
  moreover have "map_of seen s = Some p \<Longrightarrow> map_of (put ?s l seen) s = Some p" for s p
    using ok by auto
  ultimately have "\<forall>s p. map_of seen s = Some p \<longrightarrow> map_of seen' s = Some p" and "map_of seen' ?s = Some l"
    using IH by blast+
  with IH parts show ?case by (simp add: lm)
qed simp

lemma check_index_Inr:
  "check_index m names i = Inr x \<longleftrightarrow> x = ix_Name i # names \<and> ix_Name i \<noteq> '''' \<and> 2 \<le> length (ix_Fields i) \<and>
     ix_Name i \<notin> set names \<and> (\<forall>f \<in> set (ix_Fields i). map_of (ms_Fields m) f \<noteq> None)"
  by (auto simp: check_index_def list_all_iff)

lemma check_index_fields:
  assumes "foldE (check_index m) names ixs = Inr ns" and "ix \<in> set ixs"
  shows "set (ix_Fields ix) \<subseteq> fst ` set (ms_Fields m)"
  using assms
proof (induction ixs arbitrary: names)
  case (Cons i ixs)
  from Cons.prems(1) have "\<forall>f \<in> set (ix_Fields i). map_of (ms_Fields m) f \<noteq> None"
    and "foldE (check_index m) (ix_Name i # names) ixs = Inr ns"
    by (auto simp: check_index_Inr split: sum.splits)
  with Cons.IH Cons.prems(2) show ?case
    by (auto simp: map_of_eq_None_iff)
qed simp

section \<open>The renaming of a valid schema\<close>

text \<open>
  \<open>renaming\<close> is what the theorems ask of a schema: it passes validation, its maps have no
  duplicate keys (they are Go maps), and every model has an \<open>id\<close> and no field without a name.
\<close>

definition field_names :: "Schema \<Rightarrow> string \<Rightarrow> string set" where
  "field_names schema m = fst ` set (ms_Fields (modelOf schema m))"

definition renaming :: "Schema \<Rightarrow> bool" where
  "renaming schema \<longleftrightarrow> validateSchema schema = Inr () \<and> distinct (map fst schema) \<and>
     list_all (\<lambda>(l, m). distinct (map fst (ms_Fields m)) \<and> ''id'' \<in> fst ` set (ms_Fields m) \<and>
       '''' \<notin> fst ` set (ms_Fields m)) schema"

lemma renaming_model:
  assumes "renaming schema" and "(m, md) \<in> set schema"
  shows "modelOf schema m = md" and "distinct (map fst (ms_Fields md))" and "''id'' \<in> field_names schema m"
    and "'''' \<notin> field_names schema m" and "\<exists>fs. foldE check_field [] (ms_Fields md) = Inr fs"
    and "\<exists>ns. foldE (check_index md) [] (ms_Indexes md) = Inr ns" and "map_of schema m = Some md"
proof -
  from assms show m: "map_of schema m = Some md" by (simp add: renaming_def)
  then show md: "modelOf schema m = md" by (simp add: modelOf_def)
  from assms show "distinct (map fst (ms_Fields md))" "''id'' \<in> field_names schema m" "'''' \<notin> field_names schema m"
    by (auto simp: renaming_def list_all_iff field_names_def md)
  from assms(1) obtain seen where "foldE check_model [] schema = Inr seen"
    by (auto simp: renaming_def validateSchema_def split: sum.splits)
  from check_model_seen [OF this] assms(2)
  show "\<exists>fs. foldE check_field [] (ms_Fields md) = Inr fs" "\<exists>ns. foldE (check_index md) [] (ms_Indexes md) = Inr ns"
    by auto
qed

lemma field_names_model: "k \<in> field_names schema m \<Longrightarrow> \<exists>md. (m, md) \<in> set schema"
  by (auto simp: field_names_def modelOf_def split: option.splits dest: map_of_SomeD)

lemma schema_field_known:
  assumes "renaming schema" and "(k, d) \<in> set (ms_Fields (modelOf schema m))"
  shows "schema_field schema m k = storedName (k, d)"
proof -
  from assms(2) have "k \<in> field_names schema m" by (force simp: field_names_def)
  then obtain md where "(m, md) \<in> set schema" using field_names_model by blast
  from renaming_model [OF assms(1) this] assms(2)
  have "map_of (ms_Fields (modelOf schema m)) k = Some d" by simp
  then show ?thesis by (simp add: schema_field_def storedName_def)
qed

lemma schema_field_unknown: "k \<notin> field_names schema m \<Longrightarrow> schema_field schema m k = k"
  by (simp add: schema_field_def field_names_def flip: map_of_eq_None_iff)

lemma schema_field_inj:
  assumes "renaming schema" and "k \<in> field_names schema m" and "j \<in> field_names schema m"
    and "schema_field schema m k = schema_field schema m j"
  shows "k = j"
proof -
  obtain d e where kd: "(k, d) \<in> set (ms_Fields (modelOf schema m))" and je: "(j, e) \<in> set (ms_Fields (modelOf schema m))"
    using assms(2,3) by (auto simp: field_names_def)
  obtain md where md: "(m, md) \<in> set schema" using field_names_model [OF assms(2)] by blast
  obtain fs where "foldE check_field [] (ms_Fields (modelOf schema m)) = Inr fs"
    using renaming_model(1,5) [OF assms(1) md] by auto
  from storedName_inj [OF this kd je] assms(4) schema_field_known [OF assms(1) kd] schema_field_known [OF assms(1) je]
  show ?thesis by simp
qed

lemma schema_field_nonempty:
  assumes "renaming schema" and "k \<in> field_names schema m"
  shows "schema_field schema m k \<noteq> '''' \<and> k \<noteq> ''''"
proof -
  obtain md where "(m, md) \<in> set schema" using field_names_model [OF assms(2)] by blast
  from renaming_model(4) [OF assms(1) this] assms(2) have "k \<noteq> ''''" by auto
  then show ?thesis by (simp add: schema_field_def split: option.split)
qed

lemma logicalField_stored:
  assumes "renaming schema" and "k \<in> field_names schema m"
  shows "logicalField schema m (schema_field schema m k) = k"
proof (cases "find (\<lambda>(l, d). fs_FieldName d = schema_field schema m k) (ms_Fields (modelOf schema m))")
  case None
  obtain d where kd: "(k, d) \<in> set (ms_Fields (modelOf schema m))" using assms(2) by (auto simp: field_names_def)
  with None have "fs_FieldName d \<noteq> schema_field schema m k" by (auto simp: find_None_iff)
  with schema_field_known [OF assms(1) kd] have "schema_field schema m k = k" by (auto simp: storedName_def split: if_splits)
  with None show ?thesis by (simp add: logicalField_def)
next
  case (Some ld)
  obtain l d where ld: "ld = (l, d)" by fastforce
  from Some ld have mem: "(l, d) \<in> set (ms_Fields (modelOf schema m))" and nm: "fs_FieldName d = schema_field schema m k"
    by (auto simp: find_Some_iff in_set_conv_nth)
  from nm schema_field_nonempty [OF assms] have "schema_field schema m l = schema_field schema m k"
    by (simp add: schema_field_known [OF assms(1) mem] storedName_def)
  moreover have "l \<in> field_names schema m" using mem by (force simp: field_names_def)
  ultimately have "l = k" using schema_field_inj [OF assms(1) _ assms(2)] by blast
  with Some ld show ?thesis by (simp add: logicalField_def)
qed

lemma schema_model_inj:
  assumes "renaming schema" and "(m, md) \<in> set schema" and "(n, nd) \<in> set schema"
    and "schema_model schema m = schema_model schema n"
  shows "m = n"
proof -
  from assms(1) obtain seen where "foldE check_model [] schema = Inr seen"
    by (auto simp: renaming_def validateSchema_def split: sum.splits)
  note seen = check_model_seen [OF this]
  have "storedModelName (m, md) = schema_model schema m" "storedModelName (n, nd) = schema_model schema n"
    using renaming_model(7) [OF assms(1,2)] renaming_model(7) [OF assms(1,3)]
    by (auto simp: storedModelName_def storedModel_def schema_model_def)
  with seen assms(2-4) show ?thesis by (metis fst_conv option.inject)
qed

section \<open>Rows\<close>

text \<open>An adapter that stores every type natively, as the in-memory adapter does.\<close>

definition native :: "AdapterCapabilities \<Rightarrow> bool" where
  "native caps \<longleftrightarrow> cap_JSON caps \<and> cap_Dates caps \<and> cap_Booleans caps \<and> cap_Arrays caps"

definition renaming_adapter :: "'s schemaAdapter \<Rightarrow> bool" where
  "renaming_adapter a \<longleftrightarrow> renaming (sa_schema a) \<and> native (sa_caps a)"

definition fits :: "Schema \<Rightarrow> string \<Rightarrow> Record \<Rightarrow> bool" where
  "fits schema m r \<longleftrightarrow> dom r \<subseteq> field_names schema m"

abbreviation names :: "'s schemaAdapter \<Rightarrow> string \<Rightarrow> string set" where
  "names a m \<equiv> field_names (sa_schema a) m"

abbreviation sf :: "'s schemaAdapter \<Rightarrow> string \<Rightarrow> string \<Rightarrow> string" where
  "sf a m k \<equiv> schema_field (sa_schema a) m k"

lemma native_values:
  assumes "renaming_adapter a"
  shows "inputValue a m k v = v" and "outputValue a m k v = v"
  using assms
  by (auto simp: renaming_adapter_def native_def inputValue_def outputValue_def split: option.split FieldType.split)

lemma renaming_adapterD: "renaming_adapter a \<Longrightarrow> renaming (sa_schema a)"
  by (simp add: renaming_adapter_def)

lemma sf_inj: "renaming_adapter a \<Longrightarrow> k \<in> names a m \<Longrightarrow> j \<in> names a m \<Longrightarrow> sf a m k = sf a m j \<longleftrightarrow> k = j"
  using schema_field_inj renaming_adapterD by blast

lemma stored_sources_iff:
  "j \<in> set (stored_sources schema m n) \<longleftrightarrow> schema_field schema m j = n \<and> (j \<in> field_names schema m \<or> j = n)"
  by (auto simp: stored_sources_def field_names_def)

lemma find_only:
  "(\<And>x. x \<in> set xs \<Longrightarrow> P x \<Longrightarrow> x = y) \<Longrightarrow> find P xs = (if y \<in> set xs \<and> P y then Some y else None)"
  by (induction xs) auto

lemma inputRecord_at:
  assumes "renaming (sa_schema a)" and "k \<in> names a m" and "fits (sa_schema a) m r"
  shows "inputRecord a m r (sf a m k) = map_option (inputValue a m k) (r k)"
proof -
  have "find (\<lambda>j. r j \<noteq> None) (stored_sources (sa_schema a) m (sf a m k)) =
      (if k \<in> set (stored_sources (sa_schema a) m (sf a m k)) \<and> r k \<noteq> None then Some k else None)"
  proof (rule find_only)
    fix j assume j: "j \<in> set (stored_sources (sa_schema a) m (sf a m k))" "r j \<noteq> None"
    then have "sf a m j = sf a m k" and "j \<in> names a m" using assms(3) by (auto simp: stored_sources_iff fits_def)
    then show "j = k" using schema_field_inj [OF assms(1) _ assms(2)] by blast
  qed
  moreover have "k \<in> set (stored_sources (sa_schema a) m (sf a m k))"
    using assms(2) by (simp add: stored_sources_iff)
  ultimately show ?thesis by (auto simp: inputRecord_def)
qed

lemma inputRecord_stored:
  assumes "renaming_adapter a" and "k \<in> names a m" and "fits (sa_schema a) m r"
  shows "inputRecord a m r (sf a m k) = r k"
  using inputRecord_at [OF renaming_adapterD [OF assms(1)] assms(2,3)]
  by (cases "r k") (simp_all add: native_values [OF assms(1)])

lemma inputRecord_other:
  assumes "n \<notin> sf a m ` names a m" and "fits (sa_schema a) m r"
  shows "inputRecord a m r n = None"
proof -
  have "r j = None" if "j \<in> set (stored_sources (sa_schema a) m n)" for j
  proof (cases "j \<in> names a m")
    case True
    moreover from that have "sf a m j = n" by (simp add: stored_sources_iff)
    ultimately show ?thesis using assms(1) by blast
  next
    case False
    with assms(2) show ?thesis by (auto simp: fits_def)
  qed
  then have "find (\<lambda>j. r j \<noteq> None) (stored_sources (sa_schema a) m n) = None" by (simp add: find_None_iff)
  then show ?thesis by (simp add: inputRecord_def)
qed

lemma stored_ext:
  assumes "\<And>k. k \<in> names a m \<Longrightarrow> p (sf a m k) = q (sf a m k)"
    and "\<And>n. n \<notin> sf a m ` names a m \<Longrightarrow> p n = None" and "\<And>n. n \<notin> sf a m ` names a m \<Longrightarrow> q n = None"
  shows "p = q"
proof (rule ext)
  show "p n = q n" for n using assms by (cases "n \<in> sf a m ` names a m") auto
qed

lemma logical_sources_iff:
  "k \<in> set (logical_sources schema m l) \<longleftrightarrow> logicalField schema m k = l \<and> (k = schema_field schema m l \<or> k = l)"
  by (auto simp: logical_sources_def)

text \<open>The names come back whatever the values turn into.\<close>

lemma output_input_values:
  assumes ra: "renaming (sa_schema a)" and fits: "fits (sa_schema a) m r"
  shows "outputRecord a m (inputRecord a m r) = (\<lambda>k. map_option (\<lambda>v. outputValue a m k (inputValue a m k v)) (r k))"
proof (rule ext)
  fix l
  show "outputRecord a m (inputRecord a m r) l = map_option (\<lambda>v. outputValue a m l (inputValue a m l v)) (r l)"
  proof (cases "l \<in> names a m")
    case True
    have only: "k = sf a m l" if "k \<in> set (logical_sources (sa_schema a) m l)" "inputRecord a m r k \<noteq> None" for k
    proof -
      have "k \<in> sf a m ` names a m"
        using that(2) by (rule contrapos_np) (rule inputRecord_other [OF _ fits])
      then obtain j where j: "k = sf a m j" "j \<in> names a m" by (rule imageE)
      have "logicalField (sa_schema a) m k = l" using that(1) by (simp only: logical_sources_iff)
      with j(1) logicalField_stored [OF ra j(2)] have "j = l" by simp
      with j show ?thesis by simp
    qed
    have "sf a m l \<in> set (logical_sources (sa_schema a) m l)"
      using logicalField_stored [OF ra True] by (simp add: logical_sources_iff)
    with find_only [of "logical_sources (sa_schema a) m l" "\<lambda>k. inputRecord a m r k \<noteq> None", OF only]
    show ?thesis
      by (cases "r l") (auto simp: outputRecord_def inputRecord_at [OF ra True fits])
  next
    case False
    have "inputRecord a m r k = None" if "k \<in> set (logical_sources (sa_schema a) m l)" for k
    proof (rule inputRecord_other [OF _ fits])
      show "k \<notin> sf a m ` names a m"
        using that False logicalField_stored [OF ra] by (auto simp: logical_sources_iff)
    qed
    then have "find (\<lambda>k. inputRecord a m r k \<noteq> None) (logical_sources (sa_schema a) m l) = None"
      by (simp add: find_None_iff)
    moreover have "r l = None" using False fits by (auto simp: fits_def)
    ultimately show ?thesis by (simp add: outputRecord_def)
  qed
qed

lemma output_input_at:
  assumes "renaming (sa_schema a)" and "fits (sa_schema a) m r"
    and "\<And>k v. r k = Some v \<Longrightarrow> outputValue a m k (inputValue a m k v) = v"
  shows "outputRecord a m (inputRecord a m r) = r"
  unfolding output_input_values [OF assms(1,2)]
  by (rule ext, rename_tac k, case_tac "r k") (simp_all add: assms(3))

lemma output_input:
  "renaming_adapter a \<Longrightarrow> fits (sa_schema a) m r \<Longrightarrow> outputRecord a m (inputRecord a m r) = r"
  by (rule output_input_at) (simp_all add: renaming_adapterD native_values)

lemma fld_input:
  "renaming_adapter a \<Longrightarrow> k \<in> names a m \<Longrightarrow> fits (sa_schema a) m r \<Longrightarrow> fld (inputRecord a m r) (sf a m k) = fld r k"
  by (simp add: fld_def inputRecord_stored)

lemma fits_project: "fits schema m r \<Longrightarrow> fits schema m (project r sel)"
  by (auto simp: fits_def project_def split: if_splits)

lemma project_input:
  assumes "renaming_adapter a" and "fits (sa_schema a) m r" and "set sel \<subseteq> names a m"
  shows "project (inputRecord a m r) (sa_fields a m sel) = inputRecord a m (project r sel)"
proof (rule stored_ext [of a m])
  fix k assume k: "k \<in> names a m"
  have "sf a m k \<in> set (sa_fields a m sel) \<longleftrightarrow> k \<in> set sel"
    using assms k by (auto simp: sa_fields_def schema_fields_def dest: sf_inj [OF assms(1), THEN iffD1, rotated 2])
  then show "project (inputRecord a m r) (sa_fields a m sel) (sf a m k) = inputRecord a m (project r sel) (sf a m k)"
    using assms k by (simp add: inputRecord_stored fits_project) (simp add: project_def sa_fields_def schema_fields_def inputRecord_stored)
next
  fix n assume n: "n \<notin> sf a m ` names a m"
  show "project (inputRecord a m r) (sa_fields a m sel) n = None"
    using inputRecord_other [OF n assms(2)] by (simp add: project_def)
  show "inputRecord a m (project r sel) n = None"
    by (rule inputRecord_other [OF n fits_project [OF assms(2)]])
qed

lemma fits_set_fields: "fits schema m r \<Longrightarrow> fits schema m u \<Longrightarrow> fits schema m (set_fields i u r)"
  by (auto simp: fits_def set_fields_def dom_def split: if_splits option.splits)

lemma set_fields_input:
  assumes "renaming_adapter a" and "fits (sa_schema a) m r" and "fits (sa_schema a) m u" and "i \<in> names a m"
  shows "set_fields (sf a m i) (inputRecord a m u) (inputRecord a m r) = inputRecord a m (set_fields i u r)"
proof (rule stored_ext [of a m])
  show "set_fields (sf a m i) (inputRecord a m u) (inputRecord a m r) (sf a m k) = inputRecord a m (set_fields i u r) (sf a m k)"
    if "k \<in> names a m" for k
    unfolding inputRecord_stored [OF assms(1) that fits_set_fields [OF assms(2,3)]]
    using that assms by (simp add: set_fields_def inputRecord_stored sf_inj cong: option.case_cong)
next
  fix n assume n: "n \<notin> sf a m ` names a m"
  show "set_fields (sf a m i) (inputRecord a m u) (inputRecord a m r) n = None"
    unfolding set_fields_def inputRecord_other [OF n assms(2)] inputRecord_other [OF n assms(3)] by simp
  show "inputRecord a m (set_fields i u r) n = None"
    by (rule inputRecord_other [OF n fits_set_fields [OF assms(2,3)]])
qed

lemma fits_upd: "fits schema m r \<Longrightarrow> k \<in> field_names schema m \<Longrightarrow> fits schema m (r(k \<mapsto> v))"
  by (auto simp: fits_def)

lemma upd_input:
  assumes "renaming_adapter a" and "fits (sa_schema a) m r" and "j \<in> names a m"
  shows "(inputRecord a m r)(sf a m j \<mapsto> v) = inputRecord a m (r(j \<mapsto> v))"
  using assms
  by (intro stored_ext [of a m]) (auto simp: inputRecord_stored inputRecord_other fits_upd sf_inj)

lemma increment_input:
  assumes "renaming_adapter a" and "fits (sa_schema a) m r" and "fst ` set inc \<subseteq> names a m"
  shows "foldE increment_field (inputRecord a m r) (map (\<lambda>(field, v). (sf a m field, v)) inc) =
      map_sum (\<lambda>e. e) (inputRecord a m) (foldE increment_field r inc) \<and>
    (\<forall>q. foldE increment_field r inc = Inr q \<longrightarrow> fits (sa_schema a) m q)"
  using assms
proof (induction inc arbitrary: r)
  case (Cons fv inc)
  obtain f v where fv: "fv = (f, v)" by fastforce
  with Cons.prems have f: "f \<in> names a m" by simp
  have num: "number (fld (inputRecord a m r) (sf a m f)) = number (fld r f)"
    by (simp add: fld_input [OF Cons.prems(1) f Cons.prems(2)])
  show ?case
  proof (cases "number (fld r f)")
    case None
    with num show ?thesis by (simp add: fv increment_field_def)
  next
    case (Some c)
    note IH = Cons.IH [OF Cons.prems(1) fits_upd [OF Cons.prems(2) f]]
    have "increment_field (inputRecord a m r) (sf a m f, v) = Inr (inputRecord a m (r(f \<mapsto> VFloat (c + v))))"
      "increment_field r (f, v) = Inr (r(f \<mapsto> VFloat (c + v)))"
      using Some num upd_input [OF Cons.prems(1,2) f] by (simp_all add: increment_field_def)
    with IH [of "VFloat (c + v)"] Cons.prems(3) show ?thesis by (simp add: fv del: fun_upd_apply)
  qed
qed simp

section \<open>Predicates\<close>

definition where_fits :: "Schema \<Rightarrow> string \<Rightarrow> Where list \<Rightarrow> bool" where
  "where_fits schema m ws \<longleftrightarrow> Field ` set ws \<subseteq> field_names schema m"

definition stored_item :: "'s schemaAdapter \<Rightarrow> string \<Rightarrow> Where \<Rightarrow> Where" where
  "stored_item a m w = w\<lparr>Field := sf a m (Field w)\<rparr>"

lemma schema_where_native: "renaming_adapter a \<Longrightarrow> schema_where a m ws = map (stored_item a m) ws"
  by (simp add: schema_where_def stored_item_def native_values)

lemma validate_stored_item:
  assumes "renaming_adapter a" and "Field w \<in> names a m"
  shows "validate_item (stored_item a m w) = map_sum (\<lambda>e. e) (stored_item a m) (validate_item w)"
    and "validate_item w = Inr w' \<Longrightarrow> Field w' = Field w"
proof -
  have "sf a m (Field w) \<noteq> ''''" "Field w \<noteq> ''''"
    using schema_field_nonempty [OF renaming_adapterD [OF assms(1)] assms(2)] by simp_all
  then show "validate_item (stored_item a m w) = map_sum (\<lambda>e. e) (stored_item a m) (validate_item w)"
    by (cases w) (simp add: validate_item_def stored_item_def Let_def)
  show "validate_item w = Inr w' \<Longrightarrow> Field w' = Field w"
    by (auto simp: validate_item_def Let_def split: if_splits)
qed

lemma validate_stored_items:
  assumes "renaming_adapter a" and "where_fits (sa_schema a) m ws"
  shows "validate_items (map (stored_item a m) ws) = map_sum (\<lambda>e. e) (map (stored_item a m)) (validate_items ws) \<and>
    (\<forall>w. validate_items ws = Inr w \<longrightarrow> where_fits (sa_schema a) m w)"
  using assms(2)
proof (induction ws)
  case Nil
  then show ?case by simp
next
  case (Cons w ws)
  then have w: "Field w \<in> names a m" and IH: "validate_items (map (stored_item a m) ws) =
      map_sum (\<lambda>e. e) (map (stored_item a m)) (validate_items ws) \<and>
    (\<forall>v. validate_items ws = Inr v \<longrightarrow> where_fits (sa_schema a) m v)"
    by (simp_all add: where_fits_def)
  show ?case
  proof (cases "validate_item w")
    case (Inl e)
    then show ?thesis by (simp add: validate_stored_item(1) [OF assms(1) w])
  next
    case (Inr w')
    with validate_stored_item(2) [OF assms(1) w] w have "Field w' \<in> names a m" by simp
    with Inr IH show ?thesis
      by (cases "validate_items ws") (simp_all add: validate_stored_item(1) [OF assms(1) w] where_fits_def)
  qed
qed

lemma validate_where_stored:
  assumes "renaming_adapter a" and "where_fits (sa_schema a) m ws"
  shows "ValidateWhere (schema_where a m ws) b = map_sum (\<lambda>e. e) (map (stored_item a m)) (ValidateWhere ws b)"
    and "ValidateWhere ws b = Inr w \<Longrightarrow> where_fits (sa_schema a) m w"
  using validate_stored_items [OF assms]
  by (auto simp: schema_where_native [OF assms(1)] ValidateWhere_def split: if_splits)

lemma match_stored_item [simp]: "match v (stored_item a m w) = match v w"
  by (simp add: match_def stored_item_def)

lemma matches_stored:
  assumes "renaming_adapter a" and "fits (sa_schema a) m r" and "where_fits (sa_schema a) m ws"
  shows "matches (inputRecord a m r) (map (stored_item a m) ws) = matches r ws"
proof -
  have "fld (inputRecord a m r) (Field (stored_item a m c)) = fld r (Field c)" if "c \<in> set ws" for c
    using that assms by (auto simp: stored_item_def where_fits_def intro!: fld_input)
  moreover have "Connector (stored_item a m c) = Connector c" for c by (simp add: stored_item_def)
  ultimately show ?thesis by (simp add: matches_iff)
qed

section \<open>Tables\<close>

definition table_fits :: "Schema \<Rightarrow> string \<Rightarrow> table \<Rightarrow> bool" where
  "table_fits schema m t \<longleftrightarrow> list_all (\<lambda>(i, r). fits schema m r) t"

definition stored_table :: "'s schemaAdapter \<Rightarrow> string \<Rightarrow> table \<Rightarrow> table" where
  "stored_table a m t = map (\<lambda>(i, r). (i, inputRecord a m r)) t"

lemma stored_table_simps [simp]:
  "stored_table a m [] = []"
  "stored_table a m ((i, r) # t) = (i, inputRecord a m r) # stored_table a m t"
  by (simp_all add: stored_table_def)

lemma table_fits_simps [simp]:
  "table_fits schema m []"
  "table_fits schema m ((i, r) # t) \<longleftrightarrow> fits schema m r \<and> table_fits schema m t"
  by (simp_all add: table_fits_def)

lemma map_of_stored_table: "map_of (stored_table a m t) i = map_option (inputRecord a m) (map_of t i)"
  by (induction t) auto

lemma first_match_stored:
  assumes "renaming_adapter a" and "where_fits (sa_schema a) m ws" and "table_fits (sa_schema a) m t"
  shows "first_match (stored_table a m t) (map (stored_item a m) ws) =
      map_option (\<lambda>(i, r). (i, inputRecord a m r)) (first_match t ws)"
    and "first_match t ws = Some (i, r) \<Longrightarrow> fits (sa_schema a) m r"
  using assms(3) by (induction t) (auto simp: matches_stored assms(1,2) split: if_splits)

lemma filter_stored:
  assumes "renaming_adapter a" and "where_fits (sa_schema a) m ws" and "table_fits (sa_schema a) m t"
  shows "filter (\<lambda>(i, r). matches r (map (stored_item a m) ws)) (stored_table a m t) =
      stored_table a m (filter (\<lambda>(i, r). matches r ws) t)"
    and "filter (\<lambda>(i, r). \<not> matches r (map (stored_item a m) ws)) (stored_table a m t) =
      stored_table a m (filter (\<lambda>(i, r). \<not> matches r ws) t)"
  using assms(3) by (induction t) (auto simp: matches_stored assms(1,2))

lemma table_fits_filter: "table_fits schema m t \<Longrightarrow> table_fits schema m (filter P t)"
  by (auto simp: table_fits_def list_all_iff)

lemma set_row_stored: "set_row i (inputRecord a m r) (stored_table a m t) = stored_table a m (set_row i r t)"
  by (induction t) (auto simp: set_row_def)

lemma del_row_stored: "del_row i (stored_table a m t) = stored_table a m (del_row i t)"
  by (induction t) (auto simp: del_row_def)

lemma table_fits_set_row: "table_fits schema m t \<Longrightarrow> fits schema m r \<Longrightarrow> table_fits schema m (set_row i r t)"
  by (auto simp: table_fits_def list_all_iff set_row_def split: if_splits)

lemma table_fits_del_row: "table_fits schema m t \<Longrightarrow> table_fits schema m (del_row i t)"
  by (simp add: del_row_def table_fits_filter)

text \<open>Sorting by a comparison that the representation respects.\<close>

lemma insert_by_map:
  "(\<And>y. y \<in> set ys \<Longrightarrow> d (f x) (f y) = c x y) \<Longrightarrow> insert_by d (f x) (map f ys) = map f (insert_by c x ys)"
  by (induction ys) auto

lemma sort_stable_map:
  "(\<And>x y. x \<in> set xs \<Longrightarrow> y \<in> set xs \<Longrightarrow> d (f x) (f y) = c x y) \<Longrightarrow>
   sort_stable d (map f xs) = map f (sort_stable c xs)"
proof (induction xs)
  case (Cons x xs)
  have "sort_stable d (map f xs) = map f (sort_stable c xs)" using Cons by simp
  moreover have "insert_by d (f x) (map f (sort_stable c xs)) = map f (insert_by c x (sort_stable c xs))"
    by (rule insert_by_map) (use Cons.prems in \<open>simp add: set_sort_stable\<close>)
  ultimately show ?case by (simp add: sort_stable_def)
qed (simp add: sort_stable_def)

lemma find_rows_stored:
  assumes "renaming_adapter a" and "where_fits (sa_schema a) m w" and "table_fits (sa_schema a) m t"
    and "fm_Sort q' = map_option (sort_stored a m) (fm_Sort q)" and "fm_Offset q' = fm_Offset q"
    and "\<And>srt. fm_Sort q = Some srt \<Longrightarrow> s_Field srt \<in> names a m"
  shows "find_rows q' limit (map (stored_item a m) w) (stored_table a m t) = stored_table a m (find_rows q limit w t)"
    and "table_fits (sa_schema a) m (find_rows q limit w t)"
proof -
  let ?f = "\<lambda>(i, r). (i, inputRecord a m r)"
  let ?hits = "filter (\<lambda>(i, r). matches r w) t"
  have hits: "table_fits (sa_schema a) m ?hits" by (rule table_fits_filter [OF assms(3)])
  have sorted: "sort_stable (\<lambda>l r. sort_order (sort_stored a m srt) (snd l) (snd r)) (map ?f ?hits) =
      map ?f (sort_stable (\<lambda>l r. sort_order srt (snd l) (snd r)) ?hits)" if "fm_Sort q = Some srt" for srt
  proof (rule sort_stable_map)
    fix x y assume "x \<in> set ?hits" and "y \<in> set ?hits"
    then have "fits (sa_schema a) m (snd x)" "fits (sa_schema a) m (snd y)"
      using hits by (auto simp: table_fits_def list_all_iff)
    then show "sort_order (sort_stored a m srt) (snd (?f x)) (snd (?f y)) = sort_order srt (snd x) (snd y)"
      using fld_input [OF assms(1) assms(6) [OF that]]
      by (simp add: sort_order_def sort_stored_def case_prod_beta)
  qed
  show "find_rows q' limit (map (stored_item a m) w) (stored_table a m t) = stored_table a m (find_rows q limit w t)"
    using sorted unfolding find_rows_def Let_def filter_stored(1) [OF assms(1-3)]
    by (cases "fm_Sort q") (simp_all add: assms(4,5) stored_table_def drop_map take_map)
  show "table_fits (sa_schema a) m (find_rows q limit w t)"
    using hits unfolding find_rows_def Let_def
    by (auto simp: table_fits_def list_all_iff set_sort_stable split: option.splits dest!: in_set_takeD in_set_dropD)
qed

section \<open>Keys\<close>

text \<open>The logical schema: the same models and fields, stored under their own names.\<close>

definition logicalModel :: "ModelSchema \<Rightarrow> ModelSchema" where
  "logicalModel md = md\<lparr>ms_ModelName := '''', ms_Fields := map (\<lambda>(k, d). (k, d\<lparr>fs_FieldName := ''''\<rparr>)) (ms_Fields md)\<rparr>"

definition logicalSchema :: "Schema \<Rightarrow> Schema" where
  "logicalSchema schema = map (\<lambda>(l, md). (l, logicalModel md)) schema"

lemma rules_step_sel:
  "r_unique (rules_step r lm) n =
     (if n = storedModelName lm then r_unique r n @ model_keys (snd lm) else r_unique r n)"
  "r_ids (rules_step r lm) n = (if n = storedModelName lm then Some (storedField (snd lm) ''id'') else r_ids r n)"
  by (auto simp: rules_step_def storedModelName_def Let_def split: prod.splits)

lemma rules_unique_fold:
  "r_unique (foldl rules_step r ms) n =
     r_unique r n @ concat (map (\<lambda>lm. model_keys (snd lm)) (filter (\<lambda>lm. storedModelName lm = n) ms))"
  by (induction ms arbitrary: r) (auto simp: rules_step_sel)

lemma rules_ids_fold:
  assumes "\<And>lm. lm \<in> set ms \<Longrightarrow> storedModelName lm = n \<Longrightarrow> storedField (snd lm) ''id'' = i"
  shows "r_ids (foldl rules_step r ms) n =
    (if \<exists>lm \<in> set ms. storedModelName lm = n then Some i else r_ids r n)"
  using assms
proof (induction ms arbitrary: r)
  case (Cons lm ms)
  have "r_ids (foldl rules_step (rules_step r lm) ms) n =
    (if \<exists>lm \<in> set ms. storedModelName lm = n then Some i else r_ids (rules_step r lm) n)"
    by (rule Cons.IH) (use Cons.prems in auto)
  with Cons.prems [of lm] show ?case
    by (auto simp: rules_step_sel)
qed simp

lemma filter_single: "distinct xs \<Longrightarrow> x \<in> set xs \<Longrightarrow> (\<And>y. y \<in> set xs \<Longrightarrow> P y \<longleftrightarrow> y = x) \<Longrightarrow> filter P xs = [x]"
proof (induction xs)
  case (Cons y xs)
  show ?case
  proof (cases "y = x")
    case True
    with Cons.prems have "filter P xs = []" by (auto simp: filter_empty_conv)
    with True Cons.prems(3) [of y] show ?thesis by simp
  next
    case False
    with Cons.prems have "filter P xs = [x]" by (intro Cons.IH) auto
    with False Cons.prems(3) [of y] show ?thesis by simp
  qed
qed simp

lemma rules_of_model:
  assumes "distinct (map fst schema)" and "(m, md) \<in> set schema"
    and inj: "\<And>n nd. (n, nd) \<in> set schema \<Longrightarrow> storedModelName (n, nd) = storedModelName (m, md) \<Longrightarrow> n = m"
  shows "r_unique (rulesFromSchema schema) (storedModelName (m, md)) = model_keys md"
    and "r_ids (rulesFromSchema schema) (storedModelName (m, md)) = Some (storedField md ''id'')"
proof -
  have only: "storedModelName lm = storedModelName (m, md) \<longleftrightarrow> lm = (m, md)" if "lm \<in> set schema" for lm
  proof
    assume "storedModelName lm = storedModelName (m, md)"
    with inj [of "fst lm" "snd lm"] that have "fst lm = m" by simp
    with that assms(1,2) show "lm = (m, md)" by (metis eq_key_imp_eq_value prod.collapse)
  qed simp
  have "filter (\<lambda>lm. storedModelName lm = storedModelName (m, md)) schema = [(m, md)]"
    using assms(1,2) only by (intro filter_single) (auto simp: distinct_map)
  then show "r_unique (rulesFromSchema schema) (storedModelName (m, md)) = model_keys md"
    by (simp add: rulesFromSchema_def rules_unique_fold)
  have "r_ids (foldl rules_step \<lparr>r_ids = Map.empty, r_unique = (\<lambda>_. [])\<rparr> schema) (storedModelName (m, md)) =
    (if \<exists>lm \<in> set schema. storedModelName lm = storedModelName (m, md) then Some (storedField md ''id'')
     else r_ids \<lparr>r_ids = Map.empty, r_unique = (\<lambda>_. [])\<rparr> (storedModelName (m, md)))"
    by (rule rules_ids_fold) (use only in auto)
  with assms(2) show "r_ids (rulesFromSchema schema) (storedModelName (m, md)) = Some (storedField md ''id'')"
    by (auto simp: rulesFromSchema_def)
qed

lemma logicalModel_simps:
  "fst ` set (ms_Fields (logicalModel md)) = fst ` set (ms_Fields md)"
  "map fst (ms_Fields (logicalModel md)) = map fst (ms_Fields md)"
  "ms_Indexes (logicalModel md) = ms_Indexes md"
  "fs_Unique (fieldAt (logicalModel md) f) = fs_Unique (fieldAt md f)"
  "storedField (logicalModel md) f = f"
  by (auto simp: logicalModel_def fieldAt_def storedField_def map_of_map case_prod_beta comp_def fieldOf_def
      image_image split: option.split)

lemma logical_rules:
  assumes "renaming schema" and "(m, md) \<in> set schema"
  shows "r_unique (rulesFromSchema (logicalSchema schema)) m = model_keys (logicalModel md)"
    and "r_ids (rulesFromSchema (logicalSchema schema)) m = Some ''id''"
proof -
  have st: "storedModelName (l, logicalModel nd) = l" for l nd
    by (simp add: storedModelName_def storedModel_def logicalModel_def)
  have d: "distinct (map fst (logicalSchema schema))"
    using assms(1) by (simp add: logicalSchema_def renaming_def comp_def case_prod_beta)
  have m: "(m, logicalModel md) \<in> set (logicalSchema schema)"
    using assms(2) by (force simp: logicalSchema_def)
  have "n = m" if "(n, nd) \<in> set (logicalSchema schema)" "storedModelName (n, nd) = storedModelName (m, logicalModel md)" for n nd
    using that st by (auto simp: logicalSchema_def)
  note R = rules_of_model [OF d m this]
  from R show "r_unique (rulesFromSchema (logicalSchema schema)) m = model_keys (logicalModel md)"
    and "r_ids (rulesFromSchema (logicalSchema schema)) m = Some ''id''"
    by (simp_all add: st logicalModel_simps)
qed

lemma stored_rules:
  assumes "renaming schema" and "(m, md) \<in> set schema"
  shows "r_unique (rulesFromSchema schema) (schema_model schema m) = model_keys md"
    and "r_ids (rulesFromSchema schema) (schema_model schema m) = Some (schema_field schema m ''id'')"
proof -
  have st: "storedModelName (n, nd) = schema_model schema n" if "(n, nd) \<in> set schema" for n nd
    using renaming_model(7) [OF assms(1) that]
    by (auto simp: storedModelName_def storedModel_def schema_model_def)
  have sid: "storedField md f = schema_field schema m f" for f
    by (auto simp: storedField_def schema_field_def fieldAt_def renaming_model(1) [OF assms] fieldOf_def split: option.split)
  have "n = m" if "(n, nd) \<in> set schema" "storedModelName (n, nd) = storedModelName (m, md)" for n nd
    using that st schema_model_inj [OF assms(1) that(1) assms(2)] assms(2) by simp
  note R = rules_of_model [OF _ assms(2) this]
  from assms(1) have "distinct (map fst schema)" by (simp add: renaming_def)
  from R [OF this] st [OF assms(2)] sid
  show "r_unique (rulesFromSchema schema) (schema_model schema m) = model_keys md"
    and "r_ids (rulesFromSchema schema) (schema_model schema m) = Some (schema_field schema m ''id'')"
    by simp_all
qed

lemma model_keys_stored:
  assumes "renaming schema" and "(m, md) \<in> set schema"
  shows "model_keys md = map (map (schema_field schema m)) (model_keys (logicalModel md))"
    and "\<Union> (set ` set (model_keys (logicalModel md))) \<subseteq> field_names schema m"
proof -
  have sid: "storedField md = schema_field schema m"
    by (rule ext) (auto simp: storedField_def schema_field_def fieldAt_def renaming_model(1) [OF assms] fieldOf_def split: option.split)
  have nm: "fst ` set (ms_Fields md) = field_names schema m"
    by (simp add: field_names_def renaming_model(1) [OF assms])
  have "filter (\<lambda>f. fs_Unique (fieldAt md f) \<and> schema_field schema m f \<noteq> schema_field schema m ''id'') (sort (map fst (ms_Fields md))) =
      filter (\<lambda>f. fs_Unique (fieldAt md f) \<and> f \<noteq> ''id'') (sort (map fst (ms_Fields md)))"
  proof (rule filter_cong [OF refl])
    fix f assume "f \<in> set (sort (map fst (ms_Fields md)))"
    then have "f \<in> field_names schema m" using nm by simp
    then show "(fs_Unique (fieldAt md f) \<and> schema_field schema m f \<noteq> schema_field schema m ''id'') =
        (fs_Unique (fieldAt md f) \<and> f \<noteq> ''id'')"
      using schema_field_inj [OF assms(1) _ renaming_model(3) [OF assms]] by auto
  qed
  then show "model_keys md = map (map (schema_field schema m)) (model_keys (logicalModel md))"
    by (simp add: model_keys_def Let_def sid logicalModel_simps comp_def)
  obtain ns where "foldE (check_index md) [] (ms_Indexes md) = Inr ns" using renaming_model(6) [OF assms] by blast
  from check_index_fields [OF this] nm
  show "\<Union> (set ` set (model_keys (logicalModel md))) \<subseteq> field_names schema m"
    by (auto simp: model_keys_def Let_def logicalModel_simps)
qed

end
