(* ===== verification/Schema_Simulation.thy ===== *)
theory Schema_Simulation
  imports Schema_Refinement
begin

text \<open>
  Every method of the schema adapter over the in-memory adapter, and every transaction of such
  calls, simulates the method of the in-memory adapter of the logical schema.
\<close>

section \<open>States\<close>

definition stored_rows :: "'s schemaAdapter \<Rightarrow> tables \<Rightarrow> tables" where
  "stored_rows a rows = (\<lambda>n.
     case find (\<lambda>(l, md). schema_model (sa_schema a) l = n) (sa_schema a) of
       Some (l, md) \<Rightarrow> stored_table a l (rows l)
     | None \<Rightarrow> [])"

definition mem_rep :: "'s schemaAdapter \<Rightarrow> mem \<Rightarrow> mem" where
  "mem_rep a s = \<lparr>storage_rows = stored_rows a (storage_rows s), tx_rows = map_option (stored_rows a) (tx_rows s)\<rparr>"

definition rows_fit :: "Schema \<Rightarrow> tables \<Rightarrow> bool" where
  "rows_fit schema rows \<longleftrightarrow> list_all (\<lambda>(l, md). table_fits schema l (rows l)) schema"

definition mem_fits :: "Schema \<Rightarrow> mem \<Rightarrow> bool" where
  "mem_fits schema s \<longleftrightarrow> rows_fit schema (storage_rows s) \<and>
     (case tx_rows s of None \<Rightarrow> True | Some rows \<Rightarrow> rows_fit schema rows)"

definition known_model :: "Schema \<Rightarrow> string \<Rightarrow> bool" where
  "known_model schema m \<longleftrightarrow> m \<in> fst ` set schema"

lemma known_modelE:
  assumes "known_model schema m"
  obtains md where "(m, md) \<in> set schema"
  using assms by (auto simp: known_model_def)

lemma stored_rows_at:
  assumes "renaming_adapter a" and "known_model (sa_schema a) m"
  shows "stored_rows a rows (schema_model (sa_schema a) m) = stored_table a m (rows m)"
proof -
  obtain md where md: "(m, md) \<in> set (sa_schema a)" by (rule known_modelE [OF assms(2)])
  show ?thesis
  proof (cases "find (\<lambda>(l, md). schema_model (sa_schema a) l = schema_model (sa_schema a) m) (sa_schema a)")
    case None
    with md show ?thesis by (auto simp: find_None_iff)
  next
    case (Some x)
    then have "x \<in> set (sa_schema a)" "schema_model (sa_schema a) (fst x) = schema_model (sa_schema a) m"
      by (auto simp: find_Some_iff case_prod_beta)
    with schema_model_inj [OF renaming_adapterD [OF assms(1)], of "fst x" "snd x" m md] md have "fst x = m" by simp
    with Some show ?thesis by (auto simp: stored_rows_def split: prod.splits)
  qed
qed

lemma stored_rows_upd:
  assumes "renaming_adapter a" and "known_model (sa_schema a) m"
  shows "stored_rows a (rows(m := t)) = (stored_rows a rows)(schema_model (sa_schema a) m := stored_table a m t)"
proof (rule ext)
  fix n
  show "stored_rows a (rows(m := t)) n = ((stored_rows a rows)(schema_model (sa_schema a) m := stored_table a m t)) n"
  proof (cases "n = schema_model (sa_schema a) m")
    case True
    then show ?thesis using stored_rows_at [OF assms] by simp
  next
    case False
    have "l \<noteq> m" if "find (\<lambda>(l, md). schema_model (sa_schema a) l = n) (sa_schema a) = Some (l, md)" for l md
      using that False by (auto simp: find_Some_iff)
    with False show ?thesis by (auto simp: stored_rows_def split: option.split)
  qed
qed

lemma rows_fitD: "rows_fit schema rows \<Longrightarrow> known_model schema m \<Longrightarrow> table_fits schema m (rows m)"
  by (auto simp: rows_fit_def known_model_def list_all_iff)

lemma rows_fit_upd: "rows_fit schema rows \<Longrightarrow> table_fits schema m t \<Longrightarrow> rows_fit schema (rows(m := t))"
  by (auto simp: rows_fit_def list_all_iff)

section \<open>Results that are translated back\<close>

definition sim_via ::
  "('t \<Rightarrow> 's) \<Rightarrow> ('t \<Rightarrow> bool) \<Rightarrow> ('a \<Rightarrow> 'b) \<Rightarrow> ('a \<Rightarrow> bool) \<Rightarrow> ('s, 'b) prog \<Rightarrow> ('t, 'a) prog \<Rightarrow> bool" where
  "sim_via rep ok g Q p q \<longleftrightarrow>
     (\<forall>t. ok t \<longrightarrow> p (rep t) = (map_sum (\<lambda>e. e) g (fst (q t)), rep (snd (q t))) \<and> ok (snd (q t)) \<and>
        (\<forall>v. fst (q t) = Inr v \<longrightarrow> Q v))"

lemma sim_via_out:
  assumes "sim_via rep ok g Q p q" and "\<And>v. Q v \<Longrightarrow> h (g v) = v"
  shows "simulates rep ok (bindM p (\<lambda>x. ret (h x))) q"
  unfolding simulates_def
proof (intro allI impI)
  fix t assume "ok t"
  obtain r t' where q: "q t = (r, t')" by fastforce
  from \<open>ok t\<close> assms q show "bindM p (\<lambda>x. ret (h x)) (rep t) = (fst (q t), rep (snd (q t))) \<and> ok (snd (q t))"
    by (cases r) (fastforce simp: sim_via_def bindM_def ret_def)+
qed

lemma sim_via_id: "sim_via rep ok (\<lambda>x. x) Q p q \<Longrightarrow> simulates rep ok p q"
  unfolding sim_via_def simulates_def by (auto simp: map_sum.identity)

text \<open>The validation that starts a method, and its access to the rows.\<close>

lemma sim_via_validated:
  assumes "renaming_adapter a" and "where_fits (sa_schema a) m ws"
    and "\<And>w. where_fits (sa_schema a) m w \<Longrightarrow> sim_via rep ok g Q (f (map (stored_item a m) w)) (f' w)"
  shows "sim_via rep ok g Q (bindM (lift (ValidateWhere (schema_where a m ws) b)) f) (bindM (lift (ValidateWhere ws b)) f')"
  using validate_where_stored [OF assms(1,2), of b] assms(3)
  by (cases "ValidateWhere ws b") (auto simp: sim_via_def fail_def)

lemma sim_via_mutate:
  assumes "\<And>rows. rows_fit (sa_schema a) rows \<Longrightarrow>
      op' (stored_rows a rows) = (map_sum (\<lambda>e. e) g (fst (op rows)), stored_rows a (snd (op rows))) \<and>
      rows_fit (sa_schema a) (snd (op rows)) \<and> (\<forall>v. fst (op rows) = Inr v \<longrightarrow> Q v)"
  shows "sim_via (mem_rep a) (mem_fits (sa_schema a)) g Q (mutateValue op') (mutateValue op)"
  unfolding sim_via_def
proof (intro allI impI)
  fix t assume t: "mem_fits (sa_schema a) t"
  show "mutateValue op' (mem_rep a t) = (map_sum (\<lambda>e. e) g (fst (mutateValue op t)), mem_rep a (snd (mutateValue op t))) \<and>
    mem_fits (sa_schema a) (snd (mutateValue op t)) \<and> (\<forall>v. fst (mutateValue op t) = Inr v \<longrightarrow> Q v)"
  proof (cases "tx_rows t")
    case None
    with t assms [of "storage_rows t"] show ?thesis
      by (auto simp: mem_fits_def mutateValue_def mem_rep_def split: prod.split)
  next
    case (Some rows)
    with t assms [of rows] show ?thesis
      by (auto simp: mem_fits_def mutateValue_def mem_rep_def split: prod.split)
  qed
qed

lemma sim_via_read:
  assumes "\<And>rows. rows_fit (sa_schema a) rows \<Longrightarrow>
      op' (stored_rows a rows) = map_sum (\<lambda>e. e) g (op rows) \<and> (\<forall>v. op rows = Inr v \<longrightarrow> Q v)"
  shows "sim_via (mem_rep a) (mem_fits (sa_schema a)) g Q (readValue op') (readValue op)"
  using assms by (auto simp: sim_via_def readValue_def mem_rep_def mem_fits_def split: option.split)

lemma sim_via_fail: "sim_via rep ok g Q (fail e) (fail e)"
  by (simp add: sim_via_def fail_def)

section \<open>Methods\<close>

abbreviation stored_rules_of :: "'s schemaAdapter \<Rightarrow> rules option" where
  "stored_rules_of a \<equiv> Some (rulesFromSchema (sa_schema a))"

abbreviation logical_rules_of :: "'s schemaAdapter \<Rightarrow> rules option" where
  "logical_rules_of a \<equiv> Some (rulesFromSchema (logicalSchema (sa_schema a)))"

lemma idField_stored:
  assumes "renaming_adapter a" and "known_model (sa_schema a) m"
  shows "idField (stored_rules_of a) (schema_model (sa_schema a) m) = sf a m ''id''"
    and "idField (logical_rules_of a) m = ''id''" and "''id'' \<in> names a m"
proof -
  obtain md where md: "(m, md) \<in> set (sa_schema a)" by (rule known_modelE [OF assms(2)])
  note ra = renaming_adapterD [OF assms(1)]
  show id: "''id'' \<in> names a m" by (rule renaming_model(3) [OF ra md])
  show "idField (stored_rules_of a) (schema_model (sa_schema a) m) = sf a m ''id''"
    using stored_rules(2) [OF ra md] schema_field_nonempty [OF ra id] by (simp add: idField_def)
  show "idField (logical_rules_of a) m = ''id''"
    using logical_rules(2) [OF ra md] by (simp add: idField_def)
qed

lemma sameUniqueKey_stored:
  assumes "renaming_adapter a" and "fits (sa_schema a) m r" and "fits (sa_schema a) m q" and "set k \<subseteq> names a m"
  shows "sameUniqueKey (inputRecord a m r) (inputRecord a m q) (map (sf a m) k) = sameUniqueKey r q k"
  using assms(4) by (induction k) (auto simp: fld_input [OF assms(1)] assms(2,3))

lemma conflicts_stored:
  assumes "renaming_adapter a" and "known_model (sa_schema a) m" and "rows_fit (sa_schema a) rows" and "fits (sa_schema a) m c"
  shows "conflicts (stored_rules_of a) (stored_rows a rows) (schema_model (sa_schema a) m) (inputRecord a m c) e =
    conflicts (logical_rules_of a) rows m c e"
proof -
  obtain md where md: "(m, md) \<in> set (sa_schema a)" by (rule known_modelE [OF assms(2)])
  note ra = renaming_adapterD [OF assms(1)]
  define keys where "keys = model_keys (logicalModel md)"
  have sk: "uniqueKeys (stored_rules_of a) (schema_model (sa_schema a) m) = map (map (sf a m)) keys"
    by (simp add: uniqueKeys_def stored_rules(1) [OF ra md] model_keys_stored(1) [OF ra md] keys_def)
  have lk: "uniqueKeys (logical_rules_of a) m = keys"
    by (simp add: uniqueKeys_def logical_rules(1) [OF ra md] keys_def)
  have sub: "set k \<subseteq> names a m" if "k \<in> set keys" for k
    using model_keys_stored(2) [OF ra md] that by (auto simp: keys_def)
  have "list_ex (\<lambda>(i, r). i \<noteq> e \<and> list_ex (\<lambda>k. sameUniqueKey r (inputRecord a m c) k) (map (map (sf a m)) keys)) (stored_table a m t) =
      list_ex (\<lambda>(i, r). i \<noteq> e \<and> list_ex (\<lambda>k. sameUniqueKey r c k) keys) t" if "table_fits (sa_schema a) m t" for t
    using that
  proof (induction t)
    case (Cons x t)
    have "list_ex (\<lambda>k. sameUniqueKey (inputRecord a m (snd x)) (inputRecord a m c) k) (map (map (sf a m)) keys) =
        list_ex (\<lambda>k. sameUniqueKey (snd x) c k) keys"
      using Cons.prems sameUniqueKey_stored [OF assms(1) _ assms(4) sub]
      by (cases x) (simp add: list_ex_iff)
    with Cons show ?case by (cases x) simp
  qed simp
  from this [OF rows_fitD [OF assms(3,2)]] show ?thesis
    by (simp add: conflicts_def sk lk Let_def stored_rows_at [OF assms(1,2)])
qed

lemma write_row_stored:
  assumes "renaming_adapter a" and "known_model (sa_schema a) m" and "rows_fit (sa_schema a) rows" and "fits (sa_schema a) m r"
  shows "write_row (stored_rules_of a) (schema_model (sa_schema a) m) i (inputRecord a m r) (stored_rows a rows) =
      (map_sum (\<lambda>e. e) (inputRecord a m) (fst (write_row (logical_rules_of a) m i r rows)),
       stored_rows a (snd (write_row (logical_rules_of a) m i r rows)))"
    and "rows_fit (sa_schema a) (snd (write_row (logical_rules_of a) m i r rows))"
    and "fst (write_row (logical_rules_of a) m i r rows) = Inr q \<Longrightarrow> fits (sa_schema a) m q"
  using conflicts_stored [OF assms, of i] assms(3,4) rows_fitD [OF assms(3,2)]
  by (auto simp: write_row_def stored_rows_upd [OF assms(1,2)] stored_rows_at [OF assms(1,2)] set_row_stored
      intro!: rows_fit_upd table_fits_set_row split: if_splits)

lemma write_row_step:
  assumes "renaming_adapter a" and "known_model (sa_schema a) m" and "rows_fit (sa_schema a) rows" and "fits (sa_schema a) m r"
    and "write_row (logical_rules_of a) m i r rows = (res, rows')"
  shows "write_row (stored_rules_of a) (schema_model (sa_schema a) m) i (inputRecord a m r) (stored_rows a rows) =
      (map_sum (\<lambda>e. e) (inputRecord a m) res, stored_rows a rows') \<and>
    rows_fit (sa_schema a) rows' \<and> (\<forall>q. res = Inr q \<longrightarrow> fits (sa_schema a) m q)"
  using write_row_stored [OF assms(1-4), of i] assms(5) by simp

section \<open>The methods\<close>

lemmas mem_defs = mem_Create_def mem_FindOne_def mem_FindMany_def mem_Count_def mem_Update_def mem_UpdateMany_def
  mem_Delete_def mem_DeleteMany_def mem_ConsumeOne_def mem_IncrementOne_def

abbreviation msim :: "'s schemaAdapter \<Rightarrow> (mem, 'a) prog \<Rightarrow> (mem, 'a) prog \<Rightarrow> bool" where
  "msim a \<equiv> simulates (mem_rep a) (mem_fits (sa_schema a))"

text \<open>The adapter is the wrapper of the in-memory adapter that has the stored schema.\<close>

definition wraps_memory :: "mem schemaAdapter \<Rightarrow> bool" where
  "wraps_memory a \<longleftrightarrow> sa_inner a = memory_adapter (stored_rules_of a)"

lemma option_out: "fits (sa_schema a) m r \<Longrightarrow> renaming_adapter a \<Longrightarrow> outputRecord a m (inputRecord a m r) = r"
  by (rule output_input)

lemma out_option:
  assumes "renaming_adapter a" and "case v of None \<Rightarrow> True | Some r \<Rightarrow> fits (sa_schema a) m r"
  shows "map_option (outputRecord a m) (map_option (inputRecord a m) v) = v"
  using assms by (cases v) (simp_all add: output_input)

lemma Create_sim:
  assumes "renaming_adapter a" and "wraps_memory a" and "known_model (sa_schema a) (cq_Model q)"
    and "fits (sa_schema a) (cq_Model q) (cq_Data q)" and "set (cq_Select q) \<subseteq> names a (cq_Model q)"
  shows "msim a (sa_Create a q) (mem_Create (logical_rules_of a) q)"
proof -
  let ?m = "cq_Model q"
  note id = idField_stored [OF assms(1,3)]
  have "sim_via (mem_rep a) (mem_fits (sa_schema a)) (inputRecord a ?m) (fits (sa_schema a) ?m)
     (mem_Create (stored_rules_of a) (q\<lparr>cq_Model := sa_model a ?m, cq_Data := inputRecord a ?m (cq_Data q),
        cq_Select := sa_fields a ?m (cq_Select q)\<rparr>)) (mem_Create (logical_rules_of a) q)"
    unfolding mem_Create_def
  proof (rule sim_via_mutate, goal_cases)
    case (1 rows)
    note rows = rows_fitD [OF 1 assms(3)]
    show ?case
      using conflicts_stored [OF assms(1,3) 1 assms(4), of "''''"] rows assms(4)
      by (simp add: Let_def sa_model_def id fld_input [OF assms(1) id(3) assms(4)] stored_rows_at [OF assms(1,3)]
          map_of_stored_table project_input [OF assms(1,4,5)] stored_rows_upd [OF assms(1,3)] fits_project
          rows_fit_upd [OF 1] 1)
  qed
  then have "msim a (bindM (mem_Create (stored_rules_of a) (q\<lparr>cq_Model := sa_model a ?m, cq_Data := inputRecord a ?m (cq_Data q),
        cq_Select := sa_fields a ?m (cq_Select q)\<rparr>)) (\<lambda>x. ret (outputRecord a ?m x))) (mem_Create (logical_rules_of a) q)"
    by (rule sim_via_out) (rule output_input [OF assms(1)])
  then show ?thesis using assms(2) by (simp add: sa_Create_def wraps_memory_def memory_adapter_def)
qed

lemma FindOne_sim:
  assumes "renaming_adapter a" and "wraps_memory a" and "known_model (sa_schema a) (fo_Model q)"
    and "where_fits (sa_schema a) (fo_Model q) (fo_Where q)" and "set (fo_Select q) \<subseteq> names a (fo_Model q)"
  shows "msim a (sa_FindOne a q) (mem_FindOne (logical_rules_of a) q)"
proof -
  let ?m = "fo_Model q"
  let ?q = "q\<lparr>fo_Model := sa_model a ?m, fo_Where := schema_where a ?m (fo_Where q),
        fo_Select := sa_fields a ?m (fo_Select q), fo_Joins := schema_joins (sa_schema a) (fo_Joins q)\<rparr>"
  have "sim_via (mem_rep a) (mem_fits (sa_schema a)) (map_option (inputRecord a ?m))
      (\<lambda>v. case v of None \<Rightarrow> True | Some r \<Rightarrow> fits (sa_schema a) ?m r)
      (mem_FindOne (stored_rules_of a) ?q) (mem_FindOne (logical_rules_of a) q)"
  proof (cases "fo_Joins q = []")
    case True
    have "sim_via (mem_rep a) (mem_fits (sa_schema a)) (map_option (inputRecord a ?m))
      (\<lambda>v. case v of None \<Rightarrow> True | Some r \<Rightarrow> fits (sa_schema a) ?m r)
      (bindM (lift (ValidateWhere (schema_where a ?m (fo_Where q)) True)) (\<lambda>w. readValue (\<lambda>rows.
         case first_match (rows (sa_model a ?m)) w of
           Some (rid, record) \<Rightarrow> Inr (Some (project record (sa_fields a ?m (fo_Select q)))) | None \<Rightarrow> Inr None)))
      (bindM (lift (ValidateWhere (fo_Where q) True)) (\<lambda>w. readValue (\<lambda>rows.
         case first_match (rows ?m) w of
           Some (rid, record) \<Rightarrow> Inr (Some (project record (fo_Select q))) | None \<Rightarrow> Inr None)))"
    proof (rule sim_via_validated [OF assms(1,4)], rule sim_via_read, goal_cases)
      case (1 w rows)
      note fm = first_match_stored [OF assms(1) 1(1) rows_fitD [OF 1(2) assms(3)]]
      show ?case
      proof (cases "first_match (rows ?m) w")
        case None
        with fm(1) show ?thesis by (simp add: sa_model_def stored_rows_at [OF assms(1,3)])
      next
        case (Some ir)
        obtain i r where "ir = (i, r)" by fastforce
        with Some fm(1) fm(2) [of i r] show ?thesis
          by (simp add: sa_model_def stored_rows_at [OF assms(1,3)] project_input [OF assms(1) _ assms(5)] fits_project)
      qed
    qed
    with True show ?thesis by (simp add: mem_FindOne_def schema_joins_def cong: option.case_cong)
  next
    case False
    then show ?thesis by (simp add: mem_FindOne_def schema_joins_def sim_via_fail)
  qed
  from sim_via_out [OF this, of "map_option (outputRecord a ?m)"] out_option [OF assms(1)]
  have "msim a (bindM (mem_FindOne (stored_rules_of a) ?q) (outputOption a ?m)) (mem_FindOne (logical_rules_of a) q)"
    by (simp add: outputOption_def [abs_def])
  then show ?thesis using assms(2) by (simp add: sa_FindOne_def wraps_memory_def memory_adapter_def)
qed

lemma FindMany_via:
  assumes "renaming_adapter a" and "known_model (sa_schema a) m"
    and "where_fits (sa_schema a) m (fm_Where q)" and "set (fm_Select q) \<subseteq> names a m" and "fm_Model q = m"
    and "\<And>srt. fm_Sort q = Some srt \<Longrightarrow> s_Field srt \<in> names a m"
  shows "sim_via (mem_rep a) (mem_fits (sa_schema a)) (map (inputRecord a m)) (list_all (fits (sa_schema a) m))
    (mem_FindMany (stored_rules_of a) (q\<lparr>fm_Model := sa_model a m, fm_Where := schema_where a m (fm_Where q),
          fm_Select := sa_fields a m (fm_Select q), fm_Joins := schema_joins (sa_schema a) (fm_Joins q),
          fm_Sort := map_option (sort_stored a m) (fm_Sort q)\<rparr>))
    (mem_FindMany (logical_rules_of a) q)" (is "sim_via _ _ ?g ?Q (mem_FindMany _ ?q) _")
proof (cases "fm_Joins q = []")
  case True
  let ?limit = "if fm_Limit q = 0 then 100 else fm_Limit q"
  have "sim_via (mem_rep a) (mem_fits (sa_schema a)) ?g ?Q
    (bindM (lift (ValidateWhere (schema_where a m (fm_Where q)) True)) (\<lambda>w.
        if ?limit < 0 \<or> ?limit > 1000 \<or> fm_Offset q < 0
        then fail (ErrText ''memory: pagination is out of bounds'')
        else readValue (\<lambda>rows. Inr (map (\<lambda>(rid, record). project record (sa_fields a m (fm_Select q)))
                (find_rows ?q ?limit w (rows (sa_model a m)))))))
    (bindM (lift (ValidateWhere (fm_Where q) True)) (\<lambda>w.
        if ?limit < 0 \<or> ?limit > 1000 \<or> fm_Offset q < 0
        then fail (ErrText ''memory: pagination is out of bounds'')
        else readValue (\<lambda>rows. Inr (map (\<lambda>(rid, record). project record (fm_Select q))
                (find_rows q ?limit w (rows m))))))"
  proof (rule sim_via_validated [OF assms(1,3)], goal_cases)
    case (1 w)
    show ?case
    proof (cases "?limit < 0 \<or> ?limit > 1000 \<or> fm_Offset q < 0")
      case True
      then show ?thesis by (simp only: if_True sim_via_fail)
    next
      case False
      have "sim_via (mem_rep a) (mem_fits (sa_schema a)) ?g ?Q
        (readValue (\<lambda>rows. Inr (map (\<lambda>(rid, record). project record (sa_fields a m (fm_Select q)))
                (find_rows ?q ?limit (map (stored_item a m) w) (rows (sa_model a m))))))
        (readValue (\<lambda>rows. Inr (map (\<lambda>(rid, record). project record (fm_Select q)) (find_rows q ?limit w (rows m)))))"
      proof (rule sim_via_read, goal_cases)
        case (1 rows)
        note t = rows_fitD [OF 1 assms(2)]
        have fr: "find_rows ?q ?limit (map (stored_item a m) w) (stored_table a m (rows m)) =
              stored_table a m (find_rows q ?limit w (rows m))"
          and ft: "table_fits (sa_schema a) m (find_rows q ?limit w (rows m))"
          using find_rows_stored [OF assms(1) \<open>where_fits (sa_schema a) m w\<close> t, of ?q q ?limit] assms(6) by simp_all
        have "map (\<lambda>(rid, record). project record (sa_fields a m (fm_Select q))) (stored_table a m u) =
            map (inputRecord a m) (map (\<lambda>(rid, record). project record (fm_Select q)) u) \<and>
            list_all (fits (sa_schema a) m) (map (\<lambda>(rid, record). project record (fm_Select q)) u)"
          if "table_fits (sa_schema a) m u" for u
          using that by (induction u) (auto simp: project_input [OF assms(1) _ assms(4)] fits_project)
        moreover have "stored_rows a rows (sa_model a m) = stored_table a m (rows m)"
          by (simp add: sa_model_def stored_rows_at [OF assms(1,2)])
        ultimately show ?case using ft by (simp only: fr map_sum.simps) blast
      qed
      with False show ?thesis by (simp only: if_False)
    qed
  qed
  with True assms(5) show ?thesis
    by (cases "fm_Limit q = 0") (simp_all add: mem_FindMany_def schema_joins_def Let_def cong: if_cong)
next
  case False
  then show ?thesis by (simp add: mem_FindMany_def schema_joins_def sim_via_fail)
qed

lemma FindMany_sim:
  assumes "renaming_adapter a" and "wraps_memory a" and "known_model (sa_schema a) (fm_Model q)"
    and "where_fits (sa_schema a) (fm_Model q) (fm_Where q)" and "set (fm_Select q) \<subseteq> names a (fm_Model q)"
    and "\<And>srt. fm_Sort q = Some srt \<Longrightarrow> s_Field srt \<in> names a (fm_Model q)"
  shows "msim a (sa_FindMany a q) (mem_FindMany (logical_rules_of a) q)"
proof -
  have out: "map (outputRecord a (fm_Model q)) (map (inputRecord a (fm_Model q)) v) = v"
    if "list_all (fits (sa_schema a) (fm_Model q)) v" for v
    using that by (induction v) (simp_all add: output_input [OF assms(1)])
  from sim_via_out [OF FindMany_via [OF assms(1,3,4,5) refl assms(6)] out] show ?thesis
    using assms(2) by (simp add: sa_FindMany_def wraps_memory_def memory_adapter_def)
qed

lemma Count_sim:
  assumes "renaming_adapter a" and "wraps_memory a" and "known_model (sa_schema a) (ct_Model q)"
    and "where_fits (sa_schema a) (ct_Model q) (ct_Where q)"
  shows "msim a (sa_Count a q) (mem_Count (logical_rules_of a) q)"
proof -
  let ?q = "\<lparr>fm_Model = ct_Model q, fm_Where = ct_Where q, fm_Limit = 1000, fm_Offset = 0, fm_Select = [],
    fm_Sort = None, fm_Joins = []\<rparr>"
  have "sim_via (mem_rep a) (mem_fits (sa_schema a)) (map (inputRecord a (ct_Model q))) (list_all (fits (sa_schema a) (ct_Model q)))
    (mem_FindMany (stored_rules_of a) \<lparr>fm_Model = sa_model a (ct_Model q), fm_Where = schema_where a (ct_Model q) (ct_Where q),
       fm_Limit = 1000, fm_Offset = 0, fm_Select = [], fm_Sort = None, fm_Joins = []\<rparr>) (mem_FindMany (logical_rules_of a) ?q)"
    using FindMany_via [OF assms(1,3), of ?q] assms(4) by (simp add: sa_fields_def schema_fields_def schema_joins_def)
  then have "simulates (mem_rep a) (mem_fits (sa_schema a))
    (bindM (mem_FindMany (stored_rules_of a) \<lparr>fm_Model = sa_model a (ct_Model q), fm_Where = schema_where a (ct_Model q) (ct_Where q),
       fm_Limit = 1000, fm_Offset = 0, fm_Select = [], fm_Sort = None, fm_Joins = []\<rparr>) (\<lambda>rows. ret (int (length rows))))
    (bindM (mem_FindMany (logical_rules_of a) ?q) (\<lambda>rows. ret (int (length rows))))"
    unfolding sim_via_def simulates_def bindM_def ret_def
    by (auto split: prod.splits sum.splits)
  with assms(2) show ?thesis by (simp add: sa_Count_def mem_Count_def wraps_memory_def memory_adapter_def)
qed

text \<open>The methods that write: validation, then an operation on the rows.\<close>

lemma sim_write:
  assumes "renaming_adapter a" and "where_fits (sa_schema a) m ws"
    and "\<And>w rows. where_fits (sa_schema a) m w \<Longrightarrow> rows_fit (sa_schema a) rows \<Longrightarrow>
      op' (map (stored_item a m) w) (stored_rows a rows) = (map_sum (\<lambda>e. e) g (fst (op w rows)), stored_rows a (snd (op w rows))) \<and>
      rows_fit (sa_schema a) (snd (op w rows)) \<and> (\<forall>v. fst (op w rows) = Inr v \<longrightarrow> Q v)"
  shows "sim_via (mem_rep a) (mem_fits (sa_schema a)) g Q
    (bindM (lift (ValidateWhere (schema_where a m ws) b)) (\<lambda>w. mutateValue (op' w)))
    (bindM (lift (ValidateWhere ws b)) (\<lambda>w. mutateValue (op w)))"
  by (rule sim_via_validated [OF assms(1,2)]) (rule sim_via_mutate, rule assms(3))

abbreviation option_fits :: "Schema \<Rightarrow> string \<Rightarrow> Record option \<Rightarrow> bool" where
  "option_fits schema m v \<equiv> (case v of None \<Rightarrow> True | Some r \<Rightarrow> fits schema m r)"

lemma sim_option:
  assumes "renaming_adapter a"
    and "sim_via (mem_rep a) (mem_fits (sa_schema a)) (map_option (inputRecord a m)) (option_fits (sa_schema a) m) p q"
  shows "msim a (bindM p (outputOption a m)) q"
  using sim_via_out [OF assms(2), of "map_option (outputRecord a m)"] out_option [OF assms(1)]
  by (simp add: outputOption_def [abs_def])

lemma stored_query_sel:
  "uq_Model (stored_update a uq) = sa_model a (uq_Model uq)"
  "uq_Where (stored_update a uq) = schema_where a (uq_Model uq) (uq_Where uq)"
  "uq_Update (stored_update a uq) = inputRecord a (uq_Model uq) (uq_Update uq)"
  "dq_Model (stored_delete a dq) = sa_model a (dq_Model dq)"
  "dq_Where (stored_delete a dq) = schema_where a (dq_Model dq) (dq_Where dq)"
  by (simp_all add: stored_update_def stored_delete_def)

lemma Update_sim:
  assumes "renaming_adapter a" and "wraps_memory a" and "known_model (sa_schema a) (uq_Model q)"
    and "where_fits (sa_schema a) (uq_Model q) (uq_Where q)" and "fits (sa_schema a) (uq_Model q) (uq_Update q)"
  shows "msim a (sa_Update a q) (mem_Update (logical_rules_of a) q)"
proof -
  let ?m = "uq_Model q"
  note id = idField_stored [OF assms(1,3)]
  have "sim_via (mem_rep a) (mem_fits (sa_schema a)) (map_option (inputRecord a ?m)) (option_fits (sa_schema a) ?m)
    (mem_Update (stored_rules_of a) (stored_update a q)) (mem_Update (logical_rules_of a) q)"
    unfolding mem_Update_def stored_query_sel
  proof (rule sim_write [OF assms(1,4)], goal_cases)
    case (1 w rows)
    note fm = first_match_stored [OF assms(1) 1(1) rows_fitD [OF 1(2) assms(3)]]
    show ?case
    proof (cases "first_match (rows ?m) w")
      case None
      with fm(1) 1 show ?thesis by (simp add: sa_model_def stored_rows_at [OF assms(1,3)])
    next
      case (Some ir)
      obtain i r where ir: "ir = (i, r)" by fastforce
      with Some fm(2) [of i r] have r: "fits (sa_schema a) ?m r" by simp
      obtain res rows' where wl: "write_row (logical_rules_of a) ?m i (set_fields ''id'' (uq_Update q) r) rows = (res, rows')"
        by fastforce
      note wr = write_row_step [OF assms(1,3) 1(2) fits_set_fields [OF r assms(5)] wl]
      from Some fm(1) ir wr wl show ?thesis
        by (cases res) (simp_all add: sa_model_def stored_rows_at [OF assms(1,3)] id Let_def
            set_fields_input [OF assms(1) r assms(5) id(3)])
    qed
  qed
  from sim_option [OF assms(1) this] assms(2) show ?thesis
    by (simp add: sa_Update_def wraps_memory_def memory_adapter_def)
qed

lemma update_loop_stored:
  assumes "renaming_adapter a" and "known_model (sa_schema a) (uq_Model q)" and "where_fits (sa_schema a) (uq_Model q) w"
    and "fits (sa_schema a) (uq_Model q) (uq_Update q)" and "table_fits (sa_schema a) (uq_Model q) t"
    and "rows_fit (sa_schema a) rows"
  shows "update_loop (stored_rules_of a) (stored_update a q) (map (stored_item a (uq_Model q)) w)
       (stored_table a (uq_Model q) t) n (stored_rows a rows) =
     (fst (update_loop (logical_rules_of a) q w t n rows), stored_rows a (snd (update_loop (logical_rules_of a) q w t n rows))) \<and>
    rows_fit (sa_schema a) (snd (update_loop (logical_rules_of a) q w t n rows))"
  using assms(5,6)
proof (induction t arbitrary: n rows)
  case (Cons x t)
  obtain i r where x: "x = (i, r)" by fastforce
  let ?m = "uq_Model q"
  note id = idField_stored [OF assms(1,2)]
  from Cons.prems x have r: "fits (sa_schema a) ?m r" and t: "table_fits (sa_schema a) ?m t" by simp_all
  have upd: "set_fields (idField (stored_rules_of a) (schema_model (sa_schema a) ?m)) (uq_Update (stored_update a q)) (inputRecord a ?m r) =
      inputRecord a ?m (set_fields ''id'' (uq_Update q) r)"
    by (simp add: stored_update_def sa_model_def id set_fields_input [OF assms(1) r assms(4) id(3)])
  have mod: "uq_Model (stored_update a q) = schema_model (sa_schema a) ?m" by (simp add: stored_update_def sa_model_def)
  obtain res rows' where wl: "write_row (logical_rules_of a) ?m i (set_fields ''id'' (uq_Update q) r) rows = (res, rows')"
    by fastforce
  note wr = write_row_step [OF assms(1,2) Cons.prems(2) fits_set_fields [OF r assms(4)] wl]
  then have ws: "write_row (stored_rules_of a) (schema_model (sa_schema a) ?m) i (inputRecord a ?m (set_fields ''id'' (uq_Update q) r))
      (stored_rows a rows) = (map_sum (\<lambda>e. e) (inputRecord a ?m) res, stored_rows a rows')"
    and rf: "rows_fit (sa_schema a) rows'" by simp_all
  show ?case
    using Cons.IH [OF t Cons.prems(2), of n] Cons.IH [OF t rf, of "n + 1"] rf
    by (cases res) (simp_all add: x matches_stored [OF assms(1) r assms(3)] upd mod id(2) Let_def wl ws)
qed simp

lemma UpdateMany_sim:
  assumes "renaming_adapter a" and "wraps_memory a" and "known_model (sa_schema a) (uq_Model q)"
    and "where_fits (sa_schema a) (uq_Model q) (uq_Where q)" and "fits (sa_schema a) (uq_Model q) (uq_Update q)"
  shows "msim a (sa_UpdateMany a q) (mem_UpdateMany (logical_rules_of a) q)"
proof -
  have "sim_via (mem_rep a) (mem_fits (sa_schema a)) (\<lambda>x. x) (\<lambda>_. True)
    (bindM (lift (ValidateWhere (schema_where a (uq_Model q) (uq_Where q)) False)) (\<lambda>w. mutateValue (\<lambda>rows.
       update_loop (stored_rules_of a) (stored_update a q) w (rows (sa_model a (uq_Model q))) 0 rows)))
    (bindM (lift (ValidateWhere (uq_Where q) False)) (\<lambda>w. mutateValue (\<lambda>rows.
       update_loop (logical_rules_of a) q w (rows (uq_Model q)) 0 rows)))"
    using update_loop_stored [OF assms(1,3) _ assms(5) rows_fitD [OF _ assms(3)]]
    by (intro sim_write [OF assms(1,4)])
      (simp add: sa_model_def stored_rows_at [OF assms(1,3)] map_sum.identity [unfolded id_def])
  from sim_via_id [OF this] show ?thesis
    using assms(2) by (simp add: sa_UpdateMany_def mem_UpdateMany_def stored_query_sel wraps_memory_def memory_adapter_def)
qed

lemma Delete_sim:
  assumes "renaming_adapter a" and "wraps_memory a" and "known_model (sa_schema a) (dq_Model q)"
    and "where_fits (sa_schema a) (dq_Model q) (dq_Where q)"
  shows "msim a (sa_Delete a q) (mem_Delete (logical_rules_of a) q)"
proof -
  let ?m = "dq_Model q"
  have "sim_via (mem_rep a) (mem_fits (sa_schema a)) (\<lambda>x. x) (\<lambda>_. True)
    (mem_Delete (stored_rules_of a) (stored_delete a q)) (mem_Delete (logical_rules_of a) q)"
    unfolding mem_Delete_def stored_query_sel
  proof (rule sim_write [OF assms(1,4)], goal_cases)
    case (1 w rows)
    note t = rows_fitD [OF 1(2) assms(3)]
    show ?case
      using first_match_stored(1) [OF assms(1) 1(1) t] 1(2) t
      by (cases "first_match (rows ?m) w")
        (auto simp: sa_model_def stored_rows_at [OF assms(1,3)] stored_rows_upd [OF assms(1,3)] del_row_stored
          intro!: rows_fit_upd table_fits_del_row)
  qed
  from sim_via_id [OF this] assms(2) show ?thesis
    by (simp add: sa_Delete_def wraps_memory_def memory_adapter_def)
qed

lemma DeleteMany_sim:
  assumes "renaming_adapter a" and "wraps_memory a" and "known_model (sa_schema a) (dq_Model q)"
    and "where_fits (sa_schema a) (dq_Model q) (dq_Where q)"
  shows "msim a (sa_DeleteMany a q) (mem_DeleteMany (logical_rules_of a) q)"
proof -
  let ?m = "dq_Model q"
  have "sim_via (mem_rep a) (mem_fits (sa_schema a)) (\<lambda>x. x) (\<lambda>_. True)
    (mem_DeleteMany (stored_rules_of a) (stored_delete a q)) (mem_DeleteMany (logical_rules_of a) q)"
    unfolding mem_DeleteMany_def stored_query_sel
  proof (rule sim_write [OF assms(1,4)], goal_cases)
    case (1 w rows)
    note t = rows_fitD [OF 1(2) assms(3)]
    have len: "length (stored_table a ?m u) = length u" for u by (simp add: stored_table_def)
    show ?case
      using filter_stored [OF assms(1) 1(1) t] 1(2) t
      by (simp add: sa_model_def stored_rows_at [OF assms(1,3)] stored_rows_upd [OF assms(1,3)] len
          rows_fit_upd table_fits_filter)
  qed
  from sim_via_id [OF this] assms(2) show ?thesis
    by (simp add: sa_DeleteMany_def wraps_memory_def memory_adapter_def)
qed

lemma ConsumeOne_sim:
  assumes "renaming_adapter a" and "wraps_memory a" and "known_model (sa_schema a) (dq_Model q)"
    and "where_fits (sa_schema a) (dq_Model q) (dq_Where q)"
  shows "msim a (sa_ConsumeOne a q) (mem_ConsumeOne (logical_rules_of a) q)"
proof -
  let ?m = "dq_Model q"
  have "sim_via (mem_rep a) (mem_fits (sa_schema a)) (map_option (inputRecord a ?m)) (option_fits (sa_schema a) ?m)
    (mem_ConsumeOne (stored_rules_of a) (stored_delete a q)) (mem_ConsumeOne (logical_rules_of a) q)"
    unfolding mem_ConsumeOne_def stored_query_sel
  proof (rule sim_write [OF assms(1,4)], goal_cases)
    case (1 w rows)
    note t = rows_fitD [OF 1(2) assms(3)]
    show ?case
      using first_match_stored [OF assms(1) 1(1) t] 1(2) t
      by (cases "first_match (rows ?m) w")
        (auto simp: sa_model_def stored_rows_at [OF assms(1,3)] stored_rows_upd [OF assms(1,3)] del_row_stored
          intro!: rows_fit_upd table_fits_del_row)
  qed
  from sim_option [OF assms(1) this] assms(2) show ?thesis
    by (simp add: sa_ConsumeOne_def wraps_memory_def memory_adapter_def)
qed

lemma IncrementOne_sim:
  assumes "renaming_adapter a" and "wraps_memory a" and "known_model (sa_schema a) (iq_Model q)"
    and "where_fits (sa_schema a) (iq_Model q) (iq_Where q)" and "fits (sa_schema a) (iq_Model q) (iq_Set q)"
    and "fst ` set (iq_Increment q) \<subseteq> names a (iq_Model q)"
  shows "msim a (sa_IncrementOne a q) (mem_IncrementOne (logical_rules_of a) q)"
proof -
  let ?m = "iq_Model q"
  let ?inc = "map (\<lambda>(field, v). (sf a ?m field, v)) (iq_Increment q)"
  note id = idField_stored [OF assms(1,3)]
  let ?op = "\<lambda>w rows. case first_match (rows ?m) w of
           None \<Rightarrow> (Inr None, rows)
         | Some (rid, record) \<Rightarrow>
             (case foldE increment_field record (iq_Increment q) of
                Inl e \<Rightarrow> (Inl e, rows)
              | Inr incremented \<Rightarrow>
                  (let updated = set_fields (idField (logical_rules_of a) ?m) (iq_Set q) incremented in
                   case write_row (logical_rules_of a) ?m rid updated rows of
                     (Inl e, rows') \<Rightarrow> (Inl e, rows')
                   | (Inr r, rows') \<Rightarrow> (Inr (Some r), rows')))"
  let ?op' = "\<lambda>w rows. case first_match (rows (sa_model a ?m)) w of
           None \<Rightarrow> (Inr None, rows)
         | Some (rid, record) \<Rightarrow>
             (case foldE increment_field record ?inc of
                Inl e \<Rightarrow> (Inl e, rows)
              | Inr incremented \<Rightarrow>
                  (let updated = set_fields (idField (stored_rules_of a) (sa_model a ?m)) (inputRecord a ?m (iq_Set q)) incremented in
                   case write_row (stored_rules_of a) (sa_model a ?m) rid updated rows of
                     (Inl e, rows') \<Rightarrow> (Inl e, rows')
                   | (Inr r, rows') \<Rightarrow> (Inr (Some r), rows')))"
  have "sim_via (mem_rep a) (mem_fits (sa_schema a)) (map_option (inputRecord a ?m)) (option_fits (sa_schema a) ?m)
    (mutateValue (?op' (map (stored_item a ?m) w))) (mutateValue (?op w))" if "where_fits (sa_schema a) ?m w" for w
  proof (rule sim_via_mutate, goal_cases)
    case (1 rows)
    note fm = first_match_stored [OF assms(1) that rows_fitD [OF 1 assms(3)]]
    show ?case
    proof (cases "first_match (rows ?m) w")
      case None
      with fm(1) 1 show ?thesis by (simp add: sa_model_def stored_rows_at [OF assms(1,3)])
    next
      case (Some ir)
      obtain i r where ir: "ir = (i, r)" by fastforce
      with Some fm(2) [of i r] have r: "fits (sa_schema a) ?m r" by simp
      note inc = increment_input [OF assms(1) r assms(6)]
      show ?thesis
      proof (cases "foldE increment_field r (iq_Increment q)")
        case (Inl e)
        with Some fm(1) ir inc 1 show ?thesis by (simp add: sa_model_def stored_rows_at [OF assms(1,3)])
      next
        case (Inr v)
        with inc have v: "fits (sa_schema a) ?m v" by simp
        obtain res rows' where wl: "write_row (logical_rules_of a) ?m i (set_fields ''id'' (iq_Set q) v) rows = (res, rows')"
          by fastforce
        note wr = write_row_step [OF assms(1,3) 1 fits_set_fields [OF v assms(5)] wl]
        from Some fm(1) ir inc Inr wr wl show ?thesis
          by (cases res) (simp_all add: sa_model_def stored_rows_at [OF assms(1,3)] id Let_def
              set_fields_input [OF assms(1) v assms(5) id(3)])
      qed
    qed
  qed
  then have "sim_via (mem_rep a) (mem_fits (sa_schema a)) (map_option (inputRecord a ?m)) (option_fits (sa_schema a) ?m)
    (bindM (lift (ValidateWhere (schema_where a ?m (iq_Where q)) False)) (\<lambda>w.
       if iq_Increment q = [] then fail (ErrText ''memory: increment is empty'') else mutateValue (?op' w)))
    (bindM (lift (ValidateWhere (iq_Where q) False)) (\<lambda>w.
       if iq_Increment q = [] then fail (ErrText ''memory: increment is empty'') else mutateValue (?op w)))"
    by (intro sim_via_validated [OF assms(1,4)]) (simp add: sim_via_fail)
  then have "sim_via (mem_rep a) (mem_fits (sa_schema a)) (map_option (inputRecord a ?m)) (option_fits (sa_schema a) ?m)
    (mem_IncrementOne (stored_rules_of a) (q\<lparr>iq_Model := sa_model a ?m, iq_Where := schema_where a ?m (iq_Where q),
       iq_Increment := ?inc, iq_Set := inputRecord a ?m (iq_Set q)\<rparr>)) (mem_IncrementOne (logical_rules_of a) q)"
    by (simp add: mem_IncrementOne_def Let_def cong: option.case_cong if_cong sum.case_cong prod.case_cong)
  from sim_option [OF assms(1) this] assms(2) show ?thesis
    by (simp add: sa_IncrementOne_def wraps_memory_def memory_adapter_def)
qed

end
