(* ===== verification/Store_Refinement.thy ===== *)
theory Store_Refinement
  imports Store_Calls Schema_Simulation
begin

text \<open>
  The store over an adapter that simulates another one. The locale takes two adapters and what it
  means that the methods of the first simulate those of the second on queries that name known fields
  only; its lemmas carry the simulation through every method of the store. Its interpretation takes
  the schema adapter over the in-memory adapter and the in-memory adapter of the logical schema: a
  server whose tables and columns are renamed behaves as one whose tables and columns are not.
\<close>

text \<open>The calls that name fields of the caller name known ones.\<close>

definition call_fits :: "(string \<Rightarrow> string set) \<Rightarrow> store_call \<Rightarrow> bool" where
  "call_fits cols c = (case c of
     CallUpdateUser u changes now \<Rightarrow> dom changes \<subseteq> cols ModelUser
   | CallUpdateSession u h changes now \<Rightarrow> dom changes \<subseteq> cols ModelSession
   | _ \<Rightarrow> True)"

section \<open>Adapters that simulate\<close>

locale adapter_refinement =
  fixes db :: "'s database_adapter"
    and ldb :: "'t database_adapter"
    and rep :: "'t \<Rightarrow> 's"
    and ok :: "'t \<Rightarrow> bool"
    and cols :: "string \<Rightarrow> string set"
  assumes create_sim: "\<lbrakk>''id'' \<in> cols (cq_Model kq); dom (cq_Data kq) \<subseteq> cols (cq_Model kq);
      set (cq_Select kq) \<subseteq> cols (cq_Model kq)\<rbrakk> \<Longrightarrow> simulates rep ok (db_create db kq) (db_create ldb kq)"
    and findOne_sim: "\<lbrakk>''id'' \<in> cols (fo_Model fq); Field ` set (fo_Where fq) \<subseteq> cols (fo_Model fq);
      set (fo_Select fq) \<subseteq> cols (fo_Model fq)\<rbrakk> \<Longrightarrow> simulates rep ok (db_findOne db fq) (db_findOne ldb fq)"
    and findMany_sim: "\<lbrakk>''id'' \<in> cols (fm_Model mq); Field ` set (fm_Where mq) \<subseteq> cols (fm_Model mq);
      set (fm_Select mq) \<subseteq> cols (fm_Model mq); \<And>srt. fm_Sort mq = Some srt \<Longrightarrow> s_Field srt \<in> cols (fm_Model mq)\<rbrakk> \<Longrightarrow>
      simulates rep ok (db_findMany db mq) (db_findMany ldb mq)"
    and count_sim: "\<lbrakk>''id'' \<in> cols (ct_Model nq); Field ` set (ct_Where nq) \<subseteq> cols (ct_Model nq)\<rbrakk> \<Longrightarrow>
      simulates rep ok (db_count db nq) (db_count ldb nq)"
    and update_sim: "\<lbrakk>''id'' \<in> cols (uq_Model uq); Field ` set (uq_Where uq) \<subseteq> cols (uq_Model uq);
      dom (uq_Update uq) \<subseteq> cols (uq_Model uq)\<rbrakk> \<Longrightarrow> simulates rep ok (db_update db uq) (db_update ldb uq)"
    and updateMany_sim: "\<lbrakk>''id'' \<in> cols (uq_Model uq); Field ` set (uq_Where uq) \<subseteq> cols (uq_Model uq);
      dom (uq_Update uq) \<subseteq> cols (uq_Model uq)\<rbrakk> \<Longrightarrow> simulates rep ok (db_updateMany db uq) (db_updateMany ldb uq)"
    and delete_sim: "\<lbrakk>''id'' \<in> cols (dq_Model dq); Field ` set (dq_Where dq) \<subseteq> cols (dq_Model dq)\<rbrakk> \<Longrightarrow>
      simulates rep ok (db_delete db dq) (db_delete ldb dq)"
    and deleteMany_sim: "\<lbrakk>''id'' \<in> cols (dq_Model dq); Field ` set (dq_Where dq) \<subseteq> cols (dq_Model dq)\<rbrakk> \<Longrightarrow>
      simulates rep ok (db_deleteMany db dq) (db_deleteMany ldb dq)"
    and consumeOne_sim: "\<lbrakk>''id'' \<in> cols (dq_Model dq); Field ` set (dq_Where dq) \<subseteq> cols (dq_Model dq)\<rbrakk> \<Longrightarrow>
      simulates rep ok (db_consumeOne db dq) (db_consumeOne ldb dq)"
    and begin_sim: "ok t \<Longrightarrow> db_begin db (rep t) = rep (db_begin ldb t) \<and> ok (db_begin ldb t)"
    and rollback_sim: "ok t \<Longrightarrow> ok u \<Longrightarrow> db_rollback db (rep t) (rep u) = rep (db_rollback ldb t u) \<and> ok (db_rollback ldb t u)"
    and commit_sim: "ok t \<Longrightarrow> ok u \<Longrightarrow> db_commit db (rep t) (rep u) =
      (fst (db_commit ldb t u), rep (snd (db_commit ldb t u))) \<and> ok (snd (db_commit ldb t u))"
    and core_cols: "(m, md) \<in> set CoreSchema \<Longrightarrow> fst ` set (ms_Fields md) \<subseteq> cols m"
begin

lemma cols_of_core: "list_all (\<lambda>(m, md). list_all (\<lambda>fd. fst fd \<in> cols m) (ms_Fields md)) CoreSchema"
  using core_cols by (fastforce simp: list_all_iff)

lemma core_mem [simp]:
  "''id'' \<in> cols ModelUser" "''email'' \<in> cols ModelUser" "''emailVerified'' \<in> cols ModelUser" "''name'' \<in> cols ModelUser"
  "''image'' \<in> cols ModelUser" "''createdAt'' \<in> cols ModelUser" "''updatedAt'' \<in> cols ModelUser" "''disabledAt'' \<in> cols ModelUser"
  "''id'' \<in> cols ModelSession" "''userId'' \<in> cols ModelSession" "''tokenHash'' \<in> cols ModelSession" "''expiresAt'' \<in> cols ModelSession"
  "''createdAt'' \<in> cols ModelSession" "''updatedAt'' \<in> cols ModelSession" "''lastSeenAt'' \<in> cols ModelSession"
  "''revokedAt'' \<in> cols ModelSession" "''impersonatedBy'' \<in> cols ModelSession" "''impersonationId'' \<in> cols ModelSession"
  "''id'' \<in> cols ModelAccount" "''userId'' \<in> cols ModelAccount" "''providerId'' \<in> cols ModelAccount" "''accountId'' \<in> cols ModelAccount"
  "''password'' \<in> cols ModelAccount" "''accessToken'' \<in> cols ModelAccount" "''refreshToken'' \<in> cols ModelAccount"
  "''idToken'' \<in> cols ModelAccount" "''accessTokenExpiresAt'' \<in> cols ModelAccount" "''refreshTokenExpiresAt'' \<in> cols ModelAccount"
  "''scope'' \<in> cols ModelAccount" "''createdAt'' \<in> cols ModelAccount" "''updatedAt'' \<in> cols ModelAccount"
  "''id'' \<in> cols ModelVerification" "''identifier'' \<in> cols ModelVerification" "''value'' \<in> cols ModelVerification"
  "''expiresAt'' \<in> cols ModelVerification" "''createdAt'' \<in> cols ModelVerification" "''metadata'' \<in> cols ModelVerification"
  "''id'' \<in> cols ModelAuditEvent" "''schemaVersion'' \<in> cols ModelAuditEvent" "''action'' \<in> cols ModelAuditEvent"
  "''actorUserId'' \<in> cols ModelAuditEvent" "''subjectUserId'' \<in> cols ModelAuditEvent" "''sessionId'' \<in> cols ModelAuditEvent"
  "''occurredAt'' \<in> cols ModelAuditEvent" "''request'' \<in> cols ModelAuditEvent" "''details'' \<in> cols ModelAuditEvent"
  "''id'' \<in> cols ModelOutboxEvent" "''schemaVersion'' \<in> cols ModelOutboxEvent" "''name'' \<in> cols ModelOutboxEvent"
  "''aggregateId'' \<in> cols ModelOutboxEvent" "''occurredAt'' \<in> cols ModelOutboxEvent" "''payload'' \<in> cols ModelOutboxEvent"
  "''publishedAt'' \<in> cols ModelOutboxEvent"
  using cols_of_core by (simp_all add: CoreSchema_def)

abbreviation S :: "('s, 'a) prog \<Rightarrow> ('t, 'a) prog \<Rightarrow> bool" where
  "S \<equiv> simulates rep ok"

lemma S_Transaction:
  assumes "S f g"
  shows "S (Transaction db f) (Transaction ldb g)"
  unfolding simulates_def
proof (intro allI impI)
  fix t assume t: "ok t"
  note b = begin_sim [OF t]
  obtain r u where g: "g (db_begin ldb t) = (r, u)" by fastforce
  from simulatesD [OF assms, of "db_begin ldb t"] b g have f: "f (db_begin db (rep t)) = (r, rep u)" and u: "ok u" by simp_all
  show "Transaction db f (rep t) = (fst (Transaction ldb g t), rep (snd (Transaction ldb g t))) \<and> ok (snd (Transaction ldb g t))"
  proof (cases r)
    case (Inl e)
    with f g rollback_sim [OF t u] show ?thesis by (simp add: Transaction_def)
  next
    case (Inr x)
    obtain c v where "db_commit ldb t u = (c, v)" by fastforce
    with Inr f g commit_sim [OF t u] show ?thesis by (cases c) (simp_all add: Transaction_def)
  qed
qed

text \<open>The queries of the store.\<close>

lemma S_create: "''id'' \<in> cols m \<Longrightarrow> dom d \<subseteq> cols m \<Longrightarrow> S (db_create db (createQ m d)) (db_create ldb (createQ m d))"
  by (rule create_sim) simp_all

lemma S_findOne:
  "''id'' \<in> cols m \<Longrightarrow> Field ` set ws \<subseteq> cols m \<Longrightarrow> S (db_findOne db (findOneQ m ws)) (db_findOne ldb (findOneQ m ws))"
  by (rule findOne_sim) simp_all

lemma S_findMany:
  "''id'' \<in> cols m \<Longrightarrow> Field ` set ws \<subseteq> cols m \<Longrightarrow> (\<And>o'. srt = Some o' \<Longrightarrow> s_Field o' \<in> cols m) \<Longrightarrow>
   S (db_findMany db (findManyQ m ws l srt)) (db_findMany ldb (findManyQ m ws l srt))"
  by (rule findMany_sim) simp_all

lemma S_update:
  "''id'' \<in> cols m \<Longrightarrow> Field ` set ws \<subseteq> cols m \<Longrightarrow> dom u \<subseteq> cols m \<Longrightarrow>
   S (db_update db (updateQ m ws u)) (db_update ldb (updateQ m ws u))"
  by (rule update_sim) simp_all

lemma S_updateMany:
  "''id'' \<in> cols m \<Longrightarrow> Field ` set ws \<subseteq> cols m \<Longrightarrow> dom u \<subseteq> cols m \<Longrightarrow>
   S (db_updateMany db (updateQ m ws u)) (db_updateMany ldb (updateQ m ws u))"
  by (rule updateMany_sim) simp_all

lemma S_deletes:
  assumes "''id'' \<in> cols m" and "Field ` set ws \<subseteq> cols m"
  shows "S (db_delete db (deleteQ m ws)) (db_delete ldb (deleteQ m ws))"
    and "S (db_deleteMany db (deleteQ m ws)) (db_deleteMany ldb (deleteQ m ws))"
    and "S (db_consumeOne db (deleteQ m ws)) (db_consumeOne ldb (deleteQ m ws))"
  using assms delete_sim [of "deleteQ m ws"] deleteMany_sim [of "deleteQ m ws"] consumeOne_sim [of "deleteQ m ws"] by simp_all

lemma Field_conds [simp]: "Field (Eq f v) = f" "Field (Cond f oper v) = f"
  by (simp_all add: Eq_def Cond_def)

lemma core_rows [simp]:
  "dom (userRecord u) \<subseteq> cols ModelUser" "dom (sessionRecord s) \<subseteq> cols ModelSession"
  "dom (credentialRow uid h c d) \<subseteq> cols ModelAccount" "dom (revokeUpdate at) \<subseteq> cols ModelSession"
  "dom (tokenFields tk now) \<subseteq> cols ModelAccount" "dom (oauthAccountRow aid uid pr tk now) \<subseteq> cols ModelAccount"
  "dom (tokenRow tok) \<subseteq> cols ModelVerification" "dom (oauthStateRow st) \<subseteq> cols ModelVerification"
  "dom (domainEventRecord ev) \<subseteq> cols ModelOutboxEvent" "dom (auditEventRecord ae) \<subseteq> cols ModelAuditEvent"
  by (simp_all add: userRecord_def sessionRecord_def credentialRow_def revokeUpdate_def tokenFields_def oauthAccountRow_def
      tokenRow_def oauthStateRow_def domainEventRecord_def auditEventRecord_def)

lemmas S_rules = S_Transaction S_create S_findOne S_findMany S_update S_updateMany S_deletes sim_rules

lemmas store_wheres = credentialIdentityWhere_def accountKeyWhere_def liveToken_def liveTokenPrefix_def

section \<open>The methods of the store\<close>

lemma S_FindUserByEmail: "S (FindUserByEmail db e) (FindUserByEmail ldb e)"
  unfolding FindUserByEmail_def by (intro S_rules) simp_all

lemma S_FindUserByID: "S (FindUserByID db u) (FindUserByID ldb u)"
  unfolding FindUserByID_def by (intro S_rules) simp_all

lemma S_CreateEmailUser: "S (CreateEmailUser db p) (CreateEmailUser ldb p)"
  unfolding CreateEmailUser_def by (intro S_rules) simp_all

lemma S_FindPasswordCredential: "S (FindPasswordCredential db u) (FindPasswordCredential ldb u)"
  unfolding FindPasswordCredential_def by (intro S_rules) (simp_all add: store_wheres)

lemma S_SetPasswordHash: "S (SetPasswordHash db u h now) (SetPasswordHash ldb u h now)"
  unfolding SetPasswordHash_def Let_def by (intro S_rules) (simp_all add: store_wheres)

lemma S_ReplacePasswordHash: "S (ReplacePasswordHash db u old new now) (ReplacePasswordHash ldb u old new now)"
  unfolding ReplacePasswordHash_def
  by (intro S_rules) (simp_all add: store_wheres)

lemma S_ChangePasswordAndRotate: "S (ChangePasswordAndRotate db p) (ChangePasswordAndRotate ldb p)"
  unfolding ChangePasswordAndRotate_def Let_def
  by (intro S_rules) (simp_all add: store_wheres)

lemma S_UpdateUser: "dom changes \<subseteq> cols ModelUser \<Longrightarrow> S (UpdateUser db u changes now) (UpdateUser ldb u changes now)"
  unfolding UpdateUser_def
  by (intro S_rules) (simp_all)

lemma S_VerifyUserEmail: "S (VerifyUserEmail db u now) (VerifyUserEmail ldb u now)"
  unfolding VerifyUserEmail_def
  by (intro S_rules S_UpdateUser) (simp_all)

lemma S_DeleteUser: "S (DeleteUser db u) (DeleteUser ldb u)"
  unfolding DeleteUser_def
  by (intro S_rules) (simp_all)

lemma S_ListAccounts: "S (ListAccounts db u) (ListAccounts ldb u)"
  unfolding ListAccounts_def
  by (intro S_rules) (simp_all)

lemma S_guardLastAccount: "S (guardLastAccount db u allow) (guardLastAccount ldb u allow)"
  unfolding guardLastAccount_def by (intro S_rules count_sim) simp_all

lemma S_UnlinkAccount: "S (UnlinkAccount db u p a allow) (UnlinkAccount ldb u p a allow)"
  unfolding UnlinkAccount_def Let_def
  by (intro S_rules S_guardLastAccount) auto

lemma S_UnlinkAccountByID: "S (UnlinkAccountByID db u r allow) (UnlinkAccountByID ldb u r allow)"
  unfolding UnlinkAccountByID_def by (intro S_rules S_guardLastAccount findOne_sim) simp_all

lemma S_FindAccountByKey: "S (FindAccountByKey db p a) (FindAccountByKey ldb p a)"
  unfolding FindAccountByKey_def
  by (intro S_rules) (simp_all add: store_wheres)

lemma S_findProfileAccount: "S (findProfileAccount db profile now) (findProfileAccount ldb profile now)"
  unfolding findProfileAccount_def Let_def
  by (intro S_rules S_FindAccountByKey) (simp_all add: store_wheres)

lemma S_LinkOAuthAccount: "S (LinkOAuthAccount db a u p tk now) (LinkOAuthAccount ldb a u p tk now)"
  unfolding LinkOAuthAccount_def Let_def
  by (intro S_rules S_findProfileAccount) (simp_all add: store_wheres)

lemma S_OAuthAccountTokens: "S (OAuthAccountTokens db u p a) (OAuthAccountTokens ldb u p a)"
  unfolding OAuthAccountTokens_def
  by (intro S_rules) auto

lemma S_OAuthAccountTokensByID: "S (OAuthAccountTokensByID db u r) (OAuthAccountTokensByID ldb u r)"
  unfolding OAuthAccountTokensByID_def
  by (intro S_rules) (simp_all)

lemma S_UpdateOAuthAccountTokens: "S (UpdateOAuthAccountTokens db u a tk now) (UpdateOAuthAccountTokens ldb u a tk now)"
  unfolding UpdateOAuthAccountTokens_def
  by (intro S_rules) (simp_all)

lemma S_CreateSession: "S (CreateSession db se) (CreateSession ldb se)"
  unfolding CreateSession_def
  by (intro S_rules) (simp_all)

lemma S_SessionByTokenHash: "S (SessionByTokenHash db h) (SessionByTokenHash ldb h)"
  unfolding SessionByTokenHash_def
  by (intro S_rules S_FindUserByID) (simp_all)

lemma S_RotateSession: "S (RotateSession db h se) (RotateSession ldb h se)"
  unfolding RotateSession_def
  by (intro S_rules) (simp_all)

lemma S_RevokeSession: "S (RevokeSession db h at) (RevokeSession ldb h at)"
  unfolding RevokeSession_def
  by (intro S_rules) (simp_all)

lemma S_RevokeUserSessions: "S (RevokeUserSessions db u at) (RevokeUserSessions ldb u at)"
  unfolding RevokeUserSessions_def
  by (intro S_rules) (simp_all)

lemma S_ListSessions: "S (ListSessions db u now) (ListSessions ldb u now)"
  unfolding ListSessions_def
  by (intro S_rules) (simp_all)

lemma S_RevokeSessionByID: "S (RevokeSessionByID db u i at) (RevokeSessionByID ldb u i at)"
  unfolding RevokeSessionByID_def
  by (intro S_rules) (simp_all)

lemma S_RevokeOtherSessions: "S (RevokeOtherSessions db u i at) (RevokeOtherSessions ldb u i at)"
  unfolding RevokeOtherSessions_def
  by (intro S_rules) (simp_all)

lemma S_UpdateSession: "dom changes \<subseteq> cols ModelSession \<Longrightarrow> S (UpdateSession db u h changes now) (UpdateSession ldb u h changes now)"
  unfolding UpdateSession_def
  by (intro S_rules) (simp_all)

lemma S_RotateSessionWithAudit: "S (RotateSessionWithAudit db h se ae) (RotateSessionWithAudit ldb h se ae)"
  unfolding RotateSessionWithAudit_def
  by (intro S_rules) (simp_all)

lemma S_PutOneTimeToken: "S (PutOneTimeToken db tk) (PutOneTimeToken ldb tk)"
  unfolding PutOneTimeToken_def Let_def
  by (intro S_rules) (simp_all)

lemma S_HasOneTimeToken: "S (HasOneTimeToken db p h now) (HasOneTimeToken ldb p h now)"
  unfolding HasOneTimeToken_def
  by (intro S_rules) (simp_all add: store_wheres)

lemma S_ConsumeUserDeletion: "S (ConsumeUserDeletion db h u now) (ConsumeUserDeletion ldb h u now)"
  unfolding ConsumeUserDeletion_def
  by (intro S_rules) (simp_all add: store_wheres)

lemma S_ConsumeEmailChange: "S (ConsumeEmailChange db h now) (ConsumeEmailChange ldb h now)"
  unfolding ConsumeEmailChange_def Let_def
  by (intro S_rules) (simp_all add: store_wheres)

lemma S_ConsumeEmailChangeConfirmation: "S (ConsumeEmailChangeConfirmation db h now) (ConsumeEmailChangeConfirmation ldb h now)"
  unfolding ConsumeEmailChangeConfirmation_def Let_def
  by (intro S_rules S_FindUserByID) (simp_all add: store_wheres)

lemma S_ConsumePasswordReset: "S (ConsumePasswordReset db h p now) (ConsumePasswordReset ldb h p now)"
  unfolding ConsumePasswordReset_def Let_def
  by (intro S_rules) (simp_all add: store_wheres)

lemma S_ConsumeEmailVerification: "S (ConsumeEmailVerification db h now) (ConsumeEmailVerification ldb h now)"
  unfolding ConsumeEmailVerification_def Let_def
  by (intro S_rules S_FindUserByID) (simp_all add: store_wheres)

lemma S_PutOAuthState: "S (PutOAuthState db st) (PutOAuthState ldb st)"
  unfolding PutOAuthState_def
  by (intro S_rules) (simp_all)

lemma S_ConsumeOAuthState: "S (ConsumeOAuthState db h now) (ConsumeOAuthState ldb h now)"
  unfolding ConsumeOAuthState_def Let_def
  by (intro S_rules) (simp_all add: store_wheres)

lemma S_verifyMatchingEmail: "S (verifyMatchingEmail db profile at user) (verifyMatchingEmail ldb profile at user)"
  unfolding verifyMatchingEmail_def
  by (intro S_rules) (simp_all)

lemma S_upsertExisting: "S (upsertExisting db profile tokens at policy account) (upsertExisting ldb profile tokens at policy account)"
  unfolding upsertExisting_def Let_def
  by (intro S_rules S_verifyMatchingEmail) (simp_all)

lemma S_upsertUser: "S (upsertUser db profile session event policy) (upsertUser ldb profile session event policy)"
  unfolding upsertUser_def Let_def
  by (intro S_rules) (simp_all)

lemma S_upsertUserInfo: "S (upsertUserInfo db p at pol user isNew) (upsertUserInfo ldb p at pol user isNew)"
  unfolding upsertUserInfo_def Let_def by (intro S_rules) simp_all

lemma S_upsertMissing: "S (upsertMissing db profile tokens session event policy) (upsertMissing ldb profile tokens session event policy)"
  unfolding upsertMissing_def Let_def
  by (intro S_rules S_verifyMatchingEmail S_upsertUser S_upsertUserInfo) (simp_all)

lemma S_UpsertOAuthUser: "S (UpsertOAuthUser db p tk se ev pol) (UpsertOAuthUser ldb p tk se ev pol)"
  unfolding UpsertOAuthUser_def
  by (intro S_rules S_findProfileAccount S_upsertExisting S_upsertMissing) (simp_all)

lemma S_void: "S f g \<Longrightarrow> S (void f) (void g)"
  unfolding void_def by (intro S_rules)

lemmas S_method_rules = S_void S_FindUserByEmail S_FindUserByID S_CreateEmailUser S_FindPasswordCredential
  S_ReplacePasswordHash S_SetPasswordHash S_ChangePasswordAndRotate S_UpdateUser S_VerifyUserEmail S_DeleteUser
  S_ListAccounts S_UnlinkAccount S_UnlinkAccountByID S_LinkOAuthAccount S_OAuthAccountTokens S_OAuthAccountTokensByID
  S_UpdateOAuthAccountTokens S_CreateSession S_SessionByTokenHash S_RotateSession S_RevokeSession S_RevokeUserSessions
  S_ListSessions S_RevokeSessionByID S_RevokeOtherSessions S_UpdateSession S_RotateSessionWithAudit S_PutOneTimeToken
  S_HasOneTimeToken S_ConsumeUserDeletion S_ConsumeEmailChange S_ConsumeEmailChangeConfirmation S_ConsumePasswordReset
  S_ConsumeEmailVerification S_PutOAuthState S_ConsumeOAuthState S_UpsertOAuthUser

lemma S_run_call: "call_fits cols c \<Longrightarrow> S (run_call db c) (run_call ldb c)"
  by (cases c) (simp_all only: run_call.simps call_fits_def store_call.case S_method_rules)

lemma run_calls_refined:
  assumes "\<forall>c \<in> set cs. call_fits cols c" and "ok t"
  shows "run_calls db cs (rep t) = rep (run_calls ldb cs t) \<and> ok (run_calls ldb cs t)"
  using assms
proof (induction cs arbitrary: t)
  case (Cons c cs)
  with simulatesD [OF S_run_call, of c t] show ?case by simp
qed simp

end

section \<open>The renamed in-memory store\<close>

text \<open>\<open>known_core\<close>: every model and field of the core schema is in the schema, as after a merge.\<close>

definition known_core :: "Schema \<Rightarrow> bool" where
  "known_core schema \<longleftrightarrow>
     list_all (\<lambda>(m, md). list_all (\<lambda>(k, d). map_of (ms_Fields (modelOf schema m)) k \<noteq> None) (ms_Fields md)) CoreSchema"

locale renamed_store =
  fixes a :: "mem schemaAdapter"
  assumes renamed: "renaming_adapter a"
    and wraps: "wraps_memory a"
    and core: "known_core (sa_schema a)"

sublocale renamed_store \<subseteq> adapter_refinement "schema_adapter a" "memory_adapter (logical_rules_of a)"
  "mem_rep a" "mem_fits (sa_schema a)" "field_names (sa_schema a)"
proof
  have known: "known_model (sa_schema a) m" if "''id'' \<in> field_names (sa_schema a) m" for m
    using field_names_model [OF that] by (force simp: known_model_def)
  note facts = known fits_def where_fits_def
  note ops = Create_sim [OF renamed wraps] FindOne_sim [OF renamed wraps] FindMany_sim [OF renamed wraps]
    Count_sim [OF renamed wraps] Update_sim [OF renamed wraps] UpdateMany_sim [OF renamed wraps]
    Delete_sim [OF renamed wraps] DeleteMany_sim [OF renamed wraps] ConsumeOne_sim [OF renamed wraps]
  show "msim a (db_create (schema_adapter a) kq) (db_create (memory_adapter (logical_rules_of a)) kq)"
    if "''id'' \<in> names a (cq_Model kq)" "dom (cq_Data kq) \<subseteq> names a (cq_Model kq)" "set (cq_Select kq) \<subseteq> names a (cq_Model kq)" for kq
    using that ops(1) facts by (simp add: schema_adapter_def memory_adapter_def)
  show "msim a (db_findOne (schema_adapter a) fq) (db_findOne (memory_adapter (logical_rules_of a)) fq)"
    if "''id'' \<in> names a (fo_Model fq)" "Field ` set (fo_Where fq) \<subseteq> names a (fo_Model fq)" "set (fo_Select fq) \<subseteq> names a (fo_Model fq)" for fq
    using that ops(2) facts by (simp add: schema_adapter_def memory_adapter_def)
  show "msim a (db_findMany (schema_adapter a) mq) (db_findMany (memory_adapter (logical_rules_of a)) mq)"
    if "''id'' \<in> names a (fm_Model mq)" "Field ` set (fm_Where mq) \<subseteq> names a (fm_Model mq)" "set (fm_Select mq) \<subseteq> names a (fm_Model mq)"
      "\<And>srt. fm_Sort mq = Some srt \<Longrightarrow> s_Field srt \<in> names a (fm_Model mq)" for mq
    using that ops(3) facts by (simp add: schema_adapter_def memory_adapter_def)
  show "msim a (db_count (schema_adapter a) nq) (db_count (memory_adapter (logical_rules_of a)) nq)"
    if "''id'' \<in> names a (ct_Model nq)" "Field ` set (ct_Where nq) \<subseteq> names a (ct_Model nq)" for nq
    using that ops(4) facts by (simp add: schema_adapter_def memory_adapter_def)
  show "msim a (db_update (schema_adapter a) uq) (db_update (memory_adapter (logical_rules_of a)) uq)"
    "msim a (db_updateMany (schema_adapter a) uq) (db_updateMany (memory_adapter (logical_rules_of a)) uq)"
    if "''id'' \<in> names a (uq_Model uq)" "Field ` set (uq_Where uq) \<subseteq> names a (uq_Model uq)" "dom (uq_Update uq) \<subseteq> names a (uq_Model uq)" for uq
    using that ops(5,6) facts by (simp_all add: schema_adapter_def memory_adapter_def)
  show "msim a (db_delete (schema_adapter a) dq) (db_delete (memory_adapter (logical_rules_of a)) dq)"
    "msim a (db_deleteMany (schema_adapter a) dq) (db_deleteMany (memory_adapter (logical_rules_of a)) dq)"
    "msim a (db_consumeOne (schema_adapter a) dq) (db_consumeOne (memory_adapter (logical_rules_of a)) dq)"
    if "''id'' \<in> names a (dq_Model dq)" "Field ` set (dq_Where dq) \<subseteq> names a (dq_Model dq)" for dq
    using that ops(7-9) facts by (simp_all add: schema_adapter_def memory_adapter_def)
  show "fst ` set (ms_Fields md) \<subseteq> names a m" if "(m, md) \<in> set CoreSchema" for m md
    using core that unfolding known_core_def list_all_iff field_names_def
    by (fastforce simp: map_of_eq_None_iff)
qed (use wraps in \<open>auto simp: schema_adapter_def memory_adapter_def wraps_memory_def mem_begin_def mem_rollback_def
    mem_commit_def mem_rep_def mem_fits_def split: option.split option.splits\<close>)

context renamed_store
begin

lemmas run_calls = run_calls_refined
lemmas run_call = S_run_call
lemmas session_lookup = S_SessionByTokenHash
lemmas oauth_upsert = S_UpsertOAuthUser

end

end
