(* ===== verification/Schema_Theorems.thy ===== *)
theory Schema_Theorems
  imports Store_Refinement
begin

text \<open>
  What the schema promises: merging the schemas of the application and of plugins keeps the core
  schema, the values written through the schema adapter are the values read, and the store on a
  renamed database is the store on the logical one.
\<close>

section \<open>Merging\<close>

text \<open>A field that is the given one, but perhaps stored under another name.\<close>

definition same_field :: "FieldSchema \<Rightarrow> FieldSchema \<Rightarrow> bool" where
  "same_field d e \<longleftrightarrow> e\<lparr>fs_FieldName := fs_FieldName d\<rparr> = d"

definition extends_model :: "ModelSchema \<Rightarrow> ModelSchema \<Rightarrow> bool" where
  "extends_model md md' \<longleftrightarrow>
     (\<forall>k d. map_of (ms_Fields md) k = Some d \<longrightarrow> (\<exists>e. map_of (ms_Fields md') k = Some e \<and> same_field d e)) \<and>
     set (ms_Indexes md) \<subseteq> set (ms_Indexes md')"

definition extends_schema :: "Schema \<Rightarrow> Schema \<Rightarrow> bool" where
  "extends_schema base schema \<longleftrightarrow>
     (\<forall>m md. map_of base m = Some md \<longrightarrow> (\<exists>md'. map_of schema m = Some md' \<and> extends_model md md'))"

lemma same_field_refl [simp]: "same_field d d"
  by (simp add: same_field_def)

lemma same_field_renamed: "same_field d e \<Longrightarrow> same_field d (e\<lparr>fs_FieldName := n\<rparr>)"
  by (simp add: same_field_def)

lemma merge_field_extends:
  assumes "merge_field current fd = Inr merged"
    and "map_of current k = Some e" and "same_field d e"
  shows "\<exists>e'. map_of merged k = Some e' \<and> same_field d e'"
  using assms by (auto simp: merge_field_def same_field_renamed split: prod.splits option.splits if_splits)

lemma merge_fields_extend:
  assumes "foldE merge_field current fds = Inr merged"
    and "\<forall>k d. map_of fs k = Some d \<longrightarrow> (\<exists>e. map_of current k = Some e \<and> same_field d e)"
  shows "\<forall>k d. map_of fs k = Some d \<longrightarrow> (\<exists>e. map_of merged k = Some e \<and> same_field d e)"
proof -
  define P where "P = (\<lambda>c. \<forall>k d. map_of fs k = Some d \<longrightarrow> (\<exists>e. map_of c k = Some e \<and> same_field d e))"
  have "P merged"
  proof (rule foldE_invariant [where P = P, OF assms(1)])
    show "P current" using assms(2) by (simp add: P_def)
    show "P b" if "P a" "merge_field a x = Inr b" for a x b
      using that merge_field_extends unfolding P_def by blast
  qed
  then show ?thesis by (simp add: P_def)
qed

lemma merge_index_keeps: "set ixs \<subseteq> set (foldl merge_index ixs new)"
proof (induction new arbitrary: ixs)
  case (Cons i new)
  have "set ixs \<subseteq> set (merge_index ixs i)" by (auto simp: merge_index_def)
  with Cons [of "merge_index ixs i"] show ?case by auto
qed simp

lemma merge_model_extends:
  assumes "merge_model result nm = Inr merged" and "extends_schema base result"
  shows "extends_schema base merged"
  unfolding extends_schema_def
proof (intro allI impI)
  fix m md assume "map_of base m = Some md"
  with assms(2) obtain md' where md': "map_of result m = Some md'" "extends_model md md'" by (auto simp: extends_schema_def)
  obtain name model where nm: "nm = (name, model)" by fastforce
  show "\<exists>md'. map_of merged m = Some md' \<and> extends_model md md'"
  proof (cases "m = name")
    case False
    with assms(1) md' nm show ?thesis
      by (auto simp: merge_model_def Let_def split: option.splits if_splits sum.splits)
  next
    case True
    let ?cur = "if ms_ModelName model \<noteq> '''' then md'\<lparr>ms_ModelName := ms_ModelName model\<rparr> else md'"
    from assms(1) True md'(1) nm obtain fs where
      fs: "foldE merge_field (ms_Fields ?cur) (ms_Fields model) = Inr fs"
        "merged = put name (?cur\<lparr>ms_Fields := fs, ms_Indexes := foldl merge_index (ms_Indexes ?cur) (ms_Indexes model)\<rparr>) result"
      by (auto simp: merge_model_def Let_def split: option.splits if_splits sum.splits)
    have sel: "ms_Fields ?cur = ms_Fields md'" "ms_Indexes ?cur = ms_Indexes md'" by simp_all
    from md'(2) have "\<forall>k d. map_of (ms_Fields md) k = Some d \<longrightarrow> (\<exists>e. map_of (ms_Fields ?cur) k = Some e \<and> same_field d e)"
      unfolding sel extends_model_def by (rule conjunct1)
    from merge_fields_extend [OF fs(1) this]
    have "\<forall>k d. map_of (ms_Fields md) k = Some d \<longrightarrow> (\<exists>e. map_of fs k = Some e \<and> same_field d e)" .
    with md'(2) merge_index_keeps [of "ms_Indexes md'" "ms_Indexes model"] fs(2) True sel
    show ?thesis by (auto simp: extends_model_def)
  qed
qed

lemma merge_extends:
  assumes "MergeSchema CoreSchema extensions = Inr schema"
  shows "extends_schema CoreSchema schema"
proof -
  have base: "extends_schema CoreSchema CoreSchema"
    by (auto simp: extends_schema_def extends_model_def)
  have step: "extends_schema CoreSchema b"
    if "extends_schema CoreSchema a" "foldE merge_model a ext = Inr b" for a b ext
    by (rule foldE_invariant [where P = "extends_schema CoreSchema", OF that(2,1)]) (blast intro: merge_model_extends)
  show ?thesis
    by (rule foldE_invariant [where P = "extends_schema CoreSchema", OF assms(1) [unfolded MergeSchema_def] base])
      (blast intro: step)
qed

text \<open>
  C27. Extending the schema keeps the core. Whatever schemas the application and the plugins add, a
  merge that succeeds has every core model with every core field, and each core field has the type,
  the uniqueness, the default and the visibility it had: only the name it is stored under may change.
  Every core index is still there, so the unique keys the store relies on are.
\<close>

theorem merge_keeps_core:
  assumes "MergeSchema CoreSchema extensions = Inr schema" and "map_of CoreSchema m = Some md"
  shows "\<exists>md'. map_of schema m = Some md' \<and> set (ms_Indexes md) \<subseteq> set (ms_Indexes md') \<and>
    (\<forall>k d. map_of (ms_Fields md) k = Some d \<longrightarrow>
      (\<exists>e. map_of (ms_Fields md') k = Some e \<and> e\<lparr>fs_FieldName := fs_FieldName d\<rparr> = d))"
proof -
  from merge_extends [OF assms(1)] assms(2) obtain md' where "map_of schema m = Some md'" "extends_model md md'"
    unfolding extends_schema_def by blast
  then show ?thesis by (intro exI [of _ md']) (simp add: extends_model_def same_field_def)
qed

definition ex_extension :: Schema where
  "ex_extension = [(ModelUser, \<lparr>ms_ModelName = ''users'',
     ms_Fields = [(''email'', (fieldOf FieldTypeUnset)\<lparr>fs_FieldName := ''email_address''\<rparr>),
                  (''plan'', (fieldOf FieldString)\<lparr>fs_Input := True\<rparr>)], ms_Indexes = []\<rparr>)]"

definition ex_schema :: Schema where
  "ex_schema = (case MergeSchema CoreSchema [ex_extension] of Inr s \<Rightarrow> s | Inl _ \<Rightarrow> [])"

lemma ex_merge: "MergeSchema CoreSchema [ex_extension] = Inr ex_schema"
proof -
  have "isl (MergeSchema CoreSchema [ex_extension]) = False" by code_simp
  then show ?thesis by (cases "MergeSchema CoreSchema [ex_extension]") (simp_all add: ex_schema_def)
qed

theorem merge_keeps_core_witness:
  "\<exists>md' e. map_of ex_schema ModelUser = Some md' \<and> map_of (ms_Fields md') ''email'' = Some e \<and> fs_Unique e"
proof -
  have "map_of CoreSchema ModelUser \<noteq> None"
    "\<exists>d. map_of (ms_Fields (the (map_of CoreSchema ModelUser))) ''email'' = Some d \<and> fs_Unique d"
    by (simp_all add: CoreSchema_def req_def)
  then obtain md d where md: "map_of CoreSchema ModelUser = Some md" "map_of (ms_Fields md) ''email'' = Some d" "fs_Unique d" by auto
  from merge_keeps_core [OF ex_merge md(1)] md(2) obtain md' e where "map_of ex_schema ModelUser = Some md'"
    "map_of (ms_Fields md') ''email'' = Some e" "e\<lparr>fs_FieldName := fs_FieldName d\<rparr> = d" by blast
  moreover from this(3) md(3) have "fs_Unique e" by (cases e) (auto dest: arg_cong [where f = fs_Unique])
  ultimately show ?thesis by blast
qed

section \<open>Values\<close>

text \<open>
  What \<open>encoding/json\<close> decodes into an \<open>any\<close> from its own encoding of a value: numbers are \<open>float64\<close>,
  every list is \<open>[]any\<close>, every map and every struct (here without tags) a \<open>map[string]any\<close>, a time the
  text of its format. An empty list or map stands for Go's empty value that is not nil.
\<close>

fun json_any :: "codecs \<Rightarrow> val \<Rightarrow> val" where
  "json_any cd VNil = VNil"
| "json_any cd (VStr s) = VStr s"
| "json_any cd (VBool b) = VBool b"
| "json_any cd (VInt i) = VFloat i"
| "json_any cd (VFloat i) = VFloat i"
| "json_any cd (VTime t) = VStr (cd_FormatTime cd t)"
| "json_any cd (VTimePtr p) = (case p of None \<Rightarrow> VNil | Some t \<Rightarrow> VStr (cd_FormatTime cd t))"
| "json_any cd (VStrs xs) = VArr (map VStr xs)"
| "json_any cd (VArr xs) = VArr (map (json_any cd) xs)"
| "json_any cd (VStrMap m) = VMap (map (\<lambda>(k, x). (k, VStr x)) m)"
| "json_any cd (VMap m) = VMap (map (\<lambda>(k, x). (k, json_any cd x)) m)"
| "json_any cd (VStruct n m) = VMap (sort_key fst (map (\<lambda>(k, x). (k, json_any cd x)) m))"

text \<open>What the adapter gives back for a value, as the adapter underneath has JSON and arrays or not.\<close>

definition read_back :: "'s schemaAdapter \<Rightarrow> string \<Rightarrow> string \<Rightarrow> val \<Rightarrow> val" where
  "read_back a model field v =
     (case fs_Type (fieldAt (modelOf (sa_schema a) model) field) of
        FieldJSON \<Rightarrow> if cap_JSON (sa_caps a) then v else json_any (sa_codecs a) v
      | FieldStringArray \<Rightarrow> if cap_Arrays (sa_caps a) then v else json_any (sa_codecs a) v
      | _ \<Rightarrow> v)"

text \<open>
  A value the adapter can hold in a field: nil, or a value of the field's type, for which the packages
  \<open>time\<close> and \<open>encoding/json\<close> read what they wrote as they document it, where the adapter needs them.
\<close>

definition storable :: "'s schemaAdapter \<Rightarrow> string \<Rightarrow> string \<Rightarrow> val \<Rightarrow> bool" where
  "storable a model field v \<longleftrightarrow> v = VNil \<or>
     (let encoded = (\<exists>s. cd_Marshal (sa_codecs a) v = Some s \<and> cd_Unmarshal (sa_codecs a) s = Some (json_any (sa_codecs a) v)) in
      case fs_Type (fieldAt (modelOf (sa_schema a) model) field) of
        FieldDate \<Rightarrow> cap_Dates (sa_caps a) \<or>
          (case v of VTime t \<Rightarrow> cd_ParseTime (sa_codecs a) (cd_FormatTime (sa_codecs a) t) = Some t | _ \<Rightarrow> False)
      | FieldBoolean \<Rightarrow> cap_Booleans (sa_caps a) \<or> (case v of VBool b \<Rightarrow> True | _ \<Rightarrow> False)
      | FieldJSON \<Rightarrow> cap_JSON (sa_caps a) \<or> encoded
      | FieldStringArray \<Rightarrow> cap_Arrays (sa_caps a) \<or> encoded
      | _ \<Rightarrow> True)"

lemma storable_value:
  assumes "storable a model k v"
  shows "outputValue a model k (inputValue a model k v) = read_back a model k v"
proof (cases "v = VNil \<or> map_of (ms_Fields (modelOf (sa_schema a) model)) k = None")
  case True
  then show ?thesis
    by (auto simp: read_back_def outputValue_def inputValue_def fieldAt_def fieldOf_def split: FieldType.split)
next
  case False
  then obtain d where d: "map_of (ms_Fields (modelOf (sa_schema a) model)) k = Some d" "v \<noteq> VNil" by auto
  note defs = storable_def read_back_def outputValue_def inputValue_def fieldAt_def Let_def
  show ?thesis
  proof (cases "fs_Type d")
    case FieldDate
    then show ?thesis using d assms by (cases v) (auto simp: defs)
  next
    case FieldBoolean
    then show ?thesis using d assms by (cases v) (auto simp: defs)
  qed (use d assms in \<open>auto simp: defs\<close>)
qed

lemma concat_members: "concat (map (\<lambda>(k, item). case item of VStr s \<Rightarrow> [(k, s)] | _ \<Rightarrow> []) (map (\<lambda>(k, x). (k, VStr x)) m)) = m"
  by (induction m) auto

lemma recordStringMap_read_back: "recordStringMap (read_back a model k (VStrMap m)) = m"
  by (simp add: recordStringMap_def read_back_def concat_members del: map_map split: FieldType.split)

text \<open>
  C26. What is written through the schema adapter is what is read back, whatever names the schema stores the
  fields under, as long as the schema is valid: a record of known fields comes back under its own
  names. Dates, booleans and every other value but JSON and arrays are unchanged, whether the adapter has
  them or not; JSON and arrays are unchanged where the adapter has them, and otherwise come back as
  \<open>encoding/json\<close> decodes them, with lists as \<open>[]any\<close> and maps as \<open>map[string]any\<close>. The reader the store
  uses for maps of strings gets the map that was written in either case.
\<close>

theorem schema_record_roundtrip:
  assumes "renaming (sa_schema a)" and "dom r \<subseteq> field_names (sa_schema a) m"
    and "\<forall>k v. r k = Some v \<longrightarrow> storable a m k v"
  shows "outputRecord a m (inputRecord a m r) = (\<lambda>k. map_option (read_back a m k) (r k)) \<and>
    (\<forall>k v. r k = Some v \<longrightarrow> fs_Type (fieldAt (modelOf (sa_schema a) m) k) \<notin> {FieldJSON, FieldStringArray} \<longrightarrow>
       outputRecord a m (inputRecord a m r) k = Some v) \<and>
    (\<forall>k x. r k = Some (VStrMap x) \<longrightarrow> recordStringMap (fld (outputRecord a m (inputRecord a m r)) k) = x)"
proof -
  have out: "outputRecord a m (inputRecord a m r) k = map_option (read_back a m k) (r k)" for k
    using output_input_values [of a m r] assms by (cases "r k") (auto simp: fits_def storable_value)
  then show ?thesis
    by (auto simp: fun_eq_iff fld_def recordStringMap_read_back) (auto simp: read_back_def split: FieldType.splits)
qed

text \<open>An adapter without native types, with a JSON of strings in quotes and times in unary.\<close>

definition ex_codecs :: codecs where
  "ex_codecs = \<lparr>cd_FormatTime = (\<lambda>t. replicate (nat t) CHR ''i''),
     cd_ParseTime = (\<lambda>s. if list_all (\<lambda>c. c = CHR ''i'') s then Some (int (length s)) else None),
     cd_Marshal = (\<lambda>v. case v of VStr s \<Rightarrow> Some (CHR 0x22 # s) | _ \<Rightarrow> None),
     cd_Unmarshal = (\<lambda>s. case s of c # cs \<Rightarrow> Some (VStr cs) | [] \<Rightarrow> None)\<rparr>"

definition no_caps :: AdapterCapabilities where
  "no_caps = \<lparr>cap_JSON = False, cap_Dates = False, cap_Booleans = False, cap_Arrays = False, cap_NumericIDs = False,
     cap_UUIDs = False, cap_Joins = False, cap_Transactions = True\<rparr>"

definition memory_caps :: AdapterCapabilities where
  "memory_caps = \<lparr>cap_JSON = True, cap_Dates = True, cap_Booleans = True, cap_Arrays = True, cap_NumericIDs = False,
     cap_UUIDs = False, cap_Joins = False, cap_Transactions = True\<rparr>"

definition ex_adapter :: "AdapterCapabilities \<Rightarrow> mem schemaAdapter" where
  "ex_adapter caps = \<lparr>sa_inner = memory_adapter (Some (rulesFromSchema ex_schema)), sa_schema = ex_schema,
     sa_caps = caps, sa_codecs = ex_codecs\<rparr>"

lemma ex_renaming: "renaming ex_schema"
  by code_simp

lemma ex_user_fields:
  "map (\<lambda>k. map_option fs_Type (map_of (ms_Fields (modelOf ex_schema ModelUser)) k)) [''email'', ''emailVerified'', ''createdAt'']
     = [Some FieldString, Some FieldBoolean, Some FieldDate]"
  by code_simp

text \<open>
  An audit event with an array of tags, and the texts \<open>encoding/json\<close> gives for its three values: a struct, a
  map of strings and a list of strings.
\<close>

definition ex_tagged :: Schema where
  "ex_tagged = (case MergeSchema CoreSchema [[(ModelAuditEvent, \<lparr>ms_ModelName = ''audit'',
       ms_Fields = [(''tags'', (fieldOf FieldStringArray)\<lparr>fs_FieldName := ''tag_list''\<rparr>)], ms_Indexes = []\<rparr>)]] of
     Inr s \<Rightarrow> s | Inl _ \<Rightarrow> [])"

definition quoted :: "string \<Rightarrow> string" where
  "quoted s = CHR 0x22 # s @ [CHR 0x22]"

definition ex_texts :: "(val \<times> string \<times> val) list" where
  "ex_texts =
     [(metadataValue \<lparr>rm_RequestID = ''q'', rm_IP = ''::1'', rm_UserAgent = ''ua''\<rparr>,
       ''{'' @ quoted ''RequestID'' @ '':'' @ quoted ''q'' @ '','' @ quoted ''IP'' @ '':'' @ quoted ''::1'' @ '','' @
         quoted ''UserAgent'' @ '':'' @ quoted ''ua'' @ ''}'',
       VMap [(''IP'', VStr ''::1''), (''RequestID'', VStr ''q''), (''UserAgent'', VStr ''ua'')]),
      (VStrMap [(''k'', ''v'')], ''{'' @ quoted ''k'' @ '':'' @ quoted ''v'' @ ''}'', VMap [(''k'', VStr ''v'')]),
      (VStrs [''a'', ''b''], ''['' @ quoted ''a'' @ '','' @ quoted ''b'' @ '']'', VArr [VStr ''a'', VStr ''b''])]"

definition ex_tag_adapter :: "mem schemaAdapter" where
  "ex_tag_adapter = \<lparr>sa_inner = memory_adapter (Some (rulesFromSchema ex_tagged)), sa_schema = ex_tagged, sa_caps = no_caps,
     sa_codecs = ex_codecs\<lparr>cd_Marshal := (\<lambda>v. map_option fst (map_of ex_texts v)),
       cd_Unmarshal := (\<lambda>s. map_of (map snd ex_texts) s)\<rparr>\<rparr>"

definition ex_event :: Record where
  "ex_event = [''action'' \<mapsto> VStr ''x'', ''occurredAt'' \<mapsto> VTime 3,
     ''request'' \<mapsto> metadataValue \<lparr>rm_RequestID = ''q'', rm_IP = ''::1'', rm_UserAgent = ''ua''\<rparr>,
     ''details'' \<mapsto> VStrMap [(''k'', ''v'')], ''tags'' \<mapsto> VStrs [''a'', ''b'']]"

lemma ex_codec:
  "list_all (\<lambda>(w, t, d). cd_Marshal (sa_codecs ex_tag_adapter) w = Some t \<and>
     cd_Unmarshal (sa_codecs ex_tag_adapter) t = Some d \<and> json_any (sa_codecs ex_tag_adapter) w = d) ex_texts"
  by code_simp

lemma ex_tagged_renaming: "renaming ex_tagged"
  by code_simp

lemma ex_event_fields:
  "map (\<lambda>k. map_option fs_Type (map_of (ms_Fields (modelOf ex_tagged ModelAuditEvent)) k))
       [''action'', ''occurredAt'', ''request'', ''details'', ''tags'']
     = [Some FieldString, Some FieldDate, Some FieldJSON, Some FieldJSON, Some FieldStringArray]"
  by code_simp

theorem schema_record_roundtrip_witness:
  "let read = outputRecord ex_tag_adapter ModelAuditEvent (inputRecord ex_tag_adapter ModelAuditEvent ex_event) in
   read ''occurredAt'' = Some (VTime 3) \<and> read ''tags'' = Some (VArr [VStr ''a'', VStr ''b'']) \<and>
   read ''details'' = Some (VMap [(''k'', VStr ''v'')]) \<and> recordStringMap (fld read ''details'') = [(''k'', ''v'')]"
proof -
  have "map_of (ms_Fields (modelOf ex_tagged ModelAuditEvent)) k \<noteq> None" if "k \<in> dom ex_event" for k
    using that ex_event_fields by (auto simp: ex_event_def split: if_splits)
  then have "dom ex_event \<subseteq> field_names (sa_schema ex_tag_adapter) ModelAuditEvent"
    by (auto simp: field_names_def ex_tag_adapter_def map_of_eq_None_iff)
  moreover have "renaming (sa_schema ex_tag_adapter)" using ex_tagged_renaming by (simp add: ex_tag_adapter_def)
  moreover have "storable ex_tag_adapter ModelAuditEvent k v" if "ex_event k = Some v" for k v
  proof -
    have json: "\<exists>s. cd_Marshal (sa_codecs ex_tag_adapter) w = Some s \<and>
        cd_Unmarshal (sa_codecs ex_tag_adapter) s = Some (json_any (sa_codecs ex_tag_adapter) w)" if "w \<in> fst ` set ex_texts" for w
      using that ex_codec by (force simp: list_all_iff)
    have date: "cd_ParseTime (sa_codecs ex_tag_adapter) (cd_FormatTime (sa_codecs ex_tag_adapter) 3) = Some 3"
      by (simp add: ex_tag_adapter_def ex_codecs_def list_all_iff)
    have schema: "sa_schema ex_tag_adapter = ex_tagged" by (simp add: ex_tag_adapter_def)
    from that show ?thesis using ex_event_fields date
      by (auto simp: ex_event_def storable_def fieldAt_def schema ex_texts_def Let_def intro!: json split: if_splits)
  qed
  ultimately have out: "outputRecord ex_tag_adapter ModelAuditEvent (inputRecord ex_tag_adapter ModelAuditEvent ex_event) =
      (\<lambda>k. map_option (read_back ex_tag_adapter ModelAuditEvent k) (ex_event k))"
    using schema_record_roundtrip [of ex_tag_adapter ex_event ModelAuditEvent] by blast
  have maps: "recordStringMap (read_back ex_tag_adapter ModelAuditEvent ''details'' (VStrMap [(''k'', ''v'')])) = [(''k'', ''v'')]"
    by (rule recordStringMap_read_back)
  have "fld (\<lambda>k. map_option (read_back ex_tag_adapter ModelAuditEvent k) (ex_event k)) ''details'' =
      read_back ex_tag_adapter ModelAuditEvent ''details'' (VStrMap [(''k'', ''v'')])"
    by (simp add: fld_def ex_event_def)
  moreover have "read_back ex_tag_adapter ModelAuditEvent ''occurredAt'' (VTime 3) = VTime 3"
    "read_back ex_tag_adapter ModelAuditEvent ''tags'' (VStrs [''a'', ''b'']) = VArr [VStr ''a'', VStr ''b'']"
    "read_back ex_tag_adapter ModelAuditEvent ''details'' (VStrMap [(''k'', ''v'')]) = VMap [(''k'', VStr ''v'')]"
    using ex_event_fields by (auto simp: read_back_def fieldAt_def ex_tag_adapter_def no_caps_def)
  ultimately show ?thesis unfolding out Let_def using maps by (simp add: ex_event_def)
qed

section \<open>The store on a renamed database\<close>

text \<open>A merged schema has the core models and fields.\<close>

lemma merged_known_core:
  assumes "MergeSchema CoreSchema extensions = Inr schema"
  shows "known_core schema"
proof -
  have "map_of (ms_Fields (modelOf schema m)) k \<noteq> None" if md: "(m, md) \<in> set CoreSchema" "(k, d) \<in> set (ms_Fields md)" for m md k d
  proof -
    have "list_all (\<lambda>(m, md). map_of CoreSchema m = Some md) CoreSchema \<and>
        list_all (\<lambda>(m, md). list_all (\<lambda>(k, d). map_of (ms_Fields md) k = Some d) (ms_Fields md)) CoreSchema"
      by (simp add: CoreSchema_def model_defs)
    with md have "map_of CoreSchema m = Some md" "map_of (ms_Fields md) k = Some d" by (fastforce simp: list_all_iff)+
    with merge_extends [OF assms] obtain md' e where "map_of schema m = Some md'" "map_of (ms_Fields md') k = Some e"
      unfolding extends_schema_def extends_model_def by blast
    then show ?thesis by (simp add: modelOf_def)
  qed
  then show ?thesis by (auto simp: known_core_def list_all_iff)
qed

text \<open>The adapter the server builds over the in-memory adapter for a merged schema.\<close>

definition wrapped :: "codecs \<Rightarrow> Schema \<Rightarrow> mem schemaAdapter" where
  "wrapped cd schema = \<lparr>sa_inner = memory_adapter (Some (rulesFromSchema schema)), sa_schema = schema,
     sa_caps = memory_caps, sa_codecs = cd\<rparr>"

lemma renamed_store_wrapped:
  assumes "MergeSchema CoreSchema extensions = Inr schema" and "renaming schema"
  shows "renamed_store (wrapped cd schema)"
  using assms merged_known_core [OF assms(1)]
  by unfold_locales (simp_all add: wrapped_def renaming_adapter_def native_def memory_caps_def wraps_memory_def)

text \<open>
  C12. Renaming tables and columns is invisible to the store. For any valid schema merged from the core
  and extensions, wrapping the in-memory adapter for it and running any calls of the store gives, call
  by call, the results and errors the in-memory adapter gives with the logical schema, where nothing is
  renamed, and leaves the stored form of the rows it leaves. Calls that name fields of their own name
  fields of the schema.
\<close>

theorem renamed_store_refines:
  assumes "MergeSchema CoreSchema extensions = Inr schema" and "renaming schema"
    and "\<forall>c \<in> set (c0 # cs). call_fits (field_names schema) c" and "mem_fits schema t"
    and "WrapDatabaseAdapter cd memory_caps (Some (memory_adapter (Some (rulesFromSchema schema)))) schema = Inr db"
  shows "let ldb = memory_adapter (Some (rulesFromSchema (logicalSchema schema))); rep = mem_rep (wrapped cd schema);
             t' = run_calls ldb cs t in
    run_calls db cs (rep t) = rep t' \<and>
    run_call db c0 (rep t') = (fst (run_call ldb c0 t'), rep (snd (run_call ldb c0 t'))) \<and>
    SessionByTokenHash db h (rep t') = (fst (SessionByTokenHash ldb h t'), rep (snd (SessionByTokenHash ldb h t'))) \<and>
    UpsertOAuthUser db p tk se ev pol (rep t') =
      (fst (UpsertOAuthUser ldb p tk se ev pol t'), rep (snd (UpsertOAuthUser ldb p tk se ev pol t')))"
proof -
  note store = renamed_store_wrapped [OF assms(1,2), of cd]
  have sch: "sa_schema (wrapped cd schema) = schema" by (simp add: wrapped_def)
  have db: "db = schema_adapter (wrapped cd schema)"
    using assms(2,5) by (simp add: WrapDatabaseAdapter_def wrapped_def renaming_def)
  note R = renamed_store.run_calls [OF store, of cs t, unfolded sch]
  from R assms(3,4) have cs: "run_calls db cs (mem_rep (wrapped cd schema) t) =
      mem_rep (wrapped cd schema) (run_calls (memory_adapter (Some (rulesFromSchema (logicalSchema schema)))) cs t)"
    "mem_fits schema (run_calls (memory_adapter (Some (rulesFromSchema (logicalSchema schema)))) cs t)"
    by (simp_all add: db)
  have c0: "call_fits (field_names (sa_schema (wrapped cd schema))) c0" using assms(3) by (simp add: sch)
  note one = renamed_store.run_call [OF store c0, unfolded sch, THEN simulatesD, OF cs(2)]
    renamed_store.session_lookup [OF store, unfolded sch, THEN simulatesD, OF cs(2), of h]
    renamed_store.oauth_upsert [OF store, unfolded sch, THEN simulatesD, OF cs(2), of p tk se ev pol]
  show ?thesis
    using cs one by (simp add: Let_def db)
qed

interpretation renamed_example: renamed_store "wrapped ex_codecs ex_schema"
  by (rule renamed_store_wrapped [OF ex_merge ex_renaming])

lemma ex_wrap:
  "WrapDatabaseAdapter cd memory_caps (Some (memory_adapter (Some (rulesFromSchema ex_schema)))) ex_schema =
     Inr (schema_adapter (wrapped cd ex_schema))"
  using ex_renaming by (simp add: WrapDatabaseAdapter_def wrapped_def renaming_def)

lemma empty_mem_fits: "mem_fits schema empty_mem"
  by (simp add: mem_fits_def empty_mem_def rows_fit_def list_all_iff split: prod.split)

theorem renamed_store_refines_witness:
  "run_calls (schema_adapter (wrapped ex_codecs ex_schema)) [CallCreateSession (ex_session ''s1'' ''h'' 10)]
     (mem_rep (wrapped ex_codecs ex_schema) empty_mem) =
   mem_rep (wrapped ex_codecs ex_schema)
     (run_calls (memory_adapter (Some (rulesFromSchema (logicalSchema ex_schema))))
        [CallCreateSession (ex_session ''s1'' ''h'' 10)] empty_mem)"
proof -
  have "\<forall>c \<in> set [CallRevokeUserSessions ''u1'' 5, CallCreateSession (ex_session ''s1'' ''h'' 10)]. call_fits (field_names ex_schema) c"
    by (simp add: call_fits_def)
  from renamed_store_refines [OF ex_merge ex_renaming this empty_mem_fits ex_wrap] show ?thesis by (simp add: Let_def)
qed

end
