(* ===== verification/Store_Safety.thy ===== *)
theory Store_Safety
  imports Store_Calls
begin

text \<open>
  What holds after every sequence of calls of the store: the invariant of the tables, with the
  uniqueness of emails, token hashes and provider accounts; a revoked session is never live
  again; a single-use token is accepted at most once.
\<close>

section \<open>The invariant\<close>

interpretation calls: table_property core_db mem_table "mem_inv (Some (rulesFromSchema CoreSchema))"
  mem_in_tx "uniqueKeys (Some (rulesFromSchema CoreSchema))" "idField (Some (rulesFromSchema CoreSchema))"
  "\<lambda>_. True" "\<lambda>_ _. True" "\<lambda>_ _. True" "\<lambda>_. True"
  by unfold_locales simp_all

lemma calls_K [simp]: "calls.K False s \<longleftrightarrow> core_inv s"
  by (simp add: calls.K_def core_inv_def)

lemma run_call_inv: "core_inv s \<Longrightarrow> core_inv (snd (run_call core_db c s))"
  using keepsD [where P = "calls.K False" and m = "run_call core_db c" and s = s]
    calls.K_run_call [of c] by simp

lemma run_calls_inv: "core_inv s \<Longrightarrow> core_inv (run_calls core_db cs s)"
  using calls.K_run_calls [of cs s] calls.K_run_call by simp

lemma reachable_inv: "store_reachable s \<Longrightarrow> core_inv s"
proof (induction rule: store_reachable.induct)
  case (step s c t)
  from step.hyps(2) obtain r where "run_call core_db c s = (r, t)"
    by (rule store_step_elim)
  with run_call_inv [OF step.IH, of c] show ?case by simp
qed (rule core_inv_empty)

text \<open>
  Two rows of a core table that agree on a unique key, with a value in each of its fields,
  are one row.
\<close>

lemma core_inv_mem: "core_inv s \<Longrightarrow> mem_inv (Some (rulesFromSchema CoreSchema)) s"
  by (simp add: core_inv_def)

lemma core_unique_row:
  assumes "core_inv s" and "mem_table s m i = Some r" and "mem_table s m j = Some r'"
    and "k \<in> set (uniqueKeys (Some (rulesFromSchema CoreSchema)) m)"
    and "sameUniqueKey r r' k"
  shows "i = j"
  by (rule keys_uniqueD [OF core.row_keys [OF core_inv_mem [OF assms(1)]] assms(2-5)])

section \<open>Revoked sessions\<close>

definition revoked_row :: "string \<Rightarrow> string \<Rightarrow> (string \<Rightarrow> table_map) \<Rightarrow> bool" where
  "revoked_row h i tb \<longleftrightarrow>
     (\<exists>r. tb ModelSession i = Some r \<and> fld r ''tokenHash'' = VStr h \<and> (\<exists>t. fld r ''revokedAt'' = VTime t))"

definition keeps_revoked :: "string \<Rightarrow> Record \<Rightarrow> bool" where
  "keeps_revoked m u \<longleftrightarrow> m = ModelSession \<longrightarrow>
     u ''tokenHash'' = None \<and> (u ''revokedAt'' = None \<or> (\<exists>t. u ''revokedAt'' = Some (VTime t)))"

interpretation rev: table_property core_db mem_table "mem_inv (Some (rulesFromSchema CoreSchema))"
  mem_in_tx "uniqueKeys (Some (rulesFromSchema CoreSchema))" "idField (Some (rulesFromSchema CoreSchema))"
  "revoked_row h i" "\<lambda>_ _. True" keeps_revoked "\<lambda>m. m \<noteq> ModelSession" for h i
proof (unfold_locales, goal_cases)
  case (2 tb m u j r)
  then show ?case
    by (auto simp: revoked_row_def keeps_revoked_def fld_set_fields)
next
  case (3 tb m u w)
  then show ?case
    by (auto simp: revoked_row_def keeps_revoked_def fld_set_fields)
qed (auto simp: revoked_row_def)

lemma rev_K [simp]: "rev.K h i False s \<longleftrightarrow> core_inv s \<and> revoked_row h i (mem_table s)"
  by (auto simp: rev.K_def core_inv_def)

lemma keeps_revoked_revoke: "keeps_revoked m (revokeUpdate t)"
  by (simp add: keeps_revoked_def revokeUpdate_def)

lemma run_calls_revoked:
  assumes "core_inv s" and "revoked_row h i (mem_table s)" and "\<And>c. c \<in> set cs \<Longrightarrow> revoke_safe c"
  shows "core_inv (run_calls core_db cs s) \<and> revoked_row h i (mem_table (run_calls core_db cs s))"
proof -
  have "keeps (rev.K h i False) (run_call core_db c)" if "c \<in> set cs" for c
    using assms(3) [OF that]
    by (intro rev.K_run_call) (auto simp: keeps_revoked_def revoke_safe_def session_safe_def revokeUpdate_def
        model_defs)
  from rev.K_run_calls [where cs = cs and s = s, OF this] assms(1,2) show ?thesis by simp
qed

text \<open>No session with the token hash is live.\<close>

definition dead_hash :: "string \<Rightarrow> (string \<Rightarrow> table_map) \<Rightarrow> bool" where
  "dead_hash h tb \<longleftrightarrow> (\<forall>i r. tb ModelSession i = Some r \<longrightarrow> fld r ''tokenHash'' = VStr h \<longrightarrow>
     (\<exists>t. fld r ''revokedAt'' = VTime t))"

lemma deleted_row:
  assumes "\<And>i. t i = tb m i \<or> t i = None" and "(tb(m := t)) m' i = Some r"
  shows "tb m' i = Some r"
  using assms(1) [of i] assms(2) by (auto split: if_splits)

interpretation dead: table_property core_db mem_table "mem_inv (Some (rulesFromSchema CoreSchema))"
  mem_in_tx "uniqueKeys (Some (rulesFromSchema CoreSchema))" "idField (Some (rulesFromSchema CoreSchema))"
  "dead_hash h" "\<lambda>m d. m = ModelSession \<longrightarrow> fld d ''tokenHash'' \<noteq> VStr h" keeps_revoked "\<lambda>_. True" for h
proof (unfold_locales, goal_cases)
  case (1 tb m d i)
  then show ?case by (auto simp: dead_hash_def)
next
  case (2 tb m u i r)
  then show ?case by (auto simp: dead_hash_def keeps_revoked_def fld_set_fields)
next
  case (3 tb m u w)
  then show ?case
    by (auto simp: dead_hash_def keeps_revoked_def fld_set_fields split: option.splits if_splits)
next
  case (4 tb m t)
  then show ?case unfolding dead_hash_def using deleted_row [of t tb m] by blast
qed

lemma dead_K: "dead.K h False d \<longleftrightarrow> core_inv d \<and> dead_hash h (mem_table d)"
  by (auto simp: dead.K_def core_inv_def)

lemma session_revoke_updates:
  "keeps_revoked ModelSession (revokeUpdate t)"
  "session_safe (CallUpdateSession u h changes now) \<Longrightarrow> keeps_revoked ModelSession (changes(''updatedAt'' \<mapsto> VTime now))"
  "m \<noteq> ModelSession \<Longrightarrow> keeps_revoked m x"
  by (simp_all add: keeps_revoked_def revokeUpdate_def session_safe_def)

lemma other_models: "ModelVerification \<noteq> ModelSession"
  by (simp add: model_defs)

lemma dead_call: "session_safe c \<Longrightarrow> \<not> starts_session c h \<Longrightarrow>
    keeps (\<lambda>d. core_inv d \<and> dead_hash h (mem_table d)) (run_call core_db c)"
  unfolding dead_K [symmetric]
  by (rule dead.K_run_call) (auto simp: session_revoke_updates other_models)

lemma run_calls_dead:
  assumes "core_inv s" and "dead_hash h (mem_table s)" and "\<And>c. c \<in> set cs \<Longrightarrow> session_safe c \<and> \<not> starts_session c h"
  shows "core_inv (run_calls core_db cs s) \<and> dead_hash h (mem_table (run_calls core_db cs s))"
proof -
  have "keeps (dead.K h False) (run_call core_db c)" if "c \<in> set cs" for c
    using dead_call [of c h] assms(3) [OF that] unfolding dead_K by blast
  from dead.K_run_calls [where cs = cs and s = s, OF this] assms(1,2) show ?thesis by (simp add: dead_K)
qed

text \<open>Token hashes are unique, so a revoked row leaves no live session with its hash.\<close>

lemma revoked_dead:
  assumes "core_inv s" and "revoked_row h i (mem_table s)"
  shows "dead_hash h (mem_table s)"
  unfolding dead_hash_def
proof (intro allI impI)
  fix j q assume j: "mem_table s ModelSession j = Some q" "fld q ''tokenHash'' = VStr h"
  from assms(2) obtain r at where r: "mem_table s ModelSession i = Some r" "fld r ''tokenHash'' = VStr h"
    "fld r ''revokedAt'' = VTime at" by (auto simp: revoked_row_def)
  have "i = j" using core_unique_row [OF assms(1) r(1) j(1), of "[''tokenHash'']"] r(2) j(2) by simp
  with r j show "\<exists>t. fld q ''revokedAt'' = VTime t" by simp
qed

lemma dead_lookup:
  assumes "core_inv s" and "dead_hash h (mem_table s)"
    and "SessionByTokenHash core_db h s = (Inr (session, user), t)"
  shows "ss_RevokedAt session \<noteq> None"
proof -
  from assms(3) obtain row u where row: "db_findOne core_db (findOneQ ModelSession [Eq ''tokenHash'' (VStr h)]) s = (Inr row, u)"
    and s: "sessionFromRecord row = Inr session"
    unfolding SessionByTokenHash_def
    by (auto elim!: bindM_Inr_elim simp: lift_def ret_def)
  have w: "ValidateWhere [Eq ''tokenHash'' (VStr h)] True = Inr [Eq ''tokenHash'' (VStr h)]"
    by (simp add: where_simps)
  from core_inv_mem [OF assms(1)] w show ?thesis
  proof (cases rule: core.findOne_step [where m = ModelSession])
    case none
    with row s show ?thesis by (simp add: sessionFromRecord_def)
  next
    case (some j q)
    with assms(2) obtain at where "fld q ''revokedAt'' = VTime at" by (auto simp: dead_hash_def where_simps)
    with some row s show ?thesis by (auto dest: sessionFromRecord_Inr)
  qed
qed

lemma revoke_marks:
  assumes "core_inv s" and "mem_table s ModelSession i = Some r" and "fld r ''tokenHash'' = VStr h"
    and "fld r ''revokedAt'' = nullableTime p"
  shows "revoked_row h i (mem_table (snd (RevokeSession core_db h at s)))"
proof -
  let ?ws = "[Eq ''tokenHash'' (VStr h), Eq ''revokedAt'' VNil]"
  have w: "ValidateWhere ?ws False = Inr ?ws" by (simp add: where_simps)
  have m: "ModelSession \<in> set core_models" by (simp add: core_models_def)
  have free: "key_free (uniqueKeys (Some (rulesFromSchema CoreSchema)) ModelSession) (revokeUpdate at)"
    by simp
  from core_inv_mem [OF assms(1)] m w free show ?thesis
  proof (cases rule: core.update_free_step)
    case none
    with assms(2,3) have "fld r ''revokedAt'' \<noteq> VNil"
      by (auto simp: hits_def where_simps)
    with assms(4) have "p \<noteq> None" by (cases p) (auto simp: nullableTime_def)
    with none assms(2-4) show ?thesis
      by (auto simp: RevokeSession_def bindM_def tryM_def ret_def revoked_row_def nullableTime_def)
  next
    case (ok j q s')
    have "i = j"
      using core_unique_row [OF assms(1,2) ok(1), of "[''tokenHash'']"] assms(3) ok(2)
      by (simp add: where_simps)
    with ok assms(3) show ?thesis
      by (auto simp: RevokeSession_def bindM_def tryM_def ret_def revoked_row_def fld_set_fields
          revokeUpdate_def where_simps)
  qed
qed

section \<open>Single-use tokens\<close>

definition no_token :: "string \<Rightarrow> (string \<Rightarrow> table_map) \<Rightarrow> bool" where
  "no_token h tb \<longleftrightarrow> (\<forall>i r. tb ModelVerification i = Some r \<longrightarrow> fld r ''value'' \<noteq> VStr h)"

interpretation tok: table_property core_db mem_table "mem_inv (Some (rulesFromSchema CoreSchema))"
  mem_in_tx "uniqueKeys (Some (rulesFromSchema CoreSchema))" "idField (Some (rulesFromSchema CoreSchema))"
  "no_token h" "\<lambda>m d. m = ModelVerification \<longrightarrow> fld d ''value'' \<noteq> VStr h"
  "\<lambda>m u. m = ModelVerification \<longrightarrow> u ''value'' = None" "\<lambda>_. True" for h
proof (unfold_locales, goal_cases)
  case (1 tb m d i)
  then show ?case by (auto simp: no_token_def)
next
  case (2 tb m u i r)
  then show ?case by (auto simp: no_token_def fld_set_fields)
next
  case (3 tb m u w)
  then show ?case
    by (auto simp: no_token_def fld_set_fields split: option.splits if_splits)
next
  case (4 tb m t)
  then show ?case by (metis fun_upd_apply no_token_def option.distinct(1))
qed

lemma tok_K [simp]: "tok.K h False s \<longleftrightarrow> core_inv s \<and> no_token h (mem_table s)"
  by (auto simp: tok.K_def core_inv_def)

lemma run_calls_no_token:
  assumes "core_inv s" and "no_token h (mem_table s)" and "\<And>c. c \<in> set cs \<Longrightarrow> \<not> puts_token c h"
  shows "core_inv (run_calls core_db cs s) \<and> no_token h (mem_table (run_calls core_db cs s))"
proof -
  have "keeps (tok.K h False) (run_call core_db c)" if "c \<in> set cs" for c
    using assms(3) [OF that]
    by (intro tok.K_run_call)
      (auto simp: puts_token_def revokeUpdate_def tokenRow_def oauthStateRow_def model_defs)
  from tok.K_run_calls [where cs = cs and s = s, OF this] assms(1,2) show ?thesis by simp
qed

text \<open>The calls that accept a token with hash \<open>h\<close>.\<close>

definition accepts_token :: "store_call \<Rightarrow> string \<Rightarrow> bool" where
  "accepts_token c h = (case c of
     CallConsumeUserDeletion h' u now \<Rightarrow> h' = h
   | CallConsumeEmailChange h' now \<Rightarrow> h' = h
   | CallConsumeEmailChangeConfirmation h' now \<Rightarrow> h' = h
   | CallConsumePasswordReset h' p now \<Rightarrow> h' = h
   | CallConsumeEmailVerification h' now \<Rightarrow> h' = h
   | CallConsumeOAuthState h' now \<Rightarrow> h' = h
   | _ \<Rightarrow> False)"

text \<open>The predicates of a consumption hold only of rows with the hash.\<close>

lemma liveToken_valid:
  "ValidateWhere (liveToken p h now) b =
     Inr [Eq ''identifier'' (VStr p), Eq ''value'' (VStr h), full_cond ''expiresAt'' WhereGT (VTime now)]"
  by (simp add: liveToken_def where_simps)

lemma liveTokenPrefix_valid:
  "ValidateWhere (liveTokenPrefix p h now) b =
     Inr [full_cond ''identifier'' WhereStartsWith (VStr p), Eq ''value'' (VStr h),
          full_cond ''expiresAt'' WhereGT (VTime now)]"
  by (simp add: liveTokenPrefix_def where_simps)

text \<open>Consuming a token with hash \<open>h\<close>: by either predicate, the row goes and none is left.\<close>

definition token_query :: "string \<Rightarrow> Where list \<Rightarrow> bool" where
  "token_query h ws \<longleftrightarrow> (\<exists>p now. ws = liveToken p h now \<or> ws = liveTokenPrefix p h now)"

lemma token_query_simps [simp]:
  "token_query h (liveToken p h now)" "token_query h (liveTokenPrefix p h now)"
  by (auto simp: token_query_def)

lemma token_query_valid:
  assumes "token_query h ws"
  shows "\<exists>w. (\<forall>b. ValidateWhere ws b = Inr w) \<and> (\<forall>r. matches r w \<longrightarrow> fld r ''value'' = VStr h)"
proof -
  from assms consider (exact) p now where "ws = liveToken p h now"
    | (pre) p now where "ws = liveTokenPrefix p h now"
    by (auto simp: token_query_def)
  then show ?thesis
    by cases (auto simp: liveToken_valid liveTokenPrefix_valid where_simps)
qed

lemma consume_no_token:
  assumes "mem_inv (Some (rulesFromSchema CoreSchema)) s" and "no_token h (mem_table s)"
    and "token_query h ws"
  shows "db_consumeOne core_db (deleteQ ModelVerification ws) s = (Inr None, s)"
proof -
  obtain w where w: "\<And>b. ValidateWhere ws b = Inr w" "\<And>r. matches r w \<Longrightarrow> fld r ''value'' = VStr h"
    using token_query_valid [OF assms(3)] by blast
  from assms(1) w(1) show ?thesis
  proof (cases rule: core.consume_step [where m = ModelVerification])
    case (ok i r s')
    with w(2) assms(2) show ?thesis by (auto simp: no_token_def)
  qed simp
qed

lemma consume_removes_token:
  assumes "mem_inv (Some (rulesFromSchema CoreSchema)) s" and "token_query h ws"
    and "db_consumeOne core_db (deleteQ ModelVerification ws) s = (Inr (Some r), t)"
  shows "no_token h (mem_table t)"
proof -
  obtain w where w: "\<And>b. ValidateWhere ws b = Inr w" "\<And>r. matches r w \<Longrightarrow> fld r ''value'' = VStr h"
    using token_query_valid [OF assms(2)] by blast
  from assms(1) w(1) show ?thesis
  proof (cases rule: core.consume_step [where m = ModelVerification])
    case (ok i q s')
    have "j = i" if "mem_table s ModelVerification j = Some r'" "fld r' ''value'' = VStr h" for j r'
      using core.row_keys [OF assms(1), of ModelVerification] that ok(1) w(2) [OF ok(2)]
      by (auto dest: keys_uniqueD [where k = "[''value'']"])
    with ok assms(3) show ?thesis by (auto simp: no_token_def)
  qed (use assms(3) in simp)
qed

lemma accepts_fails:
  assumes "core_inv s" and "no_token h (mem_table s)" and "accepts_token c h"
  shows "run_call core_db c s = (Inl ErrReplay, s)"
proof -
  let ?b = "db_begin core_db s"
  have s: "mem_inv (Some (rulesFromSchema CoreSchema)) s" "\<not> mem_in_tx s"
    using assms(1) by (simp_all add: core_inv_def)
  note b = core.begin_law [OF s(1)]
  note q = consume_no_token [OF s(1) assms(2)]
  have q': "db_consumeOne core_db (deleteQ ModelVerification ws) ?b = (Inr None, ?b)"
    if "token_query h ws" for ws
    using b assms(2) that by (intro consume_no_token) simp_all
  note tx = core.transaction_fail [OF s, where t = ?b and e = ErrReplay]
  show ?thesis using assms(3) b
    by (cases c) (simp_all add: accepts_token_def void_def bindM_def ConsumeUserDeletion_def
        ConsumeEmailChange_def ConsumeEmailChangeConfirmation_def ConsumePasswordReset_def
        ConsumeEmailVerification_def ConsumeOAuthState_def q q' fail_def tx)
qed

text \<open>What an accepted token leaves behind, for the calls with and without a transaction.\<close>

lemma K_body_no_token:
  assumes "mem_inv (Some (rulesFromSchema CoreSchema)) s" and "mem_in_tx s = b" and "token_query h ws"
    and "bindM (db_consumeOne core_db (deleteQ ModelVerification ws)) f s = (Inr a, t)"
    and "f None = fail e" and "\<And>r. keeps (tok.K h b) (f (Some r))"
  shows "tok.K h b t"
proof -
  from assms(4) obtain res u where c: "db_consumeOne core_db (deleteQ ModelVerification ws) s = (Inr res, u)"
    and f: "f res u = (Inr a, t)" by (rule bindM_Inr_elim)
  from f assms(5) obtain r where r: "res = Some r" by (cases res) (auto simp: fail_def)
  have "calls.K b u"
    using keepsE [OF calls.K_consume c] token_query_valid [OF assms(3)] assms(1,2)
    by (metis calls.K_def)
  with consume_removes_token [OF assms(1,3)] c r have "tok.K h b u"
    by (simp add: tok.K_def calls.K_def)
  with keepsE [OF assms(6) f [unfolded r]] show ?thesis .
qed

lemma tx_no_token:
  assumes "core_inv s" and "Transaction core_db f s = (Inr a, t)"
    and "\<And>u t'. mem_inv (Some (rulesFromSchema CoreSchema)) u \<Longrightarrow> mem_in_tx u \<Longrightarrow>
       f u = (Inr a, t') \<Longrightarrow> tok.K h True t'"
    and "keeps (calls.K True) f"
  shows "no_token h (mem_table t)"
proof -
  have s: "mem_inv (Some (rulesFromSchema CoreSchema)) s" "\<not> mem_in_tx s"
    using assms(1) by (simp_all add: core_inv_def)
  let ?b = "db_begin core_db s"
  note b = core.begin_law [OF s(1)]
  obtain r t' where f: "f ?b = (r, t')" by fastforce
  have t': "mem_inv (Some (rulesFromSchema CoreSchema)) t'" "mem_in_tx t'"
    using keepsE [OF assms(4) f] b by (simp_all add: calls.K_def)
  show ?thesis
  proof (cases r)
    case (Inl e)
    with core.transaction_fail [OF s _ t', of f e] f assms(2) show ?thesis by simp
  next
    case (Inr a')
    with core.transaction_ok [OF s _ t', of f a'] f assms(2)
    have "mem_table t = mem_table t'" and "a' = a" by (metis Pair_inject sum.inject(2))+
    with assms(3) [of ?b t'] b f Inr show ?thesis by (simp add: tok.K_def)
  qed
qed


lemma tx_body_no_token:
  assumes "core_inv s" and "token_query h ws"
    and "Transaction core_db (bindM (db_consumeOne core_db (deleteQ ModelVerification ws)) f) s = (Inr a, t)"
    and "f None = fail e" and "\<And>r. keeps (tok.K h True) (f (Some r))"
    and "\<And>r. keeps (calls.K True) (f (Some r))"
  shows "no_token h (mem_table t)"
proof (rule tx_no_token [OF assms(1,3)])
  show "tok.K h True t'" if "mem_inv (Some (rulesFromSchema CoreSchema)) u" "mem_in_tx u"
    "bindM (db_consumeOne core_db (deleteQ ModelVerification ws)) f u = (Inr a, t')" for u t'
    using that by (intro K_body_no_token [OF that(1) _ assms(2) that(3) assms(4,5)]) simp
  obtain w where "ValidateWhere ws False = Inr w" using token_query_valid [OF assms(2)] by blast
  then have "keeps (calls.K True) (db_consumeOne core_db (deleteQ ModelVerification ws))"
    by (intro calls.K_consume) simp_all
  moreover have "keeps (calls.K True) (f x)" for x
    using assms(4,6) by (cases x) auto
  ultimately show "keeps (calls.K True) (bindM (db_consumeOne core_db (deleteQ ModelVerification ws)) f)"
    by (intro keeps_bindM)
qed

lemma accepted_email_change:
  assumes "core_inv s" and "ConsumeEmailChange core_db h now s = (Inr a, t)"
  shows "no_token h (mem_table t)"
  by (rule tx_body_no_token [where e = ErrReplay, OF assms(1) token_query_simps(2) assms(2) [unfolded ConsumeEmailChange_def]])
    (simp, simp_all only: option.case Let_def,
      (intro tok.K_rules; simp add: where_simps core_models_def model_defs)[1],
      (intro calls.K_rules; simp add: where_simps core_models_def)[1])

lemma accepted_password_reset:
  assumes "core_inv s" and "ConsumePasswordReset core_db h p now s = (Inr a, t)"
  shows "no_token h (mem_table t)"
  by (rule tx_body_no_token [where e = ErrReplay, OF assms(1) token_query_simps(1) assms(2) [unfolded ConsumePasswordReset_def]])
    (simp, simp_all only: option.case Let_def credentialIdentityWhere_def accountKeyWhere_def,
      (intro tok.K_rules; simp add: where_simps core_models_def model_defs)[1],
      (intro calls.K_rules; simp add: where_simps core_models_def)[1])

text \<open>The calls without a transaction.\<close>

lemmas accept_body =
  K_body_no_token [where b = False and e = ErrReplay, OF _ _ token_query_simps(1)]
  K_body_no_token [where b = False and e = ErrReplay, OF _ _ token_query_simps(2)]

lemma accepted_user_deletion:
  assumes "core_inv s" and "ConsumeUserDeletion core_db h u now s = (Inr a, t)"
  shows "no_token h (mem_table t)"
proof -
  have "tok.K h False t"
    by (rule accept_body(1) [OF _ _ assms(2) [unfolded ConsumeUserDeletion_def]])
      (use assms(1) in \<open>auto simp: core_inv_def intro!: keeps_rules\<close>)
  then show ?thesis by simp
qed

lemma accepted_email_confirmation:
  assumes "core_inv s" and "ConsumeEmailChangeConfirmation core_db h now s = (Inr a, t)"
  shows "no_token h (mem_table t)"
proof -
  have "tok.K h False t"
    by (rule accept_body(2) [OF _ _ assms(2) [unfolded ConsumeEmailChangeConfirmation_def]])
      (use assms(1) in \<open>auto simp: core_inv_def Let_def intro!: keeps_rules tok.K_FindUserByID\<close>)
  then show ?thesis by simp
qed

lemma accepted_email_verification:
  assumes "core_inv s" and "ConsumeEmailVerification core_db h now s = (Inr a, t)"
  shows "no_token h (mem_table t)"
proof -
  have "tok.K h False t"
    by (rule accept_body(1) [OF _ _ assms(2) [unfolded ConsumeEmailVerification_def]])
      (use assms(1) in \<open>auto simp: core_inv_def Let_def intro!: keeps_rules tok.K_FindUserByID\<close>)
  then show ?thesis by simp
qed

lemma accepted_oauth_state:
  assumes "core_inv s" and "ConsumeOAuthState core_db h now s = (Inr a, t)"
  shows "no_token h (mem_table t)"
proof -
  have "tok.K h False t"
    by (rule accept_body(1) [OF _ _ assms(2) [unfolded ConsumeOAuthState_def]])
      (use assms(1) in \<open>auto simp: core_inv_def Let_def intro!: keeps_rules\<close>)
  then show ?thesis by simp
qed

lemma void_Inr: "void m s = (Inr (), t) \<longleftrightarrow> (\<exists>a. m s = (Inr a, t))"
  by (auto simp: void_def bindM_def ret_def split: prod.splits sum.splits)

lemma accepted_once:
  assumes "core_inv s" and "run_call core_db c s = (Inr (), t)" and "accepts_token c h"
  shows "no_token h (mem_table t)"
  using assms accepted_email_change accepted_password_reset accepted_user_deletion
    accepted_email_confirmation accepted_email_verification accepted_oauth_state
  by (cases c) (auto simp: accepts_token_def void_Inr)

section \<open>Theorems\<close>

text \<open>
  C1. In every state a store can reach from the empty database by calls of its interface, in any
  order and with any arguments, no two users have the same email, no two sessions the same
  token hash, no two accounts the same provider and account id, no two tokens the same
  hash, and every row is stored under its own id.
\<close>

theorem reachable_unique_keys:
  assumes "store_reachable s"
  shows "(mem_table s ModelUser i = Some r \<longrightarrow> mem_table s ModelUser j = Some q \<longrightarrow>
            fld r ''email'' = VStr e \<longrightarrow> fld q ''email'' = VStr e \<longrightarrow> i = j) \<and>
         (mem_table s ModelSession i = Some r \<longrightarrow> mem_table s ModelSession j = Some q \<longrightarrow>
            fld r ''tokenHash'' = VStr h \<longrightarrow> fld q ''tokenHash'' = VStr h \<longrightarrow> i = j) \<and>
         (mem_table s ModelAccount i = Some r \<longrightarrow> mem_table s ModelAccount j = Some q \<longrightarrow>
            fld r ''providerId'' = VStr p \<longrightarrow> fld q ''providerId'' = VStr p \<longrightarrow>
            fld r ''accountId'' = VStr a \<longrightarrow> fld q ''accountId'' = VStr a \<longrightarrow> i = j) \<and>
         (mem_table s ModelVerification i = Some r \<longrightarrow> mem_table s ModelVerification j = Some q \<longrightarrow>
            fld r ''value'' = VStr v \<longrightarrow> fld q ''value'' = VStr v \<longrightarrow> i = j) \<and>
         (m \<in> set core_models \<longrightarrow> mem_table s m i = Some r \<longrightarrow> fld r ''id'' = VStr i \<and> i \<noteq> '''')"
proof -
  note inv = reachable_inv [OF assms]
  note one = core_unique_row [OF inv, where i = i and j = j and r = r and r' = q]
  show ?thesis
    using one [of ModelUser "[''email'']"] one [of ModelSession "[''tokenHash'']"]
      one [of ModelAccount "[''providerId'', ''accountId'']"] one [of ModelVerification "[''value'']"]
      core.row_has_id [OF core_inv_mem [OF inv], of m i r]
    by auto
qed

theorem reachable_unique_keys_witness:
  "let s = snd (run_call core_db (CallCreateSession (ex_session ''s1'' ''h1'' 10)) empty_mem) in
   store_reachable s \<and> mem_table s ModelSession ''s1'' = Some (sessionRecord (ex_session ''s1'' ''h1'' 10)) \<and>
   fld (sessionRecord (ex_session ''s1'' ''h1'' 10)) ''id'' = VStr ''s1''"
proof -
  let ?c = "CallCreateSession (ex_session ''s1'' ''h1'' 10)"
  let ?s = "snd (run_call core_db ?c empty_mem)"
  have r: "store_reachable ?s"
    by (rule store_reachable.step [OF store_reachable.init, of ?c])
      (simp add: store_step_iff prod_eq_iff)
  moreover have t: "mem_table ?s ModelSession ''s1'' = Some (sessionRecord (ex_session ''s1'' ''h1'' 10))"
    by (simp add: CreateSession_def void_def mem_exec row_exec empty_mem_def mem_table_def cur_rows_def)
  ultimately show ?thesis
    using reachable_unique_keys [OF r, where m = ModelSession and i = "''s1''" and
        r = "sessionRecord (ex_session ''s1'' ''h1'' 10)"]
    by (simp add: Let_def core_models_def)
qed

text \<open>
  C2. Revocation is final. After \<open>RevokeSession\<close> of a stored token hash, whatever calls of the store follow, a
  lookup by that hash gives an error or a session that is marked revoked. Two things are excluded: an
  \<open>UpdateSession\<close> that itself names the revocation mark or the token hash, and a deletion of users
  together with a call that starts a new session under the very same hash.
\<close>

theorem revoked_session_never_live:
  assumes "core_inv s" and "mem_table s ModelSession i = Some r" and "fld r ''tokenHash'' = VStr h"
    and "fld r ''revokedAt'' = nullableTime p"
    and "\<forall>c\<in>set cs. session_safe c"
    and "(\<forall>u. CallDeleteUser u \<notin> set cs) \<or> (\<forall>c\<in>set cs. \<not> starts_session c h)"
    and "SessionByTokenHash core_db h (run_calls core_db (CallRevokeSession h at # cs) s) = (Inr (session, user), t)"
  shows "ss_RevokedAt session \<noteq> None"
proof -
  let ?u = "snd (run_call core_db (CallRevokeSession h at) s)"
  have inv: "core_inv ?u" using run_call_inv [OF assms(1)] .
  have row: "revoked_row h i (mem_table ?u)"
    using revoke_marks [OF assms(1-4)] by simp
  from assms(6) have "core_inv (run_calls core_db cs ?u) \<and> dead_hash h (mem_table (run_calls core_db cs ?u))"
  proof
    assume del: "\<forall>u. CallDeleteUser u \<notin> set cs"
    have "revoke_safe c" if "c \<in> set cs" for c
      using that assms(5) del by (auto simp: revoke_safe_def simp del: in_set_conv_decomp split: store_call.split)
    from run_calls_revoked [OF inv row this] show ?thesis using revoked_dead by blast
  next
    assume "\<forall>c\<in>set cs. \<not> starts_session c h"
    with assms(5) show ?thesis by (intro run_calls_dead [OF inv revoked_dead [OF inv row]]) simp
  qed
  then show ?thesis using dead_lookup [OF _ _ assms(7)] by simp
qed

text \<open>Other sessions of the user are revoked, another user is deleted and a new session is started in between.\<close>

theorem revoked_session_never_live_witness:
  "\<exists>session user t. SessionByTokenHash core_db ''h1''
      (run_calls core_db [CallRevokeSession ''h1'' 50, CallRevokeUserSessions ''u1'' 60, CallDeleteUser ''u9'',
         CallCreateSession (ex_session ''s7'' ''h7'' 70)] ex_state) =
      (Inr (session, user), t) \<and> ss_RevokedAt session \<noteq> None"
proof -
  let ?cs = "[CallRevokeUserSessions ''u1'' 60, CallDeleteUser ''u9'', CallCreateSession (ex_session ''s7'' ''h7'' 70)]"
  let ?s = "run_calls core_db (CallRevokeSession ''h1'' 50 # ?cs) ex_state"
  have "\<exists>session user t. SessionByTokenHash core_db ''h1'' ?s = (Inr (session, user), t)"
    by (simp add: SessionByTokenHash_def FindUserByID_def RevokeSession_def RevokeUserSessions_def
        DeleteUser_def CreateSession_def void_def revokeUpdate_def mem_exec row_exec)
  then obtain session user t where l: "SessionByTokenHash core_db ''h1'' ?s = (Inr (session, user), t)"
    by blast
  have "ss_RevokedAt session \<noteq> None"
    by (rule revoked_session_never_live [where s = ex_state and i = "''s1''" and p = None
        and cs = ?cs and at = 50, OF ex_inv _ _ _ _ _ l])
      (auto simp: session_safe_def starts_session_def ex_session_def)
  with l show ?thesis by blast
qed

text \<open>
  C3. A single-use token is accepted once. When a call that consumes a token has succeeded, then
  after any calls that do not store a token with the same hash every consumption of that
  hash, for whatever purpose and at whatever time, is refused as a replay and changes nothing.
\<close>

theorem token_accepted_once:
  assumes "core_inv s" and "run_call core_db c s = (Inr (), t)" and "accepts_token c h"
    and "\<forall>c\<in>set cs. \<not> puts_token c h" and "accepts_token c' h"
  shows "run_call core_db c' (run_calls core_db cs t) = (Inl ErrReplay, run_calls core_db cs t)"
proof -
  have "core_inv t" using run_call_inv [OF assms(1), of c] assms(2) by simp
  moreover have "no_token h (mem_table t)" by (rule accepted_once [OF assms(1-3)])
  ultimately have "core_inv (run_calls core_db cs t) \<and> no_token h (mem_table (run_calls core_db cs t))"
    using assms(4) by (intro run_calls_no_token) auto
  with assms(5) show ?thesis by (intro accepts_fails) auto
qed

theorem token_accepted_once_witness:
  "\<exists>t. run_call core_db (CallConsumePasswordReset ''k1'' ''new'' 50) ex_state = (Inr (), t) \<and>
       run_call core_db (CallConsumePasswordReset ''k1'' ''other'' 50) t = (Inl ErrReplay, t)"
proof -
  have "\<exists>t. run_call core_db (CallConsumePasswordReset ''k1'' ''new'' 50) ex_state = (Inr (), t)"
    by (simp add: void_def ConsumePasswordReset_def liveToken_def credentialIdentityWhere_def
        accountKeyWhere_def mem_exec row_exec)
  then obtain t where t: "run_call core_db (CallConsumePasswordReset ''k1'' ''new'' 50) ex_state = (Inr (), t)"
    by blast
  with token_accepted_once [OF ex_inv t, where h = "''k1''" and cs = "[]" and
      c' = "CallConsumePasswordReset ''k1'' ''other'' 50"]
  show ?thesis by (auto simp: accepts_token_def)
qed

end
