(* ===== verification/Store_Logic.thy ===== *)
theory Store_Logic
  imports Store_Laws
begin

text \<open>
  Weakest preconditions for the store's methods: \<open>wp m Q E s\<close> says that \<open>m\<close> run in \<open>s\<close> ends
  with a value and a state of \<open>Q\<close>, or with an error and a state of \<open>E\<close>. The rules of the
  adapter's methods are stated on the tables alone, so a method's behaviour follows from its
  text by the rules, on every branch, and the rule of a transaction gives its atomicity: an error
  of the callback ends in the state the transaction began in.
\<close>

section \<open>The calculus\<close>

definition wp :: "('s, 'a) prog \<Rightarrow> ('a \<Rightarrow> 's \<Rightarrow> bool) \<Rightarrow> (go_error \<Rightarrow> 's \<Rightarrow> bool) \<Rightarrow> 's \<Rightarrow> bool" where
  "wp m Q E s \<longleftrightarrow> (case m s of (Inl e, t) \<Rightarrow> E e t | (Inr a, t) \<Rightarrow> Q a t)"

lemma wpD: "wp m Q E s \<Longrightarrow> m s = (Inr a, t) \<Longrightarrow> Q a t"
  and wpE: "wp m Q E s \<Longrightarrow> m s = (Inl e, t) \<Longrightarrow> E e t"
  by (simp_all add: wp_def)

lemma wp_conseq:
  "wp m Q E s \<Longrightarrow> (\<And>a t. Q a t \<Longrightarrow> Q' a t) \<Longrightarrow> (\<And>e t. E e t \<Longrightarrow> E' e t) \<Longrightarrow> wp m Q' E' s"
  by (auto simp: wp_def split: prod.splits sum.splits)

lemma wp_basic [simp]:
  "wp (ret a) Q E = Q a" "wp (fail e) Q E = E e"
  "wp (lift (Inr a)) Q E = Q a" "wp (lift (Inl e)) Q E = E e"
  by (rule ext, simp add: wp_def ret_def fail_def lift_def)+

lemma wp_bindM [simp]: "wp (bindM m f) Q E = wp m (\<lambda>a. wp (f a) Q E) E"
  by (rule ext) (auto simp: wp_def bindM_def split: prod.split sum.split)

lemma wp_tryM [simp]: "wp (tryM m) Q E = wp m (\<lambda>a. Q (Inr a)) (\<lambda>e. Q (Inl e))"
  by (rule ext) (auto simp: wp_def tryM_def split: prod.split sum.split)

text \<open>\<open>if row == nil\<close>, for a row that is there and one that is not.\<close>

lemma if_nil: "(if Some x = None then a else b) = b" "(if None = None then a else b) = a"
  by simp_all

lemma wp_lift: "(\<And>a. r = Inr a \<Longrightarrow> Q a s) \<Longrightarrow> (\<And>e. r = Inl e \<Longrightarrow> E e s) \<Longrightarrow> wp (lift r) Q E s"
  by (cases r) simp_all

context core_store
begin

section \<open>Rules of the adapter's methods\<close>

definition tables :: "'s \<Rightarrow> (string \<Rightarrow> table_map) \<Rightarrow> bool \<Rightarrow> bool" where
  "tables s tb b \<longleftrightarrow> inv s \<and> T s = tb \<and> in_tx s = b"

lemma wp_create:
  assumes "tables s tb b" and "m \<in> set core_models" and "fld d ''id'' = VStr i" and "i \<noteq> ''''"
    and "row_blocked (uniq m) (tb m) i d \<Longrightarrow> E ErrConflict s"
    and "\<And>t. \<not> row_blocked (uniq m) (tb m) i d \<Longrightarrow> tables t (tb(m := (tb m)(i \<mapsto> d))) b \<Longrightarrow> Q d t"
  shows "wp (db_create db (createQ m d)) Q E s"
proof -
  from assms(1) have inv: "inv s" and tb: "T s = tb" "in_tx s = b" by (simp_all add: tables_def)
  from inv assms(2-4) show ?thesis
  proof (cases rule: create_step)
    case conflict
    with tb assms(5) show ?thesis by (simp add: wp_def)
  next
    case (ok t)
    with tb assms(6) [of t] show ?thesis by (simp add: wp_def tables_def)
  qed
qed

lemma wp_create_no_id:
  assumes "tables s tb b" and "m \<in> set core_models" and "\<And>i. fld d ''id'' = VStr i \<Longrightarrow> i = ''''" and "\<And>e. E e s"
  shows "wp (db_create db (createQ m d)) Q E s"
proof -
  from assms(1) have "inv s" by (simp add: tables_def)
  with create_no_id [of s "createQ m d"] assms(2,3) core_idf obtain e where "db_create db (createQ m d) s = (Inl e, s)"
    by auto
  with assms(4) show ?thesis by (simp add: wp_def)
qed

lemma wp_findOne:
  assumes "tables s tb b" and "ValidateWhere ws True = Inr w"
    and "hits (tb m) w = {} \<Longrightarrow> Q None s"
    and "\<And>i r. tb m i = Some r \<Longrightarrow> matches r w \<Longrightarrow> Q (Some r) s"
  shows "wp (db_findOne db (findOneQ m ws)) Q E s"
proof -
  from assms(1) have inv: "inv s" and tb: "T s = tb" by (simp_all add: tables_def)
  from inv assms(2) show ?thesis
    by (cases rule: findOne_step [where m = m]) (use tb assms(3,4) in \<open>auto simp: wp_def\<close>)
qed

lemma wp_findOne_select:
  assumes "tables s tb b" and "fo_Joins q = []" and "ValidateWhere (fo_Where q) True = Inr w"
    and "hits (tb (fo_Model q)) w = {} \<Longrightarrow> Q None s"
    and "\<And>i r. tb (fo_Model q) i = Some r \<Longrightarrow> matches r w \<Longrightarrow> Q (Some (project r (fo_Select q))) s"
  shows "wp (db_findOne db q) Q E s"
proof -
  from assms(1) have inv: "inv s" and tb: "T s = tb" by (simp_all add: tables_def)
  from findOne_law [OF inv assms(2,3)] obtain res where "db_findOne db q s = (Inr res, s)"
    "case res of None \<Rightarrow> hits (T s (fo_Model q)) w = {}
     | Some p \<Rightarrow> \<exists>i r. T s (fo_Model q) i = Some r \<and> matches r w \<and> p = project r (fo_Select q)"
    by blast
  with assms(4,5) tb show ?thesis by (cases res) (auto simp: wp_def)
qed

lemma wp_count:
  assumes "tables s tb b" and "ValidateWhere (ct_Where q) True = Inr w"
    and "\<And>n. 0 \<le> n \<Longrightarrow> n \<le> int (card (hits (tb (ct_Model q)) w)) \<Longrightarrow>
      (n < 1000 \<Longrightarrow> n = int (card (hits (tb (ct_Model q)) w))) \<Longrightarrow> Q n s"
  shows "wp (db_count db q) Q E s"
proof -
  from assms(1) have inv: "inv s" and tb: "T s = tb" by (simp_all add: tables_def)
  from count_law [OF inv assms(2)] tb obtain n where n: "db_count db q s = (Inr n, s)" "0 \<le> n"
    "n \<le> int (card (hits (tb (ct_Model q)) w))"
    "n < 1000 \<longrightarrow> n = int (card (hits (tb (ct_Model q)) w))" by blast
  with assms(3) [of n] show ?thesis by (simp add: wp_def)
qed

lemma wp_findMany:
  assumes "tables s tb b" and "ValidateWhere ws True = Inr w" and "0 \<le> l" and "l \<le> 1000"
    and "\<And>ids rs. distinct ids \<Longrightarrow> set ids \<subseteq> hits (tb m) w \<Longrightarrow> map Some rs = map (tb m) ids \<Longrightarrow>
      int (length ids) \<le> (if l = 0 then 100 else l) \<Longrightarrow>
      (int (length ids) < (if l = 0 then 100 else l) \<Longrightarrow> set ids = hits (tb m) w) \<Longrightarrow> Q rs s"
  shows "wp (db_findMany db (findManyQ m ws l srt)) Q E s"
proof -
  from assms(1) have inv: "inv s" and tb: "T s = tb" by (simp_all add: tables_def)
  obtain ids rs where r: "db_findMany db (findManyQ m ws l srt) s = (Inr rs, s)" "distinct ids"
    "set ids \<subseteq> hits (tb m) w" "map Some rs = map (tb m) ids"
    "int (length ids) \<le> (if l = 0 then 100 else l)"
    "int (length ids) < (if l = 0 then 100 else l) \<longrightarrow> set ids = hits (tb m) w"
    using findMany_law [OF inv, of "findManyQ m ws l srt" w] assms(2-4)
    unfolding query_sel tb Let_def by blast
  with assms(5) [of ids rs] show ?thesis by (simp add: wp_def)
qed

lemma wp_update:
  assumes "tables s tb b" and "m \<in> set core_models" and "ValidateWhere ws False = Inr w"
    and "hits (tb m) w = {} \<Longrightarrow> Q None s"
    and "\<And>i r. tb m i = Some r \<Longrightarrow> matches r w \<Longrightarrow> key_clash (uniq m) (tb m) (set_fields ''id'' u r) i \<Longrightarrow>
      E ErrConflict s"
    and "\<And>i r t. tb m i = Some r \<Longrightarrow> matches r w \<Longrightarrow> \<not> key_clash (uniq m) (tb m) (set_fields ''id'' u r) i \<Longrightarrow>
      tables t (tb(m := (tb m)(i \<mapsto> set_fields ''id'' u r))) b \<Longrightarrow> Q (Some (set_fields ''id'' u r)) t"
  shows "wp (db_update db (updateQ m ws u)) Q E s"
proof -
  from assms(1) have inv: "inv s" and tb: "T s = tb" "in_tx s = b" by (simp_all add: tables_def)
  from inv assms(2,3) show ?thesis
  proof (cases rule: update_step [where u = u])
    case none
    with tb assms(4) show ?thesis by (simp add: wp_def)
  next
    case (conflict i r)
    with tb assms(5) [of i r] show ?thesis by (simp add: wp_def)
  next
    case (ok i r t)
    with tb assms(6) [of i r t] show ?thesis by (simp add: wp_def tables_def)
  qed
qed

lemma wp_update_free:
  assumes "tables s tb b" and "m \<in> set core_models" and "ValidateWhere ws False = Inr w"
    and "key_free (uniq m) u"
    and "hits (tb m) w = {} \<Longrightarrow> Q None s"
    and "\<And>i r t. tb m i = Some r \<Longrightarrow> matches r w \<Longrightarrow>
      tables t (tb(m := (tb m)(i \<mapsto> set_fields ''id'' u r))) b \<Longrightarrow> Q (Some (set_fields ''id'' u r)) t"
  shows "wp (db_update db (updateQ m ws u)) Q E s"
proof -
  from assms(1) have inv: "inv s" and tb: "T s = tb" by (simp_all add: tables_def)
  have "\<not> key_clash (uniq m) (tb m) (set_fields ''id'' u r) i" if "tb m i = Some r" for i r
    using key_free_no_clash [OF row_keys [OF inv] _ assms(4)] that tb by blast
  then show ?thesis
    using assms(5,6) by (intro wp_update [OF assms(1-3)]) blast+
qed

lemma wp_updateMany:
  assumes "tables s tb b" and "m \<in> set core_models" and "ValidateWhere ws False = Inr w"
    and "key_free (uniq m) u"
    and "\<And>n t. tables t (tb(m := (\<lambda>i. case tb m i of None \<Rightarrow> None
           | Some r \<Rightarrow> Some (if matches r w then set_fields ''id'' u r else r)))) b \<Longrightarrow> Q n t"
  shows "wp (db_updateMany db (updateQ m ws u)) Q E s"
proof -
  from assms(1) have inv: "inv s" and tb: "T s = tb" "in_tx s = b" by (simp_all add: tables_def)
  from inv assms(2-4) show ?thesis
  proof (cases rule: updateMany_step)
    case (1 n t)
    with tb assms(5) [of t n] show ?thesis by (simp add: wp_def tables_def)
  qed
qed

lemma wp_delete:
  assumes "tables s tb b" and "ValidateWhere ws False = Inr w"
    and "\<And>t. hits (tb m) w = {} \<Longrightarrow> tables t tb b \<Longrightarrow> Q () t"
    and "\<And>i r t. tb m i = Some r \<Longrightarrow> matches r w \<Longrightarrow> tables t (tb(m := (tb m)(i := None))) b \<Longrightarrow> Q () t"
  shows "wp (db_delete db (deleteQ m ws)) Q E s"
proof -
  from assms(1) have inv: "inv s" and tb: "T s = tb" "in_tx s = b" by (simp_all add: tables_def)
  from inv assms(2) show ?thesis
  proof (cases rule: delete_step [where m = m])
    case (none t)
    with tb assms(3) [of t] show ?thesis by (simp add: wp_def tables_def)
  next
    case (ok i r t)
    with tb assms(4) [of i r t] show ?thesis by (simp add: wp_def tables_def)
  qed
qed

lemma wp_deleteMany:
  assumes "tables s tb b" and "ValidateWhere ws False = Inr w"
    and "\<And>n t. tables t (tb(m := (\<lambda>i. if i \<in> hits (tb m) w then None else tb m i))) b \<Longrightarrow> Q n t"
  shows "wp (db_deleteMany db (deleteQ m ws)) Q E s"
proof -
  from assms(1) have inv: "inv s" and tb: "T s = tb" "in_tx s = b" by (simp_all add: tables_def)
  from inv assms(2) show ?thesis
  proof (cases rule: deleteMany_step [where m = m])
    case (1 n t)
    then show ?thesis using assms(3) [of t n] tb
      unfolding wp_def tables_def by (simp only: tb split: prod.split)
        simp
  qed
qed

lemma wp_consume:
  assumes "tables s tb b" and "ValidateWhere ws False = Inr w"
    and "hits (tb m) w = {} \<Longrightarrow> Q None s"
    and "\<And>i r t. tb m i = Some r \<Longrightarrow> matches r w \<Longrightarrow> tables t (tb(m := (tb m)(i := None))) b \<Longrightarrow> Q (Some r) t"
  shows "wp (db_consumeOne db (deleteQ m ws)) Q E s"
proof -
  from assms(1) have inv: "inv s" and tb: "T s = tb" "in_tx s = b" by (simp_all add: tables_def)
  from inv assms(2) show ?thesis
  proof (cases rule: consume_step [where m = m])
    case none
    with tb assms(3) show ?thesis by (simp add: wp_def)
  next
    case (ok i r t)
    with tb assms(4) [of i r t] show ?thesis by (simp add: wp_def tables_def)
  qed
qed

text \<open>
  A transaction: the callback runs on the tables of the state, and its outcome is kept as a
  whole or not at all. The two post-conditions of the callback are folded into constants.
\<close>

definition commits :: "('a \<Rightarrow> 's \<Rightarrow> bool) \<Rightarrow> 'a \<Rightarrow> 's \<Rightarrow> bool" where
  "commits Q a t \<longleftrightarrow> (\<exists>tb. tables t tb True \<and> (\<forall>u. tables u tb False \<longrightarrow> Q a u))"

definition aborts :: "(go_error \<Rightarrow> 's \<Rightarrow> bool) \<Rightarrow> 's \<Rightarrow> go_error \<Rightarrow> 's \<Rightarrow> bool" where
  "aborts E s e t \<longleftrightarrow> (\<exists>tb. tables t tb True) \<and> E e s"

lemma commitsI: "tables t tb True \<Longrightarrow> (\<And>u. tables u tb False \<Longrightarrow> Q a u) \<Longrightarrow> commits Q a t"
  by (auto simp: commits_def)

lemma abortsI: "tables t tb True \<Longrightarrow> E e s \<Longrightarrow> aborts E s e t"
  by (auto simp: aborts_def)

lemma wp_Transaction:
  assumes "tables s tb False"
    and "\<And>t. tables t tb True \<Longrightarrow> wp f (commits Q) (aborts E s) t"
  shows "wp (Transaction db f) Q E s"
proof -
  have s: "inv s" "\<not> in_tx s" and tb: "T s = tb" using assms(1) by (auto simp: tables_def)
  have b: "tables (db_begin db s) tb True" using begin_law [OF s(1)] tb by (simp add: tables_def)
  obtain r t where f: "f (db_begin db s) = (r, t)" by fastforce
  show ?thesis
  proof (cases r)
    case (Inl e)
    with wpE [OF assms(2) [OF b], of e t] f have "inv t" "in_tx t" "E e s" by (auto simp: tables_def aborts_def)
    with transaction_fail [OF s, of f e t] f Inl show ?thesis by (simp add: wp_def)
  next
    case (Inr a)
    with wpD [OF assms(2) [OF b], of a t] f obtain tb' where t: "inv t" "in_tx t" "T t = tb'"
      and Q: "\<And>u. tables u tb' False \<Longrightarrow> Q a u" by (auto simp: tables_def commits_def)
    with transaction_ok [OF s, of f a t] f Inr obtain u where "Transaction db f s = (Inr a, u)"
      "tables u tb' False" by (metis tables_def)
    with Q show ?thesis by (simp add: wp_def)
  qed
qed

end

end
