(* ===== verification/Store_Props.thy ===== *)
theory Store_Props
  imports Store_Safety Store_Logic
begin

text \<open>
  What each method of the store does, on every branch. The lemmas are proved in the contract of
  an adapter on the core schema, so they hold of every adapter that keeps it; the theorems state
  them of the in-memory adapter.
\<close>

section \<open>Tables\<close>

abbreviation put_row :: "string \<Rightarrow> string \<Rightarrow> Record \<Rightarrow> (string \<Rightarrow> table_map) \<Rightarrow> string \<Rightarrow> table_map" where
  "put_row m i d tb \<equiv> tb(m := (tb m)(i \<mapsto> d))"

abbreviation drop_row :: "string \<Rightarrow> string \<Rightarrow> (string \<Rightarrow> table_map) \<Rightarrow> string \<Rightarrow> table_map" where
  "drop_row m i tb \<equiv> tb(m := (tb m)(i := None))"

text \<open>A row with the revocation time set.\<close>

definition revoked_at :: "gtime \<Rightarrow> Record \<Rightarrow> Record" where
  "revoked_at at r = set_fields ''id'' (revokeUpdate at) r"

lemma fld_revoked_at [simp]:
  "fld (revoked_at at r) f =
     (if f = ''revokedAt'' \<or> f = ''updatedAt'' then VTime at else fld r f)"
  by (auto simp: revoked_at_def fld_set_fields revokeUpdate_def)

section \<open>When a new row is refused\<close>

definition session_taken :: "table_map \<Rightarrow> Session \<Rightarrow> bool" where
  "session_taken t se \<longleftrightarrow>
     t (ss_ID se) \<noteq> None \<or> (\<exists>j q. t j = Some q \<and> fld q ''tokenHash'' = VStr (ss_TokenHash se))"

definition user_taken :: "table_map \<Rightarrow> User \<Rightarrow> bool" where
  "user_taken t u \<longleftrightarrow> t (u_ID u) \<noteq> None \<or> (\<exists>j q. t j = Some q \<and> fld q ''email'' = VStr (u_Email u))"

definition credential_taken :: "table_map \<Rightarrow> string \<Rightarrow> bool" where
  "credential_taken t uid \<longleftrightarrow> t (uid @ '':credential'') \<noteq> None \<or>
     (\<exists>j q. t j = Some q \<and> fld q ''providerId'' = VStr credentialProvider \<and> fld q ''accountId'' = VStr uid)"

definition live_row :: "string \<Rightarrow> Record \<Rightarrow> bool" where
  "live_row h r \<longleftrightarrow> fld r ''tokenHash'' = VStr h \<and> fld r ''revokedAt'' = VNil"

definition live_user_row :: "string \<Rightarrow> Record \<Rightarrow> bool" where
  "live_user_row uid r \<longleftrightarrow> fld r ''userId'' = VStr uid \<and> fld r ''revokedAt'' = VNil"

definition revoke_where :: "(Record \<Rightarrow> bool) \<Rightarrow> gtime \<Rightarrow> table_map \<Rightarrow> table_map" where
  "revoke_where P at t =
     (\<lambda>i. case t i of None \<Rightarrow> None | Some r \<Rightarrow> Some (if P r then revoked_at at r else r))"

definition without_user :: "string \<Rightarrow> table_map \<Rightarrow> table_map" where
  "without_user uid t =
     (\<lambda>i. case t i of None \<Rightarrow> None | Some r \<Rightarrow> if fld r ''userId'' = VStr uid then None else Some r)"

definition credential_id :: "string \<Rightarrow> Record \<Rightarrow> bool" where
  "credential_id uid r \<longleftrightarrow> fld r ''providerId'' = VStr credentialProvider \<and> fld r ''accountId'' = VStr uid \<and>
     fld r ''userId'' = VStr uid"

definition credential_of :: "string \<Rightarrow> string \<Rightarrow> Record \<Rightarrow> bool" where
  "credential_of uid ph r \<longleftrightarrow> credential_id uid r \<and> fld r ''password'' = VStr ph"

definition with_password :: "string \<Rightarrow> gtime \<Rightarrow> Record \<Rightarrow> Record" where
  "with_password ph at r = set_fields ''id'' [''password'' \<mapsto> VStr ph, ''updatedAt'' \<mapsto> VTime at] r"

lemma fld_with_password [simp]:
  "fld (with_password ph at r) f =
     (if f = ''password'' then VStr ph else if f = ''updatedAt'' then VTime at else fld r f)"
  by (auto simp: with_password_def fld_set_fields)

text \<open>What a change of password does to the sessions there were.\<close>

definition old_sessions :: "ChangePasswordParams \<Rightarrow> table_map \<Rightarrow> table_map \<Rightarrow> bool" where
  "old_sessions p t old \<longleftrightarrow>
     (if cp_RevokeOtherSessions p
      then old = revoke_where (live_user_row (cp_UserID p)) (ss_CreatedAt (cp_ReplacementSession p)) t
      else \<exists>j q. t j = Some q \<and> live_user_row (cp_UserID p) q \<and> live_row (cp_CurrentTokenHash p) q \<and>
        old = t(j \<mapsto> revoked_at (ss_CreatedAt (cp_ReplacementSession p)) q))"

lemma hits_empty: "hits t w = {} \<longleftrightarrow> (\<forall>i r. t i = Some r \<longrightarrow> \<not> matches r w)"
  by (auto simp: hits_def)

lemma fld_credentialRow [simp]:
  "fld (credentialRow u p c d) ''id'' = VStr (u @ '':credential'')"
  "fld (credentialRow u p c d) ''userId'' = VStr u"
  "fld (credentialRow u p c d) ''providerId'' = VStr credentialProvider"
  "fld (credentialRow u p c d) ''accountId'' = VStr u"
  "fld (credentialRow u p c d) ''password'' = VStr p"
  "fld (credentialRow u p c d) ''updatedAt'' = VTime d"
  by (simp_all add: credentialRow_def)

lemma fld_domainEventRecord [simp]: "fld (domainEventRecord e) ''id'' = VStr (de_ID e)"
  by (simp add: domainEventRecord_def)

lemma fld_auditEventRecord [simp]:
  "fld (auditEventRecord e) ''id'' = VStr (ae_ID e)"
  "fld (auditEventRecord e) ''action'' = VStr (ae_Action e)"
  "fld (auditEventRecord e) ''actorUserId'' = VStr (ae_ActorUserID e)"
  by (simp_all add: auditEventRecord_def)

lemma model_distinct [simp]:
  "ModelUser \<noteq> ModelSession" "ModelUser \<noteq> ModelAccount" "ModelUser \<noteq> ModelVerification"
  "ModelUser \<noteq> ModelOutboxEvent" "ModelUser \<noteq> ModelAuditEvent"
  "ModelSession \<noteq> ModelUser" "ModelSession \<noteq> ModelAccount" "ModelSession \<noteq> ModelVerification"
  "ModelSession \<noteq> ModelOutboxEvent" "ModelSession \<noteq> ModelAuditEvent"
  "ModelAccount \<noteq> ModelUser" "ModelAccount \<noteq> ModelSession" "ModelAccount \<noteq> ModelVerification"
  "ModelAccount \<noteq> ModelOutboxEvent" "ModelVerification \<noteq> ModelUser" "ModelVerification \<noteq> ModelSession"
  "ModelVerification \<noteq> ModelAccount" "ModelOutboxEvent \<noteq> ModelUser" "ModelOutboxEvent \<noteq> ModelSession"
  "ModelOutboxEvent \<noteq> ModelAccount" "ModelAuditEvent \<noteq> ModelSession" "ModelAuditEvent \<noteq> ModelUser"
  by (simp_all add: model_defs)

lemma core_models_mem [simp]:
  "ModelUser \<in> set core_models" "ModelSession \<in> set core_models" "ModelAccount \<in> set core_models"
  "ModelVerification \<in> set core_models" "ModelAuditEvent \<in> set core_models"
  "ModelOutboxEvent \<in> set core_models"
  by (simp_all add: core_models_def)

lemma same_key_str:
  "fld d f = VStr x \<Longrightarrow> sameUniqueKey q d [f] \<longleftrightarrow> fld q f = VStr x"
  "fld d f = VStr x \<Longrightarrow> fld d g = VStr y \<Longrightarrow>
     sameUniqueKey q d [f, g] \<longleftrightarrow> fld q f = VStr x \<and> fld q g = VStr y"
  by auto

context core_store
begin

lemma clash_one_key:
  assumes "tables s tb b"
  shows "key_clash [k] (tb m) d '''' \<longleftrightarrow> (\<exists>j q. tb m j = Some q \<and> sameUniqueKey q d k)"
  using assms row_id [of s m] unfolding key_clash_def tables_def by auto

lemma blocked_session:
  assumes "tables s tb b"
  shows "row_blocked [[''tokenHash'']] (tb m) (ss_ID se) (sessionRecord se) = session_taken (tb m) se"
  unfolding row_blocked_def clash_one_key [OF assms] session_taken_def
  by (simp add: same_key_str del: sameUniqueKey.simps)

lemma blocked_user:
  assumes "tables s tb b"
  shows "row_blocked [[''email'']] (tb m) (u_ID u) (userRecord u) = user_taken (tb m) u"
  unfolding row_blocked_def clash_one_key [OF assms] user_taken_def
  by (simp add: same_key_str del: sameUniqueKey.simps)

lemma blocked_credential:
  assumes "tables s tb b"
  shows "row_blocked [[''providerId'', ''accountId'']] (tb m) (uid @ '':credential'')
     (credentialRow uid p c d) = credential_taken (tb m) uid"
  unfolding row_blocked_def clash_one_key [OF assms] credential_taken_def
  by (simp add: same_key_str del: sameUniqueKey.simps)

lemma blocked_nokeys: "row_blocked [] t i d \<longleftrightarrow> t i \<noteq> None"
  by (simp add: row_blocked_def key_clash_def)

section \<open>Rules of the rows the store writes\<close>

lemma wp_create_session:
  assumes "tables s tb b" and "session_wf se"
    and "session_taken (tb ModelSession) se \<Longrightarrow> E ErrConflict s"
    and "\<And>t. \<not> session_taken (tb ModelSession) se \<Longrightarrow>
      tables t (put_row ModelSession (ss_ID se) (sessionRecord se) tb) b \<Longrightarrow> Q (sessionRecord se) t"
  shows "wp (db_create db (createQ ModelSession (sessionRecord se))) Q E s"
  by (rule wp_create [OF assms(1) core_models_mem(2) fld_sessionRecord(1)])
    (use assms blocked_session [OF assms(1), of ModelSession se] in \<open>simp_all add: session_wf_def\<close>)

lemma wp_create_user:
  assumes "tables s tb b" and "user_wf u"
    and "user_taken (tb ModelUser) u \<Longrightarrow> E ErrConflict s"
    and "\<And>t. \<not> user_taken (tb ModelUser) u \<Longrightarrow>
      tables t (put_row ModelUser (u_ID u) (userRecord u) tb) b \<Longrightarrow> Q (userRecord u) t"
  shows "wp (db_create db (createQ ModelUser (userRecord u))) Q E s"
  by (rule wp_create [OF assms(1) core_models_mem(1) fld_userRecord(1)])
    (use assms blocked_user [OF assms(1), of ModelUser u] in \<open>simp_all add: user_wf_def\<close>)

lemma wp_create_credential:
  assumes "tables s tb b"
    and "credential_taken (tb ModelAccount) uid \<Longrightarrow> E ErrConflict s"
    and "\<And>t. \<not> credential_taken (tb ModelAccount) uid \<Longrightarrow>
      tables t (put_row ModelAccount (uid @ '':credential'') (credentialRow uid p c d) tb) b \<Longrightarrow>
      Q (credentialRow uid p c d) t"
  shows "wp (db_create db (createQ ModelAccount (credentialRow uid p c d))) Q E s"
  by (rule wp_create [OF assms(1) core_models_mem(3) fld_credentialRow(1)])
    (use assms blocked_credential [OF assms(1), of ModelAccount uid] in simp_all)

lemma wp_create_event:
  assumes "tables s tb b" and "de_ID e \<noteq> ''''"
    and "tb ModelOutboxEvent (de_ID e) \<noteq> None \<Longrightarrow> E ErrConflict s"
    and "\<And>t. tb ModelOutboxEvent (de_ID e) = None \<Longrightarrow>
      tables t (put_row ModelOutboxEvent (de_ID e) (domainEventRecord e) tb) b \<Longrightarrow> Q (domainEventRecord e) t"
  shows "wp (db_create db (createQ ModelOutboxEvent (domainEventRecord e))) Q E s"
  by (rule wp_create [OF assms(1) core_models_mem(6) fld_domainEventRecord])
    (use assms in \<open>simp_all add: blocked_nokeys\<close>)

lemma wp_create_audit:
  assumes "tables s tb b" and "ae_ID e \<noteq> ''''"
    and "tb ModelAuditEvent (ae_ID e) \<noteq> None \<Longrightarrow> E ErrConflict s"
    and "\<And>t. tb ModelAuditEvent (ae_ID e) = None \<Longrightarrow>
      tables t (put_row ModelAuditEvent (ae_ID e) (auditEventRecord e) tb) b \<Longrightarrow> Q (auditEventRecord e) t"
  shows "wp (db_create db (createQ ModelAuditEvent (auditEventRecord e))) Q E s"
  by (rule wp_create [OF assms(1) core_models_mem(5) fld_auditEventRecord(1)])
    (use assms in \<open>simp_all add: blocked_nokeys\<close>)

text \<open>The first step of every rotation: the live session of a hash is revoked.\<close>

lemma wp_revoke_live:
  assumes "tables s tb b"
    and "(\<And>i r. tb ModelSession i = Some r \<Longrightarrow> \<not> live_row h r) \<Longrightarrow> Q None s"
    and "\<And>i r t. tb ModelSession i = Some r \<Longrightarrow> live_row h r \<Longrightarrow>
      tables t (put_row ModelSession i (revoked_at at r) tb) b \<Longrightarrow> Q (Some (revoked_at at r)) t"
  shows "wp (db_update db (updateQ ModelSession [Eq ''tokenHash'' (VStr h), Eq ''revokedAt'' VNil]
    (revokeUpdate at))) Q E s"
proof (rule wp_update_free [OF assms(1) core_models_mem(2), where w = "[Eq ''tokenHash'' (VStr h), Eq ''revokedAt'' VNil]"])
  assume "hits (tb ModelSession) [Eq ''tokenHash'' (VStr h), Eq ''revokedAt'' VNil] = {}"
  then show "Q None s"
    by (intro assms(2)) (auto simp: hits_def live_row_def where_simps)
next
  fix i r t
  assume "tb ModelSession i = Some r" "matches r [Eq ''tokenHash'' (VStr h), Eq ''revokedAt'' VNil]"
    "tables t (put_row ModelSession i (set_fields ''id'' (revokeUpdate at) r) tb) b"
  then show "Q (Some (set_fields ''id'' (revokeUpdate at) r)) t"
    using assms(3) [of i r t] by (simp add: live_row_def where_simps revoked_at_def)
qed (simp_all add: where_simps revokeUpdate_def)

lemma session_taken_revoked [simp]:
  assumes "t i = Some r"
  shows "session_taken (t(i \<mapsto> revoked_at at r)) se = session_taken t se" (is "?l = ?r")
proof
  assume ?l
  then show ?r using assms by (fastforce simp: session_taken_def split: if_splits)
next
  assume ?r
  then consider "t (ss_ID se) \<noteq> None" | j q where "t j = Some q" "fld q ''tokenHash'' = VStr (ss_TokenHash se)"
    by (auto simp: session_taken_def)
  then show ?l
  proof cases
    case (2 j q)
    with assms show ?thesis
      by (cases "j = i") (auto simp: session_taken_def intro: exI [of _ j])
  qed (auto simp: session_taken_def)
qed

section \<open>Sessions\<close>

lemma RotateSession_wp:
  assumes s: "tables s tb False" and wf: "session_wf rep"
  shows "wp (RotateSession db h rep)
    (\<lambda>created t. created = rep \<and> \<not> session_taken (tb ModelSession) rep \<and>
      (\<exists>i r. tb ModelSession i = Some r \<and> live_row h r \<and>
        tables t (put_row ModelSession (ss_ID rep) (sessionRecord rep)
          (put_row ModelSession i (revoked_at (ss_CreatedAt rep) r) tb)) False))
    (\<lambda>e t. t = s \<and>
      (e = ErrReplay \<and> (\<forall>i r. tb ModelSession i = Some r \<longrightarrow> \<not> live_row h r) \<or>
       e = ErrConflict \<and> session_taken (tb ModelSession) rep)) s"
  unfolding RotateSession_def
proof (rule wp_Transaction [OF s], simp, rule wp_revoke_live, assumption, goal_cases)
  case (1 t)
  then show ?case by (auto intro: abortsI)
next
  case (2 t i r t')
  note row = 2(2,3) and t' = 2(4)
  show ?case
  proof (simp, rule wp_create_session [OF t' wf], goal_cases)
    case 1
    with t' row show ?case by (auto intro: abortsI)
  next
    case (2 t'')
    with row sessionFromRecord_record [OF wf] show ?case
      by (auto intro!: commitsI [OF 2(2)] exI [of _ i] exI [of _ r])
  qed
qed

lemma RotateSessionWithAudit_wp:
  assumes s: "tables s tb False" and wf: "session_wf se" "ae_ID audit \<noteq> ''''"
  shows "wp (RotateSessionWithAudit db h se audit)
    (\<lambda>created t. created = se \<and> \<not> session_taken (tb ModelSession) se \<and>
      tb ModelAuditEvent (ae_ID audit) = None \<and>
      (\<exists>i r. tb ModelSession i = Some r \<and> live_row h r \<and>
        tables t (put_row ModelAuditEvent (ae_ID audit) (auditEventRecord audit)
          (put_row ModelSession (ss_ID se) (sessionRecord se)
          (put_row ModelSession i (revoked_at (ss_CreatedAt se) r) tb))) False))
    (\<lambda>e t. t = s \<and>
      (e = ErrReplay \<and> (\<forall>i r. tb ModelSession i = Some r \<longrightarrow> \<not> live_row h r) \<or>
       e = ErrConflict \<and> (session_taken (tb ModelSession) se \<or> tb ModelAuditEvent (ae_ID audit) \<noteq> None))) s"
  unfolding RotateSessionWithAudit_def
proof (rule wp_Transaction [OF s], simp, rule wp_revoke_live, assumption, goal_cases)
  case (1 t)
  then show ?case by (auto intro: abortsI)
next
  case (2 t i r t')
  note row = 2(2,3) and t' = 2(4)
  show ?case
  proof (simp, rule wp_create_session [OF t' wf(1)], goal_cases)
    case 1
    with t' row show ?case by (auto intro: abortsI)
  next
    case (2 t'')
    note new = 2
    show ?case
    proof (simp add: sessionFromRecord_record [OF wf(1)], rule wp_create_audit [OF new(2) wf(2)], goal_cases)
      case 1
      with new show ?case by (auto intro!: abortsI [OF new(2)])
    next
      case (2 t3)
      with row new(1) show ?case
        by (auto intro!: commitsI [OF 2(2)] exI [of _ i] exI [of _ r])
    qed
  qed
qed

section \<open>Users\<close>

lemma CreateEmailUser_wp:
  assumes s: "tables s tb False" and wf: "user_wf (ce_User p)" "de_ID (ce_Event p) \<noteq> ''''"
    and se: "ce_CreateSession p \<Longrightarrow> session_wf (ce_Session p)"
  defines "u \<equiv> ce_User p"
  shows "wp (CreateEmailUser db p)
    (\<lambda>created t. created = u \<and> \<not> user_taken (tb ModelUser) u \<and>
      \<not> credential_taken (tb ModelAccount) (u_ID u) \<and>
      tables t (put_row ModelOutboxEvent (de_ID (ce_Event p)) (domainEventRecord (ce_Event p))
        ((if ce_CreateSession p then put_row ModelSession (ss_ID (ce_Session p)) (sessionRecord (ce_Session p)) else (\<lambda>t. t))
        (put_row ModelAccount (u_ID u @ '':credential'')
          (credentialRow (u_ID u) (ce_PasswordHash p) (u_CreatedAt u) (u_UpdatedAt u))
        (put_row ModelUser (u_ID u) (userRecord u) tb)))) False)
    (\<lambda>e t. t = s \<and> e = ErrConflict \<and>
      (user_taken (tb ModelUser) u \<or> credential_taken (tb ModelAccount) (u_ID u) \<or>
       ce_CreateSession p \<and> session_taken (tb ModelSession) (ce_Session p) \<or>
       tb ModelOutboxEvent (de_ID (ce_Event p)) \<noteq> None)) s"
  unfolding CreateEmailUser_def
proof (rule wp_Transaction [OF s], simp split del: if_split, rule wp_create_user [OF _ wf(1)], assumption, goal_cases)
  case (1 t)
  then show ?case by (auto intro: abortsI simp: u_def)
next
  case (2 t t1)
  note user = 2(2,3)
  show ?case
  proof (simp add: userFromRecord_record [OF wf(1)] split del: if_split, rule wp_create_credential [OF user(2)], goal_cases)
    case 1
    then show ?case by (auto intro!: abortsI [OF user(2)] simp: u_def)
  next
    case (2 t2)
    note cred = this
    have event: "wp (db_create db (createQ ModelOutboxEvent (domainEventRecord (ce_Event p))))
       (\<lambda>_. Q) (aborts E s) t3"
      if "tables t3 tb3 True" "tb3 ModelOutboxEvent = tb ModelOutboxEvent"
        "\<And>t. tables t (put_row ModelOutboxEvent (de_ID (ce_Event p)) (domainEventRecord (ce_Event p)) tb3) True \<Longrightarrow> Q t"
        "tb ModelOutboxEvent (de_ID (ce_Event p)) \<noteq> None \<Longrightarrow> E ErrConflict s" for t3 tb3 Q E
      by (rule wp_create_event [OF that(1) wf(2)]) (use that in \<open>auto intro!: abortsI [OF that(1)]\<close>)
    show ?case
    proof (cases "ce_CreateSession p")
      case False
      then show ?thesis using user(1) cred(1)
        by (simp, intro event [OF cred(2)]) (auto intro: commitsI simp: u_def)
    next
      case True
      show ?thesis
      proof (simp add: True, rule wp_create_session [OF cred(2) se [OF True]], goal_cases)
        case 1
        then show ?case using True by (auto intro!: abortsI [OF cred(2)])
      next
        case (2 t3)
        then show ?case using user(1) cred(1) True unfolding wp_basic wp_bindM
          by (intro event [OF 2(2)]) (auto intro: commitsI simp: u_def)
      qed
    qed
  qed
qed

lemma session_taken_revoke_where [simp]:
  "session_taken (revoke_where P at t) se = session_taken t se" (is "?l = ?r")
proof
  assume ?l
  then show ?r by (fastforce simp: session_taken_def revoke_where_def split: option.splits if_splits)
next
  assume ?r
  then consider q where "t (ss_ID se) = Some q" | j q where "t j = Some q" "fld q ''tokenHash'' = VStr (ss_TokenHash se)"
    by (auto simp: session_taken_def)
  then show ?l
  proof cases
    case (2 j q)
    then show ?thesis
      by (cases "P q") (auto simp: session_taken_def revoke_where_def intro: exI [of _ j])
  qed (auto simp: session_taken_def revoke_where_def)
qed

lemma wp_revoke_many:
  assumes "tables s tb b" and "ValidateWhere ws False = Inr w" and "\<And>r. matches r w = P r"
    and "\<And>n t. tables t (tb(ModelSession := revoke_where P at (tb ModelSession))) b \<Longrightarrow> Q n t"
  shows "wp (db_updateMany db (updateQ ModelSession ws (revokeUpdate at))) Q E s"
proof (rule wp_updateMany [OF assms(1) core_models_mem(2) assms(2)])
  fix n t
  assume "tables t (tb(ModelSession := (\<lambda>i. case tb ModelSession i of None \<Rightarrow> None
     | Some r \<Rightarrow> Some (if matches r w then set_fields ''id'' (revokeUpdate at) r else r)))) b"
  then show "Q n t"
    unfolding assms(3) by (rule assms(4) [unfolded revoke_where_def revoked_at_def])
qed (simp add: revokeUpdate_def)

lemma RevokeUserSessions_wp:
  assumes "tables s tb b"
  shows "wp (RevokeUserSessions db uid at)
    (\<lambda>_ t. tables t (tb(ModelSession := revoke_where (live_user_row uid) at (tb ModelSession))) b)
    (\<lambda>e t. False) s"
  unfolding RevokeUserSessions_def wp_bindM
  by (rule wp_revoke_many [OF assms, where P = "live_user_row uid"])
    (simp add: where_simps, simp_all add: where_simps live_user_row_def)

lemma RevokeOtherSessions_wp:
  assumes "tables s tb b"
  shows "wp (RevokeOtherSessions db uid sid at)
    (\<lambda>_ t. tables t (tb(ModelSession :=
       revoke_where (\<lambda>r. live_user_row uid r \<and> fld r ''id'' \<noteq> VStr sid) at (tb ModelSession))) b)
    (\<lambda>e t. False) s"
  unfolding RevokeOtherSessions_def wp_bindM
  by (rule wp_revoke_many [OF assms, where P = "\<lambda>r. live_user_row uid r \<and> fld r ''id'' \<noteq> VStr sid"])
    (simp add: where_simps, auto simp: where_simps live_user_row_def)

lemma wp_update_password:
  assumes "tables s tb b" and "ValidateWhere ws False = Inr w"
    and "(\<And>i r. tb ModelAccount i = Some r \<Longrightarrow> \<not> matches r w) \<Longrightarrow> Q None s"
    and "\<And>i r t. tb ModelAccount i = Some r \<Longrightarrow> matches r w \<Longrightarrow>
      tables t (put_row ModelAccount i (with_password ph at r) tb) b \<Longrightarrow> Q (Some (with_password ph at r)) t"
  shows "wp (db_update db (updateQ ModelAccount ws [''password'' \<mapsto> VStr ph, ''updatedAt'' \<mapsto> VTime at])) Q E s"
  by (rule wp_update_free [OF assms(1) core_models_mem(3) assms(2)])
    (use assms(3,4) in \<open>auto simp: hits_empty with_password_def\<close>)

lemma ChangePasswordAndRotate_wp:
  assumes s: "tables s tb False" and wf: "session_wf (cp_ReplacementSession p)"
  defines "rep \<equiv> cp_ReplacementSession p" and "uid \<equiv> cp_UserID p" and "at \<equiv> ss_CreatedAt (cp_ReplacementSession p)"
  shows "wp (ChangePasswordAndRotate db p)
    (\<lambda>created t. created = rep \<and> \<not> session_taken (tb ModelSession) rep \<and>
      (\<exists>i r. tb ModelAccount i = Some r \<and> credential_of uid (cp_PreviousHash p) r \<and>
        (\<exists>old. old_sessions p (tb ModelSession) old \<and>
         tables t (tb(ModelAccount := (tb ModelAccount)(i \<mapsto> with_password (cp_ReplacementHash p) at r),
           ModelSession := old(ss_ID rep \<mapsto> sessionRecord rep))) False)))
    (\<lambda>e t. t = s \<and>
      (e = ErrReplay \<and> ((\<forall>i r. tb ModelAccount i = Some r \<longrightarrow> \<not> credential_of uid (cp_PreviousHash p) r) \<or>
         \<not> cp_RevokeOtherSessions p \<and> (\<forall>j q. tb ModelSession j = Some q \<longrightarrow>
           \<not> (live_user_row uid q \<and> live_row (cp_CurrentTokenHash p) q))) \<or>
       e = ErrConflict \<and> session_taken (tb ModelSession) rep)) s"
    (is "wp _ ?Q ?E s")
  unfolding ChangePasswordAndRotate_def credentialIdentityWhere_def accountKeyWhere_def Let_def append_Cons append_Nil
proof (rule wp_Transaction [OF s], simp only: wp_bindM, rule wp_update_password, assumption, simp add: where_simps, goal_cases)
  case (1 t)
  then show ?case by (auto intro!: abortsI [OF 1(1)] simp: where_simps credential_of_def credential_id_def uid_def)
next
  case (2 t i r t')
  have cred: "tb ModelAccount i = Some r" "credential_of uid (cp_PreviousHash p) r"
    using 2(2,3) by (simp_all add: where_simps credential_of_def credential_id_def uid_def)
  note t' = 2(4)
  have new: "wp (db_create db (createQ ModelSession (sessionRecord rep)))
      (\<lambda>a. wp (lift (sessionFromRecord (Some a))) (commits ?Q) (aborts ?E s)) (aborts ?E s) t2"
    if t2: "tables t2 (tb(ModelAccount := (tb ModelAccount)(i \<mapsto> with_password (cp_ReplacementHash p) at r),
        ModelSession := old)) True"
      and old: "old_sessions p (tb ModelSession) old" for t2 old
  proof -
    have taken: "session_taken old rep = session_taken (tb ModelSession) rep"
      using old by (auto simp: old_sessions_def split: if_splits)
    show ?thesis
    proof (rule wp_create_session [OF t2 wf [folded rep_def]], goal_cases)
      case 1
      with taken show ?case by (intro abortsI [OF t2]) simp
    next
      case (2 u)
      with taken cred old show ?case
        by (simp add: sessionFromRecord_record wf rep_def, intro commitsI [OF 2(2) [unfolded rep_def]])
          (auto simp: rep_def intro!: exI [of _ i] exI [of _ r] exI [of _ old])
    qed
  qed
  show ?case
  proof (cases "cp_RevokeOtherSessions p")
    case True
    show ?thesis
      unfolding if_P [OF True] if_nil wp_bindM wp_basic
      by (rule wp_revoke_many [OF t', where P = "live_user_row uid"], unfold wp_basic rep_def [symmetric])
        (simp add: where_simps, simp add: where_simps live_user_row_def uid_def,
          rule new, simp_all add: True uid_def at_def rep_def old_sessions_def)
  next
    case False
    show ?thesis
      unfolding if_not_P [OF False] if_nil wp_bindM wp_basic
    proof (rule wp_update_free [OF t' core_models_mem(2)], simp add: where_simps, simp add: revokeUpdate_def, goal_cases)
      case 1
      then show ?case using False
        by (auto simp: hits_empty where_simps live_user_row_def live_row_def uid_def intro!: abortsI [OF t'])
    next
      case (2 j q u)
      then show ?case using False unfolding if_nil wp_basic rep_def [symmetric]
        by (intro new [of _ "(tb ModelSession)(j \<mapsto> revoked_at at q)"])
          (auto simp: where_simps live_user_row_def live_row_def uid_def at_def rep_def revoked_at_def
            old_sessions_def intro!: exI [of _ j])
    qed
  qed
qed

end

end
