(* ===== verification/Store_Accounts.thy ===== *)
theory Store_Accounts
  imports Store_Props
begin

text \<open>
  What the store's methods on accounts, users and single-use tokens do, on every branch.
\<close>

section \<open>Rows\<close>

definition account_row :: "string \<Rightarrow> string \<Rightarrow> string \<Rightarrow> Record \<Rightarrow> bool" where
  "account_row uid pid aid r \<longleftrightarrow> fld r ''userId'' = VStr uid \<and> fld r ''providerId'' = VStr pid \<and>
     (aid \<noteq> '''' \<longrightarrow> fld r ''accountId'' = VStr aid)"

text \<open>The accounts of a user.\<close>

definition user_accounts :: "string \<Rightarrow> table_map \<Rightarrow> string set" where
  "user_accounts uid t = {i. \<exists>r. t i = Some r \<and> fld r ''userId'' = VStr uid}"

lemma hits_user: "hits t [Eq ''userId'' (VStr uid)] = user_accounts uid t"
  by (simp add: hits_def user_accounts_def where_simps)

definition other_account :: "string \<Rightarrow> string \<Rightarrow> table_map \<Rightarrow> bool" where
  "other_account uid i t \<longleftrightarrow> (\<exists>j q. j \<noteq> i \<and> t j = Some q \<and> fld q ''userId'' = VStr uid)"

lemma another_account:
  assumes "1 < card (user_accounts uid t)"
  shows "other_account uid i t"
proof -
  have "\<not> user_accounts uid t \<subseteq> {i}"
    using assms card_mono [of "{i}" "user_accounts uid t"] by auto
  then show ?thesis by (auto simp: user_accounts_def other_account_def)
qed

context core_store
begin

lemma tables_id:
  assumes "tables s tb b" and "m \<in> set core_models" and "tb m i = Some r"
  shows "fld r ''id'' = VStr i" and "i \<noteq> ''''" and "recordString r ''id'' = Inr i"
  using row_has_id [of s m i r] assms by (simp_all add: tables_def)

text \<open>A row found by its id is the row under that id.\<close>

lemma tables_by_id:
  assumes "tables s tb b" and "m \<in> set core_models" and "tb m i = Some r" and "fld r ''id'' = VStr j"
  shows "i = j"
  using tables_id [OF assms(1-3)] assms(4) by simp

section \<open>Deleting a user\<close>

lemma wp_delete_of_user:
  assumes "tables s tb b" and "\<And>n t. tables t (tb(m := without_user uid (tb m))) b \<Longrightarrow> Q n t"
  shows "wp (db_deleteMany db (deleteQ m [Eq ''userId'' (VStr uid)])) Q E s"
proof -
  have "(\<lambda>i. if i \<in> hits (tb m) [Eq ''userId'' (VStr uid)] then None else tb m i) = without_user uid (tb m)"
    by (rule ext) (auto simp: without_user_def hits_def where_simps split: option.split)
  with assms(2) show ?thesis
    by (intro wp_deleteMany [OF assms(1), where w = "[Eq ''userId'' (VStr uid)]"]) (simp_all add: where_simps)
qed

lemma DeleteUser_wp:
  assumes s: "tables s tb False"
  shows "wp (DeleteUser db uid)
    (\<lambda>_ t. tables t (tb(ModelSession := without_user uid (tb ModelSession),
      ModelAccount := without_user uid (tb ModelAccount), ModelUser := (tb ModelUser)(uid := None))) False)
    (\<lambda>e t. False) s"
  unfolding DeleteUser_def
proof (rule wp_Transaction [OF s], simp only: wp_bindM, rule wp_delete_of_user, assumption,
    rule wp_delete_of_user, assumption, rule wp_delete, assumption, simp add: where_simps, goal_cases)
  case (1 t _ u _ v w)
  then have "tb ModelUser uid = None"
    using tables_id(1) [OF s core_models_mem(1), of uid] by (cases "tb ModelUser uid") (auto simp: hits_empty where_simps)
  then have "(tb ModelUser)(uid := None) = tb ModelUser" by auto
  then show ?case by (intro commitsI [OF 1(5)]) (simp add: fun_upd_idem)
next
  case (2 t _ u _ v i r w)
  then have "i = uid"
    using tables_by_id [OF s core_models_mem(1), of i r uid] by (simp add: where_simps)
  then show ?case by (intro commitsI [OF 2(6)]) (simp add: fun_upd_twist)
qed

section \<open>Unlinking an account\<close>

lemma wp_guardLastAccount:
  assumes "tables s tb b"
    and "\<not> allow \<Longrightarrow> card (user_accounts uid (tb ModelAccount)) \<le> 1 \<Longrightarrow> E ErrConflict s"
    and "(\<not> allow \<Longrightarrow> 1 < card (user_accounts uid (tb ModelAccount))) \<Longrightarrow> Q () s"
  shows "wp (guardLastAccount db uid allow) Q E s"
proof (cases allow)
  case True
  with assms(3) show ?thesis by (simp add: guardLastAccount_def)
next
  case False
  show ?thesis unfolding guardLastAccount_def if_P [OF False] wp_bindM
    by (rule wp_count [OF assms(1)], simp add: where_simps)
      (use assms(2,3) False in \<open>auto simp: hits_user\<close>)
qed

lemma UnlinkAccount_wp:
  assumes s: "tables s tb False"
  shows "wp (UnlinkAccount db uid pid aid allow)
    (\<lambda>_ t. \<exists>i r. tb ModelAccount i = Some r \<and> account_row uid pid aid r \<and>
      (\<not> allow \<longrightarrow> other_account uid i (tb ModelAccount)) \<and>
      tables t (drop_row ModelAccount i tb) False)
    (\<lambda>e t. t = s \<and>
      (e = ErrConflict \<and> \<not> allow \<and> card (user_accounts uid (tb ModelAccount)) \<le> 1 \<or>
       e = ErrNotFound \<and> (\<forall>i r. tb ModelAccount i = Some r \<longrightarrow> \<not> account_row uid pid aid r))) s"
  unfolding UnlinkAccount_def
proof (rule wp_Transaction [OF s], simp only: wp_bindM Let_def, rule wp_guardLastAccount, assumption, goal_cases)
  case (1 t)
  then show ?case by (auto intro: abortsI)
next
  case (2 t)
  note t = 2
  let ?ws = "[Eq ''userId'' (VStr uid), Eq ''providerId'' (VStr pid)] @
              (if aid \<noteq> '''' then [Eq ''accountId'' (VStr aid)] else [])"
  have v: "ValidateWhere ?ws True = Inr ?ws" and m: "\<And>r. matches r ?ws = account_row uid pid aid r"
    by (auto simp: where_simps account_row_def)
  show ?case
  proof (rule wp_findOne [OF t(1) v], goal_cases)
    case 1
    with t(1) show ?case unfolding hits_empty m by (auto intro: abortsI)
  next
    case (2 i r)
    have r: "account_row uid pid aid r" "recordString r ''id'' = Inr i" "fld r ''id'' = VStr i"
      using 2 m tables_id [OF t(1) core_models_mem(3) 2(1)] by auto
    show ?case
    proof (simp add: r, rule wp_delete [OF t(1)], simp add: where_simps, goal_cases)
      case (1 u)
      with 2(1) r show ?case by (auto simp: hits_empty where_simps account_row_def)
    next
      case (2 j q u)
      then have "j = i" using tables_by_id [OF t(1) core_models_mem(3), of j q i] by (simp add: where_simps)
      with 2 r t(2) \<open>tb ModelAccount i = Some r\<close> show ?case
        by (intro commitsI [OF 2(3)]) (auto intro!: exI [of _ i] exI [of _ r] another_account)
    qed
  qed
qed

lemma UnlinkAccountByID_wp:
  assumes s: "tables s tb False"
  shows "wp (UnlinkAccountByID db uid rid allow)
    (\<lambda>_ t. \<exists>r. tb ModelAccount rid = Some r \<and> fld r ''userId'' = VStr uid \<and>
      (\<not> allow \<longrightarrow> other_account uid rid (tb ModelAccount)) \<and>
      tables t (drop_row ModelAccount rid tb) False)
    (\<lambda>e t. t = s \<and>
      (e = ErrConflict \<and> \<not> allow \<and> card (user_accounts uid (tb ModelAccount)) \<le> 1 \<or>
       e = ErrNotFound \<and> (\<forall>r. tb ModelAccount rid = Some r \<longrightarrow> fld r ''userId'' \<noteq> VStr uid))) s"
  unfolding UnlinkAccountByID_def
proof (rule wp_Transaction [OF s], simp only: wp_bindM, rule wp_guardLastAccount, assumption, goal_cases)
  case (1 t)
  then show ?case by (auto intro: abortsI)
next
  case (2 t)
  note t = 2
  let ?ws = "[Eq ''id'' (VStr rid), Eq ''userId'' (VStr uid)]"
  have m: "matches r ?ws \<longleftrightarrow> i = rid \<and> fld r ''userId'' = VStr uid" if "tb ModelAccount i = Some r" for i r
    using tables_id [OF t(1) core_models_mem(3) that] by (auto simp: where_simps)
  show ?case
  proof (rule wp_findOne_select [OF t(1), where w = ?ws], simp, simp add: where_simps, goal_cases)
    case 1
    with t m show ?case by (auto simp: hits_empty intro!: abortsI)
  next
    case (2 i r)
    then have r: "tb ModelAccount rid = Some r" "fld r ''userId'' = VStr uid" using m [of i r] by simp_all
    show ?case
    proof (simp, rule wp_delete [OF t(1), where w = ?ws], simp add: where_simps, goal_cases)
      case (1 u)
      with m r show ?case by (auto simp: hits_empty)
    next
      case (2 j q u)
      with m r t(2) show ?case
        by (intro commitsI [OF 2(3)]) (auto intro!: another_account)
    qed
  qed
qed

end

end
