(* ===== verification/Store_Tokens.thy ===== *)
theory Store_Tokens
  imports Store_Accounts
begin

text \<open>
  Single-use tokens: what a consumption does when it is accepted, and that a refused one, at
  whatever step, leaves the database as it was; the round trip of an OAuth state.
\<close>

section \<open>Rows\<close>

definition live_token :: "string \<Rightarrow> string \<Rightarrow> gtime \<Rightarrow> Record \<Rightarrow> bool" where
  "live_token p h now r \<longleftrightarrow> fld r ''identifier'' = VStr p \<and> fld r ''value'' = VStr h \<and>
     compare (fld r ''expiresAt'') (VTime now) > 0"

definition live_token_prefix :: "string \<Rightarrow> string \<Rightarrow> gtime \<Rightarrow> Record \<Rightarrow> bool" where
  "live_token_prefix p h now r \<longleftrightarrow> HasPrefix (Sprint (fld r ''identifier'')) p \<and> fld r ''value'' = VStr h \<and>
     compare (fld r ''expiresAt'') (VTime now) > 0"

definition meta :: "Record \<Rightarrow> string \<Rightarrow> string" where
  "meta r k = smap_get (recordStringMap (fld r ''metadata'')) k"

text \<open>The row of a user whose email is changed by a confirmed token.\<close>

definition with_email :: "string \<Rightarrow> gtime \<Rightarrow> Record \<Rightarrow> Record" where
  "with_email e at r = set_fields ''id''
     [''email'' \<mapsto> VStr e, ''emailVerified'' \<mapsto> VBool True, ''updatedAt'' \<mapsto> VTime at] r"

lemma fld_with_email [simp]:
  "fld (with_email e at r) f = (if f = ''email'' then VStr e else if f = ''emailVerified'' then VBool True
     else if f = ''updatedAt'' then VTime at else fld r f)"
  by (auto simp: with_email_def fld_set_fields)

text \<open>The accounts after a password reset.\<close>

definition reset_accounts :: "string \<Rightarrow> string \<Rightarrow> gtime \<Rightarrow> table_map \<Rightarrow> table_map \<Rightarrow> bool" where
  "reset_accounts uid ph at t t' \<longleftrightarrow>
     (\<exists>j q. t j = Some q \<and> credential_id uid q \<and> t' = t(j \<mapsto> with_password ph at q)) \<or>
     \<not> credential_taken t uid \<and> t' = t(uid @ '':credential'' \<mapsto> credentialRow uid ph at at)"

definition oauth_state_wf :: "OAuthState \<Rightarrow> bool" where
  "oauth_state_wf st \<longleftrightarrow> os_ID st \<noteq> '''' \<and> os_ExpiresAt st \<noteq> 0 \<and> os_CreatedAt st \<noteq> 0"

lemma fld_oauthStateRow [simp]:
  "fld (oauthStateRow st) ''id'' = VStr (os_ID st)"
  "fld (oauthStateRow st) ''identifier'' = VStr (purpose_string PurposeOAuthState)"
  "fld (oauthStateRow st) ''value'' = VStr (os_Hash st)"
  "fld (oauthStateRow st) ''expiresAt'' = VTime (os_ExpiresAt st)"
  "fld (oauthStateRow st) ''createdAt'' = VTime (os_CreatedAt st)"
  by (simp_all add: oauthStateRow_def del: purpose_string.simps)

lemma meta_oauthStateRow:
  "meta (oauthStateRow st) ''pkceVerifier'' = os_PKCEVerifier st"
  "meta (oauthStateRow st) ''nonce'' = os_Nonce st"
  "meta (oauthStateRow st) ''redirectURI'' = os_RedirectURI st"
  "meta (oauthStateRow st) ''returnTo'' = os_ReturnTo st"
  "meta (oauthStateRow st) ''errorReturnTo'' = os_ErrorReturnTo st"
  "meta (oauthStateRow st) ''newUserReturnTo'' = os_NewUserReturnTo st"
  "meta (oauthStateRow st) ''linkUserId'' = os_LinkUserID st"
  "meta (oauthStateRow st) ''requestSignUp'' = (if os_RequestSignUp st then ''true'' else ''false'')"
  by (simp_all add: meta_def oauthStateRow_def recordStringMap_def smap_of_def smap_get_def)

context core_store
begin

lemma wp_consume_live:
  assumes "tables s tb b"
    and "(\<And>i r. tb ModelVerification i = Some r \<Longrightarrow> \<not> live_token p h now r) \<Longrightarrow> Q None s"
    and "\<And>i r t. tb ModelVerification i = Some r \<Longrightarrow> live_token p h now r \<Longrightarrow>
      tables t (drop_row ModelVerification i tb) b \<Longrightarrow> Q (Some r) t"
  shows "wp (db_consumeOne db (deleteQ ModelVerification (liveToken p h now))) Q E s"
  by (rule wp_consume [OF assms(1) liveToken_valid])
    (use assms(2,3) in \<open>auto simp: hits_empty where_simps live_token_def\<close>)

lemma wp_consume_live_prefix:
  assumes "tables s tb b"
    and "(\<And>i r. tb ModelVerification i = Some r \<Longrightarrow> \<not> live_token_prefix p h now r) \<Longrightarrow> Q None s"
    and "\<And>i r t. tb ModelVerification i = Some r \<Longrightarrow> live_token_prefix p h now r \<Longrightarrow>
      tables t (drop_row ModelVerification i tb) b \<Longrightarrow> Q (Some r) t"
  shows "wp (db_consumeOne db (deleteQ ModelVerification (liveTokenPrefix p h now))) Q E s"
  by (rule wp_consume [OF assms(1) liveTokenPrefix_valid])
    (use assms(2,3) in \<open>auto simp: hits_empty where_simps live_token_prefix_def\<close>)

text \<open>Reading the user of an id.\<close>

lemma wp_find_user:
  assumes "tables s tb b" and "Q (tb ModelUser uid) s"
  shows "wp (db_findOne db (findOneQ ModelUser [Eq ''id'' (VStr uid)])) Q E s"
proof (rule wp_findOne [OF assms(1), where w = "[Eq ''id'' (VStr uid)]"], simp add: where_simps, goal_cases)
  case 1
  then have "tb ModelUser uid = None"
    using tables_id(1) [OF assms(1) core_models_mem(1), of uid]
    by (cases "tb ModelUser uid") (auto simp: hits_empty where_simps)
  with assms(2) show ?case by simp
next
  case (2 i r)
  then have "i = uid" using tables_by_id [OF assms(1) core_models_mem(1), of i r uid] by (simp add: where_simps)
  with 2 assms(2) show ?case by simp
qed

section \<open>Password reset\<close>

lemma ConsumePasswordReset_wp:
  assumes s: "tables s tb False"
  shows "wp (ConsumePasswordReset db h ph now)
    (\<lambda>u t. \<exists>i r accounts. tb ModelVerification i = Some r \<and>
      live_token (purpose_string PurposePasswordReset) h now r \<and> meta r ''userId'' \<noteq> '''' \<and>
      userFromRecord (tb ModelUser (meta r ''userId'')) = Inr u \<and>
      reset_accounts (meta r ''userId'') ph now (tb ModelAccount) accounts \<and>
      tables t (tb(ModelVerification := (tb ModelVerification)(i := None), ModelAccount := accounts)) False)
    (\<lambda>e t. t = s \<and>
      ((\<forall>i r. tb ModelVerification i = Some r \<longrightarrow>
          \<not> live_token (purpose_string PurposePasswordReset) h now r) \<longrightarrow> e = ErrReplay)) s"
    (is "wp _ ?Q ?E s")
  unfolding ConsumePasswordReset_def
proof (rule wp_Transaction [OF s], simp only: wp_bindM, rule wp_consume_live, assumption, goal_cases)
  case (1 t)
  then show ?case by (auto intro: abortsI)
next
  case (2 t i r t')
  note row = 2(2,3) and t' = 2(4)
  have abort: "aborts ?E s e u" if "tables u tb' True" for e u tb'
    using that row by (auto intro!: abortsI [OF that])
  let ?uid = "meta r ''userId''"
  have user: "wp (db_findOne db (findOneQ ModelUser [Eq ''id'' (VStr ?uid)]))
       (\<lambda>a. wp (lift (userFromRecord a)) (commits ?Q) (aborts ?E s)) (aborts ?E s) u"
    if u: "tables u (tb(ModelVerification := (tb ModelVerification)(i := None), ModelAccount := accounts)) True"
      and acc: "reset_accounts ?uid ph now (tb ModelAccount) accounts" and "?uid \<noteq> ''''" for u accounts
  proof (rule wp_find_user [OF u], rule wp_lift)
    fix a
    assume "userFromRecord ((tb(ModelVerification := (tb ModelVerification)(i := None), ModelAccount := accounts)) ModelUser ?uid) = Inr a"
    then have "userFromRecord (tb ModelUser ?uid) = Inr a" by simp
    with row acc \<open>?uid \<noteq> ''''\<close> show "commits ?Q a u" by (intro commitsI [OF u]) blast
  qed (rule abort [OF u])
  show ?case
  proof (cases "?uid = ''''")
    case True
    show ?thesis unfolding option.case Let_def meta_def [symmetric] if_P [OF True] wp_basic
      by (rule abort [OF t'])
  next
    case False
    show ?thesis
      unfolding option.case Let_def meta_def [symmetric] if_not_P [OF False] wp_bindM
        credentialIdentityWhere_def accountKeyWhere_def append_Cons append_Nil
    proof (rule wp_update_password [OF t'], simp add: where_simps, goal_cases)
      case 1
      show ?case unfolding if_nil wp_bindM
      proof (rule wp_create_credential [OF t'], goal_cases)
        case 1
        show ?case by (rule abort [OF t'])
      next
        case (2 u)
        then show ?case unfolding wp_basic
          by (intro user [of _ "(tb ModelAccount)(?uid @ '':credential'' \<mapsto> credentialRow ?uid ph now now)"])
            (auto simp: reset_accounts_def False)
      qed
    next
      case (2 j q u)
      then show ?case unfolding if_nil wp_basic
        by (intro user [of _ "(tb ModelAccount)(j \<mapsto> with_password ph now q)"])
          (auto simp: reset_accounts_def False credential_id_def where_simps)
    qed
  qed
qed

section \<open>Change of email\<close>

lemma wp_update_email:
  assumes "tables s tb b"
    and "tb ModelUser uid = None \<Longrightarrow> Q None s"
    and "\<And>j q. tb ModelUser j = Some q \<Longrightarrow> j \<noteq> uid \<Longrightarrow> fld q ''email'' = VStr e \<Longrightarrow> E ErrConflict s"
    and "\<And>r t. tb ModelUser uid = Some r \<Longrightarrow>
      (\<And>j q. tb ModelUser j = Some q \<Longrightarrow> fld q ''email'' = VStr e \<Longrightarrow> j = uid) \<Longrightarrow>
      tables t (put_row ModelUser uid (with_email e at r) tb) b \<Longrightarrow> Q (Some (with_email e at r)) t"
  shows "wp (db_update db (updateQ ModelUser [Eq ''id'' (VStr uid)]
    [''email'' \<mapsto> VStr e, ''emailVerified'' \<mapsto> VBool True, ''updatedAt'' \<mapsto> VTime at])) Q E s"
proof (rule wp_update [OF assms(1) core_models_mem(1), where w = "[Eq ''id'' (VStr uid)]"],
    simp add: where_simps, unfold with_email_def [symmetric], goal_cases)
  case 1
  then have "tb ModelUser uid = None"
    using tables_id(1) [OF assms(1) core_models_mem(1), of uid]
    by (cases "tb ModelUser uid") (auto simp: hits_empty where_simps)
  then show ?case by (rule assms(2))
next
  case (2 i r)
  then have "i = uid" using tables_by_id [OF assms(1) core_models_mem(1), of i r uid] by (simp add: where_simps)
  with 2 obtain j q where "tb ModelUser j = Some q" "j \<noteq> uid" "sameUniqueKey q (with_email e at r) [''email'']"
    by (auto simp: key_clash_def)
  then show ?case by (intro assms(3) [of j q]) (auto split: if_splits)
next
  case (3 i r t)
  then have i: "i = uid" using tables_by_id [OF assms(1) core_models_mem(1), of i r uid] by (simp add: where_simps)
  have "j = uid" if "tb ModelUser j = Some q" "fld q ''email'' = VStr e" for j q
    using 3(3) that i same_key_str(1) [of "with_email e at r" "''email''" e q]
    by (auto simp: key_clash_def simp del: sameUniqueKey.simps)
  with 3 i show ?case by (intro assms(4)) auto
qed

lemma ConsumeEmailChange_wp:
  assumes s: "tables s tb False"
  shows "wp (ConsumeEmailChange db h now)
    (\<lambda>(u, returnTo) t. \<exists>i r q. tb ModelVerification i = Some r \<and>
      live_token_prefix (purpose_string PurposeEmailChange @ '':'') h now r \<and>
      tb ModelUser (meta r ''userId'') = Some q \<and>
      userFromRecord (Some (with_email (meta r ''newEmail'') now q)) = Inr u \<and> returnTo = meta r ''returnTo'' \<and>
      (\<forall>j q'. tb ModelUser j = Some q' \<longrightarrow> fld q' ''email'' = VStr (meta r ''newEmail'') \<longrightarrow> j = meta r ''userId'') \<and>
      tables t (tb(ModelVerification := (tb ModelVerification)(i := None),
        ModelUser := (tb ModelUser)(meta r ''userId'' \<mapsto> with_email (meta r ''newEmail'') now q))) False)
    (\<lambda>e t. t = s \<and>
      ((\<forall>i r. tb ModelVerification i = Some r \<longrightarrow>
          \<not> live_token_prefix (purpose_string PurposeEmailChange @ '':'') h now r) \<longrightarrow> e = ErrReplay)) s"
    (is "wp _ ?Q ?E s")
  unfolding ConsumeEmailChange_def
proof (rule wp_Transaction [OF s], simp only: wp_bindM, rule wp_consume_live_prefix, assumption, goal_cases)
  case (1 t)
  then show ?case by (auto intro: abortsI)
next
  case (2 t i r t')
  note row = 2(2,3) and t' = 2(4)
  let ?uid = "meta r ''userId''" and ?e = "meta r ''newEmail''"
  have abort: "aborts ?E s e u" if "tables u tb' True" for e u tb'
    using that row by (auto intro!: abortsI [OF that])
  show ?case
  proof (cases "?uid = '''' \<or> ?e = ''''")
    case True
    show ?thesis unfolding option.case Let_def meta_def [symmetric] if_P [OF True] wp_basic
      by (rule abort [OF t'])
  next
    case False
    show ?thesis unfolding option.case Let_def meta_def [symmetric] if_not_P [OF False] wp_bindM
    proof (rule wp_update_email [OF t'], goal_cases)
      case 1
      show ?case unfolding if_nil wp_basic by (rule abort [OF t'])
    next
      case 2
      show ?case by (rule abort [OF t'])
    next
      case (3 q u)
      show ?case unfolding if_nil wp_bindM
      proof (rule wp_lift)
        fix user
        assume user: "userFromRecord (Some (with_email ?e now q)) = Inr user"
        have q: "tb ModelUser ?uid = Some q" using 3(1) by simp
        have only: "\<forall>j q'. tb ModelUser j = Some q' \<longrightarrow> fld q' ''email'' = VStr ?e \<longrightarrow> j = ?uid"
          using 3(2) by simp
        have "?Q (user, meta r ''returnTo'') v"
          if "tables v (put_row ModelUser ?uid (with_email ?e now q) (drop_row ModelVerification i tb)) False" for v
          unfolding prod.case using row q user only that by (intro exI conjI refl) (assumption | simp)+
        then show "wp (ret (user, meta r ''returnTo'')) (commits ?Q) (aborts ?E s) u"
          unfolding wp_basic by (intro commitsI [OF 3(3)])
      qed (rule abort [OF 3(3)])
    qed
  qed
qed

section \<open>OAuth states\<close>

lemma oauth_state_roundtrip_wp:
  assumes s: "tables s tb b" and wf: "oauth_state_wf st" and now: "now < os_ExpiresAt st"
  shows "wp (PutOAuthState db st)
    (\<lambda>_ t. wp (ConsumeOAuthState db (os_Hash st) now) (\<lambda>st' u. st' = st \<and> tables u tb b) (\<lambda>_ _. False) t)
    (\<lambda>e t. t = s \<and> e = ErrConflict) s"
  unfolding PutOAuthState_def wp_bindM
proof (rule wp_create [OF s core_models_mem(4) fld_oauthStateRow(1)], goal_cases)
  case (3 t)
  then have fresh: "tb ModelVerification (os_ID st) = None" "\<not> key_clash [[''value'']] (tb ModelVerification) (oauthStateRow st) ''''"
    by (simp_all add: row_blocked_def)
  have old: "\<And>j q. tb ModelVerification j = Some q \<Longrightarrow> fld q ''value'' \<noteq> VStr (os_Hash st)"
    using fresh(2) unfolding clash_one_key [OF s] by (auto simp: same_key_str simp del: sameUniqueKey.simps)
  have gone: "(tb ModelVerification)(os_ID st := None) = tb ModelVerification" using fresh(1) by auto
  show ?case unfolding wp_basic ConsumeOAuthState_def wp_bindM
  proof (rule wp_consume_live [OF 3(2)], goal_cases)
    case 1
    from 1 [of "os_ID st" "oauthStateRow st"] now show ?case
      by (simp add: live_token_def compare_time del: purpose_string.simps)
  next
    case (2 i r u)
    with old have r: "i = os_ID st" "r = oauthStateRow st"
      by (auto simp: live_token_def split: if_splits simp del: purpose_string.simps)
    with 2(3) gone have u: "tables u tb b" by simp
    show ?case
      unfolding option.case Let_def meta_def [symmetric] r wp_bindM
      using wf u by (simp add: oauth_state_wf_def meta_oauthStateRow del: purpose_string.simps)
  qed
qed (use wf in \<open>simp_all add: oauth_state_wf_def\<close>)

end

end
