(* ===== verification/Store_OAuth.thy ===== *)
theory Store_OAuth
  imports Store_Tokens
begin

text \<open>
  Sign-in with a provider's profile: to whom the store hands the new session. The contract of
  an adapter gives the trivial stable property, so the writes whose details do not matter are
  passed with the lemmas of \<open>Store_Keeps\<close>.
\<close>

sublocale core_store \<subseteq> any: table_property db T inv in_tx uniq idf "\<lambda>_. True" "\<lambda>_ _. True" "\<lambda>_ _. True" "\<lambda>_. True"
  by unfold_locales simp_all

section \<open>Who owns a profile\<close>

text \<open>The account of the profile: by its id, or by the id the provider used before.\<close>

definition profile_account :: "OAuthProfile \<Rightarrow> Record \<Rightarrow> bool" where
  "profile_account p r \<longleftrightarrow> fld r ''providerId'' = VStr (op_Provider p) \<and>
     (fld r ''accountId'' = VStr (op_ProviderAccountID p) \<or>
      TrimSpace (op_PreviousProviderAccountID p) \<noteq> '''' \<and>
      fld r ''accountId'' = VStr (TrimSpace (op_PreviousProviderAccountID p)))"

definition linked_to :: "(string \<Rightarrow> table_map) \<Rightarrow> OAuthProfile \<Rightarrow> string \<Rightarrow> bool" where
  "linked_to tb p uid \<longleftrightarrow>
     (\<exists>i r. tb ModelAccount i = Some r \<and> profile_account p r \<and> fld r ''userId'' = VStr uid)"

text \<open>An existing user the policy lets the profile be linked to.\<close>

definition may_link :: "(string \<Rightarrow> table_map) \<Rightarrow> OAuthProfile \<Rightarrow> OAuthUpsertPolicy \<Rightarrow> string \<Rightarrow> bool" where
  "may_link tb p policy uid \<longleftrightarrow> pol_AllowImplicitLink policy \<and>
     (\<exists>r. tb ModelUser uid = Some r \<and> fld r ''email'' = VStr (op_Email p) \<and>
        (pol_RequireLocalVerification policy \<longrightarrow> fld r ''emailVerified'' = VBool True))"

definition no_email :: "(string \<Rightarrow> table_map) \<Rightarrow> string \<Rightarrow> bool" where
  "no_email tb e \<longleftrightarrow> (\<forall>i r. tb ModelUser i = Some r \<longrightarrow> fld r ''email'' \<noteq> VStr e)"

text \<open>The user of a profile without an account, new or found by email.\<close>

definition chosen_user ::
  "(string \<Rightarrow> table_map) \<Rightarrow> OAuthProfile \<Rightarrow> Session \<Rightarrow> OAuthUpsertPolicy \<Rightarrow> User \<times> bool \<Rightarrow> bool" where
  "chosen_user tb p se policy x \<longleftrightarrow>
     (if snd x then pol_AllowSignUp policy \<and> no_email tb (op_Email p) \<and> fst x = upsertNewUser p se
      else may_link tb p policy (u_ID (fst x)))"

context core_store
begin

lemma any_K: "any.K b s \<longleftrightarrow> inv s \<and> in_tx s = b"
  by (simp add: any.K_def)

lemma tables_K: "tables s tb b \<Longrightarrow> any.K b s" and K_tables: "any.K b s \<Longrightarrow> tables s (T s) b"
  by (simp_all add: any_K tables_def)

lemma wp_K:
  assumes "keeps (any.K b) m" and "any.K b s"
    and "\<And>a t. any.K b t \<Longrightarrow> Q a t" and "\<And>e t. any.K b t \<Longrightarrow> E e t"
  shows "wp m Q E s"
  using keepsD [OF assms(1,2)] assms(3,4) by (auto simp: wp_def split: prod.split sum.split)

section \<open>Finding the account\<close>

lemma wp_FindAccountByKey:
  assumes s: "tables s tb b"
    and "(\<And>i r. tb ModelAccount i = Some r \<Longrightarrow> \<not> (fld r ''providerId'' = VStr pid \<and> fld r ''accountId'' = VStr aid)) \<Longrightarrow> Q None s"
    and "\<And>i r. tb ModelAccount i = Some r \<Longrightarrow> fld r ''providerId'' = VStr pid \<Longrightarrow> fld r ''accountId'' = VStr aid \<Longrightarrow> Q (Some r) s"
  shows "wp (FindAccountByKey db pid aid) Q E s"
  unfolding FindAccountByKey_def wp_bindM accountKeyWhere_def
proof (rule wp_findMany [OF s], simp add: where_simps, simp, simp, goal_cases)
  case (1 ids rs)
  note r = this
  have one: "i = j" if ij: "i \<in> set ids" "j \<in> set ids" for i j
  proof -
    obtain q q' where q: "tb ModelAccount i = Some q" "tb ModelAccount j = Some q'"
      "matches q [Eq ''providerId'' (VStr pid), Eq ''accountId'' (VStr aid)]"
      "matches q' [Eq ''providerId'' (VStr pid), Eq ''accountId'' (VStr aid)]"
      using subsetD [OF r(2) ij(1)] subsetD [OF r(2) ij(2)] by (auto simp: hits_def)
    have "keys_unique (uniq ModelAccount) (tb ModelAccount)"
      using s row_keys [of s ModelAccount] by (simp add: tables_def)
    from keys_uniqueD [OF this q(1,2), of "[''providerId'', ''accountId'']"] q(3,4)
    show ?thesis by (simp add: where_simps)
  qed
  have len: "length ids = length rs" using arg_cong [OF r(3), of length] by simp
  have "card (set ids) \<le> Suc 0"
    using one by (subst card_le_Suc0_iff_eq) auto
  then have "length ids \<le> 1" using distinct_card [OF r(1)] by simp
  then consider "ids = []" "rs = []" | i q where "ids = [i]" "rs = [q]" "tb ModelAccount i = Some q"
    using len r(3) by (cases ids; cases rs) auto
  then show ?case
  proof cases
    case 1
    with r(5) have "hits (tb ModelAccount) [Eq ''providerId'' (VStr pid), Eq ''accountId'' (VStr aid)] = {}" by simp
    with 1 assms(2) show ?thesis by (auto simp: hits_empty where_simps)
  next
    case (2 i q)
    with r(2) assms(3) [of i q] show ?thesis by (auto simp: hits_def where_simps)
  qed
qed

lemma findProfileAccount_wp:
  assumes s: "tables s tb b"
  shows "wp (findProfileAccount db p now)
    (\<lambda>a t. any.K b t \<and> (case a of
        None \<Rightarrow> tables t tb b
      | Some row \<Rightarrow> \<exists>i r. tb ModelAccount i = Some r \<and> profile_account p r \<and> fld row ''userId'' = fld r ''userId''))
    (\<lambda>_ t. any.K b t) s"
  unfolding findProfileAccount_def wp_bindM
proof (rule wp_FindAccountByKey [OF s], goal_cases)
  case (2 i r)
  with tables_K [OF s] show ?case by (auto simp: profile_account_def)
next
  case 1
  let ?prev = "TrimSpace (op_PreviousProviderAccountID p)"
  show ?case
  proof (cases "?prev = '''' \<or> ?prev = op_ProviderAccountID p")
    case True
    show ?thesis unfolding option.case Let_def if_P [OF True] using s tables_K [OF s] by simp
  next
    case False
    show ?thesis unfolding option.case Let_def if_not_P [OF False] wp_bindM
    proof (rule wp_FindAccountByKey [OF s], goal_cases)
      case 1
      show ?case using s tables_K [OF s] by simp
    next
      case (2 i r)
      note r = this
      have i: "recordString r ''id'' = Inr i" "fld r ''id'' = VStr i"
        using tables_id [OF s core_models_mem(3) r(1)] by simp_all
      show ?case unfolding option.case i wp_bindM wp_basic
      proof (rule wp_update [OF s core_models_mem(3)], simp add: where_simps, goal_cases)
        case 1
        then show ?case using tables_K [OF s] by simp
      next
        case 2
        show ?case using tables_K [OF s] .
      next
        case (3 j q t)
        with tables_by_id [OF s core_models_mem(3) 3(1), of i] r False tables_K [OF 3(4)] show ?case
          by (auto simp: where_simps profile_account_def fld_set_fields)
      qed
    qed
  qed
qed

section \<open>The user of a sign-in\<close>

lemma wp_update_user:
  assumes "any.K b s"
  shows "wp (db_update db (updateQ ModelUser [Eq ''id'' (VStr uid)] u))
    (\<lambda>row. wp (lift (userFromRecord row)) (\<lambda>v t. any.K b t \<and> u_ID v = uid) (\<lambda>_ t. any.K b t)) (\<lambda>_ t. any.K b t) s"
proof (rule wp_update [OF K_tables [OF assms] core_models_mem(1)], simp add: where_simps, goal_cases)
  case 1
  then show ?case using assms by (simp add: userFromRecord_def)
next
  case 2
  then show ?case using assms by simp
next
  case (3 i r t)
  then have "fld (set_fields ''id'' u r) ''id'' = VStr uid" by (simp add: where_simps fld_set_fields)
  then show ?case using tables_K [OF 3(4)]
    by (intro wp_lift) (auto dest!: userFromRecord_Inr)
qed

lemma verifyMatchingEmail_wp:
  assumes "any.K b s"
  shows "wp (verifyMatchingEmail db p at user) (\<lambda>v t. any.K b t \<and> u_ID v = u_ID user) (\<lambda>_ t. any.K b t) s"
  unfolding verifyMatchingEmail_def using wp_update_user [OF assms] assms by simp

lemma upsertExisting_wp:
  assumes "any.K b s"
  shows "wp (upsertExisting db p tokens at policy account)
    (\<lambda>user t. any.K b t \<and> fld account ''userId'' = VStr (u_ID user)) (\<lambda>_ t. any.K b t) s"
  unfolding upsertExisting_def wp_bindM
proof (rule wp_lift, goal_cases)
  case (1 uid)
  then have uid: "fld account ''userId'' = VStr uid" by (simp add: recordString_Inr)
  show ?case
  proof (rule wp_find_user [OF K_tables [OF assms]], rule wp_lift, goal_cases)
    case (1 user)
    then have user: "u_ID user = uid"
      using tables_id(1) [OF K_tables [OF assms] core_models_mem(1)]
      by (cases "T s ModelUser uid") (auto dest!: userFromRecord_Inr simp: userFromRecord_def [of None])
    show ?case
    proof (rule wp_K [OF _ assms])
      show "keeps (any.K b) (if pol_UpdateAccountOnSignIn policy then
         (let tokens = tokens\<lparr>pt_Scope := mergeOAuthScopes (optionalString (fld account ''scope'')) (pt_Scope tokens)\<rparr> in
          bindM (lift (recordString account ''id'')) (\<lambda>accountID.
          bindM (db_update db (updateQ ModelAccount [Eq ''id'' (VStr accountID), Eq ''userId'' (VStr (u_ID user))]
            (tokenFields tokens at))) (\<lambda>_. ret ())))
       else ret ())"
        unfolding Let_def by (intro any.K_rules) (simp_all add: where_simps)
    next
      fix a t
      assume "any.K b t"
      from verifyMatchingEmail_wp [OF this] show "wp (verifyMatchingEmail db p at user)
        (\<lambda>user t. any.K b t \<and> fld account ''userId'' = VStr (u_ID user)) (\<lambda>_ t. any.K b t) t"
        by (rule wp_conseq) (auto simp: uid user)
    qed
  qed (use assms in auto)
qed (use assms in auto)

text \<open>The branch of \<open>UpsertOAuthUser\<close> that has found no account.\<close>

lemma upsertUserInfo_wp:
  assumes "any.K b s"
  shows "wp (upsertUserInfo db p at policy user isNew) (\<lambda>v t. any.K b t \<and> u_ID v = u_ID user)
    (\<lambda>_ t. any.K b t) s"
  unfolding upsertUserInfo_def Let_def using wp_update_user [OF assms, of "u_ID user"] assms by simp

lemma upsertUser_wp:
  assumes s: "tables s tb b"
  shows "wp (upsertUser db p se event policy)
    (\<lambda>x t. any.K b t \<and> chosen_user tb p se policy x) (\<lambda>_ t. any.K b t) s" (is "wp _ ?Q ?E s")
proof -
  have K: "any.K b s" by (rule tables_K [OF s])
  show ?thesis unfolding upsertUser_def Let_def wp_bindM wp_tryM
  proof (rule wp_findOne [OF s], simp add: where_simps, goal_cases)
    case 1
    then have fresh: "no_email tb (op_Email p)" by (auto simp: hits_empty where_simps no_email_def)
    show ?case
    proof (cases "pol_AllowSignUp policy")
      case True
      have "keeps (any.K b) (db_create db (createQ m d))" if "m \<in> set core_models" for m d
        using that by (intro any.K_create) simp_all
      with True fresh K show ?thesis
        by (auto simp: chosen_user_def intro!: wp_K)
    qed (use K in simp)
  next
    case (2 i r)
    have "chosen_user tb p se policy (user, False)" if "userFromRecord (Some r) = Inr user"
      "pol_AllowImplicitLink policy" "pol_RequireLocalVerification policy \<Longrightarrow> u_EmailVerified user" for user
      using userFromRecord_Inr [OF that(1)] that(2,3) 2 tables_id(1) [OF s core_models_mem(1) 2(1)]
      by (auto simp: chosen_user_def may_link_def where_simps optionalBool_def split: val.splits)
    with K show ?case by (auto intro!: wp_lift)
  qed
qed

lemma upsertMissing_wp:
  assumes s: "tables s tb b"
  shows "wp (upsertMissing db p tokens se event policy)
    (\<lambda>x t. any.K b t \<and> chosen_user tb p se policy x) (\<lambda>_ t. any.K b t) s" (is "wp _ ?Q ?E s")
  unfolding upsertMissing_def Let_def wp_bindM
proof (rule wp_conseq [OF upsertUser_wp [OF s]], clarify, unfold prod.case wp_bindM)
  fix user isNew t
  assume t: "any.K b t" and c: "chosen_user tb p se policy (user, isNew)"
  have c': "chosen_user tb p se policy (v, isNew)" if "u_ID v = u_ID user" "isNew \<Longrightarrow> v = user" for v
    using c that by (auto simp: chosen_user_def)
  show "wp (db_create db (createQ ModelAccount
      (oauthAccountRow (de_ID event @ '':account'') (u_ID user) p tokens (ss_CreatedAt se))))
      (\<lambda>a. wp (if \<not> isNew then verifyMatchingEmail db p (ss_CreatedAt se) user else ret user)
        (\<lambda>user. wp (upsertUserInfo db p (ss_CreatedAt se) policy user isNew)
          (\<lambda>user. wp (ret (user, isNew)) ?Q ?E) ?E) ?E) ?E t"
  proof (rule wp_K [OF any.K_create t], simp_all only: core_models_mem, goal_cases)
    case (1 a t1)
    show ?case
    proof (cases isNew)
      case True
      with 1 c show ?thesis by (simp add: upsertUserInfo_def)
    next
      case False
      then have c2: "chosen_user tb p se policy (v, False)" if "u_ID v = u_ID user" for v
        using c' [OF that] by simp
      show ?thesis unfolding if_P [OF False] wp_basic
        by (rule wp_conseq [OF verifyMatchingEmail_wp [OF 1]])
          (auto intro!: wp_conseq [OF upsertUserInfo_wp] c2 simp: False)
    qed
  qed
qed simp

lemma UpsertOAuthUser_wp:
  assumes s: "tables s tb False"
  shows "wp (UpsertOAuthUser db p tokens se event policy)
    (\<lambda>(user, created, isNew) t. any.K False t \<and> ss_UserID created = u_ID user \<and>
      (\<not> isNew \<and> linked_to tb p (u_ID user) \<or> chosen_user tb p se policy (user, isNew)))
    (\<lambda>e t. t = s) s" (is "wp _ ?Q ?E s")
  unfolding UpsertOAuthUser_def
proof (rule wp_Transaction [OF s])
  fix t
  assume t: "tables t tb True"
  have abort: "aborts ?E s e u" if "any.K True u" for e u
    using K_tables [OF that] by (rule abortsI) simp
  have new: "wp (db_create db (createQ ModelSession (sessionRecord (se\<lparr>ss_UserID := u_ID user\<rparr>))))
      (\<lambda>row. wp (lift (sessionFromRecord (Some row))) (\<lambda>created. commits ?Q (user, created, isNew)) (aborts ?E s)) (aborts ?E s) u"
    if u: "any.K True u" and ok: "\<not> isNew \<and> linked_to tb p (u_ID user) \<or> chosen_user tb p se policy (user, isNew)"
    for u user isNew
  proof (cases "ss_ID se = ''''")
    case True
    show ?thesis
      by (rule wp_create_no_id [OF K_tables [OF u] core_models_mem(2)]) (auto simp: True intro: abort [OF u])
  next
    case False
    show ?thesis
    proof (rule wp_create [OF K_tables [OF u] core_models_mem(2) fld_sessionRecord(1)], goal_cases)
      case 1
      then show ?case using False by simp
    next
      case 2
      show ?case by (rule abort [OF u])
    next
      case (3 v)
      show ?case
      proof (rule wp_lift)
        fix created
        assume "sessionFromRecord (Some (sessionRecord (se\<lparr>ss_UserID := u_ID user\<rparr>))) = Inr created"
        then have "ss_UserID created = u_ID user" by (auto dest!: sessionFromRecord_Inr)
        with ok show "commits ?Q (user, created, isNew) v"
          by (intro commitsI [OF 3(2)]) (auto intro: tables_K)
      qed (rule abort [OF tables_K [OF 3(2)]])
    qed
  qed
  show "wp (bindM (findProfileAccount db p (ss_CreatedAt se)) (\<lambda>account.
     bindM (case account of
         Some row \<Rightarrow> bindM (upsertExisting db p tokens (ss_CreatedAt se) policy row) (\<lambda>user. ret (user, False))
       | None \<Rightarrow> upsertMissing db p tokens se event policy) (\<lambda>(user, isNew).
     bindM (db_create db (createQ ModelSession (sessionRecord (se\<lparr>ss_UserID := u_ID user\<rparr>)))) (\<lambda>row.
     bindM (lift (sessionFromRecord (Some row))) (\<lambda>created.
       ret (user, created, isNew)))))) (commits ?Q) (aborts ?E s) t"
    unfolding wp_bindM
  proof (rule wp_conseq [OF findProfileAccount_wp [OF t]], goal_cases)
    case (1 account u)
    show ?case
    proof (cases account)
      case None
      with 1 have u: "tables u tb True" by simp
      show ?thesis unfolding None option.case
        by (rule wp_conseq [OF upsertMissing_wp [OF u]]) (auto intro!: new abort)
    next
      case (Some row)
      with 1 obtain i r where r: "any.K True u" "tb ModelAccount i = Some r" "profile_account p r"
        "fld row ''userId'' = fld r ''userId''" by auto
      have linked: "linked_to tb p (u_ID user)" if "fld row ''userId'' = VStr (u_ID user)" for user
        using r that by (auto simp: linked_to_def)
      show ?thesis unfolding Some option.case wp_bindM wp_basic prod.case
        by (rule wp_conseq [OF upsertExisting_wp [OF r(1)]], rule new) (auto intro: linked abort)
    qed
  qed (rule abort)
qed

end

end
