(* ===== verification/Store_Theorems.thy ===== *)
theory Store_Theorems
  imports Store_OAuth Examples
begin

text \<open>
  The behaviour of the store on the in-memory adapter, stated on the tables of the database
  before and after a call. Each theorem covers every branch of its method; the transactional
  methods end in the state they began in whenever they return an error.
\<close>

lemma core_tables: "core.tables s tb False \<longleftrightarrow> core_inv s \<and> mem_table s = tb"
  by (auto simp: core.tables_def core_inv_def)

lemma ex_session_wf [simp]: "session_wf (ex_session sid h at) \<longleftrightarrow> sid \<noteq> '''' \<and> h \<noteq> '''' \<and> at \<noteq> 0 \<and> at \<noteq> - 1000"
  by (auto simp: session_wf_def ex_session_def)

lemma ex_user_wf [simp]: "user_wf ex_user"
  by (simp add: user_wf_def ex_user_def)

lemma ex_session_sel [simp]:
  "ss_ID (ex_session sid h at) = sid" "ss_UserID (ex_session sid h at) = ''u1''"
  "ss_TokenHash (ex_session sid h at) = h" "ss_CreatedAt (ex_session sid h at) = at"
  "ss_RevokedAt (ex_session sid h at) = None"
  by (simp_all add: ex_session_def)

text \<open>The sessions of the example database.\<close>

lemma ex_live: "\<exists>i r. mem_table ex_state ModelSession i = Some r \<and> live_row ''h1'' r"
  by (rule exI [of _ "''s1''"]) (simp add: live_row_def nullableTime_def)

lemma ex_session_rows:
  assumes "mem_table ex_state ModelSession i = Some r"
  shows "i = ''s1'' \<and> r = sessionRecord (ex_session ''s1'' ''h1'' 10) \<or>
         i = ''s2'' \<and> r = sessionRecord (ex_session ''s2'' ''h2'' 20)"
  using assms by (simp split: if_splits)

lemma ex_taken:
  assumes "ss_ID se = ''s9''" and "ss_TokenHash se = ''h9''"
  shows "\<not> session_taken (mem_table ex_state ModelSession) se"
  unfolding session_taken_def using assms ex_session_rows by fastforce

section \<open>Sessions\<close>

text \<open>
  C20. Rotating a session. On success the session with the old token hash is marked revoked and the
  replacement is the only row that is added; nothing else changes. A hash with no live session is
  refused as a replay, a replacement whose id or hash is taken as a conflict, and then the
  database is as it was: a session is never revoked without its replacement.
\<close>

theorem rotate_session_spec:
  assumes "core_inv s" and "session_wf rep"
  shows "case RotateSession core_db h rep s of
      (Inr created, t) \<Rightarrow> created = rep \<and> core_inv t \<and> \<not> session_taken (mem_table s ModelSession) rep \<and>
        (\<exists>i r. mem_table s ModelSession i = Some r \<and> live_row h r \<and>
          mem_table t = (mem_table s)(ModelSession := (mem_table s ModelSession)
            (i \<mapsto> revoked_at (ss_CreatedAt rep) r, ss_ID rep \<mapsto> sessionRecord rep)))
    | (Inl e, t) \<Rightarrow> t = s \<and>
        (e = ErrReplay \<and> (\<forall>i r. mem_table s ModelSession i = Some r \<longrightarrow> \<not> live_row h r) \<or>
         e = ErrConflict \<and> session_taken (mem_table s ModelSession) rep)"
  using core.RotateSession_wp [of s "mem_table s" rep h] assms
  by (simp add: wp_def core_tables split: prod.splits sum.splits) blast+

theorem rotate_session_spec_witness:
  "\<exists>t. RotateSession core_db ''h1'' (ex_session ''s9'' ''h9'' 50) ex_state = (Inr (ex_session ''s9'' ''h9'' 50), t) \<and>
       core_inv t \<and> mem_table t ModelSession ''s9'' = Some (sessionRecord (ex_session ''s9'' ''h9'' 50))"
  using rotate_session_spec [OF ex_inv, of "ex_session ''s9'' ''h9'' 50" "''h1''"] ex_live
  by (auto simp: ex_taken simp del: ex_tables split: prod.splits sum.splits)

text \<open>
  Impersonation leaves a trace. The rotation that starts or ends an impersonation writes the new
  session and its audit event together: when the call succeeds both rows are there and the old
  session is revoked, and when it fails none of the three has happened.
\<close>

theorem rotate_with_audit_spec:
  assumes "core_inv s" and "session_wf se" and "ae_ID audit \<noteq> ''''"
  shows "case RotateSessionWithAudit core_db h se audit s of
      (Inr created, t) \<Rightarrow> created = se \<and> core_inv t \<and>
        (\<exists>i r. mem_table s ModelSession i = Some r \<and> live_row h r \<and>
          mem_table t = (mem_table s)
            (ModelSession := (mem_table s ModelSession)
               (i \<mapsto> revoked_at (ss_CreatedAt se) r, ss_ID se \<mapsto> sessionRecord se),
             ModelAuditEvent := (mem_table s ModelAuditEvent)(ae_ID audit \<mapsto> auditEventRecord audit)))
    | (Inl e, t) \<Rightarrow> t = s \<and>
        (e = ErrReplay \<and> (\<forall>i r. mem_table s ModelSession i = Some r \<longrightarrow> \<not> live_row h r) \<or>
         e = ErrConflict \<and>
           (session_taken (mem_table s ModelSession) se \<or> mem_table s ModelAuditEvent (ae_ID audit) \<noteq> None))"
  using core.RotateSessionWithAudit_wp [of s "mem_table s" se audit h] assms
  by (simp add: wp_def core_tables split: prod.splits sum.splits) blast+

definition ex_audit :: AuditEvent where
  "ex_audit = \<lparr>ae_ID = ''e1'', ae_SchemaVersion = 1, ae_Action = AuditImpersonationStart, ae_ActorUserID = ''u9'',
     ae_SubjectUserID = ''u1'', ae_SessionID = ''s9'', ae_OccurredAt = 50,
     ae_Request = \<lparr>rm_RequestID = '''', rm_IP = '''', rm_UserAgent = ''''\<rparr>, ae_Details = []\<rparr>"

lemma ex_audit_sel: "ae_ID ex_audit = ''e1''" "mem_table ex_state ModelAuditEvent ''e1'' = None"
  by (simp_all add: ex_audit_def)

theorem rotate_with_audit_spec_witness:
  "\<exists>t. RotateSessionWithAudit core_db ''h1'' (ex_session ''s9'' ''h9'' 50) ex_audit ex_state =
         (Inr (ex_session ''s9'' ''h9'' 50), t) \<and>
       mem_table t ModelAuditEvent ''e1'' = Some (auditEventRecord ex_audit)"
  using rotate_with_audit_spec [OF ex_inv, of "ex_session ''s9'' ''h9'' 50" ex_audit "''h1''"] ex_live
  by (auto simp: ex_taken ex_audit_sel simp del: ex_tables split: prod.splits sum.splits)

text \<open>
  Revoking the sessions of a user, all of them or all but one, always succeeds. It marks
  exactly the live sessions of that user (but for the one with the given id) and changes no other
  row of any table.
\<close>

theorem revoke_sessions_spec:
  assumes "core_inv s"
  shows "(\<exists>t. RevokeUserSessions core_db uid at s = (Inr (), t) \<and> core_inv t \<and>
      mem_table t = (mem_table s)(ModelSession := revoke_where (live_user_row uid) at (mem_table s ModelSession))) \<and>
    (\<exists>t. RevokeOtherSessions core_db uid sid at s = (Inr (), t) \<and> core_inv t \<and>
      mem_table t = (mem_table s)(ModelSession :=
        revoke_where (\<lambda>r. live_user_row uid r \<and> fld r ''id'' \<noteq> VStr sid) at (mem_table s ModelSession)))"
  using core.RevokeUserSessions_wp [of s "mem_table s" False uid at]
    core.RevokeOtherSessions_wp [of s "mem_table s" False uid sid at] assms
  by (auto simp: wp_def core_tables split: prod.splits sum.splits)

theorem revoke_sessions_spec_witness:
  "\<exists>t. RevokeOtherSessions core_db ''u1'' ''s1'' 50 ex_state = (Inr (), t) \<and>
       mem_table t ModelSession ''s1'' = Some (sessionRecord (ex_session ''s1'' ''h1'' 10)) \<and>
       mem_table t ModelSession ''s2'' = Some (revoked_at 50 (sessionRecord (ex_session ''s2'' ''h2'' 20)))"
  using revoke_sessions_spec [OF ex_inv, of "''u1''" 50 "''s1''"]
  by (auto simp: revoke_where_def live_user_row_def nullableTime_def)

section \<open>Users\<close>

text \<open>
  C21. Signing up is all or nothing. \<open>CreateEmailUser\<close> adds the user, its password account, the
  session if one is asked for and the event of the outbox, and nothing else; if one of them is
  refused (the email or an id is taken) the result is a conflict and no row has been added.
\<close>

theorem create_email_user_spec:
  assumes "core_inv s" and "user_wf (ce_User p)" and "de_ID (ce_Event p) \<noteq> ''''"
    and "ce_CreateSession p \<longrightarrow> session_wf (ce_Session p)"
  shows "case CreateEmailUser core_db p s of
      (Inr created, t) \<Rightarrow> created = ce_User p \<and> core_inv t \<and> \<not> user_taken (mem_table s ModelUser) (ce_User p) \<and>
        mem_table t = (mem_table s)
          (ModelUser := (mem_table s ModelUser)(u_ID (ce_User p) \<mapsto> userRecord (ce_User p)),
           ModelAccount := (mem_table s ModelAccount)(u_ID (ce_User p) @ '':credential'' \<mapsto>
             credentialRow (u_ID (ce_User p)) (ce_PasswordHash p) (u_CreatedAt (ce_User p)) (u_UpdatedAt (ce_User p))),
           ModelSession := (if ce_CreateSession p
             then (mem_table s ModelSession)(ss_ID (ce_Session p) \<mapsto> sessionRecord (ce_Session p))
             else mem_table s ModelSession),
           ModelOutboxEvent := (mem_table s ModelOutboxEvent)(de_ID (ce_Event p) \<mapsto> domainEventRecord (ce_Event p)))
    | (Inl e, t) \<Rightarrow> t = s \<and> e = ErrConflict \<and>
        (user_taken (mem_table s ModelUser) (ce_User p) \<or>
         credential_taken (mem_table s ModelAccount) (u_ID (ce_User p)) \<or>
         ce_CreateSession p \<and> session_taken (mem_table s ModelSession) (ce_Session p) \<or>
         mem_table s ModelOutboxEvent (de_ID (ce_Event p)) \<noteq> None)"
  using core.CreateEmailUser_wp [of s "mem_table s" p] assms
  by (cases "ce_CreateSession p")
    (simp_all add: wp_def core_tables fun_upd_idem split: prod.splits sum.splits)

definition ex_params :: CreateEmailUserParams where
  "ex_params = \<lparr>ce_User = ex_user\<lparr>u_ID := ''u2'', u_Email := ''bob@x.io''\<rparr>, ce_PasswordHash = ''ph'',
     ce_Session = (ex_session ''s9'' ''h9'' 50)\<lparr>ss_UserID := ''u2''\<rparr>, ce_CreateSession = True,
     ce_Event = \<lparr>de_ID = ''d1'', de_SchemaVersion = 1, de_Name = EventUserCreated, de_AggregateID = ''u2'',
       de_OccurredAt = 50, de_Payload = []\<rparr>\<rparr>"

theorem create_email_user_spec_witness:
  "\<exists>t. CreateEmailUser core_db ex_params ex_state = (Inr (ce_User ex_params), t) \<and>
       mem_table t ModelUser ''u2'' = Some (userRecord (ce_User ex_params)) \<and>
       mem_table t ModelUser ''u1'' = Some (userRecord ex_user)"
proof -
  have free: "\<not> user_taken (mem_table ex_state ModelUser) (ce_User ex_params)"
    "\<not> session_taken (mem_table ex_state ModelSession) (ce_Session ex_params)"
    by (simp add: user_taken_def ex_params_def ex_user_def, rule ex_taken)
      (simp_all add: ex_params_def)
  have "fld (oauthAccountRow ''a1'' ''u1'' ex_profile ex_tokens 10) ''providerId'' = VStr ''google''"
    by (simp add: oauthAccountRow_def ex_profile_def)
  then have cred: "\<not> credential_taken (mem_table ex_state ModelAccount) (u_ID (ce_User ex_params))"
    by (auto simp: credential_taken_def ex_params_def credentialProvider_def)
  have wf: "user_wf (ce_User ex_params)" "session_wf (ce_Session ex_params)" "de_ID (ce_Event ex_params) = ''d1''"
    "ce_CreateSession ex_params" "u_ID (ce_User ex_params) = ''u2''" "mem_table ex_state ModelOutboxEvent ''d1'' = None"
    "mem_table ex_state ModelUser ''u1'' = Some (userRecord ex_user)"
    by (simp_all add: ex_params_def user_wf_def session_wf_def ex_user_def ex_session_def)
  show ?thesis
    using create_email_user_spec [OF ex_inv wf(1)] free cred wf
    by (auto simp del: ex_tables split: prod.splits sum.splits)
qed

text \<open>
  Changing the password needs the hash it replaces. The call succeeds only if the user's
  password account still holds the previous hash; then that account has the new hash, the live
  sessions of the user (or only the current one) are revoked and the replacement session is
  added. Otherwise nothing changes.
\<close>

theorem change_password_spec:
  assumes "core_inv s" and "session_wf (cp_ReplacementSession p)"
  shows "case ChangePasswordAndRotate core_db p s of
      (Inr created, t) \<Rightarrow> created = cp_ReplacementSession p \<and> core_inv t \<and>
        (\<exists>i r old. mem_table s ModelAccount i = Some r \<and> credential_of (cp_UserID p) (cp_PreviousHash p) r \<and>
          old_sessions p (mem_table s ModelSession) old \<and>
          mem_table t = (mem_table s)
            (ModelAccount := (mem_table s ModelAccount)
               (i \<mapsto> with_password (cp_ReplacementHash p) (ss_CreatedAt (cp_ReplacementSession p)) r),
             ModelSession := old(ss_ID (cp_ReplacementSession p) \<mapsto> sessionRecord (cp_ReplacementSession p))))
    | (Inl e, t) \<Rightarrow> t = s \<and> e \<in> {ErrReplay, ErrConflict}"
  using core.ChangePasswordAndRotate_wp [of s "mem_table s" p] assms
  by (simp add: wp_def core_tables split: prod.splits sum.splits) blast+

definition ex_change :: ChangePasswordParams where
  "ex_change = \<lparr>cp_UserID = ''u1'', cp_PreviousHash = ''ph'', cp_ReplacementHash = ''new'', cp_CurrentTokenHash = ''h1'',
     cp_ReplacementSession = ex_session ''s9'' ''h9'' 50, cp_RevokeOtherSessions = True\<rparr>"

theorem change_password_spec_witness:
  "\<exists>t. ChangePasswordAndRotate core_db ex_change ex_state = (Inr (ex_session ''s9'' ''h9'' 50), t) \<and> core_inv t"
proof -
  have "fst (ChangePasswordAndRotate core_db ex_change ex_state) = Inr (ex_session ''s9'' ''h9'' 50)"
    by (simp add: ChangePasswordAndRotate_def ex_change_def revokeUpdate_def credentialIdentityWhere_def
        accountKeyWhere_def mem_exec row_exec)
  then show ?thesis
    using change_password_spec [OF ex_inv, of ex_change]
    by (auto simp: ex_change_def split: prod.splits sum.splits)
qed

text \<open>
  Deleting a user always succeeds and takes with it exactly the user's row, its sessions and
  its accounts; every other row of the database stays.
\<close>

theorem delete_user_spec:
  assumes "core_inv s"
  shows "\<exists>t. DeleteUser core_db uid s = (Inr (), t) \<and> core_inv t \<and>
    mem_table t = (mem_table s)(ModelSession := without_user uid (mem_table s ModelSession),
      ModelAccount := without_user uid (mem_table s ModelAccount),
      ModelUser := (mem_table s ModelUser)(uid := None))"
  using core.DeleteUser_wp [of s "mem_table s" uid] assms
  by (auto simp: wp_def core_tables split: prod.splits sum.splits)

theorem delete_user_spec_witness:
  "\<exists>t. DeleteUser core_db ''u1'' ex_state = (Inr (), t) \<and> mem_table t ModelUser ''u1'' = None \<and>
       mem_table t ModelSession ''s1'' = None \<and> mem_table t ModelAccount ''u1:credential'' = None"
  using delete_user_spec [OF ex_inv, of "''u1''"] by (auto simp: without_user_def)

section \<open>Accounts\<close>

text \<open>
  C22. A user is not locked out by unlinking. Without the option that allows it, a successful
  unlink leaves the user another account; a user with at most one account gets a conflict and the
  database is as it was. The only row that goes is an account of that user with the provider
  and, when one is given, the account id.
\<close>

theorem unlink_keeps_an_account:
  assumes "core_inv s"
  shows "case UnlinkAccount core_db uid pid aid allow s of
      (Inr _, t) \<Rightarrow> core_inv t \<and>
        (\<exists>i r. mem_table s ModelAccount i = Some r \<and> account_row uid pid aid r \<and>
          mem_table t = (mem_table s)(ModelAccount := (mem_table s ModelAccount)(i := None))) \<and>
        (\<not> allow \<longrightarrow> user_accounts uid (mem_table t ModelAccount) \<noteq> {})
    | (Inl e, t) \<Rightarrow> t = s \<and>
        (e = ErrConflict \<and> \<not> allow \<and> card (user_accounts uid (mem_table s ModelAccount)) \<le> 1 \<or>
         e = ErrNotFound \<and> (\<forall>i r. mem_table s ModelAccount i = Some r \<longrightarrow> \<not> account_row uid pid aid r))"
proof -
  have "user_accounts uid (t(i := None)) \<noteq> {}" if "other_account uid i t" for t i
    using that by (auto simp: user_accounts_def other_account_def)
  then show ?thesis
    using core.UnlinkAccount_wp [of s "mem_table s" uid pid aid allow] assms
    by (auto simp: wp_def core_tables split: prod.splits sum.splits)
qed

theorem unlink_keeps_an_account_witness:
  "\<exists>t. UnlinkAccount core_db ''u1'' ''google'' '''' False ex_state = (Inr (), t) \<and>
       user_accounts ''u1'' (mem_table t ModelAccount) \<noteq> {}"
proof -
  have "fst (UnlinkAccount core_db ''u1'' ''google'' '''' False ex_state) = Inr ()"
    by (simp add: UnlinkAccount_def guardLastAccount_def find_rows_def mem_exec row_exec)
  then show ?thesis
    using unlink_keeps_an_account [OF ex_inv, where uid = "''u1''" and pid = "''google''" and aid = "''''" and allow = False]
    by (auto split: prod.splits sum.splits)
qed

section \<open>Single-use tokens\<close>

text \<open>
  C23. A password reset needs a live token of that purpose, and uses it up. On success the token's
  row is gone and the password account of the user the token names holds the new hash (it is
  created when the user had none); a failure at any step, the missing user included, leaves the
  token and the accounts as they were.
\<close>

theorem password_reset_spec:
  assumes "core_inv s"
  shows "case ConsumePasswordReset core_db h ph now s of
      (Inr u, t) \<Rightarrow> core_inv t \<and>
        (\<exists>i r accounts. mem_table s ModelVerification i = Some r \<and>
          live_token (purpose_string PurposePasswordReset) h now r \<and>
          userFromRecord (mem_table s ModelUser (meta r ''userId'')) = Inr u \<and>
          reset_accounts (meta r ''userId'') ph now (mem_table s ModelAccount) accounts \<and>
          mem_table t = (mem_table s)(ModelVerification := (mem_table s ModelVerification)(i := None),
            ModelAccount := accounts))
    | (Inl e, t) \<Rightarrow> t = s \<and>
        ((\<forall>i r. mem_table s ModelVerification i = Some r \<longrightarrow>
            \<not> live_token (purpose_string PurposePasswordReset) h now r) \<longrightarrow> e = ErrReplay)"
  using core.ConsumePasswordReset_wp [of s "mem_table s" h ph now] assms
  by (simp add: wp_def core_tables del: purpose_string.simps split: prod.splits sum.splits) blast+

theorem password_reset_spec_witness:
  "\<exists>u t. ConsumePasswordReset core_db ''k1'' ''new'' 50 ex_state = (Inr u, t) \<and> core_inv t"
proof -
  have "\<exists>u t. ConsumePasswordReset core_db ''k1'' ''new'' 50 ex_state = (Inr u, t)"
    by (simp add: ConsumePasswordReset_def liveToken_def credentialIdentityWhere_def accountKeyWhere_def
        mem_exec row_exec)
  then show ?thesis
    using password_reset_spec [OF ex_inv, where h = "''k1''" and ph = "''new''" and now = 50] by auto
qed

text \<open>
  A change of email is confirmed by its own token only, cannot take an address another user
  has, and marks the new address verified. When the address is taken in the meantime the
  result is an error and the token is still there.
\<close>

theorem email_change_spec:
  assumes "core_inv s"
  shows "case ConsumeEmailChange core_db h now s of
      (Inr (u, returnTo), t) \<Rightarrow> core_inv t \<and> u_EmailVerified u \<and>
        (\<exists>i r q. mem_table s ModelVerification i = Some r \<and>
          live_token_prefix (purpose_string PurposeEmailChange @ '':'') h now r \<and>
          u_ID u = meta r ''userId'' \<and> u_Email u = meta r ''newEmail'' \<and>
          (\<forall>j q'. mem_table s ModelUser j = Some q' \<longrightarrow> fld q' ''email'' = VStr (u_Email u) \<longrightarrow> j = u_ID u) \<and>
          mem_table s ModelUser (u_ID u) = Some q \<and>
          mem_table t = (mem_table s)(ModelVerification := (mem_table s ModelVerification)(i := None),
            ModelUser := (mem_table s ModelUser)(u_ID u \<mapsto> with_email (u_Email u) now q)))
    | (Inl e, t) \<Rightarrow> t = s"
proof -
  have user: "u_ID u = uid \<and> u_Email u = e \<and> u_EmailVerified u"
    if "mem_table s ModelUser uid = Some q" "userFromRecord (Some (with_email e now q)) = Inr u" for u uid e q
    using userFromRecord_Inr [OF that(2)] core.row_has_id [OF core_inv_mem [OF assms] core_models_mem(1) that(1)]
    by (auto simp: optionalBool_def)
  note spec = core.ConsumeEmailChange_wp [of s "mem_table s" h now]
  have tb: "core.tables s (mem_table s) False" using assms by (simp add: core_tables)
  obtain res t where run: "ConsumeEmailChange core_db h now s = (res, t)" by fastforce
  show ?thesis
  proof (cases res)
    case (Inl e)
    with wpE [OF spec [OF tb]] run show ?thesis by simp
  next
    case (Inr x)
    obtain u returnTo where x: "x = (u, returnTo)" by fastforce
    from wpD [OF spec [OF tb], of x t] run Inr x obtain i r q where
      r: "mem_table s ModelVerification i = Some r"
        "live_token_prefix (purpose_string PurposeEmailChange @ '':'') h now r"
        "mem_table s ModelUser (meta r ''userId'') = Some q"
        "userFromRecord (Some (with_email (meta r ''newEmail'') now q)) = Inr u"
        "\<forall>j q'. mem_table s ModelUser j = Some q' \<longrightarrow> fld q' ''email'' = VStr (meta r ''newEmail'') \<longrightarrow> j = meta r ''userId''"
      and t: "core_inv t" "mem_table t = (mem_table s)(ModelVerification := (mem_table s ModelVerification)(i := None),
        ModelUser := (mem_table s ModelUser)(meta r ''userId'' \<mapsto> with_email (meta r ''newEmail'') now q))"
      unfolding prod.case core_tables by blast
    from user [OF r(3,4)] have u: "u_ID u = meta r ''userId''" "u_Email u = meta r ''newEmail''" "u_EmailVerified u"
      by simp_all
    show ?thesis unfolding run Inr x prod.case sum.case u
      using r t u(3) by (intro conjI exI [of _ i] exI [of _ r] exI [of _ q]) (simp_all only: simp_thms)
  qed
qed

theorem email_change_spec_witness:
  "\<exists>u r t. ConsumeEmailChange core_db ''k2'' 50 ex_state = (Inr (u, r), t) \<and> u_EmailVerified u"
proof -
  have "\<exists>u r t. ConsumeEmailChange core_db ''k2'' 50 ex_state = (Inr (u, r), t)"
    by (simp add: ConsumeEmailChange_def liveTokenPrefix_def HasPrefix_def mem_exec row_exec)
  then show ?thesis using email_change_spec [OF ex_inv, where h = "''k2''" and now = 50] by auto
qed
section \<open>Sign-in with a provider\<close>

text \<open>
  C24. The state of an OAuth sign-in survives the round trip through the database: a stored state,
  consumed by its hash before it expires, comes back with every field as it was, and the
  tables are then as they were before it was stored.
\<close>

theorem oauth_state_roundtrip:
  assumes "core_inv s" and "oauth_state_wf st" and "now < os_ExpiresAt st"
    and "PutOAuthState core_db st s = (Inr (), t)"
  shows "\<exists>u. ConsumeOAuthState core_db (os_Hash st) now t = (Inr st, u) \<and> core_inv u \<and> mem_table u = mem_table s"
proof -
  have "core.tables s (mem_table s) False" using assms(1) by (simp add: core_tables)
  from wpD [OF core.oauth_state_roundtrip_wp [OF this assms(2,3)] assms(4)]
  show ?thesis by (auto simp: wp_def core_tables split: prod.splits sum.splits)
qed

theorem oauth_state_roundtrip_witness:
  "\<exists>t u. PutOAuthState core_db ex_oauth_state ex_state = (Inr (), t) \<and>
         ConsumeOAuthState core_db ''k9'' 50 t = (Inr ex_oauth_state, u)"
proof -
  have "fst (PutOAuthState core_db ex_oauth_state ex_state) = Inr ()"
    by (simp add: PutOAuthState_def mem_exec smap_of_def)
  then obtain t where t: "PutOAuthState core_db ex_oauth_state ex_state = (Inr (), t)"
    by (cases "PutOAuthState core_db ex_oauth_state ex_state") auto
  moreover have "oauth_state_wf ex_oauth_state" "os_Hash ex_oauth_state = ''k9''" "50 < os_ExpiresAt ex_oauth_state"
    by (simp_all add: oauth_state_wf_def ex_oauth_state_def)
  ultimately show ?thesis
    using oauth_state_roundtrip [OF ex_inv, of ex_oauth_state 50 t] by auto
qed

text \<open>
  C25. A sign-in with a provider's profile hands the session to the right user. When
  \<open>UpsertOAuthUser\<close> succeeds the session it creates belongs to the user it returns, and that user
  is either the owner of an account with the profile's provider and account id (its current or
  its previous one); or an existing user with the profile's email, where the policy allows implicit
  links and, if it asks for that, the local address was verified; or a new user, where the policy
  allows sign-up and no user had that email. When it fails, nothing has changed.
\<close>

theorem upsert_oauth_user_safe:
  assumes "core_inv s"
  shows "case UpsertOAuthUser core_db p tokens se event policy s of
      (Inr (user, created, isNew), t) \<Rightarrow> core_inv t \<and> ss_UserID created = u_ID user \<and>
        (if isNew then pol_AllowSignUp policy \<and> no_email (mem_table s) (op_Email p) \<and> user = upsertNewUser p se
         else linked_to (mem_table s) p (u_ID user) \<or> may_link (mem_table s) p policy (u_ID user))
    | (Inl e, t) \<Rightarrow> t = s"
proof -
  have "core.tables s (mem_table s) False" using assms by (simp add: core_tables)
  from core.UpsertOAuthUser_wp [OF this, of p tokens se event policy]
  show ?thesis by (auto simp: wp_def chosen_user_def split: prod.splits sum.splits if_splits)
qed

definition ex_policy :: OAuthUpsertPolicy where
  "ex_policy = \<lparr>pol_AllowImplicitLink = False, pol_RequireLocalVerification = True,
     pol_UpdateUserInfoOnLink = False, pol_UpdateAccountOnSignIn = False, pol_AllowSignUp = False\<rparr>"

definition ex_event :: DomainEvent where
  "ex_event = \<lparr>de_ID = ''d1'', de_SchemaVersion = 1, de_Name = EventUserCreated, de_AggregateID = ''u1'',
     de_OccurredAt = 50, de_Payload = []\<rparr>"

theorem upsert_oauth_user_safe_witness:
  "\<exists>user created t. UpsertOAuthUser core_db ex_profile ex_tokens (ex_session ''s9'' ''h9'' 50) ex_event ex_policy ex_state
     = (Inr (user, created, False), t) \<and> linked_to (mem_table ex_state) ex_profile (u_ID user)"
proof -
  have "\<exists>user created t. UpsertOAuthUser core_db ex_profile ex_tokens (ex_session ''s9'' ''h9'' 50) ex_event ex_policy ex_state
     = (Inr (user, created, False), t)"
    by (simp add: UpsertOAuthUser_def findProfileAccount_def FindAccountByKey_def accountKeyWhere_def find_rows_def
        upsertExisting_def verifyMatchingEmail_def ex_policy_def mem_exec row_exec)
  then show ?thesis
    using upsert_oauth_user_safe [OF ex_inv, where p = ex_profile and tokens = ex_tokens and
        se = "ex_session ''s9'' ''h9'' 50" and event = ex_event and policy = ex_policy]
    by (auto simp: may_link_def ex_policy_def)
qed

section \<open>Scopes\<close>

definition scope_word :: "string \<Rightarrow> bool" where
  "scope_word x \<longleftrightarrow> x \<noteq> '''' \<and> list_all (\<lambda>c. \<not> is_space c) x"

lemma Fields_Nil [simp]: "Fields '''' = []"
  by (subst Fields.simps) simp

lemma Fields_words: "x \<in> set (Fields s) \<Longrightarrow> scope_word x"
proof (induction s rule: Fields.induct)
  case (1 s)
  let ?t = "dropWhile is_space s"
  from 1(2) have t: "?t \<noteq> []" by (subst (asm) Fields.simps) (auto simp: Let_def split: if_splits)
  then have "\<not> is_space (hd ?t)" using hd_dropWhile by blast
  with t have "takeWhile (\<lambda>c. \<not> is_space c) ?t \<noteq> []" by (cases ?t) auto
  moreover have "list_all (\<lambda>c. \<not> is_space c) (takeWhile (\<lambda>c. \<not> is_space c) ?t)"
    by (auto simp: list_all_iff dest: set_takeWhileD)
  moreover from 1(2) t have "x = takeWhile (\<lambda>c. \<not> is_space c) ?t \<or> x \<in> set (Fields (dropWhile (\<lambda>c. \<not> is_space c) ?t))"
    by (subst (asm) Fields.simps) (auto simp: Let_def split: if_splits)
  ultimately show ?case using 1(1) [OF refl t] by (auto simp: scope_word_def)
qed

lemma Fields_word:
  assumes "scope_word x" and "s = [] \<or> is_space (hd s)"
  shows "Fields (x @ s) = x # Fields s"
proof -
  have x: "list_all (\<lambda>c. \<not> is_space c) x" "x \<noteq> []" using assms(1) by (simp_all add: scope_word_def)
  have d: "dropWhile is_space (x @ s) = x @ s" using x by (cases x) auto
  have "takeWhile (\<lambda>c. \<not> is_space c) (x @ s) = x" "dropWhile (\<lambda>c. \<not> is_space c) (x @ s) = s"
    using x(1) assms(2) by (cases s; auto simp: list_all_iff takeWhile_append2 dropWhile_append2)+
  with d x(2) show ?thesis by (subst Fields.simps) (simp add: Let_def)
qed

lemma Fields_space: "Fields (CHR '' '' # s) = Fields s"
  by (subst Fields.simps, subst Fields.simps [of s]) (simp add: is_space_def)

lemma Fields_Join: "list_all scope_word xs \<Longrightarrow> Fields (Join xs '' '') = xs"
proof (induction xs)
  case (Cons x xs)
  then show ?case
    using Fields_word [of x "[]"] Fields_word [of x "CHR '' '' # Join xs '' ''"]
    by (cases xs) (simp_all add: Fields_space is_space_def)
qed simp

lemma merge_loop_spec:
  assumes "distinct ys"
  shows "\<exists>zs. merge_scopes_loop xs ys = ys @ zs \<and> distinct (ys @ zs) \<and> set (ys @ zs) = set ys \<union> set xs"
  using assms
proof (induction xs ys rule: merge_scopes_loop.induct)
  case (2 x xs ys)
  show ?case
  proof (cases "x \<in> set ys")
    case True
    with 2 show ?thesis by (auto simp: insert_absorb)
  next
    case False
    with 2 obtain zs where "merge_scopes_loop xs (ys @ [x]) = (ys @ [x]) @ zs" "distinct ((ys @ [x]) @ zs)"
      "set ((ys @ [x]) @ zs) = set (ys @ [x]) \<union> set xs" by auto
    with False show ?thesis by (intro exI [of _ "x # zs"]) auto
  qed
qed simp

lemma merge_loop_done: "set xs \<subseteq> set ys \<Longrightarrow> merge_scopes_loop xs ys = ys"
  by (induction xs ys rule: merge_scopes_loop.induct) auto

lemma merge_loop_distinct: "distinct xs \<Longrightarrow> set xs \<inter> set ys = {} \<Longrightarrow> merge_scopes_loop xs ys = ys @ xs"
  by (induction xs ys rule: merge_scopes_loop.induct) auto

text \<open>
  Merging the scopes of two grants forgets none, repeats none and adds none; the scopes that
  were there stay first, and merging the same grant a second time changes nothing.
\<close>

lemma merge_scopes_spec:
  "set (Fields (mergeOAuthScopes a b)) = set (Fields a) \<union> set (Fields b) \<and>
   distinct (Fields (mergeOAuthScopes a b)) \<and>
   (\<exists>new. Fields (mergeOAuthScopes a b) = Fields (mergeOAuthScopes a '''') @ new) \<and>
   mergeOAuthScopes (mergeOAuthScopes a b) b = mergeOAuthScopes a b"
proof -
  obtain ys where ys: "merge_scopes_loop (Fields a) [] = ys" "distinct ys" "set ys = set (Fields a)"
    using merge_loop_spec [of "[]" "Fields a"] by auto
  obtain zs where zs: "merge_scopes_loop (Fields b) ys = ys @ zs" "distinct (ys @ zs)"
    "set (ys @ zs) = set (Fields a) \<union> set (Fields b)"
    using merge_loop_spec [OF ys(2), of "Fields b"] ys(3) by auto
  have w: "list_all scope_word (ys @ zs)" "list_all scope_word ys"
    using zs(3) ys(3) Fields_words by (auto simp: list_all_iff)
  have m: "mergeOAuthScopes a b = Join (ys @ zs) '' ''" "mergeOAuthScopes a '''' = Join ys '' ''"
    by (simp_all add: mergeOAuthScopes_def ys zs)
  have "mergeOAuthScopes (Join (ys @ zs) '' '') b = Join (ys @ zs) '' ''"
    unfolding mergeOAuthScopes_def Fields_Join [OF w(1)]
    using merge_loop_distinct [OF zs(2), of "[]"] zs(3) by (simp add: merge_loop_done)
  with zs(2,3) show ?thesis
    unfolding m Fields_Join [OF w(1)] Fields_Join [OF w(2)] by simp
qed

end
