(* ===== verification/Trusted_Origins.thy ===== *)
theory Trusted_Origins
  imports Prelude
begin

text \<open>
  The trusted origins of \<open>trusted_origins.go\<close> and the URL check of \<open>config.go\<close>: exact
  origins, wildcard patterns for host names, and the test of a request's origin. The parsers of
  \<open>net/url\<close> and \<open>net\<close>, the IDNA conversion and the public suffix list are parameters; the regular
  expression a pattern compiles to is the matching of its wildcards.
\<close>

section \<open>URLs\<close>

record URL =
  url_Scheme :: string
  url_Host :: string
  url_Hostname :: string
  url_Port :: string
  url_User :: bool
  url_Path :: string
  url_RawQuery :: string
  url_Fragment :: string

record NetLib =
  nl_Parse :: "string \<Rightarrow> go_error + URL"
  nl_String :: "URL \<Rightarrow> string"
  nl_Resolve :: "URL \<Rightarrow> URL \<Rightarrow> URL"
  nl_ParseIP :: "string \<Rightarrow> string option"
  nl_ToASCII :: "string \<Rightarrow> go_error + string"
  nl_EffectiveTLDPlusOne :: "string \<Rightarrow> go_error + string"

definition validateHTTPSURL :: "NetLib \<Rightarrow> string \<Rightarrow> bool \<Rightarrow> go_error + URL" where
  "validateHTTPSURL nl raw allowPath =
     (if strings_Contains raw ''*'' then Inl (ErrText ''wildcards are not allowed'')
      else case nl_Parse nl raw of
        Inl e \<Rightarrow> Inl (ErrText ''must be an absolute URL'')
      | Inr u \<Rightarrow>
          if url_Scheme u = '''' \<or> url_Host u = '''' then Inl (ErrText ''must be an absolute URL'')
          else if url_Scheme u \<noteq> ''https'' \<and>
            \<not> (url_Scheme u = ''http'' \<and> url_Hostname u \<in> {''localhost'', ''127.0.0.1'', ''::1''})
          then Inl (ErrText ''must use HTTPS outside loopback development'')
          else if url_User u \<or> url_Fragment u \<noteq> '''' \<or> url_RawQuery u \<noteq> ''''
          then Inl (ErrText ''credentials, fragments, and query strings are not allowed'')
          else if \<not> allowPath \<and> url_Path u \<noteq> '''' \<and> url_Path u \<noteq> ''/''
          then Inl (ErrText ''path is not allowed'')
          else
            (let u = u\<lparr>url_Host := ToLower (url_Host u)\<rparr> in
             Inr (if url_Path u = ''/'' \<and> \<not> allowPath then u\<lparr>url_Path := ''''\<rparr> else u)))"

section \<open>Functions of \<open>strings\<close>, \<open>strconv\<close> and \<open>net\<close>\<close>

fun Cut :: "string \<Rightarrow> string \<Rightarrow> (string \<times> string) option" where
  "Cut [] sep = (if sep = [] then Some ([], []) else None)"
| "Cut (c # cs) sep =
     (if HasPrefix (c # cs) sep then Some ([], drop (length sep) (c # cs))
      else case Cut cs sep of None \<Rightarrow> None | Some (a, b) \<Rightarrow> Some (c # a, b))"

definition TrimSuffix :: "string \<Rightarrow> string \<Rightarrow> string" where
  "TrimSuffix s p = (if HasSuffix s p then take (length s - length p) s else s)"

fun SplitOn :: "char \<Rightarrow> string \<Rightarrow> string list" where
  "SplitOn c [] = [[]]"
| "SplitOn c (x # xs) =
     (if x = c then [] # SplitOn c xs
      else case SplitOn c xs of [] \<Rightarrow> [[x]] | y # ys \<Rightarrow> (x # y) # ys)"

definition digit_value :: "char \<Rightarrow> int option" where
  "digit_value c = (if CHR ''0'' \<le> c \<and> c \<le> CHR ''9'' then Some (of_char c - 48) else None)"

fun digits_value :: "int \<Rightarrow> string \<Rightarrow> int option" where
  "digits_value acc [] = Some acc"
| "digits_value acc (c # cs) =
     (case digit_value c of None \<Rightarrow> None | Some d \<Rightarrow> digits_value (acc * 10 + d) cs)"

definition Atoi :: "string \<Rightarrow> int option" where
  "Atoi s =
     (case s of
        [] \<Rightarrow> None
      | c # cs \<Rightarrow>
          if c = CHR ''-'' then (if cs = [] then None else map_option uminus (digits_value 0 cs))
          else if c = CHR ''+'' then (if cs = [] then None else digits_value 0 cs)
          else digits_value 0 s)"

definition JoinHostPort :: "string \<Rightarrow> string \<Rightarrow> string" where
  "JoinHostPort host port =
     (if CHR '':'' \<in> set host \<or> CHR ''%'' \<in> set host then ''['' @ host @ '']:'' @ port else host @ '':'' @ port)"

section \<open>Patterns\<close>

definition wildcard :: "char \<Rightarrow> bool" where
  "wildcard c \<longleftrightarrow> c = CHR ''*'' \<or> c = CHR ''?''"

definition host_char :: "char \<Rightarrow> bool" where
  "host_char c \<longleftrightarrow> CHR ''a'' \<le> c \<and> c \<le> CHR ''z'' \<or> CHR ''0'' \<le> c \<and> c \<le> CHR ''9'' \<or>
     c = CHR ''.'' \<or> c = CHR ''-''"

text \<open>The compiled expression: a star is any run of host characters, a question mark is one.\<close>

fun hostMatch :: "string \<Rightarrow> string \<Rightarrow> bool" where
  "hostMatch [] s \<longleftrightarrow> s = []"
| "hostMatch (p # ps) [] \<longleftrightarrow> p = CHR ''*'' \<and> hostMatch ps []"
| "hostMatch (p # ps) (c # cs) \<longleftrightarrow>
     (if p = CHR ''*'' then hostMatch ps (c # cs) \<or> host_char c \<and> hostMatch (p # ps) cs
      else if p = CHR ''?'' then host_char c \<and> hostMatch ps cs
      else p = c \<and> hostMatch ps cs)"

record trustedOriginPattern =
  tp_value :: string
  tp_scheme :: string
  tp_port :: string
  tp_hostname :: string

record trustedOriginPolicy =
  to_values :: "string list"
  to_exact :: "string list"
  to_patterns :: "trustedOriginPattern list"

text \<open>The loop over the labels: the converted labels, the sample labels, the first wildcard label.\<close>

definition wildcard_label_char :: "char \<Rightarrow> bool" where
  "wildcard_label_char c \<longleftrightarrow> CHR ''a'' \<le> c \<and> c \<le> CHR ''z'' \<or> CHR ''0'' \<le> c \<and> c \<le> CHR ''9'' \<or>
     c = CHR ''-'' \<or> wildcard c"

fun convertLabels :: "NetLib \<Rightarrow> string list \<Rightarrow> go_error + (string list \<times> string list)" where
  "convertLabels nl [] = Inr ([], [])"
| "convertLabels nl (label # labels) =
     (let rest = (\<lambda>a b. case convertLabels nl labels of
                    Inl e \<Rightarrow> Inl e | Inr (as, bs) \<Rightarrow> Inr (a # as, b # bs)) in
      if label = '''' then Inl (ErrText ''trusted origin pattern has an empty hostname label'')
      else if list_ex wildcard label then
        (if \<not> list_all wildcard_label_char label
         then Inl (ErrText ''trusted origin pattern has an invalid wildcard label'')
         else rest label ''wildcardtoken'')
      else case nl_ToASCII nl label of
             Inl e \<Rightarrow> Inl (ErrText ''trusted origin pattern has an invalid hostname label'')
           | Inr ascii \<Rightarrow>
               if ascii = '''' \<or> length ascii > 63
               then Inl (ErrText ''trusted origin pattern has an invalid hostname label'')
               else rest (ToLower ascii) (ToLower ascii))"

definition splitAuthority :: "string \<Rightarrow> go_error + (string \<times> string)" where
  "splitAuthority authority =
     (if CHR '':'' \<in> set authority then
        (if length (filter (\<lambda>c. c = CHR '':'') authority) \<noteq> 1
         then Inl (ErrText ''trusted origin pattern has an invalid host or port'')
         else
          (let host = takeWhile (\<lambda>c. c \<noteq> CHR '':'') authority;
               port = drop (Suc (length host)) authority in
           if port = '''' then Inl (ErrText ''trusted origin pattern has an empty port'')
           else Inr (host, port)))
      else Inr (authority, ''''))"

definition validPort :: "string \<Rightarrow> bool" where
  "validPort port \<longleftrightarrow> (case Atoi port of None \<Rightarrow> False | Some n \<Rightarrow> 1 \<le> n \<and> n \<le> 65535)"

text \<open>The converted labels after the first one with a wildcard.\<close>

definition afterWildcard :: "string list \<Rightarrow> string list \<Rightarrow> string list" where
  "afterWildcard labels asciiLabels =
     drop (Suc (length (takeWhile (\<lambda>l. \<not> list_ex wildcard l) labels))) asciiLabels"

definition compileTrustedOriginPattern :: "NetLib \<Rightarrow> string \<Rightarrow> go_error + trustedOriginPattern" where
  "compileTrustedOriginPattern nl raw =
     (let bad = (\<lambda>m. Inl (ErrText (''trusted origin pattern '' @ m))) in
      case Cut raw ''://'' of
        None \<Rightarrow> bad ''must be an absolute URL''
      | Some (scheme, authority) \<Rightarrow>
          if scheme = '''' \<or> authority = '''' then bad ''must be an absolute URL''
          else if scheme \<noteq> ''https'' then bad ''must use HTTPS''
          else
            (let authority = TrimSuffix authority ''/'' in
             if authority = '''' \<or> CHR ''/'' \<in> set authority \<or> ContainsAny authority ''@#''
             then bad ''cannot contain credentials, a path, query, or fragment''
             else case splitAuthority authority of
               Inl e \<Rightarrow> Inl e
             | Inr (hostname, port) \<Rightarrow>
                 (let hostname = ToLower (TrimSuffix hostname ''.'') in
                  if hostname = '''' \<or> \<not> list_ex wildcard hostname \<or>
                     nl_ParseIP nl (map (\<lambda>c. if wildcard c then CHR ''1'' else c) hostname) \<noteq> None
                  then bad ''has an invalid hostname''
                  else if list_ex wildcard port then bad ''has a wildcard port''
                  else if port \<noteq> '''' \<and> \<not> validPort port then bad ''has an invalid port''
                  else
                  (let labels = SplitOn (CHR ''.'') hostname in
                   case convertLabels nl labels of
                    Inl e \<Rightarrow> Inl e
                  | Inr (asciiLabels, sampleLabels) \<Rightarrow>
                      if afterWildcard labels asciiLabels \<noteq> [] \<and>
                         nl_ParseIP nl (Join (afterWildcard labels asciiLabels) ''.'') \<noteq> None
                      then bad ''cannot match an IP address''
                      else case nl_EffectiveTLDPlusOne nl (Join sampleLabels ''.'') of
                        Inl e \<Rightarrow> bad ''can match a public suffix''
                      | Inr registrable \<Rightarrow>
                          if strings_Contains registrable ''wildcardtoken'' then bad ''can match a public suffix''
                          else
                            (let asciiHostname = Join asciiLabels ''.'';
                                 host = (if port \<noteq> '''' then JoinHostPort asciiHostname port else asciiHostname) in
                             Inr \<lparr>tp_value = ''https://'' @ host, tp_scheme = ''https'', tp_port = port,
                               tp_hostname = asciiHostname\<rparr>)))))"

definition canonicalTrustedOrigin :: "NetLib \<Rightarrow> string \<Rightarrow> go_error + string" where
  "canonicalTrustedOrigin nl raw =
     (case validateHTTPSURL nl raw False of
        Inl e \<Rightarrow> Inl e
      | Inr parsed \<Rightarrow>
          (let rawHostname = TrimSuffix (url_Hostname parsed) ''.'';
               converted =
                 (case nl_ParseIP nl rawHostname of
                    Some ip \<Rightarrow> Inr ip
                  | None \<Rightarrow>
                      (case nl_ToASCII nl rawHostname of
                         Inl e \<Rightarrow> Inl (ErrText ''origin hostname is invalid'')
                       | Inr h \<Rightarrow> if h = '''' then Inl (ErrText ''origin hostname is invalid'') else Inr h)) in
           case converted of
             Inl e \<Rightarrow> Inl e
           | Inr hostname \<Rightarrow>
               (let hostname = ToLower hostname;
                    host = (if url_Port parsed \<noteq> '''' then JoinHostPort hostname (url_Port parsed)
                            else if CHR '':'' \<in> set hostname then ''['' @ hostname @ '']'' else hostname) in
                Inr (url_Scheme parsed @ ''://'' @ host))))"

text \<open>\<open>compileTrustedOriginPolicy\<close>: the body of its loop, and the loop with its count check.\<close>

definition compile_origin :: "NetLib \<Rightarrow> trustedOriginPolicy \<Rightarrow> string \<Rightarrow> go_error + trustedOriginPolicy" where
  "compile_origin nl policy raw0 =
     (let raw = TrimSpace raw0 in
      if raw = '''' \<or> length raw > 2048 then Inl (ErrText ''trusted origin is empty or too long'')
      else if ContainsAny raw [CHR 0x00, CHR 0x0D, CHR 0x0A, CHR 0x09, CHR '' '']
      then Inl (ErrText ''trusted origin contains whitespace'')
      else if list_ex wildcard raw then
        (case compileTrustedOriginPattern nl raw of
           Inl e \<Rightarrow> Inl e
         | Inr pattern \<Rightarrow>
             if tp_value pattern \<in> set (to_values policy) then Inr policy
             else Inr (policy\<lparr>to_values := to_values policy @ [tp_value pattern],
                    to_patterns := to_patterns policy @ [pattern]\<rparr>))
      else
        (case canonicalTrustedOrigin nl raw of
           Inl e \<Rightarrow> Inl e
         | Inr origin \<Rightarrow>
             if origin \<in> set (to_values policy) then Inr policy
             else Inr (policy\<lparr>to_values := to_values policy @ [origin],
                    to_exact := to_exact policy @ [origin]\<rparr>)))"

definition compileTrustedOriginPolicy :: "NetLib \<Rightarrow> string list \<Rightarrow> go_error + trustedOriginPolicy" where
  "compileTrustedOriginPolicy nl vs =
     (if length vs > 128 then Inl (ErrText ''too many trusted origins'')
      else foldE (compile_origin nl) \<lparr>to_values = [], to_exact = [], to_patterns = []\<rparr> vs)"

definition policy_matches :: "NetLib \<Rightarrow> trustedOriginPolicy \<Rightarrow> string \<Rightarrow> bool" where
  "policy_matches nl policy raw =
     (case canonicalTrustedOrigin nl raw of
        Inl e \<Rightarrow> False
      | Inr origin \<Rightarrow>
          if origin \<in> set (to_exact policy) then True
          else case nl_Parse nl origin of
                 Inl e \<Rightarrow> False
               | Inr parsed \<Rightarrow>
                   list_ex (\<lambda>p. url_Scheme parsed = tp_scheme p \<and> url_Port parsed = tp_port p \<and>
                     hostMatch (tp_hostname p) (ToLower (url_Hostname parsed))) (to_patterns policy))"

fun append_new :: "string list \<Rightarrow> string list \<Rightarrow> string list" where
  "append_new vs [] = vs"
| "append_new vs (x # xs) = (if x \<in> set vs then append_new vs xs else append_new (vs @ [x]) xs)"

definition merged :: "trustedOriginPolicy \<Rightarrow> trustedOriginPolicy \<Rightarrow> trustedOriginPolicy" where
  "merged policy other =
     (if to_values other = [] then policy
      else \<lparr>to_values = append_new (to_values policy) (to_values other),
            to_exact = append_new (to_exact policy) (to_exact other),
            to_patterns = to_patterns policy @ to_patterns other\<rparr>)"

end
