(* ===== verification/Server.thy ===== *)
theory Server
  imports Store_Laws Trusted_Origins
begin

text \<open>
  The server of \<open>server.go\<close>: its configuration, the request and the response, and the
  helpers the handlers share (sessions, cookies, CSRF, origins, rate limits, JSON bodies, errors).

  The services an application injects (token source, clock, password hasher, rate limiter, mailer,
  role resolver, hooks) are functions of the configuration. Each takes the number of external
  calls made before it, so one service may answer differently from call to call. The SHA-256 of
  \<open>HashToken\<close> and the parsers of \<open>net/mail\<close>, \<open>net\<close> and \<open>net/url\<close> are functions of the
  configuration, too.
\<close>

section \<open>Configuration\<close>

type_synonym hook = "(nat \<Rightarrow> User \<Rightarrow> go_error option) option"

record CookieConfig =
  ck_Name :: string
  ck_CSRFName :: string
  ck_SameSite :: int

record AccountManagementConfig =
  am_UpdateAccountOnSignIn :: "bool option"
  am_LinkingEnabled :: "bool option"
  am_DisableImplicitLinking :: bool
  am_RequireLocalEmailVerified :: "bool option"
  am_UpdateUserInfoOnLink :: bool
  am_AllowUnlinkingAll :: bool
  am_AllowLinkingDifferentEmails :: bool
  am_TrustedProviders :: "string list"

record UserManagementConfig =
  um_ChangeEmailEnabled :: bool
  um_SendChangeEmailConfirmation :: bool
  um_UpdateEmailWithoutVerification :: bool
  um_DeleteUserEnabled :: bool
  um_SendDeleteAccountVerification :: bool
  um_BeforeDelete :: hook
  um_AfterDelete :: hook

record AdminConfig =
  ad_DefaultRole :: string
  ad_AdminRoles :: "string list"
  ad_AdminUserIDs :: "string list"
  ad_RoleResolver :: "(nat \<Rightarrow> User \<Rightarrow> go_error + string list) option"
  ad_AllowImpersonatingAdmins :: bool

record EmailVerificationConfig =
  ev_SendOnSignUp :: "bool option"
  ev_SendOnSignIn :: bool
  ev_AutoSignInAfterVerification :: bool
  ev_BeforeVerification :: hook
  ev_AfterVerification :: hook

record EmailPasswordConfig =
  ep_DisableSignUp :: bool
  ep_AutoSignIn :: "bool option"
  ep_RequireEmailVerification :: bool
  ep_RevokeSessionsOnPasswordReset :: bool
  ep_OnPasswordReset :: hook
  ep_OnExistingUserSignUp :: hook
  ep_CustomSyntheticUser :: "(Record \<Rightarrow> string \<Rightarrow> (string \<times> val) list) option"

record PasswordVerification =
  pv_Valid :: bool
  pv_ReplacementHash :: string

record RateLimitRequest =
  rl_Action :: string
  rl_IP :: string
  rl_AccountKey :: string
  rl_Window :: gtime
  rl_Max :: int

record RateLimitDecision =
  rd_Allowed :: bool
  rd_RetryAfter :: int

record Request =
  rq_Method :: string
  rq_Path :: string
  rq_Cookies :: "(string \<times> string) list"
  rq_Header :: "string \<Rightarrow> string"
  rq_Query :: "string \<Rightarrow> string"
  rq_RemoteAddr :: string
  rq_Host :: string
  rq_ContentLength :: int
  rq_PostForm :: "go_error + (string \<Rightarrow> string)"

text \<open>
  A social provider behind the interface \<open>OAuthProvider\<close> and the optional ones for refreshing
  tokens, ending a session and restricting sign-up.
\<close>

record OAuthResult =
  or_Profile :: OAuthProfile
  or_Tokens :: ProviderTokens

record SignUpPolicy =
  sp_DisableImplicitSignUp :: bool
  sp_DisableSignUp :: bool

record OAuthProvider =
  pr_AuthorizationURL :: "nat \<Rightarrow> string \<Rightarrow> string \<Rightarrow> string \<Rightarrow> string \<Rightarrow> go_error + string"
  pr_Exchange :: "nat \<Rightarrow> string \<Rightarrow> string \<Rightarrow> string \<Rightarrow> string \<Rightarrow> go_error + OAuthResult"
  pr_SignUpPolicy :: "SignUpPolicy option"
  pr_Refresh :: "(nat \<Rightarrow> string \<Rightarrow> go_error + ProviderTokens) option"
  pr_EndSessionURL :: "(nat \<Rightarrow> string \<Rightarrow> string \<Rightarrow> string \<Rightarrow> go_error + string) option"

record 'd Config =
  cfg_Database :: "'d database_adapter"
  cfg_BasePath :: string
  cfg_PublicURL :: string
  cfg_Schema :: Schema
  cfg_Cookie :: CookieConfig
  cfg_Account :: AccountManagementConfig
  cfg_Admin :: AdminConfig
  cfg_User :: UserManagementConfig
  cfg_EmailPassword :: EmailPasswordConfig
  cfg_EmailVerification :: EmailVerificationConfig
  cfg_SessionDuration :: gtime
  cfg_SessionFreshAge :: gtime
  cfg_ImpersonationDuration :: gtime
  cfg_PasswordResetTTL :: gtime
  cfg_EmailVerificationTTL :: gtime
  cfg_DeleteUserTTL :: gtime
  cfg_OAuthStateTTL :: gtime
  cfg_MinPasswordBytes :: int
  cfg_MaxPasswordBytes :: int
  cfg_TrustProxyHeaders :: bool

text \<open>The injected services and the library functions the model takes as they are.\<close>

record Services =
  sv_HashToken :: "string \<Rightarrow> string"
  sv_Token :: "nat \<Rightarrow> int \<Rightarrow> go_error + string"
  sv_Now :: "nat \<Rightarrow> gtime"
  sv_Hash :: "nat \<Rightarrow> string \<Rightarrow> go_error + string"
  sv_Verify :: "nat \<Rightarrow> string \<Rightarrow> string \<Rightarrow> go_error + PasswordVerification"
  sv_Allow :: "nat \<Rightarrow> RateLimitRequest \<Rightarrow> go_error + RateLimitDecision"
  sv_Send :: "nat \<Rightarrow> Mail \<Rightarrow> go_error option"
  sv_CanImpersonate :: "nat \<Rightarrow> User \<Rightarrow> User \<Rightarrow> go_error option"
  sv_Seal :: "nat \<Rightarrow> string \<Rightarrow> go_error + string"
  sv_Open :: "nat \<Rightarrow> string \<Rightarrow> go_error + string"
  sv_SocialProviders :: "(string \<times> OAuthProvider) list"
  sv_TrustedProviderResolver :: "(nat \<Rightarrow> Request \<Rightarrow> go_error + string list) option"
  sv_PKCEChallenge :: "string \<Rightarrow> string"
  sv_RequireSchema :: "nat \<Rightarrow> go_error option"
  sv_ParseTime :: "string \<Rightarrow> gtime option"
  sv_ParseAddress :: "string \<Rightarrow> string option"
  sv_SplitHostPort :: "string \<Rightarrow> string option"
  sv_PathEscape :: "string \<Rightarrow> string"
  sv_QueryEscape :: "string \<Rightarrow> string"
  sv_SetQuery :: "string \<Rightarrow> string \<Rightarrow> string \<Rightarrow> go_error + string"
  sv_Net :: NetLib
  sv_TrustedOriginResolver :: "(nat \<Rightarrow> Request \<Rightarrow> go_error + string list) option"

record 'd Server =
  srv_cfg :: "'d Config"
  srv_services :: Services
  srv_trustedOrigins :: trustedOriginPolicy
  srv_allowedReturns :: "string list"

section \<open>The response and the world\<close>

record Cookie =
  co_Name :: string
  co_Value :: string
  co_Expires :: "gtime option"
  co_MaxAge :: int
  co_Secure :: bool
  co_HttpOnly :: bool
  co_SameSite :: int

record sessionSummary =
  sum_ID :: string
  sum_UserID :: string
  sum_ExpiresAt :: gtime
  sum_CreatedAt :: gtime
  sum_UpdatedAt :: gtime
  sum_LastSeenAt :: gtime
  sum_ImpersonatorID :: string
  sum_ImpersonationID :: string
  sum_Current :: bool

datatype json =
    JNull
  | JBool bool
  | JStr string
  | JVal val
  | JUser User
  | JSession Session
  | JAccounts "OAuthAccount list"
  | JSummaries "sessionSummary list"
  | JObj "(string \<times> json) list"

record Response =
  rs_Status :: "int option"
  rs_Headers :: "(string \<times> string) list"
  rs_Cookies :: "Cookie list"
  rs_Body :: "json option"

text \<open>
  What a handler reads and writes: the database, the number of external calls so far, the
  requests put to the rate limiter, the mails handed to the mailer, the users handed to
  background tasks, and the response.
\<close>

record 'd world =
  w_db :: 'd
  w_calls :: nat
  w_limits :: "RateLimitRequest list"
  w_mails :: "Mail list"
  w_tasks :: "User list"
  w_resp :: Response

type_synonym ('d, 'a) action = "('d world, 'a) prog"

definition empty_response :: Response where
  "empty_response = \<lparr>rs_Status = None, rs_Headers = [], rs_Cookies = [], rs_Body = None\<rparr>"

text \<open>A call of the store, and an external call.\<close>

definition onDB :: "('d, 'a) prog \<Rightarrow> ('d, 'a) action" where
  "onDB m = (\<lambda>w. case m (w_db w) of (r, d) \<Rightarrow> (r, w\<lparr>w_db := d\<rparr>))"

definition external :: "(nat \<Rightarrow> go_error + 'a) \<Rightarrow> ('d, 'a) action" where
  "external f = (\<lambda>w. (f (w_calls w), w\<lparr>w_calls := Suc (w_calls w)\<rparr>))"

definition Token :: "'d Server \<Rightarrow> int \<Rightarrow> ('d, string) action" where
  "Token s n = external (\<lambda>k. sv_Token (srv_services s) k n)"

definition Now :: "'d Server \<Rightarrow> ('d, gtime) action" where
  "Now s = external (\<lambda>k. Inr (sv_Now (srv_services s) k))"

definition HashToken :: "'d Server \<Rightarrow> string \<Rightarrow> string" where
  "HashToken s raw = sv_HashToken (srv_services s) raw"

definition PasswordHash :: "'d Server \<Rightarrow> string \<Rightarrow> ('d, string) action" where
  "PasswordHash s password = external (\<lambda>k. sv_Hash (srv_services s) k password)"

definition PasswordVerify :: "'d Server \<Rightarrow> string \<Rightarrow> string \<Rightarrow> ('d, PasswordVerification) action" where
  "PasswordVerify s hash password = external (\<lambda>k. sv_Verify (srv_services s) k hash password)"

definition Send :: "'d Server \<Rightarrow> Mail \<Rightarrow> ('d, unit) action" where
  "Send s m = (\<lambda>w. case sv_Send (srv_services s) (w_calls w) m of
     None \<Rightarrow> (Inr (), w\<lparr>w_calls := Suc (w_calls w), w_mails := w_mails w @ [m]\<rparr>)
   | Some e \<Rightarrow> (Inl e, w\<lparr>w_calls := Suc (w_calls w)\<rparr>))"

text \<open>The schema gate, which the trusted calls pass before anything else.\<close>

definition requireSchema :: "'d Server \<Rightarrow> ('d, unit) action" where
  "requireSchema s = external (\<lambda>k. case sv_RequireSchema (srv_services s) k of None \<Rightarrow> Inr () | Some e \<Rightarrow> Inl e)"

text \<open>A lifecycle hook: skipped when it is nil.\<close>

definition runHook :: "hook \<Rightarrow> User \<Rightarrow> ('d, unit) action" where
  "runHook h user = (case h of
     None \<Rightarrow> ret ()
   | Some f \<Rightarrow> external (\<lambda>k. case f k user of None \<Rightarrow> Inr () | Some e \<Rightarrow> Inl e))"

section \<open>Writing the response\<close>

definition setHeader :: "string \<Rightarrow> string \<Rightarrow> ('d, unit) action" where
  "setHeader k v = (\<lambda>w. (Inr (), w\<lparr>w_resp := (w_resp w)\<lparr>rs_Headers := put k v (rs_Headers (w_resp w))\<rparr>\<rparr>))"

definition SetCookie :: "Cookie \<Rightarrow> ('d, unit) action" where
  "SetCookie c = (\<lambda>w. (Inr (), w\<lparr>w_resp := (w_resp w)\<lparr>rs_Cookies := rs_Cookies (w_resp w) @ [c]\<rparr>\<rparr>))"

definition WriteHeader :: "int \<Rightarrow> ('d, unit) action" where
  "WriteHeader st = (\<lambda>w. (Inr (), w\<lparr>w_resp := (w_resp w)\<lparr>rs_Status := Some st\<rparr>\<rparr>))"

definition writeJSON :: "int \<Rightarrow> json \<Rightarrow> ('d, unit) action" where
  "writeJSON st v = (\<lambda>w. (Inr (), w\<lparr>w_resp := (w_resp w)\<lparr>rs_Status := Some st, rs_Body := Some v\<rparr>\<rparr>))"

text \<open>\<open>http.Redirect\<close>: the content type is set already, so it writes no body.\<close>

definition http_Redirect :: "string \<Rightarrow> int \<Rightarrow> ('d, unit) action" where
  "http_Redirect url code = bindM (setHeader ''Location'' url) (\<lambda>_. WriteHeader code)"

fun httpErrorCode :: "ErrorCode \<Rightarrow> string" where
  "httpErrorCode CodeBadRequest = ''BAD_REQUEST''"
| "httpErrorCode CodeValidation = ''VALIDATION_ERROR''"
| "httpErrorCode CodeInvalidEmail = ''INVALID_EMAIL''"
| "httpErrorCode CodePasswordTooShort = ''PASSWORD_TOO_SHORT''"
| "httpErrorCode CodePasswordTooLong = ''PASSWORD_TOO_LONG''"
| "httpErrorCode CodeInvalidCredentials = ''INVALID_EMAIL_OR_PASSWORD''"
| "httpErrorCode CodeEmailNotVerified = ''EMAIL_NOT_VERIFIED''"
| "httpErrorCode CodeEmailMismatch = ''EMAIL_MISMATCH''"
| "httpErrorCode CodeEmailAlreadyVerified = ''EMAIL_ALREADY_VERIFIED''"
| "httpErrorCode CodeInvalidPassword = ''INVALID_PASSWORD''"
| "httpErrorCode CodeCredentialNotFound = ''CREDENTIAL_ACCOUNT_NOT_FOUND''"
| "httpErrorCode CodeAccountNotFound = ''ACCOUNT_NOT_FOUND''"
| "httpErrorCode CodeUnlinkLastAccount = ''FAILED_TO_UNLINK_LAST_ACCOUNT''"
| "httpErrorCode CodeLinkingNotAllowed = ''LINKING_NOT_ALLOWED''"
| "httpErrorCode CodeLinkingDifferentEmails = ''LINKING_DIFFERENT_EMAILS_NOT_ALLOWED''"
| "httpErrorCode CodeAccountLinkedElsewhere = ''ACCOUNT_ALREADY_LINKED_TO_DIFFERENT_USER''"
| "httpErrorCode CodeAccountNotLinked = ''ACCOUNT_NOT_LINKED''"
| "httpErrorCode CodeOAuthSignUpDisabled = ''SIGNUP_DISABLED''"
| "httpErrorCode CodeProviderNotSupported = ''PROVIDER_NOT_SUPPORTED''"
| "httpErrorCode CodeTokenRefreshUnsupported = ''TOKEN_REFRESH_NOT_SUPPORTED''"
| "httpErrorCode CodeRefreshTokenNotFound = ''REFRESH_TOKEN_NOT_FOUND''"
| "httpErrorCode CodeFailedRefreshToken = ''FAILED_TO_REFRESH_ACCESS_TOKEN''"
| "httpErrorCode CodeSignUpDisabled = ''EMAIL_PASSWORD_SIGN_UP_DISABLED''"
| "httpErrorCode CodeUserAlreadyExists = ''USER_ALREADY_EXISTS_USE_ANOTHER_EMAIL''"
| "httpErrorCode CodeUnauthorized = ''UNAUTHORIZED''"
| "httpErrorCode CodeForbidden = ''FORBIDDEN''"
| "httpErrorCode CodeInvalidCSRF = ''FORBIDDEN''"
| "httpErrorCode CodeCannotImpersonateAdmins = ''YOU_CANNOT_IMPERSONATE_ADMINS''"
| "httpErrorCode CodeCannotImpersonateUsers = ''YOU_ARE_NOT_ALLOWED_TO_IMPERSONATE_USERS''"
| "httpErrorCode CodeSessionNotFresh = ''SESSION_NOT_FRESH''"
| "httpErrorCode CodeNotFound = ''NOT_FOUND''"
| "httpErrorCode CodeConflict = ''CONFLICT''"
| "httpErrorCode CodeRateLimited = ''TOO_MANY_REQUESTS''"
| "httpErrorCode CodeInvalidOrigin = ''INVALID_ORIGIN''"
| "httpErrorCode CodeInvalidToken = ''INVALID_TOKEN''"
| "httpErrorCode CodeProviderFailure = ''PROVIDER_ERROR''"
| "httpErrorCode CodeMethodNotAllowed = ''METHOD_NOT_ALLOWED''"
| "httpErrorCode CodeTOTPAlreadyEnabled = ''TOTP_ALREADY_ENABLED''"
| "httpErrorCode CodeSchemaMismatch = ''SCHEMA_MISMATCH''"
| "httpErrorCode CodeInternal = ''INTERNAL_SERVER_ERROR''"
| "httpErrorCode CodeEmpty = ''INTERNAL_SERVER_ERROR''"

text \<open>
  \<open>writeError\<close>: the first public error of the chain, or a generic internal error; the retry
  delay in nanoseconds is rounded to seconds and kept between a second and a day.
\<close>

definition internalError :: "go_error \<Rightarrow> go_error" where
  "internalError e = publicError CodeInternal ''The request could not be completed.'' 500 (Some e)"

definition shownError :: "go_error \<Rightarrow> go_error" where
  "shownError e =
     (case errors_As e of
        Some (ErrPublic code msg status ra cause) \<Rightarrow>
          if status < 400 \<or> status > 599 \<or> code = CodeEmpty \<or> msg = '''' then internalError e
          else ErrPublic code msg status ra cause
      | _ \<Rightarrow> internalError e)"

definition retrySeconds :: "int \<Rightarrow> int" where
  "retrySeconds ra = (let seconds = (ra + 500000000) div 1000000000 in
     if seconds < 1 then 1 else if seconds > 24 * 60 * 60 then 24 * 60 * 60 else seconds)"

definition writeError :: "string \<Rightarrow> go_error \<Rightarrow> ('d, unit) action" where
  "writeError requestID err =
     (case shownError err of
        ErrPublic code msg status ra cause \<Rightarrow>
          bindM (if ra > 0 then setHeader ''Retry-After'' (Itoa (retrySeconds ra)) else ret ()) (\<lambda>_.
            writeJSON status (JObj ([(''code'', JStr (httpErrorCode code)), (''message'', JStr msg)] @
              (if requestID \<noteq> '''' then [(''requestId'', JStr requestID)] else []))))
      | _ \<Rightarrow> ret ())"

end
