(* ===== verification/Server_Core.thy ===== *)
theory Server_Core
  imports Server
begin

text \<open>
  The helpers of \<open>server.go\<close> that every handler uses: bodies, emails, sessions, cookies, CSRF,
  origins, rate limits and redirects, and the sessions that plugins issue and resume.
\<close>

section \<open>Bodies\<close>

text \<open>
  A body as \<open>encoding/json\<close> reads it: nothing, no readable JSON within the size limit, the
  literal null, another value that is no object, or an object with its members in order; the flag
  says that more input follows the value.
\<close>

datatype body =
    DocEmpty
  | DocInvalid
  | DocNull bool
  | DocOther
  | DocObject "(string \<times> val) list" bool

datatype field_kind = KStr | KBool

text \<open>
  Decoding into a struct with \<open>DisallowUnknownFields\<close>: a member is matched to a field by its
  exact name or else without regard to case, null leaves the field, a value of another type and
  an unknown name are errors.
\<close>

definition struct_field :: "(string \<times> field_kind) list \<Rightarrow> string \<Rightarrow> (string \<times> field_kind) option" where
  "struct_field fs k =
     (case List.find (\<lambda>f. fst f = k) fs of
        Some f \<Rightarrow> Some f
      | None \<Rightarrow> List.find (\<lambda>f. ToLower (fst f) = ToLower k) fs)"

definition decode_member ::
  "(string \<times> field_kind) list \<Rightarrow> Record \<Rightarrow> string \<times> val \<Rightarrow> go_error + Record" where
  "decode_member fs r kv =
     (case struct_field fs (fst kv) of
        None \<Rightarrow> Inl (ErrText ''json: unknown field'')
      | Some (name, kind) \<Rightarrow>
          (case (kind, snd kv) of
             (_, VNil) \<Rightarrow> Inr r
           | (KStr, VStr v) \<Rightarrow> Inr (r(name \<mapsto> VStr v))
           | (KBool, VBool b) \<Rightarrow> Inr (r(name \<mapsto> VBool b))
           | _ \<Rightarrow> Inl (ErrText ''json: cannot unmarshal'')))"

definition decodeStruct :: "(string \<times> field_kind) list \<Rightarrow> body \<Rightarrow> go_error + Record" where
  "decodeStruct fs doc =
     (case doc of
        DocObject kvs _ \<Rightarrow> foldE (decode_member fs) Map.empty kvs
      | DocNull _ \<Rightarrow> Inr Map.empty
      | DocOther \<Rightarrow> Inl (ErrText ''json: cannot unmarshal'')
      | DocInvalid \<Rightarrow> Inl (ErrText ''invalid JSON'')
      | DocEmpty \<Rightarrow> Inl (ErrText ''EOF''))"

text \<open>Decoding into \<open>map[string]any\<close>: the last member of a name wins.\<close>

definition decodeMap :: "body \<Rightarrow> go_error + (string \<times> val) list" where
  "decodeMap doc =
     (case doc of
        DocObject kvs _ \<Rightarrow> Inr (foldl (\<lambda>m (k, v). put k v m) [] kvs)
      | DocNull _ \<Rightarrow> Inr []
      | DocOther \<Rightarrow> Inl (ErrText ''json: cannot unmarshal'')
      | DocInvalid \<Rightarrow> Inl (ErrText ''invalid JSON'')
      | DocEmpty \<Rightarrow> Inl (ErrText ''EOF''))"

definition trailing :: "body \<Rightarrow> bool" where
  "trailing doc = (case doc of DocObject _ t \<Rightarrow> t | DocNull t \<Rightarrow> t | _ \<Rightarrow> False)"

definition decodeJSON :: "(body \<Rightarrow> go_error + 'a) \<Rightarrow> body \<Rightarrow> ('d, 'a) action" where
  "decodeJSON dec doc =
     (case dec doc of
        Inl e \<Rightarrow> fail (publicError CodeBadRequest ''Invalid JSON request.'' 400 (Some e))
      | Inr v \<Rightarrow>
          if trailing doc
          then fail (publicError CodeBadRequest ''The request must contain one JSON object.'' 400 None)
          else ret v)"

definition decodeOptionalJSON :: "'a \<Rightarrow> (body \<Rightarrow> go_error + 'a) \<Rightarrow> body \<Rightarrow> ('d, 'a) action" where
  "decodeOptionalJSON zero dec doc = (if doc = DocEmpty then ret zero else decodeJSON dec doc)"

definition inStr :: "Record \<Rightarrow> string \<Rightarrow> string" where
  "inStr r f = optionalString (fld r f)"

definition inBool :: "Record \<Rightarrow> string \<Rightarrow> bool" where
  "inBool r f = optionalBool (fld r f)"

definition normalizeEmail :: "'d Server \<Rightarrow> string \<Rightarrow> go_error + string" where
  "normalizeEmail s value =
     (let value = ToLower (TrimSpace value) in
      if length value < 3 \<or> length value > 254 \<or> ContainsAny value [CHR 0x0D, CHR 0x0A]
      then Inl (ErrText ''email length is invalid'')
      else if sv_ParseAddress (srv_services s) value \<noteq> Some value then Inl (ErrText ''email is invalid'')
      else Inr value)"

section \<open>Sessions\<close>

definition newID :: "'d Server \<Rightarrow> ('d, string) action" where
  "newID s = Token s 16"

definition newSession :: "'d Server \<Rightarrow> string \<Rightarrow> gtime \<Rightarrow> ('d, Session \<times> string) action" where
  "newSession s userID duration =
     bindM (Token s 32) (\<lambda>raw.
     bindM (newID s) (\<lambda>sid.
     bindM (Now s) (\<lambda>now.
       ret (\<lparr>ss_ID = sid, ss_UserID = userID, ss_TokenHash = HashToken s raw, ss_ExpiresAt = now + duration,
         ss_CreatedAt = now, ss_UpdatedAt = now, ss_LastSeenAt = now, ss_RevokedAt = None,
         ss_ImpersonatorID = '''', ss_ImpersonationID = ''''\<rparr>, raw))))"

definition requestCookie :: "Request \<Rightarrow> string \<Rightarrow> string option" where
  "requestCookie r name = map_of (rq_Cookies r) name"

definition unauthorized :: "go_error option \<Rightarrow> go_error" where
  "unauthorized cause = publicError CodeUnauthorized ''Authentication required.'' 401 cause"

definition resolveSession :: "'d Server \<Rightarrow> Request \<Rightarrow> ('d, (Session \<times> User) \<times> string) action" where
  "resolveSession s r =
     (case requestCookie r (ck_Name (cfg_Cookie (srv_cfg s))) of
        None \<Rightarrow> fail ErrNoSession
      | Some cookie \<Rightarrow>
          if cookie = '''' \<or> length cookie > 2048 then fail ErrNoSession
          else
            bindM (mapErr (\<lambda>err. if errors_Is err ErrNotFound then ErrNoSession
                          else ErrWrap ''betterauth: resolve session'' err)
              (onDB (SessionByTokenHash (cfg_Database (srv_cfg s)) (HashToken s cookie)))) (\<lambda>(session, user).
            bindM (Now s) (\<lambda>now.
              if ss_RevokedAt session \<noteq> None \<or> \<not> ss_ExpiresAt session > now \<or> u_DisabledAt user \<noteq> None
              then fail ErrNoSession
              else ret ((session, user), cookie))))"

definition sessionFromRequest :: "'d Server \<Rightarrow> Request \<Rightarrow> ('d, Session \<times> User \<times> string) action" where
  "sessionFromRequest s r =
     bindM (mapErr (\<lambda>err. unauthorized (Some err)) (resolveSession s r)) (\<lambda>((session, user), raw).
       ret (session, user, raw))"

text \<open>Whole seconds of a duration in nanoseconds, truncated to zero.\<close>

definition seconds :: "int \<Rightarrow> int" where
  "seconds d = (if d \<ge> 0 then d div 1000000000 else - ((- d) div 1000000000))"

definition setSessionCookie :: "'d Server \<Rightarrow> string \<Rightarrow> gtime \<Rightarrow> ('d, unit) action" where
  "setSessionCookie s raw expires =
     bindM (Now s) (\<lambda>now.
       SetCookie \<lparr>co_Name = ck_Name (cfg_Cookie (srv_cfg s)), co_Value = raw, co_Expires = Some expires,
         co_MaxAge = seconds (expires - now), co_Secure = True, co_HttpOnly = True,
         co_SameSite = ck_SameSite (cfg_Cookie (srv_cfg s))\<rparr>)"

text \<open>The Unix time 1, counted from the zero time.\<close>

definition unix_one :: gtime where
  "unix_one = (62135596800 + 1) * 1000000000"

definition clearSessionCookie :: "'d Server \<Rightarrow> ('d, unit) action" where
  "clearSessionCookie s =
     SetCookie \<lparr>co_Name = ck_Name (cfg_Cookie (srv_cfg s)), co_Value = '''', co_Expires = Some unix_one,
       co_MaxAge = -1, co_Secure = True, co_HttpOnly = True,
       co_SameSite = ck_SameSite (cfg_Cookie (srv_cfg s))\<rparr>"

definition sessionTransitionCookies :: "'d Server \<Rightarrow> string \<Rightarrow> string \<Rightarrow> gtime \<Rightarrow> ('d, Cookie list) action" where
  "sessionTransitionCookies s raw csrf expires =
     bindM (Now s) (\<lambda>now.
       let maxAge = seconds (expires - now); cookie = cfg_Cookie (srv_cfg s) in
       ret [\<lparr>co_Name = ck_Name cookie, co_Value = raw, co_Expires = Some expires, co_MaxAge = maxAge,
             co_Secure = True, co_HttpOnly = True, co_SameSite = ck_SameSite cookie\<rparr>,
            \<lparr>co_Name = ck_CSRFName cookie, co_Value = csrf, co_Expires = Some expires, co_MaxAge = maxAge,
             co_Secure = True, co_HttpOnly = False, co_SameSite = ck_SameSite cookie\<rparr>])"

record IssuedSession =
  is_Session :: Session
  is_User :: User
  is_csrf :: string
  is_cookies :: "Cookie list"

definition issuePluginSessionUsing ::
  "'d Server \<Rightarrow> Request \<Rightarrow> 'd database_adapter \<Rightarrow> string \<Rightarrow> bool \<Rightarrow> ('d, IssuedSession) action" where
  "issuePluginSessionUsing s r database userID rotateCurrent =
     (if userID = '''' then fail (unauthorized None)
      else
        bindM (mapErr (\<lambda>err. unauthorized (Some err)) (onDB (FindUserByID database userID))) (\<lambda>user.
        if u_DisabledAt user \<noteq> None then fail (unauthorized None)
        else
          bindM (newSession s (u_ID user) (cfg_SessionDuration (srv_cfg s))) (\<lambda>(replacement, raw).
          bindM (Token s 32) (\<lambda>csrf.
          bindM (if rotateCurrent
            then bindM (tryM (sessionFromRequest s r)) (\<lambda>current.
              mapErr (\<lambda>err. unauthorized (Some err))
                (case current of
                   Inr (_, _, currentRaw) \<Rightarrow> onDB (RotateSession database (HashToken s currentRaw) replacement)
                 | Inl _ \<Rightarrow> onDB (CreateSession database replacement)))
            else mapErr (\<lambda>err. unauthorized (Some err)) (onDB (CreateSession database replacement))) (\<lambda>replacement.
          bindM (sessionTransitionCookies s raw csrf (ss_ExpiresAt replacement)) (\<lambda>cookies.
            ret \<lparr>is_Session = replacement, is_User = user, is_csrf = csrf, is_cookies = cookies\<rparr>))))))"

definition issuePluginSession :: "'d Server \<Rightarrow> Request \<Rightarrow> string \<Rightarrow> ('d, IssuedSession) action" where
  "issuePluginSession s r userID = issuePluginSessionUsing s r (cfg_Database (srv_cfg s)) userID True"

definition issuePluginSessionWithDatabase ::
  "'d Server \<Rightarrow> Request \<Rightarrow> 'd database_adapter option \<Rightarrow> string \<Rightarrow> ('d, IssuedSession) action" where
  "issuePluginSessionWithDatabase s r database userID =
     (case database of
        None \<Rightarrow> fail (ErrText ''betterauth: session transaction adapter is nil'')
      | Some db \<Rightarrow> issuePluginSessionUsing s r db userID False)"

definition resumePluginSession :: "'d Server \<Rightarrow> string \<Rightarrow> ('d, IssuedSession) action" where
  "resumePluginSession s raw =
     (if raw = '''' \<or> length raw > 2048 then fail ErrNoSession
      else
        bindM (mapErr (\<lambda>err. if errors_Is err ErrNotFound then ErrNoSession
                          else ErrWrap ''betterauth: resume session'' err)
          (onDB (SessionByTokenHash (cfg_Database (srv_cfg s)) (HashToken s raw)))) (\<lambda>(session, user).
        if ss_RevokedAt session \<noteq> None \<or> u_DisabledAt user \<noteq> None then fail ErrNoSession
        else
          bindM (Now s) (\<lambda>now.
          if \<not> ss_ExpiresAt session > now then fail ErrSessionExpired
          else
            bindM (Token s 32) (\<lambda>csrf.
            bindM (sessionTransitionCookies s raw csrf (ss_ExpiresAt session)) (\<lambda>cookies.
              ret \<lparr>is_Session = session, is_User = user, is_csrf = csrf, is_cookies = cookies\<rparr>)))))"

definition revokePreviousBrowserSession :: "'d Server \<Rightarrow> Request \<Rightarrow> string \<Rightarrow> ('d, unit) action" where
  "revokePreviousBrowserSession s r replacementRaw =
     bindM (tryM (sessionFromRequest s r)) (\<lambda>current.
     case current of
       Inl _ \<Rightarrow> ret ()
     | Inr (_, _, currentRaw) \<Rightarrow>
         if currentRaw = replacementRaw then ret ()
         else
           bindM (Now s) (\<lambda>now.
           bindM (tryM (onDB (RevokeSession (cfg_Database (srv_cfg s)) (HashToken s currentRaw) now)))
             (\<lambda>_. ret ())))"

definition rotateOrCreateBrowserSession :: "'d Server \<Rightarrow> Request \<Rightarrow> Session \<Rightarrow> ('d, Session) action" where
  "rotateOrCreateBrowserSession s r replacement =
     bindM (tryM (sessionFromRequest s r)) (\<lambda>current.
     case current of
       Inr (_, _, currentRaw) \<Rightarrow>
         onDB (RotateSession (cfg_Database (srv_cfg s)) (HashToken s currentRaw) replacement)
     | Inl _ \<Rightarrow> onDB (CreateSession (cfg_Database (srv_cfg s)) replacement))"

definition requireFreshSession :: "'d Server \<Rightarrow> Session \<Rightarrow> ('d, unit) action" where
  "requireFreshSession s session =
     bindM (Now s) (\<lambda>now.
       failIf (now - ss_CreatedAt session > cfg_SessionFreshAge (srv_cfg s))
         (publicError CodeSessionNotFresh ''Session is not fresh'' 403 None))"

section \<open>CSRF, origins and rate limits\<close>

definition csrfError :: go_error where
  "csrfError = publicError CodeInvalidCSRF ''CSRF validation failed.'' 403 None"

definition requireCSRF :: "'d Server \<Rightarrow> Request \<Rightarrow> ('d, unit) action" where
  "requireCSRF s r =
     (let header = rq_Header r ''X-CSRF-Token'' in
      case requestCookie r (ck_CSRFName (cfg_Cookie (srv_cfg s))) of
        None \<Rightarrow> fail (publicError CodeInvalidCSRF ''CSRF validation failed.'' 403
                     (Some (ErrText ''http: named cookie not present'')))
      | Some cookie \<Rightarrow>
          if cookie = '''' \<or> header = '''' \<or> length cookie > 512 \<or> length header > 512 then fail csrfError
          else if HashToken s cookie \<noteq> HashToken s header then fail csrfError
          else ret ())"

definition ensureCSRFCookie :: "'d Server \<Rightarrow> Request \<Rightarrow> ('d, unit) action" where
  "ensureCSRFCookie s r =
     (let fresh =
        bindM (Token s 32) (\<lambda>raw.
        bindM (SetCookie \<lparr>co_Name = ck_CSRFName (cfg_Cookie (srv_cfg s)), co_Value = raw, co_Expires = None,
            co_MaxAge = 0, co_Secure = True, co_HttpOnly = False,
            co_SameSite = ck_SameSite (cfg_Cookie (srv_cfg s))\<rparr>) (\<lambda>_.
          setHeader ''X-CSRF-Token'' raw)) in
      case requestCookie r (ck_CSRFName (cfg_Cookie (srv_cfg s))) of
        Some cookie \<Rightarrow>
          if cookie \<noteq> '''' \<and> length cookie \<le> 512 then setHeader ''X-CSRF-Token'' cookie else fresh
      | None \<Rightarrow> fresh)"

definition InferNullOrigin :: "Request \<Rightarrow> string \<Rightarrow> string" where
  "InferNullOrigin r publicURL =
     (let origin = rq_Header r ''Origin'' in
      if origin \<noteq> ''null'' \<or> rq_Header r ''Sec-Fetch-Site'' \<noteq> ''same-origin'' \<or> rq_Host r = '''' then origin
      else case Cut publicURL ''://'' of
             None \<Rightarrow> origin
           | Some (scheme, _) \<Rightarrow> if scheme = '''' then origin else scheme @ ''://'' @ rq_Host r)"

definition originError :: "go_error option \<Rightarrow> go_error" where
  "originError cause = publicError CodeInvalidOrigin ''Invalid origin'' 403 cause"

text \<open>
  \<open>resolveTrustedOrigins\<close>: the configured policy and the values of the resolver. Its result is
  kept in the request's context, so the resolver is asked once per request.
\<close>

definition resolveTrustedOrigins :: "'d Server \<Rightarrow> Request \<Rightarrow> ('d, trustedOriginPolicy) action" where
  "resolveTrustedOrigins s r =
     (case sv_TrustedOriginResolver (srv_services s) of
        None \<Rightarrow> ret (srv_trustedOrigins s)
      | Some resolver \<Rightarrow>
          bindM (mapErr (\<lambda>e. originError (Some (ErrWrap ''betterauth: trusted origin resolver'' e)))
            (external (\<lambda>k. resolver k r))) (\<lambda>vs.
          bindM (mapErr (\<lambda>e. originError (Some e))
            (lift (compileTrustedOriginPolicy (sv_Net (srv_services s)) vs))) (\<lambda>dynamic.
          let policy = merged (srv_trustedOrigins s) dynamic in
          if length (to_values policy) > 128
          then fail (originError (Some (ErrText ''too many resolved trusted origins'')))
          else ret policy)))"

definition checkOrigin :: "'d Server \<Rightarrow> Request \<Rightarrow> ('d, unit) action" where
  "checkOrigin s r =
     (let raw = InferNullOrigin r (cfg_PublicURL (srv_cfg s)) in
      if raw = '''' then fail (originError None)
      else
        bindM (resolveTrustedOrigins s r) (\<lambda>policy.
          failIf (\<not> policy_matches (sv_Net (srv_services s)) policy raw) (originError None)))"

definition ParseIP :: "'d Server \<Rightarrow> string \<Rightarrow> bool" where
  "ParseIP s v \<longleftrightarrow> nl_ParseIP (sv_Net (srv_services s)) v \<noteq> None"

definition remoteIP :: "'d Server \<Rightarrow> Request \<Rightarrow> string" where
  "remoteIP s r =
     (let forwarded = TrimSpace (takeWhile (\<lambda>c. c \<noteq> CHR '','') (rq_Header r ''X-Forwarded-For''));
          direct =
            (case sv_SplitHostPort (srv_services s) (rq_RemoteAddr r) of
               Some host \<Rightarrow> if ParseIP s host then host
                            else if ParseIP s (rq_RemoteAddr r) then rq_RemoteAddr r else ''''
             | None \<Rightarrow> if ParseIP s (rq_RemoteAddr r) then rq_RemoteAddr r else '''')
      in if cfg_TrustProxyHeaders (srv_cfg s) \<and> ParseIP s forwarded then forwarded else direct)"

text \<open>\<open>rateLimit\<close>; a panic of the limiter is one of its errors.\<close>

definition rateLimit :: "'d Server \<Rightarrow> Request \<Rightarrow> string \<Rightarrow> string \<Rightarrow> ('d, unit) action" where
  "rateLimit s r action accountKey = (\<lambda>w.
     let request = \<lparr>rl_Action = action, rl_IP = remoteIP s r, rl_AccountKey = accountKey,
       rl_Window = 0, rl_Max = 0\<rparr>;
         w' = w\<lparr>w_calls := Suc (w_calls w), w_limits := w_limits w @ [request]\<rparr>
     in case sv_Allow (srv_services s) (w_calls w) request of
          Inl err \<Rightarrow> (Inl (internalError err), w')
        | Inr decision \<Rightarrow>
            if \<not> rd_Allowed decision
            then (Inl (ErrPublic CodeRateLimited ''Too many requests.'' 429 (rd_RetryAfter decision) None), w')
            else (Inr (), w'))"

definition truncate_bytes :: "string \<Rightarrow> nat \<Rightarrow> string" where
  "truncate_bytes value m = (if length value \<le> m then value else take m value)"

definition sanitizeRequestID :: "string \<Rightarrow> string" where
  "sanitizeRequestID value =
     (let value = TrimSpace value in
      if length value > 128 \<or> ContainsAny value [CHR 0x0D, CHR 0x0A] then '''' else value)"

definition requestMetadata :: "'d Server \<Rightarrow> Request \<Rightarrow> RequestMetadata" where
  "requestMetadata s r =
     \<lparr>rm_RequestID = sanitizeRequestID (rq_Header r ''X-Request-ID''), rm_IP = remoteIP s r,
      rm_UserAgent = truncate_bytes (TrimSpace (rq_Header r ''User-Agent'')) 512\<rparr>"

definition actionURL :: "'d Server \<Rightarrow> string \<Rightarrow> string \<Rightarrow> string" where
  "actionURL s route token =
     cfg_PublicURL (srv_cfg s) @ cfg_BasePath (srv_cfg s) @ route @ ''?token='' @ token"

section \<open>Redirects\<close>

definition callbackError :: "go_error option \<Rightarrow> go_error" where
  "callbackError cause = publicError CodeBadRequest ''Callback URL is not allowed.'' 400 cause"

definition allowedRedirect :: "'d Server \<Rightarrow> string \<Rightarrow> ('d, string) action" where
  "allowedRedirect s raw =
     (let nl = sv_Net (srv_services s) in
      if raw = '''' then ret ''''
      else
        bindM (mapErr (\<lambda>err. callbackError (Some err)) (lift (nl_Parse nl raw))) (\<lambda>parsed.
        bindM (if url_Scheme parsed = ''''
               then bindM (lift (nl_Parse nl (cfg_PublicURL (srv_cfg s)))) (\<lambda>base. ret (nl_Resolve nl base parsed))
               else ret parsed) (\<lambda>parsed.
        bindM (mapErr (\<lambda>err. callbackError (Some err)) (lift (validateHTTPSURL nl (nl_String nl parsed) True))) (\<lambda>checked.
        let canonical = nl_String nl checked in
        if canonical \<in> set (srv_allowedReturns s) then ret canonical else fail (callbackError None)))))"

definition allowedLifecycleRedirect :: "'d Server \<Rightarrow> string \<Rightarrow> ('d, string) action" where
  "allowedLifecycleRedirect s raw = (if raw = ''/'' then ret raw else allowedRedirect s raw)"

definition allowedDeletionRedirect :: "'d Server \<Rightarrow> string \<Rightarrow> ('d, string) action" where
  "allowedDeletionRedirect s raw = (if raw = ''/'' then ret raw else allowedRedirect s raw)"

definition redirectWithParameter :: "'d Server \<Rightarrow> string \<Rightarrow> string \<Rightarrow> string \<Rightarrow> ('d, unit) action" where
  "redirectWithParameter s rawURL key v =
     bindM (lift (sv_SetQuery (srv_services s) rawURL key v)) (\<lambda>target. http_Redirect target 302)"

section \<open>Passwords\<close>

definition checkPasswordNotTooLong :: "string \<Rightarrow> int \<Rightarrow> go_error + unit" where
  "checkPasswordNotTooLong password limit =
     (let limit = (if limit \<le> 0 then 128 else limit) in
      if int (length password) > limit
      then Inl (publicError CodePasswordTooLong ''Password too long'' 400 None) else Inr ())"

definition passwordTooLongError :: "'d Server \<Rightarrow> string \<Rightarrow> ('d, unit) action" where
  "passwordTooLongError s password =
     lift (checkPasswordNotTooLong password (cfg_MaxPasswordBytes (srv_cfg s)))"

definition passwordPolicyError :: "'d Server \<Rightarrow> string \<Rightarrow> ('d, unit) action" where
  "passwordPolicyError s password =
     (if int (length password) < cfg_MinPasswordBytes (srv_cfg s)
      then fail (publicError CodePasswordTooShort ''Password too short'' 400 None)
      else passwordTooLongError s password)"

definition invalidCredentials :: "go_error option \<Rightarrow> go_error" where
  "invalidCredentials cause = publicError CodeInvalidCredentials ''Invalid email or password'' 401 cause"

definition burnPasswordHash :: "'d Server \<Rightarrow> string \<Rightarrow> ('d, unit) action" where
  "burnPasswordHash s password = bindM (PasswordHash s password) (\<lambda>_. ret ())"

section \<open>Mails with a token\<close>

definition issueOneTimeMail ::
  "'d Server \<Rightarrow> User \<Rightarrow> OneTimePurpose \<Rightarrow> string \<Rightarrow> gtime \<Rightarrow> string \<Rightarrow> string \<Rightarrow> ('d, unit) action" where
  "issueOneTimeMail s user purpose kind ttl route callbackURL =
     bindM (Token s 32) (\<lambda>raw.
     bindM (newID s) (\<lambda>tid.
     bindM (Now s) (\<lambda>now.
     let token = \<lparr>ot_ID = tid, ot_UserID = u_ID user, ot_Hash = HashToken s raw, ot_Purpose = purpose,
                  ot_ExpiresAt = now + ttl, ot_CreatedAt = now, ot_Metadata = []\<rparr> in
     bindM (onDB (PutOneTimeToken (cfg_Database (srv_cfg s)) token)) (\<lambda>_.
     let url = (if purpose = PurposePasswordReset
                then cfg_PublicURL (srv_cfg s) @ cfg_BasePath (srv_cfg s) @ route @ ''/'' @
                     sv_PathEscape (srv_services s) raw @
                     ''?callbackURL='' @ sv_QueryEscape (srv_services s) callbackURL
                else actionURL s route raw @
                     (if callbackURL \<noteq> '''' then ''&callbackURL='' @ sv_QueryEscape (srv_services s) callbackURL else '''')) in
     Send s \<lparr>ml_Kind = kind, ml_To = u_Email user, ml_Token = raw, ml_ActionURL = url,
             ml_ExpiresAt = ot_ExpiresAt token\<rparr>))))"

definition issueEmailChangeMail ::
  "'d Server \<Rightarrow> User \<Rightarrow> OneTimePurpose \<Rightarrow> string \<Rightarrow> string \<Rightarrow> string \<Rightarrow> ('d, unit) action" where
  "issueEmailChangeMail s user purpose kind newEmail returnTo =
     bindM (Token s 32) (\<lambda>raw.
     bindM (newID s) (\<lambda>tid.
     bindM (Now s) (\<lambda>now.
     let token = \<lparr>ot_ID = tid, ot_UserID = u_ID user, ot_Hash = HashToken s raw, ot_Purpose = purpose,
                  ot_ExpiresAt = now + cfg_EmailVerificationTTL (srv_cfg s), ot_CreatedAt = now,
                  ot_Metadata = smap_of [(''newEmail'', newEmail), (''returnTo'', returnTo)]\<rparr> in
     bindM (onDB (PutOneTimeToken (cfg_Database (srv_cfg s)) token)) (\<lambda>_.
     let url = actionURL s ''/verify-email'' raw @
               (if returnTo \<noteq> '''' then ''&callbackURL='' @ sv_QueryEscape (srv_services s) returnTo else '''') in
     Send s \<lparr>ml_Kind = kind, ml_To = (if purpose = PurposeEmailChangeConfirmation then u_Email user else newEmail),
             ml_Token = raw, ml_ActionURL = url, ml_ExpiresAt = ot_ExpiresAt token\<rparr>))))"

section \<open>Sign-in of plugins with a provider\<close>

definition sealOptional :: "'d Server \<Rightarrow> string \<Rightarrow> ('d, string) action" where
  "sealOptional s value =
     (if value = '''' then ret '''' else external (\<lambda>k. sv_Seal (srv_services s) k value))"

definition encryptProviderTokens :: "'d Server \<Rightarrow> ProviderTokens \<Rightarrow> ('d, ProviderTokens) action" where
  "encryptProviderTokens s tokens =
     bindM (sealOptional s (pt_AccessToken tokens)) (\<lambda>accessToken.
     bindM (sealOptional s (pt_RefreshToken tokens)) (\<lambda>refreshToken.
     bindM (sealOptional s (pt_IDToken tokens)) (\<lambda>idToken.
       ret (tokens\<lparr>pt_AccessToken := accessToken, pt_RefreshToken := refreshToken, pt_IDToken := idToken\<rparr>))))"

definition orTrue :: "bool option \<Rightarrow> bool" where
  "orTrue b = (case b of None \<Rightarrow> True | Some v \<Rightarrow> v)"

definition autoSignInAfterSignUp :: "'d Config \<Rightarrow> bool" where
  "autoSignInAfterSignUp cfg = orTrue (ep_AutoSignIn (cfg_EmailPassword cfg))"

definition pluginPolicy :: "'d Config \<Rightarrow> OAuthUpsertPolicy" where
  "pluginPolicy cfg =
     (let account = cfg_Account cfg in
      \<lparr>pol_AllowImplicitLink = orTrue (am_LinkingEnabled account) \<and> \<not> am_DisableImplicitLinking account,
       pol_RequireLocalVerification = orTrue (am_RequireLocalEmailVerified account),
       pol_UpdateUserInfoOnLink = am_UpdateUserInfoOnLink account,
       pol_UpdateAccountOnSignIn = orTrue (am_UpdateAccountOnSignIn account),
       pol_AllowSignUp = True\<rparr>)"

definition authenticatePluginOAuth ::
  "'d Server \<Rightarrow> Request \<Rightarrow> OAuthProfile \<Rightarrow> ProviderTokens \<Rightarrow> ('d, IssuedSession \<times> bool) action" where
  "authenticatePluginOAuth s r profile tokens =
     (let unverified = (\<lambda>cause. publicError CodeProviderFailure
            ''The provider did not return a verified identity.'' 502 cause);
          failed = (\<lambda>err. publicError CodeInternal ''External sign in could not be completed.'' 500 (Some err)) in
      if op_Provider profile = '''' \<or> op_ProviderAccountID profile = '''' \<or>
         length (op_Provider profile) > 128 \<or> length (op_ProviderAccountID profile) > 512 \<or>
         \<not> op_EmailVerified profile
      then fail (unverified None)
      else
        bindM (mapErr (\<lambda>e. unverified (Some e)) (lift (normalizeEmail s (op_Email profile)))) (\<lambda>email.
        let profile = profile\<lparr>op_Email := email\<rparr> in
        bindM (mapErr failed (encryptProviderTokens s tokens)) (\<lambda>encrypted.
        bindM (newID s) (\<lambda>userID.
        bindM (newSession s userID (cfg_SessionDuration (srv_cfg s))) (\<lambda>(session, raw).
        bindM (newID s) (\<lambda>eventID.
        let event = \<lparr>de_ID = eventID, de_SchemaVersion = 1, de_Name = EventUserCreated,
              de_AggregateID = userID, de_OccurredAt = ss_CreatedAt session,
              de_Payload = smap_of [(''userId'', userID), (''email'', op_Email profile),
                (''provider'', op_Provider profile)]\<rparr> in
        bindM (mapErr (\<lambda>err. if errors_Is err ErrConflict
              then publicError CodeConflict ''The external account could not be linked.'' 409 (Some err)
              else failed err)
            (onDB (UpsertOAuthUser (cfg_Database (srv_cfg s)) profile encrypted session event
              (pluginPolicy (srv_cfg s))))) (\<lambda>(user, created, isNew).
        bindM (Token s 32) (\<lambda>csrf.
        bindM (revokePreviousBrowserSession s r raw) (\<lambda>_.
        bindM (sessionTransitionCookies s raw csrf (ss_ExpiresAt created)) (\<lambda>cookies.
          ret (\<lparr>is_Session = created, is_User = user, is_csrf = csrf, is_cookies = cookies\<rparr>, isNew)))))))))))"

end
