(* ===== verification/Handlers_Session.thy ===== *)
theory Handlers_Session
  imports Server_Core
begin

text \<open>
  The handlers of \<open>handlers_session.go\<close> (get-session, sign-out, refresh-session) and of
  \<open>handlers_admin.go\<close> (impersonation). A handler takes the server, the request and, where it reads
  one, the body.
\<close>

section \<open>Sessions\<close>

definition handleSession :: "'d Server \<Rightarrow> Request \<Rightarrow> ('d, unit) action" where
  "handleSession s r =
     bindM (tryM (sessionFromRequest s r)) (\<lambda>res.
     case res of
       Inl err \<Rightarrow>
         (case errors_As err of
            Some (ErrPublic CodeUnauthorized _ _ _ _) \<Rightarrow> writeJSON 200 JNull
          | _ \<Rightarrow> fail err)
     | Inr (session, user, _) \<Rightarrow>
         bindM (ensureCSRFCookie s r) (\<lambda>_.
           writeJSON 200 (JObj [(''session'', JSession session), (''user'', JUser user)])))"

definition openOptional :: "'d Server \<Rightarrow> string \<Rightarrow> ('d, string) action" where
  "openOptional s value =
     (if value = '''' then ret '''' else external (\<lambda>k. sv_Open (srv_services s) k value))"

definition decryptProviderTokens :: "'d Server \<Rightarrow> ProviderTokens \<Rightarrow> ('d, ProviderTokens) action" where
  "decryptProviderTokens s tokens =
     bindM (openOptional s (pt_AccessToken tokens)) (\<lambda>accessToken.
     bindM (openOptional s (pt_RefreshToken tokens)) (\<lambda>refreshToken.
     bindM (openOptional s (pt_IDToken tokens)) (\<lambda>idToken.
       ret (tokens\<lparr>pt_AccessToken := accessToken, pt_RefreshToken := refreshToken, pt_IDToken := idToken\<rparr>))))"

text \<open>
  The logout URL one account's provider offers, if any: errors of any step and a URL that is not
  plain HTTPS mean that the account is passed over.
\<close>

definition providerLogoutURL ::
  "'d Server \<Rightarrow> User \<Rightarrow> string \<Rightarrow> string \<Rightarrow> OAuthAccount \<Rightarrow> ('d, string option) action" where
  "providerLogoutURL s user callbackURL state account =
     (case Option.bind (map_of (sv_SocialProviders (srv_services s)) (oa_Provider account)) pr_EndSessionURL of
        None \<Rightarrow> ret None
      | Some endSession \<Rightarrow>
          bindM (tryM (
            bindM (onDB (OAuthAccountTokens (cfg_Database (srv_cfg s)) (u_ID user)
                (oa_Provider account) (oa_ProviderAccountID account))) (\<lambda>stored.
            bindM (decryptProviderTokens s (so_Tokens stored)) (\<lambda>tokens.
            bindM (external (\<lambda>k. endSession k (pt_IDToken tokens) callbackURL state)) (\<lambda>candidate.
            if candidate = '''' then fail (ErrText ''no logout URL'')
            else lift (nl_Parse (sv_Net (srv_services s)) candidate)))))) (\<lambda>res.
          case res of
            Inl _ \<Rightarrow> ret None
          | Inr parsed \<Rightarrow>
              if url_Scheme parsed \<noteq> ''https'' \<or> url_Host parsed = '''' \<or> url_User parsed \<or>
                 CHR ''@'' \<in> set (url_Host parsed)
              then ret None
              else ret (Some (nl_String (sv_Net (srv_services s)) parsed))))"

fun firstLogoutURL ::
  "'d Server \<Rightarrow> User \<Rightarrow> string \<Rightarrow> string \<Rightarrow> OAuthAccount list \<Rightarrow> ('d, string) action" where
  "firstLogoutURL s user callbackURL state [] = ret ''''"
| "firstLogoutURL s user callbackURL state (account # accounts) =
     bindM (providerLogoutURL s user callbackURL state account) (\<lambda>found.
       case found of
         Some url \<Rightarrow> ret url
       | None \<Rightarrow> firstLogoutURL s user callbackURL state accounts)"

definition signOutFields :: "(string \<times> field_kind) list" where
  "signOutFields = [(''callbackURL'', KStr), (''disableRedirect'', KBool), (''state'', KStr)]"

definition handleSignOut :: "'d Server \<Rightarrow> Request \<Rightarrow> body \<Rightarrow> ('d, unit) action" where
  "handleSignOut s r doc =
     bindM (requireCSRF s r) (\<lambda>_.
     bindM (if rq_ContentLength r \<noteq> 0 then decodeJSON (decodeStruct signOutFields) doc else ret Map.empty) (\<lambda>input.
     bindM (failIf (length (inStr input ''state'') > 1024)
       (publicError CodeBadRequest ''Logout state is invalid.'' 400 None)) (\<lambda>_.
     bindM (allowedRedirect s (inStr input ''callbackURL'')) (\<lambda>callbackURL.
     bindM (tryM (sessionFromRequest s r)) (\<lambda>current.
     bindM (case current of
         Inl _ \<Rightarrow> ret ''''
       | Inr (_, user, _) \<Rightarrow>
           bindM (tryM (onDB (ListAccounts (cfg_Database (srv_cfg s)) (u_ID user)))) (\<lambda>listed.
           case listed of
             Inl _ \<Rightarrow> ret ''''
           | Inr accounts \<Rightarrow> firstLogoutURL s user callbackURL (inStr input ''state'') (rev accounts))) (\<lambda>logoutURL.
     bindM (case current of
         Inl _ \<Rightarrow> ret ()
       | Inr (_, _, raw) \<Rightarrow>
           bindM (Now s) (\<lambda>now.
           bindM (tryM (onDB (RevokeSession (cfg_Database (srv_cfg s)) (HashToken s raw) now))) (\<lambda>_. ret ()))) (\<lambda>_.
     bindM (clearSessionCookie s) (\<lambda>_.
     let redirect = \<not> inBool input ''disableRedirect'' in
     bindM (if logoutURL \<noteq> '''' \<and> redirect then setHeader ''Location'' logoutURL else ret ()) (\<lambda>_.
       writeJSON 200 (JObj ([(''success'', JBool True)] @
         (if logoutURL \<noteq> '''' then [(''url'', JStr logoutURL), (''redirect'', JBool redirect)] else []))))))))))))"

definition handleRefreshSession :: "'d Server \<Rightarrow> Request \<Rightarrow> ('d, unit) action" where
  "handleRefreshSession s r =
     bindM (requireCSRF s r) (\<lambda>_.
     bindM (sessionFromRequest s r) (\<lambda>(current, user, raw).
     bindM (newSession s (u_ID user) (cfg_SessionDuration (srv_cfg s))) (\<lambda>(replacement, replacementRaw).
     let replacement = replacement\<lparr>ss_ImpersonatorID := ss_ImpersonatorID current,
           ss_ImpersonationID := ss_ImpersonationID current\<rparr> in
     bindM (mapErr (\<lambda>err. unauthorized (Some err))
       (onDB (RotateSession (cfg_Database (srv_cfg s)) (HashToken s raw) replacement))) (\<lambda>replacement.
     bindM (setSessionCookie s replacementRaw (ss_ExpiresAt replacement)) (\<lambda>_.
       writeJSON 200 (JObj [(''session'', JSession replacement), (''user'', JUser user)]))))))"

section \<open>Impersonation\<close>

definition adminSelectionConfigured :: "'d Server \<Rightarrow> bool" where
  "adminSelectionConfigured s \<longleftrightarrow>
     ad_RoleResolver (cfg_Admin (srv_cfg s)) \<noteq> None \<or> ad_AdminUserIDs (cfg_Admin (srv_cfg s)) \<noteq> []"

definition validName :: "string \<Rightarrow> bool" where
  "validName value \<longleftrightarrow> value \<noteq> '''' \<and> length value \<le> 64 \<and>
     list_all (\<lambda>c. CHR ''a'' \<le> c \<and> c \<le> CHR ''z'' \<or> CHR ''0'' \<le> c \<and> c \<le> CHR ''9'' \<or>
       c = CHR ''-'' \<or> c = CHR ''_'') value"

definition validRoleName :: "string \<Rightarrow> bool" where "validRoleName value \<longleftrightarrow> validName value"

definition validProviderID :: "string \<Rightarrow> bool" where "validProviderID value \<longleftrightarrow> validName value"

fun anyAdminRole :: "string list \<Rightarrow> string list \<Rightarrow> go_error + bool" where
  "anyAdminRole adminRoles [] = Inr False"
| "anyAdminRole adminRoles (raw # roles) =
     (let role = ToLower (TrimSpace raw) in
      if \<not> validRoleName role then Inl (ErrText ''betterauth: admin role resolver returned an invalid role'')
      else if role \<in> set adminRoles then Inr True
      else anyAdminRole adminRoles roles)"

definition isConfiguredAdmin :: "'d Server \<Rightarrow> User \<Rightarrow> ('d, bool) action" where
  "isConfiguredAdmin s user =
     (let admin = cfg_Admin (srv_cfg s) in
      if u_ID user \<in> set (ad_AdminUserIDs admin) then ret True
      else if ad_AdminUserIDs admin \<noteq> [] then ret False
      else case ad_RoleResolver admin of
             None \<Rightarrow> ret False
           | Some resolver \<Rightarrow>
               bindM (external (\<lambda>k. resolver k user)) (\<lambda>roles.
                 lift (anyAdminRole (ad_AdminRoles admin)
                   (if roles = [] then [ad_DefaultRole admin] else roles))))"

definition CanImpersonate :: "'d Server \<Rightarrow> User \<Rightarrow> User \<Rightarrow> ('d, unit) action" where
  "CanImpersonate s actor subject =
     external (\<lambda>k. case sv_CanImpersonate (srv_services s) k actor subject of None \<Rightarrow> Inr () | Some e \<Rightarrow> Inl e)"

definition forbidden :: "ErrorCode \<Rightarrow> go_error option \<Rightarrow> go_error" where
  "forbidden code cause = publicError code ''Impersonation is not allowed.'' 403 cause"

text \<open>The checks of \<open>handleImpersonate\<close> on the actor and the subject, in the code's order.\<close>

definition authorizeImpersonation :: "'d Server \<Rightarrow> User \<Rightarrow> User \<Rightarrow> ('d, unit) action" where
  "authorizeImpersonation s actor subject =
     bindM (mapErr (\<lambda>e. forbidden CodeForbidden (Some e)) (isConfiguredAdmin s actor)) (\<lambda>actorAdmin.
     bindM (failIf (adminSelectionConfigured s \<and> \<not> actorAdmin) (forbidden CodeCannotImpersonateUsers None)) (\<lambda>_.
     bindM (mapErr (\<lambda>e. forbidden CodeCannotImpersonateUsers (Some e)) (CanImpersonate s actor subject)) (\<lambda>_.
     bindM (mapErr (\<lambda>e. forbidden CodeForbidden (Some e)) (isConfiguredAdmin s subject)) (\<lambda>subjectAdmin.
       failIf (subjectAdmin \<and> \<not> ad_AllowImpersonatingAdmins (cfg_Admin (srv_cfg s)))
         (publicError CodeCannotImpersonateAdmins ''Administrators cannot impersonate other administrators.''
            403 None)))))"

definition findActiveUser :: "'d Server \<Rightarrow> string \<Rightarrow> (go_error option \<Rightarrow> go_error) \<Rightarrow> ('d, User) action" where
  "findActiveUser s userID err =
     bindM (mapErr (\<lambda>e. err (Some e)) (onDB (FindUserByID (cfg_Database (srv_cfg s)) userID))) (\<lambda>user.
       if u_DisabledAt user \<noteq> None then fail (err None) else ret user)"

definition handleImpersonate :: "'d Server \<Rightarrow> Request \<Rightarrow> body \<Rightarrow> ('d, unit) action" where
  "handleImpersonate s r doc =
     bindM (requireCSRF s r) (\<lambda>_.
     bindM (sessionFromRequest s r) (\<lambda>(actorSession, actor, rawActorToken).
     bindM (decodeJSON (decodeStruct [(''userId'', KStr)]) doc) (\<lambda>input.
     let target = TrimSpace (inStr input ''userId'') in
     bindM (failIf (target = '''' \<or> target = u_ID actor)
       (publicError CodeBadRequest ''Invalid impersonation target.'' 400 None)) (\<lambda>_.
     bindM (rateLimit s r ''admin/impersonate-user'' (u_ID actor)) (\<lambda>_.
     bindM (findActiveUser s target (\<lambda>c. publicError CodeNotFound ''User not found.'' 404 c)) (\<lambda>subject.
     bindM (authorizeImpersonation s actor subject) (\<lambda>_.
     bindM (newSession s (u_ID subject) (cfg_ImpersonationDuration (srv_cfg s))) (\<lambda>(session, raw).
     bindM (newID s) (\<lambda>impersonationID.
     bindM (newID s) (\<lambda>auditID.
     let session = session\<lparr>ss_ImpersonatorID := u_ID actor, ss_ImpersonationID := impersonationID\<rparr>;
         audit = \<lparr>ae_ID = auditID, ae_SchemaVersion = 1, ae_Action = AuditImpersonationStart,
           ae_ActorUserID = u_ID actor, ae_SubjectUserID = u_ID subject, ae_SessionID = ss_ID session,
           ae_OccurredAt = ss_CreatedAt session, ae_Request = requestMetadata s r,
           ae_Details = smap_of [(''actorSessionId'', ss_ID actorSession), (''impersonationId'', impersonationID)]\<rparr> in
     bindM (mapErr (\<lambda>e. publicError CodeInternal ''Impersonation could not be started.'' 500 (Some e))
       (onDB (RotateSessionWithAudit (cfg_Database (srv_cfg s)) (HashToken s rawActorToken) session audit))) (\<lambda>session.
     bindM (setSessionCookie s raw (ss_ExpiresAt session)) (\<lambda>_.
       writeJSON 200 (JObj [(''session'', JSession session), (''user'', JUser subject)])))))))))))))"

definition handleStopImpersonating :: "'d Server \<Rightarrow> Request \<Rightarrow> ('d, unit) action" where
  "handleStopImpersonating s r =
     bindM (requireCSRF s r) (\<lambda>_.
     bindM (sessionFromRequest s r) (\<lambda>(impersonatedSession, subject, rawToken).
     bindM (failIf (ss_ImpersonatorID impersonatedSession = '''' \<or> ss_ImpersonationID impersonatedSession = '''')
       (publicError CodeBadRequest ''No impersonation session is active.'' 400 None)) (\<lambda>_.
     bindM (rateLimit s r ''admin/stop-impersonating'' (ss_ImpersonatorID impersonatedSession)) (\<lambda>_.
     bindM (findActiveUser s (ss_ImpersonatorID impersonatedSession) unauthorized) (\<lambda>actor.
     bindM (newSession s (u_ID actor) (cfg_SessionDuration (srv_cfg s))) (\<lambda>(replacement, replacementRaw).
     bindM (newID s) (\<lambda>auditID.
     let audit = \<lparr>ae_ID = auditID, ae_SchemaVersion = 1, ae_Action = AuditImpersonationStop,
           ae_ActorUserID = u_ID actor, ae_SubjectUserID = u_ID subject, ae_SessionID = ss_ID replacement,
           ae_OccurredAt = ss_CreatedAt replacement, ae_Request = requestMetadata s r,
           ae_Details = smap_of [(''impersonatedSessionId'', ss_ID impersonatedSession),
             (''impersonationId'', ss_ImpersonationID impersonatedSession)]\<rparr> in
     bindM (mapErr (\<lambda>e. publicError CodeInternal ''Impersonation could not be stopped.'' 500 (Some e))
       (onDB (RotateSessionWithAudit (cfg_Database (srv_cfg s)) (HashToken s rawToken) replacement audit))) (\<lambda>replacement.
     bindM (setSessionCookie s replacementRaw (ss_ExpiresAt replacement)) (\<lambda>_.
       writeJSON 200 (JObj [(''session'', JSession replacement), (''user'', JUser actor)]))))))))))"

end
