(* ===== verification/Handlers_Management.thy ===== *)
theory Handlers_Management
  imports Handlers_Session
begin

text \<open>
  The handlers of \<open>handlers_management.go\<close>: passwords, user and session fields, email changes,
  deletion of the user, accounts and the list of sessions.
\<close>

section \<open>Passwords\<close>

definition internalFailure :: "string \<Rightarrow> go_error \<Rightarrow> go_error" where
  "internalFailure message err = publicError CodeInternal message 500 (Some err)"

definition statusTrue :: json where "statusTrue = JObj [(''status'', JBool True)]"

definition changePasswordFields :: "(string \<times> field_kind) list" where
  "changePasswordFields = [(''currentPassword'', KStr), (''newPassword'', KStr), (''revokeOtherSessions'', KBool)]"

definition handleChangePassword :: "'d Server \<Rightarrow> Request \<Rightarrow> body \<Rightarrow> ('d, unit) action" where
  "handleChangePassword s r doc =
     (let failed = internalFailure ''Password could not be changed.'' in
      bindM (requireCSRF s r) (\<lambda>_.
      bindM (sessionFromRequest s r) (\<lambda>(current, user, raw).
      bindM (requireFreshSession s current) (\<lambda>_.
      bindM (decodeJSON (decodeStruct changePasswordFields) doc) (\<lambda>input.
      bindM (rateLimit s r ''change-password'' (HashToken s (u_ID user))) (\<lambda>_.
      bindM (passwordPolicyError s (inStr input ''newPassword'')) (\<lambda>_.
      bindM (passwordTooLongError s (inStr input ''currentPassword'')) (\<lambda>_.
      bindM (mapErr (\<lambda>e. invalidCredentials (Some e))
        (onDB (FindPasswordCredential (cfg_Database (srv_cfg s)) (u_ID user)))) (\<lambda>credential.
      bindM (mapErr failed (PasswordVerify s (pc_PasswordHash credential) (inStr input ''currentPassword''))) (\<lambda>verification.
      bindM (failIf (\<not> pv_Valid verification) (invalidCredentials None)) (\<lambda>_.
      bindM (mapErr failed (PasswordHash s (inStr input ''newPassword''))) (\<lambda>replacementHash.
      bindM (newSession s (u_ID user) (cfg_SessionDuration (srv_cfg s))) (\<lambda>(replacement, replacementRaw).
      let replacement = replacement\<lparr>ss_ImpersonatorID := ss_ImpersonatorID current,
            ss_ImpersonationID := ss_ImpersonationID current\<rparr> in
      bindM (mapErr (\<lambda>e. if errors_Is e ErrReplay then unauthorized (Some e) else failed e)
        (onDB (ChangePasswordAndRotate (cfg_Database (srv_cfg s))
          \<lparr>cp_UserID = u_ID user, cp_PreviousHash = pc_PasswordHash credential,
           cp_ReplacementHash = replacementHash, cp_CurrentTokenHash = HashToken s raw,
           cp_ReplacementSession = replacement,
           cp_RevokeOtherSessions = inBool input ''revokeOtherSessions''\<rparr>))) (\<lambda>replacement.
      bindM (setSessionCookie s replacementRaw (ss_ExpiresAt replacement)) (\<lambda>_.
        writeJSON 200 (JObj [(''token'', JNull), (''session'', JSession replacement), (''user'', JUser user)]))))))))))))))))"

definition SetPassword :: "'d Server \<Rightarrow> string \<Rightarrow> string \<Rightarrow> ('d, unit) action" where
  "SetPassword s userID password =
     bindM (requireSchema s) (\<lambda>_.
     bindM (failIf (TrimSpace userID = '''') (publicError CodeBadRequest ''Invalid password.'' 400 None)) (\<lambda>_.
     bindM (passwordPolicyError s password) (\<lambda>_.
     bindM (onDB (FindUserByID (cfg_Database (srv_cfg s)) userID)) (\<lambda>_.
     bindM (PasswordHash s password) (\<lambda>hash.
     bindM (Now s) (\<lambda>now.
       onDB (SetPasswordHash (cfg_Database (srv_cfg s)) userID hash now)))))))"

definition VerifyPassword :: "'d Server \<Rightarrow> string \<Rightarrow> string \<Rightarrow> ('d, bool) action" where
  "VerifyPassword s userID password =
     bindM (requireSchema s) (\<lambda>_.
     if TrimSpace userID = '''' then ret False
     else
       bindM (passwordTooLongError s password) (\<lambda>_.
       bindM (tryM (onDB (FindPasswordCredential (cfg_Database (srv_cfg s)) userID))) (\<lambda>found.
       case found of
         Inl err \<Rightarrow> if errors_Is err ErrNotFound then ret False else fail err
       | Inr credential \<Rightarrow>
           bindM (PasswordVerify s (pc_PasswordHash credential) password) (\<lambda>result. ret (pv_Valid result)))))"

section \<open>Fields the client may write\<close>

text \<open>
  \<open>normalizeInputValue\<close>. A number is a float64; the parse of a date is \<open>time.Parse\<close> with the
  RFC 3339 layout.
\<close>

fun strings_of :: "val list \<Rightarrow> string list option" where
  "strings_of [] = Some []"
| "strings_of (VStr text # vs) =
     (if length text > 4096 then None
      else case strings_of vs of None \<Rightarrow> None | Some ts \<Rightarrow> Some (text # ts))"
| "strings_of (v # vs) = None"

definition normalizeInputValue :: "'d Server \<Rightarrow> FieldType \<Rightarrow> val \<Rightarrow> val option" where
  "normalizeInputValue s fieldType v =
     (if v = VNil then Some VNil
      else case fieldType of
        FieldString \<Rightarrow> (case v of VStr text \<Rightarrow> if length text \<le> 16384 then Some v else None | _ \<Rightarrow> None)
      | FieldNumber \<Rightarrow> (case v of VFloat n \<Rightarrow> Some v | _ \<Rightarrow> None)
      | FieldBoolean \<Rightarrow> (case v of VBool b \<Rightarrow> Some v | _ \<Rightarrow> None)
      | FieldDate \<Rightarrow>
          (case v of VStr text \<Rightarrow> map_option VTime (sv_ParseTime (srv_services s) text) | _ \<Rightarrow> None)
      | FieldJSON \<Rightarrow> Some v
      | FieldStringArray \<Rightarrow>
          (case v of VArr vs \<Rightarrow> if length vs > 1024 then None else map_option VStrs (strings_of vs) | _ \<Rightarrow> None)
      | _ \<Rightarrow> None)"

definition input_field ::
  "'d Server \<Rightarrow> ModelSchema \<Rightarrow> string list \<Rightarrow> (string \<times> val) list \<Rightarrow> string \<times> val \<Rightarrow> go_error + (string \<times> val) list" where
  "input_field s definition0 excluded result kv =
     (case map_of (ms_Fields definition0) (fst kv) of
        None \<Rightarrow> Inl (ErrText ''betterauth: field is not client-writable'')
      | Some fieldDefinition \<Rightarrow>
          if \<not> fs_Input fieldDefinition \<or> fst kv \<in> set excluded
          then Inl (ErrText ''betterauth: field is not client-writable'')
          else case normalizeInputValue s (fs_Type fieldDefinition) (snd kv) of
                 None \<Rightarrow> Inl (ErrText ''betterauth: field has the wrong type'')
               | Some normalized \<Rightarrow> Inr (put (fst kv) normalized result))"

definition validatedInputFields ::
  "'d Server \<Rightarrow> string \<Rightarrow> (string \<times> val) list \<Rightarrow> string list \<Rightarrow> go_error + (string \<times> val) list" where
  "validatedInputFields s model input excluded =
     (case map_of (cfg_Schema (srv_cfg s)) model of
        None \<Rightarrow> Inl (ErrText ''betterauth: schema model is missing'')
      | Some definition0 \<Rightarrow> foldE (input_field s definition0 excluded) [] input)"

section \<open>The user\<close>

text \<open>The name and image checks of \<open>handleUpdateUser\<close>.\<close>

definition checkUserFields :: "(string \<times> val) list \<Rightarrow> go_error + (string \<times> val) list" where
  "checkUserFields fs =
     (let invalid = publicError CodeBadRequest ''Invalid user update.'' 400 None;
          named = (case map_of fs ''name'' of
              Some (VStr v) \<Rightarrow>
                (let v = TrimSpace v in
                 if v = '''' \<or> length v > 256 then Inl invalid else Inr (put ''name'' (VStr v) fs))
            | _ \<Rightarrow> Inr fs) in
      bindE named (\<lambda>fs.
        case map_of fs ''image'' of
          Some (VStr v) \<Rightarrow> if length v > 2048 then Inl invalid else Inr fs
        | _ \<Rightarrow> Inr fs))"

definition handleUpdateUser :: "'d Server \<Rightarrow> Request \<Rightarrow> body \<Rightarrow> ('d, unit) action" where
  "handleUpdateUser s r doc =
     bindM (requireCSRF s r) (\<lambda>_.
     bindM (sessionFromRequest s r) (\<lambda>(_, user, _).
     bindM (decodeJSON decodeMap doc) (\<lambda>input.
     bindM (mapErr (\<lambda>e. publicError CodeBadRequest ''Invalid user update.'' 400 (Some e))
       (lift (validatedInputFields s ModelUser input [''email'']))) (\<lambda>fs.
     bindM (failIf (fs = []) (publicError CodeBadRequest ''Invalid user update.'' 400 None)) (\<lambda>_.
     bindM (lift (checkUserFields fs)) (\<lambda>fs.
     bindM (Now s) (\<lambda>now.
     bindM (mapErr (internalFailure ''User could not be updated.'')
       (onDB (UpdateUser (cfg_Database (srv_cfg s)) (u_ID user) (map_of fs) now))) (\<lambda>_.
       writeJSON 200 statusTrue))))))))"

definition handleChangeEmail :: "'d Server \<Rightarrow> Request \<Rightarrow> body \<Rightarrow> ('d, unit) action" where
  "handleChangeEmail s r doc =
     (let cfg = srv_cfg s; failed = internalFailure ''Email could not be changed.'' in
      if \<not> um_ChangeEmailEnabled (cfg_User cfg)
      then fail (publicError CodeNotFound ''Endpoint not found.'' 404 None)
      else
        bindM (requireCSRF s r) (\<lambda>_.
        bindM (sessionFromRequest s r) (\<lambda>(session, user, _).
        bindM (requireFreshSession s session) (\<lambda>_.
        bindM (decodeJSON (decodeStruct [(''newEmail'', KStr), (''callbackURL'', KStr)]) doc) (\<lambda>input.
        bindM (mapErr (\<lambda>e. publicError CodeBadRequest ''Email could not be changed.'' 400 (Some e))
          (lift (normalizeEmail s (inStr input ''newEmail'')))) (\<lambda>email.
        bindM (allowedLifecycleRedirect s (inStr input ''callbackURL'')) (\<lambda>returnTo.
        bindM (failIf (email = u_Email user) (publicError CodeBadRequest ''Email is the same'' 400 None)) (\<lambda>_.
        bindM (rateLimit s r ''change-email'' (HashToken s (u_ID user))) (\<lambda>_.
        bindM (tryM (onDB (FindUserByEmail (cfg_Database cfg) email))) (\<lambda>found.
        let continue =
          (if \<not> u_EmailVerified user \<and> um_UpdateEmailWithoutVerification (cfg_User cfg) then
             bindM (Now s) (\<lambda>now.
             bindM (tryM (onDB (UpdateUser (cfg_Database cfg) (u_ID user)
               [''email'' \<mapsto> VStr email, ''emailVerified'' \<mapsto> VBool False] now))) (\<lambda>updated.
             case updated of
               Inl err \<Rightarrow> if errors_Is err ErrConflict then writeJSON 200 statusTrue else fail (failed err)
             | Inr updatedUser \<Rightarrow>
                 bindM (tryM (issueOneTimeMail s updatedUser PurposeEmailVerify ''email-verification''
                   (cfg_EmailVerificationTTL cfg) ''/verify-email'' returnTo)) (\<lambda>_.
                   writeJSON 200 statusTrue)))
           else if u_EmailVerified user \<and> um_SendChangeEmailConfirmation (cfg_User cfg) then
             bindM (mapErr failed (issueEmailChangeMail s user PurposeEmailChangeConfirmation
               ''email-change-confirmation'' email returnTo)) (\<lambda>_. writeJSON 200 statusTrue)
           else
             bindM (mapErr failed (issueEmailChangeMail s user PurposeEmailChange
               ''email-change'' email returnTo)) (\<lambda>_. writeJSON 200 statusTrue)) in
        case found of
          Inr existing \<Rightarrow>
            if u_ID existing \<noteq> u_ID user
            then bindM (Token s 32) (\<lambda>_. writeJSON 200 statusTrue)
            else continue
        | Inl findErr \<Rightarrow> if \<not> errors_Is findErr ErrNotFound then fail (failed findErr) else continue))))))))))"

section \<open>Deletion\<close>

definition consumeUserDeletionToken :: "'d Server \<Rightarrow> string \<Rightarrow> string \<Rightarrow> ('d, unit) action" where
  "consumeUserDeletionToken s userID token =
     (if length token < 20 \<or> length token > 2048
      then fail (publicError CodeInvalidToken ''Invalid token'' 404 None)
      else
        bindM (Now s) (\<lambda>now.
        mapErr (\<lambda>e. publicError CodeInvalidToken ''Invalid token'' 404 (Some e))
          (onDB (ConsumeUserDeletion (cfg_Database (srv_cfg s)) (HashToken s token) userID now))))"

definition deleteUserAccount :: "'d Server \<Rightarrow> User \<Rightarrow> ('d, unit) action" where
  "deleteUserAccount s user =
     bindM (runHook (um_BeforeDelete (cfg_User (srv_cfg s))) user) (\<lambda>_.
     bindM (mapErr (internalFailure ''User could not be deleted.'')
       (onDB (DeleteUser (cfg_Database (srv_cfg s)) (u_ID user)))) (\<lambda>_.
     bindM (clearSessionCookie s) (\<lambda>_.
       runHook (um_AfterDelete (cfg_User (srv_cfg s))) user)))"

definition deletedBody :: json where
  "deletedBody = JObj [(''success'', JBool True), (''message'', JStr ''User deleted'')]"

text \<open>The password check of \<open>handleDeleteUser\<close>, made when the body carries a password.\<close>

definition checkDeletionPassword :: "'d Server \<Rightarrow> User \<Rightarrow> string \<Rightarrow> ('d, unit) action" where
  "checkDeletionPassword s user password =
     (let failed = internalFailure ''User could not be deleted.'' in
      bindM (passwordTooLongError s password) (\<lambda>_.
      bindM (mapErr (\<lambda>e. if \<not> errors_Is e ErrNotFound then failed e
              else publicError CodeCredentialNotFound ''Credential account not found'' 400 (Some e))
        (onDB (FindPasswordCredential (cfg_Database (srv_cfg s)) (u_ID user)))) (\<lambda>credential.
      bindM (mapErr failed (PasswordVerify s (pc_PasswordHash credential) password)) (\<lambda>verification.
        failIf (\<not> pv_Valid verification) (publicError CodeInvalidPassword ''Invalid password'' 400 None)))))"

definition handleDeleteUser :: "'d Server \<Rightarrow> Request \<Rightarrow> body \<Rightarrow> ('d, unit) action" where
  "handleDeleteUser s r doc =
     (let cfg = srv_cfg s in
      if \<not> um_DeleteUserEnabled (cfg_User cfg)
      then fail (publicError CodeNotFound ''Endpoint not found.'' 404 None)
      else
        bindM (requireCSRF s r) (\<lambda>_.
        bindM (sessionFromRequest s r) (\<lambda>(session, user, _).
        bindM (failIf (ss_ImpersonatorID session \<noteq> '''')
          (publicError CodeForbidden ''An impersonated user cannot be deleted.'' 403 None)) (\<lambda>_.
        bindM (decodeOptionalJSON Map.empty
          (decodeStruct [(''callbackURL'', KStr), (''password'', KStr), (''token'', KStr)]) doc) (\<lambda>input.
        let password = inStr input ''password''; token = inStr input ''token'';
            callbackInput = (if inStr input ''callbackURL'' = '''' \<and> token = '''' \<and>
                um_SendDeleteAccountVerification (cfg_User cfg) then ''/'' else inStr input ''callbackURL'') in
        bindM (allowedDeletionRedirect s callbackInput) (\<lambda>callbackURL.
        bindM (if password \<noteq> '''' then checkDeletionPassword s user password else ret ()) (\<lambda>_.
        bindM (rateLimit s r ''delete-user'' (HashToken s (u_ID user))) (\<lambda>_.
        if token \<noteq> '''' then
          bindM (consumeUserDeletionToken s (u_ID user) token) (\<lambda>_.
          bindM (deleteUserAccount s user) (\<lambda>_. writeJSON 200 deletedBody))
        else if um_SendDeleteAccountVerification (cfg_User cfg) then
          bindM (mapErr (internalFailure ''Deletion verification could not be sent.'')
            (issueOneTimeMail s user PurposeUserDeletion ''account-deletion'' (cfg_DeleteUserTTL cfg)
              ''/delete-user/callback'' callbackURL)) (\<lambda>_.
            writeJSON 200 (JObj [(''success'', JBool True), (''message'', JStr ''Verification email sent'')]))
        else
          bindM (if password = '''' then requireFreshSession s session else ret ()) (\<lambda>_.
          bindM (deleteUserAccount s user) (\<lambda>_. writeJSON 200 deletedBody))))))))))"

definition handleDeleteUserCallback :: "'d Server \<Rightarrow> Request \<Rightarrow> ('d, unit) action" where
  "handleDeleteUserCallback s r =
     (if \<not> um_DeleteUserEnabled (cfg_User (srv_cfg s))
      then fail (publicError CodeNotFound ''Endpoint not found.'' 404 None)
      else
        bindM (sessionFromRequest s r) (\<lambda>(_, user, _).
        bindM (allowedDeletionRedirect s (rq_Query r ''callbackURL'')) (\<lambda>callbackURL.
        let token = rq_Query r ''token'' in
        bindM (rateLimit s r ''delete-user/callback'' (HashToken s token)) (\<lambda>_.
        bindM (consumeUserDeletionToken s (u_ID user) token) (\<lambda>_.
        bindM (deleteUserAccount s user) (\<lambda>_.
          if callbackURL \<noteq> '''' then http_Redirect callbackURL 302 else writeJSON 200 deletedBody))))))"

section \<open>Accounts\<close>

definition handleListAccounts :: "'d Server \<Rightarrow> Request \<Rightarrow> ('d, unit) action" where
  "handleListAccounts s r =
     bindM (sessionFromRequest s r) (\<lambda>(_, user, _).
     bindM (mapErr (internalFailure ''Accounts could not be listed.'')
       (onDB (ListAccounts (cfg_Database (srv_cfg s)) (u_ID user)))) (\<lambda>accounts.
       writeJSON 200 (JAccounts accounts)))"

definition unlinkError :: "go_error \<Rightarrow> go_error" where
  "unlinkError err =
     (if errors_Is err ErrNotFound then publicError CodeAccountNotFound ''Account not found'' 400 (Some err)
      else if errors_Is err ErrConflict
      then publicError CodeUnlinkLastAccount (''You can'' @ [CHR 0x27] @ ''t unlink your last account'') 400 (Some err)
      else internalFailure ''Account could not be unlinked.'' err)"

definition handleUnlinkAccount :: "'d Server \<Rightarrow> Request \<Rightarrow> body \<Rightarrow> ('d, unit) action" where
  "handleUnlinkAccount s r doc =
     bindM (requireCSRF s r) (\<lambda>_.
     bindM (sessionFromRequest s r) (\<lambda>(session, user, _).
     bindM (requireFreshSession s session) (\<lambda>_.
     bindM (decodeJSON (decodeStruct [(''providerId'', KStr), (''accountId'', KStr)]) doc) (\<lambda>input.
     let providerID = TrimSpace (inStr input ''providerId''); accountID = TrimSpace (inStr input ''accountId'');
         allow = am_AllowUnlinkingAll (cfg_Account (srv_cfg s)) in
     bindM (failIf (providerID = '''' \<and> accountID = '''' \<or> length accountID > 512 \<or>
         providerID \<noteq> '''' \<and> \<not> validProviderID providerID)
       (publicError CodeBadRequest ''Invalid account selection.'' 400 None)) (\<lambda>_.
     bindM (mapErr unlinkError
       (if providerID = '''' then onDB (UnlinkAccountByID (cfg_Database (srv_cfg s)) (u_ID user) accountID allow)
        else onDB (UnlinkAccount (cfg_Database (srv_cfg s)) (u_ID user) providerID accountID allow))) (\<lambda>_.
       writeJSON 200 statusTrue))))))"

section \<open>The list of sessions\<close>

definition summaryOf :: "Session \<Rightarrow> Session \<Rightarrow> sessionSummary" where
  "summaryOf current session =
     \<lparr>sum_ID = ss_ID session, sum_UserID = ss_UserID session, sum_ExpiresAt = ss_ExpiresAt session,
      sum_CreatedAt = ss_CreatedAt session, sum_UpdatedAt = ss_UpdatedAt session,
      sum_LastSeenAt = ss_LastSeenAt session, sum_ImpersonatorID = ss_ImpersonatorID session,
      sum_ImpersonationID = ss_ImpersonationID session, sum_Current = (ss_ID session = ss_ID current)\<rparr>"

definition handleListSessions :: "'d Server \<Rightarrow> Request \<Rightarrow> ('d, unit) action" where
  "handleListSessions s r =
     bindM (sessionFromRequest s r) (\<lambda>(current, user, _).
     bindM (requireFreshSession s current) (\<lambda>_.
     bindM (Now s) (\<lambda>now.
     bindM (mapErr (internalFailure ''Sessions could not be listed.'')
       (onDB (ListSessions (cfg_Database (srv_cfg s)) (u_ID user) now))) (\<lambda>sessions.
       writeJSON 200 (JSummaries (map (summaryOf current) sessions))))))"

definition handleRevokeSession :: "'d Server \<Rightarrow> Request \<Rightarrow> body \<Rightarrow> ('d, unit) action" where
  "handleRevokeSession s r doc =
     bindM (requireCSRF s r) (\<lambda>_.
     bindM (sessionFromRequest s r) (\<lambda>(current, user, _).
     bindM (decodeOptionalJSON Map.empty (decodeStruct [(''sessionId'', KStr)]) doc) (\<lambda>input.
     let given = TrimSpace (inStr input ''sessionId'') in
     bindM (failIf (length given > 256) (publicError CodeBadRequest ''Invalid session selection.'' 400 None)) (\<lambda>_.
     let sessionID = (if given = '''' then ss_ID current else given) in
     bindM (Now s) (\<lambda>now.
     bindM (mapErr (internalFailure ''Session could not be revoked.'')
       (onDB (RevokeSessionByID (cfg_Database (srv_cfg s)) (u_ID user) sessionID now))) (\<lambda>_.
     bindM (if sessionID = ss_ID current then clearSessionCookie s else ret ()) (\<lambda>_.
       writeJSON 200 statusTrue)))))))"

definition handleRevokeOtherSessions :: "'d Server \<Rightarrow> Request \<Rightarrow> ('d, unit) action" where
  "handleRevokeOtherSessions s r =
     bindM (requireCSRF s r) (\<lambda>_.
     bindM (sessionFromRequest s r) (\<lambda>(current, user, _).
     bindM (Now s) (\<lambda>now.
     bindM (mapErr (internalFailure ''Sessions could not be revoked.'')
       (onDB (RevokeOtherSessions (cfg_Database (srv_cfg s)) (u_ID user) (ss_ID current) now))) (\<lambda>_.
       writeJSON 200 statusTrue))))"

definition handleRevokeSessions :: "'d Server \<Rightarrow> Request \<Rightarrow> ('d, unit) action" where
  "handleRevokeSessions s r =
     bindM (requireCSRF s r) (\<lambda>_.
     bindM (sessionFromRequest s r) (\<lambda>(_, user, _).
     bindM (Now s) (\<lambda>now.
     bindM (mapErr (internalFailure ''Sessions could not be revoked.'')
       (onDB (RevokeUserSessions (cfg_Database (srv_cfg s)) (u_ID user) now))) (\<lambda>_.
     bindM (clearSessionCookie s) (\<lambda>_.
       writeJSON 200 statusTrue)))))"

text \<open>\<open>handleUpdateSession\<close>: the answer is the session with the written fields the schema returns.\<close>

definition returnedFields :: "'d Server \<Rightarrow> (string \<times> val) list \<Rightarrow> (string \<times> val) list" where
  "returnedFields s fs =
     (case map_of (cfg_Schema (srv_cfg s)) ModelSession of
        None \<Rightarrow> []
      | Some d \<Rightarrow> filter (\<lambda>(f, v). case map_of (ms_Fields d) f of None \<Rightarrow> False | Some fd \<Rightarrow> fs_Returned fd) fs)"

definition handleUpdateSession :: "'d Server \<Rightarrow> Request \<Rightarrow> body \<Rightarrow> ('d, unit) action" where
  "handleUpdateSession s r doc =
     bindM (requireCSRF s r) (\<lambda>_.
     bindM (sessionFromRequest s r) (\<lambda>(_, user, raw).
     bindM (decodeJSON decodeMap doc) (\<lambda>input.
     bindM (mapErr (\<lambda>e. publicError CodeBadRequest ''Invalid session update.'' 400 (Some e))
       (lift (validatedInputFields s ModelSession input []))) (\<lambda>fs.
     bindM (failIf (fs = []) (publicError CodeBadRequest ''Invalid session update.'' 400 None)) (\<lambda>_.
     bindM (Now s) (\<lambda>now.
     bindM (mapErr (internalFailure ''Session could not be updated.'')
       (onDB (UpdateSession (cfg_Database (srv_cfg s)) (u_ID user) (HashToken s raw) (map_of fs) now))) (\<lambda>session.
       writeJSON 200 (JObj [(''session'', JObj ((''core'', JSession session) #
         map (\<lambda>(f, v). (f, JVal v)) (returnedFields s fs)))]))))))))"

end
