(* ===== verification/Handlers_Email.thy ===== *)
theory Handlers_Email
  imports Handlers_Management
begin

text \<open>
  The handlers of \<open>handlers_email.go\<close> (sign-up and sign-in with email and password) and of
  \<open>handlers_recovery.go\<close> (password reset, email verification and confirmed email change).
\<close>

section \<open>Sign-up\<close>

definition duplicateSignUpError :: "go_error option \<Rightarrow> go_error" where
  "duplicateSignUpError cause =
     publicError CodeUserAlreadyExists ''User already exists. Use another email.'' 422 cause"

definition sendVerificationOnSignUp :: "'d Config \<Rightarrow> bool" where
  "sendVerificationOnSignUp cfg =
     (case ev_SendOnSignUp (cfg_EmailVerification cfg) of
        Some v \<Rightarrow> v
      | None \<Rightarrow> ep_RequireEmailVerification (cfg_EmailPassword cfg))"

text \<open>The background task is handed over; its outcome does not change the response.\<close>

definition notifyExistingUserSignUp :: "'d Server \<Rightarrow> User \<Rightarrow> ('d, unit) action" where
  "notifyExistingUserSignUp s user =
     (case ep_OnExistingUserSignUp (cfg_EmailPassword (srv_cfg s)) of
        None \<Rightarrow> ret ()
      | Some _ \<Rightarrow> (\<lambda>w. (Inr (), w\<lparr>w_tasks := w_tasks w @ [user]\<rparr>)))"

definition signUpBody :: "json \<Rightarrow> json" where
  "signUpBody user = JObj [(''token'', JNull), (''user'', user)]"

definition newUser :: "string \<Rightarrow> string \<Rightarrow> string \<Rightarrow> string \<Rightarrow> gtime \<Rightarrow> User" where
  "newUser userID email name img now =
     \<lparr>u_ID = userID, u_Email = email, u_Name = TrimSpace name, u_ImageURL = TrimSpace img,
      u_EmailVerified = False, u_CreatedAt = now, u_UpdatedAt = now, u_DisabledAt = None\<rparr>"

definition writeSyntheticSignUp :: "'d Server \<Rightarrow> Record \<Rightarrow> string \<Rightarrow> ('d, unit) action" where
  "writeSyntheticSignUp s input email =
     bindM (newID s) (\<lambda>userID.
     bindM (Now s) (\<lambda>now.
     let user = newUser userID email (inStr input ''name'') (inStr input ''image'') now in
     case ep_CustomSyntheticUser (cfg_EmailPassword (srv_cfg s)) of
       None \<Rightarrow> writeJSON 200 (signUpBody (JUser user))
     | Some custom \<Rightarrow>
         (let core = [(''id'', VStr (u_ID user)), (''email'', VStr (u_Email user)), (''name'', VStr (u_Name user)),
                (''image'', if u_ImageURL user \<noteq> '''' then VStr (u_ImageURL user) else VNil),
                (''emailVerified'', VBool (u_EmailVerified user)), (''createdAt'', VTime (u_CreatedAt user)),
                (''updatedAt'', VTime (u_UpdatedAt user))];
              shown = foldl (\<lambda>m (k, v). put k v m) core (custom (map_of core) (u_ID user)) in
          writeJSON 200 (signUpBody (JObj (map (\<lambda>(k, v). (k, JVal v)) shown))))))"

definition signUpFields :: "(string \<times> field_kind) list" where
  "signUpFields = [(''email'', KStr), (''password'', KStr), (''name'', KStr), (''image'', KStr),
     (''callbackURL'', KStr), (''rememberMe'', KBool)]"

text \<open>A day, for sessions that are not to be remembered.\<close>

definition sessionDuration :: "'d Config \<Rightarrow> Record \<Rightarrow> gtime" where
  "sessionDuration cfg input =
     (if fld input ''rememberMe'' = VBool False then 24 * 60 * 60 * 1000000000 else cfg_SessionDuration cfg)"

definition validateSignUp :: "'d Server \<Rightarrow> Record \<Rightarrow> ('d, string) action" where
  "validateSignUp s input =
     bindM (failIf (ep_DisableSignUp (cfg_EmailPassword (srv_cfg s)))
       (publicError CodeSignUpDisabled ''Email and password sign up is not enabled'' 400 None)) (\<lambda>_.
     bindM (mapErr (\<lambda>e. publicError CodeValidation ''[body.email] Invalid email address'' 400 (Some e))
       (lift (normalizeEmail s (inStr input ''email'')))) (\<lambda>email.
     bindM (failIf (inStr input ''password'' = '''')
       (publicError CodeValidation ''[body.password] Too small: expected string to have >=1 characters'' 400 None)) (\<lambda>_.
     bindM (passwordPolicyError s (inStr input ''password'')) (\<lambda>_.
     bindM (failIf (TrimSpace (inStr input ''name'') = '''' \<or> length (inStr input ''name'') > 256 \<or>
         length (inStr input ''image'') > 2048)
       (publicError CodeBadRequest ''Invalid account details.'' 400 None)) (\<lambda>_.
       ret email)))))"

text \<open>The part of \<open>handleSignUp\<close> that makes the account, once the email is found to be free.\<close>

definition createAccount :: "'d Server \<Rightarrow> Request \<Rightarrow> Record \<Rightarrow> string \<Rightarrow> bool \<Rightarrow> ('d, unit) action" where
  "createAccount s r input email enumerationSafe =
     (let cfg = srv_cfg s; failed = internalFailure ''The account could not be created.'';
          createSession = autoSignInAfterSignUp cfg \<and> \<not> ep_RequireEmailVerification (cfg_EmailPassword cfg) in
      bindM (mapErr failed (PasswordHash s (inStr input ''password''))) (\<lambda>passwordHash.
      bindM (newID s) (\<lambda>userID.
      bindM (if createSession then newSession s userID (sessionDuration cfg input)
             else ret (\<lparr>ss_ID = '''', ss_UserID = '''', ss_TokenHash = '''', ss_ExpiresAt = 0, ss_CreatedAt = 0,
               ss_UpdatedAt = 0, ss_LastSeenAt = 0, ss_RevokedAt = None, ss_ImpersonatorID = '''',
               ss_ImpersonationID = ''''\<rparr>, '''')) (\<lambda>(session, rawSession).
      bindM (newID s) (\<lambda>eventID.
      bindM (Now s) (\<lambda>now.
      let user = newUser userID email (inStr input ''name'') (inStr input ''image'') now in
      bindM (tryM (onDB (CreateEmailUser (cfg_Database cfg)
        \<lparr>ce_User = user, ce_PasswordHash = passwordHash, ce_Session = session, ce_CreateSession = createSession,
         ce_Event = \<lparr>de_ID = eventID, de_SchemaVersion = 1, de_Name = EventUserCreated, de_AggregateID = userID,
           de_OccurredAt = now, de_Payload = smap_of [(''userId'', userID), (''email'', email)]\<rparr>\<rparr>))) (\<lambda>res.
      case res of
        Inl err \<Rightarrow>
          if errors_Is err ErrConflict then
            bindM (mapErr (\<lambda>_. failed err) (onDB (FindUserByEmail (cfg_Database cfg) email))) (\<lambda>_.
              if enumerationSafe then writeJSON 200 (signUpBody (JUser user))
              else fail (duplicateSignUpError (Some err)))
          else fail (failed err)
      | Inr created \<Rightarrow>
          bindM (if sendVerificationOnSignUp cfg
            then bindM (tryM (issueOneTimeMail s created PurposeEmailVerify ''email-verification''
              (cfg_EmailVerificationTTL cfg) ''/verify-email'' '''')) (\<lambda>_. ret ())
            else ret ()) (\<lambda>_.
          if \<not> createSession then writeJSON 200 (signUpBody (JUser created))
          else
            bindM (revokePreviousBrowserSession s r rawSession) (\<lambda>_.
            bindM (setSessionCookie s rawSession (ss_ExpiresAt session)) (\<lambda>_.
            bindM (ensureCSRFCookie s r) (\<lambda>_.
              writeJSON 200 (signUpBody (JUser created)))))))))))))"

definition handleSignUp :: "'d Server \<Rightarrow> Request \<Rightarrow> body \<Rightarrow> ('d, unit) action" where
  "handleSignUp s r doc =
     (let cfg = srv_cfg s; failed = internalFailure ''The account could not be created.'';
          enumerationSafe = ep_RequireEmailVerification (cfg_EmailPassword cfg) \<or> \<not> autoSignInAfterSignUp cfg in
      bindM (decodeJSON (decodeStruct signUpFields) doc) (\<lambda>input.
      bindM (validateSignUp s input) (\<lambda>email.
      bindM (rateLimit s r ''sign-up/email'' (HashToken s email)) (\<lambda>_.
      bindM (tryM (onDB (FindUserByEmail (cfg_Database cfg) email))) (\<lambda>found.
      case found of
        Inr existing \<Rightarrow>
          if \<not> enumerationSafe then fail (duplicateSignUpError None)
          else
            bindM (mapErr failed (PasswordHash s (inStr input ''password''))) (\<lambda>_.
            bindM (notifyExistingUserSignUp s existing) (\<lambda>_.
              writeSyntheticSignUp s input email))
      | Inl findErr \<Rightarrow>
          if \<not> errors_Is findErr ErrNotFound then fail (failed findErr)
          else createAccount s r input email enumerationSafe)))))"

section \<open>Sign-in\<close>

definition signInFields :: "(string \<times> field_kind) list" where
  "signInFields = [(''email'', KStr), (''password'', KStr), (''callbackURL'', KStr), (''rememberMe'', KBool)]"

text \<open>A sign-in that names no usable account spends a password hash before it is refused.\<close>

definition refuseSignIn :: "'d Server \<Rightarrow> string \<Rightarrow> go_error option \<Rightarrow> ('d, 'a) action" where
  "refuseSignIn s password cause =
     bindM (mapErr (internalFailure ''Sign in could not be completed.'') (burnPasswordHash s password)) (\<lambda>_.
       fail (invalidCredentials cause))"

definition authenticate :: "'d Server \<Rightarrow> string \<Rightarrow> string \<Rightarrow> ('d, User) action" where
  "authenticate s email password =
     (let db = cfg_Database (srv_cfg s); failed = internalFailure ''Sign in could not be completed.'' in
      bindM (tryM (onDB (FindUserByEmail db email))) (\<lambda>found.
      case found of
        Inl err \<Rightarrow> refuseSignIn s password (Some err)
      | Inr user \<Rightarrow>
          if u_DisabledAt user \<noteq> None then refuseSignIn s password None
          else
            bindM (tryM (onDB (FindPasswordCredential db (u_ID user)))) (\<lambda>stored.
            case stored of
              Inl err \<Rightarrow> refuseSignIn s password (Some err)
            | Inr credential \<Rightarrow>
                bindM (mapErr failed (PasswordVerify s (pc_PasswordHash credential) password)) (\<lambda>verification.
                bindM (failIf (\<not> pv_Valid verification) (invalidCredentials None)) (\<lambda>_.
                bindM (if pv_ReplacementHash verification \<noteq> '''' then
                    bindM (Now s) (\<lambda>now.
                    bindM (tryM (onDB (ReplacePasswordHash db (u_ID user) (pc_PasswordHash credential)
                      (pv_ReplacementHash verification) now))) (\<lambda>res.
                    case res of
                      Inl err \<Rightarrow> if errors_Is err ErrNotFound then ret () else fail (failed err)
                    | Inr _ \<Rightarrow> ret ()))
                  else ret ()) (\<lambda>_. ret user))))))"

definition handleSignIn :: "'d Server \<Rightarrow> Request \<Rightarrow> body \<Rightarrow> ('d, unit) action" where
  "handleSignIn s r doc =
     (let cfg = srv_cfg s; failed = internalFailure ''Sign in could not be completed.'' in
      bindM (decodeJSON (decodeStruct signInFields) doc) (\<lambda>input.
      bindM (mapErr (\<lambda>e. publicError CodeInvalidEmail ''Invalid email'' 400 (Some e))
        (lift (normalizeEmail s (inStr input ''email'')))) (\<lambda>email.
      bindM (rateLimit s r ''sign-in/email'' (HashToken s email)) (\<lambda>_.
      bindM (passwordTooLongError s (inStr input ''password'')) (\<lambda>_.
      bindM (authenticate s email (inStr input ''password'')) (\<lambda>user.
      if ep_RequireEmailVerification (cfg_EmailPassword cfg) \<and> \<not> u_EmailVerified user then
        bindM (if ev_SendOnSignIn (cfg_EmailVerification cfg) then
            bindM (allowedLifecycleRedirect s (inStr input ''callbackURL'')) (\<lambda>callbackURL.
            bindM (tryM (issueOneTimeMail s user PurposeEmailVerify ''email-verification''
              (cfg_EmailVerificationTTL cfg) ''/verify-email'' callbackURL)) (\<lambda>_. ret ()))
          else ret ()) (\<lambda>_.
          fail (publicError CodeEmailNotVerified ''Email not verified'' 403 None))
      else
        bindM (newSession s (u_ID user) (sessionDuration cfg input)) (\<lambda>(session, raw).
        bindM (mapErr failed (rotateOrCreateBrowserSession s r session)) (\<lambda>session.
        bindM (setSessionCookie s raw (ss_ExpiresAt session)) (\<lambda>_.
        bindM (ensureCSRFCookie s r) (\<lambda>_.
          writeJSON 200 (JObj [(''redirect'', JBool False), (''token'', JNull), (''user'', JUser user)])))))))))))"

section \<open>Password reset\<close>

definition emailFields :: "(string \<times> field_kind) list" where
  "emailFields = [(''email'', KStr), (''callbackURL'', KStr), (''redirectTo'', KStr)]"

text \<open>The normal form of an email, or its trimmed lower case when it has none.\<close>

definition looseEmail :: "'d Server \<Rightarrow> string \<Rightarrow> string" where
  "looseEmail s raw = (case normalizeEmail s raw of Inr email \<Rightarrow> email | Inl _ \<Rightarrow> ToLower (TrimSpace raw))"

definition resetSentBody :: json where
  "resetSentBody = JObj [(''status'', JBool True),
     (''message'', JStr ''If this email exists in our system, check your email for the reset link'')]"

definition handleForgotPassword :: "'d Server \<Rightarrow> Request \<Rightarrow> body \<Rightarrow> ('d, unit) action" where
  "handleForgotPassword s r doc =
     bindM (decodeJSON (decodeStruct emailFields) doc) (\<lambda>input.
     let email = looseEmail s (inStr input ''email'');
         target = (if inStr input ''redirectTo'' = '''' then inStr input ''callbackURL'' else inStr input ''redirectTo'') in
     bindM (rateLimit s r ''forget-password'' (HashToken s email)) (\<lambda>_.
     bindM (allowedRedirect s target) (\<lambda>redirectTo.
     bindM (tryM (onDB (FindUserByEmail (cfg_Database (srv_cfg s)) email))) (\<lambda>found.
     bindM (case found of
         Inr user \<Rightarrow>
           if u_DisabledAt user = None then
             bindM (tryM (issueOneTimeMail s user PurposePasswordReset ''password-reset''
               (cfg_PasswordResetTTL (srv_cfg s)) ''/reset-password'' redirectTo)) (\<lambda>_. ret ())
           else ret ()
       | Inl _ \<Rightarrow> ret ()) (\<lambda>_.
       writeJSON 200 resetSentBody)))))"

definition handleResetPasswordCallback :: "'d Server \<Rightarrow> string \<Rightarrow> Request \<Rightarrow> ('d, unit) action" where
  "handleResetPasswordCallback s token r =
     bindM (allowedRedirect s (rq_Query r ''callbackURL'')) (\<lambda>callbackURL.
     bindM (failIf (callbackURL = '''') (callbackError None)) (\<lambda>_.
     bindM (if length token \<ge> 20 \<and> length token \<le> 2048 then
         bindM (Now s) (\<lambda>now.
         mapErr internalError
           (onDB (HasOneTimeToken (cfg_Database (srv_cfg s)) PurposePasswordReset (HashToken s token) now)))
       else ret False) (\<lambda>valid.
     bindM (mapErr (\<lambda>e. callbackError (Some e))
       (lift (if valid then sv_SetQuery (srv_services s) callbackURL ''token'' token
              else sv_SetQuery (srv_services s) callbackURL ''error'' ''INVALID_TOKEN''))) (\<lambda>target.
       http_Redirect target 302))))"

definition handleResetPassword :: "'d Server \<Rightarrow> Request \<Rightarrow> body \<Rightarrow> ('d, unit) action" where
  "handleResetPassword s r doc =
     (let cfg = srv_cfg s; failed = internalFailure ''Password reset could not be completed.'' in
      bindM (decodeJSON (decodeStruct [(''token'', KStr), (''newPassword'', KStr)]) doc) (\<lambda>input.
      let token = (if inStr input ''token'' = '''' then rq_Query r ''token'' else inStr input ''token'') in
      bindM (failIf (length token < 20 \<or> length token > 2048)
        (publicError CodeInvalidToken ''Invalid token'' 400 None)) (\<lambda>_.
      bindM (passwordPolicyError s (inStr input ''newPassword'')) (\<lambda>_.
      bindM (rateLimit s r ''reset-password'' (HashToken s token)) (\<lambda>_.
      bindM (mapErr failed (PasswordHash s (inStr input ''newPassword''))) (\<lambda>passwordHash.
      bindM (Now s) (\<lambda>now.
      bindM (mapErr (\<lambda>e. publicError CodeInvalidToken ''Invalid token'' 400 (Some e))
        (onDB (ConsumePasswordReset (cfg_Database cfg) (HashToken s token) passwordHash now))) (\<lambda>user.
      bindM (mapErr failed (runHook (ep_OnPasswordReset (cfg_EmailPassword cfg)) user)) (\<lambda>_.
      bindM (if ep_RevokeSessionsOnPasswordReset (cfg_EmailPassword cfg) then
          bindM (Now s) (\<lambda>now.
            mapErr failed (onDB (RevokeUserSessions (cfg_Database cfg) (u_ID user) now)))
        else ret ()) (\<lambda>_.
        writeJSON 200 statusTrue))))))))))"

section \<open>Email verification\<close>

definition handleSendVerification :: "'d Server \<Rightarrow> Request \<Rightarrow> body \<Rightarrow> ('d, unit) action" where
  "handleSendVerification s r doc =
     (let cfg = srv_cfg s in
      bindM (decodeJSON (decodeStruct emailFields) doc) (\<lambda>input.
      let email = looseEmail s (inStr input ''email'') in
      bindM (rateLimit s r ''send-verification-email'' (HashToken s email)) (\<lambda>_.
      bindM (allowedLifecycleRedirect s (inStr input ''callbackURL'')) (\<lambda>callbackURL.
      bindM (tryM (sessionFromRequest s r)) (\<lambda>current.
      bindM (case current of
          Inr (_, sessionUser, _) \<Rightarrow>
            bindM (failIf (u_Email sessionUser \<noteq> email)
              (publicError CodeEmailMismatch ''Email mismatch'' 400 None)) (\<lambda>_.
            bindM (failIf (u_EmailVerified sessionUser)
              (publicError CodeEmailAlreadyVerified ''Email is already verified'' 400 None)) (\<lambda>_.
              ret (Inr sessionUser)))
        | Inl _ \<Rightarrow> tryM (onDB (FindUserByEmail (cfg_Database cfg) email))) (\<lambda>found.
      bindM (case found of
          Inr user \<Rightarrow>
            if \<not> u_EmailVerified user \<and> u_DisabledAt user = None then
              bindM (tryM (issueOneTimeMail s user PurposeEmailVerify ''email-verification''
                (cfg_EmailVerificationTTL cfg) ''/verify-email'' callbackURL)) (\<lambda>_. ret ())
            else ret ()
        | Inl _ \<Rightarrow> ret ()) (\<lambda>_.
        writeJSON 200 statusTrue)))))))"

definition sendConfirmedEmailChange :: "'d Server \<Rightarrow> User \<Rightarrow> string \<Rightarrow> string \<Rightarrow> ('d, unit) action" where
  "sendConfirmedEmailChange s user newEmail returnTo =
     bindM (mapErr (internalFailure ''Email could not be changed.'')
       (issueEmailChangeMail s (user\<lparr>u_Email := newEmail\<rparr>) PurposeEmailChange ''email-change'' newEmail returnTo)) (\<lambda>_.
       if returnTo \<noteq> '''' then http_Redirect returnTo 302 else writeJSON 200 statusTrue)"

definition tokenError :: "go_error option \<Rightarrow> go_error" where
  "tokenError cause = publicError CodeInvalidToken ''The token is invalid or expired.'' 400 cause"

text \<open>The branch of \<open>handleConfirmVerification\<close> for the tokens of an email change.\<close>

definition confirmEmailChange :: "'d Server \<Rightarrow> string \<Rightarrow> gtime \<Rightarrow> string \<Rightarrow> ('d, unit) action" where
  "confirmEmailChange s hash now callbackURL =
     (let cfg = srv_cfg s in
      bindM (tryM (onDB (ConsumeEmailChange (cfg_Database cfg) hash now))) (\<lambda>changed.
      case changed of
        Inl _ \<Rightarrow>
          bindM (tryM (onDB (ConsumeEmailChangeConfirmation (cfg_Database cfg) hash now))) (\<lambda>confirmed.
          case confirmed of
            Inr (user, newEmail, returnTo) \<Rightarrow> sendConfirmedEmailChange s user newEmail returnTo
          | Inl err \<Rightarrow>
              if callbackURL \<noteq> '''' then redirectWithParameter s callbackURL ''error'' ''INVALID_TOKEN''
              else fail (tokenError (Some err)))
      | Inr (user, returnTo) \<Rightarrow>
          bindM (mapErr (internalFailure ''Email verification could not be completed.'')
            (runHook (ev_AfterVerification (cfg_EmailVerification cfg)) user)) (\<lambda>_.
          if returnTo \<noteq> '''' then bindM (setHeader ''Location'' returnTo) (\<lambda>_. WriteHeader 302)
          else writeJSON 200 (JObj [(''status'', JBool True), (''user'', JUser user)]))))"

definition confirmVerifiedUser ::
  "'d Server \<Rightarrow> Request \<Rightarrow> User \<Rightarrow> gtime \<Rightarrow> string \<Rightarrow> ('d, unit) action" where
  "confirmVerifiedUser s r user now callbackURL =
     (let cfg = srv_cfg s; failed = internalFailure ''Email verification could not be completed.'' in
      bindM (mapErr failed (runHook (ev_BeforeVerification (cfg_EmailVerification cfg)) user)) (\<lambda>_.
      bindM (mapErr failed (onDB (VerifyUserEmail (cfg_Database cfg) (u_ID user) now))) (\<lambda>user.
      bindM (mapErr failed (runHook (ev_AfterVerification (cfg_EmailVerification cfg)) user)) (\<lambda>_.
      bindM (if ev_AutoSignInAfterVerification (cfg_EmailVerification cfg) then
          bindM (newSession s (u_ID user) (cfg_SessionDuration cfg)) (\<lambda>(session, raw).
          bindM (mapErr failed (rotateOrCreateBrowserSession s r session)) (\<lambda>session.
          bindM (setSessionCookie s raw (ss_ExpiresAt session)) (\<lambda>_.
            ensureCSRFCookie s r)))
        else ret ()) (\<lambda>_.
      if callbackURL \<noteq> '''' then http_Redirect callbackURL 302
      else writeJSON 200 (JObj [(''status'', JBool True), (''user'', JNull)]))))))"

definition handleConfirmVerification :: "'d Server \<Rightarrow> Request \<Rightarrow> ('d, unit) action" where
  "handleConfirmVerification s r =
     (let token = rq_Query r ''token'' in
      bindM (allowedLifecycleRedirect s (rq_Query r ''callbackURL'')) (\<lambda>callbackURL.
      if length token < 20 \<or> length token > 2048 then
        (if callbackURL \<noteq> '''' then redirectWithParameter s callbackURL ''error'' ''INVALID_TOKEN''
         else fail (tokenError None))
      else
        bindM (rateLimit s r ''verify-email'' (HashToken s token)) (\<lambda>_.
        bindM (Now s) (\<lambda>now.
        bindM (tryM (onDB (ConsumeEmailVerification (cfg_Database (srv_cfg s)) (HashToken s token) now))) (\<lambda>res.
        case res of
          Inr user \<Rightarrow> confirmVerifiedUser s r user now callbackURL
        | Inl err \<Rightarrow>
            if \<not> errors_Is err ErrReplay \<and> \<not> errors_Is err ErrNotFound then fail (tokenError (Some err))
            else confirmEmailChange s (HashToken s token) now callbackURL)))))"

end
