(* ===== verification/Handlers_Social.thy ===== *)
theory Handlers_Social
  imports Handlers_Email
begin

text \<open>
  The endpoints for social providers: \<open>handlers_oauth.go\<close> (sign-in, linking and the callback) and
  \<open>handlers_account_tokens.go\<close> (reading and refreshing a provider's tokens), with the placeholder
  addresses of \<open>email.go\<close>. A provider is a record of functions; \<open>sv_PKCEChallenge\<close> is the
  base64 of SHA-256.
\<close>

section \<open>Placeholder addresses\<close>

definition placeholderEmailDomain :: string where
  "placeholderEmailDomain = ''placeholder.invalid''"

definition alphanumeric :: "char \<Rightarrow> bool" where
  "alphanumeric c \<longleftrightarrow>
     list_ex (\<lambda>(first, final). first \<le> c \<and> c \<le> final)
       [(CHR ''a'', CHR ''z''), (CHR ''A'', CHR ''Z''), (CHR ''0'', CHR ''9'')]"

definition validPlaceholderLocalPart :: "string \<Rightarrow> bool" where
  "validPlaceholderLocalPart value \<longleftrightarrow>
     \<not> (value = '''' \<or> length value > 64 \<or> hd value = CHR ''.'' \<or> last value = CHR ''.'' \<or> strings_Contains value ''..'') \<and>
     list_all (\<lambda>c. alphanumeric c \<or> c \<in> set (''!#$%&'' @ [CHR 0x27] @ ''*+-/=?^_`{|}~.'')) value"

definition validPlaceholderNamespace :: "string \<Rightarrow> bool" where
  "validPlaceholderNamespace value \<longleftrightarrow>
     \<not> (value = '''' \<or> length value > 215) \<and>
     list_all (\<lambda>label. \<not> (label = '''' \<or> length label > 63 \<or> hd label = CHR ''-'' \<or> last label = CHR ''-'') \<and>
       list_all (\<lambda>c. alphanumeric c \<or> c = CHR ''-'') label) (SplitOn (CHR ''.'') value)"

definition CreatePlaceholderEmail :: "string \<Rightarrow> string \<Rightarrow> go_error + string" where
  "CreatePlaceholderEmail identifier namespace =
     (if \<not> validPlaceholderLocalPart identifier
      then Inl (ErrText ''betterauth: invalid placeholder email: invalid identifier'')
      else if \<not> validPlaceholderNamespace namespace
      then Inl (ErrText ''betterauth: invalid placeholder email: invalid namespace'')
      else let email = identifier @ ''@'' @ namespace @ ''.'' @ placeholderEmailDomain in
        if length email > 254 then Inl (ErrText ''betterauth: invalid placeholder email: address is too long'')
        else Inr email)"

definition isPlaceholderEmail :: "string \<Rightarrow> bool" where
  "isPlaceholderEmail email \<longleftrightarrow> HasSuffix (ToLower email) (''.'' @ placeholderEmailDomain)"

section \<open>Starting a social sign-in\<close>

definition socialFields :: "(string \<times> field_kind) list" where
  "socialFields = [(''provider'', KStr), (''callbackURL'', KStr), (''errorCallbackURL'', KStr),
     (''newUserCallbackURL'', KStr), (''disableRedirect'', KBool), (''requestSignUp'', KBool)]"

definition socialProvider :: "'d Server \<Rightarrow> string \<Rightarrow> OAuthProvider option" where
  "socialProvider s providerID = map_of (sv_SocialProviders (srv_services s)) providerID"

definition accountLinkingEnabled :: "'d Server \<Rightarrow> bool" where
  "accountLinkingEnabled s = orTrue (am_LinkingEnabled (cfg_Account (srv_cfg s)))"

definition providerCallbackURL :: "'d Server \<Rightarrow> string \<Rightarrow> string" where
  "providerCallbackURL s providerID =
     cfg_PublicURL (srv_cfg s) @ cfg_BasePath (srv_cfg s) @ ''/callback/'' @ sv_PathEscape (srv_services s) providerID"

definition redirectTo :: "string \<Rightarrow> ('d, unit) action" where
  "redirectTo url = bindM (setHeader ''Location'' url) (\<lambda>_. WriteHeader 302)"

definition beginSocialAuthorize :: "'d Server \<Rightarrow> Request \<Rightarrow> Record \<Rightarrow> string \<Rightarrow> ('d, unit) action" where
  "beginSocialAuthorize s r input linkUserID =
     (let providerID = ToLower (TrimSpace (inStr input ''provider''));
          failed = publicError CodeProviderFailure ''Social sign in could not be started.'' 502 in
      case socialProvider s providerID of
        None \<Rightarrow> fail (publicError CodeBadRequest ''Social provider is not configured.'' 400 None)
      | Some provider \<Rightarrow>
          bindM (failIf (linkUserID \<noteq> '''' \<and> \<not> accountLinkingEnabled s)
            (publicError CodeLinkingNotAllowed ''Account linking is not allowed.'' 401 None)) (\<lambda>_.
          bindM (allowedRedirect s (inStr input ''callbackURL'')) (\<lambda>returnTo.
          bindM (allowedRedirect s (inStr input ''errorCallbackURL'')) (\<lambda>errorReturnTo.
          bindM (allowedRedirect s (inStr input ''newUserCallbackURL'')) (\<lambda>newUserReturnTo.
          bindM (if linkUserID \<noteq> '''' then rateLimit s r (''link-social:'' @ providerID) (HashToken s linkUserID)
                 else rateLimit s r (''sign-in/social:'' @ providerID) '''') (\<lambda>_.
          bindM (Token s 32) (\<lambda>stateRaw.
          bindM (Token s 48) (\<lambda>verifier.
          bindM (Token s 32) (\<lambda>nonce.
          bindM (newID s) (\<lambda>stateID.
          bindM (Now s) (\<lambda>now.
          let redirectURI = providerCallbackURL s providerID;
              state = \<lparr>os_ID = stateID, os_Hash = HashToken s stateRaw, os_PKCEVerifier = verifier, os_Nonce = nonce,
                os_RedirectURI = redirectURI, os_ReturnTo = returnTo, os_ErrorReturnTo = errorReturnTo,
                os_NewUserReturnTo = newUserReturnTo, os_LinkUserID = linkUserID,
                os_RequestSignUp = inBool input ''requestSignUp'',
                os_ExpiresAt = now + cfg_OAuthStateTTL (srv_cfg s), os_CreatedAt = now\<rparr> in
          bindM (mapErr (internalFailure ''Social sign in could not be started.'')
            (onDB (PutOAuthState (cfg_Database (srv_cfg s)) state))) (\<lambda>_.
          bindM (mapErr (\<lambda>e. failed (Some e))
            (external (\<lambda>k. pr_AuthorizationURL provider k stateRaw (sv_PKCEChallenge (srv_services s) verifier)
              nonce redirectURI))) (\<lambda>destination.
          bindM (mapErr (\<lambda>e. failed (Some e)) (lift (nl_Parse (sv_Net (srv_services s)) destination))) (\<lambda>parsed.
          bindM (failIf (url_Scheme parsed \<noteq> ''https'' \<or> url_Host parsed = '''' \<or> url_User parsed) (failed None)) (\<lambda>_.
          let url = nl_String (sv_Net (srv_services s)) parsed in
          if inBool input ''disableRedirect''
          then writeJSON 200 (JObj [(''url'', JStr url), (''redirect'', JBool False)])
          else redirectTo url)))))))))))))))"

definition handleSocialAuthorize :: "'d Server \<Rightarrow> Request \<Rightarrow> body \<Rightarrow> ('d, unit) action" where
  "handleSocialAuthorize s r doc =
     bindM (decodeJSON (decodeStruct socialFields) doc) (\<lambda>input. beginSocialAuthorize s r input '''')"

definition handleLinkSocial :: "'d Server \<Rightarrow> Request \<Rightarrow> body \<Rightarrow> ('d, unit) action" where
  "handleLinkSocial s r doc =
     bindM (requireCSRF s r) (\<lambda>_.
     bindM (sessionFromRequest s r) (\<lambda>(session, user, _).
     bindM (requireFreshSession s session) (\<lambda>_.
     bindM (decodeJSON (decodeStruct socialFields) doc) (\<lambda>input.
       beginSocialAuthorize s r input (u_ID user)))))"

section \<open>Trusted providers\<close>

definition trustedProviders :: "'d Server \<Rightarrow> Request \<Rightarrow> ('d, string list) action" where
  "trustedProviders s r =
     (case sv_TrustedProviderResolver (srv_services s) of
        None \<Rightarrow> ret (am_TrustedProviders (cfg_Account (srv_cfg s)))
      | Some resolver \<Rightarrow> external (\<lambda>k. resolver k r))"

definition accountProviderInUse :: "'d Server \<Rightarrow> Request \<Rightarrow> string \<Rightarrow> ('d, bool) action" where
  "accountProviderInUse s r providerID =
     (if list_ex (\<lambda>configured. ToLower configured = ToLower (TrimSpace providerID))
           (map fst (sv_SocialProviders (srv_services s)))
      then ret True
      else
        bindM (trustedProviders s r) (\<lambda>trusted.
          ret (list_ex (\<lambda>t. ToLower (TrimSpace t) = ToLower (TrimSpace providerID)) trusted)))"

fun trusted_loop :: "'d Server \<Rightarrow> string \<Rightarrow> string list \<Rightarrow> go_error + bool" where
  "trusted_loop s providerID [] = Inr False"
| "trusted_loop s providerID (raw # rest) =
     (let trusted = ToLower (TrimSpace raw) in
      if \<not> validProviderID trusted
      then Inl (ErrText ''betterauth: trusted provider resolver returned an invalid provider'')
      else if socialProvider s trusted = None \<and> trusted \<noteq> ''email-password''
      then Inl (ErrText ''betterauth: trusted provider resolver returned an unconfigured provider'')
      else if trusted = providerID then Inr True
      else trusted_loop s providerID rest)"

definition trustedOAuthProvider :: "'d Server \<Rightarrow> Request \<Rightarrow> string \<Rightarrow> ('d, bool) action" where
  "trustedOAuthProvider s r providerID =
     bindM (trustedProviders s r) (\<lambda>trusted. lift (trusted_loop s providerID trusted))"

section \<open>The callback\<close>

text \<open>An error of the callback, as a redirect when the sign-in asked for one.\<close>

definition oauthCallbackError ::
  "'d Server \<Rightarrow> OAuthState \<Rightarrow> string \<Rightarrow> ErrorCode \<Rightarrow> string \<Rightarrow> int \<Rightarrow> go_error option \<Rightarrow> ('d, unit) action" where
  "oauthCallbackError s state redirectCode code message status cause =
     (if os_ErrorReturnTo state = '''' then fail (publicError code message status cause)
      else
        bindM (mapErr (internalFailure ''Social sign in could not be completed.'')
          (lift (sv_SetQuery (srv_services s) (os_ErrorReturnTo state) ''error'' redirectCode))) (\<lambda>destination.
          redirectTo destination))"

definition safeProviderError :: "string \<Rightarrow> string" where
  "safeProviderError raw =
     (let value = ToLower (TrimSpace raw) in
      if value \<in> {''access_denied'', ''account_selection_required'', ''consent_required'', ''interaction_required'',
        ''login_required'', ''server_error'', ''temporarily_unavailable''} then value else ''provider_error'')"

text \<open>The form of a POST is parsed first; the value of a GET comes from the query.\<close>

definition callbackValue :: "Request \<Rightarrow> string \<Rightarrow> string" where
  "callbackValue r key =
     (if rq_Method r = ''POST'' then (case rq_PostForm r of Inr form \<Rightarrow> form key | Inl _ \<Rightarrow> '''') else rq_Query r key)"

definition responseInvalid :: "go_error option \<Rightarrow> go_error" where
  "responseInvalid cause =
     publicError CodeInvalidToken ''The authorization response is invalid or expired.'' 400 cause"

text \<open>The part of the callback for an account that a signed-in user links.\<close>

definition linkProfile ::
  "'d Server \<Rightarrow> Request \<Rightarrow> OAuthState \<Rightarrow> OAuthProfile \<Rightarrow> ProviderTokens \<Rightarrow> ('d, unit) action" where
  "linkProfile s r state profile tokens =
     (let account = cfg_Account (srv_cfg s); db = cfg_Database (srv_cfg s) in
      bindM (tryM (sessionFromRequest s r)) (\<lambda>current.
      let expired = oauthCallbackError s state ''session_expired'' CodeUnauthorized ''Authentication required.'' 401 in
      case current of
        Inl sessionErr \<Rightarrow> expired (Some sessionErr)
      | Inr (_, linkingUser, _) \<Rightarrow>
          if u_ID linkingUser \<noteq> os_LinkUserID state then expired None
          else if \<not> accountLinkingEnabled s then
            oauthCallbackError s state ''unable_to_link_account'' CodeLinkingNotAllowed
              ''Account linking is not allowed.'' 401 None
          else if \<not> am_AllowLinkingDifferentEmails account \<and> op_Email profile \<noteq> u_Email linkingUser then
            oauthCallbackError s state (''email_doesn'' @ [CHR 0x27] @ ''t_match'') CodeLinkingDifferentEmails
              ''Account linking with a different email is not allowed.'' 401 None
          else
            bindM (newID s) (\<lambda>accountID.
            bindM (Now s) (\<lambda>now.
            bindM (tryM (onDB (LinkOAuthAccount db accountID (u_ID linkingUser) profile tokens now))) (\<lambda>linked.
            case linked of
              Inl err \<Rightarrow>
                if errors_Is err ErrConflict then
                  oauthCallbackError s state ''account_already_linked_to_different_user'' CodeAccountLinkedElsewhere
                    ''The social account is already linked to another user.'' 409 (Some err)
                else
                  oauthCallbackError s state ''unable_to_link_account'' CodeInternal
                    ''The social account could not be linked.'' 500 (Some err)
            | Inr _ \<Rightarrow>
                let changes = (if op_Name profile \<noteq> '''' then [''name'' \<mapsto> VStr (op_Name profile)] else Map.empty) ++
                      (if op_ImageURL profile \<noteq> '''' then [''image'' \<mapsto> VStr (op_ImageURL profile)] else Map.empty) in
                bindM (if am_UpdateUserInfoOnLink account \<and> (op_Name profile \<noteq> '''' \<or> op_ImageURL profile \<noteq> '''') then
                    bindM (Now s) (\<lambda>now.
                    bindM (tryM (onDB (UpdateUser db (u_ID linkingUser) changes now))) (\<lambda>updated.
                      ret (case updated of Inr u \<Rightarrow> u | Inl _ \<Rightarrow> linkingUser)))
                  else ret linkingUser) (\<lambda>shown.
                if os_ReturnTo state \<noteq> '''' then redirectTo (os_ReturnTo state)
                else writeJSON 200 (JObj [(''redirect'', JBool False), (''user'', JUser shown)])))))))"

definition callbackPolicy :: "'d Server \<Rightarrow> OAuthProvider \<Rightarrow> OAuthState \<Rightarrow> OAuthUpsertPolicy" where
  "callbackPolicy s provider state =
     (let account = cfg_Account (srv_cfg s) in
      \<lparr>pol_AllowImplicitLink = accountLinkingEnabled s \<and> \<not> am_DisableImplicitLinking account,
       pol_RequireLocalVerification = orTrue (am_RequireLocalEmailVerified account),
       pol_UpdateUserInfoOnLink = am_UpdateUserInfoOnLink account,
       pol_UpdateAccountOnSignIn = orTrue (am_UpdateAccountOnSignIn account),
       pol_AllowSignUp = (case pr_SignUpPolicy provider of
          None \<Rightarrow> True
        | Some p \<Rightarrow> \<not> sp_DisableSignUp p \<and> (\<not> sp_DisableImplicitSignUp p \<or> os_RequestSignUp state))\<rparr>)"

text \<open>The part of the callback that signs a user in.\<close>

definition signInProfile ::
  "'d Server \<Rightarrow> Request \<Rightarrow> OAuthProvider \<Rightarrow> OAuthState \<Rightarrow> OAuthProfile \<Rightarrow> ProviderTokens \<Rightarrow> ('d, unit) action" where
  "signInProfile s r provider state profile tokens =
     bindM (newID s) (\<lambda>userID.
     bindM (newSession s userID (cfg_SessionDuration (srv_cfg s))) (\<lambda>(session, raw).
     bindM (newID s) (\<lambda>eventID.
     let event = \<lparr>de_ID = eventID, de_SchemaVersion = 1, de_Name = EventUserCreated, de_AggregateID = userID,
           de_OccurredAt = ss_CreatedAt session,
           de_Payload = smap_of [(''userId'', userID), (''email'', op_Email profile), (''provider'', op_Provider profile)]\<rparr> in
     bindM (tryM (onDB (UpsertOAuthUser (cfg_Database (srv_cfg s)) profile tokens session event
         (callbackPolicy s provider state)))) (\<lambda>res.
     case res of
       Inl err \<Rightarrow>
         if errors_Is err ErrAccountNotLinked then
           oauthCallbackError s state ''account_not_linked'' CodeAccountNotLinked ''The account is not linked.'' 403 (Some err)
         else if errors_Is err ErrSignUpDisabled then
           oauthCallbackError s state ''signup_disabled'' CodeOAuthSignUpDisabled ''Social sign up is disabled.'' 403 (Some err)
         else if errors_Is err ErrConflict then
           oauthCallbackError s state ''unable_to_link_account'' CodeConflict
             ''The social account could not be linked.'' 409 (Some err)
         else
           oauthCallbackError s state ''internal_server_error'' CodeInternal
             ''Social sign in could not be completed.'' 500 (Some err)
     | Inr (user, createdSession, isNew) \<Rightarrow>
         bindM (revokePreviousBrowserSession s r raw) (\<lambda>_.
         bindM (setSessionCookie s raw (ss_ExpiresAt createdSession)) (\<lambda>_.
         bindM (ensureCSRFCookie s r) (\<lambda>_.
         let destination = (if isNew \<and> os_NewUserReturnTo state \<noteq> '''' then os_NewUserReturnTo state
               else os_ReturnTo state) in
         if destination \<noteq> '''' then redirectTo destination
         else writeJSON 200 (JObj [(''redirect'', JBool False), (''token'', JNull), (''user'', JUser user),
           (''isNewUser'', JBool isNew)]))))))))"

text \<open>The profile of the provider's answer, once it counts as a verified identity.\<close>

definition acceptProfile ::
  "'d Server \<Rightarrow> string \<Rightarrow> OAuthProfile \<Rightarrow> bool \<Rightarrow> go_error + OAuthProfile" where
  "acceptProfile s providerID profile trusted =
     bindE (normalizeEmail s (op_Email profile)) (\<lambda>email.
       if op_ProviderAccountID profile = '''' \<or> length (op_ProviderAccountID profile) > 512 \<or>
          (\<not> op_EmailVerified profile \<and> \<not> trusted)
       then Inl (ErrText ''identity is not verified'')
       else Inr (profile\<lparr>op_Provider := providerID, op_Email := email,
         op_EmailVerified := op_EmailVerified profile \<or> (trusted \<and> \<not> isPlaceholderEmail email)\<rparr>))"

definition handleSocialCallback :: "'d Server \<Rightarrow> string \<Rightarrow> Request \<Rightarrow> ('d, unit) action" where
  "handleSocialCallback s providerID r =
     (if rq_Method r \<noteq> ''GET'' \<and> rq_Method r \<noteq> ''POST'' then
        bindM (setHeader ''Allow'' ''GET, POST'') (\<lambda>_.
          fail (publicError CodeMethodNotAllowed ''Method not allowed.'' 405 None))
      else
        bindM (if rq_Method r = ''POST'' then
            mapErr (\<lambda>e. publicError CodeBadRequest ''Invalid provider callback.'' 400 (Some e))
              (bindM (lift (rq_PostForm r)) (\<lambda>_. ret ()))
          else ret ()) (\<lambda>_.
        let stateRaw = callbackValue r ''state'' in
        bindM (failIf (length stateRaw < 20 \<or> length stateRaw > 2048) (responseInvalid None)) (\<lambda>_.
        bindM (Now s) (\<lambda>now.
        bindM (mapErr (\<lambda>e. responseInvalid (Some e))
          (onDB (ConsumeOAuthState (cfg_Database (srv_cfg s)) (HashToken s stateRaw) now))) (\<lambda>state.
        bindM (failIf (os_RedirectURI state \<noteq> providerCallbackURL s providerID) (responseInvalid None)) (\<lambda>_.
        let providerFailure = (\<lambda>redirect message. oauthCallbackError s state redirect CodeProviderFailure message 502);
            unverified = providerFailure ''unable_to_get_user_info'' ''The provider did not return a verified identity.'' in
        case socialProvider s providerID of
          None \<Rightarrow> fail (publicError CodeNotFound ''Social provider is not configured.'' 404 None)
        | Some provider \<Rightarrow>
            let code = callbackValue r ''code'' in
            if callbackValue r ''error'' \<noteq> '''' then
              providerFailure (safeProviderError (callbackValue r ''error''))
                ''The identity provider rejected the request.'' None
            else if length code = 0 \<or> length code > 4096 then
              providerFailure ''no_code'' ''The identity provider did not return an authorization code.'' None
            else
              bindM (tryM (external (\<lambda>k. pr_Exchange provider k code (os_PKCEVerifier state) (os_Nonce state)
                (os_RedirectURI state)))) (\<lambda>exchanged.
              case exchanged of
                Inl err \<Rightarrow> providerFailure ''invalid_code'' ''Social sign in could not be completed.'' (Some err)
              | Inr result \<Rightarrow>
                  bindM (tryM (trustedOAuthProvider s r providerID)) (\<lambda>trust.
                  case trust of
                    Inl trustErr \<Rightarrow> unverified (Some trustErr)
                  | Inr trusted \<Rightarrow>
                      (case acceptProfile s providerID (or_Profile result) trusted of
                         Inl err \<Rightarrow>
                           unverified (case normalizeEmail s (op_Email (or_Profile result)) of Inl e \<Rightarrow> Some e | Inr _ \<Rightarrow> None)
                       | Inr profile \<Rightarrow>
                           bindM (mapErr (internalFailure ''Social sign in could not be completed.'')
                             (encryptProviderTokens s (or_Tokens result))) (\<lambda>tokens.
                           if os_LinkUserID state \<noteq> '''' then linkProfile s r state profile tokens
                           else signInProfile s r provider state profile tokens))))))))))"

section \<open>Provider tokens\<close>

definition providerTokenFields :: "(string \<times> field_kind) list" where
  "providerTokenFields = [(''accountId'', KStr), (''providerId'', KStr)]"

definition providerAccount :: "'d Server \<Rightarrow> string \<Rightarrow> Record \<Rightarrow> ('d, StoredOAuthAccount) action" where
  "providerAccount s userID input =
     (let providerID = ToLower (TrimSpace (inStr input ''providerId''));
          accountID = TrimSpace (inStr input ''accountId'');
          db = cfg_Database (srv_cfg s) in
      bindM (failIf ((providerID = '''' \<and> accountID = '''') \<or> length accountID > 512 \<or>
          (providerID \<noteq> '''' \<and> (\<not> validProviderID providerID \<or> providerID = credentialProvider)))
        (publicError CodeBadRequest ''Invalid provider account.'' 400 None)) (\<lambda>_.
      bindM (mapErr (\<lambda>e. if errors_Is e ErrNotFound
            then publicError CodeAccountNotFound ''Account not found'' 400 (Some e)
            else internalFailure ''Provider account could not be read.'' e)
          (onDB (if providerID = '''' then OAuthAccountTokensByID db userID accountID
                 else OAuthAccountTokens db userID providerID accountID))) (\<lambda>account.
      let providerID = (if providerID = '''' then oa_Provider (so_Account account) else providerID) in
      bindM (failIf (providerID = credentialProvider)
        (publicError CodeProviderNotSupported ''Provider credential is not supported.'' 400 None)) (\<lambda>_.
      bindM (failIf (socialProvider s providerID = None)
        (publicError CodeProviderNotSupported (''Provider '' @ providerID @ '' is not supported.'') 400 None)) (\<lambda>_.
        ret account)))))"

text \<open>The tokens a refresh leaves: what the provider omits is kept, scopes are merged.\<close>

definition mergeRefreshed :: "ProviderTokens \<Rightarrow> ProviderTokens \<Rightarrow> ProviderTokens" where
  "mergeRefreshed current refreshed =
     refreshed\<lparr>
       pt_RefreshToken := (if pt_RefreshToken refreshed = '''' then pt_RefreshToken current else pt_RefreshToken refreshed),
       pt_RefreshTokenExpiresAt := (if pt_RefreshTokenExpiresAt refreshed = 0 then pt_RefreshTokenExpiresAt current
          else pt_RefreshTokenExpiresAt refreshed),
       pt_IDToken := (if pt_IDToken refreshed = '''' then pt_IDToken current else pt_IDToken refreshed),
       pt_Scope := (if pt_Scope refreshed = '''' then pt_Scope current
          else mergeOAuthScopes (pt_Scope current) (pt_Scope refreshed))\<rparr>"

definition refreshProviderAccount ::
  "'d Server \<Rightarrow> string \<Rightarrow> StoredOAuthAccount \<Rightarrow> ProviderTokens \<Rightarrow> ('d, ProviderTokens) action" where
  "refreshProviderAccount s userID stored current =
     (let name = oa_Provider (so_Account stored);
          failed = internalFailure ''Provider token could not be refreshed.'';
          missing = publicError CodeRefreshTokenNotFound ''Refresh token not found'' 400 None in
      case socialProvider s name of
        None \<Rightarrow> fail (publicError CodeProviderNotSupported (''Provider '' @ name @ '' is not supported.'') 400 None)
      | Some provider \<Rightarrow>
          (case pr_Refresh provider of
             None \<Rightarrow> fail (publicError CodeTokenRefreshUnsupported
               (''Provider '' @ name @ '' does not support token refreshing.'') 400 None)
           | Some refresh \<Rightarrow>
               bindM (failIf (pt_RefreshToken current = '''') missing) (\<lambda>_.
               bindM (if pt_RefreshTokenExpiresAt current \<noteq> 0 then
                   bindM (Now s) (\<lambda>now. failIf (\<not> pt_RefreshTokenExpiresAt current > now) missing)
                 else ret ()) (\<lambda>_.
               bindM (mapErr (\<lambda>e. publicError CodeFailedRefreshToken ''Failed to refresh access token'' 400 (Some e))
                 (external (\<lambda>k. refresh k (pt_RefreshToken current)))) (\<lambda>refreshed.
               bindM (failIf (pt_AccessToken refreshed = '''')
                 (publicError CodeFailedRefreshToken ''Failed to refresh access token'' 400 None)) (\<lambda>_.
               let refreshed = mergeRefreshed current refreshed in
               bindM (mapErr failed (encryptProviderTokens s refreshed)) (\<lambda>encrypted.
               bindM (Now s) (\<lambda>now.
               bindM (mapErr failed (onDB (UpdateOAuthAccountTokens (cfg_Database (srv_cfg s)) userID
                 (oa_ID (so_Account stored)) encrypted now))) (\<lambda>_.
                 ret refreshed)))))))))"

definition providerScopes :: "string \<Rightarrow> string list" where
  "providerScopes scope =
     (if scope = '''' then []
      else let parts = SplitOn (CHR '','') scope; parts = (if length parts = 1 then Fields scope else parts) in
        filter (\<lambda>part. part \<noteq> '''') (map TrimSpace parts))"

definition optionalTimeField :: "string \<Rightarrow> gtime \<Rightarrow> (string \<times> json) list" where
  "optionalTimeField k t = (if t \<noteq> 0 then [(k, JVal (VTime t))] else [])"

definition optionalStringField :: "string \<Rightarrow> string \<Rightarrow> (string \<times> json) list" where
  "optionalStringField k v = (if v \<noteq> '''' then [(k, JStr v)] else [])"

definition writeAccessToken :: "ProviderTokens \<Rightarrow> ('d, unit) action" where
  "writeAccessToken tokens = writeJSON 200 (JObj (
     [(''accessToken'', JStr (pt_AccessToken tokens)), (''scopes'', JVal (VStrs (providerScopes (pt_Scope tokens))))] @
     optionalTimeField ''accessTokenExpiresAt'' (pt_AccessTokenExpiresAt tokens) @
     optionalStringField ''idToken'' (pt_IDToken tokens)))"

definition writeRefreshedProviderToken :: "StoredOAuthAccount \<Rightarrow> ProviderTokens \<Rightarrow> ('d, unit) action" where
  "writeRefreshedProviderToken stored tokens = writeJSON 200 (JObj (
     [(''accessToken'', JStr (pt_AccessToken tokens)), (''scope'', JStr (pt_Scope tokens)),
      (''providerId'', JStr (oa_Provider (so_Account stored))),
      (''accountId'', JStr (oa_ProviderAccountID (so_Account stored)))] @
     optionalTimeField ''accessTokenExpiresAt'' (pt_AccessTokenExpiresAt tokens) @
     optionalTimeField ''refreshTokenExpiresAt'' (pt_RefreshTokenExpiresAt tokens) @
     optionalStringField ''idToken'' (pt_IDToken tokens)))"

text \<open>A token that expires within five seconds is refreshed before it is handed out.\<close>

definition staleToken :: "'d Server \<Rightarrow> ProviderTokens \<Rightarrow> ('d, bool) action" where
  "staleToken s tokens =
     (if pt_AccessToken tokens = '''' then ret True
      else if pt_AccessTokenExpiresAt tokens = 0 then ret False
      else bindM (Now s) (\<lambda>now. ret (\<not> pt_AccessTokenExpiresAt tokens > now + 5000000000)))"

definition handleGetAccessToken :: "'d Server \<Rightarrow> Request \<Rightarrow> body \<Rightarrow> ('d, unit) action" where
  "handleGetAccessToken s r doc =
     bindM (requireCSRF s r) (\<lambda>_.
     bindM (sessionFromRequest s r) (\<lambda>(_, user, _).
     bindM (decodeJSON (decodeStruct providerTokenFields) doc) (\<lambda>input.
     bindM (providerAccount s (u_ID user) input) (\<lambda>stored.
     bindM (mapErr (internalFailure ''Provider token could not be read.'')
       (decryptProviderTokens s (so_Tokens stored))) (\<lambda>tokens.
     bindM (staleToken s tokens) (\<lambda>stale.
     bindM (if stale then refreshProviderAccount s (u_ID user) stored tokens else ret tokens) (\<lambda>tokens.
       writeAccessToken tokens)))))))"

definition handleRefreshProviderToken :: "'d Server \<Rightarrow> Request \<Rightarrow> body \<Rightarrow> ('d, unit) action" where
  "handleRefreshProviderToken s r doc =
     bindM (requireCSRF s r) (\<lambda>_.
     bindM (sessionFromRequest s r) (\<lambda>(_, user, _).
     bindM (decodeJSON (decodeStruct providerTokenFields) doc) (\<lambda>input.
     bindM (providerAccount s (u_ID user) input) (\<lambda>stored.
     bindM (mapErr (internalFailure ''Provider token could not be refreshed.'')
       (decryptProviderTokens s (so_Tokens stored))) (\<lambda>tokens.
     bindM (refreshProviderAccount s (u_ID user) stored tokens) (\<lambda>tokens.
       writeRefreshedProviderToken stored tokens))))))"

end
