(* ===== verification/Router.thy ===== *)
theory Router
  imports Handlers_Social
begin

text \<open>
  The core router \<open>serveCoreHTTP\<close> of \<open>server.go\<close>: the endpoint of a path, its method, the check of
  the request's origin before a POST, and the response to an error.
\<close>

section \<open>Methods\<close>

definition methodError :: go_error where
  "methodError = publicError CodeMethodNotAllowed ''Method not allowed.'' 405 None"

definition notFoundError :: go_error where
  "notFoundError = publicError CodeNotFound ''Endpoint not found.'' 404 None"

definition postOnly :: "'d Server \<Rightarrow> Request \<Rightarrow> ('d, unit) action \<Rightarrow> ('d, unit) action" where
  "postOnly s r next =
     (if rq_Method r \<noteq> ''POST'' then bindM (setHeader ''Allow'' ''POST'') (\<lambda>_. fail methodError)
      else bindM (checkOrigin s r) (\<lambda>_. next))"

definition getOnly :: "'d Server \<Rightarrow> Request \<Rightarrow> ('d, unit) action \<Rightarrow> ('d, unit) action" where
  "getOnly s r next =
     (if rq_Method r \<noteq> ''GET'' then bindM (setHeader ''Allow'' ''GET'') (\<lambda>_. fail methodError)
      else next)"

section \<open>Routes\<close>

text \<open>The handler of a path below the base path; \<open>None\<close> for a path that names no endpoint.\<close>

definition coreRoute ::
  "'d Server \<Rightarrow> Request \<Rightarrow> body \<Rightarrow> string \<Rightarrow> ('d, unit) action option" where
  "coreRoute s r doc relative =
     (let post = (\<lambda>h. Some (postOnly s r h)); get = (\<lambda>h. Some (getOnly s r h)) in
      if relative = ''/sign-up/email'' then post (handleSignUp s r doc)
      else if relative = ''/sign-in/email'' then post (handleSignIn s r doc)
      else if relative = ''/sign-out'' then post (handleSignOut s r doc)
      else if relative = ''/get-session'' then get (handleSession s r)
      else if relative = ''/list-sessions'' then get (handleListSessions s r)
      else if relative = ''/refresh-session'' then post (handleRefreshSession s r)
      else if relative = ''/revoke-session'' then post (handleRevokeSession s r doc)
      else if relative = ''/revoke-other-sessions'' then post (handleRevokeOtherSessions s r)
      else if relative = ''/revoke-sessions'' then post (handleRevokeSessions s r)
      else if relative = ''/update-session'' then post (handleUpdateSession s r doc)
      else if relative = ''/update-user'' then post (handleUpdateUser s r doc)
      else if relative = ''/change-email'' then post (handleChangeEmail s r doc)
      else if relative = ''/delete-user'' then post (handleDeleteUser s r doc)
      else if relative = ''/delete-user/callback'' then get (handleDeleteUserCallback s r)
      else if relative = ''/change-password'' then post (handleChangePassword s r doc)
      else if relative = ''/list-accounts'' then get (handleListAccounts s r)
      else if relative = ''/link-social'' then post (handleLinkSocial s r doc)
      else if relative = ''/unlink-account'' then post (handleUnlinkAccount s r doc)
      else if relative = ''/get-access-token'' then post (handleGetAccessToken s r doc)
      else if relative = ''/refresh-token'' then post (handleRefreshProviderToken s r doc)
      else if relative = ''/sign-in/social'' then post (handleSocialAuthorize s r doc)
      else if relative = ''/request-password-reset'' then post (handleForgotPassword s r doc)
      else if relative = ''/forget-password'' then post (handleForgotPassword s r doc)
      else if relative = ''/reset-password'' then post (handleResetPassword s r doc)
      else if relative = ''/send-verification-email'' then post (handleSendVerification s r doc)
      else if relative = ''/verify-email'' then get (handleConfirmVerification s r)
      else if relative = ''/admin/impersonate-user'' then post (handleImpersonate s r doc)
      else if relative = ''/admin/stop-impersonating'' then post (handleStopImpersonating s r)
      else case CutPrefix relative ''/reset-password/'' of
             Some token \<Rightarrow>
               if token \<noteq> '''' then get (handleResetPasswordCallback s token r)
               else (case CutPrefix relative ''/callback/'' of
                       Some providerID \<Rightarrow>
                         if validProviderID providerID then Some (handleSocialCallback s providerID r) else None
                     | None \<Rightarrow> None)
           | None \<Rightarrow>
               (case CutPrefix relative ''/callback/'' of
                  Some providerID \<Rightarrow>
                    if validProviderID providerID then Some (handleSocialCallback s providerID r) else None
                | None \<Rightarrow> None))"

definition serveCoreHTTP ::
  "'d Server \<Rightarrow> Request \<Rightarrow> body \<Rightarrow> ('d, unit) action" where
  "serveCoreHTTP s r doc =
     (let requestID = sanitizeRequestID (rq_Header r ''X-Request-ID'') in
      bindM (setHeader ''Content-Type'' ''application/json; charset=utf-8'') (\<lambda>_.
      bindM (setHeader ''Cache-Control'' ''no-store'') (\<lambda>_.
      bindM (setHeader ''Pragma'' ''no-cache'') (\<lambda>_.
      bindM (setHeader ''X-Content-Type-Options'' ''nosniff'') (\<lambda>_.
      bindM (if requestID \<noteq> '''' then setHeader ''X-Request-ID'' requestID else ret ()) (\<lambda>_.
      case CutPrefix (rq_Path r) (cfg_BasePath (srv_cfg s)) of
        None \<Rightarrow> writeError requestID notFoundError
      | Some relative \<Rightarrow>
          if relative = '''' then writeError requestID notFoundError
          else case coreRoute s r doc relative of
                 None \<Rightarrow> writeError requestID notFoundError
               | Some handler \<Rightarrow>
                   bindM (tryM handler) (\<lambda>res.
                   case res of Inl err \<Rightarrow> writeError requestID err | Inr _ \<Rightarrow> ret ())))))))"

end
