(* ===== verification/Server_Keeps.thy ===== *)
theory Server_Keeps
  imports Router Store_Calls
begin

text \<open>
  What every request keeps. The locale takes a property of the database and the calls of the
  store that keep it, among them all calls but those that start a session or write fields of
  one; a session's token hash comes from the server's token source, after the first \<open>N\<close> external
  calls, and the fields are those the schema lets a client write. Its lemmas carry the property
  through each handler, on every branch, up to the router.
\<close>

section \<open>Calls that handlers make\<close>

text \<open>The calls that write no session row.\<close>

definition plain_call :: "store_call \<Rightarrow> bool" where
  "plain_call c = (case c of
     CallCreateEmailUser p \<Rightarrow> \<not> ce_CreateSession p
   | CallChangePasswordAndRotate p \<Rightarrow> False
   | CallUpsertOAuthUser p tk se ev pol \<Rightarrow> False
   | CallCreateSession se \<Rightarrow> False
   | CallRotateSession h' se \<Rightarrow> False
   | CallRotateSessionWithAudit h' se ae \<Rightarrow> False
   | CallUpdateSession u h changes now \<Rightarrow> False
   | _ \<Rightarrow> True)"

text \<open>
  The cookies the server sets: the session cookie, which scripts cannot read, and the CSRF cookie,
  both sent over HTTPS only and with the configured same-site mode.
\<close>

definition server_cookie :: "'d Server \<Rightarrow> Cookie \<Rightarrow> bool" where
  "server_cookie s c \<longleftrightarrow> co_Secure c \<and> co_SameSite c = ck_SameSite (cfg_Cookie (srv_cfg s)) \<and>
     (co_Name c = ck_Name (cfg_Cookie (srv_cfg s)) \<and> co_HttpOnly c \<or> co_Name c = ck_CSRFName (cfg_Cookie (srv_cfg s)))"

section \<open>Rules\<close>

text \<open>A computation that keeps a property and whose value, if it gives one, satisfies another.\<close>

definition gives :: "('s \<Rightarrow> bool) \<Rightarrow> ('s, 'a) prog \<Rightarrow> ('a \<Rightarrow> bool) \<Rightarrow> bool" where
  "gives W m R \<longleftrightarrow> (\<forall>w. W w \<longrightarrow> W (snd (m w)) \<and> (\<forall>a. fst (m w) = Inr a \<longrightarrow> R a))"

lemma gives_bindM:
  "gives W m R \<Longrightarrow> (\<And>a. R a \<Longrightarrow> gives W (f a) R') \<Longrightarrow> gives W (bindM m f) R'"
  unfolding gives_def bindM_def by (fastforce split: prod.splits sum.splits)

lemma keeps_gives_bindM:
  "gives W m R \<Longrightarrow> (\<And>a. R a \<Longrightarrow> keeps W (f a)) \<Longrightarrow> keeps W (bindM m f)"
  unfolding gives_def keeps_def bindM_def by (fastforce split: prod.splits sum.splits)

lemma gives_ret: "R a \<Longrightarrow> gives W (ret a) R"
  by (simp add: gives_def ret_def)

lemma gives_keeps: "keeps W m \<Longrightarrow> gives W m (\<lambda>_. True)"
  by (simp add: gives_def keeps_def)

lemma gives_mono: "gives W m R \<Longrightarrow> (\<And>a. R a \<Longrightarrow> R' a) \<Longrightarrow> gives W m R'"
  by (auto simp: gives_def)

lemma gives_lift: "(\<And>a. r = Inr a \<Longrightarrow> R a) \<Longrightarrow> gives W (lift r) R"
  by (simp add: gives_def lift_def)

lemma gives_mapErr: "gives W m R \<Longrightarrow> gives W (mapErr g m) R"
  unfolding gives_def mapErr_def by (auto split: prod.splits sum.splits)

lemma snd_void: "snd (void m s) = snd (m s)"
  by (auto simp: void_def bindM_def ret_def split: prod.splits sum.splits)

lemma keeps_void_iff: "keeps P (void m) \<longleftrightarrow> keeps P m"
  by (simp add: keeps_def snd_void)

section \<open>The locale\<close>

locale server_calls =
  fixes s :: "'d Server" and P :: "'d \<Rightarrow> bool" and ok :: "store_call \<Rightarrow> bool" and N :: nat
    and C :: "Cookie \<Rightarrow> bool"
  assumes call_keeps: "ok c \<Longrightarrow> keeps P (run_call (cfg_Database (srv_cfg s)) c)"
    and ok_plain: "plain_call c \<Longrightarrow> ok c"
    and ok_session: "N \<le> k \<Longrightarrow> sv_Token (srv_services s) k n = Inr raw \<Longrightarrow> starts_session c (HashToken s raw) \<Longrightarrow> ok c"
    and ok_update: "validatedInputFields s ModelSession input [] = Inr fs \<Longrightarrow>
      ok (CallUpdateSession u h (map_of fs) now)"
    and cookie_ok: "server_cookie s cookie \<Longrightarrow> C cookie"
begin

abbreviation W :: "'d world \<Rightarrow> bool" where
  "W w \<equiv> P (w_db w) \<and> N \<le> w_calls w \<and> list_all C (rs_Cookies (w_resp w))"

lemma keeps_onDB: "keeps P m \<Longrightarrow> keeps W (onDB m)"
  by (auto simp: keeps_def onDB_def split: prod.split)

lemma keeps_external [intro!]: "keeps W (external f)"
  by (simp add: keeps_def external_def)

lemma keeps_writes [intro!]:
  "keeps W (setHeader k v)" "keeps W (WriteHeader st)" "keeps W (writeJSON st j)"
  "keeps W (rateLimit s r a key)" "keeps W (Send s m)"
  by (auto simp: keeps_def setHeader_def WriteHeader_def writeJSON_def rateLimit_def Send_def Let_def
      split: sum.split option.split)

lemma keeps_services [intro!]:
  "keeps W (Token s n)" "keeps W (Now s)" "keeps W (PasswordHash s p)" "keeps W (PasswordVerify s h p)"
  "keeps W (requireSchema s)" "keeps W (newID s)"
  unfolding Token_def Now_def PasswordHash_def PasswordVerify_def requireSchema_def newID_def by (rule keeps_external)+

lemma keeps_runHook [intro!]: "keeps W (runHook h user)"
  unfolding runHook_def by (intro keeps_rules keeps_external)

lemma keeps_SetCookie: "server_cookie s c \<Longrightarrow> keeps W (SetCookie c)"
  by (simp add: keeps_def SetCookie_def cookie_ok)

text \<open>The calls without conditions.\<close>

lemma plain_keeps: "plain_call c \<Longrightarrow> keeps P (run_call (cfg_Database (srv_cfg s)) c)"
  by (intro call_keeps ok_plain)

lemmas plain_cases =
  plain_keeps [of "CallFindUserByEmail e" for e, simplified run_call.simps keeps_void_iff]
  plain_keeps [of "CallFindUserByID u" for u, simplified run_call.simps keeps_void_iff]
  plain_keeps [of "CallPasswordCredential u" for u, simplified run_call.simps keeps_void_iff]
  plain_keeps [of "CallReplacePasswordHash u a b now" for u a b now, simplified run_call.simps keeps_void_iff]
  plain_keeps [of "CallSetPasswordHash u h now" for u h now, simplified run_call.simps keeps_void_iff]
  plain_keeps [of "CallUpdateUser u changes now" for u changes now, simplified run_call.simps keeps_void_iff]
  plain_keeps [of "CallVerifyUserEmail u now" for u now, simplified run_call.simps keeps_void_iff]
  plain_keeps [of "CallDeleteUser u" for u, simplified run_call.simps keeps_void_iff]
  plain_keeps [of "CallListAccounts u" for u, simplified run_call.simps keeps_void_iff]
  plain_keeps [of "CallUnlinkAccount u p a l" for u p a l, simplified run_call.simps keeps_void_iff]
  plain_keeps [of "CallUnlinkAccountByID u a l" for u a l, simplified run_call.simps keeps_void_iff]
  plain_keeps [of "CallOAuthAccountTokens u p a" for u p a, simplified run_call.simps keeps_void_iff]
  plain_keeps [of "CallSessionByTokenHash h" for h, simplified run_call.simps keeps_void_iff]
  plain_keeps [of "CallRevokeSession h at" for h at, simplified run_call.simps keeps_void_iff]
  plain_keeps [of "CallRevokeUserSessions u at" for u at, simplified run_call.simps keeps_void_iff]
  plain_keeps [of "CallListSessions u now" for u now, simplified run_call.simps keeps_void_iff]
  plain_keeps [of "CallRevokeSessionByID u i at" for u i at, simplified run_call.simps keeps_void_iff]
  plain_keeps [of "CallRevokeOtherSessions u i at" for u i at, simplified run_call.simps keeps_void_iff]
  plain_keeps [of "CallOAuthAccountTokensByID u a" for u a, simplified run_call.simps keeps_void_iff]
  plain_keeps [of "CallUpdateOAuthAccountTokens u a tk now" for u a tk now, simplified run_call.simps keeps_void_iff]
  plain_keeps [of "CallLinkOAuthAccount a u p tk now" for a u p tk now, simplified run_call.simps keeps_void_iff]
  plain_keeps [of "CallPutOAuthState st" for st, simplified run_call.simps keeps_void_iff]
  plain_keeps [of "CallConsumeOAuthState h now" for h now, simplified run_call.simps keeps_void_iff]
  plain_keeps [of "CallPutOneTimeToken tk" for tk, simplified run_call.simps keeps_void_iff]
  plain_keeps [of "CallHasOneTimeToken p h now" for p h now, simplified run_call.simps keeps_void_iff]
  plain_keeps [of "CallConsumeUserDeletion h u now" for h u now, simplified run_call.simps keeps_void_iff]
  plain_keeps [of "CallConsumeEmailChange h now" for h now, simplified run_call.simps keeps_void_iff]
  plain_keeps [of "CallConsumeEmailChangeConfirmation h now" for h now, simplified run_call.simps keeps_void_iff]
  plain_keeps [of "CallConsumePasswordReset h p now" for h p now, simplified run_call.simps keeps_void_iff]
  plain_keeps [of "CallConsumeEmailVerification h now" for h now, simplified run_call.simps keeps_void_iff]

lemma plain_onDB [intro!]:
  "keeps W (onDB (FindUserByEmail (cfg_Database (srv_cfg s)) e))"
  "keeps W (onDB (FindUserByID (cfg_Database (srv_cfg s)) u))"
  "keeps W (onDB (FindPasswordCredential (cfg_Database (srv_cfg s)) u))"
  "keeps W (onDB (ReplacePasswordHash (cfg_Database (srv_cfg s)) u a b now))"
  "keeps W (onDB (SetPasswordHash (cfg_Database (srv_cfg s)) u h now))"
  "keeps W (onDB (UpdateUser (cfg_Database (srv_cfg s)) u changes now))"
  "keeps W (onDB (VerifyUserEmail (cfg_Database (srv_cfg s)) u now))"
  "keeps W (onDB (DeleteUser (cfg_Database (srv_cfg s)) u))"
  "keeps W (onDB (ListAccounts (cfg_Database (srv_cfg s)) u))"
  "keeps W (onDB (UnlinkAccount (cfg_Database (srv_cfg s)) u p a l))"
  "keeps W (onDB (UnlinkAccountByID (cfg_Database (srv_cfg s)) u a l))"
  "keeps W (onDB (OAuthAccountTokens (cfg_Database (srv_cfg s)) u p a))"
  "keeps W (onDB (OAuthAccountTokensByID (cfg_Database (srv_cfg s)) u a))"
  "keeps W (onDB (UpdateOAuthAccountTokens (cfg_Database (srv_cfg s)) u a tks now))"
  "keeps W (onDB (LinkOAuthAccount (cfg_Database (srv_cfg s)) a u prof tks now))"
  "keeps W (onDB (PutOAuthState (cfg_Database (srv_cfg s)) st))"
  "keeps W (onDB (ConsumeOAuthState (cfg_Database (srv_cfg s)) h now))"
  "keeps W (onDB (SessionByTokenHash (cfg_Database (srv_cfg s)) h))"
  "keeps W (onDB (RevokeSession (cfg_Database (srv_cfg s)) h now))"
  "keeps W (onDB (RevokeUserSessions (cfg_Database (srv_cfg s)) u now))"
  "keeps W (onDB (ListSessions (cfg_Database (srv_cfg s)) u now))"
  "keeps W (onDB (RevokeSessionByID (cfg_Database (srv_cfg s)) u i now))"
  "keeps W (onDB (RevokeOtherSessions (cfg_Database (srv_cfg s)) u i now))"
  "keeps W (onDB (PutOneTimeToken (cfg_Database (srv_cfg s)) tk))"
  "keeps W (onDB (HasOneTimeToken (cfg_Database (srv_cfg s)) purpose h now))"
  "keeps W (onDB (ConsumeUserDeletion (cfg_Database (srv_cfg s)) h u now))"
  "keeps W (onDB (ConsumeEmailChange (cfg_Database (srv_cfg s)) h now))"
  "keeps W (onDB (ConsumeEmailChangeConfirmation (cfg_Database (srv_cfg s)) h now))"
  "keeps W (onDB (ConsumePasswordReset (cfg_Database (srv_cfg s)) h p now))"
  "keeps W (onDB (ConsumeEmailVerification (cfg_Database (srv_cfg s)) h now))"
  by (rule keeps_onDB, rule plain_cases, simp add: plain_call_def)+

section \<open>Sessions the server starts\<close>

text \<open>A token hash of the server's own source.\<close>

definition server_hash :: "string \<Rightarrow> bool" where
  "server_hash h \<longleftrightarrow> (\<exists>k n raw. N \<le> k \<and> sv_Token (srv_services s) k n = Inr raw \<and> h = HashToken s raw)"

lemma ok_started: "starts_session c h \<Longrightarrow> server_hash h \<Longrightarrow> keeps P (run_call (cfg_Database (srv_cfg s)) c)"
  unfolding server_hash_def using ok_session call_keeps by blast

lemma started_onDB:
  assumes "server_hash (ss_TokenHash se)"
  shows "keeps W (onDB (CreateSession (cfg_Database (srv_cfg s)) se))"
    and "keeps W (onDB (RotateSession (cfg_Database (srv_cfg s)) h se))"
    and "keeps W (onDB (RotateSessionWithAudit (cfg_Database (srv_cfg s)) h se ae))"
  using ok_started [OF _ assms, of "CallCreateSession se"] ok_started [OF _ assms, of "CallRotateSession h se"]
    ok_started [OF _ assms, of "CallRotateSessionWithAudit h se ae"]
  by (auto simp: starts_session_def keeps_void_iff intro!: keeps_onDB)

lemma change_onDB:
  "server_hash (ss_TokenHash (cp_ReplacementSession p)) \<Longrightarrow>
   keeps W (onDB (ChangePasswordAndRotate (cfg_Database (srv_cfg s)) p))"
  using ok_started [of "CallChangePasswordAndRotate p"]
  by (auto simp: starts_session_def keeps_void_iff intro!: keeps_onDB)

lemma create_onDB:
  "(ce_CreateSession p \<Longrightarrow> server_hash (ss_TokenHash (ce_Session p))) \<Longrightarrow>
   keeps W (onDB (CreateEmailUser (cfg_Database (srv_cfg s)) p))"
  using ok_started [of "CallCreateEmailUser p"] plain_keeps [of "CallCreateEmailUser p"]
  by (cases "ce_CreateSession p") (auto simp: starts_session_def plain_call_def keeps_void_iff intro!: keeps_onDB)

lemma upsert_onDB:
  "server_hash (ss_TokenHash se) \<Longrightarrow>
   keeps W (onDB (UpsertOAuthUser (cfg_Database (srv_cfg s)) p tk se ev pol))"
  using ok_started [of "CallUpsertOAuthUser p tk se ev pol"]
  by (auto simp: starts_session_def keeps_void_iff intro!: keeps_onDB)

lemma update_onDB:
  "validatedInputFields s ModelSession input [] = Inr fs \<Longrightarrow>
   keeps W (onDB (UpdateSession (cfg_Database (srv_cfg s)) u h (map_of fs) now))"
  using call_keeps [OF ok_update, of input fs u h now] by (simp add: keeps_void_iff keeps_onDB)

lemma gives_Token: "gives W (Token s n) (\<lambda>raw. server_hash (HashToken s raw))"
  unfolding gives_def Token_def external_def server_hash_def by auto

lemma gives_newSession: "gives W (newSession s u d) (\<lambda>(se, raw). server_hash (ss_TokenHash se))"
  unfolding newSession_def
  by (rule gives_bindM [OF gives_Token], rule gives_bindM [OF gives_keeps], rule keeps_services,
      rule gives_bindM [OF gives_keeps], rule keeps_services, rule gives_ret) simp

lemma session_bind:
  "(\<And>se raw. server_hash (ss_TokenHash se) \<Longrightarrow> keeps W (f se raw)) \<Longrightarrow>
   keeps W (bindM (newSession s u d) (\<lambda>(se, raw). f se raw))"
  by (rule keeps_gives_bindM [OF gives_newSession]) auto

section \<open>The shared helpers\<close>

lemma keeps_decode [intro!]: "keeps W (decodeJSON dec doc)" "keeps W (decodeOptionalJSON z dec doc)"
  unfolding decodeOptionalJSON_def decodeJSON_def by (intro keeps_rules)+

lemma keeps_sessionFromRequest [intro!]: "keeps W (sessionFromRequest s r)"
  unfolding sessionFromRequest_def resolveSession_def
  by (intro keeps_rules plain_onDB keeps_services) (auto split: prod.split intro!: keeps_rules)

lemma keeps_requireCSRF [intro!]: "keeps W (requireCSRF s r)"
  unfolding requireCSRF_def by (intro keeps_rules)

lemma keeps_checkOrigin [intro!]: "keeps W (checkOrigin s r)"
  unfolding checkOrigin_def resolveTrustedOrigins_def by (intro keeps_rules keeps_external)

lemma keeps_ensureCSRFCookie [intro!]: "keeps W (ensureCSRFCookie s r)"
  unfolding ensureCSRFCookie_def Let_def
  by (intro keeps_rules keeps_services keeps_writes keeps_SetCookie) (simp_all add: server_cookie_def)

lemma keeps_cookies [intro!]: "keeps W (setSessionCookie s raw ex)" "keeps W (clearSessionCookie s)"
  unfolding setSessionCookie_def clearSessionCookie_def
  by (intro keeps_rules keeps_services keeps_SetCookie, simp add: server_cookie_def)+

lemma keeps_redirects [intro!]: "keeps W (allowedRedirect s raw)" "keeps W (allowedLifecycleRedirect s raw)"
  "keeps W (allowedDeletionRedirect s raw)" "keeps W (redirectWithParameter s u k v)" "keeps W (http_Redirect u n)"
  unfolding allowedLifecycleRedirect_def allowedDeletionRedirect_def redirectWithParameter_def http_Redirect_def
    allowedRedirect_def Let_def
  by (intro keeps_rules keeps_writes)+

lemma keeps_passwords [intro!]: "keeps W (passwordPolicyError s p)" "keeps W (passwordTooLongError s p)"
  "keeps W (requireFreshSession s se)" "keeps W (burnPasswordHash s p)" "keeps W (refuseSignIn s p c)"
  unfolding passwordPolicyError_def passwordTooLongError_def requireFreshSession_def burnPasswordHash_def refuseSignIn_def
  by (intro keeps_rules keeps_services)+

lemma keeps_mails [intro!]: "keeps W (issueOneTimeMail s u p k ttl route cb)" "keeps W (issueEmailChangeMail s u p k e url)"
  unfolding issueOneTimeMail_def issueEmailChangeMail_def Let_def
  by (intro keeps_rules keeps_services keeps_writes plain_onDB)+

lemma keeps_revokePrevious [intro!]: "keeps W (revokePreviousBrowserSession s r raw)"
  unfolding revokePreviousBrowserSession_def
  by (intro keeps_rules keeps_services keeps_sessionFromRequest plain_onDB)

lemma keeps_rotateOrCreate:
  "server_hash (ss_TokenHash se) \<Longrightarrow> keeps W (rotateOrCreateBrowserSession s r se)"
  unfolding rotateOrCreateBrowserSession_def
  by (intro keeps_rules keeps_sessionFromRequest started_onDB)

lemmas helper_rules = keeps_rules keeps_writes keeps_services keeps_runHook plain_onDB keeps_decode
  keeps_sessionFromRequest keeps_requireCSRF keeps_checkOrigin keeps_ensureCSRFCookie keeps_cookies
  keeps_redirects keeps_passwords keeps_mails keeps_revokePrevious keeps_external

section \<open>The handlers\<close>

lemma keeps_case_error [intro!]:
  "(\<And>c m st ra ca. keeps W (f c m st ra ca)) \<Longrightarrow> keeps W g \<Longrightarrow> (\<And>x. keeps W (k x)) \<Longrightarrow>
   keeps W (case e of Some (ErrPublic c m st ra ca) \<Rightarrow> f c m st ra ca | _ \<Rightarrow> g)"
  by (auto split: option.split go_error.split)

lemma keeps_handleSession: "keeps W (handleSession s r)"
  unfolding handleSession_def
  by (intro helper_rules) (auto split: option.split go_error.split ErrorCode.split)

lemma keeps_logout: "keeps W (firstLogoutURL s user cb st accounts)"
  by (induction accounts)
    (auto simp: providerLogoutURL_def decryptProviderTokens_def openOptional_def intro!: helper_rules)

lemma keeps_handleSignOut: "keeps W (handleSignOut s r doc)"
  unfolding handleSignOut_def Let_def by (intro helper_rules keeps_logout)

lemma keeps_handleRefreshSession: "keeps W (handleRefreshSession s r)"
  unfolding handleRefreshSession_def Let_def
  by (intro session_bind helper_rules started_onDB) simp

lemma keeps_findActiveUser [intro!]: "keeps W (findActiveUser s u e)"
  unfolding findActiveUser_def by (intro helper_rules)

lemma keeps_authorize [intro!]: "keeps W (authorizeImpersonation s a b)"
  unfolding authorizeImpersonation_def isConfiguredAdmin_def CanImpersonate_def Let_def by (intro helper_rules)

lemma keeps_handleImpersonate: "keeps W (handleImpersonate s r doc)"
  unfolding handleImpersonate_def Let_def
  by (intro session_bind helper_rules keeps_findActiveUser keeps_authorize started_onDB) simp

lemma keeps_handleStopImpersonating: "keeps W (handleStopImpersonating s r)"
  unfolding handleStopImpersonating_def Let_def
  by (intro session_bind helper_rules keeps_findActiveUser started_onDB)

lemma keeps_handleChangePassword: "keeps W (handleChangePassword s r doc)"
  unfolding handleChangePassword_def Let_def
  by (intro session_bind helper_rules change_onDB) simp

lemma keeps_handleUpdateUser: "keeps W (handleUpdateUser s r doc)"
  unfolding handleUpdateUser_def by (intro helper_rules)

lemma keeps_handleChangeEmail: "keeps W (handleChangeEmail s r doc)"
  unfolding handleChangeEmail_def Let_def by (intro helper_rules)

lemma keeps_deletion [intro!]: "keeps W (consumeUserDeletionToken s u t)" "keeps W (deleteUserAccount s user)"
  "keeps W (checkDeletionPassword s user p)"
  unfolding consumeUserDeletionToken_def deleteUserAccount_def checkDeletionPassword_def Let_def
  by (intro helper_rules)+

lemma keeps_handleDeleteUser: "keeps W (handleDeleteUser s r doc)"
  unfolding handleDeleteUser_def Let_def by (intro helper_rules keeps_deletion)

lemma keeps_handleDeleteUserCallback: "keeps W (handleDeleteUserCallback s r)"
  unfolding handleDeleteUserCallback_def Let_def by (intro helper_rules keeps_deletion)

lemma keeps_accounts: "keeps W (handleListAccounts s r)" "keeps W (handleUnlinkAccount s r doc)"
  unfolding handleListAccounts_def handleUnlinkAccount_def Let_def by (intro helper_rules)+

lemma keeps_sessions: "keeps W (handleListSessions s r)" "keeps W (handleRevokeSession s r doc)"
  "keeps W (handleRevokeOtherSessions s r)" "keeps W (handleRevokeSessions s r)"
  unfolding handleListSessions_def handleRevokeSession_def handleRevokeOtherSessions_def handleRevokeSessions_def Let_def
  by (intro helper_rules)+

lemma keeps_handleUpdateSession: "keeps W (handleUpdateSession s r doc)"
proof -
  have bind: "keeps W (bindM (mapErr g (lift (validatedInputFields s ModelSession input []))) f)"
    if "\<And>fs. validatedInputFields s ModelSession input [] = Inr fs \<Longrightarrow> keeps W (f fs)" for g f input
    by (rule keeps_gives_bindM [OF gives_mapErr [OF gives_lift]]) (rule that)
  show ?thesis unfolding handleUpdateSession_def
    by (intro bind helper_rules update_onDB)
qed

lemma keeps_createAccount: "keeps W (createAccount s r input email safe)"
  unfolding createAccount_def Let_def
  by (cases "autoSignInAfterSignUp (srv_cfg s) \<and> \<not> ep_RequireEmailVerification (cfg_EmailPassword (srv_cfg s))")
    (simp_all only: simp_thms if_True if_False bindM_ret prod.case,
     (intro session_bind helper_rules create_onDB; simp)+)

lemma keeps_handleSignUp: "keeps W (handleSignUp s r doc)"
  unfolding handleSignUp_def validateSignUp_def notifyExistingUserSignUp_def writeSyntheticSignUp_def Let_def
  by (intro helper_rules keeps_createAccount) (auto simp: keeps_def)

lemma keeps_authenticate [intro!]: "keeps W (authenticate s e p)"
  unfolding authenticate_def Let_def by (intro helper_rules)

lemma keeps_handleSignIn: "keeps W (handleSignIn s r doc)"
  unfolding handleSignIn_def Let_def
  by (intro session_bind helper_rules keeps_authenticate keeps_rotateOrCreate)

lemma keeps_recovery: "keeps W (handleForgotPassword s r doc)" "keeps W (handleResetPasswordCallback s t r)"
  "keeps W (handleResetPassword s r doc)" "keeps W (handleSendVerification s r doc)"
  unfolding handleForgotPassword_def handleResetPasswordCallback_def handleResetPassword_def handleSendVerification_def
    Let_def
  by (intro helper_rules)+

lemma keeps_handleConfirmVerification: "keeps W (handleConfirmVerification s r)"
  unfolding handleConfirmVerification_def confirmVerifiedUser_def confirmEmailChange_def
    sendConfirmedEmailChange_def Let_def
  by (intro session_bind helper_rules keeps_rotateOrCreate)

text \<open>The endpoints of social providers.\<close>

lemma keeps_social_helpers: "keeps W (oauthCallbackError s st rc c m status cause)" "keeps W (redirectTo u)"
  "keeps W (trustedOAuthProvider s r pid)" "keeps W (encryptProviderTokens s tk)" "keeps W (decryptProviderTokens s tk)"
  unfolding oauthCallbackError_def redirectTo_def trustedOAuthProvider_def trustedProviders_def encryptProviderTokens_def
    sealOptional_def decryptProviderTokens_def openOptional_def
  by (intro helper_rules)+

lemma keeps_socialStart: "keeps W (handleSocialAuthorize s r doc)" "keeps W (handleLinkSocial s r doc)"
  unfolding handleSocialAuthorize_def handleLinkSocial_def beginSocialAuthorize_def Let_def
  by (intro helper_rules keeps_social_helpers)+

lemma keeps_linkProfile: "keeps W (linkProfile s r st p tk)"
  unfolding linkProfile_def Let_def by (intro helper_rules keeps_social_helpers)

lemma keeps_signInProfile: "keeps W (signInProfile s r pr st p tk)"
  unfolding signInProfile_def Let_def by (intro session_bind helper_rules keeps_social_helpers upsert_onDB)

lemma keeps_handleSocialCallback: "keeps W (handleSocialCallback s pid r)"
  unfolding handleSocialCallback_def Let_def
  by (intro helper_rules keeps_social_helpers keeps_linkProfile keeps_signInProfile)

lemma keeps_providerAccount: "keeps W (providerAccount s u input)"
  unfolding providerAccount_def Let_def by (intro helper_rules) (auto intro!: plain_onDB)

lemma keeps_providerTokens: "keeps W (handleGetAccessToken s r doc)" "keeps W (handleRefreshProviderToken s r doc)"
  unfolding handleGetAccessToken_def handleRefreshProviderToken_def refreshProviderAccount_def staleToken_def
    writeAccessToken_def writeRefreshedProviderToken_def Let_def
  by (intro helper_rules keeps_social_helpers keeps_providerAccount)+

lemma keeps_writeError [intro!]: "keeps W (writeError rid e)"
  unfolding writeError_def by (auto split: go_error.split intro!: helper_rules)

lemmas handler_rules = keeps_handleSession keeps_handleSignOut keeps_handleRefreshSession keeps_handleImpersonate
  keeps_handleStopImpersonating keeps_handleChangePassword keeps_handleUpdateUser keeps_handleChangeEmail
  keeps_handleDeleteUser keeps_handleDeleteUserCallback keeps_accounts keeps_sessions keeps_handleUpdateSession
  keeps_handleSignUp keeps_handleSignIn keeps_recovery keeps_handleConfirmVerification keeps_socialStart
  keeps_handleSocialCallback keeps_providerTokens

lemma keeps_methods: "keeps W h \<Longrightarrow> keeps W (postOnly s r h)" "keeps W h \<Longrightarrow> keeps W (getOnly s r h)"
  unfolding postOnly_def getOnly_def by (intro helper_rules; assumption)+

lemma keeps_coreRoute:
  assumes "coreRoute s r doc relative = Some h"
  shows "keeps W h"
  using assms unfolding coreRoute_def Let_def
  by (auto split: if_splits option.splits intro!: keeps_methods handler_rules)

theorem keeps_serveCoreHTTP: "keeps W (serveCoreHTTP s r doc)"
proof -
  have route: "keeps W (case coreRoute s r doc relative of None \<Rightarrow> a | Some handler \<Rightarrow> bindM (tryM handler) f)"
    if "keeps W a" and "\<And>x. keeps W (f x)" for relative a f
    using that by (auto split: option.split intro!: keeps_rules dest!: keeps_coreRoute)
  show ?thesis unfolding serveCoreHTTP_def Let_def
    by (intro route helper_rules keeps_writeError)
qed

end

end
