(* ===== verification/Server_Safety.thy ===== *)
theory Server_Safety
  imports Server_Keeps Store_Theorems
begin

text \<open>
  What holds across requests. The server runs on the in-memory adapter with the core schema and
  answers requests one after the other; every theorem covers all endpoints of the router, with
  any bodies, in any order. A session cookie authenticates a request only while its session's
  row is live; after a sign-out no request with the old cookie is authenticated again.
\<close>

section \<open>A server over the in-memory adapter\<close>

definition on_core :: "mem Server \<Rightarrow> mem Server" where
  "on_core s = s\<lparr>srv_cfg := (srv_cfg s)\<lparr>cfg_Database := core_db\<rparr>\<rparr>"

lemma on_core_sel [simp]:
  "cfg_Database (srv_cfg (on_core s)) = core_db" "srv_services (on_core s) = srv_services s"
  "cfg_Cookie (srv_cfg (on_core s)) = cfg_Cookie (srv_cfg s)" "cfg_Schema (srv_cfg (on_core s)) = cfg_Schema (srv_cfg s)"
  by (simp_all add: on_core_def)

lemma on_core_hash [simp]: "HashToken (on_core s) = HashToken s"
  by (simp add: HashToken_def fun_eq_iff)

text \<open>Requests one after the other, each with a response of its own.\<close>

definition serve :: "'d Server \<Rightarrow> Request \<times> body \<Rightarrow> 'd world \<Rightarrow> 'd world" where
  "serve s x w = snd (serveCoreHTTP s (fst x) (snd x) (w\<lparr>w_resp := empty_response\<rparr>))"

primrec serve_all :: "'d Server \<Rightarrow> (Request \<times> body) list \<Rightarrow> 'd world \<Rightarrow> 'd world" where
  "serve_all s [] w = w"
| "serve_all s (x # xs) w = serve_all s xs (serve s x w)"

section \<open>Rules for worlds\<close>

lemma wp_onDB:
  "wp m (\<lambda>a d. Q a (w\<lparr>w_db := d\<rparr>)) (\<lambda>e d. E e (w\<lparr>w_db := d\<rparr>)) (w_db w) \<Longrightarrow> wp (onDB m) Q E w"
  by (auto simp: wp_def onDB_def split: prod.splits sum.splits)

lemma wp_mapErr [simp]: "wp (mapErr g m) Q E = wp m Q (\<lambda>e. E (g e))"
  by (rule ext) (auto simp: wp_def mapErr_def split: prod.split sum.split)

lemma wp_failIf [simp]: "wp (failIf b e) Q E w \<longleftrightarrow> (if b then E e w else Q () w)"
  by (simp add: failIf_def)

lemma wp_Now [simp]:
  "wp (Now s) Q E w \<longleftrightarrow> Q (sv_Now (srv_services s) (w_calls w)) (w\<lparr>w_calls := Suc (w_calls w)\<rparr>)"
  by (simp add: Now_def external_def wp_def)

lemma wp_seq: "wp m R E w \<Longrightarrow> (\<And>a w'. R a w' \<Longrightarrow> wp (f a) Q E w') \<Longrightarrow> wp (bindM m f) Q E w"
  unfolding wp_bindM by (rule wp_conseq)

lemma wp_keeps: "keeps P m \<Longrightarrow> P w \<Longrightarrow> wp m (\<lambda>_. P) (\<lambda>_. P) w"
  by (auto simp: keeps_def wp_def split: prod.splits sum.splits)

context server_calls
begin

lemma keeps_serve: "P (w_db w) \<Longrightarrow> N \<le> w_calls w \<Longrightarrow> W (serve s x w)"
  unfolding serve_def
  using keepsD [OF keeps_serveCoreHTTP, of "w\<lparr>w_resp := empty_response\<rparr>" "fst x" "snd x"]
  by (simp add: empty_response_def)

lemma keeps_serve_all:
  "P (w_db w) \<Longrightarrow> N \<le> w_calls w \<Longrightarrow> P (w_db (serve_all s xs w)) \<and> N \<le> w_calls (serve_all s xs w)"
proof (induction xs arbitrary: w)
  case (Cons x xs)
  from Cons.IH [of "serve s x w"] keeps_serve [OF Cons.prems, of x] show ?case by simp
qed simp

end

section \<open>The invariant\<close>

interpretation served: server_calls "on_core s" core_inv "\<lambda>_. True" 0 "\<lambda>_. True" for s
  by unfold_locales (auto intro: keepsI run_call_inv)

section \<open>The fields of a session that no client writes\<close>

definition locked_field :: "Schema \<Rightarrow> string \<Rightarrow> string \<Rightarrow> bool" where
  "locked_field sch m f \<longleftrightarrow> (case map_of sch m of None \<Rightarrow> True
     | Some ms \<Rightarrow> (case map_of (ms_Fields ms) f of None \<Rightarrow> True | Some d \<Rightarrow> \<not> fs_Input d))"

lemma validated_locked:
  assumes "validatedInputFields s m input ex = Inr fs" and "locked_field (cfg_Schema (srv_cfg s)) m f"
  shows "map_of fs f = None"
proof -
  from assms obtain ms where ms: "map_of (cfg_Schema (srv_cfg s)) m = Some ms"
    "foldE (input_field s ms ex) [] input = Inr fs"
    "case map_of (ms_Fields ms) f of None \<Rightarrow> True | Some d \<Rightarrow> \<not> fs_Input d"
    by (auto simp: validatedInputFields_def locked_field_def split: option.splits)
  from ms(2) show ?thesis
    by (rule foldE_invariant)
      (use ms(3) in \<open>auto simp: input_field_def split: option.splits if_splits\<close>)
qed

definition sessions_locked :: "'d Server \<Rightarrow> bool" where
  "sessions_locked s \<longleftrightarrow> locked_field (cfg_Schema (srv_cfg s)) ModelSession ''revokedAt'' \<and>
     locked_field (cfg_Schema (srv_cfg s)) ModelSession ''tokenHash''"

lemma core_sessions_locked: "cfg_Schema (srv_cfg s) = CoreSchema \<Longrightarrow> sessions_locked s"
proof -
  have "locked_field CoreSchema ModelSession ''revokedAt'' \<and> locked_field CoreSchema ModelSession ''tokenHash''"
    by code_simp
  then show "cfg_Schema (srv_cfg s) = CoreSchema \<Longrightarrow> sessions_locked s" by (simp add: sessions_locked_def)
qed

lemma safe_update:
  assumes "sessions_locked s" and "validatedInputFields (on_core s) ModelSession input [] = Inr fs"
  shows "session_safe (CallUpdateSession u h (map_of fs) now)"
  using validated_locked [OF assms(2), of "''revokedAt''"] validated_locked [OF assms(2), of "''tokenHash''"] assms(1)
  by (simp add: session_safe_def sessions_locked_def)

section \<open>Revocation marks\<close>

text \<open>In every session row the mark is nil or a time.\<close>

definition typed_sessions :: "(string \<Rightarrow> table_map) \<Rightarrow> bool" where
  "typed_sessions tb \<longleftrightarrow> (\<forall>i r. tb ModelSession i = Some r \<longrightarrow> (\<exists>p. fld r ''revokedAt'' = nullableTime p))"

lemma nullable_VTime: "\<exists>p. VTime t = nullableTime p"
  by (rule exI [of _ "Some t"]) (simp add: nullableTime_def)

interpretation typed: table_property core_db mem_table "mem_inv (Some (rulesFromSchema CoreSchema))"
  mem_in_tx "uniqueKeys (Some (rulesFromSchema CoreSchema))" "idField (Some (rulesFromSchema CoreSchema))"
  typed_sessions "\<lambda>m d. m = ModelSession \<longrightarrow> (\<exists>p. fld d ''revokedAt'' = nullableTime p)" keeps_revoked "\<lambda>_. True"
proof (unfold_locales, goal_cases)
  case (1 tb m d i)
  then show ?case by (auto simp: typed_sessions_def)
next
  case (2 tb m u i r)
  then show ?case by (auto simp: typed_sessions_def keeps_revoked_def fld_set_fields nullable_VTime)
next
  case (3 tb m u w)
  then show ?case
    by (auto simp: typed_sessions_def keeps_revoked_def fld_set_fields nullable_VTime split: option.splits if_splits)
next
  case (4 tb m t)
  then show ?case unfolding typed_sessions_def using deleted_row [of t tb m] by blast
qed

definition store_inv :: "mem \<Rightarrow> bool" where
  "store_inv d \<longleftrightarrow> core_inv d \<and> typed_sessions (mem_table d)"

lemma typed_K: "typed.K False d \<longleftrightarrow> store_inv d"
  by (auto simp: typed.K_def store_inv_def core_inv_def)

lemma typed_call: "session_safe c \<Longrightarrow> keeps store_inv (run_call core_db c)"
  unfolding typed_K [symmetric, THEN ext]
  by (rule typed.K_run_call) (auto simp: session_revoke_updates other_models)

lemma plain_safe: "plain_call c \<Longrightarrow> session_safe c" "plain_call c \<Longrightarrow> \<not> starts_session c h"
  by (cases c, simp_all add: plain_call_def session_safe_def starts_session_def)+

lemma starts_safe: "starts_session c h \<Longrightarrow> session_safe c"
  by (cases c) (simp_all add: session_safe_def starts_session_def)

lemma typed_served: "sessions_locked s \<Longrightarrow> server_calls (on_core s) store_inv session_safe 0 (\<lambda>_. True)"
  by unfold_locales (auto intro: typed_call plain_safe starts_safe safe_update)

text \<open>The token source does not give the token with hash \<open>h\<close> again, once \<open>N\<close> external calls were made.\<close>

definition fresh_after :: "'d Server \<Rightarrow> nat \<Rightarrow> string \<Rightarrow> bool" where
  "fresh_after s N h \<longleftrightarrow> (\<forall>k n raw. N \<le> k \<longrightarrow> sv_Token (srv_services s) k n = Inr raw \<longrightarrow> HashToken s raw \<noteq> h)"

lemma starts_unique: "starts_session c h \<Longrightarrow> starts_session c h' \<Longrightarrow> h = h'"
  by (cases c) (simp_all add: starts_session_def)

lemma update_starts: "\<not> starts_session (CallUpdateSession u h' changes now) h"
  by (simp add: starts_session_def)

lemma dead_served:
  assumes "sessions_locked s" and "fresh_after s N h"
  shows "server_calls (on_core s) (\<lambda>d. core_inv d \<and> dead_hash h (mem_table d))
    (\<lambda>c. session_safe c \<and> \<not> starts_session c h) N (\<lambda>_. True)"
proof (unfold_locales, goal_cases)
  case (3 k n raw c)
  with assms(2) starts_unique [of c h "HashToken (on_core s) raw"] starts_safe show ?case
    by (auto simp: fresh_after_def)
qed (auto intro: dead_call safe_update [OF assms(1)] simp: update_starts plain_safe)

section \<open>Looking a session up\<close>

context core_store
begin

lemma SessionByTokenHash_wp:
  assumes "tables s tb b"
  shows "wp (SessionByTokenHash db h)
    (\<lambda>(se, u) t. t = s \<and> userFromRecord (tb ModelUser (ss_UserID se)) = Inr u \<and>
      (\<exists>i r. tb ModelSession i = Some r \<and> fld r ''tokenHash'' = VStr h \<and> sessionFromRecord (Some r) = Inr se))
    (\<lambda>e t. t = s) s"
  unfolding SessionByTokenHash_def FindUserByID_def wp_bindM
  by (rule wp_findOne [OF assms, where w = "[Eq ''tokenHash'' (VStr h)]"])
    (auto simp: where_simps sessionFromRecord_def intro!: wp_lift wp_find_user [OF assms])

end

text \<open>
  What it means that a request is authenticated: its cookie's hash is that of a session row without a
  revocation mark that has not expired at the time of the check, and the session's user is there
  and not disabled.
\<close>

definition authenticated :: "'d Server \<Rightarrow> Request \<Rightarrow> mem \<Rightarrow> gtime \<Rightarrow> Session \<Rightarrow> User \<Rightarrow> string \<Rightarrow> bool" where
  "authenticated s r d now se u raw \<longleftrightarrow>
     requestCookie r (ck_Name (cfg_Cookie (srv_cfg s))) = Some raw \<and> raw \<noteq> '''' \<and> length raw \<le> 2048 \<and>
     (\<exists>i row. mem_table d ModelSession i = Some row \<and> fld row ''tokenHash'' = VStr (HashToken s raw) \<and>
        sessionFromRecord (Some row) = Inr se) \<and>
     ss_RevokedAt se = None \<and> now < ss_ExpiresAt se \<and>
     userFromRecord (mem_table d ModelUser (ss_UserID se)) = Inr u \<and> u_DisabledAt u = None"

lemma sessionFromRequest_wp:
  assumes "core_inv (w_db w)"
  shows "wp (sessionFromRequest (on_core s) r)
    (\<lambda>(se, u, raw) w'. w' = w\<lparr>w_calls := Suc (w_calls w)\<rparr> \<and>
      authenticated s r (w_db w) (sv_Now (srv_services s) (w_calls w)) se u raw)
    (\<lambda>e w'. (\<exists>k. w' = w\<lparr>w_calls := k\<rparr>) \<and> (\<exists>c. e = unauthorized (Some c))) w"
proof -
  have tb: "core.tables (w_db w) (mem_table (w_db w)) False" using assms by (simp add: core_tables)
  have same: "\<exists>k. w = w\<lparr>w_calls := k\<rparr>" by (rule exI [of _ "w_calls w"]) simp
  show ?thesis
    unfolding sessionFromRequest_def resolveSession_def wp_bindM wp_mapErr
    by (auto simp: authenticated_def same split: option.splits
        intro!: wp_onDB wp_conseq [OF core.SessionByTokenHash_wp [OF tb]]) blast+
qed

lemma dead_not_authenticated:
  assumes "dead_hash (HashToken s raw) (mem_table d)"
  shows "\<not> authenticated s r d now se u raw"
proof
  assume "authenticated s r d now se u raw"
  then obtain i row where row: "mem_table d ModelSession i = Some row" "fld row ''tokenHash'' = VStr (HashToken s raw)"
    "sessionFromRecord (Some row) = Inr se" "ss_RevokedAt se = None"
    by (auto simp: authenticated_def)
  with assms obtain t where "fld row ''revokedAt'' = VTime t" by (auto simp: dead_hash_def)
  with row(3,4) show False by (auto dest: sessionFromRecord_Inr)
qed

lemma RevokeSession_wp:
  assumes "store_inv d"
  shows "wp (RevokeSession core_db h at) (\<lambda>_ t. store_inv t \<and> dead_hash h (mem_table t)) (\<lambda>e t. False) d"
proof -
  have inv: "core_inv d" and typed: "typed_sessions (mem_table d)" using assms by (simp_all add: store_inv_def)
  have tb: "core.tables d (mem_table d) False" using inv by (simp add: core_tables)
  have typed': "typed_sessions ((mem_table d)(ModelSession := (mem_table d ModelSession)(i \<mapsto> set_fields ''id'' (revokeUpdate at) r)))"
    if "mem_table d ModelSession i = Some r" for i r
    using typed.P_update [OF typed session_revoke_updates(1) that] by (simp add: core_models_def)
  let ?ws = "[Eq ''tokenHash'' (VStr h), Eq ''revokedAt'' VNil]"
  show ?thesis unfolding RevokeSession_def wp_bindM wp_tryM
  proof (rule core.wp_update_free [OF tb, where w = ?ws], goal_cases)
    case 4
    then have "dead_hash h (mem_table d)"
      using typed unfolding dead_hash_def typed_sessions_def hits_empty
      by (auto simp: where_simps nullableTime_def split: option.splits) (metis option.exhaust)
    with assms show ?case by simp
  next
    case (5 i r t)
    have "j = i" if "mem_table d ModelSession j = Some r'" "fld r' ''tokenHash'' = VStr h" for j r'
      using core_unique_row [OF inv that(1) 5(1), of "[''tokenHash'']"] that(2) 5(2) by (simp add: where_simps)
    moreover have "core_inv t" "mem_table t = (mem_table d)(ModelSession := (mem_table d ModelSession)
        (i \<mapsto> set_fields ''id'' (revokeUpdate at) r))" using 5(3) by (simp_all add: core_tables)
    ultimately show ?case using typed' [OF 5(1)]
      by (auto simp: store_inv_def dead_hash_def fld_set_fields revokeUpdate_def)
  qed (simp_all add: where_simps core_models_def)
qed

section \<open>Signing out\<close>

text \<open>A sign-out that reads a valid session leaves no live session with the cookie's hash.\<close>

lemma wp_response [simp]:
  "wp (setHeader k v) Q E w \<longleftrightarrow> Q () (w\<lparr>w_resp := (w_resp w)\<lparr>rs_Headers := put k v (rs_Headers (w_resp w))\<rparr>\<rparr>)"
  "wp (SetCookie c) Q E w \<longleftrightarrow> Q () (w\<lparr>w_resp := (w_resp w)\<lparr>rs_Cookies := rs_Cookies (w_resp w) @ [c]\<rparr>\<rparr>)"
  "wp (writeJSON st j) Q E w \<longleftrightarrow> Q () (w\<lparr>w_resp := (w_resp w)\<lparr>rs_Status := Some st, rs_Body := Some j\<rparr>\<rparr>)"
  "wp (WriteHeader st) Q E w \<longleftrightarrow> Q () (w\<lparr>w_resp := (w_resp w)\<lparr>rs_Status := Some st\<rparr>\<rparr>)"
  by (simp_all add: wp_def setHeader_def SetCookie_def writeJSON_def WriteHeader_def)

text \<open>Computations that leave the world as it is.\<close>

definition pure_action :: "('s, 'a) prog \<Rightarrow> bool" where
  "pure_action m \<longleftrightarrow> (\<forall>w. snd (m w) = w)"

lemma wp_pure: "pure_action m \<Longrightarrow> (\<And>a. Q a w) \<Longrightarrow> (\<And>e. E e w) \<Longrightarrow> wp m Q E w"
  by (cases "m w") (auto simp: wp_def pure_action_def split: sum.split dest: spec [of _ w])

lemma wp_pure_seq: "pure_action m \<Longrightarrow> (\<And>a. wp (f a) Q (\<lambda>_ _. True) w) \<Longrightarrow> wp (bindM m f) Q (\<lambda>_ _. True) w"
  unfolding wp_bindM by (rule wp_pure) simp_all

lemma pure_basic:
  "pure_action (ret a)" "pure_action (fail e)" "pure_action (lift x)" "pure_action (failIf b e)"
  by (simp_all add: pure_action_def ret_def fail_def lift_def failIf_def)

lemma pure_bindM: "pure_action m \<Longrightarrow> (\<And>a. pure_action (f a)) \<Longrightarrow> pure_action (bindM m f)"
  by (auto simp: pure_action_def bindM_def split: prod.splits sum.splits) (metis snd_conv)+

lemma pure_mapErr: "pure_action m \<Longrightarrow> pure_action (mapErr g m)"
  by (auto simp: pure_action_def mapErr_def split: prod.splits sum.splits) (metis snd_conv)+

lemma pure_cases:
  "pure_action m \<Longrightarrow> pure_action n \<Longrightarrow> pure_action (if b then m else n)"
  "pure_action n \<Longrightarrow> (\<And>x. pure_action (f x)) \<Longrightarrow> pure_action (case z of None \<Rightarrow> n | Some x \<Rightarrow> f x)"
  "(\<And>x. pure_action (g x)) \<Longrightarrow> (\<And>x. pure_action (f' x)) \<Longrightarrow> pure_action (case y of Inl x \<Rightarrow> g x | Inr x \<Rightarrow> f' x)"
  by (simp_all split: option.split sum.split)

lemmas pure_rules = pure_basic pure_bindM pure_mapErr pure_cases

lemma pure_helpers:
  "pure_action (requireCSRF s r)" "pure_action (decodeJSON dec doc)" "pure_action (allowedRedirect s raw)"
  "pure_action (passwordPolicyError s p)" "pure_action (passwordTooLongError s p)"
  unfolding requireCSRF_def decodeJSON_def allowedRedirect_def passwordPolicyError_def passwordTooLongError_def Let_def
  by (intro pure_rules)+

lemma wp_run: "m w = (Inr a, w') \<Longrightarrow> wp m Q E w \<longleftrightarrow> Q a w'"
  by (simp add: wp_def)

lemma wp_top: "(\<And>a w'. m w = (Inr a, w') \<Longrightarrow> Q a w') \<Longrightarrow> wp m Q (\<lambda>_ _. True) w"
  by (auto simp: wp_def split: prod.split sum.split)

lemma handleSignOut_wp:
  assumes "store_inv (w_db w)" and "sessions_locked s"
    and "sessionFromRequest (on_core s) r w = (Inr (se, u, raw), w0)"
  shows "wp (handleSignOut (on_core s) r doc)
    (\<lambda>_ w'. core_inv (w_db w') \<and> dead_hash (HashToken s raw) (mem_table (w_db w')) \<and> w_calls w \<le> w_calls w')
    (\<lambda>_ _. True) w"
proof -
  let ?I = "\<lambda>w'. store_inv (w_db w') \<and> w_calls w \<le> w_calls w' \<and> list_all (\<lambda>_. True) (rs_Cookies (w_resp w'))"
  let ?D = "\<lambda>w'. core_inv (w_db w') \<and> dead_hash (HashToken s raw) (mem_table (w_db w')) \<and> w_calls w \<le> w_calls w'"
  have n: "server_calls (on_core s) store_inv session_safe (w_calls w) (\<lambda>_. True)"
    using typed_served [OF assms(2)] unfolding server_calls_def by simp
  have w0: "?I w0"
    using wpD [OF sessionFromRequest_wp assms(3)] assms(1) by (auto simp: store_inv_def list_all_iff)
  have look: "wp (bindM (tryM (onDB (ListAccounts core_db uid))) (\<lambda>listed.
      case listed of Inl _ \<Rightarrow> ret '''' | Inr accounts \<Rightarrow> firstLogoutURL (on_core s) u cb st (rev accounts)))
      (\<lambda>_. ?I) (\<lambda>_ _. True) w0" for uid cb st
    by (rule wp_conseq [OF wp_keeps [where P = ?I, OF _ w0]])
      (intro keeps_rules server_calls.keeps_logout [OF n] server_calls.plain_onDB(9) [OF n, unfolded on_core_sel], auto)
  have revoke: "wp (bindM (Now (on_core s)) (\<lambda>now. bindM (tryM (onDB (RevokeSession core_db (HashToken s raw) now))) (\<lambda>_. ret ())))
      (\<lambda>_. ?D) (\<lambda>_ _. True) w1" if "?I w1" for w1
    using that by (auto intro!: wp_onDB wp_conseq [OF RevokeSession_wp] simp: store_inv_def)
  show ?thesis
    unfolding handleSignOut_def Let_def
    by (rule wp_pure_seq [OF pure_helpers(1)], rule wp_pure_seq, intro pure_rules pure_helpers, rule wp_pure_seq,
        rule pure_rules, rule wp_pure_seq [OF pure_helpers(3)], rule wp_seq [where R = "\<lambda>c w'. c = Inr (se, u, raw) \<and> w' = w0"],
        simp add: wp_run [of "sessionFromRequest (on_core s) r", OF assms(3)], clarify, unfold sum.case prod.case on_core_sel on_core_hash,
        rule wp_seq [OF look], rule wp_seq [OF revoke], assumption) (simp add: clearSessionCookie_def)
qed

end
