(* ===== verification/Server_Guards.thy ===== *)
theory Server_Guards
  imports Server_Safety
begin

text \<open>
  What a request cannot do: a POST from an origin that is not trusted, and a request without the
  CSRF pair to an endpoint that asks for it, leave the database, the mailbox and the cookies as they
  were. And what every request gets: an answer with a status, whichever branch its handler takes.
\<close>

section \<open>Answers\<close>

text \<open>A handler that ends without an error has written the status of a success or of a redirect.\<close>

definition answers :: "('d, 'a) action \<Rightarrow> bool" where
  "answers m \<longleftrightarrow> (\<forall>w a w'. m w = (Inr a, w') \<longrightarrow> rs_Status (w_resp w') \<in> {Some 200, Some 302})"

lemma answers_bindM: "(\<And>a. answers (f a)) \<Longrightarrow> answers (bindM m f)"
  unfolding answers_def by (metis bindM_Inr_elim)

lemma answers_writes: "answers (writeJSON 200 j)" "answers (WriteHeader 302)" "answers (fail e)"
  by (simp_all add: answers_def writeJSON_def WriteHeader_def fail_def)

lemma answers_cases:
  "answers m \<Longrightarrow> answers n \<Longrightarrow> answers (if b then m else n)"
  "answers n \<Longrightarrow> (\<And>x. answers (f x)) \<Longrightarrow> answers (case z of None \<Rightarrow> n | Some x \<Rightarrow> f x)"
  "(\<And>x. answers (g x)) \<Longrightarrow> (\<And>x. answers (f' x)) \<Longrightarrow> answers (case y of Inl x \<Rightarrow> g x | Inr x \<Rightarrow> f' x)"
  "(\<And>a b. answers (p a b)) \<Longrightarrow> answers (case q of (a, b) \<Rightarrow> p a b)"
  by (simp_all split: option.split sum.split prod.split)

lemmas answers_rules = answers_writes answers_cases answers_bindM

lemma answers_redirects: "answers (http_Redirect u 302)" "answers (redirectTo u)" "answers (redirectWithParameter s u k v)"
  "answers (oauthCallbackError s st rc c m status cause)"
  unfolding http_Redirect_def redirectTo_def redirectWithParameter_def oauthCallbackError_def
  by (intro answers_rules)+

lemma answers_sessions: "answers (handleSession s r)" "answers (handleSignOut s r doc)" "answers (handleRefreshSession s r)"
  "answers (handleImpersonate s r doc)" "answers (handleStopImpersonating s r)"
  unfolding handleSession_def handleSignOut_def handleRefreshSession_def handleImpersonate_def
    handleStopImpersonating_def Let_def
  by (intro answers_rules | simp add: answers_rules split: go_error.split ErrorCode.split)+

lemma answers_management: "answers (handleChangePassword s r doc)" "answers (handleUpdateUser s r doc)"
  "answers (handleChangeEmail s r doc)" "answers (handleDeleteUser s r doc)" "answers (handleDeleteUserCallback s r)"
  "answers (handleListAccounts s r)" "answers (handleUnlinkAccount s r doc)" "answers (handleListSessions s r)"
  "answers (handleRevokeSession s r doc)" "answers (handleRevokeOtherSessions s r)" "answers (handleRevokeSessions s r)"
  "answers (handleUpdateSession s r doc)"
  unfolding handleChangePassword_def handleUpdateUser_def handleChangeEmail_def handleDeleteUser_def
    handleDeleteUserCallback_def handleListAccounts_def handleUnlinkAccount_def handleListSessions_def
    handleRevokeSession_def handleRevokeOtherSessions_def handleRevokeSessions_def handleUpdateSession_def Let_def
  by (intro answers_rules answers_redirects)+

lemma answers_email: "answers (handleSignUp s r doc)" "answers (handleSignIn s r doc)" "answers (handleForgotPassword s r doc)"
  "answers (handleResetPasswordCallback s t r)" "answers (handleResetPassword s r doc)" "answers (handleSendVerification s r doc)"
  "answers (handleConfirmVerification s r)"
  unfolding handleSignUp_def createAccount_def writeSyntheticSignUp_def handleSignIn_def handleForgotPassword_def
    handleResetPasswordCallback_def handleResetPassword_def handleSendVerification_def handleConfirmVerification_def
    confirmVerifiedUser_def confirmEmailChange_def sendConfirmedEmailChange_def Let_def
  by (intro answers_rules answers_redirects)+

lemma answers_social: "answers (handleSocialAuthorize s r doc)" "answers (handleLinkSocial s r doc)"
  "answers (handleSocialCallback s pid r)" "answers (handleGetAccessToken s r doc)" "answers (handleRefreshProviderToken s r doc)"
  unfolding handleSocialAuthorize_def handleLinkSocial_def beginSocialAuthorize_def handleSocialCallback_def
    linkProfile_def signInProfile_def handleGetAccessToken_def handleRefreshProviderToken_def
    writeAccessToken_def writeRefreshedProviderToken_def Let_def
  by (intro answers_rules answers_redirects)+

lemma answers_methods: "answers h \<Longrightarrow> answers (postOnly s r h)" "answers h \<Longrightarrow> answers (getOnly s r h)"
  unfolding postOnly_def getOnly_def by (intro answers_rules; assumption)+

lemma answers_coreRoute: "coreRoute s r doc relative = Some h \<Longrightarrow> answers h"
  unfolding coreRoute_def Let_def
  by (auto split: if_splits option.splits
      intro!: answers_methods answers_sessions answers_management answers_email answers_social)

section \<open>Errors\<close>

text \<open>The public part of an error: its code, message, status and retry delay.\<close>

definition public_part :: "go_error \<Rightarrow> ErrorCode \<times> string \<times> int \<times> int" where
  "public_part e = (case shownError e of ErrPublic code msg st ra _ \<Rightarrow> (code, msg, st, ra) | _ \<Rightarrow> (CodeEmpty, '''', 0, 0))"

lemma shownError_public:
  obtains code msg st ra cause where "shownError e = ErrPublic code msg st ra cause" "400 \<le> st" "st \<le> 599"
    "code \<noteq> CodeEmpty" "msg \<noteq> ''''"
proof -
  have "\<exists>code msg st ra cause. shownError e = ErrPublic code msg st ra cause \<and> 400 \<le> st \<and> st \<le> 599 \<and>
      code \<noteq> CodeEmpty \<and> msg \<noteq> ''''"
    by (auto simp: shownError_def internalError_def publicError_def split: option.split go_error.split)
  then show ?thesis using that by blast
qed

definition error_body :: "string \<Rightarrow> go_error \<Rightarrow> json" where
  "error_body rid e = (case public_part e of (code, msg, st, ra) \<Rightarrow>
     JObj ([(''code'', JStr (httpErrorCode code)), (''message'', JStr msg)] @
       (if rid \<noteq> '''' then [(''requestId'', JStr rid)] else [])))"

definition error_headers :: "go_error \<Rightarrow> (string \<times> string) list \<Rightarrow> (string \<times> string) list" where
  "error_headers e hs = (case public_part e of (code, msg, st, ra) \<Rightarrow>
     if ra > 0 then put ''Retry-After'' (Itoa (retrySeconds ra)) hs else hs)"

definition error_response :: "string \<Rightarrow> go_error \<Rightarrow> Response \<Rightarrow> Response" where
  "error_response rid e rs = (case public_part e of (code, msg, st, ra) \<Rightarrow>
     \<lparr>rs_Status = Some st, rs_Headers = error_headers e (rs_Headers rs), rs_Cookies = rs_Cookies rs,
      rs_Body = Some (error_body rid e)\<rparr>)"

lemma writeError_run: "writeError rid e w = (Inr (), w\<lparr>w_resp := error_response rid e (w_resp w)\<rparr>)"
proof -
  obtain code msg st ra cause where s: "shownError e = ErrPublic code msg st ra cause"
    by (rule shownError_public)
  show ?thesis
    unfolding writeError_def s go_error.case
    by (cases "ra > 0"; cases "w_resp w")
      (simp_all add: error_response_def error_headers_def error_body_def public_part_def s bindM_def ret_def setHeader_def
        writeJSON_def)
qed

lemma error_response_sel [simp]:
  "rs_Cookies (error_response rid e rs) = rs_Cookies rs"
  "\<exists>st. rs_Status (error_response rid e rs) = Some st \<and> 400 \<le> st \<and> st \<le> 599"
proof -
  obtain code msg st ra cause where "shownError e = ErrPublic code msg st ra cause" "400 \<le> st" "st \<le> 599"
    by (rule shownError_public)
  then show "rs_Cookies (error_response rid e rs) = rs_Cookies rs"
    "\<exists>st. rs_Status (error_response rid e rs) = Some st \<and> 400 \<le> st \<and> st \<le> 599"
    by (simp_all add: error_response_def public_part_def)
qed

section \<open>The way of a request\<close>

text \<open>The handler the router picks for a request.\<close>

definition routed :: "'d Server \<Rightarrow> Request \<Rightarrow> body \<Rightarrow> ('d, unit) action" where
  "routed s r doc = (case CutPrefix (rq_Path r) (cfg_BasePath (srv_cfg s)) of
     None \<Rightarrow> fail notFoundError
   | Some relative \<Rightarrow>
       if relative = '''' then fail notFoundError
       else case coreRoute s r doc relative of None \<Rightarrow> fail notFoundError | Some h \<Rightarrow> h)"

text \<open>The headers every response starts with.\<close>

definition base_headers :: "Request \<Rightarrow> (string \<times> string) list" where
  "base_headers r = (let rid = sanitizeRequestID (rq_Header r ''X-Request-ID'') in
     [(''Content-Type'', ''application/json; charset=utf-8''), (''Cache-Control'', ''no-store''), (''Pragma'', ''no-cache''),
      (''X-Content-Type-Options'', ''nosniff'')] @ (if rid \<noteq> '''' then [(''X-Request-ID'', rid)] else []))"

lemma serve_run:
  "serve s (r, doc) w =
    (case routed s r doc (w\<lparr>w_resp := empty_response\<lparr>rs_Headers := base_headers r\<rparr>\<rparr>) of
       (Inl e, w') \<Rightarrow> w'\<lparr>w_resp := error_response (sanitizeRequestID (rq_Header r ''X-Request-ID'')) e (w_resp w')\<rparr>
     | (Inr _, w') \<Rightarrow> w')"
proof -
  let ?w = "w\<lparr>w_resp := empty_response\<lparr>rs_Headers := base_headers r\<rparr>\<rparr>"
  have "serveCoreHTTP s r doc (w\<lparr>w_resp := empty_response\<rparr>) =
      (bindM (tryM (routed s r doc)) (\<lambda>res. case res of
         Inl e \<Rightarrow> writeError (sanitizeRequestID (rq_Header r ''X-Request-ID'')) e | Inr _ \<Rightarrow> ret ())) ?w"
    by (cases "sanitizeRequestID (rq_Header r ''X-Request-ID'') = ''''";
        cases "CutPrefix (rq_Path r) (cfg_BasePath (srv_cfg s))")
      (auto simp: serveCoreHTTP_def routed_def base_headers_def bindM_def setHeader_def ret_def fail_def tryM_def Let_def
        empty_response_def split: option.split prod.split sum.split)
  then show ?thesis
    by (auto simp: serve_def bindM_def tryM_def ret_def writeError_run split: prod.split sum.split)
qed

lemma answers_routed: "answers (routed s r doc)"
  unfolding routed_def
  by (auto intro!: answers_rules dest: answers_coreRoute split: option.split)

section \<open>Refused requests\<close>

text \<open>Two worlds with the same database, mails, rate-limit requests, tasks and cookies.\<close>

definition quiet :: "'d world \<Rightarrow> 'd world \<Rightarrow> bool" where
  "quiet w w' \<longleftrightarrow> w_db w' = w_db w \<and> w_mails w' = w_mails w \<and> w_limits w' = w_limits w \<and> w_tasks w' = w_tasks w \<and>
     rs_Cookies (w_resp w') = rs_Cookies (w_resp w)"

definition refuses :: "('d, 'a) action \<Rightarrow> bool" where
  "refuses m \<longleftrightarrow> (\<forall>w. \<exists>e w'. m w = (Inl e, w') \<and> quiet w w')"

definition quiet_action :: "('d, 'a) action \<Rightarrow> bool" where
  "quiet_action m \<longleftrightarrow> (\<forall>w. quiet w (snd (m w)))"

lemma quiet_trans: "quiet w w' \<Longrightarrow> quiet w' w'' \<Longrightarrow> quiet w w''"
  by (simp add: quiet_def)

lemma refuses_fail: "refuses (fail e)"
  by (simp add: refuses_def fail_def quiet_def)

lemma refuses_bindM: "quiet_action m \<Longrightarrow> (\<And>a. refuses (f a)) \<Longrightarrow> refuses (bindM m f)"
  unfolding refuses_def quiet_action_def bindM_def
  by (auto split: prod.split sum.split) (metis quiet_trans snd_conv)+

lemma refuses_first: "refuses m \<Longrightarrow> refuses (bindM m f)"
  unfolding refuses_def by (metis bindM_Inl)

lemma refuses_if: "refuses m \<Longrightarrow> refuses n \<Longrightarrow> refuses (if b then m else n)"
  by simp

lemma quiet_basic: "quiet_action (ret a)" "quiet_action (fail e)" "quiet_action (lift x)" "quiet_action (failIf b e)"
  "quiet_action (external f)" "quiet_action (setHeader k v)"
  by (simp_all add: quiet_action_def quiet_def ret_def fail_def lift_def failIf_def external_def setHeader_def)

lemma quiet_bindM: "quiet_action m \<Longrightarrow> (\<And>a. quiet_action (f a)) \<Longrightarrow> quiet_action (bindM m f)"
  unfolding quiet_action_def bindM_def
  by (auto split: prod.split sum.split) (metis quiet_trans snd_conv)+

lemma quiet_mapErr: "quiet_action m \<Longrightarrow> quiet_action (mapErr g m)"
  unfolding quiet_action_def mapErr_def by (auto split: prod.split sum.split) (metis snd_conv)+

lemma quiet_cases:
  "quiet_action m \<Longrightarrow> quiet_action n \<Longrightarrow> quiet_action (if b then m else n)"
  "quiet_action n \<Longrightarrow> (\<And>x. quiet_action (f x)) \<Longrightarrow> quiet_action (case z of None \<Rightarrow> n | Some x \<Rightarrow> f x)"
  by (simp_all split: option.split)

lemmas quiet_rules = quiet_basic quiet_bindM quiet_mapErr quiet_cases

lemma quiet_checkOrigin: "quiet_action (checkOrigin s r)"
  unfolding checkOrigin_def resolveTrustedOrigins_def Let_def by (intro quiet_rules)

lemma refuses_serve:
  assumes "refuses (routed s r doc)"
  shows "let w' = serve s (r, doc) w in w_db w' = w_db w \<and> w_mails w' = w_mails w \<and> w_limits w' = w_limits w \<and>
    w_tasks w' = w_tasks w \<and> rs_Cookies (w_resp w') = [] \<and> (\<exists>st. rs_Status (w_resp w') = Some st \<and> 400 \<le> st \<and> st \<le> 599)"
proof -
  obtain e w' where "routed s r doc (w\<lparr>w_resp := empty_response\<lparr>rs_Headers := base_headers r\<rparr>\<rparr>) = (Inl e, w')"
    "quiet (w\<lparr>w_resp := empty_response\<lparr>rs_Headers := base_headers r\<rparr>\<rparr>) w'"
    using assms unfolding refuses_def by blast
  then show ?thesis by (simp add: serve_run quiet_def Let_def empty_response_def)
qed

lemma refuses_routed:
  assumes "\<And>p h. CutPrefix (rq_Path r) (cfg_BasePath (srv_cfg s)) = Some p \<Longrightarrow> coreRoute s r doc p = Some h \<Longrightarrow> refuses h"
  shows "refuses (routed s r doc)"
  unfolding routed_def using assms refuses_fail by (auto split: option.split)

section \<open>CSRF\<close>

text \<open>The request carries the CSRF cookie and a header of the same value (the hashes are compared).\<close>

definition csrf_pair :: "'d Server \<Rightarrow> Request \<Rightarrow> bool" where
  "csrf_pair s r \<longleftrightarrow> (\<exists>cookie. requestCookie r (ck_CSRFName (cfg_Cookie (srv_cfg s))) = Some cookie \<and> cookie \<noteq> '''' \<and>
     rq_Header r ''X-CSRF-Token'' \<noteq> '''' \<and> HashToken s cookie = HashToken s (rq_Header r ''X-CSRF-Token''))"

text \<open>The endpoints that act with the user's session.\<close>

definition csrf_paths :: "string list" where
  "csrf_paths = [''/sign-out'', ''/refresh-session'', ''/revoke-session'', ''/revoke-other-sessions'', ''/revoke-sessions'',
     ''/update-session'', ''/update-user'', ''/change-email'', ''/delete-user'', ''/change-password'', ''/link-social'',
     ''/unlink-account'', ''/get-access-token'', ''/refresh-token'', ''/admin/impersonate-user'', ''/admin/stop-impersonating'']"

lemma refuses_csrf: "\<not> csrf_pair s r \<Longrightarrow> refuses (bindM (requireCSRF s r) f)"
  by (rule refuses_first)
    (auto simp: refuses_def requireCSRF_def csrf_pair_def fail_def quiet_def Let_def split: option.split)

lemma refuses_postOnly: "refuses h \<Longrightarrow> refuses (postOnly s r h)"
  unfolding postOnly_def
  by (intro refuses_if refuses_bindM quiet_basic quiet_checkOrigin refuses_fail; assumption?)

lemma csrf_handlers:
  assumes "\<not> csrf_pair s r"
  shows "refuses (handleSignOut s r doc)" "refuses (handleRefreshSession s r)" "refuses (handleRevokeSession s r doc)"
    "refuses (handleRevokeOtherSessions s r)" "refuses (handleRevokeSessions s r)" "refuses (handleUpdateSession s r doc)"
    "refuses (handleUpdateUser s r doc)" "refuses (handleChangeEmail s r doc)" "refuses (handleDeleteUser s r doc)"
    "refuses (handleChangePassword s r doc)" "refuses (handleLinkSocial s r doc)" "refuses (handleUnlinkAccount s r doc)"
    "refuses (handleGetAccessToken s r doc)" "refuses (handleRefreshProviderToken s r doc)" "refuses (handleImpersonate s r doc)"
    "refuses (handleStopImpersonating s r)"
  unfolding handleSignOut_def handleRefreshSession_def handleRevokeSession_def handleRevokeOtherSessions_def
    handleRevokeSessions_def handleUpdateSession_def handleUpdateUser_def handleChangeEmail_def handleDeleteUser_def
    handleChangePassword_def handleLinkSocial_def handleUnlinkAccount_def handleGetAccessToken_def
    handleRefreshProviderToken_def handleImpersonate_def handleStopImpersonating_def Let_def
  by (intro refuses_if refuses_fail refuses_csrf [OF assms])+

lemma csrf_routed:
  assumes "\<not> csrf_pair s r" and "CutPrefix (rq_Path r) (cfg_BasePath (srv_cfg s)) = Some p" and "p \<in> set csrf_paths"
  shows "refuses (routed s r doc)"
proof -
  note posts = csrf_handlers [OF assms(1), THEN refuses_postOnly]
  have "refuses h" if "coreRoute s r doc p = Some h" for h
    using assms(3) that unfolding csrf_paths_def
    by (auto simp: coreRoute_def posts)
  with assms(2) show ?thesis by (intro refuses_routed) simp
qed

section \<open>Origins\<close>

definition untrusted_origin :: "'d Server \<Rightarrow> Request \<Rightarrow> bool" where
  "untrusted_origin s r \<longleftrightarrow> sv_TrustedOriginResolver (srv_services s) = None \<and>
     (let origin = InferNullOrigin r (cfg_PublicURL (srv_cfg s)) in
      origin = '''' \<or> \<not> policy_matches (sv_Net (srv_services s)) (srv_trustedOrigins s) origin)"

lemma refuses_origin_check: "untrusted_origin s r \<Longrightarrow> refuses (checkOrigin s r)"
  by (auto simp: refuses_def checkOrigin_def resolveTrustedOrigins_def untrusted_origin_def fail_def quiet_def failIf_def Let_def)

lemma refuses_origin: "untrusted_origin s r \<Longrightarrow> refuses (postOnly s r h)"
  unfolding postOnly_def
  by (intro refuses_if refuses_bindM quiet_basic refuses_fail refuses_first refuses_origin_check)

lemma refuses_get: "rq_Method r = ''POST'' \<Longrightarrow> refuses (getOnly s r h)"
  unfolding getOnly_def by (simp add: refuses_bindM quiet_basic refuses_fail)

lemma origin_routed:
  assumes "rq_Method r = ''POST''" and "untrusted_origin s r"
    and "CutPrefix (rq_Path r) (cfg_BasePath (srv_cfg s)) = Some p" and "\<not> HasPrefix p ''/callback/''"
  shows "refuses (routed s r doc)"
proof -
  have "CutPrefix p ''/callback/'' = None" using assms(4) by (simp add: CutPrefix_def)
  then have "refuses h" if "coreRoute s r doc p = Some h" for h
    using that refuses_origin [OF assms(2)] refuses_get [OF assms(1)] unfolding coreRoute_def Let_def
    by (auto split: if_splits option.splits)
  with assms(3) show ?thesis by (intro refuses_routed) simp
qed

end
