(* ===== verification/Server_SignIn.thy ===== *)
theory Server_SignIn
  imports Server_Guards
begin

text \<open>
  The endpoints that hand out sessions: sign-in with a password, impersonation and the reset of a
  password, with weakest preconditions over the world on top of those of the store.
\<close>

section \<open>Rules\<close>

lemma wp_external: "(\<And>a. f (w_calls w) = Inr a \<Longrightarrow> Q a (w\<lparr>w_calls := Suc (w_calls w)\<rparr>)) \<Longrightarrow>
    (\<And>e. f (w_calls w) = Inl e \<Longrightarrow> E e (w\<lparr>w_calls := Suc (w_calls w)\<rparr>)) \<Longrightarrow> wp (external f) Q E w"
  by (simp add: wp_def external_def split: sum.split)

lemma wp_rateLimit: "(\<And>w'. w_db w' = w_db w \<Longrightarrow> w_calls w' = Suc (w_calls w) \<Longrightarrow> Q () w') \<Longrightarrow> (\<And>e w'. w_db w' = w_db w \<Longrightarrow> E e w') \<Longrightarrow>
    wp (rateLimit s r a key) Q E w"
  by (auto simp: wp_def rateLimit_def Let_def split: sum.split prod.split)

lemma wp_any: "(\<And>a w'. Q a w') \<Longrightarrow> (\<And>e w'. E e w') \<Longrightarrow> wp m Q E w"
  by (simp add: wp_def split: prod.split sum.split)

context core_store
begin

lemma FindUserByEmail_wp:
  assumes "tables s tb b"
  shows "wp (FindUserByEmail db email)
    (\<lambda>u t. t = s \<and> (\<exists>r. tb ModelUser (u_ID u) = Some r \<and> fld r ''email'' = VStr email \<and> userFromRecord (Some r) = Inr u))
    (\<lambda>e t. t = s \<and> (e = ErrNotFound \<or> (\<exists>i r. tb ModelUser i = Some r \<and> fld r ''email'' = VStr email))) s"
  unfolding FindUserByEmail_def wp_bindM
proof (rule wp_findOne [OF assms, where w = "[Eq ''email'' (VStr email)]"], goal_cases)
  case 2
  then show ?case by (simp add: userFromRecord_def)
next
  case (3 i r)
  have email: "fld r ''email'' = VStr email" using 3(2) by (simp add: where_simps)
  show ?case
  proof (rule wp_lift, goal_cases)
    case (1 u)
    then have "u_ID u = i"
      using userFromRecord_Inr [OF 1] tables_id(1) [OF assms core_models_mem(1) 3(1)] by simp
    with 1 3(1) email show ?case by blast
  qed (use 3(1) email in blast)
qed (simp add: where_simps)

lemma FindPasswordCredential_wp:
  assumes "tables s tb b"
  shows "wp (FindPasswordCredential db uid)
    (\<lambda>c t. t = s \<and> (\<exists>i r. tb ModelAccount i = Some r \<and> fld r ''providerId'' = VStr credentialProvider \<and>
       fld r ''accountId'' = VStr uid \<and> fld r ''password'' = VStr (pc_PasswordHash c)))
    (\<lambda>e t. t = s) s"
  unfolding FindPasswordCredential_def credentialIdentityWhere_def accountKeyWhere_def wp_bindM
  by (rule wp_findOne [OF assms, where w = "[Eq ''providerId'' (VStr credentialProvider), Eq ''accountId'' (VStr uid)]"])
    (auto simp: where_simps orNil_def recordString_Inr intro!: wp_lift, blast)

lemma FindUserByID_wp:
  assumes "tables s tb b"
  shows "wp (FindUserByID db uid) (\<lambda>u t. t = s \<and> u_ID u = uid \<and> userFromRecord (tb ModelUser uid) = Inr u) (\<lambda>e t. t = s) s"
  unfolding FindUserByID_def wp_bindM
proof (rule wp_find_user [OF assms], rule wp_lift, goal_cases)
  case (1 u)
  then obtain r where "tb ModelUser uid = Some r" by (cases "tb ModelUser uid") (auto simp: userFromRecord_def)
  then have "u_ID u = uid"
    using 1 userFromRecord_Inr [of r u] tables_id(1) [OF assms core_models_mem(1)] by simp
  with 1 show ?case by simp
qed simp

end

section \<open>Sign-in\<close>

text \<open>
  The password of a sign-in was checked: some stored user has the email and is not disabled, and
  the verifier accepted the password for the hash of that user's password account.
\<close>

definition verified_login :: "'d Server \<Rightarrow> mem \<Rightarrow> string \<Rightarrow> string \<Rightarrow> User \<Rightarrow> bool" where
  "verified_login s d email password u \<longleftrightarrow>
     (\<exists>r. mem_table d ModelUser (u_ID u) = Some r \<and> fld r ''email'' = VStr email \<and> userFromRecord (Some r) = Inr u) \<and>
     u_DisabledAt u = None \<and>
     (\<exists>i r hash k v. mem_table d ModelAccount i = Some r \<and> fld r ''providerId'' = VStr credentialProvider \<and>
        fld r ''accountId'' = VStr (u_ID u) \<and> fld r ''password'' = VStr hash \<and>
        sv_Verify (srv_services s) k hash password = Inr v \<and> pv_Valid v)"

text \<open>The two ways a password sign-in fails: a fixed answer, or an internal error.\<close>

definition login_error :: "go_error \<Rightarrow> bool" where
  "login_error e \<longleftrightarrow> (\<exists>c. e = invalidCredentials c) \<or> (\<exists>c. e = internalFailure ''Sign in could not be completed.'' c)"

lemma refuseSignIn_wp: "(\<And>e w'. login_error e \<Longrightarrow> E e w') \<Longrightarrow> wp (refuseSignIn s p c) Q E w"
  unfolding refuseSignIn_def burnPasswordHash_def PasswordHash_def
  by (auto intro!: wp_external simp: login_error_def)

lemma authenticate_wp:
  assumes "core_inv (w_db w)"
  shows "wp (authenticate (on_core s) email password) (\<lambda>u _. verified_login s (w_db w) email password u) (\<lambda>e _. login_error e) w"
proof -
  let ?d = "w_db w"
  have tb: "core.tables ?d (mem_table ?d) False" using assms by (simp add: core_tables)
  have bad: "login_error (invalidCredentials c)" "login_error (internalFailure ''Sign in could not be completed.'' e)" for c e
    by (auto simp: login_error_def)
  show ?thesis
    unfolding authenticate_def Let_def on_core_sel wp_bindM wp_tryM
  proof (intro wp_onDB wp_conseq [OF core.FindUserByEmail_wp [OF tb]], goal_cases)
    case (1 u d)
    then obtain r where u: "mem_table ?d ModelUser (u_ID u) = Some r" "fld r ''email'' = VStr email" "userFromRecord (Some r) = Inr u"
      and d: "d = ?d" by blast
    have tb': "core.tables (w_db (w\<lparr>w_db := d\<rparr>)) (mem_table ?d) False" using tb d by simp
    show ?case
    proof (cases "u_DisabledAt u = None")
      case True
      then have enabled: "\<not> u_DisabledAt u \<noteq> None" by simp
      from True show ?thesis unfolding sum.case if_not_P [OF enabled] wp_bindM wp_tryM
      proof (intro wp_onDB wp_conseq [OF core.FindPasswordCredential_wp [OF tb']], goal_cases)
        case (1 c d')
        then show ?case
          unfolding sum.case wp_bindM wp_mapErr PasswordVerify_def
          by (intro wp_external) (auto simp: verified_login_def u bad intro!: wp_any [where m = "onDB m" for m] split: sum.split, blast+)
      next
        case (2 e d')
        then show ?case by (auto intro!: refuseSignIn_wp)
      qed
    qed (auto intro!: refuseSignIn_wp)
  next
    case (2 e d)
    then show ?case by (auto intro!: refuseSignIn_wp)
  qed
qed

lemma wp_decodeJSON: "(\<And>v. dec doc = Inr v \<Longrightarrow> Q v w) \<Longrightarrow> (\<And>e. E e w) \<Longrightarrow> wp (decodeJSON dec doc) Q E w"
  unfolding decodeJSON_def by (auto split: sum.split)

text \<open>Steps of a handler whose errors are of no interest.\<close>

lemma wp_lift_seq: "(\<And>a. x = Inr a \<Longrightarrow> wp (f a) Q (\<lambda>_ _. True) w) \<Longrightarrow>
    wp (bindM (mapErr g (lift x)) f) Q (\<lambda>_ _. True) w"
  by (cases x) simp_all

lemma wp_failIf_seq: "(\<not> b \<Longrightarrow> wp (f ()) Q (\<lambda>_ _. True) w) \<Longrightarrow> wp (bindM (failIf b e) f) Q (\<lambda>_ _. True) w"
  by simp

lemma wp_limit_seq: "(\<And>w'. w_db w' = w_db w \<Longrightarrow> w_calls w' = Suc (w_calls w) \<Longrightarrow> wp (f ()) Q (\<lambda>_ _. True) w') \<Longrightarrow>
    wp (bindM (rateLimit s r a key) f) Q (\<lambda>_ _. True) w"
  unfolding wp_bindM by (rule wp_rateLimit) simp_all

lemma on_core_normalizeEmail [simp]: "normalizeEmail (on_core s) = normalizeEmail s"
  by (simp add: normalizeEmail_def fun_eq_iff Let_def)

lemma on_core_flags [simp]:
  "cfg_EmailPassword (srv_cfg (on_core s)) = cfg_EmailPassword (srv_cfg s)"
  "cfg_Admin (srv_cfg (on_core s)) = cfg_Admin (srv_cfg s)"
  "cfg_ImpersonationDuration (srv_cfg (on_core s)) = cfg_ImpersonationDuration (srv_cfg s)"
  by (simp_all add: on_core_def)

lemma handleSignIn_wp:
  assumes "core_inv (w_db w)"
  shows "wp (handleSignIn (on_core s) r doc)
    (\<lambda>_ _. \<exists>input email u. decodeStruct signInFields doc = Inr input \<and> normalizeEmail s (inStr input ''email'') = Inr email \<and>
       verified_login s (w_db w) email (inStr input ''password'') u \<and>
       (ep_RequireEmailVerification (cfg_EmailPassword (srv_cfg s)) \<longrightarrow> u_EmailVerified u))
    (\<lambda>_ _. True) w"
  unfolding handleSignIn_def Let_def on_core_normalizeEmail on_core_flags
proof (rule wp_seq [OF wp_decodeJSON [where Q = "\<lambda>input w'. decodeStruct signInFields doc = Inr input \<and> w' = w"]], goal_cases)
  case (3 input w')
  then have input: "decodeStruct signInFields doc = Inr input" by simp
  let ?Q = "\<lambda>email u. verified_login s (w_db w) email (inStr input ''password'') u"
  have tail: "wp (if ep_RequireEmailVerification (cfg_EmailPassword (srv_cfg s)) \<and> \<not> u_EmailVerified u
      then bindM m (\<lambda>_. fail e) else m') (\<lambda>_ _. \<exists>input email u. decodeStruct signInFields doc = Inr input \<and>
       normalizeEmail s (inStr input ''email'') = Inr email \<and> verified_login s (w_db w) email (inStr input ''password'') u \<and>
       (ep_RequireEmailVerification (cfg_EmailPassword (srv_cfg s)) \<longrightarrow> u_EmailVerified u)) (\<lambda>_ _. True) w2"
    if "normalizeEmail s (inStr input ''email'') = Inr email" "?Q email u" for email u w2 m m' e
    using that input by (auto intro!: wp_any [where m = m] wp_any [where m = m'])
  have login: "wp (authenticate (on_core s) email (inStr input ''password'')) (\<lambda>u _. ?Q email u) (\<lambda>_ _. True) w2"
    if "w_db w2 = w_db w" for email w2
    using wp_conseq [OF authenticate_wp [of w2 s email "inStr input ''password''"]] that assms by auto
  from 3 show ?case
    by clarify (intro wp_lift_seq wp_limit_seq wp_pure_seq [OF pure_helpers(5)] wp_seq [OF login] tail; simp)
qed simp_all

section \<open>Fresh sessions\<close>

text \<open>The token source gives no empty token, no token hashes to the empty string, and the clock runs after the zero time.\<close>

definition services_ok :: "'d Server \<Rightarrow> bool" where
  "services_ok s \<longleftrightarrow> (\<forall>k n raw. sv_Token (srv_services s) k n = Inr raw \<longrightarrow> raw \<noteq> '''' \<and> HashToken s raw \<noteq> '''') \<and>
     (\<forall>k. 0 < sv_Now (srv_services s) k)"

lemma on_core_services [simp]: "services_ok (on_core s) = services_ok s"
  by (simp add: services_ok_def)

lemma wp_token_seq: "services_ok s \<Longrightarrow> (\<And>raw w'. w_db w' = w_db w \<Longrightarrow> raw \<noteq> '''' \<Longrightarrow> HashToken s raw \<noteq> '''' \<Longrightarrow>
    wp (f raw) Q (\<lambda>_ _. True) w') \<Longrightarrow> wp (bindM (Token s n) f) Q (\<lambda>_ _. True) w"
  unfolding wp_bindM Token_def by (rule wp_external) (auto simp: services_ok_def)

lemma wp_now_seq: "services_ok s \<Longrightarrow> (\<And>now w'. w_db w' = w_db w \<Longrightarrow> 0 < now \<Longrightarrow>
    wp (f now) Q (\<lambda>_ _. True) w') \<Longrightarrow> wp (bindM (Now s) f) Q (\<lambda>_ _. True) w"
  by (simp add: services_ok_def)

lemma wp_session_seq:
  assumes "services_ok s" and "u \<noteq> ''''" and "0 \<le> d"
    and "\<And>se raw w'. w_db w' = w_db w \<Longrightarrow> session_wf se \<Longrightarrow> ss_UserID se = u \<Longrightarrow> ss_TokenHash se = HashToken s raw \<Longrightarrow>
      wp (f se raw) Q (\<lambda>_ _. True) w'"
  shows "wp (bindM (newSession s u d) (\<lambda>(se, raw). f se raw)) Q (\<lambda>_ _. True) w"
  unfolding newSession_def newID_def bindM_assoc bindM_ret prod.case
  by (rule wp_token_seq [OF assms(1)], rule wp_token_seq [OF assms(1)], rule wp_now_seq [OF assms(1)], rule assms(4))
    (use assms(2,3) in \<open>simp_all add: session_wf_def\<close>)

lemma wp_csrf_seq: "(csrf_pair s r \<Longrightarrow> wp (f ()) Q (\<lambda>_ _. True) w) \<Longrightarrow> wp (bindM (requireCSRF s r) f) Q (\<lambda>_ _. True) w"
  unfolding requireCSRF_def csrf_pair_def Let_def by (auto split: option.split)

lemma wp_auth_seq:
  assumes "core_inv (w_db w)"
    and "\<And>se u raw w'. w_db w' = w_db w \<Longrightarrow> w_calls w' = Suc (w_calls w) \<Longrightarrow>
      authenticated s r (w_db w) (sv_Now (srv_services s) (w_calls w)) se u raw \<Longrightarrow>
      wp (f se u raw) Q (\<lambda>_ _. True) w'"
  shows "wp (bindM (sessionFromRequest (on_core s) r) (\<lambda>(se, u, raw). f se u raw)) Q (\<lambda>_ _. True) w"
  by (rule wp_seq [OF wp_conseq [OF sessionFromRequest_wp [OF assms(1)]]]) (auto intro: assms(2))

section \<open>Impersonation\<close>

text \<open>
  Who is an administrator: the configured users or, without a list of users, those the role resolver
  gives an administrator role (the default role if it gives none). The resolver is a service outside
  the server, asked at the call number \<open>k\<close>.
\<close>

definition administrator :: "'d Server \<Rightarrow> nat \<Rightarrow> User \<Rightarrow> bool" where
  "administrator s k user \<longleftrightarrow>
     (let admin = cfg_Admin (srv_cfg s) in
      u_ID user \<in> set (ad_AdminUserIDs admin) \<or>
      ad_AdminUserIDs admin = [] \<and>
        (\<exists>resolver roles. ad_RoleResolver admin = Some resolver \<and> resolver k user = Inr roles \<and>
           anyAdminRole (ad_AdminRoles admin) (if roles = [] then [ad_DefaultRole admin] else roles) = Inr True))"

text \<open>The calls of the resolver that one question takes.\<close>

definition role_questions :: "'d Server \<Rightarrow> nat" where
  "role_questions s =
     (if ad_AdminUserIDs (cfg_Admin (srv_cfg s)) = [] \<and> ad_RoleResolver (cfg_Admin (srv_cfg s)) \<noteq> None then 1 else 0)"

text \<open>
  An impersonation that was allowed, started in \<open>w\<close> and leaving the database \<open>d'\<close>: the CSRF pair and
  an actor with a live session by the clock of the request; the enabled subject the body names, not the
  actor; the actor an administrator where a selection is configured, the application's own check passed,
  and the subject no administrator unless that is allowed, each asked in this order. Afterwards there is
  a new session of the subject that names the actor, the actor's own session is revoked, and there
  is a new event of the audit table with both users.
\<close>

definition impersonated :: "mem Server \<Rightarrow> Request \<Rightarrow> body \<Rightarrow> mem world \<Rightarrow> mem \<Rightarrow> bool" where
  "impersonated s r doc w d' \<longleftrightarrow> csrf_pair s r \<and> (\<exists>se actor raw input subject session audit i row.
     authenticated s r (w_db w) (sv_Now (srv_services s) (w_calls w)) se actor raw \<and>
     decodeStruct [(''userId'', KStr)] doc = Inr input \<and> u_ID subject = TrimSpace (inStr input ''userId'') \<and>
     userFromRecord (mem_table (w_db w) ModelUser (u_ID subject)) = Inr subject \<and> u_DisabledAt subject = None \<and>
     u_ID subject \<noteq> u_ID actor \<and>
     (adminSelectionConfigured s \<longrightarrow> administrator s (w_calls w + 2) actor) \<and>
     sv_CanImpersonate (srv_services s) (w_calls w + 2 + role_questions s) actor subject = None \<and>
     (\<not> ad_AllowImpersonatingAdmins (cfg_Admin (srv_cfg s)) \<longrightarrow>
        \<not> administrator s (w_calls w + 3 + role_questions s) subject) \<and>
     ss_UserID session = u_ID subject \<and> ss_ImpersonatorID session = u_ID actor \<and>
     mem_table (w_db w) ModelSession (ss_ID session) = None \<and>
     mem_table d' ModelSession (ss_ID session) = Some (sessionRecord session) \<and>
     mem_table (w_db w) ModelSession i = Some row \<and> live_row (HashToken s raw) row \<and>
     mem_table d' ModelSession i = Some (revoked_at (ss_CreatedAt session) row) \<and>
     ae_Action audit = AuditImpersonationStart \<and> ae_ActorUserID audit = u_ID actor \<and>
     ae_SubjectUserID audit = u_ID subject \<and> ae_SessionID audit = ss_ID session \<and>
     mem_table (w_db w) ModelAuditEvent (ae_ID audit) = None \<and>
     mem_table d' ModelAuditEvent (ae_ID audit) = Some (auditEventRecord audit))"

lemma on_core_admin [simp]: "isConfiguredAdmin (on_core s) = isConfiguredAdmin s"
  "adminSelectionConfigured (on_core s) = adminSelectionConfigured s"
  by (simp_all add: isConfiguredAdmin_def adminSelectionConfigured_def fun_eq_iff)

lemma wp_isConfiguredAdmin:
  assumes "\<And>b w'. w_db w' = w_db w \<Longrightarrow> w_calls w' = w_calls w + role_questions s \<Longrightarrow>
      b \<longleftrightarrow> administrator s (w_calls w) u \<Longrightarrow> Q b w'" and "\<And>e w'. E e w'"
  shows "wp (isConfiguredAdmin s u) Q E w"
proof -
  let ?admin = "cfg_Admin (srv_cfg s)"
  consider "ad_AdminUserIDs ?admin \<noteq> []" | "ad_AdminUserIDs ?admin = []" "ad_RoleResolver ?admin = None"
    | f where "ad_AdminUserIDs ?admin = []" "ad_RoleResolver ?admin = Some f" by blast
  then show ?thesis
  proof cases
    case 1
    then show ?thesis
      by (auto simp: isConfiguredAdmin_def Let_def administrator_def role_questions_def intro!: assms)
  next
    case 2
    then show ?thesis
      by (auto simp: isConfiguredAdmin_def Let_def administrator_def role_questions_def intro!: assms)
  next
    case (3 f)
    have "wp (lift (anyAdminRole (ad_AdminRoles ?admin) (if roles = [] then [ad_DefaultRole ?admin] else roles))) Q E
        (w\<lparr>w_calls := Suc (w_calls w)\<rparr>)" if "f (w_calls w) u = Inr roles" for roles
    proof (cases "anyAdminRole (ad_AdminRoles ?admin) (if roles = [] then [ad_DefaultRole ?admin] else roles)")
      case (Inr b)
      with 3 that have "b \<longleftrightarrow> administrator s (w_calls w) u" by (auto simp: administrator_def Let_def)
      with Inr 3 show ?thesis by (auto intro!: assms(1) simp: role_questions_def)
    qed (simp add: assms(2))
    with 3 show ?thesis
      by (auto simp: isConfiguredAdmin_def Let_def intro!: wp_external assms(2))
  qed
qed

lemma authorizeImpersonation_wp:
  "wp (authorizeImpersonation (on_core s) actor subject)
    (\<lambda>_ w'. w_db w' = w_db w \<and> (adminSelectionConfigured s \<longrightarrow> administrator s (w_calls w) actor) \<and>
      sv_CanImpersonate (srv_services s) (w_calls w + role_questions s) actor subject = None \<and>
      (\<not> ad_AllowImpersonatingAdmins (cfg_Admin (srv_cfg s)) \<longrightarrow>
         \<not> administrator s (w_calls w + 1 + role_questions s) subject))
    (\<lambda>_ _. True) w"
  unfolding authorizeImpersonation_def CanImpersonate_def wp_bindM wp_mapErr on_core_admin on_core_flags on_core_sel
  by (rule wp_isConfiguredAdmin) (auto intro!: wp_external wp_isConfiguredAdmin split: option.splits if_splits)

lemma findActiveUser_wp:
  assumes "core_inv (w_db w)"
  shows "wp (findActiveUser (on_core s) uid err)
    (\<lambda>u w'. w' = w \<and> u_ID u = uid \<and> userFromRecord (mem_table (w_db w) ModelUser uid) = Inr u \<and> u_DisabledAt u = None)
    (\<lambda>_ _. True) w"
proof -
  have tb: "core.tables (w_db w) (mem_table (w_db w)) False" using assms by (simp add: core_tables)
  show ?thesis unfolding findActiveUser_def wp_bindM wp_mapErr on_core_sel
    by (intro wp_onDB wp_conseq [OF core.FindUserByID_wp [OF tb]]) auto
qed

lemma fld_audit_subject: "fld (auditEventRecord e) ''subjectUserId'' = VStr (ae_SubjectUserID e)"
  by (simp add: auditEventRecord_def)

lemma fld_session_impersonator: "fld (sessionRecord se) ''impersonatedBy'' = VStr (ss_ImpersonatorID se)"
  by (simp add: sessionRecord_def fld_def)

lemma wp_rotate_audit_seq:
  assumes "core_inv (w_db w)" and "session_wf se" and "ae_ID audit \<noteq> ''''"
    and "\<And>d' i row. mem_table (w_db w) ModelSession (ss_ID se) = None \<Longrightarrow>
      mem_table d' ModelSession (ss_ID se) = Some (sessionRecord se) \<Longrightarrow>
      mem_table (w_db w) ModelSession i = Some row \<Longrightarrow> live_row h row \<Longrightarrow>
      mem_table d' ModelSession i = Some (revoked_at (ss_CreatedAt se) row) \<Longrightarrow>
      mem_table (w_db w) ModelAuditEvent (ae_ID audit) = None \<Longrightarrow>
      mem_table d' ModelAuditEvent (ae_ID audit) = Some (auditEventRecord audit) \<Longrightarrow> wp (f se) Q (\<lambda>_ _. True) (w\<lparr>w_db := d'\<rparr>)"
  shows "wp (bindM (mapErr g (onDB (RotateSessionWithAudit core_db h se audit))) f) Q (\<lambda>_ _. True) w"
proof -
  have tb: "core.tables (w_db w) (mem_table (w_db w)) False" using assms(1) by (simp add: core_tables)
  have models: "ModelSession \<noteq> ModelAuditEvent" by (simp add: model_defs)
  show ?thesis unfolding wp_bindM wp_mapErr
  proof (intro wp_onDB wp_conseq [OF core.RotateSessionWithAudit_wp [OF tb assms(2,3)]], goal_cases)
    case (1 created d')
    then obtain i row where row: "mem_table (w_db w) ModelSession i = Some row" "live_row h row"
      and free: "\<not> session_taken (mem_table (w_db w) ModelSession) se" "mem_table (w_db w) ModelAuditEvent (ae_ID audit) = None"
      and d': "mem_table d' = put_row ModelAuditEvent (ae_ID audit) (auditEventRecord audit)
          (put_row ModelSession (ss_ID se) (sessionRecord se)
            (put_row ModelSession i (revoked_at (ss_CreatedAt se) row) (mem_table (w_db w))))"
      and created: "created = se"
      by (auto simp: core_tables)
    from free(1) have new: "mem_table (w_db w) ModelSession (ss_ID se) = None" by (simp add: session_taken_def)
    with row(1) have "i \<noteq> ss_ID se" by auto
    with d' models have "mem_table d' ModelSession (ss_ID se) = Some (sessionRecord se)"
      "mem_table d' ModelSession i = Some (revoked_at (ss_CreatedAt se) row)"
      "mem_table d' ModelAuditEvent (ae_ID audit) = Some (auditEventRecord audit)" by simp_all
    from assms(4) [OF new this(1) row this(2) free(2) this(3)] created show ?case by simp
  qed auto
qed

lemma handleImpersonate_wp:
  assumes inv: "core_inv (w_db w)" and ok: "services_ok s" and dur: "0 \<le> cfg_ImpersonationDuration (srv_cfg s)"
  shows "wp (handleImpersonate (on_core s) r doc) (\<lambda>_ w'. impersonated s r doc w (w_db w')) (\<lambda>_ _. True) w"
  unfolding handleImpersonate_def Let_def on_core_flags
proof (rule wp_csrf_seq, rule wp_auth_seq [OF inv],
    rule wp_seq [OF wp_decodeJSON [where Q = "\<lambda>input w'. decodeStruct [(''userId'', KStr)] doc = Inr input \<and> w' = v" for v]],
    simp, simp, rule wp_failIf_seq, rule wp_limit_seq, goal_cases)
  case (1 se actor raw w1 input w1' w2)
  let ?d = "w_db w" and ?target = "TrimSpace (inStr input ''userId'')"
  have w2: "w_db w2 = ?d" "core_inv (w_db w2)" "w_calls w2 = w_calls w + 2" using 1 inv by simp_all
  from 1 have csrf: "csrf_pair s r" and auth: "authenticated s r ?d (sv_Now (srv_services s) (w_calls w)) se actor raw"
    and input: "decodeStruct [(''userId'', KStr)] doc = Inr input" and target: "?target \<noteq> ''''" "?target \<noteq> u_ID actor"
    by (simp_all add: csrf_pair_def)
  show ?case unfolding newID_def on_core_sel on_core_hash
  proof (rule wp_seq [OF findActiveUser_wp [OF w2(2)]], rule wp_seq [OF authorizeImpersonation_wp],
      rule wp_session_seq, goal_cases)
    case (4 subject w3 v w4 se' raw' w5)
    note subject = 4(1) and allowed = 4(2) and w5 = 4(3) and se' = 4(4-6)
    have db: "w_db w5 = ?d" using subject allowed w5 w2 by simp
    from ok have ok': "services_ok (on_core s)" by simp
    show ?case
    proof (rule wp_token_seq [OF ok'], rule wp_token_seq [OF ok'], rule wp_rotate_audit_seq, goal_cases)
      case (4 impersonationID w6 auditID w7 d' i row)
      have w7: "w_db w7 = ?d" using 4(1,4) db by simp
      let ?session = "se'\<lparr>ss_ImpersonatorID := u_ID actor, ss_ImpersonationID := impersonationID\<rparr>"
        and ?audit = "\<lparr>ae_ID = auditID, ae_SchemaVersion = 1, ae_Action = AuditImpersonationStart,
          ae_ActorUserID = u_ID actor, ae_SubjectUserID = u_ID subject, ae_SessionID = ss_ID se',
          ae_OccurredAt = ss_CreatedAt se', ae_Request = requestMetadata (on_core s) r,
          ae_Details = smap_of [(''actorSessionId'', ss_ID se), (''impersonationId'', impersonationID)]\<rparr>"
      have "impersonated s r doc w d'" unfolding impersonated_def
        by (rule conjI [OF csrf], rule exI [of _ se], rule exI [of _ actor], rule exI [of _ raw], rule exI [of _ input],
            rule exI [of _ subject], rule exI [of _ ?session], rule exI [of _ ?audit], rule exI [of _ i], rule exI [of _ row], intro conjI,
            rule auth, rule input)
          (use 4(7-) subject allowed w2 w7 target se' in \<open>auto simp: numeral_eq_Suc\<close>)
      then show ?case by (simp add: setSessionCookie_def)
    qed (use se' db inv in \<open>simp_all add: session_wf_def\<close>)
  qed (use target ok dur in auto)
qed

section \<open>Resetting a password\<close>

text \<open>
  A password reset that went through, started in \<open>w\<close> and leaving the database \<open>d'\<close>: a reset token of a
  permitted length was stored and, by the clock the handler reads (its third call of a service, after the
  limiter and the hash), live; it is gone. The new password is within the limits of the policy and its
  hash is that of the user's password account, and, with the option for it, the user has no live
  session left.
\<close>

definition resetToken :: "Request \<Rightarrow> Record \<Rightarrow> string" where
  "resetToken r input = (if inStr input ''token'' = '''' then rq_Query r ''token'' else inStr input ''token'')"

definition within_policy :: "'d Config \<Rightarrow> string \<Rightarrow> bool" where
  "within_policy cfg p \<longleftrightarrow> cfg_MinPasswordBytes cfg \<le> int (length p) \<and>
     int (length p) \<le> (if cfg_MaxPasswordBytes cfg \<le> 0 then 128 else cfg_MaxPasswordBytes cfg)"

definition password_was_reset :: "'d Server \<Rightarrow> Request \<Rightarrow> body \<Rightarrow> mem world \<Rightarrow> mem \<Rightarrow> bool" where
  "password_was_reset s r doc w d' \<longleftrightarrow> (\<exists>input i row hash j account.
     decodeStruct [(''token'', KStr), (''newPassword'', KStr)] doc = Inr input \<and>
     20 \<le> length (resetToken r input) \<and> length (resetToken r input) \<le> 2048 \<and>
     within_policy (srv_cfg s) (inStr input ''newPassword'') \<and>
     mem_table (w_db w) ModelVerification i = Some row \<and> mem_table d' ModelVerification i = None \<and>
     live_token (purpose_string PurposePasswordReset) (HashToken s (resetToken r input))
       (sv_Now (srv_services s) (w_calls w + 2)) row \<and>
     sv_Hash (srv_services s) (w_calls w + 1) (inStr input ''newPassword'') = Inr hash \<and>
     mem_table d' ModelAccount j = Some account \<and> credential_id (meta row ''userId'') account \<and>
     fld account ''password'' = VStr hash \<and>
     (ep_RevokeSessionsOnPasswordReset (cfg_EmailPassword (srv_cfg s)) \<longrightarrow>
        (\<forall>j q. mem_table d' ModelSession j = Some q \<longrightarrow> \<not> live_user_row (meta row ''userId'') q)))"

lemma wp_policy_seq: "(within_policy (srv_cfg s) p \<Longrightarrow> wp (f ()) Q (\<lambda>_ _. True) w) \<Longrightarrow>
    wp (bindM (passwordPolicyError s p) f) Q (\<lambda>_ _. True) w"
  unfolding passwordPolicyError_def passwordTooLongError_def checkPasswordNotTooLong_def within_policy_def Let_def
  by (auto simp: not_less)

lemma on_core_policy [simp]: "within_policy (srv_cfg (on_core s)) = within_policy (srv_cfg s)"
  by (simp add: within_policy_def on_core_def fun_eq_iff)

lemma wp_hook_seq: "(\<And>w'. w_db w' = w_db w \<Longrightarrow> wp (f ()) Q (\<lambda>_ _. True) w') \<Longrightarrow>
    wp (bindM (mapErr g (runHook h u)) f) Q (\<lambda>_ _. True) w"
  unfolding runHook_def by (auto intro!: wp_external split: option.split)

lemma wp_external_seq: "(\<And>a w'. w_db w' = w_db w \<Longrightarrow> w_calls w' = Suc (w_calls w) \<Longrightarrow> x (w_calls w) = Inr a \<Longrightarrow> wp (f a) Q (\<lambda>_ _. True) w') \<Longrightarrow>
    wp (bindM (mapErr g (external x)) f) Q (\<lambda>_ _. True) w"
  unfolding wp_bindM wp_mapErr by (rule wp_external) simp_all

lemma wp_clock_seq: "(\<And>w'. w_db w' = w_db w \<Longrightarrow> wp (f (sv_Now (srv_services s) (w_calls w))) Q (\<lambda>_ _. True) w') \<Longrightarrow>
    wp (bindM (Now s) f) Q (\<lambda>_ _. True) w"
  by simp

lemma reset_accounts_password:
  assumes "reset_accounts uid ph at t t'"
  shows "\<exists>j q. t' j = Some q \<and> credential_id uid q \<and> fld q ''password'' = VStr ph"
proof -
  consider j q where "credential_id uid q" "t' = t(j \<mapsto> with_password ph at q)"
    | "t' = t(uid @ '':credential'' \<mapsto> credentialRow uid ph at at)"
    using assms unfolding reset_accounts_def by blast
  then show ?thesis
  proof cases
    case (1 j q)
    then show ?thesis by (intro exI [of _ j] exI [of _ "with_password ph at q"]) (simp add: credential_id_def)
  next
    case 2
    then show ?thesis
      by (intro exI [of _ "uid @ '':credential''"] exI [of _ "credentialRow uid ph at at"])
        (simp add: credential_id_def credentialRow_def fld_def)
  qed
qed

lemma revoke_where_live: "revoke_where (live_user_row uid) at t j = Some q \<Longrightarrow> \<not> live_user_row uid q"
  by (auto simp: revoke_where_def live_user_row_def split: option.splits if_splits)

lemma reset_user:
  assumes "core_inv d" and "userFromRecord (mem_table d ModelUser uid) = Inr u"
  shows "u_ID u = uid"
proof -
  from assms(2) obtain r where r: "mem_table d ModelUser uid = Some r"
    by (cases "mem_table d ModelUser uid") (auto simp: userFromRecord_def)
  with assms show ?thesis
    using userFromRecord_Inr [of r u] core.row_has_id [OF core_inv_mem [OF assms(1)] core_models_mem(1) r] by simp
qed

lemma handleResetPassword_wp:
  assumes inv: "core_inv (w_db w)"
  shows "wp (handleResetPassword (on_core s) r doc) (\<lambda>_ w'. password_was_reset s r doc w (w_db w')) (\<lambda>_ _. True) w"
  unfolding handleResetPassword_def Let_def on_core_flags on_core_sel on_core_hash resetToken_def [symmetric] PasswordHash_def
proof (rule wp_seq [OF wp_decodeJSON [where Q = "\<lambda>input w'. decodeStruct [(''token'', KStr), (''newPassword'', KStr)] doc = Inr input \<and> w' = w"]],
    simp_all only: simp_thms, rule wp_failIf_seq, rule wp_policy_seq, rule wp_limit_seq, rule wp_external_seq, rule wp_clock_seq, goal_cases)
  case (1 input w' w1 hash w2 w3)
  let ?d = "w_db w" and ?now = "sv_Now (srv_services s) (w_calls w + 2)"
  have db: "w_db w3 = ?d" using 1 by simp
  have now: "sv_Now (srv_services (on_core s)) (w_calls w2) = ?now" using 1 by simp
  have tb: "core.tables (w_db w3) (mem_table ?d) False" using inv db by (simp add: core_tables)
  note start = 1
  have consume: "wp (mapErr g (onDB (ConsumePasswordReset core_db h hash ?now)))
      (\<lambda>u w4. \<exists>i row accounts. mem_table ?d ModelVerification i = Some row \<and>
        live_token (purpose_string PurposePasswordReset) h ?now row \<and> u_ID u = meta row ''userId'' \<and>
        reset_accounts (u_ID u) hash ?now (mem_table ?d ModelAccount) accounts \<and>
        core.tables (w_db w4) ((mem_table ?d)(ModelVerification := (mem_table ?d ModelVerification)(i := None),
          ModelAccount := accounts)) False) (\<lambda>_ _. True) w3" for g h
    unfolding wp_mapErr
    by (rule wp_onDB, rule wp_conseq [OF core.ConsumePasswordReset_wp [OF tb]])
      (use reset_user [OF inv] in \<open>fastforce simp del: purpose_string.simps\<close>)+
  show ?case unfolding now
  proof (rule wp_seq [OF consume], rule wp_hook_seq, goal_cases)
    case (1 u w4 w5)
    then obtain i row accounts where row: "mem_table ?d ModelVerification i = Some row"
      "live_token (purpose_string PurposePasswordReset) (HashToken s (resetToken r input)) ?now row" "u_ID u = meta row ''userId''"
      and acc: "reset_accounts (u_ID u) hash ?now (mem_table ?d ModelAccount) accounts"
      and t: "core.tables (w_db w5) ((mem_table ?d)(ModelVerification := (mem_table ?d ModelVerification)(i := None),
          ModelAccount := accounts)) False" by auto
    obtain j q where q: "accounts j = Some q" "credential_id (u_ID u) q" "fld q ''password'' = VStr hash"
      using reset_accounts_password [OF acc] by blast
    have finish: "password_was_reset s r doc w d'" if "mem_table d' = (mem_table ?d)
        (ModelVerification := (mem_table ?d ModelVerification)(i := None), ModelAccount := accounts, ModelSession := S)"
      "ep_RevokeSessionsOnPasswordReset (cfg_EmailPassword (srv_cfg s)) \<Longrightarrow> \<forall>j q. S j = Some q \<longrightarrow> \<not> live_user_row (u_ID u) q" for d' S
      unfolding password_was_reset_def
      by (rule exI [of _ input], rule exI [of _ i], rule exI [of _ row], rule exI [of _ hash], rule exI [of _ j],
          rule exI [of _ q], intro conjI)
        (use start row q that in \<open>auto simp: model_defs simp del: purpose_string.simps\<close>)
    show ?case
    proof (cases "ep_RevokeSessionsOnPasswordReset (cfg_EmailPassword (srv_cfg s))")
      case True
      let ?w = "w5\<lparr>w_calls := Suc (w_calls w5)\<rparr>"
      from t have t': "core.tables (w_db ?w) ((mem_table ?d)(ModelVerification := (mem_table ?d ModelVerification)(i := None),
          ModelAccount := accounts)) False" by simp
      have "password_was_reset s r doc w d'" if "core.tables d' ((mem_table ?d)(ModelVerification := (mem_table ?d ModelVerification)(i := None),
          ModelAccount := accounts, ModelSession := revoke_where (live_user_row (u_ID u)) at S)) False" for d' at S
        by (rule finish) (use that revoke_where_live in \<open>auto simp: core_tables\<close>)
      then show ?thesis unfolding if_P [OF True] wp_bindM wp_Now wp_mapErr
        by (intro wp_onDB wp_conseq [OF core.RevokeUserSessions_wp [OF t']]) simp_all
    next
      case False
      have "mem_table (w_db w5) = (mem_table ?d)(ModelVerification := (mem_table ?d ModelVerification)(i := None),
          ModelAccount := accounts, ModelSession := mem_table ?d ModelSession)"
        using t by (auto simp: core_tables model_defs fun_eq_iff)
      with False show ?thesis by (auto intro!: finish)
    qed
  qed
qed

section \<open>Asking for a reset\<close>

text \<open>Computations that always return and leave the response alone.\<close>

definition silent :: "('d, 'a) action \<Rightarrow> bool" where
  "silent m \<longleftrightarrow> (\<forall>w. \<exists>a w'. m w = (Inr a, w') \<and> w_resp w' = w_resp w)"

lemma keeps_resp:
  "keeps (\<lambda>w. w_resp w = R) (onDB m)" "keeps (\<lambda>w. w_resp w = R) (external f)" "keeps (\<lambda>w. w_resp w = R) (Send s mail)"
  by (auto simp: keeps_def onDB_def external_def Send_def split: prod.split option.split)

lemma silent_tryM: "(\<And>R. keeps (\<lambda>w. w_resp w = R) m) \<Longrightarrow> silent (tryM m)"
  unfolding silent_def tryM_def keeps_def by (auto split: prod.split) (metis snd_conv)

lemma silent_bindM: "silent m \<Longrightarrow> (\<And>a. silent (f a)) \<Longrightarrow> silent (bindM m f)"
  unfolding silent_def bindM_def by (metis (mono_tags, lifting) case_prod_conv old.sum.simps(6))

lemma silent_ret: "silent (ret a)"
  by (simp add: silent_def ret_def)

lemma silent_run: "silent m \<Longrightarrow> fst (bindM m (\<lambda>_. writeJSON st j) w) = Inr () \<and>
    w_resp (snd (bindM m (\<lambda>_. writeJSON st j) w)) = (w_resp w)\<lparr>rs_Status := Some st, rs_Body := Some j\<rparr>"
  unfolding silent_def by (drule spec [of _ w]) (auto simp: bindM_def writeJSON_def)

lemma silent_mail: "silent (tryM (issueOneTimeMail s user p kind ttl route url))"
  unfolding issueOneTimeMail_def Token_def newID_def Now_def Let_def
  by (rule silent_tryM) (intro keeps_rules keeps_resp)

lemma silent_lookup: "silent (bindM (tryM (onDB (FindUserByEmail db email))) (\<lambda>found.
    case found of Inr user \<Rightarrow> if u_DisabledAt user = None then bindM (tryM (issueOneTimeMail s user p kind ttl route url)) (\<lambda>_. ret ()) else ret ()
    | Inl _ \<Rightarrow> ret ()))"
  by (rule silent_bindM [OF silent_tryM [OF keeps_resp(1)]])
    (auto intro!: silent_ret silent_bindM silent_mail split: sum.split)

text \<open>Two worlds that look the same from outside: as many external calls so far, and the same response.\<close>

definition same_outside :: "'d world \<Rightarrow> 'd world \<Rightarrow> bool" where
  "same_outside w w' \<longleftrightarrow> w_calls w = w_calls w' \<and> w_resp w = w_resp w'"

lemma rateLimit_outside:
  "same_outside w w' \<Longrightarrow> fst (rateLimit s r a k w) = fst (rateLimit s r a k w') \<and>
     same_outside (snd (rateLimit s r a k w)) (snd (rateLimit s r a k w'))"
  by (auto simp: same_outside_def rateLimit_def Let_def split: sum.split)

definition observe :: "('d, 'a) action \<Rightarrow> 'd world \<Rightarrow> (go_error + 'a) \<times> Response" where
  "observe m w = (fst (m w), w_resp (snd (m w)))"

lemma observe_pure:
  assumes "pure_action m" and "\<And>a. observe (f a) w = observe (f a) w'" and "fst (m w) = fst (m w')" and "same_outside w w'"
  shows "observe (bindM m f) w = observe (bindM m f) w'"
proof -
  obtain x where "m w = (x, w)" "m w' = (x, w')"
    using assms(1,3) unfolding pure_action_def by (metis prod.collapse)
  with assms(2,4) show ?thesis by (cases x) (simp_all add: observe_def bindM_def same_outside_def)
qed

lemma fst_pure: "fst (decodeJSON dec doc w) = fst (decodeJSON dec doc w')" "fst (allowedRedirect s raw w) = fst (allowedRedirect s raw w')"
  by (auto simp: decodeJSON_def allowedRedirect_def Let_def fail_def ret_def bindM_def mapErr_def lift_def split: sum.split if_splits)

lemma observe_limit:
  assumes "\<And>v v'. same_outside v v' \<Longrightarrow> observe (f ()) v = observe (f ()) v'" and "same_outside w w'"
  shows "observe (bindM (rateLimit s r a k) f) w = observe (bindM (rateLimit s r a k) f) w'"
proof -
  obtain x v v' where "rateLimit s r a k w = (x, v)" "rateLimit s r a k w' = (x, v')" "same_outside v v'"
    using rateLimit_outside [OF assms(2), of s r a k] by (metis prod.collapse)
  with assms(1) [of v v'] show ?thesis by (cases x) (simp_all add: observe_def bindM_def same_outside_def)
qed

lemma forgot_observe:
  assumes "same_outside w w'"
  shows "observe (handleForgotPassword s r doc) w = observe (handleForgotPassword s r doc) w'"
proof -
  have tail: "observe (bindM (tryM (onDB (FindUserByEmail db email))) (\<lambda>found.
      bindM (case found of Inr user \<Rightarrow> if u_DisabledAt user = None then bindM (tryM (issueOneTimeMail s user p kind ttl route url)) (\<lambda>_. ret ()) else ret ()
        | Inl _ \<Rightarrow> ret ()) (\<lambda>_. writeJSON 200 j))) v =
      (Inr (), (w_resp v)\<lparr>rs_Status := Some 200, rs_Body := Some j\<rparr>)" for db email p kind ttl route url j v
    using silent_run [OF silent_lookup, of db email s p kind ttl route url 200 j v]
    by (simp add: observe_def bindM_assoc)
  show ?thesis unfolding handleForgotPassword_def Let_def
    by (rule observe_pure [OF pure_helpers(2) _ fst_pure(1) assms], rule observe_limit [OF _ assms],
        rule observe_pure [OF pure_helpers(3) _ fst_pure(2)]) (auto simp: tail same_outside_def)
qed

end
