(* ===== verification/Server_Theorems.thy ===== *)
theory Server_Theorems
  imports Server_SignIn
begin

text \<open>
  The properties of the server as a whole, and a concrete server at which they are applied: it
  runs on the example database, hashes a token by a prefix, and its token source counts.
\<close>

section \<open>A concrete server\<close>

definition ex_net :: NetLib where
  "ex_net = \<lparr>nl_Parse = (\<lambda>raw. Inr \<lparr>url_Scheme = ''https'', url_Host = raw, url_Hostname = raw, url_Port = '''',
       url_User = False, url_Path = '''', url_RawQuery = '''', url_Fragment = ''''\<rparr>),
     nl_String = url_Host, nl_Resolve = (\<lambda>_ u. u), nl_ParseIP = (\<lambda>_. None), nl_ToASCII = Inr,
     nl_EffectiveTLDPlusOne = Inr\<rparr>"

definition ex_services :: Services where
  "ex_services = \<lparr>sv_HashToken = (\<lambda>raw. CHR ''h'' # raw),
     sv_Token = (\<lambda>k n. Inr (CHR ''t'' # replicate k (CHR ''x''))), sv_Now = (\<lambda>k. 50),
     sv_Hash = (\<lambda>k p. Inr (CHR ''p'' # p)), sv_Verify = (\<lambda>k h p. Inr \<lparr>pv_Valid = h = CHR ''p'' # p, pv_ReplacementHash = ''''\<rparr>),
     sv_Allow = (\<lambda>k q. Inr \<lparr>rd_Allowed = True, rd_RetryAfter = 0\<rparr>), sv_Send = (\<lambda>k m. None),
     sv_CanImpersonate = (\<lambda>k a b. None), sv_Seal = (\<lambda>k v. Inr v), sv_Open = (\<lambda>k v. Inr v),
     sv_SocialProviders = [], sv_TrustedProviderResolver = None, sv_PKCEChallenge = (\<lambda>v. v),
     sv_RequireSchema = (\<lambda>k. None), sv_ParseTime = (\<lambda>v. None), sv_ParseAddress = Some,
     sv_SplitHostPort = (\<lambda>v. None), sv_PathEscape = (\<lambda>v. v), sv_QueryEscape = (\<lambda>v. v),
     sv_SetQuery = (\<lambda>u k v. Inr u), sv_Net = ex_net, sv_TrustedOriginResolver = None\<rparr>"

definition ex_config :: "mem Config" where
  "ex_config = \<lparr>cfg_Database = core_db, cfg_BasePath = ''/api'', cfg_PublicURL = ''https://x.io'', cfg_Schema = CoreSchema,
     cfg_Cookie = \<lparr>ck_Name = ''session'', ck_CSRFName = ''csrf'', ck_SameSite = 2\<rparr>,
     cfg_Account = \<lparr>am_UpdateAccountOnSignIn = None, am_LinkingEnabled = None, am_DisableImplicitLinking = False,
       am_RequireLocalEmailVerified = None, am_UpdateUserInfoOnLink = False, am_AllowUnlinkingAll = False,
       am_AllowLinkingDifferentEmails = False, am_TrustedProviders = []\<rparr>,
     cfg_Admin = \<lparr>ad_DefaultRole = ''user'', ad_AdminRoles = [''admin''], ad_AdminUserIDs = [''u1''],
       ad_RoleResolver = None, ad_AllowImpersonatingAdmins = False\<rparr>,
     cfg_User = \<lparr>um_ChangeEmailEnabled = True, um_SendChangeEmailConfirmation = False,
       um_UpdateEmailWithoutVerification = False, um_DeleteUserEnabled = True,
       um_SendDeleteAccountVerification = False, um_BeforeDelete = None, um_AfterDelete = None\<rparr>,
     cfg_EmailPassword = \<lparr>ep_DisableSignUp = False, ep_AutoSignIn = None, ep_RequireEmailVerification = False,
       ep_RevokeSessionsOnPasswordReset = True, ep_OnPasswordReset = None, ep_OnExistingUserSignUp = None,
       ep_CustomSyntheticUser = None\<rparr>,
     cfg_EmailVerification = \<lparr>ev_SendOnSignUp = None, ev_SendOnSignIn = False, ev_AutoSignInAfterVerification = False,
       ev_BeforeVerification = None, ev_AfterVerification = None\<rparr>,
     cfg_SessionDuration = 1000, cfg_SessionFreshAge = 100, cfg_ImpersonationDuration = 100, cfg_PasswordResetTTL = 100,
     cfg_EmailVerificationTTL = 100, cfg_DeleteUserTTL = 100, cfg_OAuthStateTTL = 100, cfg_MinPasswordBytes = 8,
     cfg_MaxPasswordBytes = 128, cfg_TrustProxyHeaders = False\<rparr>"

definition ex_server :: "mem Server" where
  "ex_server = \<lparr>srv_cfg = ex_config, srv_services = ex_services, srv_trustedOrigins = \<lparr>to_values = [], to_exact = [], to_patterns = []\<rparr>,
     srv_allowedReturns = []\<rparr>"

definition ex_world :: "mem world" where
  "ex_world = \<lparr>w_db = ex_state, w_calls = 0, w_limits = [], w_mails = [], w_tasks = [], w_resp = empty_response\<rparr>"

text \<open>A request with the cookie of the first session and the CSRF pair.\<close>

definition ex_request :: "string \<Rightarrow> string \<Rightarrow> Request" where
  "ex_request method path = \<lparr>rq_Method = method, rq_Path = path, rq_Cookies = [(''session'', ''1''), (''csrf'', ''c'')],
     rq_Header = (\<lambda>k. if k = ''X-CSRF-Token'' then ''c'' else ''''), rq_Query = (\<lambda>_. ''''), rq_RemoteAddr = '''',
     rq_Host = '''', rq_ContentLength = 0, rq_PostForm = Inr (\<lambda>_. '''')\<rparr>"

lemmas ex_server_defs = ex_server_def ex_config_def ex_services_def ex_net_def ex_world_def ex_request_def

lemma ex_on_core [simp]: "on_core ex_server = ex_server"
  by (simp add: on_core_def ex_server_def ex_config_def)

lemma ex_locked: "sessions_locked ex_server"
  by (rule core_sessions_locked) (simp add: ex_server_def ex_config_def)

lemma ex_store_inv: "store_inv ex_state"
  unfolding store_inv_def typed_sessions_def using ex_inv
  by (auto simp del: ex_tables dest!: ex_session_rows)

text \<open>A second database: an administrator and another user, and a reset token of the first.\<close>

definition ex_raw :: string where "ex_raw = replicate 20 (CHR ''r'')"

definition ex_rows2 :: "(string \<times> table) list" where
  "ex_rows2 =
     [(ModelUser, [(''u1'', userRecord ex_user), (''u2'', userRecord (ex_user\<lparr>u_ID := ''u2'', u_Email := ''bob@x.io''\<rparr>))]),
      (ModelSession, [(''s1'', sessionRecord (ex_session ''s1'' ''h1'' 10))]),
      (ModelAccount, [(''u1:credential'', credentialRow ''u1'' ''ph'' 10 10)]),
      (ModelVerification, [(''v1'', tokenRow (ex_token ''v1'' (CHR ''h'' # ex_raw) PurposePasswordReset []))])]"

definition ex_world2 :: "mem world" where
  "ex_world2 = ex_world\<lparr>w_db := state_of ex_rows2\<rparr>"

lemma ex_inv2: "core_inv (w_db ex_world2)"
  unfolding ex_world2_def
  by (simp, rule state_of_inv) (simp add: ex_rows2_def table_check_def fld_def ex_defs row_defs map_add_def)

section \<open>Across requests\<close>

interpretation cookies: server_calls s "\<lambda>_. True" "\<lambda>_. True" 0 "server_cookie s" for s :: "'d Server"
  by unfold_locales (auto simp: keeps_def)

lemma store_inv_empty: "store_inv empty_mem"
  unfolding store_inv_def typed_sessions_def
  by (rule conjI [OF core_inv_empty]) (simp add: empty_mem_def mem_table_def cur_rows_def)

text \<open>
  C4. Whatever requests a server answers, with whatever bodies, cookies and headers, in whatever order and
  with whatever outcomes, starting from a store that satisfies its invariant (the empty one does), with a
  schema that lets no client write the token hash or the revocation mark of a session: the store
  satisfies its invariant afterwards. In particular users have different emails, sessions different
  token hashes, accounts a different provider and account id, stored tokens different hashes; every
  session's revocation mark is nil or a time; and no transaction is left open. And every cookie of the
  answer to any further request is hardened: the session cookie, which scripts cannot read, or the CSRF cookie,
  both restricted to HTTPS and with the configured same-site mode.
\<close>

theorem requests_keep_invariant:
  assumes "store_inv (w_db w)" and "sessions_locked s"
  shows "let w' = serve_all (on_core s) rs w; d = w_db w' in
    store_inv empty_mem \<and> store_inv d \<and> \<not> mem_in_tx d \<and> typed_sessions (mem_table d) \<and>
    (\<forall>m \<in> set core_models. \<forall>k \<in> set (uniqueKeys (Some (rulesFromSchema CoreSchema)) m). \<forall>i j r q.
       mem_table d m i = Some r \<longrightarrow> mem_table d m j = Some q \<longrightarrow> sameUniqueKey r q k \<longrightarrow> i = j) \<and>
    uniqueKeys (Some (rulesFromSchema CoreSchema)) ModelUser = [[''email'']] \<and>
    uniqueKeys (Some (rulesFromSchema CoreSchema)) ModelSession = [[''tokenHash'']] \<and>
    uniqueKeys (Some (rulesFromSchema CoreSchema)) ModelAccount = [[''providerId'', ''accountId'']] \<and>
    uniqueKeys (Some (rulesFromSchema CoreSchema)) ModelVerification = [[''value'']] \<and>
    (\<forall>r doc. \<forall>c \<in> set (rs_Cookies (w_resp (serve (on_core s) (r, doc) w'))).
       co_Secure c \<and> co_SameSite c = ck_SameSite (cfg_Cookie (srv_cfg s)) \<and>
       (co_Name c = ck_Name (cfg_Cookie (srv_cfg s)) \<and> co_HttpOnly c \<or> co_Name c = ck_CSRFName (cfg_Cookie (srv_cfg s))))"
proof -
  define w' where "w' = serve_all (on_core s) rs w"
  define d where "d = w_db w'"
  from server_calls.keeps_serve_all [OF typed_served [OF assms(2)], of w rs] assms(1)
  have store: "store_inv d" by (simp add: d_def w'_def)
  then have inv: "core_inv d" "typed_sessions (mem_table d)" by (simp_all add: store_inv_def)
  have "i = j" if "mem_table d m i = Some r" "mem_table d m j = Some q" "sameUniqueKey r q k"
    "k \<in> set (uniqueKeys (Some (rulesFromSchema CoreSchema)) m)" for m k i j r q
    using core_unique_row [OF inv(1) that(1,2,4,3)] .
  moreover have "server_cookie s c" if "c \<in> set (rs_Cookies (w_resp (serve (on_core s) (r, doc) w')))" for r doc c
    using cookies.keeps_serve [of w' "on_core s" "(r, doc)"] that
    by (auto simp: server_cookie_def list_all_iff)
  ultimately show ?thesis
    using inv store store_inv_empty unfolding Let_def w'_def [symmetric] d_def [symmetric]
    by (auto simp: core_inv_def server_cookie_def)
qed

theorem requests_keep_invariant_witness:
  "store_inv (w_db (serve_all ex_server [(ex_request ''POST'' ''/api/sign-out'', DocEmpty)] (ex_world\<lparr>w_db := empty_mem\<rparr>)))"
proof -
  have "store_inv (w_db (ex_world\<lparr>w_db := empty_mem\<rparr>))" by (simp add: store_inv_empty)
  from requests_keep_invariant [OF this ex_locked, where rs = "[(ex_request ''POST'' ''/api/sign-out'', DocEmpty)]"]
  show ?thesis unfolding Let_def ex_on_core by (elim conjE)
qed

text \<open>
  C6. A request counts as authenticated only if its cookie names a session that is stored, not
  revoked and not expired at the moment of the check, and whose user exists and is not disabled;
  in every other case the answer is the 401 of a missing session. The check changes nothing.
\<close>

theorem session_check_sound:
  assumes "core_inv (w_db w)"
  shows "case sessionFromRequest (on_core s) r w of
      (Inr (se, u, raw), w') \<Rightarrow> authenticated s r (w_db w) (sv_Now (srv_services s) (w_calls w)) se u raw \<and> w_db w' = w_db w
    | (Inl e, w') \<Rightarrow> (\<exists>c. e = publicError CodeUnauthorized ''Authentication required.'' 401 (Some c)) \<and> w_db w' = w_db w"
  using sessionFromRequest_wp [OF assms, of s r]
  by (auto simp: wp_def unauthorized_def split: prod.splits sum.splits)

lemma ex_session_found:
  "\<exists>se u w'. sessionFromRequest ex_server (ex_request m p) ex_world = (Inr (se, u, ''1''), w')"
  by (simp add: sessionFromRequest_def resolveSession_def requestCookie_def ex_server_defs SessionByTokenHash_def
      FindUserByID_def onDB_def mapErr_def Now_def external_def HashToken_def mem_exec row_exec)

theorem session_check_sound_witness:
  "\<exists>se u. authenticated ex_server (ex_request ''GET'' ''/api/get-session'') ex_state 50 se u ''1''"
proof -
  have "w_db ex_world = ex_state" "sv_Now (srv_services ex_server) (w_calls ex_world) = 50"
    by (simp_all add: ex_server_defs)
  then show ?thesis
    using session_check_sound [of ex_world ex_server "ex_request ''GET'' ''/api/get-session''"] ex_inv
      ex_session_found [of "''GET''" "''/api/get-session''"] by auto blast
qed

text \<open>
  C5. Signing out is final. When a request with a valid session cookie has signed out, no request
  that carries the same cookie is authenticated again, whatever requests came in between.
  Two things are relied on: the token source does not give the old token a second time, and the
  schema lets no client write the token hash or the revocation mark of a session, which holds for
  the core schema.
\<close>

theorem signed_out_never_authenticated:
  assumes "store_inv (w_db w)" and "sessions_locked s"
    and "sessionFromRequest (on_core s) r w = (Inr (se, u, raw), w0)"
    and "handleSignOut (on_core s) r doc w = (Inr (), w1)"
    and "fresh_after s (w_calls w) (HashToken s raw)"
    and "requestCookie r' (ck_Name (cfg_Cookie (srv_cfg s))) = Some raw"
  shows "\<exists>c. fst (sessionFromRequest (on_core s) r' (serve_all (on_core s) rs w1)) =
    Inl (publicError CodeUnauthorized ''Authentication required.'' 401 (Some c))"
proof -
  let ?w = "serve_all (on_core s) rs w1"
  have "core_inv (w_db w1) \<and> dead_hash (HashToken s raw) (mem_table (w_db w1)) \<and> w_calls w \<le> w_calls w1"
    by (rule wpD [OF handleSignOut_wp [OF assms(1-3)] assms(4)])
  with server_calls.keeps_serve_all [OF dead_served [OF assms(2,5)], of w1 rs]
  have inv: "core_inv (w_db ?w)" and dead: "dead_hash (HashToken s raw) (mem_table (w_db ?w))" by simp_all
  obtain res w' where run: "sessionFromRequest (on_core s) r' ?w = (res, w')" by fastforce
  show ?thesis
  proof (cases res)
    case (Inl e)
    with wpE [OF sessionFromRequest_wp [OF inv]] run show ?thesis by (auto simp: unauthorized_def)
  next
    case (Inr x)
    obtain se' u' raw' where x: "x = (se', u', raw')" by (cases x)
    from wpD [OF sessionFromRequest_wp [OF inv], of s r' x w'] run Inr x
    have "authenticated s r' (w_db ?w) (sv_Now (srv_services s) (w_calls ?w)) se' u' raw'" by simp
    moreover from this assms(6) have "raw' = raw" by (simp add: authenticated_def)
    ultimately show ?thesis using dead_not_authenticated [OF dead] by blast
  qed
qed

lemma ex_signed_out:
  "\<exists>w'. handleSignOut ex_server (ex_request ''POST'' ''/api/sign-out'') DocEmpty ex_world = (Inr (), w')"
  by (simp add: handleSignOut_def requireCSRF_def allowedRedirect_def inStr_def inBool_def optional_simps
      sessionFromRequest_def resolveSession_def requestCookie_def ex_server_defs SessionByTokenHash_def
      FindUserByID_def onDB_def mapErr_def Now_def external_def HashToken_def ListAccounts_def find_rows_def sort_stable_def sort_order_def
      convertRows.simps accountFromRecord_def RevokeSession_def
      providerLogoutURL_def clearSessionCookie_def SetCookie_def writeJSON_def failIf_def mem_exec row_exec)

lemma ex_fresh: "fresh_after ex_server 0 (HashToken ex_server ''1'')"
  by (simp add: fresh_after_def HashToken_def ex_server_defs)

theorem signed_out_never_authenticated_witness:
  "\<exists>w1 c. handleSignOut ex_server (ex_request ''POST'' ''/api/sign-out'') DocEmpty ex_world = (Inr (), w1) \<and>
     fst (sessionFromRequest ex_server (ex_request ''GET'' ''/api/get-session'')
       (serve_all ex_server [(ex_request ''POST'' ''/api/refresh-session'', DocEmpty)] w1)) =
     Inl (publicError CodeUnauthorized ''Authentication required.'' 401 (Some c))"
proof -
  obtain w1 where w1: "handleSignOut ex_server (ex_request ''POST'' ''/api/sign-out'') DocEmpty ex_world = (Inr (), w1)"
    using ex_signed_out by blast
  obtain se u w0 where "sessionFromRequest ex_server (ex_request ''POST'' ''/api/sign-out'') ex_world = (Inr (se, u, ''1''), w0)"
    using ex_session_found by blast
  moreover have "w_db ex_world = ex_state" "w_calls ex_world = 0"
    "requestCookie (ex_request ''GET'' ''/api/get-session'') (ck_Name (cfg_Cookie (srv_cfg ex_server))) = Some ''1''"
    by (simp_all add: ex_server_defs requestCookie_def)
  ultimately show ?thesis
    using signed_out_never_authenticated [of ex_world ex_server "ex_request ''POST'' ''/api/sign-out''" se u "''1''" w0 DocEmpty w1
        "ex_request ''GET'' ''/api/get-session''" "[(ex_request ''POST'' ''/api/refresh-session'', DocEmpty)]"]
      ex_store_inv ex_locked ex_fresh w1 by auto
qed

section \<open>Forged requests\<close>

text \<open>The core endpoints that take no CSRF pair, but for the two families with a parameter.\<close>

definition open_paths :: "string list" where
  "open_paths = [''/sign-up/email'', ''/sign-in/email'', ''/sign-in/social'', ''/get-session'', ''/list-sessions'', ''/list-accounts'',
     ''/request-password-reset'', ''/forget-password'', ''/reset-password'', ''/send-verification-email'', ''/verify-email'',
     ''/delete-user/callback'']"

lemma CutPrefix_None: "\<not> HasPrefix p q \<Longrightarrow> CutPrefix p q = None"
  by (simp add: CutPrefix_def)

lemma core_paths:
  assumes "coreRoute s r doc p = Some h"
  shows "p \<in> set csrf_paths \<or> p \<in> set open_paths \<or> HasPrefix p ''/reset-password/'' \<or> HasPrefix p ''/callback/''"
proof (rule ccontr)
  assume no: "\<not> ?thesis"
  then have "CutPrefix p ''/reset-password/'' = None" "CutPrefix p ''/callback/'' = None"
    by (simp_all add: CutPrefix_None)
  with no assms show False
    by (simp add: coreRoute_def csrf_paths_def open_paths_def)
qed

text \<open>
  C7. A forged request gets nothing done at the endpoints that act on the strength of the session cookie
  (\<open>csrf_paths\<close>: signing out, the writes to sessions, user and accounts, provider tokens, impersonation): it is
  refused, with an error status and without any effect on the database, the mailbox, the rate limiter or the
  cookies, unless it carries the CSRF cookie and a header of the same value. Every other core endpoint is
  one of those listed in \<open>open_paths\<close>, the password reset callback and the provider callback: they read, or
  take a password, a mailed token or a provider's state instead.
\<close>

theorem csrf_required:
  assumes "\<not> csrf_pair s r" and "CutPrefix (rq_Path r) (cfg_BasePath (srv_cfg s)) = Some p" and "p \<in> set csrf_paths"
  shows "(let w' = serve s (r, doc) w in w_db w' = w_db w \<and> w_mails w' = w_mails w \<and> w_limits w' = w_limits w \<and>
      w_tasks w' = w_tasks w \<and> rs_Cookies (w_resp w') = [] \<and> (\<exists>st. rs_Status (w_resp w') = Some st \<and> 400 \<le> st \<and> st \<le> 599)) \<and>
    (\<forall>q h. coreRoute s r doc q = Some h \<longrightarrow> q \<in> set csrf_paths \<or> q \<in> set open_paths \<or>
      HasPrefix q ''/reset-password/'' \<or> HasPrefix q ''/callback/'')"
  using refuses_serve [OF csrf_routed [OF assms]] core_paths by blast

theorem csrf_required_witness:
  "w_db (serve ex_server ((ex_request ''POST'' ''/api/sign-out'')\<lparr>rq_Header := (\<lambda>_. '''')\<rparr>, DocEmpty) ex_world) = ex_state"
proof -
  let ?r = "(ex_request ''POST'' ''/api/sign-out'')\<lparr>rq_Header := (\<lambda>_. '''')\<rparr>"
  have "\<not> csrf_pair ex_server ?r" by (simp add: csrf_pair_def)
  moreover have "CutPrefix (rq_Path ?r) (cfg_BasePath (srv_cfg ex_server)) = Some ''/sign-out''" "w_db ex_world = ex_state"
    by (simp_all add: ex_server_defs CutPrefix_def HasPrefix_def)
  moreover have "''/sign-out'' \<in> set csrf_paths" by (simp add: csrf_paths_def)
  ultimately show ?thesis
    using csrf_required [of ex_server ?r "''/sign-out''" DocEmpty ex_world] by (simp add: Let_def)
qed

text \<open>
  A POST from a foreign page gets nothing done: when the origin of the request (or the one
  inferred for a same-origin request without one) is missing or matches no trusted origin, no
  endpoint but a provider's callback changes anything, and the answer is an error.
\<close>

theorem untrusted_origin_refused:
  assumes "rq_Method r = ''POST''" and "untrusted_origin s r"
    and "CutPrefix (rq_Path r) (cfg_BasePath (srv_cfg s)) = Some p" and "\<not> HasPrefix p ''/callback/''"
  shows "let w' = serve s (r, doc) w in w_db w' = w_db w \<and> w_mails w' = w_mails w \<and> w_limits w' = w_limits w \<and>
    w_tasks w' = w_tasks w \<and> rs_Cookies (w_resp w') = [] \<and> (\<exists>st. rs_Status (w_resp w') = Some st \<and> 400 \<le> st \<and> st \<le> 599)"
  by (rule refuses_serve [OF origin_routed [OF assms]])

theorem untrusted_origin_refused_witness:
  "w_db (serve ex_server (ex_request ''POST'' ''/api/sign-in/email'', DocEmpty) ex_world) = ex_state"
proof -
  let ?r = "ex_request ''POST'' ''/api/sign-in/email''"
  have "untrusted_origin ex_server ?r" by (simp add: untrusted_origin_def InferNullOrigin_def ex_server_defs Let_def)
  moreover have "rq_Method ?r = ''POST''" "w_db ex_world = ex_state"
    "CutPrefix (rq_Path ?r) (cfg_BasePath (srv_cfg ex_server)) = Some ''/sign-in/email''"
    "\<not> HasPrefix ''/sign-in/email'' ''/callback/''"
    by (simp_all add: ex_server_defs CutPrefix_def HasPrefix_def)
  ultimately show ?thesis
    using untrusted_origin_refused [of ?r ex_server "''/sign-in/email''" DocEmpty ex_world] by (simp add: Let_def)
qed

section \<open>Responses\<close>

text \<open>
  C29. Every request is answered: for every server, request, body and state there is a response with
  a status, which is 200 or 302 if the endpoint succeeded and between 400 and 599 if it did not.
\<close>

theorem every_request_answered:
  "\<exists>st. rs_Status (w_resp (serve s (r, doc) w)) = Some st \<and> (st = 200 \<or> st = 302 \<or> 400 \<le> st \<and> st \<le> 599)"
proof -
  obtain res w' where run: "routed s r doc (w\<lparr>w_resp := empty_response\<lparr>rs_Headers := base_headers r\<rparr>\<rparr>) = (res, w')"
    by fastforce
  show ?thesis
  proof (cases res)
    case (Inl e)
    then show ?thesis using error_response_sel(2) [of _ e "w_resp w'"] by (fastforce simp: serve_run run)
  next
    case (Inr x)
    with answers_routed [of s r doc] run show ?thesis by (auto simp: serve_run answers_def)
  qed
qed

text \<open>
  An error response tells what is public and nothing else: two errors with the same code,
  message, status and delay get the same response whatever they wrap, an error without a public
  part gets the generic answer with status 500, and the status is always that of an error.
\<close>

theorem error_hides_causes:
  "(public_part e = public_part e' \<longrightarrow> writeError rid e w = writeError rid e' w) \<and>
   (errors_As e = None \<longrightarrow> public_part e = (CodeInternal, ''The request could not be completed.'', 500, 0)) \<and>
   w_db (snd (writeError rid e w)) = w_db w \<and>
   (\<exists>st. rs_Status (w_resp (snd (writeError rid e w))) = Some st \<and> 400 \<le> st \<and> st \<le> 599) \<and>
   rs_Body (w_resp (snd (writeError rid e w))) = Some (error_body rid e)"
proof -
  have "errors_As e = None \<Longrightarrow> public_part e = (CodeInternal, ''The request could not be completed.'', 500, 0)"
    by (simp add: public_part_def shownError_def internalError_def publicError_def)
  moreover have "public_part e = public_part e' \<Longrightarrow> error_response rid e rs = error_response rid e' rs" for rs
    by (simp add: error_response_def error_headers_def error_body_def)
  moreover have "rs_Body (error_response rid e rs) = Some (error_body rid e)" for rs
    by (simp add: error_response_def split: prod.split)
  ultimately show ?thesis using error_response_sel(2) [of rid e "w_resp w"] by (simp add: writeError_run)
qed

theorem error_hides_causes_witness:
  "writeError '''' (ErrWrap ''sql: no such table'' ErrNotFound) ex_world = writeError '''' (ErrText ''disk full'') ex_world"
  using error_hides_causes [of "ErrWrap ''sql: no such table'' ErrNotFound" "ErrText ''disk full''" "''''" ex_world]
  by (simp add: public_part_def shownError_def internalError_def publicError_def)

text \<open>
  The delay a client is told to wait is between a second and a day, and within half a second of
  the delay the limiter asked for whenever that is in this range.
\<close>

theorem retry_after_bounds:
  "1 \<le> retrySeconds ra \<and> retrySeconds ra \<le> 24 * 60 * 60 \<and>
   (1000000000 \<le> ra \<and> ra \<le> 24 * 60 * 60 * 1000000000 \<longrightarrow> \<bar>retrySeconds ra * 1000000000 - ra\<bar> \<le> 500000000)"
proof -
  have "ra + 500000000 = (ra + 500000000) div 1000000000 * 1000000000 + (ra + 500000000) mod 1000000000"
    "0 \<le> (ra + 500000000) mod 1000000000" "(ra + 500000000) mod 1000000000 < 1000000000"
    by simp_all
  then show ?thesis unfolding retrySeconds_def Let_def by auto
qed

theorem retry_after_bounds_witness: "\<bar>retrySeconds 2600000000 * 1000000000 - 2600000000\<bar> \<le> 500000000"
  using retry_after_bounds [of 2600000000] by simp

text \<open>
  No open redirect: an address the server accepts to send a browser to is one of the configured
  return addresses, character by character; everything else is an error, and checking changes nothing.
\<close>

theorem redirect_allow_listed:
  "case allowedRedirect s raw w of
     (Inr u, w') \<Rightarrow> w' = w \<and> (if raw = '''' then u = '''' else u \<in> set (srv_allowedReturns s))
   | (Inl e, w') \<Rightarrow> w' = w \<and> raw \<noteq> ''''"
  unfolding allowedRedirect_def Let_def
  by (auto simp: bindM_def mapErr_def lift_def ret_def fail_def split: prod.splits sum.splits if_splits)

section \<open>Credentials\<close>

text \<open>
  C8. Signing in takes the password. When the sign-in endpoint succeeds, the body named the email of
  a stored, enabled user, the password verifier accepted the body's password for the hash in that
  user's password account, and the email was verified where the configuration asks for that.
\<close>

theorem sign_in_requires_password:
  assumes "core_inv (w_db w)" and "handleSignIn (on_core s) r doc w = (Inr (), w')"
  shows "\<exists>input email u. decodeStruct signInFields doc = Inr input \<and> normalizeEmail s (inStr input ''email'') = Inr email \<and>
    verified_login s (w_db w) email (inStr input ''password'') u \<and>
    (ep_RequireEmailVerification (cfg_EmailPassword (srv_cfg s)) \<longrightarrow> u_EmailVerified u)"
  by (rule wpD [OF handleSignIn_wp [OF assms(1)] assms(2)])

definition ex_login :: body where
  "ex_login = DocObject [(''email'', VStr ''ann@x.io''), (''password'', VStr ''h'')] False"

lemmas server_exec = requireCSRF_def allowedRedirect_def inStr_def inBool_def optional_simps sessionFromRequest_def
  resolveSession_def requestCookie_def SessionByTokenHash_def FindUserByID_def onDB_def mapErr_def Now_def external_def
  HashToken_def failIf_def Token_def newID_def newSession_def rateLimit_def remoteIP_def ParseIP_def setSessionCookie_def
  ensureCSRFCookie_def SetCookie_def setHeader_def writeJSON_def decodeJSON_def decodeStruct_def decode_member_def
  struct_field_def trailing_def

lemma ex_signed_in:
  "\<exists>w'. handleSignIn ex_server (ex_request ''POST'' ''/api/sign-in/email'') ex_login ex_world = (Inr (), w')"
  by (simp add: handleSignIn_def authenticate_def signInFields_def ex_login_def normalizeEmail_def ToLower_def lower_char_def
      TrimSpace_def is_space_def ContainsAny_def passwordTooLongError_def checkPasswordNotTooLong_def FindUserByEmail_def
      FindPasswordCredential_def credentialIdentityWhere_def accountKeyWhere_def orNil_def PasswordVerify_def sessionDuration_def
      rotateOrCreateBrowserSession_def RotateSession_def revokeUpdate_def
      server_exec ex_server_defs mem_exec row_exec)

theorem sign_in_requires_password_witness:
  "\<exists>u. verified_login ex_server ex_state ''ann@x.io'' ''h'' u"
proof -
  obtain w' where run: "handleSignIn ex_server (ex_request ''POST'' ''/api/sign-in/email'') ex_login ex_world = (Inr (), w')"
    using ex_signed_in by blast
  have "w_db ex_world = ex_state" by (simp add: ex_world_def)
  with sign_in_requires_password [of ex_world ex_server "ex_request ''POST'' ''/api/sign-in/email''" ex_login w'] run ex_inv
  obtain input email u where "decodeStruct signInFields ex_login = Inr input" "normalizeEmail ex_server (inStr input ''email'') = Inr email"
    "verified_login ex_server ex_state email (inStr input ''password'') u" by auto
  then show ?thesis
    by (auto simp: ex_login_def decodeStruct_def decode_member_def struct_field_def signInFields_def inStr_def fld_def
        normalizeEmail_def ToLower_def lower_char_def TrimSpace_def is_space_def ContainsAny_def Let_def ex_server_defs
        optionalString_def)
qed

text \<open>
  C11. Asking for a password reset tells nothing about who has an account. Two servers in states that
  differ only in their databases give the same outcome and the same response, for any email.
\<close>

theorem forgot_password_uniform:
  assumes "w_calls w = w_calls w'" and "w_resp w = w_resp w'"
  shows "fst (handleForgotPassword s r doc w) = fst (handleForgotPassword s r doc w') \<and>
    w_resp (snd (handleForgotPassword s r doc w)) = w_resp (snd (handleForgotPassword s r doc w'))"
  using forgot_observe [of w w' s r doc] assms by (simp add: same_outside_def observe_def)

theorem forgot_password_uniform_witness:
  "w_resp (snd (handleForgotPassword ex_server (ex_request ''POST'' '''') ex_login ex_world)) =
   w_resp (snd (handleForgotPassword ex_server (ex_request ''POST'' '''') ex_login (ex_world\<lparr>w_db := empty_mem\<rparr>)))"
  using forgot_password_uniform [of ex_world "ex_world\<lparr>w_db := empty_mem\<rparr>" ex_server "ex_request ''POST'' ''''" ex_login] by simp

text \<open>
  C9. The reset endpoint changes a password only for a stored reset token that is live by the clock the
  handler reads, and uses it up; the new password is within the configured limits, its hash is stored in
  the account of the token's user, and with the option to revoke sessions that user has no live session
  afterwards.
\<close>

theorem reset_endpoint_spec:
  assumes "core_inv (w_db w)" and "handleResetPassword (on_core s) r doc w = (Inr (), w')"
  shows "password_was_reset s r doc w (w_db w')"
  by (rule wpD [OF handleResetPassword_wp [OF assms(1)] assms(2)])

lemma ex_reset:
  "\<exists>w'. handleResetPassword ex_server (ex_request ''POST'' '''')
     (DocObject [(''token'', VStr ex_raw), (''newPassword'', VStr ''12345678'')] False) ex_world2 = (Inr (), w')"
  by (simp add: handleResetPassword_def ex_raw_def passwordPolicyError_def passwordTooLongError_def checkPasswordNotTooLong_def
      PasswordHash_def ConsumePasswordReset_def liveToken_def credentialIdentityWhere_def accountKeyWhere_def runHook_def
      RevokeUserSessions_def revokeUpdate_def ex_world2_def ex_rows2_def
      server_exec ex_server_defs mem_exec row_exec)

theorem reset_endpoint_spec_witness:
  "\<exists>d. password_was_reset ex_server (ex_request ''POST'' '''')
     (DocObject [(''token'', VStr ex_raw), (''newPassword'', VStr ''12345678'')] False) ex_world2 d"
proof -
  obtain w' where "handleResetPassword (on_core ex_server) (ex_request ''POST'' '''')
     (DocObject [(''token'', VStr ex_raw), (''newPassword'', VStr ''12345678'')] False) ex_world2 = (Inr (), w')"
    using ex_reset unfolding ex_on_core by blast
  from reset_endpoint_spec [OF ex_inv2 this] show ?thesis by blast
qed

text \<open>
  C10. Impersonation is authorised and recorded. When the endpoint succeeds, a user with a live session at
  the time of the request sent the CSRF pair; the subject is the enabled user the body names, and another
  one; the actor is an administrator, where a selection of administrators is configured; the application's
  check allowed this actor for this subject; the subject is no administrator unless that is allowed.
  There is a new session of the subject that names the actor, the actor's session is revoked, and the
  audit table has a new event with both.
\<close>

theorem impersonation_authorized:
  assumes "core_inv (w_db w)" and "services_ok s" and "0 \<le> cfg_ImpersonationDuration (srv_cfg s)"
    and "handleImpersonate (on_core s) r doc w = (Inr (), w')"
  shows "impersonated s r doc w (w_db w')"
  by (rule wpD [OF handleImpersonate_wp [OF assms(1-3)] assms(4)])

lemma ex_services_ok: "services_ok ex_server"
  by (simp add: services_ok_def ex_server_defs HashToken_def)

lemma ex_impersonation:
  "\<exists>w'. handleImpersonate ex_server (ex_request ''POST'' '''') (DocObject [(''userId'', VStr ''u2'')] False) ex_world2 = (Inr (), w')"
  by (simp add: handleImpersonate_def findActiveUser_def authorizeImpersonation_def isConfiguredAdmin_def CanImpersonate_def
      adminSelectionConfigured_def TrimSpace_def is_space_def RotateSessionWithAudit_def revokeUpdate_def auditEventRecord_def
      requestMetadata_def ex_world2_def ex_rows2_def
      server_exec ex_server_defs mem_exec row_exec)

theorem impersonation_authorized_witness:
  "\<exists>d. impersonated ex_server (ex_request ''POST'' '''') (DocObject [(''userId'', VStr ''u2'')] False) ex_world2 d"
proof -
  have dur: "0 \<le> cfg_ImpersonationDuration (srv_cfg ex_server)" by (simp add: ex_server_defs)
  obtain w' where "handleImpersonate (on_core ex_server) (ex_request ''POST'' '''') (DocObject [(''userId'', VStr ''u2'')] False) ex_world2 = (Inr (), w')"
    using ex_impersonation unfolding ex_on_core by blast
  from impersonation_authorized [OF ex_inv2 ex_services_ok dur this] show ?thesis by blast
qed

end
