(* ===== verification/Schema_Check.thy ===== *)
theory Schema_Check
  imports Schema "HOL-Library.Sublist"
begin

text \<open>
  The check of the live database schema, \<open>schema_check.go\<close>: the tables a schema writes
  (\<open>ExpectedTables\<close>), their comparison with the tables the adapter read (\<open>DiffSchema\<close>), the
  text of the mismatch error, and the gate that shares one running check among the requests that
  wait for it (\<open>schemaGate\<close>), as a step relation over the interleaved callers.
\<close>

section \<open>Findings\<close>

datatype SchemaFindingKind =
    SchemaFindingMissingTable | SchemaFindingMissingColumn | SchemaFindingUnexpectedRequiredColumn

record SchemaFinding =
  sf_Kind :: SchemaFindingKind
  sf_Table :: string
  sf_Column :: string

record IntrospectedColumn =
  ic_Name :: string
  ic_Nullable :: bool
  ic_HasDefault :: bool

record IntrospectedTable =
  it_Name :: string
  it_Columns :: "IntrospectedColumn list"

record ExpectedTable =
  et_Name :: string
  et_Columns :: "string list"

section \<open>The tables a schema writes\<close>

text \<open>
  The \<open>entry\<close> of a stored table: its id column and the set of its columns, a list without
  duplicates. The loops over the fields of a model and over the models of the schema.
\<close>

record table_entry =
  te_id :: string
  te_fields :: "string list"

definition add_column :: "table_entry \<Rightarrow> string \<times> FieldSchema \<Rightarrow> table_entry" where
  "add_column current fd =
     (case fd of (logicalField, field) \<Rightarrow>
       let stored = (if fs_FieldName field = '''' then logicalField else fs_FieldName field);
           current = (if logicalField = ''id'' then current\<lparr>te_id := stored\<rparr> else current) in
       current\<lparr>te_fields := List.insert stored (te_fields current)\<rparr>)"

definition add_table :: "(string \<times> table_entry) list \<Rightarrow> string \<times> ModelSchema \<Rightarrow> (string \<times> table_entry) list" where
  "add_table byName lm =
     (case lm of (logicalName, model) \<Rightarrow>
       let name = storedModel logicalName model;
           current = (case map_of byName name of None \<Rightarrow> \<lparr>te_id = ''id'', te_fields = []\<rparr> | Some e \<Rightarrow> e) in
       put name (foldl add_column current (ms_Fields model)) byName)"

definition entry_table :: "string \<times> table_entry \<Rightarrow> ExpectedTable" where
  "entry_table ne =
     (case ne of (name, current) \<Rightarrow>
       \<lparr>et_Name = name,
        et_Columns = te_id current # sort (filter (\<lambda>f. f \<noteq> te_id current) (te_fields current))\<rparr>)"

definition ExpectedTables :: "Schema \<Rightarrow> ExpectedTable list" where
  "ExpectedTables schema = sort_key et_Name (map entry_table (foldl add_table [] schema))"

section \<open>The comparison\<close>

definition missing_columns :: "ExpectedTable \<Rightarrow> IntrospectedTable \<Rightarrow> SchemaFinding list" where
  "missing_columns expected actual =
     map (\<lambda>c. \<lparr>sf_Kind = SchemaFindingMissingColumn, sf_Table = et_Name expected, sf_Column = c\<rparr>)
       (filter (\<lambda>c. c \<notin> set (map ic_Name (it_Columns actual))) (et_Columns expected))"

definition required_columns :: "ExpectedTable \<Rightarrow> IntrospectedTable \<Rightarrow> SchemaFinding list" where
  "required_columns expected actual =
     map (\<lambda>c. \<lparr>sf_Kind = SchemaFindingUnexpectedRequiredColumn, sf_Table = et_Name expected,
                sf_Column = ic_Name c\<rparr>)
       (filter (\<lambda>c. \<not> (ic_Name c \<in> set (et_Columns expected) \<or> ic_Nullable c \<or> ic_HasDefault c))
         (it_Columns actual))"

definition diff_table :: "IntrospectedTable list \<Rightarrow> ExpectedTable \<Rightarrow> SchemaFinding list" where
  "diff_table tables expected =
     (case List.find (\<lambda>t. it_Name t = et_Name expected) tables of
        None \<Rightarrow> [\<lparr>sf_Kind = SchemaFindingMissingTable, sf_Table = et_Name expected, sf_Column = ''''\<rparr>]
      | Some actual \<Rightarrow> missing_columns expected actual @ required_columns expected actual)"

definition DiffSchema :: "Schema \<Rightarrow> IntrospectedTable list \<Rightarrow> SchemaFinding list" where
  "DiffSchema schema tables = concat (map (diff_table tables) (ExpectedTables schema))"

section \<open>The mismatch error\<close>

definition newline :: string where "newline = [CHR 0x0A]"

definition schemaRepairHint :: string where
  "schemaRepairHint = ''Make the listed columns nullable, give them defaults, or remove them.''"

definition schemaMigrateHint :: string where
  "schemaMigrateHint = ''Run the adapter's Migrate with Server.Schema() to add the missing '' @
     ''tables and columns.''"

definition schemaUpgradeGuide :: string where
  "schemaUpgradeGuide = ''https://www.better-auth.com/docs/guides/1-7-upgrade-guide''"

definition findings_of :: "SchemaFindingKind \<Rightarrow> SchemaFinding list \<Rightarrow> SchemaFinding list" where
  "findings_of k fs = filter (\<lambda>f. sf_Kind f = k) fs"

definition qualified_column :: "SchemaFinding \<Rightarrow> string" where
  "qualified_column f = sf_Table f @ ''.'' @ sf_Column f"

text \<open>\<open>SchemaMismatchError.Error\<close>\<close>

definition mismatch_text :: "SchemaFinding list \<Rightarrow> string" where
  "mismatch_text findings =
     (let nl = newline;
          tables = map sf_Table (findings_of SchemaFindingMissingTable findings);
          columns = map qualified_column (findings_of SchemaFindingMissingColumn findings);
          unwritten = findings_of SchemaFindingUnexpectedRequiredColumn findings;
          required = map qualified_column unwritten;
          affected = rev (remdups (rev (map sf_Table unwritten)));
          hasIssuer = list_ex (\<lambda>f. sf_Column f = ''issuer'') unwritten;
          help = (if required \<noteq> [] then [schemaRepairHint] else []) @
                 (if tables \<noteq> [] \<or> columns \<noteq> [] then [schemaMigrateHint] else []) in
      Join
        ([''Database schema mismatch''] @
         (if tables \<noteq> [] then [''  Missing tables'' @ nl @ ''    '' @ Join tables '', ''] else []) @
         (if columns \<noteq> [] then [''  Missing columns'' @ nl @ ''    '' @ Join columns (nl @ ''    '')] else []) @
         (if required \<noteq> [] then
            [''  Required columns Better Auth never writes'' @ nl @ ''    '' @ Join required (nl @ ''    ''),
             ''  Inserts into '' @ Join affected '', '' @ '' will fail.''] else []) @
         (if help \<noteq> [] then [''  help: '' @ Join help (nl @ ''        '')] else []) @
         (if hasIssuer then
            [''  note: If this column came from Better Auth 1.7.0 through 1.7.2,'' @ nl @
             ''        follow the upgrade guide before removing it:'' @ nl @
             ''        '' @ schemaUpgradeGuide] else [])) (nl @ nl))"

text \<open>
  The error of a check: the mismatch with its findings, or the error of the database. For a
  request, \<open>schemaRequestError\<close> replaces a mismatch by a public error that keeps its text only
  as the wrapped cause.
\<close>

datatype check_error = SchemaMismatch "SchemaFinding list" | CheckFailed go_error

definition check_cause :: "check_error \<Rightarrow> go_error" where
  "check_cause e = (case e of SchemaMismatch fs \<Rightarrow> ErrText (mismatch_text fs) | CheckFailed err \<Rightarrow> err)"

definition schemaRequestError :: "check_error \<Rightarrow> go_error" where
  "schemaRequestError e =
     (case e of
        SchemaMismatch fs \<Rightarrow> publicError CodeSchemaMismatch
          ''The database schema does not match what Better Auth needs.'' 500 (Some (check_cause e))
      | CheckFailed err \<Rightarrow> err)"

text \<open>
  The function \<open>CheckSchema\<close> gives the gate to run; what the adapter's own check of the
  schema returns is its argument.
\<close>

definition run_check :: "go_error + SchemaFinding list \<Rightarrow> check_error option" where
  "run_check checked =
     (case checked of
        Inl e \<Rightarrow> Some (CheckFailed e)
      | Inr findings \<Rightarrow> if findings \<noteq> [] then Some (SchemaMismatch findings) else None)"

section \<open>What the comparison finds\<close>

text \<open>
  The specification: the stored tables of a schema, the columns of one of them that every insert
  writes (those of all its models, and \<open>id\<close> where none of them has a field \<open>id\<close>), and a
  live table that accepts an insert of just these columns.
\<close>

definition stored_column :: "string \<times> FieldSchema \<Rightarrow> string" where
  "stored_column fd = (if fs_FieldName (snd fd) = '''' then fst fd else fs_FieldName (snd fd))"

definition table_fields :: "Schema \<Rightarrow> string \<Rightarrow> (string \<times> FieldSchema) set" where
  "table_fields schema name = (\<Union>(l, m) \<in> set schema. if storedModel l m = name then set (ms_Fields m) else {})"

definition table_columns :: "Schema \<Rightarrow> string \<Rightarrow> string set" where
  "table_columns schema name =
     (if ''id'' \<in> fst ` table_fields schema name then {} else {''id''}) \<union> stored_column ` table_fields schema name"

definition stored_tables :: "Schema \<Rightarrow> string set" where
  "stored_tables schema = (\<lambda>(l, m). storedModel l m) ` set schema"

definition accepts_insert :: "IntrospectedTable \<Rightarrow> string set \<Rightarrow> bool" where
  "accepts_insert t cols \<longleftrightarrow>
     cols \<subseteq> ic_Name ` set (it_Columns t) \<and>
     (\<forall>c\<in>set (it_Columns t). ic_Name c \<in> cols \<or> ic_Nullable c \<or> ic_HasDefault c)"

definition live_table :: "IntrospectedTable list \<Rightarrow> string \<Rightarrow> IntrospectedTable option" where
  "live_table tables name = List.find (\<lambda>t. it_Name t = name) tables"

text \<open>The entry of a table holds its columns, and the id column is one of them or \<open>id\<close>.\<close>

definition entry_holds :: "(string \<times> FieldSchema) set \<Rightarrow> table_entry \<Rightarrow> bool" where
  "entry_holds fds e \<longleftrightarrow>
     set (te_fields e) = stored_column ` fds \<and>
     (if ''id'' \<in> fst ` fds then te_id e \<in> stored_column ` fds else te_id e = ''id'')"

lemma entry_holds_column:
  "entry_holds fds e \<Longrightarrow> entry_holds (insert fd fds) (add_column e fd)"
  by (cases fd) (auto simp: entry_holds_def add_column_def stored_column_def Let_def split: if_splits)

lemma entry_holds_columns:
  "entry_holds fds e \<Longrightarrow> entry_holds (fds \<union> set fs) (foldl add_column e fs)"
proof (induction fs arbitrary: fds e)
  case (Cons fd fs)
  from Cons.IH [OF entry_holds_column [OF Cons.prems, of fd]] show ?case by simp
qed simp

lemma entry_holds_new: "entry_holds {} \<lparr>te_id = ''id'', te_fields = []\<rparr>"
  by (simp add: entry_holds_def)

lemma add_table_pair:
  "add_table byName (l, m) = put (storedModel l m)
     (foldl add_column (case map_of byName (storedModel l m) of None \<Rightarrow> \<lparr>te_id = ''id'', te_fields = []\<rparr> | Some e \<Rightarrow> e)
       (ms_Fields m)) byName"
  by (simp add: add_table_def Let_def)

lemma add_tables_spec:
  "case map_of (foldl add_table [] schema) name of
     None \<Rightarrow> name \<notin> stored_tables schema
   | Some e \<Rightarrow> name \<in> stored_tables schema \<and> entry_holds (table_fields schema name) e"
proof (induction schema rule: rev_induct)
  case (snoc lm schema)
  obtain l m where lm: "lm = (l, m)" by fastforce
  let ?old = "map_of (foldl add_table [] schema) (storedModel l m)"
  have fields: "table_fields (schema @ [lm]) name =
      table_fields schema name \<union> (if storedModel l m = name then set (ms_Fields m) else {})"
    by (auto simp: table_fields_def lm)
  have none: "name \<notin> stored_tables schema \<Longrightarrow> table_fields schema name = {}"
    by (auto simp: table_fields_def stored_tables_def split: if_splits)
  show ?case
  proof (cases "storedModel l m = name")
    case True
    have "entry_holds (table_fields schema name) (case ?old of None \<Rightarrow> \<lparr>te_id = ''id'', te_fields = []\<rparr> | Some e \<Rightarrow> e)"
      using snoc True none entry_holds_new by (auto split: option.splits)
    from entry_holds_columns [OF this, of "ms_Fields m"] show ?thesis
      by (simp add: lm True add_table_pair stored_tables_def fields [unfolded lm])
  next
    case False
    with snoc fields show ?thesis
      by (auto simp: lm add_table_pair stored_tables_def split: option.splits)
  qed
qed (simp add: stored_tables_def)

lemma distinct_tables: "distinct (map fst (foldl add_table [] schema))"
  by (induction schema rule: rev_induct) (auto simp: add_table_def Let_def distinct_put split: prod.split)

lemma set_ExpectedTables:
  "expected \<in> set (ExpectedTables schema) \<longleftrightarrow>
     (\<exists>name e. map_of (foldl add_table [] schema) name = Some e \<and> expected = entry_table (name, e))"
  using distinct_tables [of schema] by (auto simp: ExpectedTables_def image_iff)

lemma et_Name_entry: "et_Name (entry_table ne) = fst ne"
  by (simp add: entry_table_def split: prod.split)

lemma entry_columns:
  "entry_holds (table_fields schema name) e \<Longrightarrow>
   et_Name (entry_table (name, e)) = name \<and>
   set (et_Columns (entry_table (name, e))) = table_columns schema name"
  by (auto simp: entry_table_def table_columns_def entry_holds_def split: if_splits)

lemma expected_tables_spec:
  "et_Name ` set (ExpectedTables schema) = stored_tables schema"
  "expected \<in> set (ExpectedTables schema) \<Longrightarrow> set (et_Columns expected) = table_columns schema (et_Name expected)"
proof -
  have "(\<exists>e. map_of (foldl add_table [] schema) name = Some e) \<longleftrightarrow> name \<in> stored_tables schema" for name
    using add_tables_spec [of name schema] by (auto split: option.splits)
  moreover have "et_Name ` set (ExpectedTables schema) = {name. \<exists>e. map_of (foldl add_table [] schema) name = Some e}"
    using set_ExpectedTables [of _ schema] et_Name_entry by (auto simp: image_iff) (metis fst_conv)+
  ultimately show "et_Name ` set (ExpectedTables schema) = stored_tables schema" by blast
next
  assume "expected \<in> set (ExpectedTables schema)"
  then obtain name e where e: "map_of (foldl add_table [] schema) name = Some e" "expected = entry_table (name, e)"
    by (auto simp: set_ExpectedTables)
  with add_tables_spec [of name schema] entry_columns [of schema name e]
  show "set (et_Columns expected) = table_columns schema (et_Name expected)" by simp
qed

lemma diff_table_clean:
  "diff_table tables expected = [] \<longleftrightarrow>
     (\<exists>t. live_table tables (et_Name expected) = Some t \<and> accepts_insert t (set (et_Columns expected)))"
  by (auto simp: diff_table_def live_table_def missing_columns_def required_columns_def accepts_insert_def
      filter_empty_conv image_iff split: option.split)

text \<open>The finding \<open>f\<close> is about the stored table \<open>sf_Table f\<close>, and is right about it.\<close>

definition finding_right :: "Schema \<Rightarrow> IntrospectedTable list \<Rightarrow> SchemaFinding \<Rightarrow> bool" where
  "finding_right schema tables f \<longleftrightarrow>
     (let cols = table_columns schema (sf_Table f) in
      case live_table tables (sf_Table f) of
        None \<Rightarrow> sf_Kind f = SchemaFindingMissingTable \<and> sf_Column f = ''''
      | Some t \<Rightarrow>
          (case sf_Kind f of
             SchemaFindingMissingTable \<Rightarrow> False
           | SchemaFindingMissingColumn \<Rightarrow> sf_Column f \<in> cols - ic_Name ` set (it_Columns t)
           | SchemaFindingUnexpectedRequiredColumn \<Rightarrow> sf_Column f \<notin> cols \<and>
               list_ex (\<lambda>c. ic_Name c = sf_Column f \<and> \<not> ic_Nullable c \<and> \<not> ic_HasDefault c) (it_Columns t)))"

lemma set_diff_table:
  assumes "expected \<in> set (ExpectedTables schema)"
  shows "f \<in> set (diff_table tables expected) \<longleftrightarrow> sf_Table f = et_Name expected \<and> finding_right schema tables f"
proof (cases f)
  case (fields k t c)
  show ?thesis
    unfolding diff_table_def finding_right_def Let_def live_table_def fields
    using expected_tables_spec(2) [OF assms, symmetric]
    by (cases k) (auto simp: missing_columns_def required_columns_def list_ex_iff image_iff split: option.splits)
qed

lemma DiffSchema_finding: "f \<in> set (DiffSchema schema tables) \<longleftrightarrow>
    sf_Table f \<in> stored_tables schema \<and> finding_right schema tables f"
proof -
  have "f \<in> set (DiffSchema schema tables) \<longleftrightarrow>
      (\<exists>expected\<in>set (ExpectedTables schema). sf_Table f = et_Name expected) \<and> finding_right schema tables f"
    using set_diff_table [of _ schema f tables] by (auto simp: DiffSchema_def)
  also have "(\<exists>expected\<in>set (ExpectedTables schema). sf_Table f = et_Name expected) \<longleftrightarrow> sf_Table f \<in> stored_tables schema"
    using expected_tables_spec(1) [of schema] by (metis (no_types, lifting) image_iff)
  finally show ?thesis .
qed

section \<open>The text of the error\<close>

lemma Join_part: "x \<in> set xs \<Longrightarrow> sublist x (Join xs sep)"
proof (induction xs sep rule: Prelude.Join.induct)
  case (3 y z xs sep)
  show ?case
  proof (cases "x = y")
    case False
    with 3 obtain ps ss where "Join (z # xs) sep = ps @ x @ ss" by (auto simp: sublist_def)
    then have "Join (y # z # xs) sep = (y @ sep @ ps) @ x @ ss" by simp
    then show ?thesis unfolding sublist_def by blast
  qed simp
qed auto

lemma sublist_inside: "sublist x y \<Longrightarrow> sublist x (ps @ y @ ss)"
  by (metis append_assoc sublist_def)

text \<open>What the error names: a missing table, or a column with its table.\<close>

definition named_in_error :: "SchemaFinding \<Rightarrow> string" where
  "named_in_error f = (if sf_Kind f = SchemaFindingMissingTable then sf_Table f else qualified_column f)"

lemma mismatch_lists_finding:
  assumes "f \<in> set findings"
  shows "sublist (named_in_error f) (mismatch_text findings)"
proof -
  have f: "named_in_error f \<in> set (map named_in_error (findings_of (sf_Kind f) findings))"
    using assms by (simp add: findings_of_def)
  have named: "map named_in_error (findings_of SchemaFindingMissingTable findings) = map sf_Table (findings_of SchemaFindingMissingTable findings)"
    "k \<noteq> SchemaFindingMissingTable \<Longrightarrow> map named_in_error (findings_of k findings) = map qualified_column (findings_of k findings)" for k
    by (simp_all add: findings_of_def named_in_error_def)
  have whole: "sublist (named_in_error f) (Join secs sep)"
    if "ps @ Join (map named_in_error (findings_of (sf_Kind f) findings)) s @ ss \<in> set secs" for sep secs ps s ss
  proof -
    have "sublist (named_in_error f) (ps @ Join (map named_in_error (findings_of (sf_Kind f) findings)) s @ ss)"
      by (intro sublist_inside Join_part f)
    from this Join_part [OF that] show ?thesis by (rule sublist_order.order.trans)
  qed
  from f have some: "map named_in_error (findings_of (sf_Kind f) findings) \<noteq> []" by auto
  show ?thesis
  proof (cases "sf_Kind f")
    case SchemaFindingMissingTable
    show ?thesis unfolding mismatch_text_def Let_def
      by (rule whole [where ps = "''  Missing tables'' @ newline @ ''    ''" and ss = "[]" and s = "'', ''"])
        (use some in \<open>simp add: SchemaFindingMissingTable named\<close>)
  next
    case SchemaFindingMissingColumn
    show ?thesis unfolding mismatch_text_def Let_def
      by (rule whole [where ps = "''  Missing columns'' @ newline @ ''    ''" and ss = "[]" and s = "newline @ ''    ''"])
        (use some in \<open>simp add: SchemaFindingMissingColumn named\<close>)
  next
    case SchemaFindingUnexpectedRequiredColumn
    show ?thesis unfolding mismatch_text_def Let_def
      by (rule whole [where ps = "''  Required columns Better Auth never writes'' @ newline @ ''    ''" and ss = "[]" and s = "newline @ ''    ''"])
        (use some in \<open>simp add: SchemaFindingUnexpectedRequiredColumn named\<close>)
  qed
qed

section \<open>Properties\<close>

text \<open>
  C19. The comparison of the live schema finds nothing exactly when every table the schema writes is
  there and accepts the inserts of its models: it has each column they write, and each other column of
  it is nullable or has a default.
\<close>

theorem diff_schema_clean_iff:
  "DiffSchema schema tables = [] \<longleftrightarrow>
     (\<forall>(l, m) \<in> set schema. \<exists>t. live_table tables (storedModel l m) = Some t \<and>
        accepts_insert t (table_columns schema (storedModel l m)))"
proof -
  have "DiffSchema schema tables = [] \<longleftrightarrow>
      (\<forall>expected\<in>set (ExpectedTables schema). \<exists>t. live_table tables (et_Name expected) = Some t \<and>
         accepts_insert t (table_columns schema (et_Name expected)))"
    by (simp add: DiffSchema_def diff_table_clean expected_tables_spec(2))
  also have "\<dots> \<longleftrightarrow> (\<forall>name\<in>et_Name ` set (ExpectedTables schema). \<exists>t. live_table tables name = Some t \<and>
         accepts_insert t (table_columns schema name))"
    by simp
  finally show ?thesis
    unfolding expected_tables_spec(1) by (auto simp: stored_tables_def)
qed

definition ex_live_user :: IntrospectedTable where
  "ex_live_user = \<lparr>it_Name = ''users'', it_Columns = [
     \<lparr>ic_Name = ''id'', ic_Nullable = False, ic_HasDefault = False\<rparr>,
     \<lparr>ic_Name = ''mail'', ic_Nullable = False, ic_HasDefault = False\<rparr>,
     \<lparr>ic_Name = ''note'', ic_Nullable = True, ic_HasDefault = False\<rparr>]\<rparr>"

definition ex_checked_schema :: Schema where
  "ex_checked_schema = [(ModelUser, \<lparr>ms_ModelName = ''users'', ms_Fields = [
     (''id'', req FieldString), (''email'', (req FieldString)\<lparr>fs_FieldName := ''mail''\<rparr>)], ms_Indexes = []\<rparr>)]"

lemma ex_diff_clean: "DiffSchema ex_checked_schema [ex_live_user] = []"
  by code_simp

theorem diff_schema_clean_iff_witness:
  "\<exists>t. live_table [ex_live_user] ''users'' = Some t \<and> accepts_insert t (table_columns ex_checked_schema ''users'')"
  using diff_schema_clean_iff [of ex_checked_schema "[ex_live_user]"] ex_diff_clean
  by (simp add: ex_checked_schema_def storedModel_def)

text \<open>
  The error of a failed check tells the operator everything and the client nothing: its text names
  the table of every missing table and the table and column of every other finding, and a finding is
  reported only where it is true of the live database; the response to a request is the same public
  error for any mismatch, with that text only as its cause.
\<close>

lemma schema_error_complete:
  assumes "f \<in> set (DiffSchema schema tables)"
  shows "run_check (Inr (DiffSchema schema tables)) = Some (SchemaMismatch (DiffSchema schema tables))"
    and "finding_right schema tables f"
    and "sublist (named_in_error f) (mismatch_text (DiffSchema schema tables))"
    and "schemaRequestError (SchemaMismatch (DiffSchema schema tables)) =
      ErrPublic CodeSchemaMismatch ''The database schema does not match what Better Auth needs.'' 500 0
        (Some (ErrText (mismatch_text (DiffSchema schema tables))))"
  using assms DiffSchema_finding [of f schema tables] mismatch_lists_finding [OF assms]
  by (auto simp: run_check_def Let_def schemaRequestError_def publicError_def check_cause_def)

end
