(* ===== verification/Schema_Gate.thy ===== *)
theory Schema_Gate
  imports Schema_Check
begin

text \<open>
  The gate \<open>schemaGate\<close> of \<open>schema_check.go\<close>: callers of \<open>check\<close> interleave in any order.
  One step is what a caller does without another one seeing a state in between: an atomic load,
  a section under the mutex, the return of \<open>run\<close>, closing a channel, waking up.
\<close>

section \<open>State\<close>

text \<open>
  A \<open>schemaCall\<close>: what its run returned, once it has, whether the leader's request was
  cancelled, and whether \<open>done\<close> is closed. A call is named by its position in \<open>g_calls\<close>.
\<close>

record schemaCall =
  sc_err :: "check_error option option"
  sc_canceled :: bool
  sc_closed :: bool

text \<open>What \<open>check\<close> returns: nil, the error of a run, or the error of the caller's context.\<close>

datatype check_result = CheckOk | CheckErr check_error | CheckCtx

text \<open>Where a caller is: at the first load, before the lock, running the check as the leader of a
  call, before the second lock, before \<open>close\<close>, unwinding after a panic of \<open>run\<close>, waiting for a
  call, returned.\<close>

datatype gate_pc =
    AtLoad | AtLock | Running nat | Finishing nat | Closing nat | Panicked nat | Waiting nat | Returned check_result

record gate =
  g_clean :: bool
  g_pending :: "nat option"
  g_calls :: "schemaCall list"
  g_at :: "nat \<Rightarrow> gate_pc"

definition gate_init :: gate where
  "gate_init = \<lparr>g_clean = False, g_pending = None, g_calls = [], g_at = (\<lambda>_. AtLoad)\<rparr>"

section \<open>Steps\<close>

definition goto :: "nat \<Rightarrow> gate_pc \<Rightarrow> gate \<Rightarrow> gate" where
  "goto t p g = g\<lparr>g_at := (g_at g)(t := p)\<rparr>"

definition result_of :: "check_error option \<Rightarrow> check_result" where
  "result_of e = (case e of None \<Rightarrow> CheckOk | Some err \<Rightarrow> CheckErr err)"

text \<open>\<open>if gate.clean.Load() { return nil }\<close>\<close>

definition gate_load :: "nat \<Rightarrow> gate \<Rightarrow> gate" where
  "gate_load t g = (if g_clean g then goto t (Returned CheckOk) g else goto t AtLock g)"

text \<open>The first section under the mutex: the second look, then to lead or to wait.\<close>

definition gate_lock :: "nat \<Rightarrow> gate \<Rightarrow> gate" where
  "gate_lock t g =
     (if g_clean g then goto t (Returned CheckOk) g
      else case g_pending g of
        None \<Rightarrow>
          goto t (Running (length (g_calls g)))
            (g\<lparr>g_calls := g_calls g @ [\<lparr>sc_err = None, sc_canceled = False, sc_closed = False\<rparr>],
               g_pending := Some (length (g_calls g))\<rparr>)
      | Some c \<Rightarrow> goto t (Waiting c) g)"

text \<open>\<open>call.err = run(ctx)\<close>, and whether the leader's context is cancelled by then.\<close>

definition gate_ran :: "nat \<Rightarrow> nat \<Rightarrow> check_error option \<Rightarrow> bool \<Rightarrow> gate \<Rightarrow> gate" where
  "gate_ran t c err ctxDone g =
     goto t (Finishing c)
       (g\<lparr>g_calls := (g_calls g)[c := (g_calls g ! c)\<lparr>sc_err := Some err, sc_canceled := err \<noteq> None \<and> ctxDone\<rparr>]\<rparr>)"

text \<open>
  A panic of \<open>run\<close>: \<open>check\<close> defers nothing, so the caller unwinds (the HTTP server recovers it) with
  the call still pending and its channel open.
\<close>

definition gate_panics :: "nat \<Rightarrow> nat \<Rightarrow> gate \<Rightarrow> gate" where
  "gate_panics t c g = goto t (Panicked c) g"

text \<open>The second section under the mutex.\<close>

definition gate_finish :: "nat \<Rightarrow> nat \<Rightarrow> gate \<Rightarrow> gate" where
  "gate_finish t c g =
     goto t (Closing c)
       (g\<lparr>g_clean := (if sc_err (g_calls g ! c) = Some None then True else g_clean g), g_pending := None\<rparr>)"

text \<open>\<open>close(call.done)\<close> and the leader's return.\<close>

definition gate_close :: "nat \<Rightarrow> nat \<Rightarrow> gate \<Rightarrow> gate" where
  "gate_close t c g =
     goto t (Returned (case sc_err (g_calls g ! c) of None \<Rightarrow> CheckOk | Some e \<Rightarrow> result_of e))
       (g\<lparr>g_calls := (g_calls g)[c := (g_calls g ! c)\<lparr>sc_closed := True\<rparr>]\<rparr>)"

text \<open>A waiter whose call is closed: around the loop after a cancelled run, else the shared result.\<close>

definition gate_wake :: "nat \<Rightarrow> nat \<Rightarrow> gate \<Rightarrow> gate" where
  "gate_wake t c g =
     (if sc_canceled (g_calls g ! c) then goto t AtLoad g
      else goto t (Returned (case sc_err (g_calls g ! c) of None \<Rightarrow> CheckOk | Some e \<Rightarrow> result_of e)) g)"

inductive gate_step :: "gate \<Rightarrow> gate \<Rightarrow> bool" where
  load: "g_at g t = AtLoad \<Longrightarrow> gate_step g (gate_load t g)"
| lock: "g_at g t = AtLock \<Longrightarrow> gate_step g (gate_lock t g)"
| ran: "g_at g t = Running c \<Longrightarrow> gate_step g (gate_ran t c err ctxDone g)"
| panics: "g_at g t = Running c \<Longrightarrow> gate_step g (gate_panics t c g)"
| finish: "g_at g t = Finishing c \<Longrightarrow> gate_step g (gate_finish t c g)"
| close: "g_at g t = Closing c \<Longrightarrow> gate_step g (gate_close t c g)"
| canceled: "g_at g t = Waiting c \<Longrightarrow> gate_step g (goto t (Returned CheckCtx) g)"
| wake: "g_at g t = Waiting c \<Longrightarrow> sc_closed (g_calls g ! c) \<Longrightarrow> gate_step g (gate_wake t c g)"

inductive gate_steps :: "gate \<Rightarrow> gate \<Rightarrow> bool" where
  refl: "gate_steps g g"
| step: "gate_steps g h \<Longrightarrow> gate_step h k \<Longrightarrow> gate_steps g k"

lemmas gate_moves =
  gate_load_def gate_lock_def gate_ran_def gate_panics_def gate_finish_def gate_close_def gate_wake_def goto_def

inductive_cases gate_stepE: "gate_step g h"

lemma gate_steps_one: "gate_step g h \<Longrightarrow> gate_steps g h"
  by (rule gate_steps.step [OF gate_steps.refl])

lemma gate_steps_trans:
  assumes "gate_steps g h" and "gate_steps h k"
  shows "gate_steps g k"
  using assms(2,1) by induction (auto intro: gate_steps.step)

section \<open>The invariant\<close>

text \<open>
  The pending call is the one some caller runs, is about to finish or left by a panic, and no other; a call that is
  run, finished or closed has the matching contents; a waiter waits for a call that exists and, if
  it is not closed, still has its leader; and nil is recorded only where a run returned nil.
\<close>

definition leads :: "gate_pc \<Rightarrow> nat \<Rightarrow> bool" where
  "leads p c \<longleftrightarrow> p = Running c \<or> p = Finishing c \<or> p = Panicked c"

definition serves :: "gate_pc \<Rightarrow> nat \<Rightarrow> bool" where
  "serves p c \<longleftrightarrow> leads p c \<or> p = Closing c"

definition ran_clean :: "gate \<Rightarrow> bool" where
  "ran_clean g \<longleftrightarrow> list_ex (\<lambda>c. sc_err c = Some None) (g_calls g)"

definition reported :: "gate \<Rightarrow> check_error \<Rightarrow> bool" where
  "reported g e \<longleftrightarrow> list_ex (\<lambda>c. sc_err c = Some (Some e)) (g_calls g)"

text \<open>The contents of a call, by what is being done with it.\<close>

definition call_ok :: "gate \<Rightarrow> nat \<Rightarrow> bool" where
  "call_ok g c \<longleftrightarrow>
     (let call = g_calls g ! c in
      (sc_canceled call \<longrightarrow> sc_err call \<noteq> None \<and> sc_err call \<noteq> Some None) \<and>
      (sc_closed call \<longrightarrow> sc_err call \<noteq> None \<and> (\<forall>t. \<not> serves (g_at g t) c)) \<and>
      (\<not> sc_closed call \<longrightarrow> (\<exists>t. serves (g_at g t) c)) \<and>
      (\<forall>t. g_at g t = Running c \<or> g_at g t = Panicked c \<longrightarrow> sc_err call = None) \<and>
      (\<forall>t. g_at g t = Finishing c \<or> g_at g t = Closing c \<longrightarrow> sc_err call \<noteq> None))"

definition result_ok :: "gate \<Rightarrow> gate_pc \<Rightarrow> bool" where
  "result_ok g p \<longleftrightarrow> (p = Returned CheckOk \<longrightarrow> ran_clean g) \<and> (\<forall>e. p = Returned (CheckErr e) \<longrightarrow> reported g e)"

definition gate_inv :: "gate \<Rightarrow> bool" where
  "gate_inv g \<longleftrightarrow>
     (\<forall>t c. leads (g_at g t) c \<longrightarrow> g_pending g = Some c) \<and>
     (\<forall>c. g_pending g = Some c \<longrightarrow> (\<exists>t. leads (g_at g t) c)) \<and>
     (\<forall>t t' c. serves (g_at g t) c \<longrightarrow> serves (g_at g t') c \<longrightarrow> t = t') \<and>
     (\<forall>t c. serves (g_at g t) c \<or> g_at g t = Waiting c \<longrightarrow> c < length (g_calls g)) \<and>
     (\<forall>c<length (g_calls g). call_ok g c) \<and>
     (g_clean g \<longrightarrow> ran_clean g) \<and>
     (\<forall>t. result_ok g (g_at g t))"

lemma gate_invI:
  assumes "\<And>t c. leads (g_at g t) c \<Longrightarrow> g_pending g = Some c"
    and "\<And>c. g_pending g = Some c \<Longrightarrow> \<exists>t. leads (g_at g t) c"
    and "\<And>t u c. serves (g_at g t) c \<Longrightarrow> serves (g_at g u) c \<Longrightarrow> t = u"
    and "\<And>t c. serves (g_at g t) c \<or> g_at g t = Waiting c \<Longrightarrow> c < length (g_calls g)"
    and "\<And>c. c < length (g_calls g) \<Longrightarrow> call_ok g c"
    and "g_clean g \<Longrightarrow> ran_clean g" and "\<And>t. result_ok g (g_at g t)"
  shows "gate_inv g"
  using assms unfolding gate_inv_def by blast

lemma gate_invD:
  assumes "gate_inv g"
  shows led: "leads (g_at g t) c \<Longrightarrow> g_pending g = Some c"
    and leader: "g_pending g = Some c \<Longrightarrow> \<exists>t. leads (g_at g t) c"
    and single: "serves (g_at g t) c \<Longrightarrow> serves (g_at g u) c \<Longrightarrow> t = u"
    and bound: "serves (g_at g t) c \<or> g_at g t = Waiting c \<Longrightarrow> c < length (g_calls g)"
    and call: "c < length (g_calls g) \<Longrightarrow> call_ok g c"
    and clean: "g_clean g \<Longrightarrow> ran_clean g"
    and result: "result_ok g (g_at g t)"
  using assms unfolding gate_inv_def by blast+

lemma pc_simps [simp]:
  "serves (Running c) d \<longleftrightarrow> c = d" "serves (Finishing c) d \<longleftrightarrow> c = d" "serves (Closing c) d \<longleftrightarrow> c = d"
  "leads (Running c) d \<longleftrightarrow> c = d" "leads (Finishing c) d \<longleftrightarrow> c = d" "\<not> leads (Closing c) d"
  "serves (Panicked c) d \<longleftrightarrow> c = d" "leads (Panicked c) d \<longleftrightarrow> c = d"
  "\<not> serves AtLoad d" "\<not> serves AtLock d" "\<not> serves (Waiting c) d" "\<not> serves (Returned r) d"
  "\<not> leads AtLoad d" "\<not> leads AtLock d" "\<not> leads (Waiting c) d" "\<not> leads (Returned r) d"
  by (auto simp: serves_def leads_def)

text \<open>A caller moves on without having led or served a call before or after.\<close>

lemma gate_inv_goto:
  assumes inv: "gate_inv g" and idle: "\<And>c. \<not> serves (g_at g t) c" "\<And>c. \<not> serves p c"
    and wait: "\<And>c. p = Waiting c \<Longrightarrow> c < length (g_calls g)" and res: "result_ok g p"
  shows "gate_inv (goto t p g)"
proof -
  have at: "serves (g_at (goto t p g) u) c \<longleftrightarrow> serves (g_at g u) c" "leads (g_at (goto t p g) u) c \<longleftrightarrow> leads (g_at g u) c" for u c
    using idle by (auto simp: goto_def serves_def)
  have calls: "g_calls (goto t p g) = g_calls g" "g_pending (goto t p g) = g_pending g" "g_clean (goto t p g) = g_clean g"
    by (simp_all add: goto_def)
  have same: "g_at (goto t p g) u = q \<longleftrightarrow> g_at g u = q" if "\<exists>c. serves q c" for u q
    using idle that by (auto simp: goto_def)
  have "call_ok (goto t p g) c \<longleftrightarrow> call_ok g c" for c
    by (simp add: call_ok_def calls at same)
  moreover have "result_ok (goto t p g) = result_ok g"
    by (simp add: fun_eq_iff result_ok_def ran_clean_def reported_def calls)
  ultimately have keep: "\<And>c. call_ok (goto t p g) c = call_ok g c" "result_ok (goto t p g) = result_ok g" by simp_all
  show ?thesis
  proof (rule gate_invI)
    show "serves (g_at (goto t p g) u) c \<or> g_at (goto t p g) u = Waiting c \<Longrightarrow> c < length (g_calls (goto t p g))" for u c
      using bound [OF inv, of u c] wait [of c] at [of u c] calls by (auto simp: goto_def split: if_splits)
    show "result_ok (goto t p g) (g_at (goto t p g) u)" for u
      using result [OF inv] res keep by (simp add: goto_def)
    show "g_clean (goto t p g) \<Longrightarrow> ran_clean (goto t p g)"
      using clean [OF inv] by (simp add: ran_clean_def calls)
  qed (use led [OF inv] leader [OF inv] single [OF inv] call [OF inv] in \<open>simp_all add: at calls keep\<close>)
qed

text \<open>Both results of a call that has run.\<close>

lemma result_of_ok:
  assumes "c < length (g_calls g)" and "sc_err (g_calls g ! c) = Some e"
  shows "result_ok g (Returned (case sc_err (g_calls g ! c) of None \<Rightarrow> CheckOk | Some e \<Rightarrow> result_of e))"
proof -
  have "g_calls g ! c \<in> set (g_calls g)" using assms(1) by simp
  with assms(2) show ?thesis
    by (auto simp: result_ok_def result_of_def ran_clean_def reported_def list_ex_iff split: option.splits)
qed

lemma gate_load_inv: "gate_inv g \<Longrightarrow> g_at g t = AtLoad \<Longrightarrow> gate_inv (gate_load t g)"
  unfolding gate_load_def using clean [of g]
  by (cases "g_clean g") (auto intro!: gate_inv_goto simp: result_ok_def)

lemma gate_wake_inv:
  assumes "gate_inv g" and "g_at g t = Waiting c" and "sc_closed (g_calls g ! c)"
  shows "gate_inv (gate_wake t c g)"
proof -
  have c: "c < length (g_calls g)" using bound [OF assms(1), of t c] assms(2) by simp
  with call [OF assms(1) c] assms(3) obtain e where "sc_err (g_calls g ! c) = Some e"
    by (auto simp: call_ok_def Let_def)
  from result_of_ok [OF c this] assms(1,2) show ?thesis
    unfolding gate_wake_def by (auto intro!: gate_inv_goto simp: result_ok_def)
qed

lemma gate_canceled_inv: "gate_inv g \<Longrightarrow> g_at g t = Waiting c \<Longrightarrow> gate_inv (goto t (Returned CheckCtx) g)"
  by (auto intro!: gate_inv_goto simp: result_ok_def)

text \<open>The first section under the mutex: a new call with its leader, or one more waiter.\<close>

lemma gate_lock_inv:
  assumes inv: "gate_inv g" and at: "g_at g t = AtLock"
  shows "gate_inv (gate_lock t g)"
proof (cases "g_clean g \<or> g_pending g \<noteq> None")
  case True
  have "c < length (g_calls g)" if "g_pending g = Some c" for c
    using leader [OF inv that] bound [OF inv] by (auto simp: serves_def)
  with True inv at clean [OF inv] show ?thesis
    by (auto simp: gate_lock_def result_ok_def intro!: gate_inv_goto split: option.splits)
next
  case False
  let ?n = "length (g_calls g)" and ?h = "gate_lock t g"
  have h: "g_at ?h u = (if u = t then Running ?n else g_at g u)" "g_pending ?h = Some ?n" "g_clean ?h = g_clean g"
    "g_calls ?h = g_calls g @ [\<lparr>sc_err = None, sc_canceled = False, sc_closed = False\<rparr>]" for u
    using False by (auto simp: gate_lock_def goto_def)
  have nolead: "\<not> leads (g_at g u) c" for u c using led [OF inv] False by auto
  have old: "serves (g_at g u) c \<Longrightarrow> c < ?n" for u c using bound [OF inv] by blast
  show ?thesis
  proof (rule gate_invI)
    show "leads (g_at ?h u) c \<Longrightarrow> g_pending ?h = Some c" for u c
      using nolead by (auto simp: h split: if_splits)
    show "g_pending ?h = Some c \<Longrightarrow> \<exists>u. leads (g_at ?h u) c" for c
      by (rule exI [of _ t]) (simp add: h)
    show "serves (g_at ?h u) c \<Longrightarrow> serves (g_at ?h v) c \<Longrightarrow> u = v" for u v c
      using old single [OF inv, of u c v] by (fastforce simp: h split: if_splits)
    show "serves (g_at ?h u) c \<or> g_at ?h u = Waiting c \<Longrightarrow> c < length (g_calls ?h)" for u c
      using bound [OF inv, of u c] by (auto simp: h split: if_splits)
    show "call_ok ?h c" if "c < length (g_calls ?h)" for c
    proof (cases "c = ?n")
      case True
      have "\<not> serves (g_at g u) c" for u using old True by blast
      then have "g_at ?h u \<noteq> Finishing c" "g_at ?h u \<noteq> Closing c" for u
        by (auto simp: h serves_def leads_def)
      moreover have "\<exists>u. serves (g_at ?h u) c" by (rule exI [of _ t]) (simp add: h True)
      ultimately show ?thesis by (simp add: call_ok_def Let_def h(4) nth_append True)
    next
      case new: False
      with that have c: "c < ?n" by (simp add: h)
      have "serves (g_at ?h u) c \<longleftrightarrow> serves (g_at g u) c"
        "g_at ?h u = Running c \<or> g_at ?h u = Panicked c \<longleftrightarrow> g_at g u = Running c \<or> g_at g u = Panicked c"
        "g_at ?h u = Finishing c \<or> g_at ?h u = Closing c \<longleftrightarrow> g_at g u = Finishing c \<or> g_at g u = Closing c" for u
        using new at by (auto simp: h)
      with call [OF inv c] c show ?thesis by (simp add: call_ok_def Let_def h(4) nth_append)
    qed
    show "g_clean ?h \<Longrightarrow> ran_clean ?h" using False by (simp add: h)
    show "result_ok ?h (g_at ?h u)" for u
      using result [OF inv, of u] by (auto simp: result_ok_def ran_clean_def reported_def h)
  qed
qed

text \<open>A leader moves on, and writes its own call.\<close>

lemma list_ex_update:
  assumes "list_ex P xs" and "c < length xs" and "P (xs ! c) \<Longrightarrow> P d"
  shows "list_ex P (xs[c := d])"
proof -
  obtain i where i: "i < length xs" "P (xs ! i)" using assms(1) by (auto simp: list_ex_iff in_set_conv_nth)
  then have "P (xs[c := d] ! i)" using assms(2,3) by (cases "i = c") auto
  with i(1) show ?thesis by (auto simp: list_ex_iff in_set_conv_nth intro!: bexI exI [of _ i])
qed

lemma gate_leader_inv:
  assumes inv: "gate_inv g" and at: "serves (g_at g t) c"
    and s: "\<And>u. g_at h u = (if u = t then p else g_at g u)" "g_pending h = q" "g_clean h = b"
      "g_calls h = (g_calls g)[c := d]"
    and q: "if leads p c then q = Some c \<and> leads (g_at g t) c else q = (if leads (g_at g t) c then None else g_pending g)"
    and p: "\<And>e. serves p e \<Longrightarrow> e = c" "\<And>e. p \<noteq> Waiting e"
    and kept: "sc_err (g_calls g ! c) \<noteq> None \<Longrightarrow> sc_err d = sc_err (g_calls g ! c)"
    and b: "b \<Longrightarrow> g_clean g \<or> sc_err d = Some None" and r: "result_ok h p"
    and d: "sc_canceled d \<Longrightarrow> sc_err d \<noteq> None \<and> sc_err d \<noteq> Some None"
      "sc_closed d \<longleftrightarrow> \<not> serves p c" "p \<noteq> Running c" "p \<noteq> Panicked c" "sc_err d \<noteq> None"
  shows "gate_inv h"
proof -
  have c: "c < length (g_calls g)" using bound [OF inv] at by blast
  have mine: "u = t" if "serves (g_at g u) c" for u using single [OF inv that at] .
  have only: "e = c" if "serves (g_at g t) e" for e using that at by (auto simp: serves_def leads_def)
  have grown: "ran_clean g \<Longrightarrow> ran_clean h" "reported g e \<Longrightarrow> reported h e" for e
    unfolding ran_clean_def reported_def s(4)
    by (erule list_ex_update [OF _ c], use kept in simp)+
  have ran: "ran_clean h" if "sc_err d = Some None"
    unfolding ran_clean_def s(4) list_ex_iff using that set_update_memI [OF c, of d] by blast
  show ?thesis
  proof (rule gate_invI)
    show "g_pending h = Some e" if lead: "leads (g_at h u) e" for u e
    proof (cases "u = t")
      case True
      with lead have "leads p e" by (simp add: s)
      moreover from this have "e = c" by (intro p(1)) (simp add: serves_def)
      ultimately show ?thesis using q by (simp add: s)
    next
      case False
      with lead have "leads (g_at g u) e" by (simp add: s)
      then have "g_pending g = Some e" "serves (g_at g u) e" using led [OF inv] by (simp_all add: serves_def)
      moreover have "\<not> leads (g_at g t) c"
      proof
        assume "leads (g_at g t) c"
        from led [OF inv this] \<open>g_pending g = Some e\<close> \<open>serves (g_at g u) e\<close> have "serves (g_at g u) c" by simp
        from mine [OF this] False show False by simp
      qed
      ultimately show ?thesis using q by (simp add: s split: if_splits)
    qed
    show "\<exists>u. leads (g_at h u) e" if "g_pending h = Some e" for e
    proof (cases "leads p c")
      case True
      with q that show ?thesis by (auto simp: s intro!: exI [of _ t])
    next
      case False
      with q that obtain u where "leads (g_at g u) e" "\<not> leads (g_at g t) c"
        using leader [OF inv, of e] by (auto simp: s split: if_splits)
      moreover from this only have "u \<noteq> t" by (auto simp: serves_def)
      ultimately show ?thesis by (auto simp: s)
    qed
    show "serves (g_at h u) e \<Longrightarrow> serves (g_at h v) e \<Longrightarrow> u = v" for u v e
      using single [OF inv, of u e v] p(1) [of e] mine by (auto simp: s split: if_splits)
    show "serves (g_at h u) e \<or> g_at h u = Waiting e \<Longrightarrow> e < length (g_calls h)" for u e
      using bound [OF inv, of u e] p c by (auto simp: s split: if_splits)
    show "call_ok h e" if e: "e < length (g_calls h)" for e
    proof (cases "e = c")
      case True
      have at: "serves (g_at h u) c \<longleftrightarrow> u = t \<and> serves p c" for u
        using mine [of u] by (cases "u = t") (simp_all add: s(1), blast)
      have "\<not> (g_at h u = Running c \<or> g_at h u = Panicked c)" for u
      proof
        assume run: "g_at h u = Running c \<or> g_at h u = Panicked c"
        then have "serves (g_at h u) c" by auto
        with at have "u = t" by blast
        with run show False using d(3,4) by (simp add: s(1))
      qed
      with d c at show ?thesis by (simp add: call_ok_def Let_def s(4) True)
    next
      case other: False
      have "serves (g_at h u) e \<longleftrightarrow> serves (g_at g u) e"
        "g_at h u = Running e \<or> g_at h u = Panicked e \<longleftrightarrow> g_at g u = Running e \<or> g_at g u = Panicked e"
        "g_at h u = Finishing e \<or> g_at h u = Closing e \<longleftrightarrow> g_at g u = Finishing e \<or> g_at g u = Closing e" for u
      proof -
        have "\<not> serves (g_at g t) e" "\<not> serves p e" using other only [of e] p(1) [of e] by blast+
        then show "serves (g_at h u) e \<longleftrightarrow> serves (g_at g u) e"
          "g_at h u = Running e \<or> g_at h u = Panicked e \<longleftrightarrow> g_at g u = Running e \<or> g_at g u = Panicked e"
          "g_at h u = Finishing e \<or> g_at h u = Closing e \<longleftrightarrow> g_at g u = Finishing e \<or> g_at g u = Closing e"
          by (auto simp: s)
      qed
      with call [OF inv, of e] e other show ?thesis by (simp add: call_ok_def Let_def s(4))
    qed
    show "g_clean h \<Longrightarrow> ran_clean h" using b clean [OF inv] grown ran by (auto simp: s)
    show "result_ok h (g_at h u)" for u
      using result [OF inv, of u] grown r by (auto simp: result_ok_def s split: if_splits)
  qed
qed

lemma served_call:
  assumes "gate_inv g" and "serves (g_at g t) c"
  shows "\<not> sc_closed (g_calls g ! c)"
    and "sc_canceled (g_calls g ! c) \<Longrightarrow> sc_err (g_calls g ! c) \<noteq> None \<and> sc_err (g_calls g ! c) \<noteq> Some None"
    and "g_at g t = Running c \<Longrightarrow> sc_err (g_calls g ! c) = None"
    and "g_at g t \<noteq> Running c \<Longrightarrow> g_at g t \<noteq> Panicked c \<Longrightarrow> sc_err (g_calls g ! c) \<noteq> None"
proof -
  have "call_ok g c" using call [OF assms(1)] bound [OF assms(1)] assms(2) by blast
  note ok = this [unfolded call_ok_def Let_def]
  from ok assms(2) show "\<not> sc_closed (g_calls g ! c)" by blast
  from ok show "sc_canceled (g_calls g ! c) \<Longrightarrow> sc_err (g_calls g ! c) \<noteq> None \<and> sc_err (g_calls g ! c) \<noteq> Some None" by blast
  from ok show "g_at g t = Running c \<Longrightarrow> sc_err (g_calls g ! c) = None" by blast
  have "g_at g t \<noteq> Running c \<Longrightarrow> g_at g t \<noteq> Panicked c \<Longrightarrow> g_at g t = Finishing c \<or> g_at g t = Closing c"
    using assms(2) by (auto simp: serves_def leads_def)
  with ok show "g_at g t \<noteq> Running c \<Longrightarrow> g_at g t \<noteq> Panicked c \<Longrightarrow> sc_err (g_calls g ! c) \<noteq> None" by blast
qed

lemma gate_ran_inv:
  assumes "gate_inv g" and "g_at g t = Running c"
  shows "gate_inv (gate_ran t c err ctxDone g)"
  using assms(2) led [OF assms(1), of t c] served_call [OF assms(1), of t c]
  by (intro gate_leader_inv [OF assms(1), where t = t and c = c and p = "Finishing c" and q = "g_pending g" and b = "g_clean g"
        and d = "(g_calls g ! c)\<lparr>sc_err := Some err, sc_canceled := err \<noteq> None \<and> ctxDone\<rparr>"])
    (simp_all add: gate_ran_def goto_def result_ok_def)

text \<open>A panic changes nothing but the place of the leader.\<close>

lemma gate_panics_inv:
  assumes inv: "gate_inv g" and at: "g_at g t = Running c"
  shows "gate_inv (gate_panics t c g)"
proof -
  let ?h = "gate_panics t c g"
  have h: "g_pending ?h = g_pending g" "g_clean ?h = g_clean g" "g_calls ?h = g_calls g"
    by (simp_all add: gate_panics_def goto_def)
  have same: "leads (g_at ?h u) e \<longleftrightarrow> leads (g_at g u) e" "serves (g_at ?h u) e \<longleftrightarrow> serves (g_at g u) e"
    "g_at ?h u = Running e \<or> g_at ?h u = Panicked e \<longleftrightarrow> g_at g u = Running e \<or> g_at g u = Panicked e"
    "g_at ?h u = Finishing e \<or> g_at ?h u = Closing e \<longleftrightarrow> g_at g u = Finishing e \<or> g_at g u = Closing e"
    "g_at ?h u = Waiting e \<longleftrightarrow> g_at g u = Waiting e" for u e
    using at by (auto simp: gate_panics_def goto_def)
  have keep: "call_ok ?h e \<longleftrightarrow> call_ok g e" "result_ok ?h p \<longleftrightarrow> result_ok g p" "ran_clean ?h \<longleftrightarrow> ran_clean g" for e p
    by (simp_all add: call_ok_def result_ok_def ran_clean_def reported_def h same)
  show ?thesis
  proof (rule gate_invI)
    show "result_ok ?h (g_at ?h u)" for u
      using result [OF inv, of u] by (simp add: keep) (simp add: gate_panics_def goto_def result_ok_def)
  qed (use led [OF inv] leader [OF inv] single [OF inv] bound [OF inv] call [OF inv] clean [OF inv]
      in \<open>simp_all add: h same keep\<close>)
qed

lemma gate_finish_inv:
  assumes "gate_inv g" and "g_at g t = Finishing c"
  shows "gate_inv (gate_finish t c g)"
  using assms(2) served_call [OF assms(1), of t c]
  by (intro gate_leader_inv [OF assms(1), where t = t and c = c and p = "Closing c" and q = None and d = "g_calls g ! c"
        and b = "if sc_err (g_calls g ! c) = Some None then True else g_clean g"])
    (auto simp: gate_finish_def goto_def result_ok_def split: if_splits)

lemma gate_close_inv:
  assumes inv: "gate_inv g" and at: "g_at g t = Closing c"
  shows "gate_inv (gate_close t c g)"
proof -
  have c: "c < length (g_calls g)" using bound [OF inv, of t c] at by simp
  from call [OF inv c] at obtain e where e: "sc_err (g_calls g ! c) = Some e"
    by (auto simp: call_ok_def Let_def)
  have res: "result_ok (gate_close t c g) (Returned (result_of e))"
    using result_of_ok [OF c e] c e
    by (auto simp: result_ok_def gate_close_def goto_def ran_clean_def reported_def intro!: list_ex_update)
  show ?thesis
    using at e res served_call [OF inv, of t c]
    by (intro gate_leader_inv [OF inv, where t = t and c = c and p = "Returned (result_of e)" and q = "g_pending g"
          and b = "g_clean g" and d = "(g_calls g ! c)\<lparr>sc_closed := True\<rparr>"])
      (simp_all add: gate_close_def goto_def)
qed

lemma gate_step_inv: "gate_step g h \<Longrightarrow> gate_inv g \<Longrightarrow> gate_inv h"
  by (induction rule: gate_step.induct)
    (blast intro: gate_load_inv gate_lock_inv gate_ran_inv gate_panics_inv gate_finish_inv gate_close_inv gate_canceled_inv gate_wake_inv)+

lemma gate_init_inv: "gate_inv gate_init"
  by (rule gate_invI) (auto simp: gate_init_def result_ok_def)

lemma gate_reachable_inv: "gate_steps g h \<Longrightarrow> gate_inv g \<Longrightarrow> gate_inv h"
  by (induction rule: gate_steps.induct) (auto intro: gate_step_inv)

section \<open>Every caller can return\<close>

text \<open>
  As long as no run has panicked, the leader of a call brings it to its end: the check runs, the call is closed and no longer pending,
  and no other caller moves.
\<close>

definition told :: "gate \<Rightarrow> nat \<Rightarrow> bool" where
  "told g t \<longleftrightarrow> (\<exists>r. g_at g t = Returned r \<and> r \<noteq> CheckCtx)"

definition calm :: "gate \<Rightarrow> bool" where
  "calm g \<longleftrightarrow> (\<forall>u c. g_at g u \<noteq> Panicked c)"

lemma result_not_ctx: "(case e of None \<Rightarrow> CheckOk | Some e \<Rightarrow> result_of e) \<noteq> CheckCtx"
  by (simp add: result_of_def split: option.split)

lemma leader_closes:
  assumes "gate_inv g" and "serves (g_at g t) c" and "g_at g t \<noteq> Panicked c"
  shows "\<exists>h. gate_steps g h \<and> sc_closed (g_calls h ! c) \<and> (\<forall>u. u \<noteq> t \<longrightarrow> g_at h u = g_at g u) \<and> told h t \<and>
    (g_pending g = Some c \<longrightarrow> g_pending h = None)"
proof -
  let ?ends = "\<lambda>k h. gate_steps k h \<and> sc_closed (g_calls h ! c) \<and> (\<forall>u. u \<noteq> t \<longrightarrow> g_at h u = g_at g u) \<and> told h t"
  let ?others = "\<lambda>k. c < length (g_calls k) \<and> (\<forall>u. u \<noteq> t \<longrightarrow> g_at k u = g_at g u)"
  have closing: "\<exists>h. ?ends k h \<and> g_pending h = g_pending k" if "g_at k t = Closing c" "?others k" for k
    using gate_steps_one [OF close [OF that(1)]] that(2) result_not_ctx
    by (intro exI [of _ "gate_close t c k"]) (auto simp: gate_close_def goto_def told_def)
  have finishing: "\<exists>h. ?ends k h \<and> g_pending h = None" if "g_at k t = Finishing c" "?others k" for k
  proof -
    have "g_at (gate_finish t c k) t = Closing c" "?others (gate_finish t c k)" "g_pending (gate_finish t c k) = None"
      using that by (simp_all add: gate_finish_def goto_def)
    from closing [OF this(1,2)] this(3) gate_steps_trans [OF gate_steps_one [OF finish [OF that(1)]]] show ?thesis by metis
  qed
  have running: "\<exists>h. ?ends k h \<and> g_pending h = None" if "g_at k t = Running c" "?others k" for k
  proof -
    have "g_at (gate_ran t c None False k) t = Finishing c" "?others (gate_ran t c None False k)"
      using that by (simp_all add: gate_ran_def goto_def)
    from finishing [OF this] gate_steps_trans [OF gate_steps_one [OF ran [OF that(1)]]] show ?thesis by blast
  qed
  have others: "?others g" using bound [OF assms(1)] assms(2) by blast
  consider "g_at g t = Running c" | "g_at g t = Finishing c" | "g_at g t = Closing c"
    using assms(2,3) by (auto simp: serves_def leads_def)
  then show ?thesis
  proof cases
    case 1
    from running [OF this others] show ?thesis by blast
  next
    case 2
    from finishing [OF this others] show ?thesis by blast
  next
    case 3
    have "g_pending g \<noteq> Some c"
    proof
      assume "g_pending g = Some c"
      then obtain u where u: "leads (g_at g u) c" using leader [OF assms(1)] by blast
      with single [OF assms(1) assms(2), of u] have "u = t" by (simp add: serves_def)
      with u 3 show False by simp
    qed
    with closing [OF 3 others] show ?thesis by blast
  qed
qed

lemma leader_calms:
  "calm g \<Longrightarrow> (\<And>u. u \<noteq> t \<Longrightarrow> g_at h u = g_at g u) \<Longrightarrow> told h t \<Longrightarrow> calm h"
  unfolding calm_def told_def by (metis gate_pc.distinct)

lemma calm_moves: "calm g \<Longrightarrow> calm (gate_load t g)" "calm g \<Longrightarrow> calm (gate_lock t g)" "calm g \<Longrightarrow> calm (gate_wake t c g)"
  by (auto simp: calm_def gate_moves split: option.split)

lemma gate_lock_at:
  "g_at (gate_lock t g) t = (if g_clean g then Returned CheckOk
     else case g_pending g of None \<Rightarrow> Running (length (g_calls g)) | Some c \<Rightarrow> Waiting c)"
  by (simp add: gate_lock_def goto_def split: option.split)

text \<open>From the top of the loop: let the pending check end, then lead one.\<close>

lemma load_returns:
  assumes inv: "gate_inv g" and calm: "calm g" and at: "g_at g t = AtLoad"
  shows "\<exists>h. gate_steps g h \<and> told h t"
proof -
  have "\<exists>k. gate_steps g k \<and> g_pending k = None \<and> g_at k t = AtLoad \<and> calm k"
  proof (cases "g_pending g")
    case (Some c)
    then obtain u where u: "leads (g_at g u) c" using leader [OF inv] by blast
    with at have "t \<noteq> u" by auto
    moreover from u have "serves (g_at g u) c" by (simp add: serves_def)
    moreover from calm have "g_at g u \<noteq> Panicked c" by (simp add: calm_def)
    ultimately obtain k where "gate_steps g k" "\<forall>v. v \<noteq> u \<longrightarrow> g_at k v = g_at g v" "told k u" "g_pending k = None"
      using leader_closes [OF inv, of u c] Some by blast
    with leader_calms [OF calm, of u k] \<open>t \<noteq> u\<close> at show ?thesis by auto
  qed (use at calm gate_steps.refl in blast)
  then obtain k where k: "gate_steps g k" "g_pending k = None" "g_at k t = AtLoad" "calm k" by blast
  let ?l = "gate_load t k"
  have l: "gate_steps g ?l" using gate_steps.step [OF k(1) load [OF k(3)]] .
  show ?thesis
  proof (cases "g_clean k")
    case True
    with l show ?thesis by (intro exI [of _ ?l]) (simp add: gate_load_def goto_def told_def)
  next
    case False
    then have lat: "g_at ?l t = AtLock" "g_pending ?l = None" "\<not> g_clean ?l"
      using k by (simp_all add: gate_load_def goto_def)
    have m: "gate_steps g (gate_lock t ?l)" using gate_steps.step [OF l lock [OF lat(1)]] .
    have "g_at (gate_lock t ?l) t = Running (length (g_calls ?l))" by (simp add: gate_lock_at lat)
    then have "serves (g_at (gate_lock t ?l) t) (length (g_calls ?l))" "g_at (gate_lock t ?l) t \<noteq> Panicked (length (g_calls ?l))"
      by simp_all
    from leader_closes [OF gate_reachable_inv [OF m inv] this] gate_steps_trans [OF m] show ?thesis by blast
  qed
qed

lemma gate_lock_cases:
  "told (gate_lock t g) t \<or> (\<exists>c. serves (g_at (gate_lock t g) t) c) \<or> (\<exists>c. g_at (gate_lock t g) t = Waiting c)"
  unfolding told_def gate_lock_at by (cases "g_clean g"; cases "g_pending g") simp_all

lemma caller_returns:
  assumes inv: "gate_inv g" and calm: "calm g"
  shows "\<exists>h. gate_steps g h \<and> (told h t \<or> g_at g t = Returned CheckCtx)"
proof -
  have woken: "\<exists>h. gate_steps g h \<and> told h t"
    if k: "gate_steps g k" "g_at k t = Waiting c" "sc_closed (g_calls k ! c)" "calm k" for k c
  proof -
    have w: "gate_steps g (gate_wake t c k)" using gate_steps.step [OF k(1) wake [OF k(2,3)]] .
    show ?thesis
    proof (cases "sc_canceled (g_calls k ! c)")
      case True
      then have "g_at (gate_wake t c k) t = AtLoad" by (simp add: gate_wake_def goto_def)
      from load_returns [OF gate_reachable_inv [OF w inv] calm_moves(3) [OF k(4)] this] gate_steps_trans [OF w] show ?thesis by blast
    next
      case False
      with w result_not_ctx show ?thesis
        by (intro exI [of _ "gate_wake t c k"]) (simp add: gate_wake_def goto_def told_def)
    qed
  qed
  have waiting: "\<exists>h. gate_steps g h \<and> told h t" if k: "gate_steps g k" "g_at k t = Waiting c" "calm k" for k c
  proof (cases "sc_closed (g_calls k ! c)")
    case False
    have kinv: "gate_inv k" using gate_reachable_inv [OF k(1) inv] .
    from call [OF kinv] bound [OF kinv] k(2) False obtain u where u: "serves (g_at k u) c"
      unfolding call_ok_def Let_def by metis
    with k(2) have "u \<noteq> t" by auto
    have "g_at k u \<noteq> Panicked c" using k(3) by (simp add: calm_def)
    from leader_closes [OF kinv u this] obtain h where h: "gate_steps k h" "sc_closed (g_calls h ! c)"
      "\<forall>v. v \<noteq> u \<longrightarrow> g_at h v = g_at k v" "told h u" by blast
    with leader_calms [OF k(3), of u h] \<open>u \<noteq> t\<close> k(2) have "calm h" "g_at h t = Waiting c" by auto
    with h woken gate_steps_trans [OF k(1)] show ?thesis by blast
  qed (use woken k in blast)
  show ?thesis
  proof (cases "g_at g t")
    case AtLoad
    with load_returns [OF inv calm] show ?thesis by blast
  next
    case AtLock
    note l = gate_steps_one [OF lock [OF AtLock]]
    consider "told (gate_lock t g) t" | c where "serves (g_at (gate_lock t g) t) c" | c where "g_at (gate_lock t g) t = Waiting c"
      using gate_lock_cases [of t g] by blast
    then show ?thesis
    proof cases
      case (2 c)
      moreover have "g_at (gate_lock t g) t \<noteq> Panicked c" using calm_moves(2) [OF calm] by (simp add: calm_def)
      ultimately show ?thesis
        using leader_closes [OF gate_reachable_inv [OF l inv]] gate_steps_trans [OF l] by blast
    qed (use l waiting [OF l _ calm_moves(2) [OF calm]] in blast)+
  next
    case (Waiting c)
    with waiting [OF gate_steps.refl _ calm] show ?thesis by blast
  next
    case (Returned r)
    then show ?thesis using gate_steps.refl by (cases "r = CheckCtx") (auto simp: told_def)
  qed (use leader_closes [OF inv, of t] calm in \<open>auto simp: serves_def calm_def\<close>)
qed

section \<open>After a panic\<close>

text \<open>A pending call means that the gate is not clean.\<close>

definition pending_unclean :: "gate \<Rightarrow> bool" where
  "pending_unclean g \<longleftrightarrow> (g_pending g \<noteq> None \<longrightarrow> \<not> g_clean g)"

lemma pending_unclean_reachable: "gate_steps g h \<Longrightarrow> pending_unclean g \<Longrightarrow> pending_unclean h"
proof (induction rule: gate_steps.induct)
  case (step g h k)
  then have "pending_unclean h" by simp
  with step.hyps(2) show ?case
    by (elim gate_stepE) (auto simp: pending_unclean_def gate_moves split: if_splits option.splits)
qed

text \<open>
  The call of a run that panicked stays pending for ever. A caller at the top of the loop, before the
  lock or waiting for that call goes round these places, or gives up with its own context.
\<close>

definition stranded :: "nat \<Rightarrow> gate_pc \<Rightarrow> bool" where
  "stranded c p \<longleftrightarrow> p = AtLoad \<or> p = AtLock \<or> p = Waiting c \<or> p = Returned CheckCtx"

definition abandoned :: "gate \<Rightarrow> nat \<Rightarrow> bool" where
  "abandoned g c \<longleftrightarrow> (\<exists>u. g_at g u = Panicked c)"

lemma abandoned_call:
  assumes inv: "gate_inv g" and "abandoned g c"
  shows "g_pending g = Some c" "\<not> sc_closed (g_calls g ! c)" "g_at g t \<noteq> Running d" "g_at g t \<noteq> Finishing d"
proof -
  obtain u where u: "g_at g u = Panicked c" using assms(2) by (auto simp: abandoned_def)
  then show pending: "g_pending g = Some c" using led [OF inv, of u c] by simp
  show "\<not> sc_closed (g_calls g ! c)" using served_call(1) [OF inv, of u c] u by simp
  have "\<not> (g_at g t = Running d \<or> g_at g t = Finishing d)"
  proof
    assume at: "g_at g t = Running d \<or> g_at g t = Finishing d"
    then have "d = c" using led [OF inv, of t d] pending by auto
    with at u single [OF inv, of t c u] show False by auto
  qed
  then show "g_at g t \<noteq> Running d" "g_at g t \<noteq> Finishing d" by simp_all
qed

lemma abandoned_move:
  assumes "abandoned g c" "\<not> g_clean g" "stranded c (g_at g t)"
    and "g_at h = (g_at g)(v := p)" "g_clean h = g_clean g"
    and "g_at g v \<noteq> Panicked c" "stranded c (g_at g v) \<Longrightarrow> stranded c p"
  shows "abandoned h c \<and> \<not> g_clean h \<and> stranded c (g_at h t)"
proof -
  obtain u where "g_at g u = Panicked c" using assms(1) by (auto simp: abandoned_def)
  with assms(4,6) have "g_at h u = Panicked c" by auto
  moreover have "stranded c (g_at h t)" using assms(3,4,7) by (cases "t = v") auto
  ultimately show ?thesis using assms(2,5) by (auto simp: abandoned_def)
qed

lemma abandoned_step:
  assumes "gate_step g h" "gate_inv g" "abandoned g c" "\<not> g_clean g" "stranded c (g_at g t)"
  shows "abandoned h c \<and> \<not> g_clean h \<and> stranded c (g_at h t)"
proof -
  note lost = abandoned_call [OF assms(2,3)] and move = abandoned_move [OF assms(3-5)]
  from assms(1) show ?thesis
  proof cases
    case (load u)
    with assms(4) show ?thesis by (intro move [of h u AtLock]) (simp_all add: gate_load_def goto_def stranded_def)
  next
    case (lock u)
    with assms(4) lost(1) show ?thesis
      by (intro move [of h u "Waiting c"]) (simp_all add: gate_lock_def goto_def stranded_def)
  next
    case (close u d)
    then show ?thesis
      by (intro move [of h u "g_at h u"]) (simp_all add: gate_close_def goto_def stranded_def)
  next
    case (canceled u d)
    then show ?thesis by (intro move [of h u "Returned CheckCtx"]) (simp_all add: goto_def stranded_def)
  next
    case (wake u d)
    with lost(2) have "d \<noteq> c" by auto
    with wake show ?thesis
      by (intro move [of h u "g_at h u"]) (simp_all add: gate_wake_def goto_def stranded_def)
  qed (use lost(3,4) in blast)+
qed

lemma abandoned_for_ever:
  "gate_steps g h \<Longrightarrow> gate_inv g \<Longrightarrow> abandoned g c \<Longrightarrow> \<not> g_clean g \<Longrightarrow> stranded c (g_at g t) \<Longrightarrow>
     abandoned h c \<and> \<not> g_clean h \<and> stranded c (g_at h t)"
proof (induction rule: gate_steps.induct)
  case (step g h k)
  then show ?case using abandoned_step [of h k c t] gate_reachable_inv [of g h] by blast
qed simp

section \<open>Properties\<close>

text \<open>
  C17. However the callers of the schema gate interleave: at most one of them runs the check at a time;
  the gate is marked clean, and a caller is told the schema is fine, only after a run that found it fine;
  and an error a caller is told is the error of a run.
\<close>

theorem schema_gate_sound:
  assumes "gate_steps gate_init g"
  shows "(leads (g_at g t) c \<and> leads (g_at g u) d \<longrightarrow> t = u) \<and>
    (g_clean g \<or> g_at g t = Returned CheckOk \<longrightarrow> ran_clean g) \<and>
    (g_at g t = Returned (CheckErr e) \<longrightarrow> reported g e)"
proof (intro conjI impI; (elim conjE)?)
  note inv = gate_reachable_inv [OF assms gate_init_inv]
  show "t = u" if "leads (g_at g t) c" "leads (g_at g u) d"
    using that led [OF inv, of t c] led [OF inv, of u d] single [OF inv, of t c u] by (simp add: serves_def)
  show "ran_clean g" if "g_clean g \<or> g_at g t = Returned CheckOk"
    using that clean [OF inv] result [OF inv, of t] by (auto simp: result_ok_def)
  show "reported g e" if "g_at g t = Returned (CheckErr e)"
    using that clean [OF inv] result [OF inv, of t] by (auto simp: result_ok_def)
qed

text \<open>A leader and a waiter, after the leader has found the schema fine.\<close>

lemma ex_gate:
  "\<exists>g. gate_steps gate_init g \<and> g_at g 0 = Returned CheckOk \<and> g_at g 1 = Waiting 0"
proof -
  let ?a = "gate_load 1 (gate_load 0 gate_init)"
  let ?b = "gate_lock 1 (gate_lock 0 ?a)"
  let ?c = "gate_finish 0 0 (gate_ran 0 0 None False ?b)"
  have "gate_steps gate_init ?a"
    by (intro gate_steps.step [OF gate_steps.step [OF gate_steps.refl load] load])
      (simp_all add: gate_init_def gate_load_def goto_def)
  then have "gate_steps gate_init ?b"
    by (intro gate_steps.step [OF gate_steps.step [OF _ lock] lock])
      (simp_all add: gate_init_def gate_load_def gate_lock_def goto_def)
  then have "gate_steps gate_init ?c"
    by (intro gate_steps.step [OF gate_steps.step [OF _ ran] finish])
      (simp_all add: gate_init_def gate_moves)
  then have "gate_steps gate_init (gate_close 0 0 ?c)"
    by (intro gate_steps.step [OF _ close]) (simp_all add: gate_init_def gate_moves)
  then show ?thesis
    by (intro exI [of _ "gate_close 0 0 ?c"]) (simp add: gate_init_def gate_moves result_of_def)
qed

theorem schema_gate_sound_witness:
  "\<exists>g. gate_steps gate_init g \<and> g_at g 1 = Waiting 0 \<and> ran_clean g"
proof -
  obtain g where "gate_steps gate_init g" "g_at g 0 = Returned CheckOk" "g_at g 1 = Waiting 0" using ex_gate by blast
  with schema_gate_sound [of g 0] show ?thesis by blast
qed

text \<open>
  C18. As long as no run of the check has panicked, no caller of the schema gate is stuck: there is a
  continuation in which it is told the result of a check (unless its own request was cancelled); a waiter
  whose leader was cancelled checks again. After a panic of a run the callers that come to the gate, and
  those that wait for that run, are never told a result, whatever happens next.
\<close>

theorem schema_gate_progress:
  assumes "gate_steps gate_init g"
  shows "(calm g \<and> g_at g t \<noteq> Returned CheckCtx \<longrightarrow> (\<exists>h r. gate_steps g h \<and> g_at h t = Returned r \<and> r \<noteq> CheckCtx)) \<and>
    (g_at g u = Panicked c \<and> g_at g t \<in> {AtLoad, AtLock, Waiting c} \<longrightarrow>
       (\<forall>h r. gate_steps g h \<and> g_at h t = Returned r \<longrightarrow> r = CheckCtx))"
proof (intro conjI impI allI; (elim conjE)?)
  note inv = gate_reachable_inv [OF assms gate_init_inv]
  show "\<exists>h r. gate_steps g h \<and> g_at h t = Returned r \<and> r \<noteq> CheckCtx" if "calm g" "g_at g t \<noteq> Returned CheckCtx"
    using caller_returns [OF inv that(1), of t] that(2) by (auto simp: told_def)
  fix h r
  assume at: "g_at g u = Panicked c" "g_at g t \<in> {AtLoad, AtLock, Waiting c}"
    and h: "gate_steps g h" "g_at h t = Returned r"
  have lost: "abandoned g c" "stranded c (g_at g t)" using at by (auto simp: abandoned_def stranded_def)
  have "\<not> g_clean g"
    using pending_unclean_reachable [OF assms] abandoned_call(1) [OF inv lost(1)]
    by (simp add: pending_unclean_def gate_init_def)
  from abandoned_for_ever [OF h(1) inv lost(1) this lost(2)] h(2) show "r = CheckCtx" by (simp add: stranded_def)
qed

text \<open>A leader whose run panicked, and a waiter.\<close>

lemma ex_panic: "\<exists>g. gate_steps gate_init g \<and> g_at g 0 = Panicked 0 \<and> g_at g 1 = Waiting 0"
proof -
  let ?a = "gate_load 1 (gate_load 0 gate_init)"
  let ?b = "gate_lock 1 (gate_lock 0 ?a)"
  have "gate_steps gate_init ?a"
    by (intro gate_steps.step [OF gate_steps.step [OF gate_steps.refl load] load])
      (simp_all add: gate_init_def gate_load_def goto_def)
  then have "gate_steps gate_init (gate_panics 0 0 ?b)"
    by (intro gate_steps.step [OF gate_steps.step [OF gate_steps.step [OF _ lock] lock] panics])
      (simp_all add: gate_init_def gate_moves)
  then show ?thesis
    by (intro exI [of _ "gate_panics 0 0 ?b"]) (simp add: gate_init_def gate_moves)
qed

theorem schema_gate_progress_witness:
  "(\<exists>h r. gate_steps gate_init h \<and> g_at h 1 = Returned r \<and> r \<noteq> CheckCtx) \<and>
   (\<exists>g. gate_steps gate_init g \<and> g_at g 1 = Waiting 0 \<and>
      (\<forall>h r. gate_steps g h \<and> g_at h 1 = Returned r \<longrightarrow> r = CheckCtx))"
proof
  have "calm gate_init \<and> g_at gate_init 1 \<noteq> Returned CheckCtx" by (simp add: calm_def gate_init_def)
  with schema_gate_progress [OF gate_steps.refl, of 1] show "\<exists>h r. gate_steps gate_init h \<and> g_at h 1 = Returned r \<and> r \<noteq> CheckCtx"
    by blast
  obtain g where g: "gate_steps gate_init g" "g_at g 0 = Panicked 0" "g_at g 1 = Waiting 0" using ex_panic by blast
  with schema_gate_progress [OF g(1), of 1 0 0]
  show "\<exists>g. gate_steps gate_init g \<and> g_at g 1 = Waiting 0 \<and> (\<forall>h r. gate_steps g h \<and> g_at h 1 = Returned r \<longrightarrow> r = CheckCtx)"
    by (intro exI [of _ g]) auto
qed

end
