(* ===== verification/Outbox.thy ===== *)
theory Outbox
  imports Examples
begin

text \<open>
  The outbox dispatcher of \<open>outbox.go\<close>: \<open>RunOnce\<close> reads one batch of unpublished
  events, hands each to the application's handler and marks it published. The state is a pair: the
  database, and whatever the handler and the clock of the application keep.
\<close>

section \<open>Reading events\<close>

definition recordInt :: "val \<Rightarrow> go_error + int" where
  "recordInt v =
     (case v of VInt n \<Rightarrow> Inr n | VFloat n \<Rightarrow> Inr n
      | _ \<Rightarrow> Inl (ErrText ''betterauth: adapter returned invalid integer''))"

definition domainEventFromRecord :: "Record \<Rightarrow> go_error + DomainEvent" where
  "domainEventFromRecord row =
     bindE (recordString row ''id'') (\<lambda>eid.
     bindE (recordString row ''name'') (\<lambda>name.
     bindE (recordString row ''aggregateId'') (\<lambda>aggregateID.
     bindE (recordTime row ''occurredAt'') (\<lambda>occurred.
     bindE (recordInt (fld row ''schemaVersion'')) (\<lambda>version.
       Inr \<lparr>de_ID = eid, de_SchemaVersion = version, de_Name = name, de_AggregateID = aggregateID,
            de_OccurredAt = occurred, de_Payload = recordStringMap (fld row ''payload'')\<rparr>)))))"

section \<open>The dispatcher\<close>

record ('s, 'h) OutboxDispatcher =
  od_Database :: "'s database_adapter option"
  od_Handler :: "(DomainEvent \<Rightarrow> ('h, unit) prog) option"
  od_Clock :: "('h \<Rightarrow> gtime \<times> 'h) option"
  od_BatchSize :: int

definition on_db :: "('s, 'a) prog \<Rightarrow> ('s \<times> 'h, 'a) prog" where
  "on_db m = (\<lambda>(s, h). case m s of (r, s') \<Rightarrow> (r, (s', h)))"

definition on_app :: "('h, 'a) prog \<Rightarrow> ('s \<times> 'h, 'a) prog" where
  "on_app m = (\<lambda>(s, h). case m h of (r, h') \<Rightarrow> (r, (s, h')))"

definition read_clock :: "('h \<Rightarrow> gtime \<times> 'h) \<Rightarrow> ('h, gtime) prog" where
  "read_clock clock = (\<lambda>h. case clock h of (t, h') \<Rightarrow> (Inr t, h'))"

definition outboxQuery :: "int \<Rightarrow> FindManyQuery" where
  "outboxQuery limit = findManyQ ModelOutboxEvent [Eq ''publishedAt'' VNil] limit
     (Some \<lparr>s_Field = ''occurredAt'', s_Direction = ''asc''\<rparr>)"

definition publishQuery :: "string \<Rightarrow> gtime \<Rightarrow> UpdateQuery" where
  "publishQuery eventID now = updateQ ModelOutboxEvent [Eq ''id'' (VStr eventID), Eq ''publishedAt'' VNil]
     [''publishedAt'' \<mapsto> VTime now]"

text \<open>The body of the loop: whether this dispatcher won the publish marker.\<close>

definition deliver_row ::
  "'s database_adapter \<Rightarrow> (DomainEvent \<Rightarrow> ('h, unit) prog) \<Rightarrow> ('h \<Rightarrow> gtime \<times> 'h) \<Rightarrow> Record \<Rightarrow> ('s \<times> 'h, bool) prog" where
  "deliver_row db handler clock row =
     bindM (lift (domainEventFromRecord row)) (\<lambda>event.
     bindM (mapErr (ErrWrap (''betterauth: deliver outbox event '' @ de_ID event))
       (on_app (handler event))) (\<lambda>_.
     bindM (on_app (read_clock clock)) (\<lambda>now.
     bindM (mapErr (ErrWrap (''betterauth: mark outbox event '' @ de_ID event))
       (on_db (db_update db (publishQuery (de_ID event) now)))) (\<lambda>updated.
       ret (updated \<noteq> None)))))"

text \<open>The loop returns its count with the error that stopped it.\<close>

fun deliver ::
  "'s database_adapter \<Rightarrow> (DomainEvent \<Rightarrow> ('h, unit) prog) \<Rightarrow> ('h \<Rightarrow> gtime \<times> 'h) \<Rightarrow> Record list \<Rightarrow> int \<Rightarrow>
   's \<times> 'h \<Rightarrow> (int \<times> go_error option) \<times> 's \<times> 'h" where
  "deliver db handler clock [] delivered w = ((delivered, None), w)"
| "deliver db handler clock (row # rows) delivered w =
     (case deliver_row db handler clock row w of
        (Inl e, w') \<Rightarrow> ((delivered, Some e), w')
      | (Inr won, w') \<Rightarrow>
          deliver db handler clock rows (if won then delivered + 1 else delivered) w')"

definition RunOnce ::
  "('h \<Rightarrow> gtime \<times> 'h) \<Rightarrow> ('s, 'h) OutboxDispatcher \<Rightarrow> 's \<times> 'h \<Rightarrow> (int \<times> go_error option) \<times> 's \<times> 'h" where
  "RunOnce systemClock d w =
     (case (od_Database d, od_Handler d) of
        (Some db, Some handler) \<Rightarrow>
          (let clock = (case od_Clock d of None \<Rightarrow> systemClock | Some c \<Rightarrow> c);
               batch = (if od_BatchSize d = 0 then 100 else od_BatchSize d) in
           if batch < 1 \<or> batch > 1000
           then ((0, Some (ErrText ''betterauth: outbox batch size is out of bounds'')), w)
           else case on_db (db_findMany db (outboxQuery batch)) w of
             (Inl e, w') \<Rightarrow> ((0, Some (ErrWrap ''betterauth: read outbox'' e)), w')
           | (Inr rows, w') \<Rightarrow> deliver db handler clock rows 0 w')
      | _ \<Rightarrow> ((0, Some (ErrText ''betterauth: outbox database and handler are required'')), w))"

section \<open>One row\<close>

definition event_wf :: "DomainEvent \<Rightarrow> bool" where
  "event_wf e \<longleftrightarrow> de_ID e \<noteq> '''' \<and> de_Name e \<noteq> '''' \<and> de_AggregateID e \<noteq> '''' \<and> de_OccurredAt e \<noteq> 0"

definition publish :: "gtime \<Rightarrow> Record \<Rightarrow> Record" where
  "publish now r = set_fields ''id'' [''publishedAt'' \<mapsto> VTime now] r"

lemma fld_publish [simp]:
  "fld (publish now r) f = (if f = ''publishedAt'' then VTime now else fld r f)"
  by (simp add: publish_def fld_set_fields)

lemma event_publish [simp]: "domainEventFromRecord (publish now r) = domainEventFromRecord r"
  by (simp add: domainEventFromRecord_def recordString_def recordTime_def)

lemma domainEventFromRecord_Inr:
  "domainEventFromRecord r = Inr e \<Longrightarrow> fld r ''id'' = VStr (de_ID e) \<and> de_ID e \<noteq> ''''"
  by (auto simp: domainEventFromRecord_def bindE_Inr recordString_Inr)

text \<open>Events waiting, and the invariant that a published event has been handled.\<close>

definition unpublished :: "table_map \<Rightarrow> string set" where
  "unpublished t = {i. \<exists>r. t i = Some r \<and> fld r ''publishedAt'' = VNil}"

definition published_handled :: "(DomainEvent \<Rightarrow> 'h \<Rightarrow> bool) \<Rightarrow> 'h \<Rightarrow> table_map \<Rightarrow> bool" where
  "published_handled Done h t \<longleftrightarrow>
     (\<forall>i r. t i = Some r \<longrightarrow> fld r ''publishedAt'' \<noteq> VNil \<longrightarrow>
        (\<exists>e. domainEventFromRecord r = Inr e \<and> Done e h))"

definition readable :: "table_map \<Rightarrow> bool" where
  "readable t \<longleftrightarrow> (\<forall>i r. t i = Some r \<longrightarrow> (\<exists>e. domainEventFromRecord r = Inr e))"

section \<open>The loop\<close>

text \<open>
  The database side: rows with these ids are published, at some time, and nothing else of the state
  changes.
\<close>

definition published :: "string list \<Rightarrow> (string \<Rightarrow> table_map) \<Rightarrow> (string \<Rightarrow> table_map) \<Rightarrow> bool" where
  "published ids T T' \<longleftrightarrow>
     (\<forall>m i. if m = ModelOutboxEvent \<and> i \<in> set ids
        then \<exists>now r. T m i = Some r \<and> T' m i = Some (publish now r)
        else T' m i = T m i)"

lemma published_Nil [simp]: "published [] T T' \<longleftrightarrow> T' = T"
  by (auto simp: published_def fun_eq_iff)

lemma published_Cons:
  assumes "T ModelOutboxEvent i = Some r" and "i \<notin> set ids"
    and "published ids (T(ModelOutboxEvent := (T ModelOutboxEvent)(i \<mapsto> publish now r))) T'"
  shows "published (i # ids) T T'"
  unfolding published_def
proof (intro allI)
  fix m j
  have step: "if m = ModelOutboxEvent \<and> j \<in> set ids
      then \<exists>now' r'. (T(ModelOutboxEvent := (T ModelOutboxEvent)(i \<mapsto> publish now r))) m j = Some r' \<and>
        T' m j = Some (publish now' r')
      else T' m j = (T(ModelOutboxEvent := (T ModelOutboxEvent)(i \<mapsto> publish now r))) m j"
    using assms(3) unfolding published_def by blast
  show "if m = ModelOutboxEvent \<and> j \<in> set (i # ids)
      then \<exists>now r. T m j = Some r \<and> T' m j = Some (publish now r) else T' m j = T m j"
    using step assms(1,2) by (cases "m = ModelOutboxEvent"; cases "j = i") (auto split: if_splits)
qed

lemma published_unpublished:
  assumes "published ids T T'"
  shows "unpublished (T' ModelOutboxEvent) = unpublished (T ModelOutboxEvent) - set ids"
proof (rule set_eqI)
  fix i
  have "if i \<in> set ids then \<exists>now r. T ModelOutboxEvent i = Some r \<and> T' ModelOutboxEvent i = Some (publish now r)
        else T' ModelOutboxEvent i = T ModelOutboxEvent i"
    using assms unfolding published_def by (metis (full_types))
  then show "i \<in> unpublished (T' ModelOutboxEvent) \<longleftrightarrow> i \<in> unpublished (T ModelOutboxEvent) - set ids"
    by (auto simp: unpublished_def split: if_splits)
qed

lemma published_readable: "published ids T T' \<Longrightarrow> readable (T ModelOutboxEvent) \<Longrightarrow> readable (T' ModelOutboxEvent)"
  unfolding published_def readable_def by (metis event_publish option.inject)

context core_store
begin

text \<open>Marking a waiting row: the row with the event's id, if it is still unpublished.\<close>

lemma mark_step:
  assumes "inv s" and "T s ModelOutboxEvent i = Some r" and "fld r ''publishedAt'' = VNil"
  obtains s' where "db_update db (publishQuery i now) s = (Inr (Some (publish now r)), s')" and "inv s'"
    and "in_tx s' = in_tx s"
    and "T s' = (T s)(ModelOutboxEvent := (T s ModelOutboxEvent)(i \<mapsto> publish now r))"
proof -
  have m: "ModelOutboxEvent \<in> set core_models" by (simp add: core_models_def)
  note rid = row_has_id [OF assms(1) m]
  let ?ws = "[Eq ''id'' (VStr i), Eq ''publishedAt'' VNil]" and ?u = "[''publishedAt'' \<mapsto> VTime now]"
  have "ValidateWhere ?ws False = Inr ?ws" "key_free (uniq ModelOutboxEvent) ?u" by (simp_all add: where_simps)
  with assms(1) m show thesis
  proof (cases rule: update_free_step)
    case none
    have "i \<in> hits (T s ModelOutboxEvent) [Eq ''id'' (VStr i), Eq ''publishedAt'' VNil]"
      using rid [OF assms(2)] assms(2,3) by (simp add: hits_iff where_simps)
    with none(1) show thesis by simp
  next
    case (ok j q s')
    with rid [OF ok(1)] have "j = i" by (simp add: where_simps)
    with ok assms(2) that show thesis by (simp add: publishQuery_def publish_def)
  qed
qed

lemma deliver_row_step:
  assumes "inv s" and "T s ModelOutboxEvent i = Some r" and "fld r ''publishedAt'' = VNil"
  obtains (failed) e h' where "deliver_row db handler clock r (s, h) = (Inl e, (s, h'))"
      and "(\<exists>ev. domainEventFromRecord r = Inr ev \<and> (\<exists>err. handler ev h = (Inl err, h'))) \<or>
           (h' = h \<and> (\<exists>err. domainEventFromRecord r = Inl err))"
  | (won) ev h1 now s' h' where "deliver_row db handler clock r (s, h) = (Inr True, (s', h'))"
      and "domainEventFromRecord r = Inr ev" and "handler ev h = (Inr (), h1)" and "clock h1 = (now, h')"
      and "inv s'" and "in_tx s' = in_tx s"
      and "T s' = (T s)(ModelOutboxEvent := (T s ModelOutboxEvent)(i \<mapsto> publish now r))"
proof (cases "domainEventFromRecord r")
  case (Inl e)
  then have "deliver_row db handler clock r (s, h) = (Inl e, (s, h))"
    by (simp add: deliver_row_def fail_def)
  with Inl failed show thesis by blast
next
  case (Inr ev)
  have i: "de_ID ev = i"
    using domainEventFromRecord_Inr [OF Inr] row_has_id(1) [OF assms(1) _ assms(2)] by (simp add: core_models_def)
  obtain r1 h1 where h1: "handler ev h = (r1, h1)" by fastforce
  show thesis
  proof (cases r1)
    case (Inl e)
    have "deliver_row db handler clock r (s, h) = (Inl (ErrWrap (''betterauth: deliver outbox event '' @ i) e), (s, h1))"
      by (simp add: deliver_row_def Inr bindM_def mapErr_def on_app_def lift_def h1 Inl i)
    with Inr Inl h1 failed show thesis by blast
  next
    case (Inr u)
    obtain now h2 where h2: "clock h1 = (now, h2)" by fastforce
    obtain s' where s': "db_update db (publishQuery i now) s = (Inr (Some (publish now r)), s')" "inv s'"
      "in_tx s' = in_tx s" "T s' = (T s)(ModelOutboxEvent := (T s ModelOutboxEvent)(i \<mapsto> publish now r))"
      using mark_step [OF assms] by metis
    have "deliver_row db handler clock r (s, h) = (Inr True, (s', h2))"
      by (simp add: deliver_row_def \<open>domainEventFromRecord r = Inr ev\<close> bindM_def mapErr_def on_app_def on_db_def
          read_clock_def lift_def h1 Inr h2 i s'(1) ret_def)
    with \<open>domainEventFromRecord r = Inr ev\<close> h1 Inr h2 s' won show thesis by (metis (full_types) old.unit.exhaust)
  qed
qed

end

text \<open>The handler's side: the events are handled in order, with a reading of the clock after each.\<close>

fun handled ::
  "(DomainEvent \<Rightarrow> ('h, unit) prog) \<Rightarrow> ('h \<Rightarrow> gtime \<times> 'h) \<Rightarrow> DomainEvent list \<Rightarrow> 'h \<Rightarrow> 'h \<Rightarrow> bool" where
  "handled handler clock [] h h' \<longleftrightarrow> h' = h"
| "handled handler clock (e # es) h h' \<longleftrightarrow>
     (case handler e h of (r, h1) \<Rightarrow> r = Inr () \<and> handled handler clock es (snd (clock h1)) h')"

text \<open>Why a batch stops: a row that is no event, or an event the handler refuses.\<close>

definition stops_at :: "(DomainEvent \<Rightarrow> ('h, unit) prog) \<Rightarrow> Record \<Rightarrow> 'h \<Rightarrow> 'h \<Rightarrow> bool" where
  "stops_at handler r h h' \<longleftrightarrow>
     (\<exists>e err. domainEventFromRecord r = Inr e \<and> handler e h = (Inl err, h')) \<or>
     (h' = h \<and> (\<exists>err. domainEventFromRecord r = Inl err))"

text \<open>
  The outcome of a batch: \<open>k\<close> rows are handled and published, and either the batch is done or the
  next row stopped it.
\<close>

definition delivered_batch ::
  "(DomainEvent \<Rightarrow> ('h, unit) prog) \<Rightarrow> ('h \<Rightarrow> gtime \<times> 'h) \<Rightarrow> Record list \<Rightarrow> nat \<Rightarrow> go_error option \<Rightarrow> 'h \<Rightarrow> 'h \<Rightarrow> bool" where
  "delivered_batch handler clock rows k err h h' \<longleftrightarrow>
     k \<le> length rows \<and>
     (\<exists>evs h1. map domainEventFromRecord (take k rows) = map Inr evs \<and> handled handler clock evs h h1 \<and>
        (if err = None then k = length rows \<and> h' = h1
         else k < length rows \<and> stops_at handler (rows ! k) h1 h'))"

lemma delivered_batch_stop:
  "stops_at handler r h h' \<Longrightarrow> delivered_batch handler clock (r # rows) 0 (Some e) h h'"
  by (simp add: delivered_batch_def)

lemma delivered_batch_Cons:
  assumes "domainEventFromRecord r = Inr ev" and "handler ev h = (Inr (), h1)"
    and "delivered_batch handler clock rows k err (snd (clock h1)) h'"
  shows "delivered_batch handler clock (r # rows) (Suc k) err h h'"
proof -
  from assms(3) obtain evs h2 where "map domainEventFromRecord (take k rows) = map Inr evs"
    "handled handler clock evs (snd (clock h1)) h2"
    "if err = None then k = length rows \<and> h' = h2 else k < length rows \<and> stops_at handler (rows ! k) h2 h'" "k \<le> length rows"
    by (auto simp: delivered_batch_def)
  with assms(1,2) show ?thesis
    unfolding delivered_batch_def by (intro conjI exI [of _ "ev # evs"] exI [of _ h2]) (auto split: if_splits)
qed

context core_store
begin

lemma deliver_spec:
  assumes "inv s" and "distinct ids" and "map Some rows = map (T s ModelOutboxEvent) ids"
    and "\<And>r. r \<in> set rows \<Longrightarrow> fld r ''publishedAt'' = VNil"
  shows "\<exists>k err s' h'. deliver db handler clock rows n (s, h) = ((n + int k, err), (s', h')) \<and>
    delivered_batch handler clock rows k err h h' \<and> inv s' \<and> in_tx s' = in_tx s \<and>
    published (take k ids) (T s) (T s')"
  using assms
proof (induction rows arbitrary: ids s h n)
  case Nil
  then show ?case
    by (intro exI [of _ 0] exI [of _ None] exI [of _ s] exI [of _ h]) (simp add: delivered_batch_def)
next
  case (Cons r rows)
  then obtain i ids1 where ids: "ids = i # ids1" "T s ModelOutboxEvent i = Some r" "map Some rows = map (T s ModelOutboxEvent) ids1"
    by (cases ids) auto
  from Cons.prems(1) ids(2) Cons.prems(4) [of r, simplified] show ?case
  proof (cases rule: deliver_row_step [where handler = handler and clock = clock and h = h])
    case (failed e h')
    then have "delivered_batch handler clock (r # rows) 0 (Some e) h h'"
      by (intro delivered_batch_stop) (auto simp: stops_at_def)
    with failed Cons.prems(1) show ?thesis
      by (intro exI [of _ 0] exI [of _ "Some e"] exI [of _ s] exI [of _ h']) simp
  next
    case (won ev h1 now s1 h2)
    have "map Some rows = map (T s1 ModelOutboxEvent) ids1"
      using ids Cons.prems(2) won(7) by auto
    with Cons.IH [of s1 ids1 "n + 1" h2] Cons.prems(2,4) ids(1) won(5)
    obtain k err s' h' where step: "deliver db handler clock rows (n + 1) (s1, h2) = ((n + 1 + int k, err), (s', h'))"
      "delivered_batch handler clock rows k err h2 h'" "inv s'" "in_tx s' = in_tx s1" "published (take k ids1) (T s1) (T s')"
      by auto
    have "published (take (Suc k) ids) (T s) (T s')"
      using published_Cons [of "T s" i r "take k ids1" now "T s'"] ids Cons.prems(2) step(5) won(7)
      by (auto dest: in_set_takeD)
    moreover have "delivered_batch handler clock (r # rows) (Suc k) err h h'"
      using delivered_batch_Cons [where handler = handler, OF won(2,3)] step(2) won(4) by simp
    ultimately show ?thesis
      using step won(1,6)
      by (intro exI [of _ "Suc k"] exI [of _ err] exI [of _ s'] exI [of _ h']) (simp add: algebra_simps)
  qed
qed

text \<open>One run, from a state of the store.\<close>

lemma RunOnce_spec:
  assumes "inv s" and "od_Database d = Some db" and "od_Handler d = Some handler"
    and "batch = (if od_BatchSize d = 0 then 100 else od_BatchSize d)" and "1 \<le> batch" and "batch \<le> 1000"
    and "clock = (case od_Clock d of None \<Rightarrow> systemClock | Some c \<Rightarrow> c)"
  shows "\<exists>rows ids k err s' h'. RunOnce systemClock d (s, h) = ((int k, err), (s', h')) \<and>
    distinct ids \<and> map Some rows = map (T s ModelOutboxEvent) ids \<and> set ids \<subseteq> unpublished (T s ModelOutboxEvent) \<and>
    int (length ids) \<le> batch \<and> (int (length ids) < batch \<longrightarrow> set ids = unpublished (T s ModelOutboxEvent)) \<and>
    delivered_batch handler clock rows k err h h' \<and> inv s' \<and> in_tx s' = in_tx s \<and>
    published (take k ids) (T s) (T s')"
proof -
  have hits: "hits (T s ModelOutboxEvent) [Eq ''publishedAt'' VNil] = unpublished (T s ModelOutboxEvent)"
    by (simp add: hits_def unpublished_def where_simps)
  obtain ids rows where rows: "db_findMany db (outboxQuery batch) s = (Inr rows, s)" "distinct ids"
    "set ids \<subseteq> unpublished (T s ModelOutboxEvent)" "map Some rows = map (T s ModelOutboxEvent) ids"
    "int (length ids) \<le> batch" "int (length ids) < batch \<longrightarrow> set ids = unpublished (T s ModelOutboxEvent)"
    using findMany_law [of s "outboxQuery batch" "[Eq ''publishedAt'' VNil]"] assms(1,5,6)
    by (auto simp: outboxQuery_def findManyQ_def where_simps hits Let_def)
  have unp: "fld r ''publishedAt'' = VNil" if "r \<in> set rows" for r
  proof -
    from that rows(4) have "Some r \<in> T s ModelOutboxEvent ` set ids" by (metis image_set imageI)
    then obtain i where "i \<in> set ids" "T s ModelOutboxEvent i = Some r" by force
    with rows(3) show ?thesis by (auto simp: unpublished_def)
  qed
  obtain k err s' h' where run: "deliver db handler clock rows 0 (s, h) = ((int k, err), (s', h'))"
    "delivered_batch handler clock rows k err h h'" "inv s'" "in_tx s' = in_tx s" "published (take k ids) (T s) (T s')"
    using deliver_spec [OF assms(1) rows(2,4) unp, of handler clock 0 h] by auto
  have "RunOnce systemClock d (s, h) = ((int k, err), (s', h'))"
    using assms run(1) rows(1) by (simp add: RunOnce_def on_db_def Let_def)
  with rows run show ?thesis by blast
qed

end

section \<open>Properties\<close>

text \<open>A dispatcher on the in-memory database, and the batch it works with.\<close>

definition dispatcher ::
  "(DomainEvent \<Rightarrow> ('h, unit) prog) \<Rightarrow> ('h \<Rightarrow> gtime \<times> 'h) \<Rightarrow> int \<Rightarrow> (mem, 'h) OutboxDispatcher" where
  "dispatcher handler clock n =
     \<lparr>od_Database = Some core_db, od_Handler = Some handler, od_Clock = Some clock, od_BatchSize = n\<rparr>"

lemma dispatcher_sel:
  "od_Database (dispatcher handler clock n) = Some core_db" "od_Handler (dispatcher handler clock n) = Some handler"
  "od_Clock (dispatcher handler clock n) = Some clock" "od_BatchSize (dispatcher handler clock n) = n"
  by (simp_all add: dispatcher_def)

definition outbox :: "mem \<Rightarrow> table_map" where
  "outbox s = mem_table s ModelOutboxEvent"

lemma dispatcher_spec:
  assumes "core_inv s" and "0 \<le> n" and "n \<le> 1000"
  shows "\<exists>rows ids k err s' h'. RunOnce clk (dispatcher handler clock n) (s, h) = ((int k, err), (s', h')) \<and>
    distinct ids \<and> map Some rows = map (outbox s) ids \<and> set ids \<subseteq> unpublished (outbox s) \<and>
    int (length ids) \<le> (if n = 0 then 100 else n) \<and>
    (int (length ids) < (if n = 0 then 100 else n) \<longrightarrow> set ids = unpublished (outbox s)) \<and>
    delivered_batch handler clock rows k err h h' \<and> core_inv s' \<and>
    published (take k ids) (mem_table s) (mem_table s')"
proof -
  note spec = core.RunOnce_spec [of s "dispatcher handler clock n" handler "if n = 0 then 100 else n" clock clk h,
      unfolded dispatcher_sel option.case]
  have "1 \<le> (if n = 0 then 100 else n)" "(if n = 0 then 100 else n) \<le> 1000" using assms(2,3) by simp_all
  from spec [OF _ refl refl refl this refl] assms(1) show ?thesis
    unfolding core_inv_def outbox_def by simp
qed

text \<open>
  One run of the outbox dispatcher hands a batch of waiting events to the handler, in the order read
  and none twice, stops at the first row that is no event or that the handler refuses, marks exactly the
  handled ones published, and returns their number. Without an error the batch was full or held all
  events that were waiting. Nothing else of the database changes.
\<close>

theorem outbox_run_spec:
  assumes "core_inv s" and "0 \<le> n" and "n \<le> 1000"
    and "RunOnce clk (dispatcher handler clock n) (s, h) = ((m, err), (s', h'))"
  shows "\<exists>rows ids. distinct ids \<and> map Some rows = map (outbox s) ids \<and> set ids \<subseteq> unpublished (outbox s) \<and>
    delivered_batch handler clock rows (nat m) err h h' \<and> 0 \<le> m \<and>
    published (take (nat m) ids) (mem_table s) (mem_table s') \<and> core_inv s' \<and>
    (int (length ids) = (if n = 0 then 100 else n) \<or> set ids = unpublished (outbox s))"
proof -
  obtain rows ids k where "m = int k" "distinct ids" "map Some rows = map (outbox s) ids" "set ids \<subseteq> unpublished (outbox s)"
    "int (length ids) = (if n = 0 then 100 else n) \<or> set ids = unpublished (outbox s)"
    "delivered_batch handler clock rows k err h h'" "core_inv s'" "published (take k ids) (mem_table s) (mem_table s')"
    using dispatcher_spec [OF assms(1-3), of clk handler clock h] assms(4)
    by (auto simp: order.order_iff_strict simp del: map_eq_conv)
  then show ?thesis by (intro exI [of _ rows] exI [of _ ids]) simp
qed

text \<open>Running the dispatcher again and again, whatever each run returns.\<close>

fun run_times :: "('h \<Rightarrow> gtime \<times> 'h) \<Rightarrow> ('s, 'h) OutboxDispatcher \<Rightarrow> nat \<Rightarrow> 's \<times> 'h \<Rightarrow> 's \<times> 'h" where
  "run_times clk d 0 w = w"
| "run_times clk d (Suc k) w = run_times clk d k (snd (RunOnce clk d w))"

text \<open>A record of the deliveries: what the handler accepted is in it, and nothing takes it out.\<close>

definition records_deliveries ::
  "(DomainEvent \<Rightarrow> ('h, unit) prog) \<Rightarrow> ('h \<Rightarrow> gtime \<times> 'h) \<Rightarrow> (DomainEvent \<Rightarrow> 'h \<Rightarrow> bool) \<Rightarrow> bool" where
  "records_deliveries handler clock Done \<longleftrightarrow>
     (\<forall>e h h'. handler e h = (Inr (), h') \<longrightarrow> Done e h') \<and>
     (\<forall>e x h. Done x h \<longrightarrow> Done x (snd (handler e h))) \<and>
     (\<forall>x h. Done x h \<longrightarrow> Done x (snd (clock h)))"

lemma handled_records:
  assumes "records_deliveries handler clock Done" and "handled handler clock evs h h'"
  shows "\<forall>x. Done x h \<or> x \<in> set evs \<longrightarrow> Done x h'"
  using assms(2)
proof (induction evs arbitrary: h)
  case (Cons e es)
  obtain h1 where h1: "handler e h = (Inr (), h1)" "handled handler clock es (snd (clock h1)) h'"
    using Cons.prems by (auto split: prod.splits)
  have "Done x (snd (clock h1))" if "Done x h \<or> x = e" for x
    using that assms(1) h1(1) unfolding records_deliveries_def by (metis snd_conv)
  with Cons.IH [OF h1(2)] show ?case by auto
qed simp

lemma batch_records:
  assumes "records_deliveries handler clock Done" and "delivered_batch handler clock rows k err h h'"
  shows "(\<forall>x. Done x h \<longrightarrow> Done x h') \<and>
    (\<forall>r \<in> set (take k rows). \<exists>e. domainEventFromRecord r = Inr e \<and> Done e h')"
proof -
  obtain evs h1 where b: "map domainEventFromRecord (take k rows) = map Inr evs" "handled handler clock evs h h1"
    "if err = None then k = length rows \<and> h' = h1 else k < length rows \<and> stops_at handler (rows ! k) h1 h'"
    using assms(2) by (auto simp: delivered_batch_def)
  have last: "Done x h1 \<Longrightarrow> Done x h'" for x
    using b(3) assms(1) unfolding records_deliveries_def stops_at_def by (metis snd_conv)
  have "\<exists>e \<in> set evs. domainEventFromRecord r = Inr e" if "r \<in> set (take k rows)" for r
  proof -
    from that have "domainEventFromRecord r \<in> set (map domainEventFromRecord (take k rows))" by simp
    then show ?thesis unfolding b(1) by auto
  qed
  with handled_records [OF assms(1) b(2)] last show ?thesis by blast
qed

lemma published_row:
  assumes "published (take k ids) T T'" and "map Some rows = map (T ModelOutboxEvent) ids"
    and "T' ModelOutboxEvent i = Some q"
  shows "T ModelOutboxEvent i = Some q \<or> (\<exists>now r. r \<in> set (take k rows) \<and> q = publish now r)"
proof (cases "i \<in> set (take k ids)")
  case True
  with assms(1,3) obtain now r where r: "T ModelOutboxEvent i = Some r" "q = publish now r"
    unfolding published_def by (metis option.inject)
  from True have "T ModelOutboxEvent i \<in> set (map (T ModelOutboxEvent) (take k ids))" by simp
  also have "map (T ModelOutboxEvent) (take k ids) = map Some (take k rows)"
    using assms(2) by (metis take_map)
  finally have "r \<in> set (take k rows)" using r(1) by auto
  with r(2) show ?thesis by blast
next
  case False
  with assms(1,3) show ?thesis unfolding published_def by metis
qed

lemma run_keeps_handled:
  assumes "core_inv s" and "0 \<le> n" and "n \<le> 1000" and "records_deliveries handler clock Done"
    and "published_handled Done h (outbox s)"
  shows "case snd (RunOnce clk (dispatcher handler clock n) (s, h)) of (s', h') \<Rightarrow>
    core_inv s' \<and> published_handled Done h' (outbox s')"
proof -
  obtain rows ids k err s' h' where run: "RunOnce clk (dispatcher handler clock n) (s, h) = ((int k, err), (s', h'))"
    "map Some rows = map (outbox s) ids" "delivered_batch handler clock rows k err h h'" "core_inv s'"
    "published (take k ids) (mem_table s) (mem_table s')"
    using dispatcher_spec [OF assms(1-3), of clk handler clock h] by blast
  note rec = batch_records [OF assms(4) run(3)]
  have "\<exists>e. domainEventFromRecord q = Inr e \<and> Done e h'"
    if q: "outbox s' i = Some q" "fld q ''publishedAt'' \<noteq> VNil" for i q
    using published_row [OF run(5) run(2) [unfolded outbox_def] q(1) [unfolded outbox_def]]
  proof
    assume "mem_table s ModelOutboxEvent i = Some q"
    with assms(5) q(2) rec show ?thesis unfolding published_handled_def outbox_def by blast
  next
    assume "\<exists>now r. r \<in> set (take k rows) \<and> q = publish now r"
    with rec show ?thesis by auto
  qed
  with run(1,4) show ?thesis by (simp add: published_handled_def)
qed

text \<open>
  C15. The outbox delivers at least once: however often the dispatcher runs, and whatever errors the
  handler returns, an event marked published is one the handler has accepted.
\<close>

theorem outbox_at_least_once:
  assumes "core_inv s" and "0 \<le> n" and "n \<le> 1000" and "records_deliveries handler clock Done"
    and "published_handled Done h (outbox s)"
    and "run_times clk (dispatcher handler clock n) k (s, h) = (s', h')"
  shows "core_inv s' \<and> published_handled Done h' (outbox s')"
  using assms(1,5,6)
proof (induction k arbitrary: s h)
  case (Suc k)
  obtain s1 h1 where w: "snd (RunOnce clk (dispatcher handler clock n) (s, h)) = (s1, h1)" by fastforce
  from run_keeps_handled [OF Suc.prems(1) assms(2-4) Suc.prems(2), of clk] have
    "core_inv s1 \<and> published_handled Done h1 (outbox s1)" by (simp add: w)
  with Suc.IH [of s1 h1] Suc.prems(3) show ?case by (simp add: w)
qed simp

section \<open>Draining\<close>

lemma run_progress:
  assumes "core_inv s" and "0 \<le> n" and "n \<le> 1000" and "readable (outbox s)"
    and "\<And>e h. fst (handler e h) = Inr ()"
  shows "case snd (RunOnce clk (dispatcher handler clock n) (s, h)) of (s', h') \<Rightarrow>
    core_inv s' \<and> readable (outbox s') \<and> card (unpublished (outbox s')) \<le> card (unpublished (outbox s)) - 1"
proof -
  obtain rows ids k err s' h' where run: "RunOnce clk (dispatcher handler clock n) (s, h) = ((int k, err), (s', h'))"
    "map Some rows = map (outbox s) ids" "delivered_batch handler clock rows k err h h'" "core_inv s'"
    "published (take k ids) (mem_table s) (mem_table s')" "set ids \<subseteq> unpublished (outbox s)" "distinct ids"
    "int (length ids) < (if n = 0 then 100 else n) \<longrightarrow> set ids = unpublished (outbox s)"
    using dispatcher_spec [OF assms(1-3), of clk handler clock h] by blast
  have len: "length rows = length ids" using run(2) by (metis length_map)
  have no_stop: "\<not> stops_at handler r h1 h2" if "r \<in> set rows" for r h1 h2
  proof -
    from that run(2) have "Some r \<in> outbox s ` set ids" by (metis image_set imageI)
    with assms(4) obtain e where "domainEventFromRecord r = Inr e" unfolding readable_def by force
    with assms(5) show ?thesis unfolding stops_at_def by (metis fst_conv sum.distinct(1))
  qed
  have "k = length ids"
    using run(3) no_stop len unfolding delivered_batch_def by (metis nth_mem)
  then have unp: "unpublished (outbox s') = unpublished (outbox s) - set ids"
    using published_unpublished [OF run(5)] by (simp add: outbox_def)
  have fin: "finite (unpublished (outbox s))"
    by (rule finite_subset [OF _ core.finite_table [of s ModelOutboxEvent]])
      (use assms(1) in \<open>auto simp: unpublished_def outbox_def core_inv_def\<close>)
  have "card (unpublished (outbox s')) \<le> card (unpublished (outbox s)) - 1"
  proof (cases ids)
    case Nil
    with run(8) assms(2) have "unpublished (outbox s) = {}" by (auto split: if_splits)
    with unp show ?thesis by simp
  next
    case (Cons i ids1)
    then have "i \<in> unpublished (outbox s)" "unpublished (outbox s') \<subseteq> unpublished (outbox s) - {i}"
      using run(6) unp by auto
    with fin show ?thesis by (metis card_Diff_singleton card_mono finite_Diff)
  qed
  moreover have "readable (outbox s')" using published_readable [OF run(5)] assms(4) by (simp add: outbox_def)
  ultimately show ?thesis using run(1,4) by simp
qed

text \<open>
  C16. The outbox drains: when every row is an event and the handler accepts every event, running the
  dispatcher as often as there are waiting events, with any batch size, leaves none waiting.
\<close>

theorem outbox_drains:
  assumes "core_inv s" and "0 \<le> n" and "n \<le> 1000" and "readable (outbox s)"
    and "\<And>e h. fst (handler e h) = Inr ()" and "card (unpublished (outbox s)) \<le> k"
  shows "unpublished (outbox (fst (run_times clk (dispatcher handler clock n) k (s, h)))) = {}"
  using assms(1,4,6)
proof (induction k arbitrary: s h)
  case 0
  have "finite (unpublished (outbox s))"
    by (rule finite_subset [OF _ core.finite_table [of s ModelOutboxEvent]])
      (use 0 in \<open>auto simp: unpublished_def outbox_def core_inv_def\<close>)
  with 0 show ?case by simp
next
  case (Suc k)
  obtain s1 h1 where w: "snd (RunOnce clk (dispatcher handler clock n) (s, h)) = (s1, h1)" by fastforce
  from run_progress [where handler = handler, OF Suc.prems(1) assms(2,3) Suc.prems(2) assms(5), of clk clock h] Suc.prems(3)
  have "core_inv s1" "readable (outbox s1)" "card (unpublished (outbox s1)) \<le> k" by (auto simp: w)
  from Suc.IH [OF this, of h1] show ?case by (simp add: w)
qed

text \<open>
  An event read back from the row the store wrote for it is the event.
\<close>

lemma event_record_roundtrip:
  assumes "event_wf e"
  shows "domainEventFromRecord (domainEventRecord e) = Inr e"
  using assms by (simp add: event_wf_def domainEventFromRecord_def domainEventRecord_def recordString_def recordTime_def
      recordInt_def recordStringMap_def)

section \<open>Witnesses\<close>

definition ex_event :: "string \<Rightarrow> gtime \<Rightarrow> DomainEvent" where
  "ex_event eid at = \<lparr>de_ID = eid, de_SchemaVersion = 1, de_Name = ''user.created'', de_AggregateID = ''u1'',
     de_OccurredAt = at, de_Payload = []\<rparr>"

definition ex_waiting :: mem where
  "ex_waiting = state_of [(ModelOutboxEvent,
     [(''e1'', domainEventRecord (ex_event ''e1'' 10)), (''e2'', domainEventRecord (ex_event ''e2'' 20))])]"

text \<open>A handler that keeps the events it accepts, and a clock that stands still.\<close>

definition log_handler :: "DomainEvent \<Rightarrow> (DomainEvent list, unit) prog" where
  "log_handler e = (\<lambda>h. (Inr (), e # h))"

definition still_clock :: "DomainEvent list \<Rightarrow> gtime \<times> DomainEvent list" where
  "still_clock h = (50, h)"

lemma ex_waiting_inv: "core_inv ex_waiting"
  unfolding ex_waiting_def
  by (rule state_of_inv) (simp add: table_check_def fld_def ex_event_def domainEventRecord_def)

lemma ex_waiting_outbox: "outbox ex_waiting =
    [''e2'' \<mapsto> domainEventRecord (ex_event ''e2'' 20), ''e1'' \<mapsto> domainEventRecord (ex_event ''e1'' 10)]"
  by (simp add: outbox_def ex_waiting_def)

lemma ex_waiting_facts:
  "readable (outbox ex_waiting)" "published_handled Done h (outbox ex_waiting)"
  "unpublished (outbox ex_waiting) = {''e1'', ''e2''}"
  unfolding ex_waiting_outbox
  by (auto simp: readable_def published_handled_def unpublished_def ex_event_def domainEventRecord_def
      domainEventFromRecord_def recordString_def recordTime_def recordInt_def split: if_splits)

theorem outbox_run_spec_witness:
  "case RunOnce still_clock (dispatcher log_handler still_clock 0) (ex_waiting, []) of
     ((m, err), (s', h')) \<Rightarrow> 0 \<le> m \<and> core_inv s'"
proof -
  obtain m err s' h' where "RunOnce still_clock (dispatcher log_handler still_clock 0) (ex_waiting, []) = ((m, err), (s', h'))"
    by (metis prod.exhaust)
  with outbox_run_spec [OF ex_waiting_inv _ _ this] show ?thesis by auto
qed

lemma log_records: "records_deliveries log_handler still_clock (\<lambda>e h. e \<in> set h)"
  by (auto simp: records_deliveries_def log_handler_def still_clock_def)

theorem outbox_at_least_once_witness:
  "case run_times still_clock (dispatcher log_handler still_clock 1) 1 (ex_waiting, []) of
     (s', h') \<Rightarrow> published_handled (\<lambda>e h. e \<in> set h) h' (outbox s')"
  using outbox_at_least_once [where s = ex_waiting and h = "[]" and n = 1 and k = 1 and clk = still_clock, OF ex_waiting_inv _ _ log_records ex_waiting_facts(2)]
  by (auto split: prod.split)

theorem outbox_drains_witness:
  "unpublished (outbox (fst (run_times still_clock (dispatcher log_handler still_clock 1) 2 (ex_waiting, [])))) = {}"
  by (rule outbox_drains [OF ex_waiting_inv _ _ ex_waiting_facts(1)]) (simp_all add: log_handler_def ex_waiting_facts(3))

end
