(* ===== verification/Database_Hooks.thy ===== *)
theory Database_Hooks
  imports Adapter
begin

text \<open>
  The database hooks of plugins, \<open>database_hooks.go\<close>: an adapter that calls the matching
  \<open>Before\<close> handlers ahead of each write of the next adapter and the \<open>After\<close> handlers behind
  it, the latter put off to the commit when the write is inside a transaction. A handler is a function
  of the application on the mutable \<open>DatabaseHookContext\<close> and on a state \<open>'h\<close> of its own.
\<close>

section \<open>Hooks\<close>

datatype DatabaseOperation =
    DatabaseCreate | DatabaseUpdate | DatabaseUpdateMany | DatabaseDelete | DatabaseDeleteMany
  | DatabaseConsumeOne | DatabaseIncrementOne | DatabaseOperationOther string

text \<open>A nil \<open>Record\<close> reads as the empty one; only \<open>Result\<close> tells nil apart.\<close>

record DatabaseHookContext =
  hc_Operation :: DatabaseOperation
  hc_Model :: string
  hc_Where :: "Where list"
  hc_Data :: Record
  hc_Increment :: "(string \<times> int) list"
  hc_Result :: "Record option"
  hc_Count :: int

text \<open>How a handler ends: with its changes to the context, an error, or a panic.\<close>

datatype hook_end = HookReturned DatabaseHookContext | HookFailed go_error | HookPanicked

type_synonym 'h DatabaseHookHandler = "DatabaseHookContext \<Rightarrow> 'h \<Rightarrow> hook_end \<times> 'h"

record 'h DatabaseHook =
  dh_Model :: string
  dh_Operations :: "DatabaseOperation list"
  dh_Before :: "'h DatabaseHookHandler option"
  dh_After :: "'h DatabaseHookHandler option"

record 'h databaseHookRegistration =
  rg_pluginID :: string
  rg_hook :: "'h DatabaseHook"

record 'h deferredDatabaseHook =
  df_registration :: "'h databaseHookRegistration"
  df_state :: DatabaseHookContext

text \<open>
  The state of a hooked adapter: the next adapter's, the handlers', and the list \<open>deferred\<close>, nil
  outside of a transaction.
\<close>

record ('s, 'h) hooked =
  hs_db :: 's
  hs_app :: 'h
  hs_deferred :: "'h deferredDatabaseHook list option"

fun validDatabaseOperation :: "DatabaseOperation \<Rightarrow> bool" where
  "validDatabaseOperation (DatabaseOperationOther s) \<longleftrightarrow> False"
| "validDatabaseOperation op \<longleftrightarrow> True"

definition matches_hook :: "'h databaseHookRegistration \<Rightarrow> DatabaseHookContext \<Rightarrow> bool" where
  "matches_hook rg state \<longleftrightarrow>
     (if dh_Model (rg_hook rg) \<noteq> ''*'' \<and> dh_Model (rg_hook rg) \<noteq> hc_Model state then False
      else dh_Operations (rg_hook rg) = [] \<or> hc_Operation state \<in> set (dh_Operations (rg_hook rg)))"

section \<open>Calling a handler\<close>

definition on_next :: "('s, 'a) prog \<Rightarrow> (('s, 'h) hooked, 'a) prog" where
  "on_next m = (\<lambda>w. case m (hs_db w) of (r, s') \<Rightarrow> (r, w\<lparr>hs_db := s'\<rparr>))"

text \<open>
  \<open>callDatabaseHook\<close>: the handler works on a copy; on success everything but the operation and the
  model is copied back, a panic is an error.
\<close>

definition callDatabaseHook ::
  "'h databaseHookRegistration \<Rightarrow> 'h DatabaseHookHandler \<Rightarrow> DatabaseHookContext \<Rightarrow>
   (('s, 'h) hooked, DatabaseHookContext) prog" where
  "callDatabaseHook rg handler state = (\<lambda>w.
     case handler state (hs_app w) of (r, h) \<Rightarrow>
       ((case r of
           HookPanicked \<Rightarrow> Inl (ErrText ''betterauth: plugin database hook panicked'')
         | HookFailed err \<Rightarrow> Inl (ErrWrap ''betterauth: plugin database hook'' err)
         | HookReturned c \<Rightarrow> Inr (state\<lparr>hc_Where := hc_Where c, hc_Data := hc_Data c,
             hc_Increment := hc_Increment c, hc_Result := hc_Result c, hc_Count := hc_Count c\<rparr>)),
        w\<lparr>hs_app := h\<rparr>))"

fun before_hooks ::
  "'h databaseHookRegistration list \<Rightarrow> DatabaseHookContext \<Rightarrow> (('s, 'h) hooked, DatabaseHookContext) prog" where
  "before_hooks [] state = ret state"
| "before_hooks (rg # rgs) state =
     (if \<not> matches_hook rg state then before_hooks rgs state
      else case dh_Before (rg_hook rg) of
        None \<Rightarrow> before_hooks rgs state
      | Some handler \<Rightarrow> bindM (callDatabaseHook rg handler state) (before_hooks rgs))"

definition deferHook :: "'h databaseHookRegistration \<Rightarrow> DatabaseHookContext \<Rightarrow> (('s, 'h) hooked, unit) prog" where
  "deferHook rg state = (\<lambda>w. (Inr (), w\<lparr>hs_deferred :=
     map_option (\<lambda>ds. ds @ [\<lparr>df_registration = rg, df_state = state\<rparr>]) (hs_deferred w)\<rparr>))"

definition inTransaction :: "(('s, 'h) hooked, bool) prog" where
  "inTransaction = (\<lambda>w. (Inr (hs_deferred w \<noteq> None), w))"

fun after_hooks ::
  "'h databaseHookRegistration list \<Rightarrow> DatabaseHookContext \<Rightarrow> (('s, 'h) hooked, unit) prog" where
  "after_hooks [] state = ret ()"
| "after_hooks (rg # rgs) state =
     (if \<not> matches_hook rg state then after_hooks rgs state
      else case dh_After (rg_hook rg) of
        None \<Rightarrow> after_hooks rgs state
      | Some handler \<Rightarrow>
          bindM inTransaction (\<lambda>deferring.
          if deferring then bindM (deferHook rg state) (\<lambda>_. after_hooks rgs state)
          else bindM (callDatabaseHook rg handler state) (after_hooks rgs)))"

section \<open>The hooked adapter\<close>

definition hookContext :: "DatabaseOperation \<Rightarrow> string \<Rightarrow> Where list \<Rightarrow> Record \<Rightarrow> DatabaseHookContext" where
  "hookContext op model ws data = \<lparr>hc_Operation = op, hc_Model = model, hc_Where = ws, hc_Data = data,
     hc_Increment = [], hc_Result = None, hc_Count = 0\<rparr>"

definition hk_Create ::
  "'h databaseHookRegistration list \<Rightarrow> 's database_adapter \<Rightarrow> CreateQuery \<Rightarrow> (('s, 'h) hooked, Record) prog" where
  "hk_Create hooks nxt q =
     bindM (before_hooks hooks (hookContext DatabaseCreate (cq_Model q) [] (cq_Data q))) (\<lambda>state.
     bindM (on_next (db_create nxt (q\<lparr>cq_Data := hc_Data state\<rparr>))) (\<lambda>result.
     bindM (after_hooks hooks (state\<lparr>hc_Result := Some result\<rparr>)) (\<lambda>_. ret result)))"

definition hk_Update ::
  "'h databaseHookRegistration list \<Rightarrow> 's database_adapter \<Rightarrow> UpdateQuery \<Rightarrow> (('s, 'h) hooked, Record option) prog" where
  "hk_Update hooks nxt q =
     bindM (before_hooks hooks (hookContext DatabaseUpdate (uq_Model q) (uq_Where q) (uq_Update q))) (\<lambda>state.
     bindM (on_next (db_update nxt (q\<lparr>uq_Where := hc_Where state, uq_Update := hc_Data state\<rparr>))) (\<lambda>result.
     bindM (after_hooks hooks (state\<lparr>hc_Result := result\<rparr>)) (\<lambda>_. ret result)))"

definition hk_UpdateMany ::
  "'h databaseHookRegistration list \<Rightarrow> 's database_adapter \<Rightarrow> UpdateQuery \<Rightarrow> (('s, 'h) hooked, int) prog" where
  "hk_UpdateMany hooks nxt q =
     bindM (before_hooks hooks (hookContext DatabaseUpdateMany (uq_Model q) (uq_Where q) (uq_Update q))) (\<lambda>state.
     bindM (on_next (db_updateMany nxt (q\<lparr>uq_Where := hc_Where state, uq_Update := hc_Data state\<rparr>))) (\<lambda>count.
     bindM (after_hooks hooks (state\<lparr>hc_Count := count\<rparr>)) (\<lambda>_. ret count)))"

definition hk_Delete ::
  "'h databaseHookRegistration list \<Rightarrow> 's database_adapter \<Rightarrow> DeleteQuery \<Rightarrow> (('s, 'h) hooked, unit) prog" where
  "hk_Delete hooks nxt q =
     bindM (before_hooks hooks (hookContext DatabaseDelete (dq_Model q) (dq_Where q) Map.empty)) (\<lambda>state.
     bindM (on_next (db_delete nxt (q\<lparr>dq_Where := hc_Where state\<rparr>))) (\<lambda>_.
       after_hooks hooks (state\<lparr>hc_Count := 1\<rparr>)))"

definition hk_DeleteMany ::
  "'h databaseHookRegistration list \<Rightarrow> 's database_adapter \<Rightarrow> DeleteQuery \<Rightarrow> (('s, 'h) hooked, int) prog" where
  "hk_DeleteMany hooks nxt q =
     bindM (before_hooks hooks (hookContext DatabaseDeleteMany (dq_Model q) (dq_Where q) Map.empty)) (\<lambda>state.
     bindM (on_next (db_deleteMany nxt (q\<lparr>dq_Where := hc_Where state\<rparr>))) (\<lambda>count.
     bindM (after_hooks hooks (state\<lparr>hc_Count := count\<rparr>)) (\<lambda>_. ret count)))"

definition hk_ConsumeOne ::
  "'h databaseHookRegistration list \<Rightarrow> 's database_adapter \<Rightarrow> DeleteQuery \<Rightarrow> (('s, 'h) hooked, Record option) prog" where
  "hk_ConsumeOne hooks nxt q =
     bindM (before_hooks hooks (hookContext DatabaseConsumeOne (dq_Model q) (dq_Where q) Map.empty)) (\<lambda>state.
     bindM (on_next (db_consumeOne nxt (q\<lparr>dq_Where := hc_Where state\<rparr>))) (\<lambda>result.
     bindM (after_hooks hooks (state\<lparr>hc_Result := result\<rparr>)) (\<lambda>_. ret result)))"

definition hk_IncrementOne ::
  "'h databaseHookRegistration list \<Rightarrow> 's database_adapter \<Rightarrow> IncrementQuery \<Rightarrow> (('s, 'h) hooked, Record option) prog" where
  "hk_IncrementOne hooks nxt q =
     bindM (before_hooks hooks ((hookContext DatabaseIncrementOne (iq_Model q) (iq_Where q) (iq_Set q))
       \<lparr>hc_Increment := iq_Increment q\<rparr>)) (\<lambda>state.
     bindM (on_next (db_incrementOne nxt (q\<lparr>iq_Where := hc_Where state, iq_Set := hc_Data state,
       iq_Increment := hc_Increment state\<rparr>))) (\<lambda>result.
     bindM (after_hooks hooks (state\<lparr>hc_Result := result\<rparr>)) (\<lambda>_. ret result)))"

text \<open>
  \<open>Transaction\<close>. The outermost one starts an empty list and, once the next adapter has committed,
  calls the deferred handlers in order; a nested one adds to the list it finds. Each handler has a copy
  of the context of its own, and an error of a handler is returned though the database has committed.
\<close>

fun run_deferred :: "'h deferredDatabaseHook list \<Rightarrow> (('s, 'h) hooked, unit) prog" where
  "run_deferred [] = ret ()"
| "run_deferred (effect # effects) =
     (case dh_After (rg_hook (df_registration effect)) of
        None \<Rightarrow> run_deferred effects
      | Some handler \<Rightarrow>
          bindM (mapErr (ErrWrap ''betterauth: database committed but after hook failed'')
            (callDatabaseHook (df_registration effect) handler (df_state effect))) (\<lambda>_.
          run_deferred effects))"

definition hk_begin :: "'s database_adapter \<Rightarrow> ('s, 'h) hooked \<Rightarrow> ('s, 'h) hooked" where
  "hk_begin nxt w = w\<lparr>hs_db := db_begin nxt (hs_db w),
     hs_deferred := (case hs_deferred w of None \<Rightarrow> Some [] | Some ds \<Rightarrow> Some ds)\<rparr>"

definition hk_rollback :: "'s database_adapter \<Rightarrow> ('s, 'h) hooked \<Rightarrow> ('s, 'h) hooked \<Rightarrow> ('s, 'h) hooked" where
  "hk_rollback nxt w t = t\<lparr>hs_db := db_rollback nxt (hs_db w) (hs_db t),
     hs_deferred := (case hs_deferred w of None \<Rightarrow> None | Some _ \<Rightarrow> hs_deferred t)\<rparr>"

definition hk_commit ::
  "'s database_adapter \<Rightarrow> ('s, 'h) hooked \<Rightarrow> ('s, 'h) hooked \<Rightarrow> (go_error + unit) \<times> ('s, 'h) hooked" where
  "hk_commit nxt w t =
     (case db_commit nxt (hs_db w) (hs_db t) of (r, s') \<Rightarrow>
        (case hs_deferred w of
           Some _ \<Rightarrow> (r, t\<lparr>hs_db := s'\<rparr>)
         | None \<Rightarrow>
             (let u = t\<lparr>hs_db := s', hs_deferred := None\<rparr> in
              case r of
                Inl e \<Rightarrow> (Inl e, u)
              | Inr _ \<Rightarrow> run_deferred (case hs_deferred t of None \<Rightarrow> [] | Some ds \<Rightarrow> ds) u)))"

definition hooked_adapter ::
  "'h databaseHookRegistration list \<Rightarrow> 's database_adapter \<Rightarrow> ('s, 'h) hooked database_adapter" where
  "hooked_adapter hooks nxt = \<lparr>db_create = hk_Create hooks nxt,
     db_findOne = (\<lambda>q. on_next (db_findOne nxt q)), db_findMany = (\<lambda>q. on_next (db_findMany nxt q)),
     db_count = (\<lambda>q. on_next (db_count nxt q)), db_update = hk_Update hooks nxt,
     db_updateMany = hk_UpdateMany hooks nxt, db_delete = hk_Delete hooks nxt,
     db_deleteMany = hk_DeleteMany hooks nxt, db_consumeOne = hk_ConsumeOne hooks nxt,
     db_incrementOne = hk_IncrementOne hooks nxt, db_begin = hk_begin nxt,
     db_rollback = hk_rollback nxt, db_commit = hk_commit nxt\<rparr>"

text \<open>
  \<open>wrapDatabaseHooks\<close> on the ids and database hooks of the plugins: every registration is
  checked; without one the adapter stays as it is (\<open>None\<close>).
\<close>

definition check_hook :: "'h DatabaseHook \<Rightarrow> go_error + unit" where
  "check_hook hook =
     (if dh_Model hook = '''' \<or> dh_Before hook = None \<and> dh_After hook = None
      then Inl (ErrText ''betterauth: plugin has invalid database hook'')
      else if \<not> list_all validDatabaseOperation (dh_Operations hook)
      then Inl (ErrText ''betterauth: plugin has invalid database operation'')
      else Inr ())"

definition register_hook ::
  "string \<Rightarrow> 'h databaseHookRegistration list \<Rightarrow> 'h DatabaseHook \<Rightarrow> go_error + 'h databaseHookRegistration list" where
  "register_hook pluginID rgs hook =
     (case check_hook hook of
        Inl e \<Rightarrow> Inl e
      | Inr _ \<Rightarrow> Inr (rgs @ [\<lparr>rg_pluginID = pluginID, rg_hook = hook\<rparr>]))"

definition wrapDatabaseHooks ::
  "(string \<times> 'h DatabaseHook list) list \<Rightarrow> 's database_adapter \<Rightarrow> go_error + ('s, 'h) hooked database_adapter option" where
  "wrapDatabaseHooks plugins nxt =
     (case foldE (\<lambda>rgs (pluginID, hooks). foldE (register_hook pluginID) rgs hooks) [] plugins of
        Inl e \<Rightarrow> Inl e
      | Inr [] \<Rightarrow> Inr None
      | Inr rgs \<Rightarrow> Inr (Some (hooked_adapter rgs nxt)))"

end
