(* ===== verification/Hooks_Refinement.thy ===== *)
theory Hooks_Refinement
  imports Database_Hooks Store_Refinement Examples
begin

text \<open>
  What database hooks do to the store. Hooks that only watch leave every call of the store with the
  result it has without them: the hooked adapter is simulated by the next one, and the locale of
  simulating adapters carries this through the methods of the store. Without \<open>Before\<close> handlers a
  transaction of any callback acts on the database as it does without hooks, and no \<open>After\<close> handler
  runs before the commit.
\<close>

section \<open>Hooks that watch\<close>

definition watches :: "'h DatabaseHookHandler \<Rightarrow> bool" where
  "watches handler \<longleftrightarrow> (\<forall>c h. case fst (handler c h) of
     HookReturned d \<Rightarrow> hc_Where d = hc_Where c \<and> hc_Data d = hc_Data c \<and> hc_Increment d = hc_Increment c
   | _ \<Rightarrow> False)"

definition returns :: "'h DatabaseHookHandler \<Rightarrow> bool" where
  "returns handler \<longleftrightarrow> (\<forall>c h. case fst (handler c h) of HookReturned d \<Rightarrow> True | _ \<Rightarrow> False)"

definition observer :: "'h databaseHookRegistration \<Rightarrow> bool" where
  "observer rg \<longleftrightarrow> (case dh_Before (rg_hook rg) of None \<Rightarrow> True | Some b \<Rightarrow> watches b) \<and>
     (case dh_After (rg_hook rg) of None \<Rightarrow> True | Some a \<Rightarrow> returns a)"

text \<open>The two contexts ask for the same write.\<close>

definition same_write :: "DatabaseHookContext \<Rightarrow> DatabaseHookContext \<Rightarrow> bool" where
  "same_write c d \<longleftrightarrow> hc_Where d = hc_Where c \<and> hc_Data d = hc_Data c \<and> hc_Increment d = hc_Increment c"

text \<open>The states of a hooked adapter whose deferred handlers are those of the hooks.\<close>

definition deferred_of :: "'h databaseHookRegistration list \<Rightarrow> ('s, 'h) hooked \<Rightarrow> bool" where
  "deferred_of hooks w \<longleftrightarrow>
     (case hs_deferred w of None \<Rightarrow> True | Some ds \<Rightarrow> \<forall>d\<in>set ds. df_registration d \<in> set hooks)"

lemma call_watching:
  assumes "watches handler"
  obtains d h where "callDatabaseHook rg handler c w = (Inr d, w\<lparr>hs_app := h\<rparr>)" and "same_write c d"
proof -
  obtain e h where e: "handler c (hs_app w) = (e, h)" by fastforce
  from assms have "case fst (handler c (hs_app w)) of
      HookReturned d \<Rightarrow> hc_Where d = hc_Where c \<and> hc_Data d = hc_Data c \<and> hc_Increment d = hc_Increment c
    | _ \<Rightarrow> False" unfolding watches_def by blast
  with e that show thesis by (cases e) (simp_all add: callDatabaseHook_def same_write_def)
qed

lemma call_returning:
  assumes "returns handler"
  obtains d h where "callDatabaseHook rg handler c w = (Inr d, w\<lparr>hs_app := h\<rparr>)"
proof -
  obtain e h where e: "handler c (hs_app w) = (e, h)" by fastforce
  from assms have "case fst (handler c (hs_app w)) of HookReturned d \<Rightarrow> True | _ \<Rightarrow> False"
    unfolding returns_def by blast
  with e that show thesis by (cases e) (simp_all add: callDatabaseHook_def)
qed

lemma before_watching:
  assumes "\<forall>rg\<in>set rgs. observer rg"
  shows "\<exists>d h. before_hooks rgs c w = (Inr d, w\<lparr>hs_app := h\<rparr>) \<and> same_write c d"
  using assms
proof (induction rgs arbitrary: c w)
  case Nil
  show ?case by (intro exI [of _ c] exI [of _ "hs_app w"]) (simp add: ret_def same_write_def)
next
  case (Cons rg rgs)
  show ?case
  proof (cases "matches_hook rg c \<and> dh_Before (rg_hook rg) \<noteq> None")
    case True
    then obtain b where b: "dh_Before (rg_hook rg) = Some b" by blast
    with Cons.prems have "watches b" by (simp add: observer_def)
    then obtain d h where call: "callDatabaseHook rg b c w = (Inr d, w\<lparr>hs_app := h\<rparr>)" "same_write c d"
      by (rule call_watching)
    with Cons.IH [of d "w\<lparr>hs_app := h\<rparr>"] Cons.prems True b show ?thesis
      by (auto simp: bindM_def same_write_def)
  next
    case False
    with Cons show ?thesis by (auto split: option.split)
  qed
qed

lemma after_watching:
  assumes "\<forall>rg\<in>set rgs. observer rg" and "set rgs \<subseteq> set hooks" and "deferred_of hooks w"
  shows "\<exists>w'. after_hooks rgs c w = (Inr (), w') \<and> hs_db w' = hs_db w \<and> deferred_of hooks w'"
  using assms(1,2,3)
proof (induction rgs arbitrary: c w)
  case (Cons rg rgs)
  show ?case
  proof (cases "matches_hook rg c \<and> dh_After (rg_hook rg) \<noteq> None")
    case True
    then obtain a where a: "dh_After (rg_hook rg) = Some a" by blast
    with Cons.prems have "returns a" by (simp add: observer_def)
    then obtain d h where call: "callDatabaseHook rg a c w = (Inr d, w\<lparr>hs_app := h\<rparr>)"
      by (rule call_returning)
    have "deferred_of hooks (w\<lparr>hs_app := h\<rparr>)" "deferred_of hooks (snd (deferHook rg c w))"
      using Cons.prems(2,3) by (auto simp: deferred_of_def deferHook_def split: option.splits)
    with Cons.IH [of "w\<lparr>hs_app := h\<rparr>" d] Cons.IH [of "snd (deferHook rg c w)" c] Cons.prems True a call show ?thesis
      by (auto simp: bindM_def inTransaction_def deferHook_def)
  next
    case False
    with Cons show ?thesis by (auto split: option.split)
  qed
qed (simp add: ret_def)

lemma deferred_watching:
  assumes "\<forall>d\<in>set ds. observer (df_registration d)"
  shows "\<exists>h. run_deferred ds w = (Inr (), w\<lparr>hs_app := h\<rparr>)"
  using assms
proof (induction ds arbitrary: w)
  case Nil
  show ?case by (intro exI [of _ "hs_app w"]) (simp add: ret_def)
next
  case (Cons d ds)
  show ?case
  proof (cases "dh_After (rg_hook (df_registration d))")
    case (Some a)
    with Cons.prems have "returns a" by (simp add: observer_def)
    then obtain e h where "callDatabaseHook (df_registration d) a (df_state d) w = (Inr e, w\<lparr>hs_app := h\<rparr>)"
      by (rule call_returning)
    with Cons.IH [of "w\<lparr>hs_app := h\<rparr>"] Cons.prems Some show ?thesis by (auto simp: bindM_def mapErr_def)
  qed (use Cons in simp)
qed

text \<open>Writes around a context: the shape all hooked methods share.\<close>

definition hooked_write ::
  "'h databaseHookRegistration list \<Rightarrow> DatabaseHookContext \<Rightarrow> (DatabaseHookContext \<Rightarrow> ('s, 'a) prog) \<Rightarrow>
   (DatabaseHookContext \<Rightarrow> 'a \<Rightarrow> DatabaseHookContext) \<Rightarrow> (('s, 'h) hooked, 'a) prog" where
  "hooked_write hooks c write done' =
     bindM (before_hooks hooks c) (\<lambda>state.
     bindM (on_next (write state)) (\<lambda>result.
     bindM (after_hooks hooks (done' state result)) (\<lambda>_. ret result)))"

lemma hooked_write_sim:
  fixes hooks :: "'h databaseHookRegistration list" and p :: "('s, 'a) prog"
  assumes "\<forall>rg\<in>set hooks. observer rg" and "\<And>d. same_write c d \<Longrightarrow> write d = p"
  shows "simulates hs_db (deferred_of hooks) p (hooked_write hooks c write d')"
  unfolding simulates_def
proof (intro allI impI)
  fix w :: "('s, 'h) hooked"
  assume w: "deferred_of hooks w"
  obtain d h where d: "before_hooks hooks c w = (Inr d, w\<lparr>hs_app := h\<rparr>)" "same_write c d"
    using before_watching [OF assms(1)] by blast
  obtain r s' where p: "p (hs_db w) = (r, s')" by fastforce
  let ?v = "w\<lparr>hs_app := h, hs_db := s'\<rparr>"
  have v: "deferred_of hooks ?v" using w by (simp add: deferred_of_def)
  show "p (hs_db w) = (fst (hooked_write hooks c write d' w), hs_db (snd (hooked_write hooks c write d' w))) \<and>
      deferred_of hooks (snd (hooked_write hooks c write d' w))"
  proof (cases r)
    case (Inl e)
    then have "hooked_write hooks c write d' w = (Inl e, ?v)"
      by (simp add: hooked_write_def bindM_def on_next_def d assms(2) [OF d(2)] p)
    with p v Inl show ?thesis by simp
  next
    case (Inr a)
    obtain w' where "after_hooks hooks (d' d a) ?v = (Inr (), w')" "hs_db w' = s'" "deferred_of hooks w'"
      using after_watching [OF assms(1) subset_refl v, of "d' d a"] by auto
    moreover from this have "hooked_write hooks c write d' w = (Inr a, w')"
      by (simp add: hooked_write_def bindM_def on_next_def d assms(2) [OF d(2)] p Inr ret_def)
    ultimately show ?thesis using p Inr by simp
  qed
qed

text \<open>Every hooked method has this shape.\<close>

lemma hooked_sel:
  "db_begin (hooked_adapter hooks nxt) = hk_begin nxt" "db_rollback (hooked_adapter hooks nxt) = hk_rollback nxt"
  "db_commit (hooked_adapter hooks nxt) = hk_commit nxt"
  by (simp_all add: hooked_adapter_def)

lemma hooked_methods:
  "hk_Create hooks nxt kq = hooked_write hooks (hookContext DatabaseCreate (cq_Model kq) [] (cq_Data kq))
     (\<lambda>d. db_create nxt (kq\<lparr>cq_Data := hc_Data d\<rparr>)) (\<lambda>d r. d\<lparr>hc_Result := Some r\<rparr>)"
  "hk_Update hooks nxt uq = hooked_write hooks (hookContext DatabaseUpdate (uq_Model uq) (uq_Where uq) (uq_Update uq))
     (\<lambda>d. db_update nxt (uq\<lparr>uq_Where := hc_Where d, uq_Update := hc_Data d\<rparr>)) (\<lambda>d r. d\<lparr>hc_Result := r\<rparr>)"
  "hk_UpdateMany hooks nxt uq = hooked_write hooks (hookContext DatabaseUpdateMany (uq_Model uq) (uq_Where uq) (uq_Update uq))
     (\<lambda>d. db_updateMany nxt (uq\<lparr>uq_Where := hc_Where d, uq_Update := hc_Data d\<rparr>)) (\<lambda>d n. d\<lparr>hc_Count := n\<rparr>)"
  "hk_Delete hooks nxt dq = hooked_write hooks (hookContext DatabaseDelete (dq_Model dq) (dq_Where dq) Map.empty)
     (\<lambda>d. db_delete nxt (dq\<lparr>dq_Where := hc_Where d\<rparr>)) (\<lambda>d _. d\<lparr>hc_Count := 1\<rparr>)"
  "hk_DeleteMany hooks nxt dq = hooked_write hooks (hookContext DatabaseDeleteMany (dq_Model dq) (dq_Where dq) Map.empty)
     (\<lambda>d. db_deleteMany nxt (dq\<lparr>dq_Where := hc_Where d\<rparr>)) (\<lambda>d n. d\<lparr>hc_Count := n\<rparr>)"
  "hk_ConsumeOne hooks nxt dq = hooked_write hooks (hookContext DatabaseConsumeOne (dq_Model dq) (dq_Where dq) Map.empty)
     (\<lambda>d. db_consumeOne nxt (dq\<lparr>dq_Where := hc_Where d\<rparr>)) (\<lambda>d r. d\<lparr>hc_Result := r\<rparr>)"
  "hk_IncrementOne hooks nxt iq = hooked_write hooks
     ((hookContext DatabaseIncrementOne (iq_Model iq) (iq_Where iq) (iq_Set iq))\<lparr>hc_Increment := iq_Increment iq\<rparr>)
     (\<lambda>d. db_incrementOne nxt (iq\<lparr>iq_Where := hc_Where d, iq_Set := hc_Data d, iq_Increment := hc_Increment d\<rparr>))
     (\<lambda>d r. d\<lparr>hc_Result := r\<rparr>)"
proof -
  have "bindM m (\<lambda>u. ret u) = m" for m :: "('t, unit) prog"
    by (simp add: bindM_def ret_def fun_eq_iff split: prod.split sum.split)
  note unit = this
  show "hk_Delete hooks nxt dq = hooked_write hooks (hookContext DatabaseDelete (dq_Model dq) (dq_Where dq) Map.empty)
     (\<lambda>d. db_delete nxt (dq\<lparr>dq_Where := hc_Where d\<rparr>)) (\<lambda>d _. d\<lparr>hc_Count := 1\<rparr>)"
    by (simp add: hk_Delete_def hooked_write_def unit)
qed (simp_all add: hk_Create_def hk_Update_def hk_UpdateMany_def hk_DeleteMany_def hk_ConsumeOne_def hk_IncrementOne_def
    hooked_write_def)

lemma on_next_sim: "simulates hs_db (deferred_of hooks) p (on_next p)"
  by (simp add: simulates_def on_next_def deferred_of_def split: prod.split)

lemma same_write_simps [simp]:
  "same_write c d \<Longrightarrow> hc_Where d = hc_Where c" "same_write c d \<Longrightarrow> hc_Data d = hc_Data c"
  "same_write c d \<Longrightarrow> hc_Increment d = hc_Increment c"
  by (simp_all add: same_write_def)

lemma hookContext_sel [simp]:
  "hc_Where (hookContext op m ws r) = ws" "hc_Data (hookContext op m ws r) = r"
  by (simp_all add: hookContext_def)

locale observing_hooks =
  fixes hooks :: "'h databaseHookRegistration list" and nxt :: "'s database_adapter"
  assumes observing: "rg \<in> set hooks \<Longrightarrow> observer rg"

sublocale observing_hooks \<subseteq> adapter_refinement nxt "hooked_adapter hooks nxt" hs_db "deferred_of hooks" "\<lambda>_. UNIV"
proof
  have obs: "\<forall>rg\<in>set hooks. observer rg" using observing by blast
  note sims = hooked_write_sim [OF obs] on_next_sim
  show "simulates hs_db (deferred_of hooks) (db_create nxt kq) (db_create (hooked_adapter hooks nxt) kq)" for kq
    by (simp add: hooked_adapter_def hooked_methods sims)
  show "simulates hs_db (deferred_of hooks) (db_findOne nxt fq) (db_findOne (hooked_adapter hooks nxt) fq)" for fq
    by (simp add: hooked_adapter_def sims)
  show "simulates hs_db (deferred_of hooks) (db_findMany nxt mq) (db_findMany (hooked_adapter hooks nxt) mq)" for mq
    by (simp add: hooked_adapter_def sims)
  show "simulates hs_db (deferred_of hooks) (db_count nxt nq) (db_count (hooked_adapter hooks nxt) nq)" for nq
    by (simp add: hooked_adapter_def sims)
  show "simulates hs_db (deferred_of hooks) (db_update nxt uq) (db_update (hooked_adapter hooks nxt) uq)"
    "simulates hs_db (deferred_of hooks) (db_updateMany nxt uq) (db_updateMany (hooked_adapter hooks nxt) uq)" for uq
    by (simp_all add: hooked_adapter_def hooked_methods sims)
  show "simulates hs_db (deferred_of hooks) (db_delete nxt dq) (db_delete (hooked_adapter hooks nxt) dq)"
    "simulates hs_db (deferred_of hooks) (db_deleteMany nxt dq) (db_deleteMany (hooked_adapter hooks nxt) dq)"
    "simulates hs_db (deferred_of hooks) (db_consumeOne nxt dq) (db_consumeOne (hooked_adapter hooks nxt) dq)" for dq
    by (simp_all add: hooked_adapter_def hooked_methods sims)
  show "db_begin nxt (hs_db w) = hs_db (db_begin (hooked_adapter hooks nxt) w) \<and> deferred_of hooks (db_begin (hooked_adapter hooks nxt) w)"
    if "deferred_of hooks w" for w
    using that by (simp add: hooked_adapter_def hk_begin_def deferred_of_def split: option.splits)
  show "db_rollback nxt (hs_db w) (hs_db u) = hs_db (db_rollback (hooked_adapter hooks nxt) w u) \<and>
      deferred_of hooks (db_rollback (hooked_adapter hooks nxt) w u)"
    if "deferred_of hooks w" "deferred_of hooks u" for w u
    using that by (simp add: hooked_adapter_def hk_rollback_def deferred_of_def split: option.splits)
  show "db_commit nxt (hs_db w) (hs_db u) = (fst (db_commit (hooked_adapter hooks nxt) w u), hs_db (snd (db_commit (hooked_adapter hooks nxt) w u))) \<and>
      deferred_of hooks (snd (db_commit (hooked_adapter hooks nxt) w u))"
    if "deferred_of hooks w" "deferred_of hooks u" for w u
  proof -
    obtain r s' where c: "db_commit nxt (hs_db w) (hs_db u) = (r, s')" by fastforce
    have "\<forall>d\<in>set (case hs_deferred u of None \<Rightarrow> [] | Some ds \<Rightarrow> ds). observer (df_registration d)"
      using that(2) obs by (auto simp: deferred_of_def split: option.splits)
    from deferred_watching [OF this, of "u\<lparr>hs_db := s', hs_deferred := None\<rparr>"] obtain h where
      "run_deferred (case hs_deferred u of None \<Rightarrow> [] | Some ds \<Rightarrow> ds) (u\<lparr>hs_db := s', hs_deferred := None\<rparr>) =
        (Inr (), u\<lparr>hs_db := s', hs_deferred := None, hs_app := h\<rparr>)" by auto
    with c that(2) show ?thesis
      by (cases r) (auto simp: hooked_adapter_def hk_commit_def deferred_of_def Let_def split: option.splits)
  qed
qed simp

context observing_hooks
begin

lemmas run_calls = run_calls_refined
lemmas run_call = S_run_call
lemmas session_lookup = S_SessionByTokenHash

end

section \<open>Hooks that run after the commit\<close>

text \<open>
  A callback of \<open>Transaction\<close>, as the requests it makes to the adapter and what it does next for each
  outcome; at its end it returns nil or an error.
\<close>

datatype db_request =
    ReqCreate CreateQuery | ReqFindOne FindOneQuery | ReqFindMany FindManyQuery | ReqCount CountQuery
  | ReqUpdate UpdateQuery | ReqUpdateMany UpdateQuery | ReqDelete DeleteQuery | ReqDeleteMany DeleteQuery
  | ReqConsumeOne DeleteQuery | ReqIncrementOne IncrementQuery

datatype db_reply = GotRecord "Record option" | GotRecords "Record list" | GotCount int | GotNothing

definition replies :: "('s, 'a) prog \<Rightarrow> ('a \<Rightarrow> db_reply) \<Rightarrow> ('s, db_reply) prog" where
  "replies m f = bindM m (\<lambda>a. ret (f a))"

fun perform :: "'s database_adapter \<Rightarrow> db_request \<Rightarrow> ('s, db_reply) prog" where
  "perform db (ReqCreate q) = replies (db_create db q) (\<lambda>r. GotRecord (Some r))"
| "perform db (ReqFindOne q) = replies (db_findOne db q) GotRecord"
| "perform db (ReqFindMany q) = replies (db_findMany db q) GotRecords"
| "perform db (ReqCount q) = replies (db_count db q) GotCount"
| "perform db (ReqUpdate q) = replies (db_update db q) GotRecord"
| "perform db (ReqUpdateMany q) = replies (db_updateMany db q) GotCount"
| "perform db (ReqDelete q) = replies (db_delete db q) (\<lambda>_. GotNothing)"
| "perform db (ReqDeleteMany q) = replies (db_deleteMany db q) GotCount"
| "perform db (ReqConsumeOne q) = replies (db_consumeOne db q) GotRecord"
| "perform db (ReqIncrementOne q) = replies (db_incrementOne db q) GotRecord"

datatype callback = Finish "go_error option" | Request db_request "go_error + db_reply \<Rightarrow> callback"

primrec run_callback :: "'s database_adapter \<Rightarrow> callback \<Rightarrow> ('s, unit) prog" where
  "run_callback db (Finish r) = (case r of None \<Rightarrow> ret () | Some e \<Rightarrow> fail e)"
| "run_callback db (Request q k) = bindM (tryM (perform db q)) (\<lambda>r. run_callback db (k r))"

definition after_only :: "'h databaseHookRegistration list \<Rightarrow> bool" where
  "after_only hooks \<longleftrightarrow> list_all (\<lambda>rg. dh_Before (rg_hook rg) = None) hooks"

text \<open>
  Inside a transaction, a program of the hooked adapter does what a program of the next one does, keeps
  the handlers' state and only adds to the deferred list.
\<close>

definition deferred_ok :: "'h databaseHookRegistration list \<Rightarrow> 'h deferredDatabaseHook list \<Rightarrow> bool" where
  "deferred_ok hooks ds \<longleftrightarrow> list_all (\<lambda>d. df_registration d \<in> set hooks \<and>
     matches_hook (df_registration d) (df_state d) \<and> dh_After (rg_hook (df_registration d)) \<noteq> None) ds"

definition defers :: "'h databaseHookRegistration list \<Rightarrow> ('s, 'a) prog \<Rightarrow> (('s, 'h) hooked, 'a) prog \<Rightarrow> bool" where
  "defers hooks p q \<longleftrightarrow> (\<forall>w ds. hs_deferred w = Some ds \<longrightarrow>
     (\<exists>new. deferred_ok hooks new \<and> q w = (fst (p (hs_db w)), w\<lparr>hs_db := snd (p (hs_db w)), hs_deferred := Some (ds @ new)\<rparr>)))"

lemma deferred_ok_simps [simp]:
  "deferred_ok hooks []" "deferred_ok hooks (ds @ es) \<longleftrightarrow> deferred_ok hooks ds \<and> deferred_ok hooks es"
  by (simp_all add: deferred_ok_def)

lemma defersD:
  assumes "defers hooks p q" and "hs_deferred w = Some ds"
  obtains new where "deferred_ok hooks new"
    and "q w = (fst (p (hs_db w)), w\<lparr>hs_db := snd (p (hs_db w)), hs_deferred := Some (ds @ new)\<rparr>)"
  using assms unfolding defers_def by blast

lemma defers_pure: "defers hooks (lift r) (lift r)"
  unfolding defers_def lift_def by (auto intro!: exI [of _ "[]"])

lemma defers_ret: "defers hooks (ret a) (ret a)"
  using defers_pure [of hooks "Inr a"] by (simp add: ret_def lift_def)

lemma defers_bindM:
  fixes hooks :: "'h databaseHookRegistration list" and p :: "('s, 'a) prog"
  assumes "defers hooks p q" and "\<And>a. defers hooks (f a) (g a)"
  shows "defers hooks (bindM p f) (bindM q g)"
  unfolding defers_def
proof (intro allI impI)
  fix w :: "('s, 'h) hooked" and ds
  assume w: "hs_deferred w = Some ds"
  obtain r s' where p: "p (hs_db w) = (r, s')" by fastforce
  obtain new where q: "q w = (r, w\<lparr>hs_db := s', hs_deferred := Some (ds @ new)\<rparr>)" "deferred_ok hooks new"
    using defersD [OF assms(1) w] p by auto
  show "\<exists>new. deferred_ok hooks new \<and> bindM q g w = (fst (bindM p f (hs_db w)),
      w\<lparr>hs_db := snd (bindM p f (hs_db w)), hs_deferred := Some (ds @ new)\<rparr>)"
  proof (cases r)
    case (Inl e)
    with p q show ?thesis by (auto simp: bindM_def)
  next
    case (Inr a)
    obtain new' where "deferred_ok hooks new'" "g a (w\<lparr>hs_db := s', hs_deferred := Some (ds @ new)\<rparr>) =
        (fst (f a s'), w\<lparr>hs_db := snd (f a s'), hs_deferred := Some ((ds @ new) @ new')\<rparr>)"
      using defersD [OF assms(2), of "w\<lparr>hs_db := s', hs_deferred := Some (ds @ new)\<rparr>" "ds @ new" a] by auto
    with p q Inr show ?thesis by (intro exI [of _ "new @ new'"]) (simp add: bindM_def)
  qed
qed

lemma defers_tryM: "defers hooks p q \<Longrightarrow> defers hooks (tryM p) (tryM q)"
  unfolding defers_def tryM_def by (fastforce split: prod.split)

lemma defers_on_next: "defers hooks p (on_next p)"
  unfolding defers_def on_next_def by (auto split: prod.split intro!: exI [of _ "[]"])

lemma no_before: "after_only hooks \<Longrightarrow> before_hooks hooks c = ret c"
  by (induction hooks) (auto simp: after_only_def)

lemma defers_after:
  fixes hooks :: "'h databaseHookRegistration list"
  assumes "set rgs \<subseteq> set hooks"
  shows "defers hooks (ret () :: ('s, unit) prog) (after_hooks rgs c)"
  using assms
proof (induction rgs)
  case Nil
  show ?case using defers_ret by simp
next
  case (Cons rg rgs)
  then have IH: "defers hooks (ret () :: ('s, unit) prog) (after_hooks rgs c)" by simp
  show ?case
  proof (cases "matches_hook rg c \<and> dh_After (rg_hook rg) \<noteq> None")
    case True
    let ?d = "\<lparr>df_registration = rg, df_state = c\<rparr>"
    have d: "deferred_ok hooks [?d]" using True Cons.prems by (simp add: deferred_ok_def)
    show ?thesis
      unfolding defers_def
    proof (intro allI impI)
      fix w :: "('s, 'h) hooked" and ds
      assume w: "hs_deferred w = Some ds"
      obtain new where "deferred_ok hooks new"
        "after_hooks rgs c (w\<lparr>hs_deferred := Some (ds @ [?d])\<rparr>) = (Inr (), w\<lparr>hs_deferred := Some (ds @ [?d] @ new)\<rparr>)"
        using defersD [OF IH, of "w\<lparr>hs_deferred := Some (ds @ [?d])\<rparr>" "ds @ [?d]"] by (auto simp: ret_def)
      with w d True show "\<exists>new. deferred_ok hooks new \<and> after_hooks (rg # rgs) c w =
          (fst (ret () (hs_db w)), w\<lparr>hs_db := snd (ret () (hs_db w)), hs_deferred := Some (ds @ new)\<rparr>)"
        by (intro exI [of _ "[?d] @ new"])
          (auto simp: bindM_def inTransaction_def deferHook_def ret_def deferred_ok_def)
    qed
  next
    case False
    with IH show ?thesis by (auto split: option.split)
  qed
qed

lemma defers_write:
  assumes "after_only hooks" and "write c = p"
  shows "defers hooks p (hooked_write hooks c write d')"
proof -
  have "defers hooks (bindM (write c) (\<lambda>a. bindM (ret ()) (\<lambda>_. ret a)))
      (bindM (on_next (write c)) (\<lambda>a. bindM (after_hooks hooks (d' c a)) (\<lambda>_. ret a)))"
    by (intro defers_bindM defers_on_next defers_after defers_ret subset_refl)
  moreover have "bindM (write c) ret = write c"
    by (simp add: bindM_def ret_def fun_eq_iff split: prod.split sum.split)
  ultimately show ?thesis
    by (simp add: hooked_write_def no_before [OF assms(1)] assms(2))
qed

lemma defers_replies: "defers hooks p q \<Longrightarrow> defers hooks (replies p f) (replies q f)"
  unfolding replies_def by (intro defers_bindM defers_ret)

lemma defers_callback:
  assumes "after_only hooks"
  shows "defers hooks (run_callback nxt cb) (run_callback (hooked_adapter hooks nxt) cb)"
proof (induction cb)
  case (Finish r)
  show ?case using defers_pure [of hooks "case r of None \<Rightarrow> Inr () | Some e \<Rightarrow> Inl e"]
    by (cases r) (simp_all add: ret_def fail_def lift_def)
next
  case (Request q k)
  have "defers hooks (perform nxt q) (perform (hooked_adapter hooks nxt) q)"
    by (cases q) (simp_all add: hooked_adapter_def hooked_methods defers_replies defers_on_next
        defers_write [OF assms] hookContext_def)
  with Request show ?case by (auto intro!: defers_bindM defers_tryM)
qed

section \<open>Properties\<close>

text \<open>What is registered: the hooks of the plugins, under their ids.\<close>

definition registered :: "(string \<times> 'h DatabaseHook list) list \<Rightarrow> 'h databaseHookRegistration \<Rightarrow> bool" where
  "registered plugins rg \<longleftrightarrow> (\<exists>hs. (rg_pluginID rg, hs) \<in> set plugins \<and> rg_hook rg \<in> set hs)"

lemma wrapped_hooks:
  assumes "wrapDatabaseHooks plugins nxt = Inr (Some db)"
  obtains rgs where "db = hooked_adapter rgs nxt" and "\<forall>rg\<in>set rgs. registered plugins rg"
proof -
  obtain rgs where rgs: "foldE (\<lambda>rgs (pluginID, hooks). foldE (register_hook pluginID) rgs hooks) [] plugins = Inr rgs"
    "db = hooked_adapter rgs nxt"
    using assms by (auto simp: wrapDatabaseHooks_def split: sum.splits list.splits)
  have "\<forall>rg\<in>set rgs. registered plugins rg"
  proof (rule foldE_invariant [where P = "\<lambda>rgs. \<forall>rg\<in>set rgs. registered plugins rg", OF rgs(1)])
    fix acc x res
    assume x: "x \<in> set plugins" and acc: "\<forall>rg\<in>set acc. registered plugins rg"
      and fold: "(case x of (pluginID, hooks) \<Rightarrow> foldE (register_hook pluginID) acc hooks) = Inr res"
    obtain pid hs where px: "x = (pid, hs)" by fastforce
    show "\<forall>rg\<in>set res. registered plugins rg"
    proof (rule foldE_invariant [where P = "\<lambda>rgs. \<forall>rg\<in>set rgs. registered plugins rg" and acc = acc and xs = hs])
      show "foldE (register_hook pid) acc hs = Inr res" using fold px by simp
      show "\<forall>rg\<in>set b. registered plugins rg"
        if "h \<in> set hs" "\<forall>rg\<in>set a. registered plugins rg" "register_hook pid a h = Inr b" for a h b
      proof -
        have "registered plugins \<lparr>rg_pluginID = pid, rg_hook = h\<rparr>"
          unfolding registered_def by (rule exI [of _ hs]) (use that(1) x px in simp)
        with that(2,3) show ?thesis by (auto simp: register_hook_def split: sum.splits)
      qed
    qed (rule acc)
  qed simp
  with rgs(2) that show thesis by blast
qed

text \<open>
  C14. Hooks that only watch are invisible to the store: when every \<open>Before\<close> handler leaves the write
  as it is and every handler returns without an error, any calls of the store through the hooked adapter
  give, call by call, the results and errors the next adapter gives, and leave the database it leaves.
\<close>

theorem watching_hooks_transparent:
  assumes "wrapDatabaseHooks plugins nxt = Inr (Some db)"
    and "\<And>rg. registered plugins rg \<Longrightarrow> observer rg" and "hs_deferred w = None"
  shows "let w' = run_calls db cs w in
    hs_db w' = run_calls nxt cs (hs_db w) \<and>
    (fst (run_call db c w'), hs_db (snd (run_call db c w'))) = run_call nxt c (hs_db w') \<and>
    (fst (SessionByTokenHash db th w'), hs_db (snd (SessionByTokenHash db th w'))) = SessionByTokenHash nxt th (hs_db w')"
proof -
  obtain rgs where db: "db = hooked_adapter rgs nxt" and reg: "\<forall>rg\<in>set rgs. registered plugins rg"
    using wrapped_hooks [OF assms(1)] .
  then have obs: "observing_hooks rgs" using assms(2) by unfold_locales blast
  have w: "deferred_of rgs w" using assms(3) by (simp add: deferred_of_def)
  have fits: "call_fits (\<lambda>_. UNIV) k" for k by (simp add: call_fits_def split: store_call.split)
  have calls: "run_calls nxt cs (hs_db w) = hs_db (run_calls db cs w) \<and> deferred_of rgs (run_calls db cs w)"
    unfolding db by (rule observing_hooks.run_calls [OF obs]) (use w fits in auto)
  note sims = observing_hooks.run_call [OF obs fits, of nxt c] observing_hooks.session_lookup [OF obs, of nxt th]
  from calls simulatesD [OF sims(1)] simulatesD [OF sims(2)] show ?thesis
    by (simp add: Let_def db)
qed

text \<open>A plugin that writes down the models of the rows it sees, before and after.\<close>

definition ex_watch :: "string list DatabaseHookHandler" where
  "ex_watch c h = (HookReturned c, hc_Model c # h)"

definition ex_watcher :: "string list DatabaseHook" where
  "ex_watcher = \<lparr>dh_Model = ''*'', dh_Operations = [], dh_Before = Some ex_watch, dh_After = Some ex_watch\<rparr>"

lemma ex_watching: "observer \<lparr>rg_pluginID = pid, rg_hook = ex_watcher\<rparr>"
  by (simp add: observer_def ex_watcher_def watches_def returns_def ex_watch_def)

interpretation watching_example: observing_hooks "[\<lparr>rg_pluginID = ''audit'', rg_hook = ex_watcher\<rparr>]" core_db
  by unfold_locales (simp add: ex_watching)

lemma ex_wrap_hooks:
  "wrapDatabaseHooks [(''audit'', [ex_watcher])] nxt =
     Inr (Some (hooked_adapter [\<lparr>rg_pluginID = ''audit'', rg_hook = ex_watcher\<rparr>] nxt))"
  by (simp add: wrapDatabaseHooks_def register_hook_def check_hook_def ex_watcher_def)

theorem watching_hooks_transparent_witness:
  "hs_db (run_calls (hooked_adapter [\<lparr>rg_pluginID = ''audit'', rg_hook = ex_watcher\<rparr>] core_db)
      [CallRevokeUserSessions ''u1'' 5] \<lparr>hs_db = ex_state, hs_app = [], hs_deferred = None\<rparr>) =
   run_calls core_db [CallRevokeUserSessions ''u1'' 5] ex_state"
  using watching_hooks_transparent [OF ex_wrap_hooks, of "\<lparr>hs_db = ex_state, hs_app = [], hs_deferred = None\<rparr>" core_db
      "[CallRevokeUserSessions ''u1'' 5]"]
  by (simp add: registered_def observer_def ex_watcher_def watches_def returns_def ex_watch_def Let_def)

lemma deferred_db: "hs_db (snd (run_deferred ds w)) = hs_db w"
proof (induction ds arbitrary: w)
  case (Cons d ds)
  show ?case
  proof (cases "dh_After (rg_hook (df_registration d))")
    case (Some h)
    obtain r v where call: "callDatabaseHook (df_registration d) h (df_state d) w = (r, v)" by fastforce
    then have "hs_db v = hs_db w" by (auto simp: callDatabaseHook_def split: prod.splits)
    with Some call Cons.IH [of v] show ?thesis by (cases r) (simp_all add: bindM_def mapErr_def)
  qed (use Cons in simp)
qed (simp add: ret_def)

text \<open>
  C13. An \<open>After\<close> hook runs only behind a commit. With hooks that have no \<open>Before\<close> handler, a transaction
  of any callback changes the database exactly as it does without hooks, and ends in the same error where
  it or the commit fails; then no handler has run. Where it commits, the handlers the callback's writes
  deferred, each of a hook that matches its write, run in order, and an error of theirs is reported but
  undoes nothing.
\<close>

theorem after_hooks_follow_commit:
  assumes "after_only hooks" and "hs_deferred w = None"
    and "Transaction nxt (run_callback nxt cb) (hs_db w) = (r, s')"
    and "Transaction (hooked_adapter hooks nxt) (run_callback (hooked_adapter hooks nxt) cb) w = (r', w')"
  shows "(\<exists>e. r = Inl e \<and> r' = Inl e \<and> w' = w\<lparr>hs_db := s'\<rparr>) \<or>
    (r = Inr () \<and> hs_db w' = s' \<and> (\<exists>ds. deferred_ok hooks ds \<and>
      hs_deferred (snd (run_callback (hooked_adapter hooks nxt) cb (hk_begin nxt w))) = Some ds \<and>
      run_deferred ds (w\<lparr>hs_db := s'\<rparr>) = (r', w')))"
proof -
  let ?b = "hk_begin nxt w"
  obtain r1 t where cb: "run_callback nxt cb (db_begin nxt (hs_db w)) = (r1, t)" by fastforce
  have "hs_deferred ?b = Some []" using assms(2) by (simp add: hk_begin_def)
  then obtain ds where ds: "deferred_ok hooks ds"
    and hcb: "run_callback (hooked_adapter hooks nxt) cb ?b = (r1, ?b\<lparr>hs_db := t, hs_deferred := Some ds\<rparr>)"
    using defersD [OF defers_callback [OF assms(1)], of ?b "[]" nxt cb] cb by (auto simp: hk_begin_def)
  have same: "?b\<lparr>hs_db := u, hs_deferred := None\<rparr> = w\<lparr>hs_db := u\<rparr>" for u
    using assms(2) by (simp add: hk_begin_def)
  show ?thesis
  proof (cases r1)
    case (Inl e)
    have "hk_rollback nxt w (?b\<lparr>hs_db := t, hs_deferred := Some ds\<rparr>) = w\<lparr>hs_db := db_rollback nxt (hs_db w) t\<rparr>"
      using assms(2) same by (simp add: hk_rollback_def)
    moreover have "r = Inl e" "s' = db_rollback nxt (hs_db w) t"
      using assms(3) cb Inl by (simp_all add: Transaction_def)
    moreover have "r' = Inl e" "w' = hk_rollback nxt w (?b\<lparr>hs_db := t, hs_deferred := Some ds\<rparr>)"
      using assms(4) hcb Inl by (simp_all add: Transaction_def hooked_sel)
    ultimately show ?thesis by simp
  next
    case (Inr u)
    obtain r2 v where commit: "db_commit nxt (hs_db w) t = (r2, v)" by fastforce
    have hcommit: "hk_commit nxt w (?b\<lparr>hs_db := t, hs_deferred := Some ds\<rparr>) =
        (case r2 of Inl e \<Rightarrow> (Inl e, w\<lparr>hs_db := v\<rparr>) | Inr _ \<Rightarrow> run_deferred ds (w\<lparr>hs_db := v\<rparr>))"
      using assms(2) same commit by (cases r2) (simp_all add: hk_commit_def Let_def)
    obtain r3 w3 where run: "run_deferred ds (w\<lparr>hs_db := v\<rparr>) = (r3, w3)" by fastforce
    with deferred_db [of ds "w\<lparr>hs_db := v\<rparr>"] have "hs_db w3 = v" by simp
    moreover have "(r, s') = (case r2 of Inl e \<Rightarrow> (Inl e, v) | Inr _ \<Rightarrow> (Inr (), v))"
      unfolding assms(3) [symmetric] by (cases r2) (simp_all add: Transaction_def cb Inr commit)
    moreover have "(r', w') = (case r2 of Inl e \<Rightarrow> (Inl e, w\<lparr>hs_db := v\<rparr>)
        | Inr _ \<Rightarrow> (case r3 of Inl e \<Rightarrow> (Inl e, w3) | Inr _ \<Rightarrow> (Inr (), w3)))"
      unfolding assms(4) [symmetric]
      by (cases r2; cases r3) (simp_all add: Transaction_def hooked_sel hcb Inr hcommit run)
    ultimately show ?thesis using run ds hcb by (cases r2; cases r3) simp_all
  qed
qed

text \<open>A callback that deletes the user's sessions and fails, and one that succeeds.\<close>

definition ex_deleting :: "go_error option \<Rightarrow> callback" where
  "ex_deleting result = Request (ReqDeleteMany (deleteQ ModelSession [Eq ''userId'' (VStr ''u1'')])) (\<lambda>_. Finish result)"

definition ex_after :: "string list databaseHookRegistration" where
  "ex_after = \<lparr>rg_pluginID = ''audit'', rg_hook = ex_watcher\<lparr>dh_Before := None\<rparr>\<rparr>"

theorem after_hooks_follow_commit_witness:
  "\<exists>r w'. Transaction (hooked_adapter [ex_after] core_db)
      (run_callback (hooked_adapter [ex_after] core_db) (ex_deleting None))
      \<lparr>hs_db = ex_state, hs_app = [], hs_deferred = None\<rparr> = (r, w') \<and>
    hs_db w' = snd (Transaction core_db (run_callback core_db (ex_deleting None)) ex_state)"
proof -
  let ?w = "\<lparr>hs_db = ex_state, hs_app = [] :: string list, hs_deferred = None\<rparr>"
  obtain r s' where plain: "Transaction core_db (run_callback core_db (ex_deleting None)) (hs_db ?w) = (r, s')" by fastforce
  obtain r' w' where hooked: "Transaction (hooked_adapter [ex_after] core_db)
      (run_callback (hooked_adapter [ex_after] core_db) (ex_deleting None)) ?w = (r', w')" by fastforce
  have "after_only [ex_after]" "hs_deferred ?w = None" by (simp_all add: after_only_def ex_after_def)
  from after_hooks_follow_commit [OF this plain hooked] have "hs_db w' = s'" by auto
  with plain hooked show ?thesis by auto
qed

end
