(* ===== verification/Plugin_Routes.thy ===== *)
theory Plugin_Routes
  imports Trusted_Origins
begin

text \<open>
  The routes of plugin endpoints, \<open>plugin.go\<close>: the syntax of ids, paths and templates, matching a
  request path, and the check for overlapping templates. A path is split at its slashes after the
  leading one.
\<close>

section \<open>Names and paths\<close>

definition lower_or_digit :: "char \<Rightarrow> bool" where
  "lower_or_digit c \<longleftrightarrow> (CHR ''a'' \<le> c \<and> c \<le> CHR ''z'') \<or> (CHR ''0'' \<le> c \<and> c \<le> CHR ''9'')"

definition upper_char :: "char \<Rightarrow> bool" where
  "upper_char c \<longleftrightarrow> CHR ''A'' \<le> c \<and> c \<le> CHR ''Z''"

definition validPluginID :: "string \<Rightarrow> bool" where
  "validPluginID value \<longleftrightarrow>
     (if value = '''' \<or> length value > 64 then False
      else list_all (\<lambda>c. lower_or_digit c \<or> c = CHR ''-'') value)"

definition validLiteralPathSegment :: "string \<Rightarrow> bool \<Rightarrow> bool" where
  "validLiteralPathSegment value allowNonKebab \<longleftrightarrow>
     (if value = '''' \<or> length value > 128 then False
      else list_all (\<lambda>c. allowNonKebab \<and> upper_char c \<or> lower_or_digit c \<or> c = CHR ''-'') value)"

definition validPathParameter :: "string \<Rightarrow> bool" where
  "validPathParameter value \<longleftrightarrow>
     (if value = '''' \<or> length value > 64 then False
      else list_all (\<lambda>c. lower_or_digit c \<or> upper_char c \<or> c = CHR ''_'') value)"

text \<open>\<open>strings.TrimPrefix\<close>, and \<open>strings.Split\<close> of a path at its slashes.\<close>

definition TrimPrefix :: "string \<Rightarrow> string \<Rightarrow> string" where
  "TrimPrefix s p = (if HasPrefix s p then drop (length p) s else s)"

definition path_segments :: "string \<Rightarrow> string list" where
  "path_segments path = SplitOn (CHR ''/'') (TrimPrefix path ''/'')"

text \<open>
  \<open>cleanAbsolutePath\<close>: \<open>path.Clean\<close> of a rooted path drops empty segments and dots and lets
  \<open>..\<close> take away the segment before it; a trailing slash, also that of the root, goes.
\<close>

fun clean_segments :: "string list \<Rightarrow> string list \<Rightarrow> string list" where
  "clean_segments stack [] = rev stack"
| "clean_segments stack (seg # segs) =
     (if seg = '''' \<or> seg = ''.'' then clean_segments stack segs
      else if seg = ''..'' then clean_segments (drop 1 stack) segs
      else clean_segments (seg # stack) segs)"

definition cleanAbsolutePath :: "string \<Rightarrow> string" where
  "cleanAbsolutePath value = concat (map (\<lambda>seg. ''/'' @ seg) (clean_segments [] (SplitOn (CHR ''/'') value)))"

section \<open>Templates\<close>

text \<open>The shape of a template, and whether it has a parameter; the loop over its segments.\<close>

fun shape_segments :: "bool \<Rightarrow> string list \<Rightarrow> go_error + string list \<times> bool" where
  "shape_segments allowNonKebab [] = Inr ([], False)"
| "shape_segments allowNonKebab (segment # segs) =
     (let continue = (\<lambda>seg dyn. case shape_segments allowNonKebab segs of
            Inl e \<Rightarrow> Inl e | Inr (shape, dynamic) \<Rightarrow> Inr (seg # shape, dyn \<or> dynamic)) in
      if HasPrefix segment '':'' then
        (if \<not> validPathParameter (TrimPrefix segment '':'') then Inl (ErrText ''invalid path parameter'')
         else continue '':'' True)
      else if HasPrefix segment ''*'' then
        (if segs \<noteq> [] \<or> \<not> validPathParameter (TrimPrefix segment ''*'') then Inl (ErrText ''invalid wildcard parameter'')
         else continue ''*'' True)
      else if \<not> validLiteralPathSegment segment allowNonKebab then Inl (ErrText ''invalid literal path segment'')
      else continue segment False)"

definition pluginPathShape :: "string \<Rightarrow> bool \<Rightarrow> go_error + string \<times> bool" where
  "pluginPathShape path allowNonKebab =
     (case shape_segments allowNonKebab (path_segments path) of
        Inl e \<Rightarrow> Inl e
      | Inr (shape, dynamic) \<Rightarrow> Inr (''/'' @ Join shape ''/'', dynamic))"

text \<open>
  \<open>matchPluginPath\<close>: the parameters of a path that a template matches. A wildcard takes what is
  left, which may be nothing; of two parameters with one name the later one counts.
\<close>

fun match_segments ::
  "(string \<times> string) list \<Rightarrow> string list \<Rightarrow> string list \<Rightarrow> (string \<times> string) list option" where
  "match_segments params [] path = (if path = [] then Some params else None)"
| "match_segments params (t # ts) path =
     (if HasPrefix t ''*'' then Some (put (TrimPrefix t ''*'') (Join path ''/'') params)
      else case path of
        [] \<Rightarrow> None
      | p # ps \<Rightarrow>
          if HasPrefix t '':'' then
            (if p = [] then None else match_segments (put (TrimPrefix t '':'') p params) ts ps)
          else if t \<noteq> p then None
          else match_segments params ts ps)"

definition matchPluginPath :: "string \<Rightarrow> string \<Rightarrow> (string \<times> string) list option" where
  "matchPluginPath template path = match_segments [] (path_segments template) (path_segments path)"

fun overlap_segments :: "string list \<Rightarrow> string list \<Rightarrow> bool" where
  "overlap_segments (a # as) (b # bs) \<longleftrightarrow>
     (if HasPrefix a ''*'' \<or> HasPrefix b ''*'' then True
      else if \<not> HasPrefix a '':'' \<and> \<not> HasPrefix b '':'' \<and> a \<noteq> b then False
      else overlap_segments as bs)"
| "overlap_segments as bs \<longleftrightarrow> length as = length bs"

definition templatesOverlap :: "string \<Rightarrow> string \<Rightarrow> bool" where
  "templatesOverlap first second = overlap_segments (path_segments first) (path_segments second)"

section \<open>Overlapping templates\<close>

text \<open>Whether a template matches does not depend on the parameters read so far.\<close>

fun matches_segments :: "string list \<Rightarrow> string list \<Rightarrow> bool" where
  "matches_segments [] path \<longleftrightarrow> path = []"
| "matches_segments (t # ts) path \<longleftrightarrow>
     HasPrefix t ''*'' \<or>
     (case path of [] \<Rightarrow> False
      | p # ps \<Rightarrow> (if HasPrefix t '':'' then p \<noteq> [] else t = p) \<and> matches_segments ts ps)"

lemma match_segments_iff: "match_segments params ts path \<noteq> None \<longleftrightarrow> matches_segments ts path"
  by (induction params ts path rule: match_segments.induct) (auto split: list.splits)

text \<open>
  Two templates that the check tells apart match no common path, but for one case: the other template
  ends exactly where the wildcard of one begins.
\<close>

definition wildcard_tail :: "string list \<Rightarrow> string list \<Rightarrow> string list \<Rightarrow> bool" where
  "wildcard_tail as bs path \<longleftrightarrow>
     length path = length bs \<and> length bs < length as \<and> HasPrefix (as ! length bs) ''*''"

lemma overlap_segments_complete:
  assumes "matches_segments as path" "matches_segments bs path" "\<not> overlap_segments as bs"
  shows "wildcard_tail as bs path \<or> wildcard_tail bs as path"
  using assms
proof (induction as bs arbitrary: path rule: overlap_segments.induct)
  case (1 a as b bs)
  then obtain p ps where path: "path = p # ps" by (auto split: if_splits list.splits)
  have "wildcard_tail as bs ps \<or> wildcard_tail bs as ps"
    using 1 path by (auto split: if_splits)
  then show ?case by (auto simp: wildcard_tail_def path)
qed (auto simp: wildcard_tail_def neq_Nil_conv)

end
