(* ===== verification/Validation.thy ===== *)
theory Validation
  imports Prelude
begin

text \<open>
  The input validators of plugin endpoints, \<open>validation.go\<close>: the strict object validator, its checks
  at construction, and the validation of a decoded body or query.
\<close>

section \<open>Values\<close>

text \<open>
  A value of Go's \<open>any\<close> as the validators see it: what \<open>encoding/json\<close> decodes with
  \<open>UseNumber\<close>, a \<open>float64\<close>, a list of strings, and \<open>url.Values\<close>. A map is an association list in
  the order a \<open>range\<close> visits it. The class of a number is what its conversion to \<open>float64\<close> gives.
\<close>

datatype number_class = NotFinite | Fraction | Whole

datatype any =
    ANil | ABool bool | AString string | ANumber string | AFloat number_class
  | AObject "(string \<times> any) list" | AArray "any list" | AStrings "string list"
  | AValues "(string \<times> string list) list"

section \<open>Rules\<close>

datatype ValidationKind =
    ValidationString | ValidationNumber | ValidationInteger | ValidationBoolean | ValidationObject
  | ValidationArray | ValidationOther string

record FieldValidation =
  fv_Kind :: ValidationKind
  fv_Required :: bool
  fv_Nullable :: bool
  fv_MinLength :: int
  fv_MaxLength :: int
  fv_Enum :: "string list"

record ObjectValidator =
  ov_Fields :: "(string \<times> FieldValidation) list"
  ov_AllowUnknown :: bool

definition bad_bounds :: "FieldValidation \<Rightarrow> bool" where
  "bad_bounds rule \<longleftrightarrow> fv_MinLength rule < 0 \<or> fv_MaxLength rule < 0 \<or>
     (fv_MaxLength rule > 0 \<and> fv_MaxLength rule < fv_MinLength rule)"

fun known_kind :: "ValidationKind \<Rightarrow> bool" where
  "known_kind (ValidationOther s) \<longleftrightarrow> False"
| "known_kind k \<longleftrightarrow> True"

fun configuration_error :: "(string \<times> FieldValidation) list \<Rightarrow> go_error option" where
  "configuration_error [] = None"
| "configuration_error ((name, rule) # frs) =
     (if name = '''' then Some (ErrText ''validator field name is empty'')
      else if \<not> known_kind (fv_Kind rule) then Some (ErrText ''field has an invalid validator kind'')
      else if bad_bounds rule then Some (ErrText ''field has invalid length bounds'')
      else if fv_Enum rule \<noteq> [] \<and> fv_Kind rule \<noteq> ValidationString
      then Some (ErrText ''field has an enum on a non-string rule'')
      else configuration_error frs)"

definition ValidateConfiguration :: "ObjectValidator \<Rightarrow> go_error option" where
  "ValidateConfiguration validator = configuration_error (ov_Fields validator)"

section \<open>Fields\<close>

text \<open>
  \<open>finiteNumber\<close>; \<open>parse\<close> stands for \<open>strconv.ParseFloat\<close>, with \<open>None\<close> for its error.
\<close>

definition finiteNumber :: "(string \<Rightarrow> number_class option) \<Rightarrow> any \<Rightarrow> number_class option" where
  "finiteNumber parse v =
     (let finite = (\<lambda>n. if n = NotFinite then None else Some n) in
      case v of
        ANumber s \<Rightarrow> Option.bind (parse s) finite
      | AFloat n \<Rightarrow> finite n
      | AString s \<Rightarrow> Option.bind (parse s) finite
      | _ \<Rightarrow> None)"

definition bad_length :: "FieldValidation \<Rightarrow> nat \<Rightarrow> bool" where
  "bad_length rule n \<longleftrightarrow> int n < fv_MinLength rule \<or> fv_MaxLength rule > 0 \<and> int n > fv_MaxLength rule"

definition validateField :: "(string \<Rightarrow> number_class option) \<Rightarrow> any \<Rightarrow> FieldValidation \<Rightarrow> go_error option" where
  "validateField parse v rule =
     (if bad_bounds rule then Some (ErrText ''field has an invalid validator'')
      else case fv_Kind rule of
        ValidationString \<Rightarrow>
          (case v of
             AString text \<Rightarrow>
               if bad_length rule (length text) then Some (ErrText ''field has an invalid length'')
               else if fv_Enum rule \<noteq> [] \<and> text \<notin> set (fv_Enum rule)
               then Some (ErrText ''field is not an allowed value'')
               else None
           | _ \<Rightarrow> Some (ErrText ''field must be a string''))
      | ValidationNumber \<Rightarrow>
          (if finiteNumber parse v = None then Some (ErrText ''field must be a number'') else None)
      | ValidationInteger \<Rightarrow>
          (if finiteNumber parse v \<noteq> Some Whole then Some (ErrText ''field must be a integer'') else None)
      | ValidationBoolean \<Rightarrow>
          (case v of
             ABool b \<Rightarrow> None
           | AString text \<Rightarrow>
               if text \<noteq> ''true'' \<and> text \<noteq> ''false'' then Some (ErrText ''field must be a boolean'') else None
           | _ \<Rightarrow> Some (ErrText ''field must be a boolean''))
      | ValidationObject \<Rightarrow>
          (case v of AObject m \<Rightarrow> None | _ \<Rightarrow> Some (ErrText ''field must be an object''))
      | ValidationArray \<Rightarrow>
          (case v of
             AArray vs \<Rightarrow> if bad_length rule (length vs) then Some (ErrText ''field has an invalid length'') else None
           | AStrings vs \<Rightarrow> if bad_length rule (length vs) then Some (ErrText ''field has an invalid length'') else None
           | _ \<Rightarrow> Some (ErrText ''field must be an array''))
      | ValidationOther k \<Rightarrow> Some (ErrText ''field has an invalid validator kind''))"

section \<open>Objects\<close>

definition query_value :: "string list \<Rightarrow> any" where
  "query_value values = (case values of [] \<Rightarrow> AString '''' | [v] \<Rightarrow> AString v | _ \<Rightarrow> AStrings values)"

definition validationObject :: "any \<Rightarrow> go_error + (string \<times> any) list" where
  "validationObject v =
     (case v of
        AObject input \<Rightarrow> Inr input
      | AValues input \<Rightarrow> Inr (map (\<lambda>(key, values). (key, query_value values)) input)
      | ANil \<Rightarrow> Inr []
      | _ \<Rightarrow> Inl (ErrText ''input must be an object''))"

fun validate_fields ::
  "(string \<Rightarrow> number_class option) \<Rightarrow> (string \<times> any) list \<Rightarrow> (string \<times> FieldValidation) list \<Rightarrow> go_error option" where
  "validate_fields parse object [] = None"
| "validate_fields parse object ((name, rule) # frs) =
     (case map_of object name of
        None \<Rightarrow> if fv_Required rule then Some (ErrText ''field is required'') else validate_fields parse object frs
      | Some field \<Rightarrow>
          if field = ANil \<and> fv_Nullable rule then validate_fields parse object frs
          else (case validateField parse field rule of
                  Some err \<Rightarrow> Some err
                | None \<Rightarrow> validate_fields parse object frs))"

definition Validate :: "(string \<Rightarrow> number_class option) \<Rightarrow> ObjectValidator \<Rightarrow> any \<Rightarrow> go_error option" where
  "Validate parse validator v =
     (case validationObject v of
        Inl err \<Rightarrow> Some err
      | Inr object \<Rightarrow>
          (case validate_fields parse object (ov_Fields validator) of
             Some err \<Rightarrow> Some err
           | None \<Rightarrow>
               if \<not> ov_AllowUnknown validator \<and>
                  list_ex (\<lambda>(name, _). map_of (ov_Fields validator) name = None) object
               then Some (ErrText ''field is not allowed'') else None))"

text \<open>
  \<open>EndpointValidator\<close>: the object validator, by value or by pointer, or a function; one that panics
  is an error of the validation.
\<close>

datatype EndpointValidator = ValidatorObject ObjectValidator | ValidatorFunc "any \<Rightarrow> go_error option option"

text \<open>The optional \<open>ValidateConfiguration\<close> of a validator, tried at construction.\<close>

definition validator_configuration :: "EndpointValidator \<Rightarrow> go_error option" where
  "validator_configuration v = (case v of ValidatorObject ov \<Rightarrow> ValidateConfiguration ov | ValidatorFunc f \<Rightarrow> None)"

definition safelyValidateEndpoint ::
  "(string \<Rightarrow> number_class option) \<Rightarrow> EndpointValidator \<Rightarrow> any \<Rightarrow> go_error option" where
  "safelyValidateEndpoint parse validator v =
     (case validator of
        ValidatorObject ov \<Rightarrow> Validate parse ov v
      | ValidatorFunc f \<Rightarrow>
          (case f v of None \<Rightarrow> Some (ErrText ''betterauth: endpoint validator panic'') | Some r \<Rightarrow> r))"

definition validatePluginEndpointInput ::
  "(string \<Rightarrow> number_class option) \<Rightarrow> EndpointValidator option \<Rightarrow> EndpointValidator option \<Rightarrow>
   go_error option \<Rightarrow> any \<Rightarrow> any \<Rightarrow> go_error option" where
  "validatePluginEndpointInput parse bodyValidator queryValidator bodyDecodeError body query =
     (let invalid = (\<lambda>err. publicError CodeBadRequest ''Invalid endpoint input.'' 400 (Some err));
          body_error = (case bodyValidator of
            None \<Rightarrow> None
          | Some v \<Rightarrow>
              (case bodyDecodeError of
                 Some err \<Rightarrow> Some (invalid err)
               | None \<Rightarrow> map_option invalid (safelyValidateEndpoint parse v body))) in
      case body_error of
        Some err \<Rightarrow> Some err
      | None \<Rightarrow>
          (case queryValidator of
             None \<Rightarrow> None
           | Some v \<Rightarrow> map_option invalid (safelyValidateEndpoint parse v query)))"

section \<open>What is accepted\<close>

text \<open>The values a field rule describes, and the objects a validator describes.\<close>

definition length_within :: "FieldValidation \<Rightarrow> nat \<Rightarrow> bool" where
  "length_within rule n \<longleftrightarrow> fv_MinLength rule \<le> int n \<and> (fv_MaxLength rule = 0 \<or> int n \<le> fv_MaxLength rule)"

fun has_kind :: "(string \<Rightarrow> number_class option) \<Rightarrow> ValidationKind \<Rightarrow> any \<Rightarrow> bool" where
  "has_kind parse ValidationString v \<longleftrightarrow> (\<exists>s. v = AString s)"
| "has_kind parse ValidationNumber v \<longleftrightarrow> finiteNumber parse v \<in> {Some Fraction, Some Whole}"
| "has_kind parse ValidationInteger v \<longleftrightarrow> finiteNumber parse v = Some Whole"
| "has_kind parse ValidationBoolean v \<longleftrightarrow> (\<exists>b. v = ABool b) \<or> v \<in> {AString ''true'', AString ''false''}"
| "has_kind parse ValidationObject v \<longleftrightarrow> (\<exists>m. v = AObject m)"
| "has_kind parse ValidationArray v \<longleftrightarrow> (\<exists>vs. v = AArray vs) \<or> (\<exists>vs. v = AStrings vs)"
| "has_kind parse (ValidationOther k) v \<longleftrightarrow> False"

fun any_length :: "any \<Rightarrow> nat" where
  "any_length (AString s) = length s"
| "any_length (AArray vs) = length vs"
| "any_length (AStrings vs) = length vs"
| "any_length _ = 0"

definition field_accepts :: "(string \<Rightarrow> number_class option) \<Rightarrow> FieldValidation \<Rightarrow> any \<Rightarrow> bool" where
  "field_accepts parse rule v \<longleftrightarrow>
     has_kind parse (fv_Kind rule) v \<and>
     (fv_Kind rule \<in> {ValidationString, ValidationArray} \<longrightarrow> length_within rule (any_length v)) \<and>
     (fv_Kind rule = ValidationString \<and> fv_Enum rule \<noteq> [] \<longrightarrow> v \<in> AString ` set (fv_Enum rule))"

definition object_accepts ::
  "(string \<Rightarrow> number_class option) \<Rightarrow> ObjectValidator \<Rightarrow> (string \<times> any) list \<Rightarrow> bool" where
  "object_accepts parse validator object \<longleftrightarrow>
     (\<forall>(name, rule) \<in> set (ov_Fields validator).
        case map_of object name of
          None \<Rightarrow> \<not> fv_Required rule
        | Some v \<Rightarrow> (v = ANil \<and> fv_Nullable rule) \<or> field_accepts parse rule v) \<and>
     (ov_AllowUnknown validator \<or> fst ` set object \<subseteq> fst ` set (ov_Fields validator))"

lemma configuration_good:
  "configuration_error frs = None \<Longrightarrow> (name, rule) \<in> set frs \<Longrightarrow> known_kind (fv_Kind rule) \<and> \<not> bad_bounds rule"
  by (induction frs rule: configuration_error.induct) (auto split: if_splits)

lemma length_bounds: "\<not> bad_bounds rule \<Longrightarrow> bad_length rule n \<longleftrightarrow> \<not> length_within rule n"
  by (auto simp: bad_bounds_def bad_length_def length_within_def)

lemma finite_classes: "finiteNumber parse v = None \<longleftrightarrow> finiteNumber parse v \<notin> {Some Fraction, Some Whole}"
  by (cases "finiteNumber parse v"; cases "the (finiteNumber parse v)")
    (auto simp: finiteNumber_def Let_def bind_eq_Some_conv split: any.splits if_splits)

lemma validateField_iff:
  assumes "\<not> bad_bounds rule"
  shows "validateField parse v rule = None \<longleftrightarrow> field_accepts parse rule v"
proof (cases "fv_Kind rule")
  case ValidationNumber
  then show ?thesis using assms finite_classes [of parse v] by (auto simp: validateField_def field_accepts_def)
qed (use assms in \<open>auto simp: validateField_def field_accepts_def length_bounds image_iff split: any.splits\<close>)

lemma validate_fields_iff:
  assumes "\<And>name rule. (name, rule) \<in> set frs \<Longrightarrow> \<not> bad_bounds rule"
  shows "validate_fields parse object frs = None \<longleftrightarrow>
    (\<forall>(name, rule) \<in> set frs.
        case map_of object name of
          None \<Rightarrow> \<not> fv_Required rule
        | Some v \<Rightarrow> (v = ANil \<and> fv_Nullable rule) \<or> field_accepts parse rule v)"
  using assms
proof (induction frs rule: validate_fields.induct)
  case (2 parse object name rule frs)
  have this_good: "\<not> bad_bounds rule" using 2(4) by (meson list.set_intros(1))
  have good: "\<And>name rule. (name, rule) \<in> set frs \<Longrightarrow> \<not> bad_bounds rule"
    using 2(4) by (meson list.set_intros(2))
  note field = validateField_iff [OF this_good, of parse]
  show ?case
  proof (cases "map_of object name")
    case None
    then show ?thesis using 2(1) [OF None] good by simp
  next
    case (Some v)
    show ?thesis
    proof (cases "v = ANil \<and> fv_Nullable rule")
      case True
      then show ?thesis using 2(2) [OF Some True] good Some by simp
    next
      case False
      then show ?thesis
        using 2(3) [OF Some False] good Some field [of v] by (cases "validateField parse v rule") auto
    qed
  qed
qed simp

lemma unknown_field:
  fixes frs :: "(string \<times> FieldValidation) list" and object :: "(string \<times> any) list"
  shows "list_ex (\<lambda>(name, _). map_of frs name = None) object \<longleftrightarrow> \<not> fst ` set object \<subseteq> fst ` set frs"
  by (force simp: list_ex_iff map_of_eq_None_iff)

section \<open>Property\<close>

text \<open>
  C40. A validator that passed its check at construction accepts exactly the inputs its rules describe: an
  object (or no input) that has every required field, whose fields satisfy their rules or are null where
  that is allowed, and that has no other fields unless they are allowed.
\<close>

theorem validator_accepts_iff:
  assumes "ValidateConfiguration validator = None"
  shows "Validate parse validator v = None \<longleftrightarrow>
    (\<exists>object. validationObject v = Inr object \<and> object_accepts parse validator object)"
proof -
  note frs = validate_fields_iff [of "ov_Fields validator" parse, OF conjunct2 [OF configuration_good
        [OF assms [unfolded ValidateConfiguration_def]]]]
  show ?thesis
  proof (cases "validationObject v")
    case (Inr object)
    have "Validate parse validator v = None \<longleftrightarrow>
        validate_fields parse object (ov_Fields validator) = None \<and>
        (ov_AllowUnknown validator \<or> fst ` set object \<subseteq> fst ` set (ov_Fields validator))"
      by (simp add: Validate_def Inr unknown_field split: option.splits)
    then show ?thesis by (simp only: frs Inr sum.inject ex_simps simp_thms object_accepts_def)
  qed (simp add: Validate_def)
qed

text \<open>A required name of at most eight bytes, and an optional whole number.\<close>

definition ex_validator :: ObjectValidator where
  "ex_validator = \<lparr>ov_Fields = [
     (''name'', \<lparr>fv_Kind = ValidationString, fv_Required = True, fv_Nullable = False, fv_MinLength = 1,
        fv_MaxLength = 8, fv_Enum = []\<rparr>),
     (''count'', \<lparr>fv_Kind = ValidationInteger, fv_Required = False, fv_Nullable = True, fv_MinLength = 0,
        fv_MaxLength = 0, fv_Enum = []\<rparr>)], ov_AllowUnknown = False\<rparr>"

theorem validator_accepts_iff_witness:
  "object_accepts (\<lambda>_. None) ex_validator [(''name'', AString ''ann''), (''count'', ANil)]"
proof -
  have "Validate (\<lambda>_. None) ex_validator (AObject [(''name'', AString ''ann''), (''count'', ANil)]) = None"
    by (simp add: Validate_def validationObject_def ex_validator_def validateField_def bad_bounds_def bad_length_def)
  moreover have "ValidateConfiguration ex_validator = None"
    by (simp add: ValidateConfiguration_def ex_validator_def bad_bounds_def)
  ultimately show ?thesis
    using validator_accepts_iff [of ex_validator "\<lambda>_. None" "AObject [(''name'', AString ''ann''), (''count'', ANil)]"]
    by (auto simp: validationObject_def)
qed

end
