(* ===== verification/Plugins.thy ===== *)
theory Plugins
  imports Plugin_Routes Validation Server_Core
begin

text \<open>
  The plugin host of \<open>plugin.go\<close>: descriptors of plugins and of the hooks of an application, the order
  in which plugins are set up, and the compiled runtime with its checks at construction.
\<close>

section \<open>Hooks and their context\<close>

text \<open>
  An \<open>http.Header\<close> or \<open>url.Values\<close> is an association list from names to their values. A nil body is
  \<open>ANil\<close>. The capabilities of a context (database, clock, sessions, tokens) are those of the server and
  reach a hook as the world it acts on, so the record holds the fields that differ per request.
\<close>

type_synonym multimap = "(string \<times> string list) list"

record PluginResponse =
  plr_Status :: int
  plr_Headers :: multimap
  plr_Body :: string

record HookContext =
  cx_Path :: string
  cx_PluginID :: string
  cx_Params :: "(string \<times> string) list"
  cx_Headers :: multimap
  cx_Query :: multimap
  cx_Body :: any
  cx_RawBody :: "string option"
  cx_BaseURL :: string
  cx_TrustedOrigins :: "string list"
  cx_Session :: "Session option"
  cx_User :: "User option"
  cx_Response :: "PluginResponse option"
  cx_Failure :: "go_error option"
  cx_bodyDecodeError :: "go_error option"

text \<open>
  A call of a plugin: it reads and changes the context and the world and ends with a result, or with
  \<open>None\<close> when it panics.
\<close>

type_synonym ('d, 'r) plugin_call = "HookContext \<Rightarrow> 'd world \<Rightarrow> 'r option \<times> HookContext \<times> 'd world"
type_synonym 'd HookMatcher = "('d, bool) plugin_call"
type_synonym 'd RequestHook = "('d, go_error + PluginResponse option) plugin_call"
type_synonym 'd ResponseHook = "PluginResponse \<Rightarrow> ('d, go_error + PluginResponse) plugin_call"

section \<open>Descriptors\<close>

text \<open>\<open>None\<close> is Go's nil. Hooks on the database are in \<open>Database_Hooks\<close>.\<close>

record 'd PluginEndpoint =
  pe_Name :: string
  pe_Path :: string
  pe_Method :: string
  pe_SkipOriginCheck :: bool
  pe_AllowNonKebabPath :: bool
  pe_Use :: "'d RequestHook option list"
  pe_BodyValidator :: "EndpointValidator option"
  pe_QueryValidator :: "EndpointValidator option"
  pe_Handler :: "'d RequestHook option"

record 'd PluginRequestHook =
  qh_Matcher :: "'d HookMatcher option"
  qh_Handler :: "'d RequestHook option"

record 'd PluginAfterHook =
  ah_Matcher :: "'d HookMatcher option"
  ah_Handler :: "'d ResponseHook option"

record 'd PluginRateLimitRule =
  prl_Matcher :: "'d HookMatcher option"
  prl_Action :: string
  prl_AccountKey :: "('d, string) plugin_call option"
  prl_Window :: gtime
  prl_Max :: int

record 'd PluginInitContext =
  ic_PluginID :: string
  ic_BaseURL :: string
  ic_Database :: "'d database_adapter"
  ic_Schema :: Schema
  ic_TrustedOrigins :: "string list"

record PluginInitResult =
  ir_Schema :: "Schema option"
  ir_TrustedOrigins :: "string list"

type_synonym 'd PluginInit = "'d PluginInitContext \<Rightarrow> 'd \<Rightarrow> (go_error + PluginInitResult) option \<times> 'd"

record 'd Plugin =
  pl_ID :: string
  pl_Dependencies :: "string list"
  pl_Init :: "'d PluginInit option"
  pl_Schema :: "Schema option"
  pl_Endpoints :: "'d PluginEndpoint list"
  pl_Middlewares :: "'d PluginRequestHook list"
  pl_Before :: "'d PluginRequestHook list"
  pl_After :: "'d PluginAfterHook list"
  pl_OnRequest :: "'d RequestHook option"
  pl_OnResponse :: "'d ResponseHook option"
  pl_TrustedOrigins :: "string list"
  pl_RateLimits :: "'d PluginRateLimitRule list"

record 'd ServerHooks =
  sh_OnRequest :: "'d RequestHook option"
  sh_Before :: "'d PluginRequestHook list"
  sh_After :: "'d PluginAfterHook list"
  sh_OnResponse :: "'d ResponseHook option"

section \<open>The order of the plugins\<close>

text \<open>
  \<open>compilePlugins\<close>: ids are trimmed for the tables \<open>byID\<close> and \<open>index\<close> and must be valid and
  distinct; then every plugin, under the id it was configured with, is visited after its dependencies. The
  visit carries the marks (0 not seen, 1 on the path, 2 finished) and the plugins in order.
\<close>

record 'd visit_state =
  vs_visited :: "string \<Rightarrow> nat"
  vs_ordered :: "'d Plugin list"

fun register_plugins ::
  "(string \<times> 'd Plugin) list \<Rightarrow> 'd Plugin list \<Rightarrow> go_error + (string \<times> 'd Plugin) list" where
  "register_plugins byID [] = Inr byID"
| "register_plugins byID (plugin # plugins) =
     (let pid = TrimSpace (pl_ID plugin) in
      if \<not> validPluginID pid then Inl (ErrText ''betterauth: invalid plugin id'')
      else if map_of byID pid \<noteq> None then Inl (ErrText ''betterauth: duplicate plugin id'')
      else register_plugins (byID @ [(pid, plugin\<lparr>pl_ID := pid\<rparr>)]) plugins)"

text \<open>The table \<open>index\<close>; an absent key reads as zero.\<close>

fun index_of :: "(string \<times> 'a) list \<Rightarrow> string \<Rightarrow> nat" where
  "index_of [] k = 0"
| "index_of ((a, b) # m) k = (if a = k then 0 else if k \<in> fst ` set m then Suc (index_of m k) else 0)"

text \<open>
  The recursion of \<open>visit\<close> and its loop over the dependencies, with fuel; \<open>None\<close> is a visit that
  ran out of it. \<open>compilePlugins_total\<close> shows that one more than the number of plugins is enough.
\<close>

fun visit ::
  "nat \<Rightarrow> (string \<times> 'd Plugin) list \<Rightarrow> string \<Rightarrow> 'd visit_state \<Rightarrow> (go_error + 'd visit_state) option"
and visit_all ::
  "nat \<Rightarrow> (string \<times> 'd Plugin) list \<Rightarrow> string \<Rightarrow> string list \<Rightarrow> 'd visit_state \<Rightarrow>
   (go_error + 'd visit_state) option" where
  "visit 0 byID pid st = None"
| "visit (Suc n) byID pid st =
     (if vs_visited st pid = 1 then Some (Inl (ErrText ''betterauth: plugin dependency cycle''))
      else if vs_visited st pid = 2 then Some (Inr st)
      else case map_of byID pid of
        None \<Rightarrow> Some (Inl (ErrText ''betterauth: plugin dependency is not configured''))
      | Some plugin \<Rightarrow>
          (case visit_all n byID pid (sort_key (index_of byID) (pl_Dependencies plugin))
                  (st\<lparr>vs_visited := (vs_visited st)(pid := 1)\<rparr>) of
             None \<Rightarrow> None
           | Some (Inl e) \<Rightarrow> Some (Inl e)
           | Some (Inr st') \<Rightarrow>
               Some (Inr (st'\<lparr>vs_visited := (vs_visited st')(pid := 2), vs_ordered := vs_ordered st' @ [plugin]\<rparr>))))"
| "visit_all n byID pid [] st = Some (Inr st)"
| "visit_all n byID pid (d # ds) st =
     (if d = pid then Some (Inl (ErrText ''betterauth: plugin depends on itself''))
      else case visit n byID d st of
        None \<Rightarrow> None
      | Some (Inl e) \<Rightarrow> Some (Inl e)
      | Some (Inr st') \<Rightarrow> visit_all n byID pid ds st')"

fun visit_plugins ::
  "nat \<Rightarrow> (string \<times> 'd Plugin) list \<Rightarrow> 'd Plugin list \<Rightarrow> 'd visit_state \<Rightarrow> (go_error + 'd visit_state) option" where
  "visit_plugins n byID [] st = Some (Inr st)"
| "visit_plugins n byID (plugin # plugins) st =
     (case visit n byID (pl_ID plugin) st of
        None \<Rightarrow> None
      | Some (Inl e) \<Rightarrow> Some (Inl e)
      | Some (Inr st') \<Rightarrow> visit_plugins n byID plugins st')"

definition compilePlugins :: "'d Plugin list \<Rightarrow> (go_error + 'd Plugin list) option" where
  "compilePlugins plugins =
     (if plugins = [] then Some (Inr [])
      else case register_plugins [] plugins of
        Inl e \<Rightarrow> Some (Inl e)
      | Inr byID \<Rightarrow>
          map_option (map_sum id vs_ordered)
            (visit_plugins (length plugins + 1) byID plugins \<lparr>vs_visited = (\<lambda>_. 0), vs_ordered = []\<rparr>))"

end
