(* ===== verification/Plugin_Runtime.thy ===== *)
theory Plugin_Runtime
  imports Plugins Router
begin

text \<open>
  The compiled runtime of the plugins, \<open>plugin.go\<close>: \<open>newPluginRuntime\<close> with its checks,
  \<open>initializePlugins\<close>, and the route of a request, \<open>resolvePluginRoute\<close> of \<open>plugin_http.go\<close>.
\<close>

section \<open>The core routes\<close>

text \<open>\<open>isCoreRoute\<close> and \<open>coreRoutePaths\<close>, which adds the callback of a password reset.\<close>

definition coreLiteralPaths :: "string list" where
  "coreLiteralPaths = [''/sign-up/email'', ''/sign-in/email'', ''/sign-out'', ''/get-session'',
     ''/list-sessions'', ''/refresh-session'', ''/revoke-session'', ''/revoke-other-sessions'',
     ''/revoke-sessions'', ''/update-session'', ''/update-user'', ''/change-email'', ''/delete-user'',
     ''/delete-user/callback'', ''/change-password'', ''/list-accounts'', ''/link-social'',
     ''/unlink-account'', ''/get-access-token'', ''/refresh-token'', ''/sign-in/social'',
     ''/request-password-reset'', ''/forget-password'', ''/reset-password'', ''/send-verification-email'',
     ''/verify-email'', ''/admin/impersonate-user'', ''/admin/stop-impersonating'']"

definition isCoreRoute :: "string \<Rightarrow> bool" where
  "isCoreRoute path \<longleftrightarrow> path \<in> set coreLiteralPaths"

definition coreRoutePaths :: "string list" where
  "coreRoutePaths = take 24 coreLiteralPaths @ [''/reset-password/:token''] @ drop 24 coreLiteralPaths"

section \<open>The runtime\<close>

record 'd compiledEndpoint =
  ce_pluginID :: string
  ce_endpoint :: "'d PluginEndpoint"
  ce_template :: string
  ce_shape :: string

record 'd compiledRequestHook =
  cq_pluginID :: string
  cq_matcher :: "'d HookMatcher option"
  cq_handler :: "'d RequestHook"

record 'd compiledResponseHook =
  cr_pluginID :: string
  cr_matcher :: "'d HookMatcher option"
  cr_handler :: "'d ResponseHook"

record 'd compiledRateLimit =
  cl_pluginID :: string
  cl_rule :: "'d PluginRateLimitRule"

text \<open>The static endpoints, by path and then by method, and the parts of the runtime in order.\<close>

record 'd pluginRuntime =
  rt_plugins :: "'d Plugin list"
  rt_endpoints :: "(string \<times> (string \<times> 'd compiledEndpoint) list) list"
  rt_dynamic :: "'d compiledEndpoint list"
  rt_onRequest :: "'d compiledRequestHook list"
  rt_middlewares :: "'d compiledRequestHook list"
  rt_before :: "'d compiledRequestHook list"
  rt_after :: "'d compiledResponseHook list"
  rt_onResponse :: "'d compiledResponseHook list"
  rt_rateLimits :: "'d compiledRateLimit list"

definition upper :: "char \<Rightarrow> char" where
  "upper c = (if CHR ''a'' \<le> c \<and> c \<le> CHR ''z'' then char_of (of_char c - 32 :: nat) else c)"

definition ToUpper :: "string \<Rightarrow> string" where
  "ToUpper s = map upper s"

definition pluginMethods :: "string list" where
  "pluginMethods = [''GET'', ''POST'', ''PUT'', ''PATCH'', ''DELETE'']"

text \<open>The configuration checks of an endpoint's two validators.\<close>

definition validators_error :: "'d PluginEndpoint \<Rightarrow> go_error option" where
  "validators_error e =
     (case Option.bind (pe_BodyValidator e) validator_configuration of
        Some err \<Rightarrow> Some err
      | None \<Rightarrow> Option.bind (pe_QueryValidator e) validator_configuration)"

text \<open>
  One endpoint of a plugin: its path and method are normalized and checked, a template goes to the dynamic
  endpoints unless another one of the method overlaps it or it matches a core route, a static path to the
  table unless its method is taken.
\<close>

definition add_endpoint ::
  "string \<Rightarrow> 'd pluginRuntime \<Rightarrow> 'd PluginEndpoint \<Rightarrow> go_error + 'd pluginRuntime" where
  "add_endpoint pluginID runtime e =
     (let path = cleanAbsolutePath (pe_Path e);
          method = ToUpper (TrimSpace (pe_Method e));
          e = e\<lparr>pe_Path := path, pe_Method := method\<rparr> in
      if path = ''/'' \<or> pe_Handler e = None \<or> method \<notin> set pluginMethods
      then Inl (ErrText ''betterauth: plugin has an invalid endpoint'')
      else if isCoreRoute path \<or> HasPrefix path ''/callback/''
      then Inl (ErrText ''betterauth: plugin endpoint collides with core route'')
      else if list_ex (\<lambda>m. m = None) (pe_Use e)
      then Inl (ErrText ''betterauth: plugin endpoint has nil middleware'')
      else case validators_error e of
        Some err \<Rightarrow> Inl (ErrWrap ''betterauth: plugin endpoint validator'' err)
      | None \<Rightarrow>
          (case pluginPathShape path (pe_AllowNonKebabPath e) of
             Inl err \<Rightarrow> Inl (ErrWrap ''betterauth: plugin endpoint'' err)
           | Inr (shape, dynamic) \<Rightarrow>
               (let compiled = \<lparr>ce_pluginID = pluginID, ce_endpoint = e, ce_template = path, ce_shape = shape\<rparr> in
                if dynamic then
                  (if list_ex (\<lambda>x. pe_Method (ce_endpoint x) = method \<and> templatesOverlap (ce_template x) path)
                        (rt_dynamic runtime)
                   then Inl (ErrText ''betterauth: overlapping plugin endpoint templates'')
                   else if list_ex (\<lambda>core. matchPluginPath path core \<noteq> None) coreRoutePaths
                   then Inl (ErrText ''betterauth: plugin endpoint can shadow core route'')
                   else Inr (runtime\<lparr>rt_dynamic := rt_dynamic runtime @ [compiled]\<rparr>))
                else
                  (let methods = (case map_of (rt_endpoints runtime) path of None \<Rightarrow> [] | Some ms \<Rightarrow> ms) in
                   if map_of methods method \<noteq> None then Inl (ErrText ''betterauth: duplicate plugin endpoint'')
                   else Inr (runtime\<lparr>rt_endpoints := put path (put method compiled methods) (rt_endpoints runtime)\<rparr>)))))"

text \<open>Compiling hooks, none of which may be nil.\<close>

definition compile_request_hook ::
  "string \<Rightarrow> string \<Rightarrow> 'd compiledRequestHook list \<Rightarrow> 'd PluginRequestHook \<Rightarrow>
   go_error + 'd compiledRequestHook list" where
  "compile_request_hook nilText pluginID hooks h =
     (case qh_Handler h of
        None \<Rightarrow> Inl (ErrText nilText)
      | Some f \<Rightarrow> Inr (hooks @ [\<lparr>cq_pluginID = pluginID, cq_matcher = qh_Matcher h, cq_handler = f\<rparr>]))"

definition compile_after_hook ::
  "string \<Rightarrow> string \<Rightarrow> 'd compiledResponseHook list \<Rightarrow> 'd PluginAfterHook \<Rightarrow>
   go_error + 'd compiledResponseHook list" where
  "compile_after_hook nilText pluginID hooks h =
     (case ah_Handler h of
        None \<Rightarrow> Inl (ErrText nilText)
      | Some f \<Rightarrow> Inr (hooks @ [\<lparr>cr_pluginID = pluginID, cr_matcher = ah_Matcher h, cr_handler = f\<rparr>]))"

definition compile_rate_limit ::
  "string \<Rightarrow> 'd compiledRateLimit list \<Rightarrow> 'd PluginRateLimitRule \<Rightarrow> go_error + 'd compiledRateLimit list" where
  "compile_rate_limit pluginID rules rule =
     (if prl_Action rule = '''' \<or> prl_Max rule \<le> 0 \<or> prl_Window rule \<le> 0
      then Inl (ErrText ''betterauth: plugin has invalid rate-limit rule'')
      else Inr (rules @ [\<lparr>cl_pluginID = pluginID, cl_rule = rule\<rparr>]))"

definition optional_request_hook :: "string \<Rightarrow> 'd RequestHook option \<Rightarrow> 'd compiledRequestHook list" where
  "optional_request_hook pluginID h =
     (case h of None \<Rightarrow> [] | Some f \<Rightarrow> [\<lparr>cq_pluginID = pluginID, cq_matcher = None, cq_handler = f\<rparr>])"

definition optional_response_hook :: "string \<Rightarrow> 'd ResponseHook option \<Rightarrow> 'd compiledResponseHook list" where
  "optional_response_hook pluginID h =
     (case h of None \<Rightarrow> [] | Some f \<Rightarrow> [\<lparr>cr_pluginID = pluginID, cr_matcher = None, cr_handler = f\<rparr>])"

text \<open>The body of the loop over the plugins.\<close>

definition add_plugin :: "'d pluginRuntime \<Rightarrow> 'd Plugin \<Rightarrow> go_error + 'd pluginRuntime" where
  "add_plugin runtime plugin =
     (let pid = pl_ID plugin;
          runtime = runtime\<lparr>rt_onRequest := rt_onRequest runtime @ optional_request_hook pid (pl_OnRequest plugin),
            rt_onResponse := rt_onResponse runtime @ optional_response_hook pid (pl_OnResponse plugin)\<rparr> in
      case foldE (add_endpoint pid) runtime (pl_Endpoints plugin) of
        Inl e \<Rightarrow> Inl e
      | Inr runtime \<Rightarrow>
      (case foldE (compile_request_hook ''betterauth: plugin has nil middleware'' pid) (rt_middlewares runtime)
              (pl_Middlewares plugin) of
        Inl e \<Rightarrow> Inl e
      | Inr middlewares \<Rightarrow>
      (case foldE (compile_request_hook ''betterauth: plugin has nil before hook'' pid) (rt_before runtime)
              (pl_Before plugin) of
        Inl e \<Rightarrow> Inl e
      | Inr before \<Rightarrow>
      (case foldE (compile_after_hook ''betterauth: plugin has nil after hook'' pid) (rt_after runtime)
              (pl_After plugin) of
        Inl e \<Rightarrow> Inl e
      | Inr after \<Rightarrow>
      (case foldE (compile_rate_limit pid) (rt_rateLimits runtime) (pl_RateLimits plugin) of
        Inl e \<Rightarrow> Inl e
      | Inr limits \<Rightarrow>
          Inr (runtime\<lparr>rt_middlewares := middlewares, rt_before := before, rt_after := after,
            rt_rateLimits := limits\<rparr>))))))"

definition newPluginRuntime :: "'d Plugin list \<Rightarrow> 'd ServerHooks \<Rightarrow> go_error + 'd pluginRuntime" where
  "newPluginRuntime plugins app =
     (case foldE (compile_request_hook ''betterauth: application has nil before hook'' ''application'') [] (sh_Before app) of
        Inl e \<Rightarrow> Inl e
      | Inr before \<Rightarrow>
      (case foldE add_plugin
              \<lparr>rt_plugins = plugins, rt_endpoints = [], rt_dynamic = [],
                rt_onRequest = optional_request_hook ''application'' (sh_OnRequest app), rt_middlewares = [],
                rt_before = before, rt_after = [],
                rt_onResponse = optional_response_hook ''application'' (sh_OnResponse app), rt_rateLimits = []\<rparr>
              plugins of
        Inl e \<Rightarrow> Inl e
      | Inr runtime \<Rightarrow>
      (case foldE (compile_after_hook ''betterauth: application has nil after hook'' ''application'') (rt_after runtime)
              (sh_After app) of
        Inl e \<Rightarrow> Inl e
      | Inr after \<Rightarrow> Inr (runtime\<lparr>rt_after := after, rt_onResponse := rev (rt_onResponse runtime)\<rparr>))))"

section \<open>Setting the plugins up\<close>

text \<open>
  \<open>initializePlugins\<close>: the schemas and origins of the plugins are added in order, those of a plugin's
  descriptor before its initializer sees the merged ones. The initializer may use the database.
\<close>

definition callPluginInit ::
  "'d PluginInit \<Rightarrow> 'd PluginInitContext \<Rightarrow> ('d, PluginInitResult) prog" where
  "callPluginInit init context = (\<lambda>d.
     case init context d of
       (None, d') \<Rightarrow> (Inl (ErrText ''betterauth: plugin init panicked''), d')
     | (Some (Inl e), d') \<Rightarrow> (Inl (ErrWrap ''betterauth: plugin init'' e), d')
     | (Some (Inr result), d') \<Rightarrow> (Inr result, d'))"

definition merge_optional :: "string \<Rightarrow> Schema \<Rightarrow> Schema option \<Rightarrow> go_error + Schema" where
  "merge_optional text schema ext =
     (case ext of
        None \<Rightarrow> Inr schema
      | Some x \<Rightarrow> (case MergeSchema schema [x] of Inl e \<Rightarrow> Inl (ErrWrap text e) | Inr schema' \<Rightarrow> Inr schema'))"

fun initialize_loop ::
  "'d database_adapter \<Rightarrow> string \<Rightarrow> Schema \<Rightarrow> string list \<Rightarrow> 'd Plugin list \<Rightarrow> ('d, Schema \<times> string list) prog" where
  "initialize_loop db baseURL schema origins [] = ret (schema, origins)"
| "initialize_loop db baseURL schema origins (plugin # plugins) =
     bindM (lift (merge_optional ''betterauth: plugin schema'' schema (pl_Schema plugin))) (\<lambda>schema.
     let origins = origins @ pl_TrustedOrigins plugin in
     case pl_Init plugin of
       None \<Rightarrow> initialize_loop db baseURL schema origins plugins
     | Some init \<Rightarrow>
         bindM (callPluginInit init \<lparr>ic_PluginID = pl_ID plugin, ic_BaseURL = baseURL, ic_Database = db,
             ic_Schema = schema, ic_TrustedOrigins = origins\<rparr>) (\<lambda>result.
         bindM (lift (merge_optional ''betterauth: plugin init schema'' schema (ir_Schema result))) (\<lambda>schema.
           initialize_loop db baseURL schema (origins @ ir_TrustedOrigins result) plugins)))"

text \<open>The arguments are the fields of the application's \<open>Config\<close> that the function reads.\<close>

definition initializePlugins ::
  "'d database_adapter \<Rightarrow> Schema \<Rightarrow> string list \<Rightarrow> string \<Rightarrow> string \<Rightarrow> 'd Plugin list \<Rightarrow>
   ('d, Schema \<times> string list) prog" where
  "initializePlugins db extension trustedOrigins basePath publicURL plugins =
     bindM (lift (MergeSchema CoreSchema [extension])) (\<lambda>schema.
     let basePath = (if basePath = '''' then ''/api/auth'' else basePath);
         baseURL = TrimSuffix publicURL ''/'' @ cleanAbsolutePath basePath in
     initialize_loop db baseURL schema trustedOrigins plugins)"

section \<open>The route of a request\<close>

text \<open>
  The results of \<open>resolvePluginRoute\<close>: the selected endpoint (\<open>None\<close> for the zero value) with its
  parameters, whether the route is a core one, the methods allowed, whether the path is found, and whether
  the origin check is skipped.
\<close>

record 'd route =
  ro_endpoint :: "'d compiledEndpoint option"
  ro_params :: "(string \<times> string) list"
  ro_core :: bool
  ro_allowed :: "string list"
  ro_found :: bool
  ro_skipOrigin :: bool

definition skips_origin :: "'d compiledEndpoint option \<Rightarrow> bool" where
  "skips_origin ce = (case ce of None \<Rightarrow> False | Some c \<Rightarrow> pe_SkipOriginCheck (ce_endpoint c))"

text \<open>The loop over the dynamic endpoints: the methods of those that match, and the last one of the method.\<close>

fun dynamic_routes ::
  "string \<Rightarrow> string \<Rightarrow> 'd compiledEndpoint list \<Rightarrow>
   string list \<times> ('d compiledEndpoint \<times> (string \<times> string) list) option \<Rightarrow>
   string list \<times> ('d compiledEndpoint \<times> (string \<times> string) list) option" where
  "dynamic_routes path method [] acc = acc"
| "dynamic_routes path method (c # cs) (allowed, selected) =
     (case matchPluginPath (ce_template c) path of
        None \<Rightarrow> dynamic_routes path method cs (allowed, selected)
      | Some params \<Rightarrow>
          dynamic_routes path method cs
            (allowed @ [pe_Method (ce_endpoint c)],
             if pe_Method (ce_endpoint c) = method then Some (c, params) else selected))"

definition core_route :: "string list \<Rightarrow> bool \<Rightarrow> 'd route" where
  "core_route allowed skip =
     \<lparr>ro_endpoint = None, ro_params = [], ro_core = True, ro_allowed = allowed, ro_found = True, ro_skipOrigin = skip\<rparr>"

definition resolvePluginRoute :: "'d pluginRuntime \<Rightarrow> string \<Rightarrow> string \<Rightarrow> 'd route" where
  "resolvePluginRoute runtime path method =
     (case map_of (rt_endpoints runtime) path of
        Some methods \<Rightarrow>
          (let selected = map_of methods method in
           \<lparr>ro_endpoint = selected, ro_params = [], ro_core = False, ro_allowed = sort (map fst methods),
             ro_found = True, ro_skipOrigin = skips_origin selected\<rparr>)
      | None \<Rightarrow>
          (let (allowed, selected) = dynamic_routes path method (rt_dynamic runtime) ([], None) in
           if allowed \<noteq> [] then
             \<lparr>ro_endpoint = map_option fst selected,
               ro_params = (case selected of None \<Rightarrow> [] | Some (_, params) \<Rightarrow> params), ro_core = False,
               ro_allowed = remdups_adj (sort allowed), ro_found = True,
               ro_skipOrigin = skips_origin (map_option fst selected)\<rparr>
           else if isCoreRoute path then
             core_route [if path \<in> {''/get-session'', ''/list-sessions'', ''/list-accounts'', ''/verify-email'',
                            ''/delete-user/callback''} then ''GET'' else ''POST''] False
           else if (case CutPrefix path ''/reset-password/'' of Some token \<Rightarrow> token \<noteq> '''' | None \<Rightarrow> False) then
             core_route [''GET''] False
           else if (case CutPrefix path ''/callback/'' of Some p \<Rightarrow> validProviderID p | None \<Rightarrow> False) then
             core_route [''GET'', ''POST''] True
           else \<lparr>ro_endpoint = None, ro_params = [], ro_core = False, ro_allowed = [], ro_found = False,
                  ro_skipOrigin = False\<rparr>))"

end
