(* ===== verification/Plugin_Pipeline.thy ===== *)
theory Plugin_Pipeline
  imports Plugin_Runtime Schema_Check
begin

text \<open>
  The life of a request, \<open>serveHTTP\<close> of \<open>plugin_http.go\<close>: the schema check, the route, the origin
  check, the hook context, the stages of hooks, rate limits and validators ahead of an endpoint, the endpoint
  or the core router, the response hooks and the response that is committed. The functions of \<open>net/http\<close>,
  \<open>encoding/json\<close> and \<open>httpguts\<close> that the code calls are the record \<open>HTTPLib\<close>.
\<close>

section \<open>Requests on the wire\<close>

text \<open>\<open>wr_Body\<close> is what reading the body up to the limit gives; \<open>None\<close> is a nil body.\<close>

record HTTPRequest =
  wr_Method :: string
  wr_Path :: string
  wr_Header :: multimap
  wr_Query :: multimap
  wr_RemoteAddr :: string
  wr_Host :: string
  wr_ContentLength :: int
  wr_Body :: "(go_error + string) option"

record HTTPLib =
  hl_Cookies :: "string list \<Rightarrow> (string \<times> string) list"
  hl_PostForm :: "HTTPRequest \<Rightarrow> go_error + (string \<Rightarrow> string)"
  hl_Document :: "string \<Rightarrow> body"
  hl_DecodeAny :: "string \<Rightarrow> go_error + any \<times> bool"
  hl_MarshalAny :: "any \<Rightarrow> go_error + string"
  hl_EncodeJSON :: "json \<Rightarrow> string"
  hl_CookieString :: "Cookie \<Rightarrow> string"
  hl_ValidHeaderName :: "string \<Rightarrow> bool"
  hl_ValidHeaderValue :: "string \<Rightarrow> bool"

text \<open>
  The server with its compiled plugins, the answers of its schema gate and the limits of its configuration.
\<close>

record 'd Host =
  ho_server :: "'d Server"
  ho_plugins :: "'d pluginRuntime"
  ho_CheckSchema :: "nat \<Rightarrow> check_error option"
  ho_MaxRequestBytes :: int
  ho_MaxResponseBytes :: int
  ho_lib :: HTTPLib

text \<open>The canonical form of a header name: upper case at the start and behind a hyphen.\<close>

fun canonical :: "bool \<Rightarrow> string \<Rightarrow> string" where
  "canonical up [] = []"
| "canonical up (c # cs) = (if up then upper c else lower_char c) # canonical (c = CHR ''-'') cs"

definition header_get :: "multimap \<Rightarrow> string \<Rightarrow> string" where
  "header_get h name = (case map_of h (canonical True name) of Some (v # _) \<Rightarrow> v | _ \<Rightarrow> '''')"

definition header_set :: "multimap \<Rightarrow> string \<Rightarrow> string \<Rightarrow> multimap" where
  "header_set h name v = put (canonical True name) [v] h"

definition header_add :: "multimap \<Rightarrow> string \<Rightarrow> string \<Rightarrow> multimap" where
  "header_add h name v =
     put (canonical True name) ((case map_of h (canonical True name) of Some vs \<Rightarrow> vs | None \<Rightarrow> []) @ [v]) h"

definition first_value :: "multimap \<Rightarrow> string \<Rightarrow> string" where
  "first_value m k = (case map_of m k of Some (v # _) \<Rightarrow> v | _ \<Rightarrow> '''')"

text \<open>What the handlers read of a request, and the document its body holds.\<close>

definition request_of :: "HTTPLib \<Rightarrow> HTTPRequest \<Rightarrow> Request" where
  "request_of lib r =
     \<lparr>rq_Method = wr_Method r, rq_Path = wr_Path r,
      rq_Cookies = hl_Cookies lib (case map_of (wr_Header r) ''Cookie'' of Some vs \<Rightarrow> vs | None \<Rightarrow> []),
      rq_Header = header_get (wr_Header r), rq_Query = first_value (wr_Query r),
      rq_RemoteAddr = wr_RemoteAddr r, rq_Host = wr_Host r, rq_ContentLength = wr_ContentLength r,
      rq_PostForm = hl_PostForm lib r\<rparr>"

definition document_of :: "'d Host \<Rightarrow> HTTPRequest \<Rightarrow> body" where
  "document_of h r =
     (case wr_Body r of
        None \<Rightarrow> DocEmpty
      | Some (Inl _) \<Rightarrow> DocInvalid
      | Some (Inr raw) \<Rightarrow>
          if int (length raw) > ho_MaxRequestBytes h then DocInvalid else hl_Document (ho_lib h) raw)"

section \<open>Captured responses\<close>

record responseCapture =
  ca_header :: multimap
  ca_body :: string
  ca_status :: int
  ca_overflow :: bool

definition newResponseCapture :: responseCapture where
  "newResponseCapture = \<lparr>ca_header = [], ca_body = '''', ca_status = 0, ca_overflow = False\<rparr>"

definition capture_WriteHeader :: "int \<Rightarrow> responseCapture \<Rightarrow> responseCapture" where
  "capture_WriteHeader st ca = (if ca_status ca = 0 then ca\<lparr>ca_status := st\<rparr> else ca)"

definition capture_Write :: "int \<Rightarrow> string \<Rightarrow> responseCapture \<Rightarrow> responseCapture" where
  "capture_Write limit v ca =
     (let ca = (if ca_status ca = 0 then ca\<lparr>ca_status := 200\<rparr> else ca) in
      if int (length (ca_body ca) + length v) > limit then ca\<lparr>ca_overflow := True\<rparr>
      else ca\<lparr>ca_body := ca_body ca @ v\<rparr>)"

definition capture_response :: "responseCapture \<Rightarrow> PluginResponse" where
  "capture_response ca =
     \<lparr>plr_Status = (if ca_status ca = 0 then 200 else ca_status ca), plr_Headers = ca_header ca, plr_Body = ca_body ca\<rparr>"

text \<open>What the core writes (\<open>Response\<close>) reaches the capture: headers, cookies, status, then the body.\<close>

definition capture_core :: "'d Host \<Rightarrow> Response \<Rightarrow> responseCapture \<Rightarrow> responseCapture" where
  "capture_core h rs ca =
     (let lib = ho_lib h;
          headers = foldl (\<lambda>m (k, v). header_set m k v) (ca_header ca) (rs_Headers rs);
          headers = foldl (\<lambda>m c. header_add m ''Set-Cookie'' (hl_CookieString lib c)) headers (rs_Cookies rs);
          ca = ca\<lparr>ca_header := headers\<rparr>;
          ca = (case rs_Status rs of None \<Rightarrow> ca | Some st \<Rightarrow> capture_WriteHeader st ca) in
      case rs_Body rs of None \<Rightarrow> ca | Some v \<Rightarrow> capture_Write (ho_MaxResponseBytes h) (hl_EncodeJSON lib v) ca)"

definition setSecurityHeaders :: "HTTPRequest \<Rightarrow> multimap \<Rightarrow> multimap" where
  "setSecurityHeaders r m =
     (let m = header_set m ''Content-Type'' ''application/json; charset=utf-8'';
          m = header_set m ''Cache-Control'' ''no-store'';
          m = header_set m ''Pragma'' ''no-cache'';
          m = header_set m ''X-Content-Type-Options'' ''nosniff'';
          requestID = sanitizeRequestID (header_get (wr_Header r) ''X-Request-ID'') in
      if requestID \<noteq> '''' then header_set m ''X-Request-ID'' requestID else m)"

text \<open>\<open>writeError\<close> into a capture.\<close>

definition error_written :: "string \<Rightarrow> go_error \<Rightarrow> Response" where
  "error_written requestID err =
     w_resp (snd (writeError requestID err
       \<lparr>w_db = (), w_calls = 0, w_limits = [], w_mails = [], w_tasks = [], w_resp = empty_response\<rparr>))"

definition capture_error :: "'d Host \<Rightarrow> string \<Rightarrow> go_error \<Rightarrow> responseCapture \<Rightarrow> responseCapture" where
  "capture_error h requestID err ca = capture_core h (error_written requestID err) ca"

definition mergePluginHeaders :: "PluginResponse \<Rightarrow> multimap \<Rightarrow> PluginResponse" where
  "mergePluginHeaders response defaults =
     response\<lparr>plr_Headers := plr_Headers response @
       filter (\<lambda>(name, _). map_of (plr_Headers response) name = None) defaults\<rparr>"

section \<open>The committed response\<close>

definition validatePluginResponse :: "'d Host \<Rightarrow> PluginResponse \<Rightarrow> go_error option" where
  "validatePluginResponse h response =
     (if plr_Status response < 200 \<or> plr_Status response > 599
      then Some (ErrText ''betterauth: plugin returned an invalid response'')
      else if int (length (plr_Body response)) > ho_MaxResponseBytes h
      then Some (ErrText ''betterauth: plugin response exceeds configured limit'')
      else if list_ex (\<lambda>(name, vs). \<not> hl_ValidHeaderName (ho_lib h) name \<or>
                list_ex (\<lambda>v. \<not> hl_ValidHeaderValue (ho_lib h) v) vs) (plr_Headers response)
      then Some (ErrText ''betterauth: plugin response contains an invalid header'')
      else None)"

definition errorPluginResponse :: "'d Host \<Rightarrow> string \<Rightarrow> go_error \<Rightarrow> PluginResponse" where
  "errorPluginResponse h requestID err =
     capture_response (capture_error h requestID err
       (newResponseCapture\<lparr>ca_header := header_set [] ''Content-Type'' ''application/json; charset=utf-8''\<rparr>))"

definition commitPluginResponse :: "'d Host \<Rightarrow> PluginResponse \<Rightarrow> PluginResponse" where
  "commitPluginResponse h response =
     (let response = (case validatePluginResponse h response of
            None \<Rightarrow> response | Some err \<Rightarrow> errorPluginResponse h '''' err);
          m = foldl (\<lambda>m (name, vs). put name vs m) [] (plr_Headers response);
          m = header_set m ''Cache-Control'' ''no-store'';
          m = header_set m ''Pragma'' ''no-cache'';
          m = header_set m ''X-Content-Type-Options'' ''nosniff'' in
      \<lparr>plr_Status = plr_Status response, plr_Headers = m, plr_Body = plr_Body response\<rparr>)"

section \<open>The hook context\<close>

text \<open>
  The stages of the pipeline act on the context and the world. A call of a plugin cannot reach the
  response the core writes.
\<close>

type_synonym 'd pipe = "HookContext \<times> 'd world"

definition on_context :: "(HookContext \<Rightarrow> HookContext) \<Rightarrow> ('d pipe, unit) prog" where
  "on_context f = (\<lambda>(c, w). (Inr (), (f c, w)))"

definition get_context :: "('d pipe, HookContext) prog" where
  "get_context = (\<lambda>(c, w). (Inr c, (c, w)))"

definition on_world :: "('d, 'a) action \<Rightarrow> ('d pipe, 'a) prog" where
  "on_world m = (\<lambda>(c, w). case m w of (res, w') \<Rightarrow> (res, (c, w')))"

definition call_plugin :: "string \<Rightarrow> ('d, 'r) plugin_call \<Rightarrow> ('d pipe, 'r) prog" where
  "call_plugin panicText f = (\<lambda>(c, w).
     case f c w of (res, c', w') \<Rightarrow>
       (case res of None \<Rightarrow> Inl (ErrText panicText) | Some r \<Rightarrow> Inr r, (c', w'\<lparr>w_resp := w_resp w\<rparr>)))"

text \<open>
  \<open>newHookContext\<close>: the context (\<open>None\<close> when there is none), whether its body was JSON, and the error.
\<close>

definition base_context ::
  "'d Host \<Rightarrow> HTTPRequest \<Rightarrow> string \<Rightarrow> (string \<times> string) list \<Rightarrow> trustedOriginPolicy \<Rightarrow>
   (Session \<times> User) option \<Rightarrow> HookContext" where
  "base_context h r path params policy current =
     \<lparr>cx_Path = path, cx_PluginID = '''', cx_Params = params, cx_Headers = wr_Header r, cx_Query = wr_Query r,
      cx_Body = ANil, cx_RawBody = None,
      cx_BaseURL = cfg_PublicURL (srv_cfg (ho_server h)) @ cfg_BasePath (srv_cfg (ho_server h)),
      cx_TrustedOrigins = to_values policy, cx_Session = map_option fst current, cx_User = map_option snd current,
      cx_Response = None, cx_Failure = None, cx_bodyDecodeError = None\<rparr>"

definition json_content_type :: "HTTPRequest \<Rightarrow> bool" where
  "json_content_type r \<longleftrightarrow>
     ToLower (TrimSpace (hd (SplitOn (CHR '';'') (header_get (wr_Header r) ''Content-Type''))))
       \<in> {''application/json'', ''application/scim+json''}"

definition context_body :: "'d Host \<Rightarrow> HTTPRequest \<Rightarrow> HookContext \<Rightarrow> HookContext \<times> bool \<times> go_error option" where
  "context_body h r c =
     (if wr_Body r = None \<or> \<not> json_content_type r then (c, False, None)
      else case the (wr_Body r) of
        Inl err \<Rightarrow> (c, False, Some (publicError CodeBadRequest ''Invalid request body.'' 400 (Some err)))
      | Inr raw \<Rightarrow>
          if int (length raw) > ho_MaxRequestBytes h
          then (c, False, Some (publicError CodeBadRequest ''Request body is too large.'' 413 None))
          else
            (let c = c\<lparr>cx_RawBody := Some raw\<rparr> in
             if TrimSpace raw = '''' then (c, False, None)
             else case hl_DecodeAny (ho_lib h) raw of
               Inl err \<Rightarrow> (c\<lparr>cx_bodyDecodeError := Some err\<rparr>, False, None)
             | Inr (v, more_input) \<Rightarrow>
                 if more_input
                 then (c\<lparr>cx_Body := v,
                        cx_bodyDecodeError := Some (ErrText ''betterauth: request body must contain one JSON value'')\<rparr>,
                       False, None)
                 else (c\<lparr>cx_Body := v\<rparr>, True, None)))"

definition newHookContext ::
  "'d Host \<Rightarrow> HTTPRequest \<Rightarrow> string \<Rightarrow> (string \<times> string) list \<Rightarrow>
   ('d, HookContext option \<times> bool \<times> go_error option) action" where
  "newHookContext h r path params =
     bindM (tryM (resolveTrustedOrigins (ho_server h) (request_of (ho_lib h) r))) (\<lambda>policy.
     case policy of
       Inl err \<Rightarrow> ret (None, False, Some err)
     | Inr policy \<Rightarrow>
         bindM (tryM (sessionFromRequest (ho_server h) (request_of (ho_lib h) r))) (\<lambda>current.
         let current = (case current of Inl _ \<Rightarrow> None | Inr (session, user, _) \<Rightarrow> Some (session, user));
             (c, wasJSON, err) = context_body h r (base_context h r path params policy current) in
         ret (Some c, wasJSON, err)))"

text \<open>
  \<open>syncHookRequest\<close> writes the context's body back as the raw one; the core then reads the request
  with the headers, the query and the body of the context.
\<close>

definition syncHookRequest :: "'d Host \<Rightarrow> bool \<Rightarrow> ('d pipe, unit) prog" where
  "syncHookRequest h bodyWasJSON =
     bindM get_context (\<lambda>c.
       if bodyWasJSON \<or> cx_Body c \<noteq> ANil then
         (case hl_MarshalAny (ho_lib h) (cx_Body c) of
            Inl err \<Rightarrow> fail (publicError CodeBadRequest ''Invalid request body.'' 400 (Some err))
          | Inr raw \<Rightarrow> on_context (\<lambda>c. c\<lparr>cx_RawBody := Some raw\<rparr>))
       else ret ())"

definition synced_request :: "HTTPRequest \<Rightarrow> HookContext \<Rightarrow> HTTPRequest" where
  "synced_request r c =
     (let r = r\<lparr>wr_Header := cx_Headers c, wr_Query := cx_Query c\<rparr> in
      case cx_RawBody c of
        None \<Rightarrow> r
      | Some raw \<Rightarrow> r\<lparr>wr_Body := Some (Inr raw), wr_ContentLength := int (length raw)\<rparr>)"

section \<open>Hooks\<close>

definition callHookMatcher :: "'d HookMatcher option \<Rightarrow> ('d pipe, bool) prog" where
  "callHookMatcher matcher =
     (case matcher of None \<Rightarrow> ret True | Some f \<Rightarrow> call_plugin ''betterauth: plugin matcher panicked'' f)"

definition callRequestHook :: "'d RequestHook \<Rightarrow> ('d pipe, PluginResponse option) prog" where
  "callRequestHook handler =
     bindM (call_plugin ''betterauth: plugin request hook panicked'' handler) (\<lambda>res.
       case res of Inl err \<Rightarrow> fail (ErrWrap ''betterauth: plugin request hook'' err) | Inr response \<Rightarrow> ret response)"

definition callResponseHook :: "'d ResponseHook \<Rightarrow> PluginResponse \<Rightarrow> ('d pipe, PluginResponse) prog" where
  "callResponseHook handler response =
     bindM (call_plugin ''betterauth: plugin response hook panicked'' (handler response)) (\<lambda>res.
       case res of Inl err \<Rightarrow> fail (ErrWrap ''betterauth: plugin response hook'' err) | Inr response \<Rightarrow> ret response)"

definition callPluginEndpoint :: "'d compiledEndpoint \<Rightarrow> ('d pipe, PluginResponse) prog" where
  "callPluginEndpoint ce =
     (case pe_Handler (ce_endpoint ce) of
        None \<Rightarrow> fail (ErrText ''betterauth: plugin endpoint panicked'')
      | Some handler \<Rightarrow>
          bindM (call_plugin ''betterauth: plugin endpoint panicked'' handler) (\<lambda>res.
            case res of
              Inl err \<Rightarrow> fail (ErrWrap ''betterauth: plugin endpoint'' err)
            | Inr None \<Rightarrow> fail (ErrText ''betterauth: plugin endpoint returned a nil response'')
            | Inr (Some response) \<Rightarrow> ret response))"

text \<open>\<open>runRequestHooks\<close>: the first response of a matching hook ends the request, as does an error.\<close>

fun runRequestHooks :: "'d compiledRequestHook list \<Rightarrow> ('d pipe, PluginResponse option) prog" where
  "runRequestHooks [] = ret None"
| "runRequestHooks (hook # hooks) =
     bindM (callHookMatcher (cq_matcher hook)) (\<lambda>matched.
       if \<not> matched then runRequestHooks hooks
       else
         bindM (on_context (\<lambda>c. c\<lparr>cx_PluginID := cq_pluginID hook\<rparr>)) (\<lambda>_.
         bindM (callRequestHook (cq_handler hook)) (\<lambda>response.
           if response \<noteq> None then ret response else runRequestHooks hooks)))"

text \<open>
  \<open>runResponseHooks\<close>: a hook works on the response itself, which the context shares; each result is
  validated before the next hook.
\<close>

fun runResponseHooks :: "'d Host \<Rightarrow> 'd compiledResponseHook list \<Rightarrow> PluginResponse \<Rightarrow> ('d pipe, PluginResponse) prog" where
  "runResponseHooks h [] response = ret response"
| "runResponseHooks h (hook # hooks) response =
     bindM (callHookMatcher (cr_matcher hook)) (\<lambda>matched.
       if \<not> matched then runResponseHooks h hooks response
       else
         bindM (on_context (\<lambda>c. c\<lparr>cx_PluginID := cr_pluginID hook, cx_Response := Some response\<rparr>)) (\<lambda>_.
         bindM (callResponseHook (cr_handler hook) response) (\<lambda>response.
           case validatePluginResponse h response of
             Some err \<Rightarrow> fail err
           | None \<Rightarrow> runResponseHooks h hooks response)))"

text \<open>The endpoint's own middlewares.\<close>

fun run_middlewares :: "string \<Rightarrow> 'd RequestHook option list \<Rightarrow> ('d pipe, PluginResponse option) prog" where
  "run_middlewares pid [] = ret None"
| "run_middlewares pid (m # ms) =
     (case m of
        None \<Rightarrow> fail (ErrText ''betterauth: plugin request hook panicked'')
      | Some f \<Rightarrow>
          bindM (callRequestHook f) (\<lambda>response.
            if response \<noteq> None then ret response else run_middlewares pid ms))"

text \<open>\<open>runPluginRateLimits\<close>; a panic of the limiter is one of its errors.\<close>

definition ask_limiter :: "'d Server \<Rightarrow> RateLimitRequest \<Rightarrow> ('d, unit) action" where
  "ask_limiter s request = (\<lambda>w.
     let w' = w\<lparr>w_calls := Suc (w_calls w), w_limits := w_limits w @ [request]\<rparr>
     in case sv_Allow (srv_services s) (w_calls w) request of
          Inl err \<Rightarrow> (Inl (internalError err), w')
        | Inr decision \<Rightarrow>
            if \<not> rd_Allowed decision
            then (Inl (ErrPublic CodeRateLimited ''Too many requests.'' 429 (rd_RetryAfter decision) None), w')
            else (Inr (), w'))"

fun runPluginRateLimits :: "'d Server \<Rightarrow> Request \<Rightarrow> 'd compiledRateLimit list \<Rightarrow> ('d pipe, unit) prog" where
  "runPluginRateLimits s r [] = ret ()"
| "runPluginRateLimits s r (rule # rules) =
     bindM (callHookMatcher (prl_Matcher (cl_rule rule))) (\<lambda>matched.
       if \<not> matched then runPluginRateLimits s r rules
       else
         bindM (case prl_AccountKey (cl_rule rule) of
             None \<Rightarrow> ret ''''
           | Some f \<Rightarrow> call_plugin ''betterauth: plugin rate-limit key panicked'' f) (\<lambda>accountKey.
         bindM (on_world (ask_limiter s \<lparr>rl_Action = prl_Action (cl_rule rule), rl_IP = remoteIP s r,
             rl_AccountKey = accountKey, rl_Window = prl_Window (cl_rule rule), rl_Max = prl_Max (cl_rule rule)\<rparr>)) (\<lambda>_.
           runPluginRateLimits s r rules)))"

section \<open>The pipeline\<close>

definition unsafeRequestMethod :: "string \<Rightarrow> bool" where
  "unsafeRequestMethod verb \<longleftrightarrow> verb \<in> {''POST'', ''PUT'', ''PATCH'', ''DELETE''}"

text \<open>
  The stages ahead of the endpoint: hooks on the request, rate limits, validators, middlewares of plugins and
  of the endpoint, hooks before the endpoint. A response or an error of a stage ends the request.
\<close>

definition andThen :: "('d pipe, PluginResponse option) prog \<Rightarrow> ('d pipe, PluginResponse option) prog \<Rightarrow>
    ('d pipe, PluginResponse option) prog" where
  "andThen m next = bindM m (\<lambda>response. if response \<noteq> None then ret response else next)"

definition validate_input :: "HTTPLib \<Rightarrow> 'd compiledEndpoint \<Rightarrow> (string \<Rightarrow> number_class option) \<Rightarrow> ('d pipe, unit) prog" where
  "validate_input lib ce parse =
     bindM get_context (\<lambda>c.
       case validatePluginEndpointInput parse (pe_BodyValidator (ce_endpoint ce)) (pe_QueryValidator (ce_endpoint ce))
              (cx_bodyDecodeError c) (cx_Body c) (AValues (cx_Query c)) of
         Some err \<Rightarrow> fail err
       | None \<Rightarrow> ret ())"

definition before_endpoint ::
  "'d Host \<Rightarrow> (string \<Rightarrow> number_class option) \<Rightarrow> HTTPRequest \<Rightarrow> 'd compiledEndpoint option \<Rightarrow> bool \<Rightarrow>
   ('d pipe, PluginResponse option) prog" where
  "before_endpoint h parse r endpoint bodyWasJSON =
     (let rt = ho_plugins h; unless_core = (\<lambda>f. case endpoint of None \<Rightarrow> ret None | Some ce \<Rightarrow> f ce) in
      andThen (runRequestHooks (rt_onRequest rt))
      (bindM (runPluginRateLimits (ho_server h) (request_of (ho_lib h) r) (rt_rateLimits rt)) (\<lambda>_.
      andThen (unless_core (\<lambda>ce. bindM (validate_input (ho_lib h) ce parse) (\<lambda>_. ret None)))
      (andThen (runRequestHooks (rt_middlewares rt))
      (andThen (unless_core (\<lambda>ce.
          bindM (on_context (\<lambda>c. c\<lparr>cx_PluginID := ce_pluginID ce\<rparr>)) (\<lambda>_.
            run_middlewares (ce_pluginID ce) (pe_Use (ce_endpoint ce)))))
      (andThen (runRequestHooks (rt_before rt))
      (bindM (syncHookRequest h bodyWasJSON) (\<lambda>_. ret None))))))))"

text \<open>The endpoint itself: the core router into the capture, or the handler of a plugin.\<close>

definition core_endpoint :: "'d Host \<Rightarrow> HTTPRequest \<Rightarrow> HookContext \<Rightarrow> 'd world \<Rightarrow> Response \<times> 'd world" where
  "core_endpoint h r c w =
     (let r' = synced_request r c;
          w' = snd (serveCoreHTTP (ho_server h) (request_of (ho_lib h) r') (document_of h r')
                 (w\<lparr>w_resp := empty_response\<rparr>)) in
      (w_resp w', w'\<lparr>w_resp := w_resp w\<rparr>))"

text \<open>
  What \<open>executePluginPipeline\<close> returns: the context, the response, whether the endpoint was reached and
  the error, with the capture it has written to.
\<close>

record pipeline_result =
  px_context :: "HookContext option"
  px_response :: "PluginResponse option"
  px_reached :: bool
  px_error :: "go_error option"
  px_capture :: responseCapture

definition stopped :: "responseCapture \<Rightarrow> HookContext option \<Rightarrow> go_error \<Rightarrow> pipeline_result" where
  "stopped capture context err =
     \<lparr>px_context = context, px_response = None, px_reached = False, px_error = Some err, px_capture = capture\<rparr>"

definition run_endpoint ::
  "'d Host \<Rightarrow> HTTPRequest \<Rightarrow> responseCapture \<Rightarrow> 'd compiledEndpoint option \<Rightarrow> 'd pipe \<Rightarrow> pipeline_result \<times> 'd world" where
  "run_endpoint h r capture endpoint = (\<lambda>(c, w).
     case endpoint of
       None \<Rightarrow>
         (let (rs, w') = core_endpoint h r c w; capture = capture_core h rs capture in
          (\<lparr>px_context = Some c, px_response = Some (capture_response capture), px_reached = True,
             px_error = None, px_capture = capture\<rparr>, w'))
     | Some ce \<Rightarrow>
         (case callPluginEndpoint ce (c\<lparr>cx_PluginID := ce_pluginID ce\<rparr>, w) of
            (res, (c', w')) \<Rightarrow>
              (\<lparr>px_context = Some c', px_response = (case res of Inl _ \<Rightarrow> None | Inr x \<Rightarrow> Some x), px_reached = True,
                 px_error = (case res of Inl e \<Rightarrow> Some e | Inr _ \<Rightarrow> None), px_capture = capture\<rparr>, w')))"

definition run_route ::
  "'d Host \<Rightarrow> (string \<Rightarrow> number_class option) \<Rightarrow> HTTPRequest \<Rightarrow> responseCapture \<Rightarrow> 'd route \<Rightarrow> HookContext \<Rightarrow> bool \<Rightarrow>
   'd world \<Rightarrow> pipeline_result \<times> 'd world" where
  "run_route h parse r capture route c bodyWasJSON w =
     (if \<not> ro_found route then (stopped capture (Some c) notFoundError, w)
      else if wr_Method r \<notin> set (ro_allowed route) then
        (stopped (capture\<lparr>ca_header := header_set (ca_header capture) ''Allow'' (Join (ro_allowed route) '', '')\<rparr>)
           (Some c) methodError, w)
      else
        (let endpoint = (if ro_core route then None else ro_endpoint route) in
         case before_endpoint h parse r endpoint bodyWasJSON (c, w) of
           (Inl err, (c', w')) \<Rightarrow> (stopped capture (Some c') err, w')
         | (Inr (Some response), (c', w')) \<Rightarrow>
             (\<lparr>px_context = Some c', px_response = Some response, px_reached = False, px_error = None,
                px_capture = capture\<rparr>, w')
         | (Inr None, pipe) \<Rightarrow> run_endpoint h r capture endpoint pipe))"

definition executePluginPipeline ::
  "'d Host \<Rightarrow> (string \<Rightarrow> number_class option) \<Rightarrow> HTTPRequest \<Rightarrow> responseCapture \<Rightarrow> 'd world \<Rightarrow>
   pipeline_result \<times> 'd world" where
  "executePluginPipeline h parse r capture w =
     (let s = ho_server h in
      case CutPrefix (wr_Path r) (cfg_BasePath (srv_cfg s)) of
        None \<Rightarrow> (stopped capture None notFoundError, w)
      | Some relative \<Rightarrow>
          if relative = '''' then (stopped capture None notFoundError, w)
          else
            (let route = resolvePluginRoute (ho_plugins h) relative (wr_Method r);
                 (origin, w) = (if unsafeRequestMethod (wr_Method r) \<and> \<not> ro_skipOrigin route
                   then checkOrigin s (request_of (ho_lib h) r) w else (Inr (), w)) in
             case origin of
               Inl err \<Rightarrow> (stopped capture None err, w)
             | Inr _ \<Rightarrow>
                 (case newHookContext h r relative (ro_params route) w of
                    (Inl err, w) \<Rightarrow> (stopped capture None err, w)
                  | (Inr (context, _, Some err), w) \<Rightarrow> (stopped capture context err, w)
                  | (Inr (None, _, None), w) \<Rightarrow> (stopped capture None notFoundError, w)
                  | (Inr (Some c, bodyWasJSON, None), w) \<Rightarrow> run_route h parse r capture route c bodyWasJSON w)))"

section \<open>Serving a request\<close>

text \<open>
  The response hooks of one stage: a failing hook replaces the response, and the context learns of it.
\<close>

definition response_stage ::
  "'d Host \<Rightarrow> string \<Rightarrow> 'd compiledResponseHook list \<Rightarrow> PluginResponse \<Rightarrow> 'd pipe \<Rightarrow> PluginResponse \<times> 'd pipe" where
  "response_stage h requestID hooks response = (\<lambda>(c, w).
     case runResponseHooks h hooks response (c\<lparr>cx_Response := Some response\<rparr>, w) of
       (Inr response, pipe) \<Rightarrow> (response, pipe)
     | (Inl err, (c, w)) \<Rightarrow>
         (let response = errorPluginResponse h requestID err in
          (response, (c\<lparr>cx_Response := Some response, cx_Failure := Some err\<rparr>, w))))"

text \<open>The response of the pipeline, before the response hooks.\<close>

definition pipeline_response ::
  "'d Host \<Rightarrow> HTTPRequest \<Rightarrow> pipeline_result \<Rightarrow> PluginResponse" where
  "pipeline_response h r px =
     (let requestID = sanitizeRequestID (header_get (wr_Header r) ''X-Request-ID'');
          secured = newResponseCapture\<lparr>ca_header := setSecurityHeaders r []\<rparr>;
          capture = (case px_error px of None \<Rightarrow> px_capture px | Some err \<Rightarrow> capture_error h requestID err secured);
          response = (case px_error px of None \<Rightarrow> px_response px | Some _ \<Rightarrow> Some (capture_response capture));
          overflowed = capture_error h requestID
            (publicError CodeInternal ''The response could not be completed.'' 500 None) secured;
          (capture, response) = (if ca_overflow capture then (overflowed, Some (capture_response overflowed))
                                 else (capture, response));
          response = (case response of None \<Rightarrow> capture_response capture | Some x \<Rightarrow> x) in
      mergePluginHeaders response (ca_header capture))"

definition checkedSchema :: "'d Host \<Rightarrow> ('d, unit) action" where
  "checkedSchema h =
     external (\<lambda>k. case ho_CheckSchema h k of None \<Rightarrow> Inr () | Some e \<Rightarrow> Inl (schemaRequestError e))"

definition serveHTTP ::
  "'d Host \<Rightarrow> (string \<Rightarrow> number_class option) \<Rightarrow> HTTPRequest \<Rightarrow> 'd world \<Rightarrow> PluginResponse \<times> 'd world" where
  "serveHTTP h parse r w =
     (let capture = newResponseCapture\<lparr>ca_header := setSecurityHeaders r []\<rparr>;
          requestID = sanitizeRequestID (header_get (wr_Header r) ''X-Request-ID'') in
      case checkedSchema h w of
        (Inl err, w) \<Rightarrow> (commitPluginResponse h (capture_response (capture_error h requestID err capture)), w)
      | (Inr _, w) \<Rightarrow>
          (let (px, w) = executePluginPipeline h parse r capture w;
               response = pipeline_response h r px in
           case px_context px of
             None \<Rightarrow> (commitPluginResponse h response, w)
           | Some c \<Rightarrow>
               (let c = (case px_error px of None \<Rightarrow> c | Some err \<Rightarrow> c\<lparr>cx_Failure := Some err\<rparr>);
                    (response, pipe) = (if px_reached px
                      then response_stage h requestID (rt_after (ho_plugins h)) response (c, w)
                      else (response, (c, w)));
                    (response, pipe) = response_stage h requestID (rt_onResponse (ho_plugins h)) response pipe in
                (commitPluginResponse h response, snd pipe))))"

end
