(* ===== verification/Plugin_Order.thy ===== *)
theory Plugin_Order
  imports Plugins "HOL-Library.Multiset"
begin

text \<open>
  The order in which plugins are set up: \<open>compilePlugins\<close> always ends, and it succeeds exactly when the
  ids are valid and distinct and the dependencies are configured and not circular; the plugins then come
  after those they depend on.
\<close>

section \<open>Orders\<close>

definition in_order :: "'d Plugin list \<Rightarrow> bool" where
  "in_order ps \<longleftrightarrow> (\<forall>i < length ps. set (pl_Dependencies (ps ! i)) \<subseteq> pl_ID ` set (take i ps))"

definition depends :: "'d Plugin list \<Rightarrow> (string \<times> string) set" where
  "depends ps = {(d, pl_ID p) |p d. p \<in> set ps \<and> d \<in> set (pl_Dependencies p)}"

lemma in_order_snoc:
  "in_order (ps @ [p]) \<longleftrightarrow> in_order ps \<and> set (pl_Dependencies p) \<subseteq> pl_ID ` set ps"
  by (auto simp: in_order_def less_Suc_eq nth_append)

lemma depends_simps [simp]:
  "depends [] = {}"
  "depends (p # ps) = (\<lambda>d. (d, pl_ID p)) ` set (pl_Dependencies p) \<union> depends ps"
  by (auto simp: depends_def)

lemma finite_depends: "finite (depends ps)"
  by (induction ps) auto

lemma in_order_acyclic:
  assumes "in_order ps" "distinct (map pl_ID ps)"
  shows "acyclic (depends ps)"
proof -
  define place where "place x = the (map_of (zip (map pl_ID ps) [0..<length ps]) x)" for x
  have at: "place (pl_ID (ps ! i)) = i" if "i < length ps" for i
    using map_of_zip_nth [of "map pl_ID ps" "[0..<length ps]" i] assms(2) that by (simp add: place_def)
  have "depends ps \<subseteq> measure place"
  proof (rule subrelI)
    fix d x
    assume "(d, x) \<in> depends ps"
    then obtain i where i: "i < length ps" "x = pl_ID (ps ! i)" "d \<in> set (pl_Dependencies (ps ! i))"
      by (auto simp: depends_def in_set_conv_nth)
    then have "d \<in> pl_ID ` set (take i ps)" using assms(1) by (auto simp: in_order_def)
    then obtain j where "j < i" "d = pl_ID (ps ! j)" using i(1) by (auto simp: in_set_conv_nth)
    then show "(d, x) \<in> measure place" using i at by simp
  qed
  then show ?thesis by (rule acyclic_subset [OF wf_acyclic [OF wf_measure]])
qed

text \<open>A finite acyclic relation has a rank.\<close>

lemma acyclic_rank:
  assumes "finite R" "acyclic R"
  obtains r :: "'a \<Rightarrow> nat" where "\<And>a b. (a, b) \<in> R \<Longrightarrow> r a < r b"
proof
  fix a b
  assume ab: "(a, b) \<in> R"
  have "finite {y. (y, b) \<in> R\<^sup>+}"
    by (rule finite_subset [of _ "fst ` (R\<^sup>+)"]) (use assms(1) in \<open>auto intro: rev_image_eqI\<close>)
  moreover have "{y. (y, a) \<in> R\<^sup>+} \<subset> {y. (y, b) \<in> R\<^sup>+}"
    using ab assms(2) by (auto simp: acyclic_def intro: trancl_into_trancl)
  ultimately show "card {y. (y, a) \<in> R\<^sup>+} < card {y. (y, b) \<in> R\<^sup>+}" by (rule psubset_card_mono)
qed

section \<open>The visit\<close>

definition keyed :: "(string \<times> 'd Plugin) list \<Rightarrow> bool" where
  "keyed byID \<longleftrightarrow> (\<forall>k p. map_of byID k = Some p \<longrightarrow> pl_ID p = k)"

definition visit_inv :: "(string \<times> 'd Plugin) list \<Rightarrow> 'd visit_state \<Rightarrow> bool" where
  "visit_inv byID st \<longleftrightarrow>
     distinct (map pl_ID (vs_ordered st)) \<and> in_order (vs_ordered st) \<and>
     (\<forall>x. vs_visited st x \<le> 2 \<and> (vs_visited st x = 2 \<longleftrightarrow> x \<in> pl_ID ` set (vs_ordered st))) \<and>
     (\<forall>p \<in> set (vs_ordered st). map_of byID (pl_ID p) = Some p) \<and>
     keyed byID"

text \<open>What a visit keeps of the marks, and how many visits of new plugins are possible.\<close>

definition visit_ext :: "'d visit_state \<Rightarrow> 'd visit_state \<Rightarrow> bool" where
  "visit_ext st st' \<longleftrightarrow>
     (\<forall>x. (vs_visited st' x = 1 \<longleftrightarrow> vs_visited st x = 1) \<and> (vs_visited st x = 2 \<longrightarrow> vs_visited st' x = 2))"

definition unseen :: "(string \<times> 'd Plugin) list \<Rightarrow> 'd visit_state \<Rightarrow> nat" where
  "unseen byID st = card {x \<in> fst ` set byID. vs_visited st x = 0}"

lemma visit_ext_trans: "visit_ext a b \<Longrightarrow> visit_ext b c \<Longrightarrow> visit_ext a c"
  by (simp add: visit_ext_def)

lemma unseen_ext:
  assumes "visit_inv byID st" "visit_ext st st'"
  shows "unseen byID st' \<le> unseen byID st"
proof -
  have "vs_visited st x = 0" if "vs_visited st' x = 0" for x
  proof -
    have "vs_visited st x \<le> 2" using assms(1) by (simp add: visit_inv_def)
    then have "vs_visited st x = 0 \<or> vs_visited st x = 1 \<or> vs_visited st x = 2" by linarith
    moreover have "vs_visited st x \<noteq> 1" "vs_visited st x \<noteq> 2" using assms(2) that unfolding visit_ext_def by (metis zero_neq_one, metis zero_neq_numeral)
    ultimately show ?thesis by blast
  qed
  then show ?thesis unfolding unseen_def by (intro card_mono) auto
qed

lemma unseen_mark:
  assumes "vs_visited st pid = 0" "map_of byID pid = Some p"
  shows "unseen byID (st\<lparr>vs_visited := (vs_visited st)(pid := 1)\<rparr>) < unseen byID st"
proof -
  have "pid \<in> fst ` set byID" using map_of_SomeD [OF assms(2)] by force
  then show ?thesis unfolding unseen_def using assms(1) by (intro psubset_card_mono) auto
qed

lemma visit_inv_mark:
  assumes "visit_inv byID st" "vs_visited st pid = 0"
  shows "visit_inv byID (st\<lparr>vs_visited := (vs_visited st)(pid := 1)\<rparr>)"
proof -
  have "pid \<notin> pl_ID ` set (vs_ordered st)" using assms by (auto simp: visit_inv_def) (metis imageI zero_neq_numeral)
  then show ?thesis using assms by (auto simp: visit_inv_def)
qed

lemma visit_inv_finish:
  assumes "visit_inv byID st" "vs_visited st pid = 1" "map_of byID pid = Some p"
    "\<forall>d \<in> set (pl_Dependencies p). vs_visited st d = 2"
  shows "visit_inv byID (st\<lparr>vs_visited := (vs_visited st)(pid := 2), vs_ordered := vs_ordered st @ [p]\<rparr>)"
proof -
  have "pid \<notin> pl_ID ` set (vs_ordered st)" using assms(1,2) unfolding visit_inv_def by (metis numeral_eq_one_iff semiring_norm(85))
  moreover have "set (pl_Dependencies p) \<subseteq> pl_ID ` set (vs_ordered st)"
    using assms(1,4) by (auto simp: visit_inv_def)
  moreover have "pl_ID p = pid" using assms(1,3) by (simp add: visit_inv_def keyed_def)
  ultimately show ?thesis using assms(1,3) by (auto simp: visit_inv_def in_order_snoc)
qed

text \<open>What a visit leaves behind.\<close>

lemma visit_ok:
  shows
    "visit n byID pid st = Some (Inr st') \<Longrightarrow> visit_inv byID st \<Longrightarrow>
       visit_inv byID st' \<and> visit_ext st st' \<and> vs_visited st' pid = 2"
    "visit_all n byID pid ds st = Some (Inr st') \<Longrightarrow> visit_inv byID st \<Longrightarrow>
       visit_inv byID st' \<and> visit_ext st st' \<and> (\<forall>d \<in> set ds. vs_visited st' d = 2)"
proof (induction n byID pid st and n byID pid ds st arbitrary: st' and st' rule: visit_visit_all.induct)
  case (2 n byID pid st)
  show ?case
  proof (cases "vs_visited st pid = 2")
    case True
    with 2 show ?thesis by (auto simp: visit_ext_def)
  next
    case False
    with 2(2) obtain p sub where p: "map_of byID pid = Some p"
      and sub: "visit_all n byID pid (sort_key (index_of byID) (pl_Dependencies p))
        (st\<lparr>vs_visited := (vs_visited st)(pid := 1)\<rparr>) = Some (Inr sub)"
      and st': "st' = sub\<lparr>vs_visited := (vs_visited sub)(pid := 2), vs_ordered := vs_ordered sub @ [p]\<rparr>"
      and new: "vs_visited st pid \<noteq> 1"
      by (auto split: if_splits option.splits sum.splits)
    have "vs_visited st pid \<le> 2" using 2(3) by (simp add: visit_inv_def)
    with False new have zero: "vs_visited st pid = 0" by linarith
    have IH: "visit_inv byID sub \<and> visit_ext (st\<lparr>vs_visited := (vs_visited st)(pid := 1)\<rparr>) sub \<and>
        (\<forall>d \<in> set (pl_Dependencies p). vs_visited sub d = 2)"
      using 2(1) [OF new False p sub visit_inv_mark [OF 2(3) zero]] by simp
    then have one: "vs_visited sub pid = 1" by (simp add: visit_ext_def)
    have "visit_ext st st'" using IH zero by (simp add: visit_ext_def st')
    moreover have "visit_inv byID st'"
      unfolding st' using visit_inv_finish [OF _ one p] IH by blast
    ultimately show ?thesis by (simp add: st')
  qed
next
  case (4 n byID pid d ds st)
  from 4(3) obtain mid where mid: "d \<noteq> pid" "visit n byID d st = Some (Inr mid)"
    and rest: "visit_all n byID pid ds mid = Some (Inr st')"
    by (auto split: if_splits option.splits sum.splits)
  have IH: "visit_inv byID mid \<and> visit_ext st mid \<and> vs_visited mid d = 2"
    using 4(1) [OF mid 4(4)] .
  then have "visit_inv byID st' \<and> visit_ext mid st' \<and> (\<forall>d \<in> set ds. vs_visited st' d = 2)"
    using 4(2) [OF mid(1) mid(2) refl rest] by blast
  with IH show ?case using visit_ext_trans by (auto simp: visit_ext_def)
qed (auto simp: visit_ext_def)

text \<open>The fuel.\<close>

lemma visit_fuel:
  shows
    "visit_inv byID st \<Longrightarrow> unseen byID st < n \<Longrightarrow> visit n byID pid st \<noteq> None"
    "visit_inv byID st \<Longrightarrow> unseen byID st < n \<Longrightarrow> visit_all n byID pid ds st \<noteq> None"
proof (induction n byID pid st and n byID pid ds st rule: visit_visit_all.induct)
  case (2 n byID pid st)
  show ?case
  proof (cases "vs_visited st pid = 0 \<and> map_of byID pid \<noteq> None")
    case True
    then obtain p where p: "vs_visited st pid = 0" "map_of byID pid = Some p" by blast
    have "visit_all n byID pid (sort_key (index_of byID) (pl_Dependencies p))
        (st\<lparr>vs_visited := (vs_visited st)(pid := 1)\<rparr>) \<noteq> None"
      using 2 p visit_inv_mark [OF 2(2) p(1)] unseen_mark [OF p] by simp
    then show ?thesis using p by (auto split: sum.splits)
  next
    case False
    have "vs_visited st pid \<le> 2" using 2(2) by (simp add: visit_inv_def)
    with False show ?thesis by (cases "vs_visited st pid"; cases "vs_visited st pid - 1") auto
  qed
next
  case (4 n byID pid d ds st)
  show ?case
  proof (cases "\<exists>mid. d \<noteq> pid \<and> visit n byID d st = Some (Inr mid)")
    case True
    then obtain mid where mid: "d \<noteq> pid" "visit n byID d st = Some (Inr mid)" by blast
    have "visit_inv byID mid" "visit_ext st mid" using visit_ok(1) [OF mid(2) 4(3)] by blast+
    then have "visit_all n byID pid ds mid \<noteq> None"
      using 4(2) [OF mid(1) mid(2) refl] 4(4) unseen_ext [OF 4(3)] by (meson le_less_trans)
    with mid show ?thesis by simp
  next
    case False
    with 4(1) 4(3,4) show ?thesis by (auto split: sum.splits)
  qed
qed auto

text \<open>When the dependencies are configured and have a rank, no visit fails.\<close>

lemma visit_succeeds:
  fixes r :: "string \<Rightarrow> nat"
  assumes rank: "\<And>k p d. map_of byID k = Some p \<Longrightarrow> d \<in> set (pl_Dependencies p) \<Longrightarrow> map_of byID d \<noteq> None \<and> r d < r k"
  shows
    "visit_inv byID st \<Longrightarrow> map_of byID pid \<noteq> None \<Longrightarrow> (\<And>x. vs_visited st x = 1 \<Longrightarrow> r pid < r x) \<Longrightarrow>
       visit n byID pid st \<noteq> Some (Inl e)"
    "visit_inv byID st \<Longrightarrow> (\<And>d. d \<in> set ds \<Longrightarrow> map_of byID d \<noteq> None \<and> r d < r pid) \<Longrightarrow>
       (\<And>x. vs_visited st x = 1 \<Longrightarrow> r pid \<le> r x) \<Longrightarrow> visit_all n byID pid ds st \<noteq> Some (Inl e)"
  using assms
proof (induction n byID pid st and n byID pid ds st rule: visit_visit_all.induct)
  case (2 n byID pid st)
  from 2(3) obtain p where p: "map_of byID pid = Some p" by blast
  have one: "vs_visited st pid \<noteq> 1" using 2(4) [of pid] by blast
  show ?case
  proof (cases "vs_visited st pid = 2")
    case False
    have "vs_visited st pid \<le> 2" using 2(2) by (simp add: visit_inv_def)
    with one False have zero: "vs_visited st pid = 0" by linarith
    have "visit_all n byID pid (sort_key (index_of byID) (pl_Dependencies p))
        (st\<lparr>vs_visited := (vs_visited st)(pid := 1)\<rparr>) \<noteq> Some (Inl e)"
      by (rule 2(1) [OF one False p visit_inv_mark [OF 2(2) zero] _ _ 2(5)])
        (use 2(5) [OF p] less_imp_le [OF 2(4)] in \<open>auto split: if_splits\<close>)
    then show ?thesis using p one False by (auto split: option.splits sum.splits)
  qed simp
next
  case (4 n byID pid d ds st)
  have d: "map_of byID d \<noteq> None" "r d < r pid" using 4(4) [of d] by auto
  then have ne: "d \<noteq> pid" by auto
  have "r d < r x" if "vs_visited st x = 1" for x using 4(5) [OF that] d(2) by simp
  then have "visit n byID d st \<noteq> Some (Inl e)" by (rule 4(1) [OF ne 4(3) d(1) _ 4(6)])
  moreover have "visit_all n byID pid ds mid \<noteq> Some (Inl e)" if mid: "visit n byID d st = Some (Inr mid)" for mid
  proof (rule 4(2) [OF _ mid refl _ _ _ 4(6)])
    have mid': "visit_inv byID mid" "visit_ext st mid" using visit_ok(1) [OF mid 4(3)] by blast+
    show "d \<noteq> pid" by fact
    show "visit_inv byID mid" by fact
    show "map_of byID d' \<noteq> None \<and> r d' < r pid" if "d' \<in> set ds" for d' using 4(4) that by simp
    show "r pid \<le> r x" if "vs_visited mid x = 1" for x using 4(5) mid'(2) that by (simp add: visit_ext_def)
  qed
  ultimately show ?case using d(2) by (auto split: option.splits sum.splits)
qed auto

section \<open>All plugins\<close>

lemma visit_plugins_ok:
  "visit_plugins n byID ps st = Some (Inr st') \<Longrightarrow> visit_inv byID st \<Longrightarrow>
     visit_inv byID st' \<and> visit_ext st st' \<and> (\<forall>p \<in> set ps. vs_visited st' (pl_ID p) = 2)"
proof (induction ps arbitrary: st)
  case (Cons p ps)
  from Cons(2) obtain mid where mid: "visit n byID (pl_ID p) st = Some (Inr mid)"
      "visit_plugins n byID ps mid = Some (Inr st')" by (auto split: option.splits sum.splits)
  show ?case using visit_ok(1) [OF mid(1) Cons(3)] Cons(1) [OF mid(2)] by (auto simp: visit_ext_def)
qed (simp add: visit_ext_def)

lemma visit_plugins_fuel:
  "visit_inv byID st \<Longrightarrow> unseen byID st < n \<Longrightarrow> visit_plugins n byID ps st \<noteq> None"
proof (induction ps arbitrary: st)
  case (Cons p ps)
  show ?case
  proof (cases "\<exists>mid. visit n byID (pl_ID p) st = Some (Inr mid)")
    case True
    then obtain mid where mid: "visit n byID (pl_ID p) st = Some (Inr mid)" by blast
    have "visit_inv byID mid" "visit_ext st mid" using visit_ok(1) [OF mid Cons(2)] by blast+
    then show ?thesis using Cons(1) [of mid] Cons(3) le_less_trans [OF unseen_ext [OF Cons(2)]] mid by simp
  next
    case False
    with visit_fuel(1) [OF Cons(2,3), of "pl_ID p"] show ?thesis by (auto split: sum.splits)
  qed
qed simp

lemma visit_plugins_succeeds:
  fixes r :: "string \<Rightarrow> nat"
  assumes rank: "\<And>k p d. map_of byID k = Some p \<Longrightarrow> d \<in> set (pl_Dependencies p) \<Longrightarrow> map_of byID d \<noteq> None \<and> r d < r k"
  shows "visit_inv byID st \<Longrightarrow> (\<And>x. vs_visited st x \<noteq> 1) \<Longrightarrow> (\<And>p. p \<in> set ps \<Longrightarrow> map_of byID (pl_ID p) \<noteq> None) \<Longrightarrow>
    visit_plugins n byID ps st \<noteq> Some (Inl e)"
proof (induction ps arbitrary: st)
  case (Cons p ps)
  have "visit n byID (pl_ID p) st \<noteq> Some (Inl e)"
    using visit_succeeds(1) [OF rank Cons(2)] Cons(3,4) by simp
  moreover have "visit_plugins n byID ps mid \<noteq> Some (Inl e)" if mid: "visit n byID (pl_ID p) st = Some (Inr mid)" for mid
  proof -
    have mid': "visit_inv byID mid" "visit_ext st mid" using visit_ok(1) [OF mid Cons(2)] by blast+
    then show ?thesis using Cons(1) [of mid] Cons(3,4) by (simp add: visit_ext_def)
  qed
  ultimately show ?case by (auto split: option.splits sum.splits)
qed simp

lemma map_sum_Inr: "map_sum id f z = Inr y \<longleftrightarrow> (\<exists>x. z = Inr x \<and> f x = y)"
  by (cases z) auto

lemma valid_id_trimmed:
  assumes "validPluginID s"
  shows "TrimSpace s = s"
proof -
  have plain: "\<forall>c \<in> set s. \<not> is_space c"
    using assms by (fastforce simp: validPluginID_def list_all_iff lower_or_digit_def is_space_def split: if_splits)
  have trim: "dropWhile is_space t = t" if "\<forall>c \<in> set t. \<not> is_space c" for t :: string
    using that by (cases t) auto
  show ?thesis using plain trim [of s] trim [of "rev s"] by (simp add: TrimSpace_def)
qed

definition trimmed :: "'d Plugin \<Rightarrow> string \<times> 'd Plugin" where
  "trimmed p = (TrimSpace (pl_ID p), p\<lparr>pl_ID := TrimSpace (pl_ID p)\<rparr>)"

lemma register_plugins_iff:
  "register_plugins byID ps = Inr m \<longleftrightarrow>
     m = byID @ map trimmed ps \<and> (\<forall>p \<in> set ps. validPluginID (TrimSpace (pl_ID p))) \<and>
     distinct (map (TrimSpace \<circ> pl_ID) ps) \<and> fst ` set byID \<inter> (TrimSpace \<circ> pl_ID) ` set ps = {}"
  by (induction byID ps rule: register_plugins.induct)
    (auto simp: Let_def trimmed_def map_of_eq_None_iff image_iff)

lemma keyed_trimmed:
  assumes "distinct (map (TrimSpace \<circ> pl_ID) ps)"
  shows "keyed (map trimmed ps)"
  unfolding keyed_def by (auto dest!: map_of_SomeD simp: trimmed_def)

lemma start_inv: "keyed byID \<Longrightarrow> visit_inv byID \<lparr>vs_visited = (\<lambda>_. 0), vs_ordered = []\<rparr>"
  by (simp add: visit_inv_def in_order_def)

text \<open>A configuration whose ids are valid: the table is the list of plugins under their ids.\<close>

lemma valid_table:
  assumes "\<forall>p \<in> set ps. validPluginID (pl_ID p)"
  shows "map trimmed ps = map (\<lambda>p. (pl_ID p, p)) ps" "map (TrimSpace \<circ> pl_ID) ps = map pl_ID ps"
  using assms by (auto simp: trimmed_def valid_id_trimmed)

lemma map_of_ids:
  assumes "distinct (map pl_ID ps)"
  shows "map_of (map (\<lambda>p. (pl_ID p, p)) ps) k = Some p \<longleftrightarrow> p \<in> set ps \<and> pl_ID p = k"
  using assms by (auto simp: map_of_eq_Some_iff comp_def image_iff)

section \<open>Property\<close>

definition plugins_ok :: "'d Plugin list \<Rightarrow> bool" where
  "plugins_ok ps \<longleftrightarrow>
     (\<forall>p \<in> set ps. validPluginID (pl_ID p) \<and> set (pl_Dependencies p) \<subseteq> pl_ID ` set ps) \<and>
     distinct (map pl_ID ps) \<and> acyclic (depends ps)"

lemma compilePlugins_result:
  assumes "compilePlugins ps = Some (Inr ordered)"
  shows "(\<forall>p \<in> set ps. validPluginID (pl_ID p)) \<and> distinct (map pl_ID ps) \<and>
    mset ordered = mset ps \<and> in_order ordered"
proof (cases "ps = []")
  case False
  then obtain m st where m: "register_plugins [] ps = Inr m"
    and st: "visit_plugins (length ps + 1) m ps \<lparr>vs_visited = (\<lambda>_. 0), vs_ordered = []\<rparr> = Some (Inr st)"
    and ordered: "ordered = vs_ordered st"
    using assms by (auto simp: compilePlugins_def map_sum_Inr split: sum.splits)
  have reg: "m = map trimmed ps" "\<forall>p \<in> set ps. validPluginID (TrimSpace (pl_ID p))"
      "distinct (map (TrimSpace \<circ> pl_ID) ps)"
    using m by (auto simp: register_plugins_iff)
  have inv: "visit_inv m st" and all: "\<forall>p \<in> set ps. pl_ID p \<in> pl_ID ` set ordered"
    using visit_plugins_ok [OF st start_inv [OF keyed_trimmed [OF reg(3), folded reg(1)]]] ordered
    by (auto simp: visit_inv_def)
  have in_m: "map_of m (pl_ID q) = Some q" if "q \<in> set ordered" for q
    using inv that by (simp add: visit_inv_def ordered)
  have valid: "validPluginID (pl_ID q)" if "q \<in> set ordered" for q
    using map_of_SomeD [OF in_m [OF that]] reg(1,2) by (auto simp: trimmed_def)
  with all have ids: "\<forall>p \<in> set ps. validPluginID (pl_ID p)" by fastforce
  note tab = valid_table [OF ids]
  have dist: "distinct (map pl_ID ps)" using reg(3) tab(2) by simp
  have "set ordered \<subseteq> set ps" using in_m map_of_ids [OF dist] reg(1) tab(1) by auto
  moreover have "p \<in> set ordered" if p: "p \<in> set ps" for p
  proof -
    obtain q where q: "q \<in> set ordered" "pl_ID q = pl_ID p" using all p by fastforce
    with \<open>set ordered \<subseteq> set ps\<close> p dist have "q = p" by (auto simp: distinct_map inj_on_def)
    with q show ?thesis by simp
  qed
  ultimately have "set ordered = set ps" by blast
  then have "mset ordered = mset ps"
    using inv dist by (metis distinct_map ordered set_eq_iff_mset_eq_distinct visit_inv_def)
  then show ?thesis using ids dist inv ordered by (auto simp: visit_inv_def)
qed (use assms in \<open>simp add: compilePlugins_def in_order_def\<close>)

lemma compilePlugins_total: "compilePlugins ps \<noteq> None"
proof (cases "register_plugins [] ps")
  case (Inr m)
  then have m: "m = map trimmed ps" "distinct (map (TrimSpace \<circ> pl_ID) ps)" by (auto simp: register_plugins_iff)
  have "unseen m \<lparr>vs_visited = (\<lambda>_. 0), vs_ordered = []\<rparr> < length ps + 1"
    using card_image_le [of "set m" fst] card_length [of m] by (simp add: unseen_def m(1))
  then show ?thesis
    using Inr visit_plugins_fuel [OF start_inv [OF keyed_trimmed [OF m(2), folded m(1)]]]
    by (simp add: compilePlugins_def)
qed (simp add: compilePlugins_def)

lemma compilePlugins_succeeds:
  assumes "plugins_ok ps"
  shows "\<exists>ordered. compilePlugins ps = Some (Inr ordered)"
proof -
  have ids: "\<forall>p \<in> set ps. validPluginID (pl_ID p)" and dist: "distinct (map pl_ID ps)"
    and deps: "\<And>p. p \<in> set ps \<Longrightarrow> set (pl_Dependencies p) \<subseteq> pl_ID ` set ps"
    using assms by (auto simp: plugins_ok_def)
  define m where "m = map (\<lambda>p. (pl_ID p, p)) ps"
  have reg: "register_plugins [] ps = Inr m"
    using ids dist [folded valid_table(2) [OF ids]] valid_table(1) [OF ids] by (simp add: register_plugins_iff m_def valid_id_trimmed)
  have keys: "map_of m x \<noteq> None" if "x \<in> pl_ID ` set ps" for x
    using that by (auto simp: m_def map_of_eq_None_iff image_image)
  obtain r :: "string \<Rightarrow> nat" where r: "\<And>a b. (a, b) \<in> depends ps \<Longrightarrow> r a < r b"
    using acyclic_rank [OF finite_depends] assms by (auto simp: plugins_ok_def)
  have no_error: "visit_plugins (length ps + 1) m ps \<lparr>vs_visited = (\<lambda>_. 0), vs_ordered = []\<rparr> \<noteq> Some (Inl e)" for e
  proof (rule visit_plugins_succeeds [where r = r])
    show "visit_inv m \<lparr>vs_visited = (\<lambda>_. 0), vs_ordered = []\<rparr>"
      by (rule start_inv) (simp add: keyed_def m_def map_of_ids [OF dist])
    show "map_of m d \<noteq> None \<and> r d < r k" if "map_of m k = Some p" "d \<in> set (pl_Dependencies p)" for k p d
      using that deps [of p] keys [of d] r [of d k] by (auto simp: m_def map_of_ids [OF dist] depends_def)
  qed (use keys in auto)
  show ?thesis
  proof (cases "ps = []")
    case False
    then obtain z where z: "visit_plugins (length ps + 1) m ps \<lparr>vs_visited = (\<lambda>_. 0), vs_ordered = []\<rparr> = Some z"
      using compilePlugins_total [of ps] reg by (auto simp: compilePlugins_def)
    with no_error obtain st where "z = Inr st" by (cases z) auto
    with False z reg show ?thesis by (simp add: compilePlugins_def)
  qed (simp add: compilePlugins_def)
qed

text \<open>
  C34. Whatever plugins are configured, putting them in order ends. It succeeds exactly when their ids are
  valid and distinct, every dependency is configured and no plugin depends on itself, directly or through
  others; the result then holds the same plugins, each behind those it depends on.
\<close>

theorem compilePlugins_spec:
  "(\<exists>result. compilePlugins ps = Some result) \<and>
   ((\<exists>ordered. compilePlugins ps = Some (Inr ordered)) \<longleftrightarrow> plugins_ok ps) \<and>
   (\<forall>ordered. compilePlugins ps = Some (Inr ordered) \<longrightarrow> mset ordered = mset ps \<and> in_order ordered)"
proof -
  have "plugins_ok ps" if "compilePlugins ps = Some (Inr ordered)" for ordered
  proof -
    note res = compilePlugins_result [OF that]
    then have same: "set ordered = set ps" "distinct (map pl_ID ordered)"
      by (metis mset_eq_setD, metis mset_eq_imp_distinct_iff mset_map)
    have "set (pl_Dependencies p) \<subseteq> pl_ID ` set ps" if p: "p \<in> set ps" for p
    proof -
      obtain i where "i < length ordered" "ordered ! i = p" using p same(1) by (metis in_set_conv_nth)
      then have "set (pl_Dependencies p) \<subseteq> pl_ID ` set (take i ordered)" using res by (auto simp: in_order_def)
      then show ?thesis using same(1) set_take_subset [of i ordered] by blast
    qed
    moreover have "acyclic (depends ps)"
      using in_order_acyclic [of ordered] res same by (simp add: depends_def)
    ultimately show ?thesis using res by (simp add: plugins_ok_def)
  qed
  then show ?thesis using compilePlugins_total [of ps] compilePlugins_succeeds compilePlugins_result by blast
qed

text \<open>A plugin that is configured ahead of the one it depends on.\<close>

definition ex_plugin :: "string \<Rightarrow> string list \<Rightarrow> unit Plugin" where
  "ex_plugin pid deps = \<lparr>pl_ID = pid, pl_Dependencies = deps, pl_Init = None, pl_Schema = None, pl_Endpoints = [],
     pl_Middlewares = [], pl_Before = [], pl_After = [], pl_OnRequest = None, pl_OnResponse = None,
     pl_TrustedOrigins = [], pl_RateLimits = []\<rparr>"

theorem compilePlugins_spec_witness:
  "\<exists>ordered. compilePlugins [ex_plugin ''sso'' [''base''], ex_plugin ''base'' []] = Some (Inr ordered) \<and>
     mset ordered = mset [ex_plugin ''sso'' [''base''], ex_plugin ''base'' []] \<and> in_order ordered"
proof -
  let ?ps = "[ex_plugin ''sso'' [''base''], ex_plugin ''base'' []]"
  have "plugins_ok ?ps"
    by (simp add: plugins_ok_def ex_plugin_def validPluginID_def lower_or_digit_def acyclic_insert
        acyclic_def [of "{}"])
  then show ?thesis using compilePlugins_spec [of ?ps] by blast
qed

end
