(* ===== verification/Plugin_Theorems.thy ===== *)
theory Plugin_Theorems
  imports Plugin_Runtime Plugin_Order
begin

text \<open>
  What the checks of \<open>newPluginRuntime\<close> give: a compiled runtime leaves the literal core routes alone,
  selects an endpoint only for its own verb and path, and has at most one template of a verb for a path,
  but for a case the check of overlaps misses.
\<close>

section \<open>The invariant of a runtime\<close>

definition endpoint_ok :: "'d compiledEndpoint \<Rightarrow> bool" where
  "endpoint_ok c \<longleftrightarrow> pe_Handler (ce_endpoint c) \<noteq> None \<and> pe_Method (ce_endpoint c) \<in> set pluginMethods"

definition static_ok :: "string \<times> (string \<times> 'd compiledEndpoint) list \<Rightarrow> bool" where
  "static_ok pm \<longleftrightarrow> \<not> isCoreRoute (fst pm) \<and> \<not> HasPrefix (fst pm) ''/callback/'' \<and>
     (\<forall>(m, c) \<in> set (snd pm). m = pe_Method (ce_endpoint c) \<and> ce_template c = fst pm \<and> endpoint_ok c)"

definition tells_apart :: "'d compiledEndpoint \<Rightarrow> 'd compiledEndpoint \<Rightarrow> bool" where
  "tells_apart x y \<longleftrightarrow> pe_Method (ce_endpoint x) = pe_Method (ce_endpoint y) \<longrightarrow>
     \<not> templatesOverlap (ce_template x) (ce_template y)"

definition runtime_inv :: "'d pluginRuntime \<Rightarrow> bool" where
  "runtime_inv rt \<longleftrightarrow>
     list_all static_ok (rt_endpoints rt) \<and>
     list_all (\<lambda>c. endpoint_ok c \<and> list_all (\<lambda>core. matchPluginPath (ce_template c) core = None) coreRoutePaths)
       (rt_dynamic rt) \<and>
     sorted_wrt tells_apart (rt_dynamic rt)"

lemma list_all_put:
  assumes "list_all P m" "P (k, v)"
  shows "list_all P (put k v m)"
  using assms by (induction k v m rule: put.induct) auto

lemma static_put:
  assumes "list_all static_ok eps" "map_of eps path = Some ms \<or> ms = []" "\<not> isCoreRoute path"
    "\<not> HasPrefix path ''/callback/''" "ce_template c = path" "endpoint_ok c" "m = pe_Method (ce_endpoint c)"
  shows "list_all static_ok (put path (put m c ms) eps)"
proof (rule list_all_put [OF assms(1)])
  have "static_ok (path, ms) \<or> ms = []"
    using assms(1,2) map_of_SomeD [of eps path ms] by (auto simp only: list_all_iff)
  then have "\<forall>(m, c) \<in> set ms. m = pe_Method (ce_endpoint c) \<and> ce_template c = path \<and> endpoint_ok c"
    by (auto simp: static_ok_def)
  then have "list_all (\<lambda>(m, c). m = pe_Method (ce_endpoint c) \<and> ce_template c = path \<and> endpoint_ok c) (put m c ms)"
    by (intro list_all_put) (use assms in \<open>auto simp: list_all_iff\<close>)
  then show "static_ok (path, put m c ms)" using assms(3,4) by (auto simp: static_ok_def list_all_iff)
qed

lemma add_endpoint_inv:
  assumes "runtime_inv rt" "add_endpoint pid rt e = Inr rt'"
  shows "runtime_inv rt'"
proof -
  let ?path = "cleanAbsolutePath (pe_Path e)" and ?verb = "ToUpper (TrimSpace (pe_Method e))"
  define e' where "e' = e\<lparr>pe_Path := ?path, pe_Method := ?verb\<rparr>"
  have guards: "pe_Handler e \<noteq> None" "?verb \<in> set pluginMethods" "\<not> isCoreRoute ?path" "\<not> HasPrefix ?path ''/callback/''"
    using assms(2) by (auto simp: add_endpoint_def Let_def split: if_splits)
  from assms(2) obtain shape dynamic where shape: "pluginPathShape ?path (pe_AllowNonKebabPath e) = Inr (shape, dynamic)"
    by (auto simp: add_endpoint_def Let_def split: if_splits option.splits sum.splits)
  define c where "c = \<lparr>ce_pluginID = pid, ce_endpoint = e', ce_template = ?path, ce_shape = shape\<rparr>"
  have ok: "endpoint_ok c" using guards by (simp add: endpoint_ok_def c_def e'_def)
  note result = assms(2) [unfolded add_endpoint_def Let_def, folded e'_def]
  show ?thesis
  proof (cases dynamic)
    case True
    then have "rt' = rt\<lparr>rt_dynamic := rt_dynamic rt @ [c]\<rparr>"
      "\<not> list_ex (\<lambda>x. pe_Method (ce_endpoint x) = ?verb \<and> templatesOverlap (ce_template x) ?path) (rt_dynamic rt)"
      "\<not> list_ex (\<lambda>core. matchPluginPath ?path core \<noteq> None) coreRoutePaths"
      using result shape by (simp_all add: c_def e'_def split: if_splits option.splits)
    then show ?thesis
      using assms(1) ok
      by (auto simp: runtime_inv_def sorted_wrt_append tells_apart_def list_ex_iff list_all_iff c_def e'_def)
  next
    case False
    define ms where "ms = (case map_of (rt_endpoints rt) ?path of None \<Rightarrow> [] | Some ms \<Rightarrow> ms)"
    from False have "rt' = rt\<lparr>rt_endpoints := put ?path (put ?verb c ms) (rt_endpoints rt)\<rparr>"
      using result shape by (simp add: c_def e'_def ms_def split: if_splits option.splits)
    moreover have "list_all static_ok (put ?path (put ?verb c ms) (rt_endpoints rt))"
      by (rule static_put) (use assms(1) guards ok in \<open>auto simp: runtime_inv_def ms_def c_def e'_def split: option.splits\<close>)
    ultimately show ?thesis using assms(1) by (simp add: runtime_inv_def)
  qed
qed

lemma add_plugin_inv:
  assumes "runtime_inv rt" "add_plugin rt p = Inr rt'"
  shows "runtime_inv rt'"
proof -
  let ?rt = "rt\<lparr>rt_onRequest := rt_onRequest rt @ optional_request_hook (pl_ID p) (pl_OnRequest p),
    rt_onResponse := rt_onResponse rt @ optional_response_hook (pl_ID p) (pl_OnResponse p)\<rparr>"
  from assms(2) obtain mid where mid: "foldE (add_endpoint (pl_ID p)) ?rt (pl_Endpoints p) = Inr mid"
    and same: "rt_endpoints rt' = rt_endpoints mid" "rt_dynamic rt' = rt_dynamic mid"
    by (auto simp: add_plugin_def Let_def split: sum.splits)
  have "runtime_inv mid"
    by (rule foldE_invariant [OF mid]) (use assms(1) add_endpoint_inv in \<open>auto simp: runtime_inv_def\<close>)
  then show ?thesis by (simp add: runtime_inv_def same)
qed

lemma newPluginRuntime_inv:
  assumes "newPluginRuntime plugins app = Inr rt"
  shows "runtime_inv rt"
proof -
  from assms obtain start mid where mid: "foldE add_plugin start plugins = Inr mid"
    and start: "rt_endpoints start = []" "rt_dynamic start = []"
    and same: "rt_endpoints rt = rt_endpoints mid" "rt_dynamic rt = rt_dynamic mid"
    by (auto simp: newPluginRuntime_def split: sum.splits)
  have "runtime_inv mid"
    by (rule foldE_invariant [OF mid]) (use start add_plugin_inv in \<open>auto simp: runtime_inv_def\<close>)
  then show ?thesis by (simp add: runtime_inv_def same)
qed

section \<open>Routes\<close>

text \<open>The loop over the dynamic endpoints.\<close>

lemma dynamic_routes_selected:
  assumes "dynamic_routes path verb cs (allowed, sel) = (allowed', sel')"
  shows "(sel' = sel \<or> (\<exists>c params. sel' = Some (c, params) \<and> c \<in> set cs \<and> pe_Method (ce_endpoint c) = verb \<and>
      matchPluginPath (ce_template c) path = Some params)) \<and>
    (allowed' = [] \<longleftrightarrow> allowed = [] \<and> (\<forall>c \<in> set cs. matchPluginPath (ce_template c) path = None)) \<and>
    set allowed' = set allowed \<union>
      {pe_Method (ce_endpoint c) |c. c \<in> set cs \<and> matchPluginPath (ce_template c) path \<noteq> None}"
  using assms
proof (induction path verb cs "(allowed, sel)" arbitrary: allowed sel rule: dynamic_routes.induct)
  case (2 path verb c cs allowed sel)
  show ?case
  proof (cases "matchPluginPath (ce_template c) path")
    case None
    then show ?thesis using 2 by auto
  next
    case (Some params)
    have step: "dynamic_routes path verb cs (allowed @ [pe_Method (ce_endpoint c)],
        if pe_Method (ce_endpoint c) = verb then Some (c, params) else sel) = (allowed', sel')"
      using 2(3) Some by simp
    show ?thesis using 2(2) [OF Some step] Some by (auto split: if_splits)
  qed
qed auto

lemma core_in_paths: "isCoreRoute path \<Longrightarrow> path \<in> set coreRoutePaths"
  unfolding isCoreRoute_def coreRoutePaths_def
  by (metis Un_iff append_take_drop_id set_append)

text \<open>
  C38. With an accepted set of plugins, the route of a request is what it says: a literal core path always
  goes to the core with the origin check on; an endpoint of a plugin is selected only for its own method and
  a path its template stands for, has a handler, and its method is among the allowed ones; and the origin
  check is skipped only for an endpoint that asks for it and for the callback of a social provider.
\<close>

theorem plugin_routes_sound:
  assumes "newPluginRuntime plugins app = Inr rt"
  shows "let r = resolvePluginRoute rt path verb in
    (isCoreRoute path \<longrightarrow> ro_core r \<and> ro_found r \<and> \<not> ro_skipOrigin r) \<and>
    (\<forall>c. ro_endpoint r = Some c \<longrightarrow> \<not> ro_core r \<and> ro_found r \<and> verb \<in> set (ro_allowed r) \<and>
       pe_Method (ce_endpoint c) = verb \<and> pe_Handler (ce_endpoint c) \<noteq> None \<and>
       (ce_template c = path \<or> matchPluginPath (ce_template c) path = Some (ro_params r))) \<and>
    (ro_skipOrigin r \<longrightarrow>
       (\<exists>c. ro_endpoint r = Some c \<and> pe_SkipOriginCheck (ce_endpoint c)) \<or> HasPrefix path ''/callback/'')"
proof -
  have inv: "runtime_inv rt" by (rule newPluginRuntime_inv [OF assms])
  have skip: "skips_origin ce \<longleftrightarrow> (\<exists>c. ce = Some c \<and> pe_SkipOriginCheck (ce_endpoint c))"
    for ce :: "'a compiledEndpoint option"
    by (cases ce) (auto simp: skips_origin_def)
  show ?thesis
  proof (cases "map_of (rt_endpoints rt) path")
    case (Some ms)
    have ok: "static_ok (path, ms)" using inv map_of_SomeD [OF Some] by (auto simp: runtime_inv_def list_all_iff)
    have "verb \<in> fst ` set ms \<and> pe_Method (ce_endpoint c) = verb \<and> ce_template c = path \<and>
        pe_Handler (ce_endpoint c) \<noteq> None" if "map_of ms verb = Some c" for c
      using ok map_of_SomeD [OF that] by (force simp: static_ok_def endpoint_ok_def)
    then show ?thesis
      using ok by (auto simp: resolvePluginRoute_def Some Let_def static_ok_def skip)
  next
    case None
    obtain allowed sel where dyn: "dynamic_routes path verb (rt_dynamic rt) ([], None) = (allowed, sel)" by fastforce
    note sel = dynamic_routes_selected [OF dyn]
    have dynamic: "endpoint_ok c \<and> (\<forall>core \<in> set coreRoutePaths. matchPluginPath (ce_template c) core = None)"
      if "c \<in> set (rt_dynamic rt)" for c
      using inv that by (auto simp: runtime_inv_def list_all_iff)
    have chosen: "pe_Method (ce_endpoint c) = verb \<and> pe_Handler (ce_endpoint c) \<noteq> None \<and> verb \<in> set allowed \<and>
        matchPluginPath (ce_template c) path = Some params" if "sel = Some (c, params)" for c params
    proof -
      from sel that have c: "c \<in> set (rt_dynamic rt)" "pe_Method (ce_endpoint c) = verb"
        "matchPluginPath (ce_template c) path = Some params" by auto
      then have "verb \<in> set allowed" using sel by auto
      with c dynamic [OF c(1)] show ?thesis by (auto simp: endpoint_ok_def)
    qed
    have core: "allowed = []" if "isCoreRoute path"
      using sel dynamic core_in_paths [OF that] by blast
    show ?thesis
    proof (cases "allowed = []")
      case True
      then show ?thesis
        using dyn None by (auto simp: resolvePluginRoute_def core_route_def CutPrefix_def Let_def split: option.splits if_splits)
    next
      case False
      then show ?thesis
        using dyn None core chosen by (auto simp: resolvePluginRoute_def Let_def skip split: option.splits)
    qed
  qed
qed

text \<open>
  C39. Two templates of an accepted runtime that have one method and match one path overlap in one way only:
  one of them ends where the wildcard of the other begins. Then the wildcard stands for nothing and the
  later registration is taken.
\<close>

theorem templates_unambiguous:
  assumes "newPluginRuntime plugins app = Inr rt" "i < j" "j < length (rt_dynamic rt)"
    "a = rt_dynamic rt ! i" "b = rt_dynamic rt ! j" "pe_Method (ce_endpoint a) = pe_Method (ce_endpoint b)"
    "matchPluginPath (ce_template a) path \<noteq> None" "matchPluginPath (ce_template b) path \<noteq> None"
  shows "wildcard_tail (path_segments (ce_template a)) (path_segments (ce_template b)) (path_segments path) \<or>
    wildcard_tail (path_segments (ce_template b)) (path_segments (ce_template a)) (path_segments path)"
proof (rule overlap_segments_complete)
  show "matches_segments (path_segments (ce_template a)) (path_segments path)"
    "matches_segments (path_segments (ce_template b)) (path_segments path)"
    using assms(7,8) unfolding matchPluginPath_def match_segments_iff by blast+
  have "sorted_wrt tells_apart (rt_dynamic rt)"
    using newPluginRuntime_inv [OF assms(1)] by (simp add: runtime_inv_def)
  then have "tells_apart a b" using assms(2-5) by (simp add: sorted_wrt_iff_nth_less)
  then show "\<not> overlap_segments (path_segments (ce_template a)) (path_segments (ce_template b))"
    using assms(6) by (simp add: tells_apart_def templatesOverlap_def)
qed

section \<open>A concrete runtime\<close>

text \<open>Two templates that the check of overlaps lets pass, and a path that both match.\<close>

definition ex_endpoint :: "string \<Rightarrow> unit PluginEndpoint" where
  "ex_endpoint path = \<lparr>pe_Name = path, pe_Path = path, pe_Method = ''GET'', pe_SkipOriginCheck = False,
     pe_AllowNonKebabPath = False, pe_Use = [], pe_BodyValidator = None, pe_QueryValidator = None,
     pe_Handler = Some (\<lambda>c w. (None, c, w))\<rparr>"

definition ex_plugins :: "unit Plugin list" where
  "ex_plugins = [(ex_plugin ''p'' [])\<lparr>pl_Endpoints := [ex_endpoint ''/o/:b'', ex_endpoint ''/o/:b/*r'']\<rparr>]"

definition ex_hooks :: "unit ServerHooks" where
  "ex_hooks = \<lparr>sh_OnRequest = None, sh_Before = [], sh_After = [], sh_OnResponse = None\<rparr>"

lemma ex_runtime:
  "\<exists>rt a b. newPluginRuntime ex_plugins ex_hooks = Inr rt \<and> rt_dynamic rt = [a, b] \<and>
     ce_template a = ''/o/:b'' \<and> ce_template b = ''/o/:b/*r'' \<and>
     pe_Method (ce_endpoint a) = ''GET'' \<and> pe_Method (ce_endpoint b) = ''GET''"
  by (simp add: newPluginRuntime_def ex_plugins_def ex_hooks_def ex_plugin_def ex_endpoint_def add_plugin_def
      add_endpoint_def Let_def cleanAbsolutePath_def ToUpper_def TrimSpace_def upper_def is_space_def pluginMethods_def isCoreRoute_def
      coreLiteralPaths_def HasPrefix_def TrimPrefix_def validators_error_def pluginPathShape_def path_segments_def
      validPathParameter_def validLiteralPathSegment_def lower_or_digit_def upper_char_def templatesOverlap_def coreRoutePaths_def
      matchPluginPath_def optional_request_hook_def optional_response_hook_def)

theorem plugin_routes_sound_witness:
  "\<exists>rt. newPluginRuntime ex_plugins ex_hooks = Inr rt \<and> ro_core (resolvePluginRoute rt ''/sign-out'' ''POST'')"
proof -
  obtain rt where rt: "newPluginRuntime ex_plugins ex_hooks = Inr rt" using ex_runtime by blast
  then show ?thesis
    using plugin_routes_sound [OF rt, of "''/sign-out''" "''POST''"]
    by (simp add: Let_def isCoreRoute_def coreLiteralPaths_def)
qed

theorem templates_unambiguous_witness:
  "wildcard_tail (path_segments ''/o/:b/*r'') (path_segments ''/o/:b'') (path_segments ''/o/x'')"
proof -
  obtain rt a b where rt: "newPluginRuntime ex_plugins ex_hooks = Inr rt" and ab: "rt_dynamic rt = [a, b]"
      "ce_template a = ''/o/:b''" "ce_template b = ''/o/:b/*r''" "pe_Method (ce_endpoint a) = ''GET''"
      "pe_Method (ce_endpoint b) = ''GET''"
    using ex_runtime by blast
  have segments: "path_segments ''/o/:b'' = [''o'', '':b'']" "path_segments ''/o/:b/*r'' = [''o'', '':b'', ''*r'']"
      "path_segments ''/o/x'' = [''o'', ''x'']"
    by (simp_all add: path_segments_def TrimPrefix_def HasPrefix_def)
  have match: "matchPluginPath ''/o/:b'' ''/o/x'' \<noteq> None" "matchPluginPath ''/o/:b/*r'' ''/o/x'' \<noteq> None"
    unfolding matchPluginPath_def match_segments_iff segments by (simp_all add: HasPrefix_def)
  have at: "a = rt_dynamic rt ! 0" "b = rt_dynamic rt ! 1" "1 < length (rt_dynamic rt)" by (simp_all add: ab(1))
  have "wildcard_tail (path_segments ''/o/:b'') (path_segments ''/o/:b/*r'') (path_segments ''/o/x'') \<or>
      wildcard_tail (path_segments ''/o/:b/*r'') (path_segments ''/o/:b'') (path_segments ''/o/x'')"
    using templates_unambiguous [OF rt zero_less_one at(3,1,2) trans [OF ab(4) ab(5) [symmetric]], unfolded ab(2,3), OF match] .
  then show ?thesis by (simp add: wildcard_tail_def segments)
qed

end
