(* ===== verification/Pipeline_Theorems.thy ===== *)
theory Pipeline_Theorems
  imports Plugin_Pipeline Plugin_Theorems Server_Theorems
begin

text \<open>
  What the plugin host promises of every request, whatever its plugins do: the response that leaves the
  server is well formed and marked as not to be stored, and a request that fails the schema check or comes
  from an untrusted origin reaches no code of a plugin.
\<close>

section \<open>Responses\<close>

lemma error_written_eq: "error_written rid e = error_response rid e empty_response"
  by (simp add: error_written_def writeError_run)

lemma capture_core_fresh:
  assumes "ca_status ca = 0" "ca_body ca = []" "rs_Status rs = Some st" "0 < st" "0 \<le> ho_MaxResponseBytes h"
  shows "ca_status (capture_core h rs ca) = st \<and> int (length (ca_body (capture_core h rs ca))) \<le> ho_MaxResponseBytes h"
  using assms by (simp add: capture_core_def capture_WriteHeader_def capture_Write_def Let_def split: option.splits)

lemma error_captured:
  assumes "ca_status ca = 0" "ca_body ca = []" "0 \<le> ho_MaxResponseBytes h"
  shows "400 \<le> plr_Status (capture_response (capture_error h rid e ca)) \<and>
    plr_Status (capture_response (capture_error h rid e ca)) \<le> 599 \<and>
    int (length (plr_Body (capture_response (capture_error h rid e ca)))) \<le> ho_MaxResponseBytes h"
proof -
  obtain st where st: "rs_Status (error_written rid e) = Some st" "400 \<le> st" "st \<le> 599"
    using error_response_sel(2) [of rid e empty_response] error_written_eq by metis
  then show ?thesis
    using capture_core_fresh [OF assms(1,2) st(1) _ assms(3)] by (simp add: capture_error_def capture_response_def)
qed

lemma error_plugin_response:
  assumes "0 \<le> ho_MaxResponseBytes h"
  shows "400 \<le> plr_Status (errorPluginResponse h rid e) \<and> plr_Status (errorPluginResponse h rid e) \<le> 599 \<and>
    int (length (plr_Body (errorPluginResponse h rid e))) \<le> ho_MaxResponseBytes h"
  unfolding errorPluginResponse_def by (rule error_captured) (simp_all add: newResponseCapture_def assms)

definition sealed :: "'d Host \<Rightarrow> PluginResponse \<Rightarrow> bool" where
  "sealed h resp \<longleftrightarrow> 200 \<le> plr_Status resp \<and> plr_Status resp \<le> 599 \<and>
     int (length (plr_Body resp)) \<le> ho_MaxResponseBytes h \<and>
     map_of (plr_Headers resp) ''Cache-Control'' = Some [''no-store''] \<and>
     map_of (plr_Headers resp) ''Pragma'' = Some [''no-cache''] \<and>
     map_of (plr_Headers resp) ''X-Content-Type-Options'' = Some [''nosniff'']"

lemma canonical_names:
  "canonical True ''Cache-Control'' = ''Cache-Control''" "canonical True ''Pragma'' = ''Pragma''"
  "canonical True ''X-Content-Type-Options'' = ''X-Content-Type-Options''"
  by code_simp+

lemma commit_sealed:
  assumes "0 \<le> ho_MaxResponseBytes h"
  shows "sealed h (commitPluginResponse h resp)"
proof -
  define final where "final = (case validatePluginResponse h resp of None \<Rightarrow> resp | Some err \<Rightarrow> errorPluginResponse h [] err)"
  have final: "200 \<le> plr_Status final \<and> plr_Status final \<le> 599 \<and> int (length (plr_Body final)) \<le> ho_MaxResponseBytes h"
  proof (cases "validatePluginResponse h resp")
    case None
    then show ?thesis by (auto simp: final_def validatePluginResponse_def split: if_splits)
  next
    case (Some err)
    then show ?thesis using error_plugin_response [OF assms, of "[]" err] by (simp add: final_def)
  qed
  have "plr_Status (commitPluginResponse h resp) = plr_Status final"
    "plr_Body (commitPluginResponse h resp) = plr_Body final"
    "map_of (plr_Headers (commitPluginResponse h resp)) ''Cache-Control'' = Some [''no-store'']"
    "map_of (plr_Headers (commitPluginResponse h resp)) ''Pragma'' = Some [''no-cache'']"
    "map_of (plr_Headers (commitPluginResponse h resp)) ''X-Content-Type-Options'' = Some [''nosniff'']"
    by (simp_all add: commitPluginResponse_def Let_def header_set_def canonical_names final_def [symmetric] del: canonical.simps)
  then show ?thesis using final by (simp add: sealed_def)
qed

lemma serveHTTP_commits: "\<exists>resp w'. serveHTTP h parse r w = (commitPluginResponse h resp, w')"
  unfolding serveHTTP_def Let_def by (simp split: prod.split sum.split option.split) blast

section \<open>Properties\<close>

text \<open>
  C30. Whatever a request is and whatever the plugins, their hooks and the core do with it, panics included, one
  response leaves the server: its status is from 200 to 599, its body within the configured limit, and it
  forbids caching and sniffing.
\<close>

theorem every_response_sealed:
  assumes "0 \<le> ho_MaxResponseBytes h"
  shows "sealed h (fst (serveHTTP h parse r w))"
proof -
  obtain resp w' where "serveHTTP h parse r w = (commitPluginResponse h resp, w')" using serveHTTP_commits by blast
  then show ?thesis using commit_sealed [OF assms] by simp
qed


lemma stopped_sel [simp]:
  "px_context (stopped ca c e) = c" "px_error (stopped ca c e) = Some e" "px_reached (stopped ca c e) = False"
  by (simp_all add: stopped_def)






section \<open>A concrete host\<close>

text \<open>The concrete server with no plugins, and a request without an origin.\<close>

definition ex_runtime_none :: "mem pluginRuntime" where
  "ex_runtime_none = \<lparr>rt_plugins = [], rt_endpoints = [], rt_dynamic = [], rt_onRequest = [], rt_middlewares = [],
     rt_before = [], rt_after = [], rt_onResponse = [], rt_rateLimits = []\<rparr>"

definition ex_lib :: HTTPLib where
  "ex_lib = \<lparr>hl_Cookies = (\<lambda>_. []), hl_PostForm = (\<lambda>_. Inr (\<lambda>_. [])), hl_Document = (\<lambda>_. DocInvalid),
     hl_DecodeAny = (\<lambda>_. Inl ErrNotFound), hl_MarshalAny = (\<lambda>_. Inr []), hl_EncodeJSON = (\<lambda>_. []),
     hl_CookieString = co_Name, hl_ValidHeaderName = (\<lambda>_. True), hl_ValidHeaderValue = (\<lambda>_. True)\<rparr>"

definition ex_host :: "mem Host" where
  "ex_host = \<lparr>ho_server = ex_server, ho_plugins = ex_runtime_none, ho_CheckSchema = (\<lambda>_. None),
     ho_MaxRequestBytes = 1000, ho_MaxResponseBytes = 1000, ho_lib = ex_lib\<rparr>"

definition ex_wire :: HTTPRequest where
  "ex_wire = \<lparr>wr_Method = ''POST'', wr_Path = ''/api/sign-out'', wr_Header = [], wr_Query = [], wr_RemoteAddr = [],
     wr_Host = [], wr_ContentLength = 0, wr_Body = None\<rparr>"

theorem every_response_sealed_witness: "sealed ex_host (fst (serveHTTP ex_host (\<lambda>_. None) ex_wire ex_world))"
  by (rule every_response_sealed) (simp add: ex_host_def)


section \<open>Bodies\<close>

text \<open>
  C32. What becomes of a JSON body that holds a second value after the first, which \<open>decodeJSON\<close> alone always
  refuses. The context keeps the first value beside the decoding error. Unless that value is null,
  \<open>syncHookRequest\<close> writes it back as the body, and \<open>decodeJSON\<close> in the core accepts the request for what its
  first object decodes to; if it is null the body stays as it was and is refused. Of \<open>encoding/json\<close> it is
  assumed that both decoders see the first value and that more follows, and that an encoding holds one value.
\<close>

theorem trailing_value_dropped:
  assumes "wr_Body r = Some (Inr raw)" "json_content_type r" "int (length raw) \<le> ho_MaxRequestBytes h"
    "TrimSpace raw \<noteq> ''''" "hl_DecodeAny (ho_lib h) raw = Inr (v, True)"
    "hl_MarshalAny (ho_lib h) v = Inr first" "int (length first) \<le> ho_MaxRequestBytes h"
    "trailing (hl_Document (ho_lib h) raw)" "\<not> trailing (hl_Document (ho_lib h) first)"
  shows "let (c, wasJSON, err) = context_body h r c0 in
    err = None \<and> cx_bodyDecodeError c \<noteq> None \<and> (\<exists>e. decodeJSON dec (document_of h r) w' = (Inl e, w')) \<and>
    (\<exists>c'. syncHookRequest h wasJSON (c, w) = (Inr (), (c', w)) \<and>
       (if v = ANil then document_of h (synced_request r c') = document_of h r
        else decodeJSON dec (document_of h (synced_request r c')) w' =
          (case dec (hl_Document (ho_lib h) first) of
             Inl e \<Rightarrow> (Inl (publicError CodeBadRequest ''Invalid JSON request.'' 400 (Some e)), w')
           | Inr x \<Rightarrow> (Inr x, w'))))"
  using assms
  by (auto simp: context_body_def syncHookRequest_def get_context_def on_context_def bindM_def ret_def synced_request_def
      document_of_def decodeJSON_def fail_def Let_def split: sum.split)

definition ex_two_values :: HTTPRequest where
  "ex_two_values = ex_wire\<lparr>wr_Header := [(''Content-Type'', [''application/json''])], wr_Body := Some (Inr ''{} 2'')\<rparr>"

definition ex_host_two :: "mem Host" where
  "ex_host_two = ex_host\<lparr>ho_lib := ex_lib\<lparr>hl_DecodeAny := (\<lambda>_. Inr (AObject [], True)), hl_MarshalAny := (\<lambda>_. Inr ''{}''),
     hl_Document := (\<lambda>raw. DocObject [] (raw = ''{} 2''))\<rparr>\<rparr>"

theorem trailing_value_dropped_witness:
  "fst (decodeJSON (decodeStruct []) (document_of ex_host_two ex_two_values) ex_world) \<noteq> Inr Map.empty \<and>
   (\<forall>c0. \<exists>c was c'. context_body ex_host_two ex_two_values c0 = (c, was, None) \<and>
      syncHookRequest ex_host_two was (c, ex_world) = (Inr (), (c', ex_world)) \<and>
      decodeJSON (decodeStruct []) (document_of ex_host_two (synced_request ex_two_values c')) ex_world = (Inr Map.empty, ex_world))"
proof -
  have json: "json_content_type ex_two_values"
    by (simp add: json_content_type_def ex_two_values_def header_get_def TrimSpace_def is_space_def
        ToLower_def lower_char_def upper_def)
  have "wr_Body ex_two_values = Some (Inr ''{} 2'')" "int (length ''{} 2'') \<le> ho_MaxRequestBytes ex_host_two"
    "TrimSpace ''{} 2'' \<noteq> ''''" "hl_DecodeAny (ho_lib ex_host_two) ''{} 2'' = Inr (AObject [], True)"
    "hl_MarshalAny (ho_lib ex_host_two) (AObject []) = Inr ''{}''" "int (length ''{}'') \<le> ho_MaxRequestBytes ex_host_two"
    "trailing (hl_Document (ho_lib ex_host_two) ''{} 2'')" "\<not> trailing (hl_Document (ho_lib ex_host_two) ''{}'')"
    by (simp_all add: ex_two_values_def ex_host_two_def ex_host_def TrimSpace_def is_space_def trailing_def)
  note facts = trailing_value_dropped [OF this(1) json this(2-8), of _ "decodeStruct []" ex_world ex_world]
  have first: "decodeStruct [] (hl_Document (ho_lib ex_host_two) ''{}'') = Inr Map.empty"
    by (simp add: ex_host_two_def decodeStruct_def)
  have "\<exists>c was c'. context_body ex_host_two ex_two_values c0 = (c, was, None) \<and>
      syncHookRequest ex_host_two was (c, ex_world) = (Inr (), (c', ex_world)) \<and>
      decodeJSON (decodeStruct []) (document_of ex_host_two (synced_request ex_two_values c')) ex_world = (Inr Map.empty, ex_world) \<and>
      (\<exists>e. fst (decodeJSON (decodeStruct []) (document_of ex_host_two ex_two_values) ex_world) = Inl e)" for c0
  proof -
    obtain c was err where cb: "context_body ex_host_two ex_two_values c0 = (c, was, err)" by (metis prod_cases3)
    from facts [of c0, unfolded cb] first show ?thesis by (auto simp: cb)
  qed
  then show ?thesis by fastforce
qed

end
