(* ===== verification/Plugin_Helpers.thy ===== *)
theory Plugin_Helpers
  imports Pipeline_Theorems
begin

text \<open>
  The middlewares of \<open>plugin_helpers.go\<close> for the endpoints of plugins: an active session, a fresh session,
  the CSRF pair, the ownership of a record. And the responses a plugin builds, \<open>plugin.go\<close>.
\<close>

section \<open>Middlewares\<close>

text \<open>A hook that reads the context and acts on the server's world.\<close>

definition hook_of :: "(HookContext \<Rightarrow> ('d, PluginResponse option) action) \<Rightarrow> 'd RequestHook" where
  "hook_of f = (\<lambda>c w. case f c w of (res, w') \<Rightarrow> (Some res, c, w'))"

definition SessionMiddleware :: "HookContext \<Rightarrow> ('d, PluginResponse option) action" where
  "SessionMiddleware c =
     (if cx_Session c = None \<or> cx_User c = None then fail (unauthorized None) else ret None)"

definition FreshSessionMiddleware :: "'d Server \<Rightarrow> HookContext \<Rightarrow> ('d, PluginResponse option) action" where
  "FreshSessionMiddleware s c =
     bindM (SessionMiddleware c) (\<lambda>_.
     let stale = publicError CodeUnauthorized ''A fresh session is required.'' 401 None;
         created = ss_CreatedAt (the (cx_Session c)); age = cfg_SessionFreshAge (srv_cfg s) in
     if age \<le> 0 then fail stale
     else bindM (Now s) (\<lambda>now.
       if created > now + 60 * 1000000000 then fail stale
       else bindM (Now s) (\<lambda>now. if now - created > age then fail stale else ret None)))"

definition CSRFMiddleware :: "'d Server \<Rightarrow> Request \<Rightarrow> HookContext \<Rightarrow> ('d, PluginResponse option) action" where
  "CSRFMiddleware s r c = bindM (requireCSRF s r) (\<lambda>_. ret None)"

datatype ResourceIDSource =
    ResourceIDUnset | ResourceIDParams | ResourceIDQuery | ResourceIDBody | ResourceIDOther string

record ResourceOwnershipConfig =
  rc_Model :: string
  rc_IDField :: string
  rc_IDParam :: string
  rc_IDSource :: ResourceIDSource
  rc_OwnerField :: string

definition resourceIDFromContext :: "HookContext \<Rightarrow> ResourceOwnershipConfig \<Rightarrow> string" where
  "resourceIDFromContext c config =
     (case rc_IDSource config of
        ResourceIDParams \<Rightarrow>
          TrimSpace (case map_of (cx_Params c) (rc_IDParam config) of Some v \<Rightarrow> v | None \<Rightarrow> '''')
      | ResourceIDQuery \<Rightarrow> TrimSpace (first_value (cx_Query c) (rc_IDParam config))
      | ResourceIDBody \<Rightarrow>
          (case cx_Body c of
             AObject body \<Rightarrow>
               (case map_of body (rc_IDParam config) of Some (AString v) \<Rightarrow> TrimSpace v | _ \<Rightarrow> '''')
           | _ \<Rightarrow> '''')
      | _ \<Rightarrow> '''')"

definition ownership_defaults :: "ResourceOwnershipConfig \<Rightarrow> ResourceOwnershipConfig" where
  "ownership_defaults config =
     (let orElse = (\<lambda>v d. if v = '''' then d else v) in
      config\<lparr>rc_Model := TrimSpace (rc_Model config), rc_IDField := orElse (rc_IDField config) ''id'',
        rc_IDParam := orElse (rc_IDParam config) ''id'',
        rc_IDSource := (if rc_IDSource config = ResourceIDUnset then ResourceIDParams else rc_IDSource config),
        rc_OwnerField := orElse (rc_OwnerField config) ''userId''\<rparr>)"

definition ownership_check ::
  "'d Server \<Rightarrow> ResourceOwnershipConfig \<Rightarrow> HookContext \<Rightarrow> ('d, PluginResponse option) action" where
  "ownership_check s config c =
     bindM (SessionMiddleware c) (\<lambda>_.
     let resourceID = resourceIDFromContext c config;
         notFound = (\<lambda>cause. publicError CodeNotFound ''Resource not found.'' 404 cause) in
     if resourceID = '''' \<or> length resourceID > 512
     then fail (publicError CodeBadRequest ''Invalid resource identifier.'' 400 None)
     else bindM (mapErr (\<lambda>err. notFound (Some err))
         (onDB (db_findOne (cfg_Database (srv_cfg s))
           \<lparr>fo_Model = rc_Model config,
            fo_Where = [Eq (rc_IDField config) (VStr resourceID), Eq (rc_OwnerField config) (VStr (u_ID (the (cx_User c))))],
            fo_Select = [], fo_Joins = []\<rparr>))) (\<lambda>record.
       if record = None then fail (notFound None) else ret None))"

definition RequireResourceOwnership :: "'d Server \<Rightarrow> ResourceOwnershipConfig \<Rightarrow> go_error + 'd RequestHook" where
  "RequireResourceOwnership s config =
     (let config = ownership_defaults config in
      if rc_Model config = '''' then Inl (ErrText ''betterauth: resource model is required'')
      else if rc_IDSource config \<notin> {ResourceIDParams, ResourceIDQuery, ResourceIDBody}
      then Inl (ErrText ''betterauth: invalid resource id source'')
      else Inr (hook_of (ownership_check s config)))"

section \<open>Responses of plugins\<close>

text \<open>
  A cookie with the attributes the code checks; \<open>pc_valid\<close> is the result of \<open>cookie.Valid\<close> and
  \<open>pc_text\<close> that of \<open>cookie.String\<close>.
\<close>

record PluginCookie =
  pc_Name :: string
  pc_Secure :: bool
  pc_HttpOnly :: bool
  pc_Domain :: string
  pc_Path :: string
  pc_SameSite :: int
  pc_valid :: "go_error option"
  pc_text :: string

text \<open>\<open>http.SameSiteLaxMode\<close> and \<open>http.SameSiteStrictMode\<close> are 2 and 3.\<close>

definition host_only :: "PluginCookie \<Rightarrow> bool" where
  "host_only c \<longleftrightarrow> HasPrefix (pc_Name c) ''__Host-'' \<and> pc_Secure c \<and> pc_Domain c = '''' \<and> pc_Path c = ''/'' \<and>
     pc_SameSite c \<in> {2, 3}"

definition plugin_SetCookie :: "PluginCookie option \<Rightarrow> PluginResponse \<Rightarrow> go_error + PluginResponse" where
  "plugin_SetCookie cookie response =
     (case cookie of
        None \<Rightarrow> Inl (ErrText ''betterauth: plugin cookie is nil'')
      | Some c \<Rightarrow>
          if \<not> (host_only c \<and> pc_HttpOnly c)
          then Inl (ErrText ''betterauth: plugin cookie must be __Host-, Secure, HttpOnly, host-only, Path=/, and SameSite Lax or Strict'')
          else case pc_valid c of
            Some err \<Rightarrow> Inl (ErrWrap ''betterauth: invalid plugin cookie'' err)
          | None \<Rightarrow> Inr (response\<lparr>plr_Headers := header_add (plr_Headers response) ''Set-Cookie'' (pc_text c)\<rparr>))"

text \<open>
  \<open>IssuedSession.Apply\<close>: the cookies and the CSRF value of an issued session go into a response once. The
  headers written before an invalid cookie stay.
\<close>

record PluginSession =
  ps_cookies :: "PluginCookie option list"
  ps_csrf :: string

fun apply_cookies :: "PluginCookie option list \<Rightarrow> PluginResponse \<Rightarrow> go_error option \<times> PluginResponse" where
  "apply_cookies [] response = (None, response)"
| "apply_cookies (cookie # cookies) response =
     (case cookie of
        None \<Rightarrow> (Some (ErrText ''betterauth: invalid issued session cookie''), response)
      | Some c \<Rightarrow>
          if \<not> host_only c then (Some (ErrText ''betterauth: invalid issued session cookie''), response)
          else case pc_valid c of
            Some err \<Rightarrow> (Some (ErrWrap ''betterauth: invalid issued session cookie'' err), response)
          | None \<Rightarrow>
              apply_cookies cookies
                (response\<lparr>plr_Headers := header_add (plr_Headers response) ''Set-Cookie'' (pc_text c)\<rparr>))"

definition Apply :: "PluginSession \<Rightarrow> PluginResponse \<Rightarrow> (go_error option \<times> PluginResponse) \<times> PluginSession" where
  "Apply issued response =
     (if ps_cookies issued = [] then
        ((Some (ErrText ''betterauth: issued session was already applied''), response), issued)
      else case apply_cookies (ps_cookies issued) response of
        (Some err, response) \<Rightarrow> ((Some err, response), issued)
      | (None, response) \<Rightarrow>
          ((None, if ps_csrf issued \<noteq> ''''
                  then response\<lparr>plr_Headers := header_set (plr_Headers response) ''X-CSRF-Token'' (ps_csrf issued)\<rparr>
                  else response),
           \<lparr>ps_cookies = [], ps_csrf = ''''\<rparr>))"

text \<open>\<open>JSONResponse\<close> and \<open>SetJSON\<close>, over the result of \<open>json.Marshal\<close>.\<close>

definition JSONResponse :: "int \<Rightarrow> go_error + string \<Rightarrow> go_error + PluginResponse" where
  "JSONResponse status encoded =
     (case encoded of
        Inl err \<Rightarrow> Inl (ErrWrap ''betterauth: encode plugin response'' err)
      | Inr body \<Rightarrow>
          Inr \<lparr>plr_Status = status, plr_Headers = [(''Content-Type'', [''application/json; charset=utf-8''])],
            plr_Body = body @ [CHR 0x0A]\<rparr>)"

definition SetJSON :: "go_error + string \<Rightarrow> PluginResponse \<Rightarrow> go_error + PluginResponse" where
  "SetJSON encoded response =
     (case JSONResponse (plr_Status response) encoded of
        Inl err \<Rightarrow> Inl err
      | Inr x \<Rightarrow>
          Inr (response\<lparr>plr_Body := plr_Body x,
            plr_Headers := header_set (plr_Headers response) ''Content-Type'' ''application/json; charset=utf-8''\<rparr>))"

section \<open>Ownership\<close>

definition owns :: "(string \<Rightarrow> table_map) \<Rightarrow> ResourceOwnershipConfig \<Rightarrow> string \<Rightarrow> string \<Rightarrow> bool" where
  "owns tables config resourceID userID \<longleftrightarrow>
     (\<exists>i row. tables (rc_Model config) i = Some row \<and> fld row (rc_IDField config) = VStr resourceID \<and>
        fld row (rc_OwnerField config) = VStr userID)"

lemma defaults_nonempty:
  "rc_IDField (ownership_defaults config) \<noteq> ''''" "rc_OwnerField (ownership_defaults config) \<noteq> ''''"
  by (auto simp: ownership_defaults_def Let_def)

context database_contract begin

lemma ownership_lookup:
  assumes "inv s" "f \<noteq> ''''" "g \<noteq> ''''"
  shows "\<exists>res. db_findOne db \<lparr>fo_Model = m, fo_Where = [Eq f (VStr a), Eq g (VStr b)], fo_Select = [], fo_Joins = []\<rparr> s =
      (Inr res, s) \<and> (res = None \<longleftrightarrow> \<not> (\<exists>i row. T s m i = Some row \<and> fld row f = VStr a \<and> fld row g = VStr b))"
proof -
  let ?q = "\<lparr>fo_Model = m, fo_Where = [Eq f (VStr a), Eq g (VStr b)], fo_Select = [], fo_Joins = []\<rparr>"
  have valid: "ValidateWhere (fo_Where ?q) True = Inr [Eq f (VStr a), Eq g (VStr b)]"
    using validate_item_Eq [OF assms(2)] validate_item_Eq [OF assms(3)] by (simp add: where_simps)
  obtain res where "db_findOne db ?q s = (Inr res, s)"
    and "case res of None \<Rightarrow> hits (T s m) [Eq f (VStr a), Eq g (VStr b)] = {}
      | Some p \<Rightarrow> \<exists>i r. T s m i = Some r \<and> matches r [Eq f (VStr a), Eq g (VStr b)] \<and> p = project r []"
    using findOne_law [OF assms(1) _ valid] unfolding FindOneQuery.select_convs by blast
  then show ?thesis by (auto simp: hits_def where_simps split: option.splits)
qed

lemma ownership_outcome:
  assumes "RequireResourceOwnership s config = Inr hook" "cfg_Database (srv_cfg s) = db" "inv (w_db w)"
    "cx_Session c = Some session" "cx_User c = Some user"
    "rid = resourceIDFromContext c (ownership_defaults config)" "rid \<noteq> ''''" "length rid \<le> 512"
  shows "hook c w =
    (Some (if owns (T (w_db w)) (ownership_defaults config) rid (u_ID user) then Inr None
           else Inl (publicError CodeNotFound ''Resource not found.'' 404 None)), c, w)"
proof -
  have hook: "hook = hook_of (ownership_check s (ownership_defaults config))"
    using assms(1) by (simp add: RequireResourceOwnership_def Let_def split: if_splits)
  obtain res where "db_findOne db \<lparr>fo_Model = rc_Model (ownership_defaults config),
      fo_Where = [Eq (rc_IDField (ownership_defaults config)) (VStr rid),
        Eq (rc_OwnerField (ownership_defaults config)) (VStr (u_ID user))], fo_Select = [], fo_Joins = []\<rparr> (w_db w) =
        (Inr res, w_db w)"
    and "res = None \<longleftrightarrow> \<not> owns (T (w_db w)) (ownership_defaults config) rid (u_ID user)"
    using ownership_lookup [OF assms(3) defaults_nonempty] unfolding owns_def by blast
  then show ?thesis
    using assms(2,4-8)
    by (auto simp: hook hook_of_def ownership_check_def SessionMiddleware_def bindM_def ret_def fail_def mapErr_def onDB_def Let_def)
qed

end

text \<open>
  C33. The ownership middleware lets a request pass exactly when it has a session and names, within 512 bytes, a
  record whose owner field holds the id of the session's user. A record of another user and one that does
  not exist get the same answer, and the database is only read.
\<close>

theorem ownership_required:
  assumes "RequireResourceOwnership s config = Inr hook" "cfg_Database (srv_cfg s) = memory_adapter a"
    "mem_inv a (w_db w)"
  shows "let rid = resourceIDFromContext c (ownership_defaults config) in
    snd (hook c w) = (c, w) \<and>
    (fst (hook c w) = Some (Inr None) \<longleftrightarrow>
       (\<exists>session user. cx_Session c = Some session \<and> cx_User c = Some user \<and> rid \<noteq> '''' \<and> length rid \<le> 512 \<and>
          owns (mem_table (w_db w)) (ownership_defaults config) rid (u_ID user))) \<and>
    (\<forall>user. cx_Session c \<noteq> None \<and> cx_User c = Some user \<and> rid \<noteq> '''' \<and> length rid \<le> 512 \<and>
       \<not> owns (mem_table (w_db w)) (ownership_defaults config) rid (u_ID user) \<longrightarrow>
       fst (hook c w) = Some (Inl (publicError CodeNotFound ''Resource not found.'' 404 None)))"
proof -
  define rid where "rid = resourceIDFromContext c (ownership_defaults config)"
  have hook: "hook = hook_of (ownership_check s (ownership_defaults config))"
    using assms(1) by (simp add: RequireResourceOwnership_def Let_def split: if_splits)
  show ?thesis
  proof (cases "(\<exists>session user. cx_Session c = Some session \<and> cx_User c = Some user) \<and> rid \<noteq> '''' \<and> length rid \<le> 512")
    case True
    then obtain session user where su: "cx_Session c = Some session" "cx_User c = Some user" by blast
    show ?thesis
      using mem.ownership_outcome [OF assms su rid_def] True su unfolding rid_def [symmetric] by (simp add: Let_def)
  next
    case False
    then have "\<exists>e. hook c w = (Some (Inl e), c, w)"
      by (auto simp: hook hook_of_def ownership_check_def SessionMiddleware_def bindM_def ret_def fail_def Let_def
          rid_def [symmetric] not_le)
    with False show ?thesis unfolding rid_def [symmetric] by (auto simp: Let_def)
  qed
qed

text \<open>A signed-in user asks for their own session, and for one that does not exist.\<close>

definition ex_ownership :: ResourceOwnershipConfig where
  "ex_ownership = \<lparr>rc_Model = ''session'', rc_IDField = '''', rc_IDParam = '''', rc_IDSource = ResourceIDUnset,
     rc_OwnerField = ''''\<rparr>"

definition ex_context :: "string \<Rightarrow> HookContext" where
  "ex_context rid = \<lparr>cx_Path = ''/s'', cx_PluginID = '''', cx_Params = [(''id'', rid)], cx_Headers = [], cx_Query = [],
     cx_Body = ANil, cx_RawBody = None, cx_BaseURL = '''', cx_TrustedOrigins = [],
     cx_Session = Some (ex_session ''s1'' ''h1'' 10), cx_User = Some ex_user, cx_Response = None, cx_Failure = None,
     cx_bodyDecodeError = None\<rparr>"

theorem ownership_required_witness:
  "\<exists>hook. RequireResourceOwnership ex_server ex_ownership = Inr hook \<and>
     fst (hook (ex_context ''s1'') ex_world) = Some (Inr None) \<and>
     fst (hook (ex_context ''s9'') ex_world) = Some (Inl (publicError CodeNotFound ''Resource not found.'' 404 None))"
proof -
  have defaults: "ownership_defaults ex_ownership = \<lparr>rc_Model = ''session'', rc_IDField = ''id'', rc_IDParam = ''id'',
      rc_IDSource = ResourceIDParams, rc_OwnerField = ''userId''\<rparr>"
    by (simp add: ownership_defaults_def ex_ownership_def TrimSpace_def is_space_def)
  obtain hook where hook: "RequireResourceOwnership ex_server ex_ownership = Inr hook"
    by (simp add: RequireResourceOwnership_def defaults Let_def)
  have db: "cfg_Database (srv_cfg ex_server) = memory_adapter (Some (rulesFromSchema CoreSchema))"
      "mem_inv (Some (rulesFromSchema CoreSchema)) (w_db ex_world)"
    using ex_inv by (simp_all add: ex_server_defs core_inv_def core_db_def)
  have table: "mem_table (w_db ex_world) ''session'' =
      [''s2'' \<mapsto> sessionRecord (ex_session ''s2'' ''h2'' 20), ''s1'' \<mapsto> sessionRecord (ex_session ''s1'' ''h1'' 10)]"
    using ex_tables(2) by (simp add: ex_world_def ModelSession_def del: ex_tables)
  have ids: "fld (sessionRecord (ex_session sid hash at)) ''id'' = VStr sid"
      "fld (sessionRecord (ex_session sid hash at)) ''userId'' = VStr ''u1''" for sid hash at
    by (simp_all add: ex_session_def)
  have rows: "fld row ''id'' \<noteq> VStr ''s9''" if "mem_table (w_db ex_world) ''session'' i = Some row" for i row
    using that unfolding table by (cases "i = ''s1''"; cases "i = ''s2''") (auto simp: ids dest: sym)
  have own: "owns (mem_table (w_db ex_world)) (ownership_defaults ex_ownership) ''s1'' ''u1''"
    unfolding owns_def defaults by (rule exI [of _ "''s1''"]) (simp add: table ids)
  have foreign: "\<not> owns (mem_table (w_db ex_world)) (ownership_defaults ex_ownership) ''s9'' ''u1''"
    using rows unfolding owns_def defaults by simp blast
  have ids': "resourceIDFromContext (ex_context rid) (ownership_defaults ex_ownership) = TrimSpace rid" for rid
    by (simp add: resourceIDFromContext_def defaults ex_context_def)
  have trim: "TrimSpace ''s1'' = ''s1''" "TrimSpace ''s9'' = ''s9''" by (simp_all add: TrimSpace_def is_space_def)
  have user: "cx_Session (ex_context rid) \<noteq> None" "cx_User (ex_context rid) = Some ex_user" "u_ID ex_user = ''u1''" for rid
    by (simp_all add: ex_context_def ex_user_def)
  have "fst (hook (ex_context ''s1'') ex_world) = Some (Inr None)"
    using ownership_required [OF hook db, of "ex_context ''s1''"] own user unfolding ids' trim by (auto simp: Let_def)
  moreover have "fst (hook (ex_context ''s9'') ex_world) = Some (Inl (publicError CodeNotFound ''Resource not found.'' 404 None))"
    using ownership_required [OF hook db, of "ex_context ''s9''"] foreign user unfolding ids' trim by (auto simp: Let_def)
  ultimately show ?thesis using hook by blast
qed

end
