(* ===== verification/One_Time_Token.thy ===== *)
theory One_Time_Token
  imports Plugin_Helpers Store_Safety
begin

text \<open>
  The plugin \<open>plugin/onetimetoken\<close>: a signed-in user trades the session for a short-lived token, and the
  holder of the token trades it once for the session. Random values, AES-GCM, base64, JSON and the text of
  cookies are functions of a library record.
\<close>

section \<open>Configuration\<close>

datatype TokenStorage =
    TokenStorageUnset | TokenStoragePlain | TokenStorageHashed | TokenStorageCustom | TokenStorageOther string

record OneTimeConfig =
  otc_ExpiresIn :: gtime
  otc_DisableClientRequest :: bool
  otc_GenerateToken :: "(nat \<Rightarrow> Session \<times> User \<Rightarrow> go_error + string) option"
  otc_DisableSetSessionCookie :: bool
  otc_StoreToken :: TokenStorage
  otc_HashToken :: "(string \<Rightarrow> go_error + string) option"
  otc_SetOTTHeaderOnNewSession :: bool
  otc_Clock :: "nat \<Rightarrow> gtime"

definition normalizeConfig :: "OneTimeConfig \<Rightarrow> go_error + OneTimeConfig" where
  "normalizeConfig config =
     (if otc_ExpiresIn config < 0 then Inl (ErrText ''onetimetoken: ExpiresIn must be positive'')
      else
        let config = (if otc_ExpiresIn config = 0 then config\<lparr>otc_ExpiresIn := 180 * 1000000000\<rparr> else config);
            config = (if otc_StoreToken config = TokenStorageUnset then config\<lparr>otc_StoreToken := TokenStoragePlain\<rparr>
                      else config) in
        case otc_StoreToken config of
          TokenStorageCustom \<Rightarrow>
            if otc_HashToken config = None then Inl (ErrText ''onetimetoken: TokenStorageCustom requires HashToken'')
            else Inr config
        | TokenStorageOther _ \<Rightarrow> Inl (ErrText ''onetimetoken: unknown StoreToken'')
        | _ \<Rightarrow>
            if otc_HashToken config \<noteq> None then Inl (ErrText ''onetimetoken: HashToken requires TokenStorageCustom'')
            else Inr config)"

section \<open>Sealing the session\<close>

text \<open>
  \<open>ol_Seal\<close> and \<open>ol_Open\<close> are the GCM of the key derived from the token, over nonce, text and additional
  data; the nonce has 12 bytes and the tag 16. \<open>ol_Encode\<close> and \<open>ol_Decode\<close> are strict raw URL base64.
\<close>

record OneTimeLib =
  ol_Random :: "nat \<Rightarrow> int \<Rightarrow> go_error + string"
  ol_AEAD :: "string \<Rightarrow> go_error option"
  ol_Seal :: "string \<Rightarrow> string \<Rightarrow> string \<Rightarrow> string \<Rightarrow> string"
  ol_Open :: "string \<Rightarrow> string \<Rightarrow> string \<Rightarrow> string \<Rightarrow> string option"
  ol_Encode :: "string \<Rightarrow> string"
  ol_Decode :: "string \<Rightarrow> string option"
  ol_MarshalToken :: "string \<Rightarrow> go_error + string"
  ol_MarshalIssued :: "IssuedSession \<Rightarrow> go_error + string"
  ol_CookieValid :: "Cookie \<Rightarrow> go_error option"
  ol_CookieString :: "Cookie \<Rightarrow> string"
  ol_ParseSetCookie :: "string \<Rightarrow> (string \<times> string \<times> int) option"

definition sealPrefix :: string where "sealPrefix = ''v1.''"
definition sealAAD :: string where "sealAAD = ''better-auth-go/one-time-token/session/v1''"

definition additional :: "string \<Rightarrow> string" where
  "additional stored = sealAAD @ CHR 0x00 # stored"

definition sealSession :: "OneTimeLib \<Rightarrow> string \<Rightarrow> string \<Rightarrow> string \<Rightarrow> ('d, string) action" where
  "sealSession lib token stored rawSession =
     (if token = '''' \<or> rawSession = '''' then fail (ErrText ''onetimetoken: cannot seal an empty value'')
      else case ol_AEAD lib token of
        Some err \<Rightarrow> fail err
      | None \<Rightarrow>
          bindM (external (\<lambda>k. ol_Random lib k 12)) (\<lambda>nonce.
            ret (sealPrefix @ ol_Encode lib (nonce @ ol_Seal lib token nonce rawSession (additional stored)))))"

definition openSession :: "OneTimeLib \<Rightarrow> string \<Rightarrow> string \<Rightarrow> string \<Rightarrow> go_error + string" where
  "openSession lib token stored box =
     (let invalid = Inl (ErrText ''onetimetoken: invalid sealed session'') in
      case CutPrefix box sealPrefix of
        None \<Rightarrow> invalid
      | Some encoded \<Rightarrow>
          if length encoded > 8192 then invalid
          else case ol_Decode lib encoded of
            None \<Rightarrow> invalid
          | Some payload \<Rightarrow>
              (case ol_AEAD lib token of
                 Some err \<Rightarrow> Inl err
               | None \<Rightarrow>
                   if length payload \<le> 12 + 16 then invalid
                   else case ol_Open lib token (take 12 payload) (drop 12 payload) (additional stored) of
                     None \<Rightarrow> invalid
                   | Some plain \<Rightarrow> if plain = '''' then invalid else Inr plain))"

section \<open>Issuing a token\<close>

definition verificationIdentifier :: string where "verificationIdentifier = ''one-time-token''"
definition maxTokenLength :: nat where "maxTokenLength = 512"

definition badRequest :: "string \<Rightarrow> go_error" where
  "badRequest message = publicError CodeBadRequest message 400 None"

definition storedValue :: "'d Server \<Rightarrow> OneTimeConfig \<Rightarrow> string \<Rightarrow> go_error + string" where
  "storedValue s config token =
     (case otc_StoreToken config of
        TokenStoragePlain \<Rightarrow> Inr token
      | TokenStorageCustom \<Rightarrow>
          (case the (otc_HashToken config) token of
             Inl err \<Rightarrow> Inl (ErrWrap ''onetimetoken: hash token'' err)
           | Inr stored \<Rightarrow>
               if stored = '''' then Inl (ErrText ''onetimetoken: hashed token is empty'') else Inr stored)
      | _ \<Rightarrow> Inr (HashToken s token))"

definition randomText :: "OneTimeLib \<Rightarrow> int \<Rightarrow> string \<Rightarrow> ('d, string) action" where
  "randomText lib n text =
     bindM (mapErr (ErrWrap text) (external (\<lambda>k. ol_Random lib k n))) (\<lambda>v. ret (ol_Encode lib v))"

definition oneTimeToken :: "OneTimeLib \<Rightarrow> OneTimeConfig \<Rightarrow> Session \<times> User \<Rightarrow> ('d, string) action" where
  "oneTimeToken lib config session =
     (case otc_GenerateToken config of
        Some generator \<Rightarrow>
          bindM (mapErr (ErrWrap ''onetimetoken: generate token'') (external (\<lambda>k. generator k session))) (\<lambda>token.
            if token = '''' \<or> length token > maxTokenLength
            then fail (ErrText ''onetimetoken: generated token is empty or too long'') else ret token)
      | None \<Rightarrow> randomText lib 24 ''onetimetoken: random token'')"

definition tokenRecord :: "OneTimeConfig \<Rightarrow> gtime \<Rightarrow> string \<Rightarrow> string \<Rightarrow> string \<Rightarrow> Record" where
  "tokenRecord config now tid stored box =
     [''id'' \<mapsto> VStr tid, ''identifier'' \<mapsto> VStr verificationIdentifier, ''value'' \<mapsto> VStr stored,
      ''expiresAt'' \<mapsto> VTime (now + otc_ExpiresIn config), ''createdAt'' \<mapsto> VTime now,
      ''metadata'' \<mapsto> VMap [(''session'', VStr box)]]"

text \<open>\<open>issue\<close>, with the id generator of its caller.\<close>

definition issue ::
  "'d Server \<Rightarrow> OneTimeLib \<Rightarrow> OneTimeConfig \<Rightarrow> 'd database_adapter \<Rightarrow> gtime \<Rightarrow> ('d, string) action \<Rightarrow>
   Session \<times> User \<Rightarrow> string \<Rightarrow> ('d, string) action" where
  "issue s lib config database now generateID session rawSession =
     bindM (oneTimeToken lib config session) (\<lambda>token.
     bindM (lift (storedValue s config token)) (\<lambda>stored.
     bindM (sealSession lib token stored rawSession) (\<lambda>box.
     bindM generateID (\<lambda>tid.
     bindM (mapErr (ErrWrap ''onetimetoken: store token'')
         (onDB (db_create database (createQ ModelVerification (tokenRecord config now tid stored box))))) (\<lambda>_.
       ret token)))))"

text \<open>\<open>Manager.Generate\<close>: server code issues a token for a session that is still active.\<close>

definition manager_Generate ::
  "'d Server \<Rightarrow> OneTimeLib \<Rightarrow> OneTimeConfig \<Rightarrow> 'd database_adapter option \<Rightarrow> Session \<times> User \<Rightarrow> string \<Rightarrow>
   ('d, string) action" where
  "manager_Generate s lib config database session sessionToken =
     (case database of
        None \<Rightarrow> fail (ErrText ''onetimetoken: manager and database are required'')
      | Some db \<Rightarrow>
          bindM (external (\<lambda>k. Inr (otc_Clock config k))) (\<lambda>now.
          if sessionToken = '''' \<or> ss_TokenHash (fst session) = '''' \<or>
             HashToken s sessionToken \<noteq> ss_TokenHash (fst session) \<or>
             ss_RevokedAt (fst session) \<noteq> None \<or> \<not> ss_ExpiresAt (fst session) > now
          then fail ErrNoSession
          else issue s lib config db now (randomText lib 16 ''onetimetoken: random id'') session sessionToken))"

section \<open>Endpoints\<close>

text \<open>\<open>r\<close> is the request of the context.\<close>

definition generate ::
  "'d Server \<Rightarrow> OneTimeLib \<Rightarrow> OneTimeConfig \<Rightarrow> Request \<Rightarrow> HookContext \<Rightarrow> ('d, PluginResponse option) action" where
  "generate s lib config r c =
     (if otc_DisableClientRequest config then fail (badRequest ''Client requests are disabled'')
      else case requestCookie r (ck_Name (cfg_Cookie (srv_cfg s))) of
        None \<Rightarrow> fail (unauthorized (Some (ErrText ''http: named cookie not present'')))
      | Some cookie \<Rightarrow>
          (case (cx_Session c, cx_User c) of
             (Some session, Some user) \<Rightarrow>
               if HashToken s cookie \<noteq> ss_TokenHash session then fail (unauthorized None)
               else
                 bindM (Now s) (\<lambda>now.
                 bindM (issue s lib config (cfg_Database (srv_cfg s)) now (newID s) (session, user) cookie) (\<lambda>token.
                 bindM (lift (JSONResponse 200 (ol_MarshalToken lib token))) (\<lambda>response.
                   ret (Some response))))
           | _ \<Rightarrow> fail (unauthorized None)))"

text \<open>The origins that \<open>context.IsTrustedOrigin\<close> knows are a policy of the request.\<close>

definition cookieOriginCheck ::
  "'d Server \<Rightarrow> trustedOriginPolicy \<Rightarrow> Request \<Rightarrow> HookContext \<Rightarrow> ('d, PluginResponse option) action" where
  "cookieOriginCheck s policy r c =
     (if header_get (cx_Headers c) ''Cookie'' = '''' then ret None
      else
        let origin = InferNullOrigin r (cx_BaseURL c) in
        if origin = '''' \<or> origin = ''null'' \<or> \<not> policy_matches (sv_Net (srv_services s)) policy origin
        then fail (publicError CodeInvalidOrigin ''Invalid origin'' 403 None)
        else ret None)"

fun metadataString :: "val \<Rightarrow> string \<Rightarrow> string" where
  "metadataString (VMap m) k = (case map_of m k of Some (VStr v) \<Rightarrow> v | _ \<Rightarrow> '''')"
| "metadataString (VStrMap m) k = smap_get m k"
| "metadataString _ k = ''''"

definition bodyToken :: "HookContext \<Rightarrow> string" where
  "bodyToken c =
     (case cx_Body c of AObject body \<Rightarrow> (case map_of body ''token'' of Some (AString v) \<Rightarrow> v | _ \<Rightarrow> '''') | _ \<Rightarrow> '''')"

text \<open>The single-use read of \<open>verify\<close>: the row of a live token leaves the table as it is read.\<close>

definition consumeToken :: "'d Server \<Rightarrow> string \<Rightarrow> ('d, Record) action" where
  "consumeToken s stored =
     bindM (Now s) (\<lambda>now.
     bindM (tryM (onDB (db_consumeOne (cfg_Database (srv_cfg s))
         (deleteQ ModelVerification (liveToken verificationIdentifier stored now))))) (\<lambda>row.
     case row of
       Inl err \<Rightarrow> if errors_Is err ErrNotFound then fail (badRequest ''Invalid token'') else fail err
     | Inr None \<Rightarrow> fail (badRequest ''Invalid token'')
     | Inr (Some row) \<Rightarrow> ret row))"

definition resume_error :: "go_error \<Rightarrow> go_error" where
  "resume_error err =
     (if errors_Is err ErrSessionExpired then badRequest ''Session expired''
      else if errors_Is err ErrNoSession then badRequest ''Session not found''
      else err)"

definition pluginCookie :: "OneTimeLib \<Rightarrow> Cookie \<Rightarrow> PluginCookie option" where
  "pluginCookie lib c = Some \<lparr>pc_Name = co_Name c, pc_Secure = co_Secure c, pc_HttpOnly = co_HttpOnly c, pc_Domain = '''',
     pc_Path = ''/'', pc_SameSite = co_SameSite c, pc_valid = ol_CookieValid lib c, pc_text = ol_CookieString lib c\<rparr>"

definition applied :: "OneTimeLib \<Rightarrow> IssuedSession \<Rightarrow> PluginResponse \<Rightarrow> go_error + PluginResponse" where
  "applied lib issued response =
     (case Apply \<lparr>ps_cookies = map (pluginCookie lib) (is_cookies issued), ps_csrf = is_csrf issued\<rparr> response of
        ((Some err, _), _) \<Rightarrow> Inl err
      | ((None, response), _) \<Rightarrow> Inr response)"

definition resumed ::
  "'d Server \<Rightarrow> OneTimeLib \<Rightarrow> OneTimeConfig \<Rightarrow> string \<Rightarrow> ('d, PluginResponse option) action" where
  "resumed s lib config rawSession =
     bindM (mapErr resume_error (resumePluginSession s rawSession)) (\<lambda>issued.
     bindM (lift (JSONResponse 200 (ol_MarshalIssued lib issued))) (\<lambda>response.
       if otc_DisableSetSessionCookie config then ret (Some response)
       else bindM (lift (applied lib issued response)) (\<lambda>response. ret (Some response))))"

definition verify ::
  "'d Server \<Rightarrow> OneTimeLib \<Rightarrow> OneTimeConfig \<Rightarrow> HookContext \<Rightarrow> ('d, PluginResponse option) action" where
  "verify s lib config c =
     (let token = bodyToken c in
      bindM (lift (storedValue s config token)) (\<lambda>stored.
      bindM (consumeToken s stored) (\<lambda>row.
      case openSession lib token stored (metadataString (fld row ''metadata'') ''session'') of
        Inl _ \<Rightarrow> fail (badRequest ''Invalid token'')
      | Inr rawSession \<Rightarrow> resumed s lib config rawSession)))"

section \<open>The header of new sessions\<close>

definition header_values :: "multimap \<Rightarrow> string \<Rightarrow> string list" where
  "header_values h name = (case map_of h (canonical True name) of Some vs \<Rightarrow> vs | None \<Rightarrow> [])"

definition session_cookie :: "OneTimeLib \<Rightarrow> string \<Rightarrow> string \<Rightarrow> string \<Rightarrow> string" where
  "session_cookie lib name found v =
     (case ol_ParseSetCookie lib v of
        None \<Rightarrow> found
      | Some (n, cookie, maxAge) \<Rightarrow>
          if n \<noteq> name then found else if cookie = '''' \<or> maxAge < 0 then '''' else cookie)"

definition responseSessionToken :: "OneTimeLib \<Rightarrow> PluginResponse \<Rightarrow> string \<Rightarrow> string" where
  "responseSessionToken lib response name =
     foldl (session_cookie lib name) '''' (header_values (plr_Headers response) ''Set-Cookie'')"

definition add_exposed :: "string list \<Rightarrow> string \<Rightarrow> string list" where
  "add_exposed exposed raw =
     (let name = TrimSpace raw in
      if name \<noteq> '''' \<and> ToLower name \<notin> ToLower ` set exposed then exposed @ [name] else exposed)"

definition exposed_headers :: "multimap \<Rightarrow> string list" where
  "exposed_headers h =
     (let exposed = foldl add_exposed [] (concat (map (SplitOn (CHR '','')) (header_values h ''Access-Control-Expose-Headers''))) in
      if ''set-ott'' \<in> ToLower ` set exposed then exposed else exposed @ [''set-ott''])"

definition attachHeader ::
  "'d Server \<Rightarrow> OneTimeLib \<Rightarrow> OneTimeConfig \<Rightarrow> PluginResponse \<Rightarrow> ('d, PluginResponse) action" where
  "attachHeader s lib config response =
     (let rawSession = responseSessionToken lib response (ck_Name (cfg_Cookie (srv_cfg s))) in
      if rawSession = '''' then ret response
      else
        bindM (tryM (resumePluginSession s rawSession)) (\<lambda>resumed.
        case resumed of
          Inl err \<Rightarrow> if errors_Is err ErrNoSession then ret response else fail err
        | Inr issued \<Rightarrow>
            bindM (Now s) (\<lambda>now.
            bindM (issue s lib config (cfg_Database (srv_cfg s)) now (newID s) (is_Session issued, is_User issued) rawSession)
              (\<lambda>token.
              ret (response\<lparr>plr_Headers :=
                header_set (header_set (plr_Headers response) ''set-ott'' token)
                  ''Access-Control-Expose-Headers'' (Join (exposed_headers (plr_Headers response)) '', '')\<rparr>)))))"

section \<open>The descriptor\<close>

text \<open>
  The plugin of a manager; \<open>requestOf\<close> is the request of a context and \<open>policy\<close> the origins its
  \<open>IsTrustedOrigin\<close> accepts.
\<close>


definition tokenValidator :: ObjectValidator where
  "tokenValidator = \<lparr>ov_Fields = [(''token'', \<lparr>fv_Kind = ValidationString, fv_Required = True, fv_Nullable = False,
     fv_MinLength = 0, fv_MaxLength = 512, fv_Enum = []\<rparr>)], ov_AllowUnknown = True\<rparr>"

definition oneTimePlugin ::
  "'d Server \<Rightarrow> OneTimeLib \<Rightarrow> OneTimeConfig \<Rightarrow> (HookContext \<Rightarrow> Request) \<Rightarrow> (HookContext \<Rightarrow> trustedOriginPolicy) \<Rightarrow> 'd Plugin" where
  "oneTimePlugin s lib config requestOf policy =
     \<lparr>pl_ID = verificationIdentifier, pl_Dependencies = [], pl_Init = None, pl_Schema = None,
      pl_Endpoints =
        [\<lparr>pe_Name = ''generateOneTimeToken'', pe_Path = ''/one-time-token/generate'', pe_Method = ''GET'',
          pe_SkipOriginCheck = False, pe_AllowNonKebabPath = False, pe_Use = [Some (hook_of SessionMiddleware)],
          pe_BodyValidator = None, pe_QueryValidator = None,
          pe_Handler = Some (hook_of (\<lambda>c. generate s lib config (requestOf c) c))\<rparr>,
         \<lparr>pe_Name = ''verifyOneTimeToken'', pe_Path = ''/one-time-token/verify'', pe_Method = ''POST'',
          pe_SkipOriginCheck = True, pe_AllowNonKebabPath = False,
          pe_Use = [Some (hook_of (\<lambda>c. cookieOriginCheck s (policy c) (requestOf c) c))],
          pe_BodyValidator = Some (ValidatorObject tokenValidator), pe_QueryValidator = None,
          pe_Handler = Some (hook_of (verify s lib config))\<rparr>],
      pl_Middlewares = [], pl_Before = [],
      pl_After =
        (if otc_SetOTTHeaderOnNewSession config
         then [\<lparr>ah_Matcher = None,
                ah_Handler = Some (\<lambda>response c w. case attachHeader s lib config response w of (res, w') \<Rightarrow> (Some res, c, w'))\<rparr>]
         else []),
      pl_OnRequest = None, pl_OnResponse = None, pl_TrustedOrigins = [], pl_RateLimits = []\<rparr>"

section \<open>Consuming a token\<close>

lemma consumeToken_cases:
  assumes "cfg_Database (srv_cfg s) = core_db" "core_inv (w_db w)"
  obtains (refused) "consumeToken s stored w = (Inl (badRequest ''Invalid token''), w\<lparr>w_calls := Suc (w_calls w)\<rparr>)"
      and "\<nexists>i r. mem_table (w_db w) ModelVerification i = Some r \<and>
             live_token verificationIdentifier stored (sv_Now (srv_services s) (w_calls w)) r"
  | (consumed) i r d where "mem_table (w_db w) ModelVerification i = Some r"
      and "live_token verificationIdentifier stored (sv_Now (srv_services s) (w_calls w)) r"
      and "consumeToken s stored w = (Inr r, w\<lparr>w_calls := Suc (w_calls w), w_db := d\<rparr>)"
      and "core_inv d" and "no_token stored (mem_table d)"
      and "mem_table d = (mem_table (w_db w))(ModelVerification := (mem_table (w_db w) ModelVerification)(i := None))"
proof -
  let ?now = "sv_Now (srv_services s) (w_calls w)"
  let ?ws = "liveToken verificationIdentifier stored ?now"
  have inv: "mem_inv (Some (rulesFromSchema CoreSchema)) (w_db w)" "\<not> mem_in_tx (w_db w)"
    using assms(2) by (simp_all add: core_inv_def)
  note run = consumeToken_def bindM_def Now_def external_def tryM_def onDB_def assms(1) fail_def ret_def
  show thesis
  proof (cases rule: core.consume_step [OF inv(1) liveToken_valid [of verificationIdentifier stored ?now False],
      of ModelVerification])
    case 1
    then have "\<nexists>i r. mem_table (w_db w) ModelVerification i = Some r \<and> live_token verificationIdentifier stored ?now r"
      by (auto simp: hits_empty where_simps live_token_def)
    with 1(2) show thesis by (intro refused) (simp_all add: run)
  next
    case (2 i r d)
    have "no_token stored (mem_table d)"
      using consume_removes_token [OF inv(1) token_query_simps(1) 2(3)] .
    with 2 inv(2) show thesis
      by (intro consumed [of i r d]) (simp_all add: run where_simps live_token_def core_inv_def)
  qed
qed

lemma resumed_keeps:
  assumes "keeps P (SessionByTokenHash (cfg_Database (srv_cfg s)) (HashToken s raw))"
  shows "keeps (\<lambda>w. P (w_db w)) (resumed s lib config raw)"
proof -
  have db: "keeps (\<lambda>w. P (w_db w)) (onDB (SessionByTokenHash (cfg_Database (srv_cfg s)) (HashToken s raw)))"
    using assms by (auto simp: keeps_def onDB_def split: prod.split)
  have calls: "keeps (\<lambda>w. P (w_db w)) (external f)" for f :: "nat \<Rightarrow> go_error + 'b"
    by (simp add: keeps_def external_def)
  show ?thesis
    unfolding resumed_def resumePluginSession_def sessionTransitionCookies_def Now_def Token_def Let_def
    by (intro keeps_rules db calls)
qed

lemma verify_consumes:
  assumes "cfg_Database (srv_cfg s) = core_db" "core_inv (w_db w)" "verify s lib config c w = (Inr resp, w')"
    and "storedValue s config (bodyToken c) = Inr stored"
  shows "core_inv (w_db w') \<and> no_token stored (mem_table (w_db w')) \<and>
    (\<exists>i r. mem_table (w_db w) ModelVerification i = Some r \<and>
       live_token verificationIdentifier stored (sv_Now (srv_services s) (w_calls w)) r)"
proof -
  obtain row w1 raw where row: "consumeToken s stored w = (Inr row, w1)"
    and resume: "resumed s lib config raw w1 = (Inr resp, w')"
    using assms(3,4) by (auto simp: verify_def lift_def fail_def split: sum.splits elim!: bindM_Inr_elim)
  from assms(1,2) show ?thesis
  proof (cases rule: consumeToken_cases [where stored = stored])
    case refused
    then show ?thesis using row by simp
  next
    case (consumed i r d)
    have "keeps (tok.K stored False) (SessionByTokenHash (cfg_Database (srv_cfg s)) (HashToken s raw))"
      using tok.K_SessionByTokenHash assms(1) by simp
    from keepsE [OF resumed_keeps [OF this] resume] consumed row show ?thesis by auto
  qed
qed

text \<open>
  C37. A one-time token is traded once. When it has been accepted, the row that holds it was live and is gone,
  and after any calls of the store that do not put a token under the same stored value every further try is
  answered with "Invalid token" and leaves the database as it is.
\<close>

theorem one_time_token_single_use:
  assumes "cfg_Database (srv_cfg s) = core_db" "core_inv (w_db w)" "verify s lib config c w = (Inr resp, w')"
    and "storedValue s config (bodyToken c) = Inr stored" "storedValue s config (bodyToken c') = Inr stored"
    and "\<forall>call \<in> set calls. \<not> puts_token call stored" "w_db v = run_calls core_db calls (w_db w')"
  shows "(\<exists>i r. mem_table (w_db w) ModelVerification i = Some r \<and>
       live_token verificationIdentifier stored (sv_Now (srv_services s) (w_calls w)) r) \<and>
    fst (verify s lib config c' v) = Inl (badRequest ''Invalid token'') \<and> w_db (snd (verify s lib config c' v)) = w_db v"
proof -
  note burnt = verify_consumes [OF assms(1-4)]
  have v: "core_inv (w_db v)" "no_token stored (mem_table (w_db v))"
    using run_calls_no_token [of "w_db w'" stored calls] burnt assms(6,7) by simp_all
  from assms(1) v(1) have "consumeToken s stored v = (Inl (badRequest ''Invalid token''), v\<lparr>w_calls := Suc (w_calls v)\<rparr>)"
  proof (cases rule: consumeToken_cases [where stored = stored])
    case (consumed i r d)
    with v(2) show ?thesis by (auto simp: no_token_def live_token_def)
  qed
  then have "verify s lib config c' v = (Inl (badRequest ''Invalid token''), v\<lparr>w_calls := Suc (w_calls v)\<rparr>)"
    by (simp add: verify_def lift_def assms(5) ret_def bindM_def)
  with burnt show ?thesis by simp
qed

section \<open>A token stands for the session it was issued for\<close>

text \<open>What the code relies on of its libraries: sizes of nonce and tag, and that decoding and opening invert.\<close>

definition sealing_library :: "OneTimeLib \<Rightarrow> bool" where
  "sealing_library lib \<longleftrightarrow>
     (\<forall>k n v. ol_Random lib k n = Inr v \<longrightarrow> int (length v) = n) \<and>
     (\<forall>x. ol_Decode lib (ol_Encode lib x) = Some x \<and> length (ol_Encode lib x) \<le> 2 * length x) \<and>
     (\<forall>token nonce plain aad. ol_Open lib token nonce (ol_Seal lib token nonce plain aad) aad = Some plain \<and>
        length (ol_Seal lib token nonce plain aad) = length plain + 16)"

lemma CutPrefix_append [simp]: "CutPrefix (p @ x) p = Some x"
  by (simp add: CutPrefix_def HasPrefix_def)

lemma sealSession_opens:
  assumes "sealing_library lib" "sealSession lib token stored raw w = (Inr box, w')" "length raw \<le> 2048"
  shows "openSession lib token stored box = Inr raw \<and> w_db w' = w_db w"
proof -
  from assms(2) obtain nonce k where aead: "ol_AEAD lib token = None" and raw: "raw \<noteq> ''''"
    and nonce: "ol_Random lib k 12 = Inr nonce" and w': "w_db w' = w_db w"
    and box: "box = sealPrefix @ ol_Encode lib (nonce @ ol_Seal lib token nonce raw (additional stored))"
    by (auto simp: sealSession_def fail_def ret_def external_def split: if_splits option.splits elim!: bindM_Inr_elim)
  have len: "length nonce = 12" using assms(1) nonce by (fastforce simp: sealing_library_def)
  have "length (ol_Encode lib (nonce @ ol_Seal lib token nonce raw (additional stored))) \<le> 2 * (12 + (length raw + 16))"
    using assms(1) len by (metis length_append sealing_library_def)
  then show ?thesis using assms(1,3) len aead raw w'
    by (auto simp: box openSession_def Let_def sealing_library_def)
qed

lemma oneTimeToken_db: "w_db (snd (oneTimeToken lib config session w)) = w_db w"
  by (auto simp: oneTimeToken_def randomText_def bindM_def mapErr_def external_def fail_def ret_def
      split: option.split sum.split)

lemma issue_stores:
  assumes "core_inv (w_db w)" "issue s lib config core_db now gen session raw w = (Inr token, w')"
    and "sealing_library lib" "length raw \<le> 2048" "\<And>w. w_db (snd (gen w)) = w_db w"
  obtains stored box tid where "storedValue s config token = Inr stored" "openSession lib token stored box = Inr raw"
    and "core_inv (w_db w')" "mem_table (w_db w) ModelVerification tid = None"
    and "mem_table (w_db w') = (mem_table (w_db w))(ModelVerification :=
        (mem_table (w_db w) ModelVerification)(tid \<mapsto> tokenRecord config now tid stored box))"
proof -
  from assms(2) obtain w1 stored box w2 tid w3 row where token: "oneTimeToken lib config session w = (Inr token, w1)"
    and stored: "storedValue s config token = Inr stored"
    and box: "sealSession lib token stored raw w1 = (Inr box, w2)" and tid: "gen w2 = (Inr tid, w3)"
    and row: "onDB (db_create core_db (createQ ModelVerification (tokenRecord config now tid stored box))) w3 = (Inr row, w')"
    by (auto simp: issue_def lift_def ret_def elim!: bindM_Inr_elim split: sum.splits) (auto simp: mapErr_def split: prod.splits sum.splits)
  have db: "w_db w3 = w_db w"
    using oneTimeToken_db [of lib config session w] sealSession_opens [OF assms(3) box assms(4)] assms(5) [of w2] token tid
    by simp
  obtain d where create: "db_create core_db (createQ ModelVerification (tokenRecord config now tid stored box)) (w_db w) = (Inr row, d)"
    and d: "w_db w' = d"
    using row db by (auto simp: onDB_def split: prod.splits)
  have inv: "mem_inv (Some (rulesFromSchema CoreSchema)) (w_db w)" "\<not> mem_in_tx (w_db w)"
    using assms(1) by (simp_all add: core_inv_def)
  have fields: "fld (tokenRecord config now tid stored box) ''id'' = VStr tid" by (simp add: tokenRecord_def)
  have model: "ModelVerification \<in> set core_models" by (simp add: core_models_def)
  have tidok: "tid \<noteq> ''''"
  proof
    assume "tid = ''''"
    then obtain e where "db_create core_db (createQ ModelVerification (tokenRecord config now tid stored box)) (w_db w) = (Inl e, w_db w)"
      using core.create_no_id [OF inv(1), of "createQ ModelVerification (tokenRecord config now tid stored box)"]
        core.core_idf [OF model] fields unfolding query_sel by auto
    then show False using create by simp
  qed
  show thesis
  proof (cases rule: core.create_step [OF inv(1) model fields tidok])
    case 1
    then show ?thesis using create by simp
  next
    case (2 d')
    then have "d = d'" using create by simp
    with 2 inv(2) show ?thesis
      using d stored sealSession_opens [OF assms(3) box assms(4)]
      by (intro that [of stored box tid]) (simp_all add: core_inv_def row_blocked_def)
  qed
qed

text \<open>
  C36. A one-time token stands for the session it was issued for. Until it expires its holder gets exactly what
  resuming that session gives, and the exchange leaves the tables as they were before the token was issued.
\<close>

theorem one_time_token_roundtrip:
  assumes "cfg_Database (srv_cfg s) = core_db" "core_inv (w_db w)" "sealing_library lib" "length raw \<le> 2048"
    and "issue s lib config core_db now (newID s) session raw w = (Inr token, w')"
    and "bodyToken c = token" "w_db v = w_db w'" "sv_Now (srv_services s) (w_calls v) < now + otc_ExpiresIn config"
  shows "\<exists>d. mem_table d = mem_table (w_db w) \<and> core_inv d \<and>
    verify s lib config c v = resumed s lib config raw (v\<lparr>w_calls := Suc (w_calls v), w_db := d\<rparr>)"
proof -
  have gen: "w_db (snd (newID s u)) = w_db u" for u by (simp add: newID_def Token_def external_def)
  obtain stored box tid where stored: "storedValue s config token = Inr stored" and opens: "openSession lib token stored box = Inr raw"
    and inv: "core_inv (w_db v)" and fresh: "mem_table (w_db w) ModelVerification tid = None"
    and rows: "mem_table (w_db v) = (mem_table (w_db w))(ModelVerification :=
        (mem_table (w_db w) ModelVerification)(tid \<mapsto> tokenRecord config now tid stored box))"
    using issue_stores [OF assms(2,5,3,4) gen] assms(7) by metis
  let ?row = "tokenRecord config now tid stored box"
  have row: "mem_table (w_db v) ModelVerification tid = Some ?row" by (simp add: rows)
  have fields: "fld ?row ''value'' = VStr stored"
      "live_token verificationIdentifier stored (sv_Now (srv_services s) (w_calls v)) ?row"
      "metadataString (fld ?row ''metadata'') ''session'' = box"
    using assms(8) by (simp_all add: tokenRecord_def live_token_def compare_time)
  from assms(1) inv show ?thesis
  proof (cases rule: consumeToken_cases [where stored = stored])
    case refused
    then show ?thesis using row fields by blast
  next
    case (consumed i r d)
    have "i = tid"
      using core.row_keys [of "w_db v" ModelVerification] inv consumed(1,2) row fields
      by (auto simp: core_inv_def live_token_def dest: keys_uniqueD [where k = "[''value'']"])
    then have "r = ?row" "mem_table d = mem_table (w_db w)"
      using consumed(1,6) row fresh by (auto simp: rows fun_eq_iff)
    then show ?thesis
      using consumed(3,4) stored opens fields
      by (intro exI [of _ d]) (simp add: verify_def assms(6) lift_def bindM_def)
  qed
qed

section \<open>A concrete exchange\<close>

text \<open>A library that seals by a tag of 16 bytes, and the exchange of the first session of the example server.\<close>

definition ex_library :: OneTimeLib where
  "ex_library = \<lparr>ol_Random = (\<lambda>k n. if n < 0 then Inl (ErrText ''random'') else Inr (replicate (nat n) (CHR ''r''))),
     ol_AEAD = (\<lambda>_. None),
     ol_Seal = (\<lambda>token nonce plain aad. plain @ replicate 16 (CHR ''t'')),
     ol_Open = (\<lambda>token nonce text aad. Some (take (length text - 16) text)), ol_Encode = (\<lambda>x. x), ol_Decode = Some,
     ol_MarshalToken = Inr, ol_MarshalIssued = (\<lambda>_. Inr ''{}''), ol_CookieValid = (\<lambda>_. None),
     ol_CookieString = co_Name, ol_ParseSetCookie = (\<lambda>_. None)\<rparr>"

definition ex_one_time :: OneTimeConfig where
  "ex_one_time = \<lparr>otc_ExpiresIn = 180, otc_DisableClientRequest = False, otc_GenerateToken = None,
     otc_DisableSetSessionCookie = True, otc_StoreToken = TokenStorageHashed, otc_HashToken = None,
     otc_SetOTTHeaderOnNewSession = False, otc_Clock = (\<lambda>_. 0)\<rparr>"

lemma ex_sealing: "sealing_library ex_library"
  by (auto simp: sealing_library_def ex_library_def split: if_splits)

definition ex_token :: string where "ex_token = replicate 24 (CHR ''r'')"

definition ex_body :: HookContext where
  "ex_body = (ex_context '''')\<lparr>cx_Body := AObject [(''token'', AString ex_token)]\<rparr>"

lemmas one_time_exec = issue_def oneTimeToken_def randomText_def ex_one_time_def ex_library_def mapErr_def external_def
  storedValue_def sealSession_def newID_def Token_def Now_def onDB_def tokenRecord_def ex_server_defs HashToken_def

lemma ex_stored: "storedValue ex_server ex_one_time ex_token = Inr (CHR ''h'' # ex_token)"
  by (simp add: storedValue_def ex_one_time_def HashToken_def ex_server_defs)

lemma ex_exchange:
  "\<exists>w' resp v. issue ex_server ex_library ex_one_time core_db 40 (newID ex_server) (ex_session ''s1'' ''h1'' 10, ex_user) ''1'' ex_world =
     (Inr ex_token, w') \<and> verify ex_server ex_library ex_one_time ex_body w' = (Inr resp, v)"
  by (simp add: one_time_exec ex_token_def ex_body_def verify_def bodyToken_def ex_context_def consumeToken_def liveToken_def
      verificationIdentifier_def openSession_def sealPrefix_def resumed_def resumePluginSession_def SessionByTokenHash_def
      FindUserByID_def sessionTransitionCookies_def JSONResponse_def CutPrefix_def HasPrefix_def additional_def seconds_def
      mem_exec row_exec)

theorem one_time_token_single_use_witness:
  "\<exists>w' resp v. verify ex_server ex_library ex_one_time ex_body w' = (Inr resp, v) \<and>
     fst (verify ex_server ex_library ex_one_time ex_body v) = Inl (badRequest ''Invalid token'')"
proof -
  obtain w' resp v where issued: "issue ex_server ex_library ex_one_time core_db 40 (newID ex_server)
      (ex_session ''s1'' ''h1'' 10, ex_user) ''1'' ex_world = (Inr ex_token, w')"
    and verified: "verify ex_server ex_library ex_one_time ex_body w' = (Inr resp, v)"
    using ex_exchange by blast
  have db: "cfg_Database (srv_cfg ex_server) = core_db" by (simp add: ex_server_defs)
  have start: "core_inv (w_db ex_world)" using ex_inv by (simp add: ex_world_def)
  have inv: "core_inv (w_db w')"
    using issue_stores [OF start issued ex_sealing] by (simp add: newID_def Token_def external_def) blast
  have stored: "storedValue ex_server ex_one_time (bodyToken ex_body) = Inr (CHR ''h'' # ex_token)"
    using ex_stored by (simp add: bodyToken_def ex_body_def)
  show ?thesis
    using one_time_token_single_use [OF db inv verified stored stored, of "[]" v] verified by auto
qed

theorem one_time_token_roundtrip_witness:
  "\<exists>w' d. issue ex_server ex_library ex_one_time core_db 40 (newID ex_server) (ex_session ''s1'' ''h1'' 10, ex_user) ''1''
       ex_world = (Inr ex_token, w') \<and> mem_table d = mem_table ex_state \<and>
     verify ex_server ex_library ex_one_time ex_body w' =
       resumed ex_server ex_library ex_one_time ''1'' (w'\<lparr>w_calls := Suc (w_calls w'), w_db := d\<rparr>)"
proof -
  obtain w' resp v where issued: "issue ex_server ex_library ex_one_time core_db 40 (newID ex_server)
      (ex_session ''s1'' ''h1'' 10, ex_user) ''1'' ex_world = (Inr ex_token, w')"
    using ex_exchange by blast
  have db: "cfg_Database (srv_cfg ex_server) = core_db" by (simp add: ex_server_defs)
  have start: "core_inv (w_db ex_world)" using ex_inv by (simp add: ex_world_def)
  have token: "bodyToken ex_body = ex_token" by (simp add: bodyToken_def ex_body_def)
  have time: "sv_Now (srv_services ex_server) (w_calls w') < 40 + otc_ExpiresIn ex_one_time"
    by (simp add: ex_server_defs ex_one_time_def)
  from one_time_token_roundtrip [OF db start ex_sealing _ issued token refl time] issued
  show ?thesis by (auto simp: ex_world_def)
qed

end
