(* ===== verification/Organization.thy ===== *)
theory Organization
  imports Plugin_Helpers
begin

text \<open>
  The plugin \<open>plugin/organization\<close>, its data (\<open>types.go\<close>), configuration (\<open>config.go\<close>), access control
  (\<open>access.go\<close>) and the operations its endpoints share (\<open>storage.go\<close>).
\<close>

section \<open>Data\<close>

definition ModelOrganization :: string where "ModelOrganization = ''organization''"
definition ModelMember :: string where "ModelMember = ''member''"
definition ModelInvitation :: string where "ModelInvitation = ''invitation''"
definition ModelTeam :: string where "ModelTeam = ''team''"
definition ModelTeamMember :: string where "ModelTeamMember = ''teamMember''"
definition ModelOrganizationRole :: string where "ModelOrganizationRole = ''organizationRole''"

lemmas org_models = ModelOrganization_def ModelMember_def ModelInvitation_def ModelTeam_def ModelTeamMember_def
  ModelOrganizationRole_def

text \<open>A map from resources to actions, in the order a \<open>range\<close> visits it.\<close>

type_synonym Permission = "(string \<times> string list) list"

record Organization =
  og_ID :: string
  og_Name :: string
  og_Slug :: string
  og_Logo :: string
  og_Metadata :: "(string \<times> val) list option"
  og_CreatedAt :: gtime
  og_UpdatedAt :: gtime

record Member =
  mb_ID :: string
  mb_OrganizationID :: string
  mb_UserID :: string
  mb_Role :: string
  mb_CreatedAt :: gtime
  mb_UpdatedAt :: gtime

record Invitation =
  iv_ID :: string
  iv_OrganizationID :: string
  iv_Email :: string
  iv_Role :: string
  iv_TeamID :: string
  iv_Status :: string
  iv_InviterID :: string
  iv_ExpiresAt :: gtime
  iv_CreatedAt :: gtime
  iv_UpdatedAt :: gtime

record Team =
  tm_ID :: string
  tm_OrganizationID :: string
  tm_Name :: string
  tm_CreatedAt :: gtime
  tm_UpdatedAt :: gtime

record TeamMember =
  tmm_ID :: string
  tmm_TeamID :: string
  tmm_UserID :: string
  tmm_CreatedAt :: gtime

record OrganizationRole =
  orr_ID :: string
  orr_OrganizationID :: string
  orr_Role :: string
  orr_Permission :: Permission
  orr_CreatedAt :: gtime
  orr_UpdatedAt :: gtime

record MutationEvent =
  me_Action :: string
  me_OrganizationID :: string
  me_SubjectID :: string
  me_Data :: "(string \<times> val) list"

section \<open>Configuration\<close>

text \<open>
  The hooks act on the server's world; a hook before a creation may change the value it is given. A nil hook
  is \<open>None\<close>.
\<close>

record 'd OrgHooks =
  oh_BeforeOrganizationCreate :: "(HookContext \<Rightarrow> Organization \<Rightarrow> ('d, Organization) action) option"
  oh_AfterOrganizationCreate :: "(HookContext \<Rightarrow> Organization \<Rightarrow> ('d, unit) action) option"
  oh_BeforeMemberCreate :: "(HookContext \<Rightarrow> Member \<Rightarrow> ('d, Member) action) option"
  oh_AfterMemberCreate :: "(HookContext \<Rightarrow> Member \<Rightarrow> ('d, unit) action) option"
  oh_BeforeInvitationCreate :: "(HookContext \<Rightarrow> Invitation \<Rightarrow> ('d, Invitation) action) option"
  oh_AfterInvitationCreate :: "(HookContext \<Rightarrow> Invitation \<Rightarrow> ('d, unit) action) option"
  oh_BeforeMutation :: "(HookContext \<Rightarrow> MutationEvent \<Rightarrow> ('d, unit) action) option"
  oh_AfterMutation :: "(HookContext \<Rightarrow> MutationEvent \<Rightarrow> ('d, unit) action) option"

record 'd OrgConfig =
  oc_CreatorRole :: string
  oc_Roles :: "(string \<times> Permission) list"
  oc_Statements :: "(string \<times> string list) list"
  oc_InvitationTTL :: gtime
  oc_MaxOrganizationsPerUser :: int
  oc_MaxMembersPerOrganization :: int
  oc_MaxInvitationsPerOrganization :: int
  oc_MaxTeamsPerOrganization :: int
  oc_MaxRolesPerOrganization :: int
  oc_DeliverInvitation :: "(HookContext \<Rightarrow> Invitation \<Rightarrow> Organization \<Rightarrow> User \<Rightarrow> ('d, unit) action) option"
  oc_Hooks :: "'d OrgHooks"
  oc_Schema :: Schema

text \<open>What the endpoints answer with, before \<open>encoding/json\<close>.\<close>

datatype org_json =
    OJNil | OJOrganization Organization | OJOrganizations "Organization list"
  | OJFull Organization "Member list" "Team list"
  | OJMember Member | OJMembers "Member list" int | OJRoleName string | OJStatus bool | OJSuccess bool
  | OJInvitation Invitation | OJInvitations "Invitation list" | OJTeam Team | OJTeams "Team list"
  | OJTeamMember TeamMember | OJTeamMembers "TeamMember list"
  | OJRole OrganizationRole | OJRoles "OrganizationRole list" | OJStaticRole string string Permission

text \<open>JSON and the text of cookies are functions of the library record.\<close>

record OrgLib =
  rl_Marshal :: "org_json \<Rightarrow> go_error + string"
  rl_MarshalVal :: "val \<Rightarrow> go_error + string"
  rl_UnmarshalObject :: "string \<Rightarrow> go_error + (string \<times> val) list option"
  rl_UnmarshalPermission :: "string \<Rightarrow> go_error + Permission"
  rl_UserAgent :: "Request \<Rightarrow> string"
  rl_pluginCookie :: "Cookie \<Rightarrow> PluginCookie option"

text \<open>\<open>runtime\<close>, with the server whose capabilities the hook contexts carry.\<close>

record 'd OrgRuntime =
  or_server :: "'d Server"
  or_lib :: OrgLib
  or_config :: "'d OrgConfig"
  or_schema :: Schema
  or_roles :: "(string \<times> Permission) list"

section \<open>Access control\<close>

definition org_validRoleName :: "string \<Rightarrow> bool" where
  "org_validRoleName v \<longleftrightarrow> v \<noteq> '''' \<and> length v \<le> 64 \<and> list_all (\<lambda>c. c = CHR ''-'' \<or> c = CHR ''_'' \<or> lower_or_digit c) v"

definition defaultStatements :: "(string \<times> string list) list" where
  "defaultStatements =
     [(''organization'', [''create'', ''read'', ''update'', ''delete'']),
      (''member'', [''create'', ''read'', ''update'', ''delete'']),
      (''invitation'', [''create'', ''read'', ''cancel'']),
      (''team'', [''create'', ''read'', ''update'', ''delete'']),
      (''ac'', [''create'', ''read'', ''update'', ''delete''])]"

definition defaultRoles :: "(string \<times> string list) list \<Rightarrow> (string \<times> Permission) list" where
  "defaultRoles statements =
     [(''owner'', statements),
      (''admin'',
        [(''organization'', [''read'', ''update'']), (''member'', [''create'', ''read'', ''update'', ''delete'']),
         (''invitation'', [''create'', ''read'', ''cancel'']), (''team'', [''create'', ''read'', ''update'', ''delete'']),
         (''ac'', [''read''])]),
      (''member'', [(''organization'', [''read'']), (''member'', [''read'']), (''team'', [''read''])])]"

definition normal_name :: "string \<Rightarrow> string" where
  "normal_name v = ToLower (TrimSpace v)"

text \<open>\<open>slices.Compact\<close> behind \<open>slices.Sort\<close>.\<close>

definition sorted_compact :: "string list \<Rightarrow> string list" where
  "sorted_compact vs = remdups_adj (sort vs)"

definition add_permission ::
  "(string \<times> string list) list \<Rightarrow> Permission \<Rightarrow> string \<times> string list \<Rightarrow> go_error + Permission" where
  "add_permission statements result item =
     (let resource = normal_name (fst item); actions = map normal_name (snd item) in
      case map_of statements resource of
        None \<Rightarrow> Inl (ErrText ''organization: permission references unknown resource'')
      | Some allowed \<Rightarrow>
          if actions = [] then Inl (ErrText ''organization: permission references unknown resource'')
          else if \<not> set actions \<subseteq> set allowed then Inl (ErrText ''organization: permission references unknown action'')
          else Inr (put resource (sorted_compact actions) result))"

definition normalizePermission :: "Permission \<Rightarrow> (string \<times> string list) list \<Rightarrow> go_error + Permission" where
  "normalizePermission input statements = foldE (add_permission statements) [] input"

definition role_names :: "string \<Rightarrow> string list" where
  "role_names roles = SplitOn (CHR '','') roles"

definition canonicalRoles :: "string list \<Rightarrow> go_error + string" where
  "canonicalRoles vs =
     (let roles = map normal_name (concat (map role_names vs)) in
      if \<not> list_all org_validRoleName roles then Inl (ErrText ''organization: invalid role'')
      else Inr (Join (sorted_compact roles) '',''))"

definition actions_of :: "Permission \<Rightarrow> string \<Rightarrow> string list" where
  "actions_of p resource = (case map_of p resource of Some actions \<Rightarrow> actions | None \<Rightarrow> [])"

definition staticPermission :: "'d OrgRuntime \<Rightarrow> string \<Rightarrow> string \<Rightarrow> string \<Rightarrow> bool" where
  "staticPermission inst roles resource action =
     list_ex (\<lambda>name. case map_of (or_roles inst) name of
        None \<Rightarrow> False | Some role \<Rightarrow> action \<in> set (actions_of role resource)) (role_names roles)"

definition roleIncludes :: "string \<Rightarrow> string \<Rightarrow> bool" where
  "roleIncludes roles expected = list_ex (\<lambda>role. role = expected) (role_names roles)"

section \<open>Configuration checks\<close>

definition defaultLimit :: "int \<Rightarrow> int \<Rightarrow> int" where
  "defaultLimit v fallback = (if v = 0 then fallback else v)"

definition add_statement ::
  "(string \<times> string list) list \<Rightarrow> string \<times> string list \<Rightarrow> go_error + (string \<times> string list) list" where
  "add_statement statements item =
     (let resource = normal_name (fst item); actions = map normal_name (snd item) in
      if \<not> org_validRoleName resource \<or> actions = [] \<or> length actions > 100
      then Inl (ErrText ''organization: invalid access-control statement'')
      else if \<not> list_all org_validRoleName actions
      then Inl (ErrText ''organization: invalid access-control action'')
      else Inr (put resource (sorted_compact actions) statements))"

definition add_role ::
  "(string \<times> string list) list \<Rightarrow> (string \<times> Permission) list \<Rightarrow> string \<times> Permission \<Rightarrow>
   go_error + (string \<times> Permission) list" where
  "add_role statements roles item =
     (let name = normal_name (fst item) in
      if \<not> org_validRoleName name then Inl (ErrText ''organization: invalid static role'')
      else case normalizePermission (snd item) statements of
        Inl err \<Rightarrow> Inl err
      | Inr p \<Rightarrow> Inr (put name p roles))"

text \<open>\<open>normalizeConfig\<close>: the configuration with its defaults, and the static roles.\<close>

definition org_normalizeConfig :: "'d OrgConfig \<Rightarrow> go_error + 'd OrgConfig \<times> (string \<times> Permission) list" where
  "org_normalizeConfig config =
     (let hour = 3600 * 1000000000;
          creator = normal_name (oc_CreatorRole config);
          creator = (if creator = '''' then ''owner'' else creator);
          ttl = (if oc_InvitationTTL config = 0 then 48 * hour else oc_InvitationTTL config);
          organizations = defaultLimit (oc_MaxOrganizationsPerUser config) 100;
          members = defaultLimit (oc_MaxMembersPerOrganization config) 1000;
          invitations = defaultLimit (oc_MaxInvitationsPerOrganization config) 1000;
          teams = defaultLimit (oc_MaxTeamsPerOrganization config) 100;
          limitOfRoles = defaultLimit (oc_MaxRolesPerOrganization config) 100 in
      if \<not> org_validRoleName creator then Inl (ErrText ''organization: invalid creator role'')
      else if ttl < hour \<or> ttl > 30 * 24 * hour then Inl (ErrText ''organization: invitation TTL is out of bounds'')
      else if list_ex (\<lambda>limit. limit < 1 \<or> limit > 100000) [organizations, members, invitations, teams, limitOfRoles]
      then Inl (ErrText ''organization: configured limit is out of bounds'')
      else case foldE add_statement defaultStatements (oc_Statements config) of
        Inl err \<Rightarrow> Inl err
      | Inr statements \<Rightarrow>
      (case foldE (add_role statements) (defaultRoles statements) (oc_Roles config) of
        Inl err \<Rightarrow> Inl err
      | Inr roles \<Rightarrow>
          if map_of roles creator = None then Inl (ErrText ''organization: creator role is not defined'')
          else Inr (config\<lparr>oc_CreatorRole := creator, oc_InvitationTTL := ttl, oc_MaxOrganizationsPerUser := organizations,
              oc_MaxMembersPerOrganization := members, oc_MaxInvitationsPerOrganization := invitations,
              oc_MaxTeamsPerOrganization := teams, oc_MaxRolesPerOrganization := limitOfRoles,
              oc_Statements := statements, oc_Roles := roles\<rparr>, roles)))"

section \<open>The schema\<close>

definition returned :: "FieldSchema \<Rightarrow> FieldSchema" where
  "returned f = f\<lparr>fs_Returned := True\<rparr>"

definition org_id :: "string \<times> FieldSchema" where
  "org_id = (''id'', returned ((req FieldString)\<lparr>fs_Unique := True\<rparr>))"

definition reference_to :: "string \<Rightarrow> FieldSchema" where
  "reference_to model = returned ((req FieldString)\<lparr>fs_Index := True, fs_References := model\<rparr>)"

definition unique_pair :: "string \<Rightarrow> string \<Rightarrow> string \<Rightarrow> IndexSchema list" where
  "unique_pair name a b = [\<lparr>ix_Name = name, ix_Fields = [a, b], ix_Unique = True\<rparr>]"

definition baseSchema :: Schema where
  "baseSchema = [
    (ModelSession, \<lparr>ms_ModelName = '''', ms_Fields = [
       (''activeOrganizationId'', fieldOf FieldString), (''activeTeamId'', fieldOf FieldString)], ms_Indexes = []\<rparr>),
    (ModelOrganization, \<lparr>ms_ModelName = '''', ms_Fields = [
       org_id, (''name'', returned (req FieldString)), (''slug'', returned ((req FieldString)\<lparr>fs_Unique := True\<rparr>)),
       (''logo'', returned (fieldOf FieldString)), (''metadata'', returned (fieldOf FieldJSON)),
       (''createdAt'', returned (req FieldDate)), (''updatedAt'', returned (req FieldDate))], ms_Indexes = []\<rparr>),
    (ModelMember, \<lparr>ms_ModelName = '''', ms_Fields = [
       org_id, (''organizationId'', reference_to ModelOrganization), (''userId'', reference_to ModelUser),
       (''role'', returned (req FieldString)), (''createdAt'', returned (req FieldDate)),
       (''updatedAt'', returned (req FieldDate))],
      ms_Indexes = unique_pair ''member_organization_user_unique'' ''organizationId'' ''userId''\<rparr>),
    (ModelInvitation, \<lparr>ms_ModelName = '''', ms_Fields = [
       org_id, (''organizationId'', reference_to ModelOrganization),
       (''email'', returned ((req FieldString)\<lparr>fs_Index := True\<rparr>)), (''role'', returned (req FieldString)),
       (''teamId'', returned (fieldOf FieldString)), (''status'', returned (req FieldString)),
       (''inviterId'', returned ((req FieldString)\<lparr>fs_References := ModelUser\<rparr>)),
       (''expiresAt'', returned (req FieldDate)), (''createdAt'', returned (req FieldDate)),
       (''updatedAt'', returned (req FieldDate))],
      ms_Indexes = unique_pair ''invitation_organization_email_unique'' ''organizationId'' ''email''\<rparr>),
    (ModelTeam, \<lparr>ms_ModelName = '''', ms_Fields = [
       org_id, (''organizationId'', reference_to ModelOrganization), (''name'', returned (req FieldString)),
       (''createdAt'', returned (req FieldDate)), (''updatedAt'', returned (req FieldDate))],
      ms_Indexes = unique_pair ''team_organization_name_unique'' ''organizationId'' ''name''\<rparr>),
    (ModelTeamMember, \<lparr>ms_ModelName = '''', ms_Fields = [
       org_id, (''teamId'', reference_to ModelTeam), (''userId'', reference_to ModelUser),
       (''createdAt'', returned (req FieldDate))],
      ms_Indexes = unique_pair ''team_member_team_user_unique'' ''teamId'' ''userId''\<rparr>),
    (ModelOrganizationRole, \<lparr>ms_ModelName = '''', ms_Fields = [
       org_id, (''organizationId'', reference_to ModelOrganization), (''role'', returned (req FieldString)),
       (''permission'', returned (req FieldJSON)), (''createdAt'', returned (req FieldDate)),
       (''updatedAt'', returned (req FieldDate))],
      ms_Indexes = unique_pair ''organization_role_name_unique'' ''organizationId'' ''role''\<rparr>)]"

text \<open>\<open>NewManager\<close>.\<close>

definition NewManager :: "'d Server \<Rightarrow> OrgLib \<Rightarrow> 'd OrgConfig \<Rightarrow> go_error + 'd OrgRuntime" where
  "NewManager s lib config =
     (case org_normalizeConfig config of
        Inl err \<Rightarrow> Inl err
      | Inr (config, roles) \<Rightarrow>
      (case MergeSchema baseSchema [oc_Schema config] of
        Inl err \<Rightarrow> Inl (ErrWrap ''organization: schema'' err)
      | Inr schema \<Rightarrow>
          Inr \<lparr>or_server = s, or_lib = lib, or_config = config, or_schema = schema, or_roles = roles\<rparr>))"

section \<open>Records\<close>

definition requiredString :: "Record \<Rightarrow> string \<Rightarrow> go_error + string" where
  "requiredString row field =
     (let invalid = Inl (ErrText (''organization: invalid '' @ field @ '' record field'')) in
      case fld row field of
        VStr v \<Rightarrow> if TrimSpace v = '''' then invalid else Inr (TrimSpace v)
      | _ \<Rightarrow> invalid)"

definition org_time :: "'d OrgRuntime \<Rightarrow> val \<Rightarrow> go_error + gtime" where
  "org_time inst v =
     (case v of
        VTime t \<Rightarrow> Inr t
      | VStr text \<Rightarrow>
          (case sv_ParseTime (srv_services (or_server inst)) text of
             None \<Rightarrow> Inl (ErrText ''parsing time'')
           | Some t \<Rightarrow> Inr t)
      | _ \<Rightarrow> Inl (ErrText ''organization: invalid timestamp''))"

definition permissionlessObject :: "'d OrgRuntime \<Rightarrow> val \<Rightarrow> go_error + (string \<times> val) list option" where
  "permissionlessObject inst v =
     (case v of
        VMap m \<Rightarrow> Inr (Some m)
      | VStr text \<Rightarrow> rl_UnmarshalObject (or_lib inst) text
      | _ \<Rightarrow> bindE (rl_MarshalVal (or_lib inst) v) (rl_UnmarshalObject (or_lib inst)))"

definition permissionFromValue :: "'d OrgRuntime \<Rightarrow> val \<Rightarrow> go_error + Permission" where
  "permissionFromValue inst v =
     bindE (case v of VStr text \<Rightarrow> Inr text | _ \<Rightarrow> rl_MarshalVal (or_lib inst) v) (\<lambda>encoded.
       case rl_UnmarshalPermission (or_lib inst) encoded of
         Inl err \<Rightarrow> Inl (ErrText ''organization: invalid permission record'')
       | Inr p \<Rightarrow> Inr p)"

definition organizationFromRecord :: "'d OrgRuntime \<Rightarrow> Record \<Rightarrow> go_error + Organization" where
  "organizationFromRecord inst row =
     bindE (requiredString row ''id'') (\<lambda>rid.
     bindE (requiredString row ''name'') (\<lambda>name.
     bindE (requiredString row ''slug'') (\<lambda>slug.
     bindE (if fld row ''metadata'' = VNil then Inr None
            else case permissionlessObject inst (fld row ''metadata'') of
              Inl err \<Rightarrow> Inl (ErrWrap ''organization: invalid metadata'' err)
            | Inr m \<Rightarrow> Inr m) (\<lambda>metadata.
     bindE (org_time inst (fld row ''createdAt'')) (\<lambda>created.
     bindE (org_time inst (fld row ''updatedAt'')) (\<lambda>updated.
       Inr \<lparr>og_ID = rid, og_Name = name, og_Slug = slug, og_Logo = optionalString (fld row ''logo''),
         og_Metadata = metadata, og_CreatedAt = created, og_UpdatedAt = updated\<rparr>))))))"

definition memberFromRecord :: "'d OrgRuntime \<Rightarrow> Record \<Rightarrow> go_error + Member" where
  "memberFromRecord inst row =
     bindE (requiredString row ''id'') (\<lambda>rid.
     bindE (requiredString row ''organizationId'') (\<lambda>organization.
     bindE (requiredString row ''userId'') (\<lambda>user.
     bindE (requiredString row ''role'') (\<lambda>role.
     bindE (org_time inst (fld row ''createdAt'')) (\<lambda>created.
     bindE (org_time inst (fld row ''updatedAt'')) (\<lambda>updated.
       Inr \<lparr>mb_ID = rid, mb_OrganizationID = organization, mb_UserID = user, mb_Role = role,
         mb_CreatedAt = created, mb_UpdatedAt = updated\<rparr>))))))"

definition invitationFromRecord :: "'d OrgRuntime \<Rightarrow> Record \<Rightarrow> go_error + Invitation" where
  "invitationFromRecord inst row =
     bindE (requiredString row ''id'') (\<lambda>rid.
     bindE (requiredString row ''organizationId'') (\<lambda>organization.
     bindE (requiredString row ''email'') (\<lambda>email.
     bindE (requiredString row ''role'') (\<lambda>role.
     bindE (requiredString row ''status'') (\<lambda>status.
     bindE (requiredString row ''inviterId'') (\<lambda>inviter.
     bindE (org_time inst (fld row ''expiresAt'')) (\<lambda>expires.
     bindE (org_time inst (fld row ''createdAt'')) (\<lambda>created.
     bindE (org_time inst (fld row ''updatedAt'')) (\<lambda>updated.
       Inr \<lparr>iv_ID = rid, iv_OrganizationID = organization, iv_Email = email, iv_Role = role,
         iv_TeamID = optionalString (fld row ''teamId''), iv_Status = status, iv_InviterID = inviter,
         iv_ExpiresAt = expires, iv_CreatedAt = created, iv_UpdatedAt = updated\<rparr>)))))))))"

definition teamFromRecord :: "'d OrgRuntime \<Rightarrow> Record \<Rightarrow> go_error + Team" where
  "teamFromRecord inst row =
     bindE (requiredString row ''id'') (\<lambda>rid.
     bindE (requiredString row ''organizationId'') (\<lambda>organization.
     bindE (requiredString row ''name'') (\<lambda>name.
     bindE (org_time inst (fld row ''createdAt'')) (\<lambda>created.
     bindE (org_time inst (fld row ''updatedAt'')) (\<lambda>updated.
       Inr \<lparr>tm_ID = rid, tm_OrganizationID = organization, tm_Name = name, tm_CreatedAt = created,
         tm_UpdatedAt = updated\<rparr>)))))"

definition teamMemberFromRecord :: "'d OrgRuntime \<Rightarrow> Record \<Rightarrow> go_error + TeamMember" where
  "teamMemberFromRecord inst row =
     bindE (requiredString row ''id'') (\<lambda>rid.
     bindE (requiredString row ''teamId'') (\<lambda>team.
     bindE (requiredString row ''userId'') (\<lambda>user.
     bindE (org_time inst (fld row ''createdAt'')) (\<lambda>created.
       Inr \<lparr>tmm_ID = rid, tmm_TeamID = team, tmm_UserID = user, tmm_CreatedAt = created\<rparr>))))"

definition roleFromRecord :: "'d OrgRuntime \<Rightarrow> Record \<Rightarrow> go_error + OrganizationRole" where
  "roleFromRecord inst row =
     bindE (requiredString row ''id'') (\<lambda>rid.
     bindE (requiredString row ''organizationId'') (\<lambda>organization.
     bindE (requiredString row ''role'') (\<lambda>role.
     bindE (permissionFromValue inst (fld row ''permission'')) (\<lambda>p.
     bindE (org_time inst (fld row ''createdAt'')) (\<lambda>created.
     bindE (org_time inst (fld row ''updatedAt'')) (\<lambda>updated.
       Inr \<lparr>orr_ID = rid, orr_OrganizationID = organization, orr_Role = role, orr_Permission = p,
         orr_CreatedAt = created, orr_UpdatedAt = updated\<rparr>))))))"

text \<open>\<open>rowsToMembers\<close>, \<open>rowsToInvitations\<close> and \<open>rowsToTeams\<close>: every row, or the first error.\<close>

definition rows_to :: "(Record \<Rightarrow> go_error + 'a) \<Rightarrow> Record list \<Rightarrow> go_error + 'a list" where
  "rows_to from rows = foldE (\<lambda>vs row. bindE (from row) (\<lambda>v. Inr (vs @ [v]))) [] rows"

section \<open>Errors\<close>

definition org_internalError :: "go_error \<Rightarrow> go_error" where
  "org_internalError cause = publicError CodeInternal ''The request could not be completed.'' 500 (Some cause)"

definition org_badRequest :: "string \<Rightarrow> go_error option \<Rightarrow> go_error" where
  "org_badRequest message cause = publicError CodeBadRequest message 400 cause"

definition org_forbidden :: "go_error option \<Rightarrow> go_error" where
  "org_forbidden cause = publicError CodeForbidden ''You do not have permission to perform this action.'' 403 cause"

definition org_notFound :: "go_error option \<Rightarrow> go_error" where
  "org_notFound cause = publicError CodeNotFound ''Organization resource not found.'' 404 cause"

definition org_conflict :: "string \<Rightarrow> go_error option \<Rightarrow> go_error" where
  "org_conflict message cause = publicError CodeConflict message 409 cause"

definition mapMutationError :: "go_error \<Rightarrow> go_error" where
  "mapMutationError err =
     (if errors_As err \<noteq> None then err
      else if errors_Is err ErrNotFound then org_notFound (Some err)
      else if errors_Is err ErrConflict then org_conflict ''The organization resource already exists.'' (Some err)
      else org_internalError err)"

section \<open>Queries\<close>

text \<open>
  The database of a context and a transaction on it: the callback is an action of the world, so hooks and
  the clock run inside it; an error rolls the database back and nothing else.
\<close>

definition org_db :: "'d OrgRuntime \<Rightarrow> 'd database_adapter" where
  "org_db inst = cfg_Database (srv_cfg (or_server inst))"

definition org_transaction :: "'d OrgRuntime \<Rightarrow> ('d, 'a) action \<Rightarrow> ('d, 'a) action" where
  "org_transaction inst callback = (\<lambda>w.
     case callback (w\<lparr>w_db := db_begin (org_db inst) (w_db w)\<rparr>) of
       (Inl e, v) \<Rightarrow> (Inl e, v\<lparr>w_db := db_rollback (org_db inst) (w_db w) (w_db v)\<rparr>)
     | (Inr a, v) \<Rightarrow>
         (case db_commit (org_db inst) (w_db w) (w_db v) of
            (Inl e, d) \<Rightarrow> (Inl e, v\<lparr>w_db := d\<rparr>)
          | (Inr _, d) \<Rightarrow> (Inr a, v\<lparr>w_db := d\<rparr>)))"

definition org_findOne :: "'d OrgRuntime \<Rightarrow> string \<Rightarrow> Where list \<Rightarrow> string list \<Rightarrow> ('d, Record option) action" where
  "org_findOne inst model ws sel =
     onDB (db_findOne (org_db inst) \<lparr>fo_Model = model, fo_Where = ws, fo_Select = sel, fo_Joins = []\<rparr>)"

definition org_findMany ::
  "'d OrgRuntime \<Rightarrow> string \<Rightarrow> Where list \<Rightarrow> int \<Rightarrow> int \<Rightarrow> Sort option \<Rightarrow> ('d, Record list) action" where
  "org_findMany inst model ws limit offset order =
     onDB (db_findMany (org_db inst) \<lparr>fm_Model = model, fm_Where = ws, fm_Limit = limit, fm_Offset = offset,
       fm_Select = [], fm_Sort = order, fm_Joins = []\<rparr>)"

definition org_count :: "'d OrgRuntime \<Rightarrow> string \<Rightarrow> Where list \<Rightarrow> ('d, int) action" where
  "org_count inst model ws = onDB (db_count (org_db inst) \<lparr>ct_Model = model, ct_Where = ws\<rparr>)"

definition org_create :: "'d OrgRuntime \<Rightarrow> string \<Rightarrow> Record \<Rightarrow> ('d, Record) action" where
  "org_create inst model row = onDB (db_create (org_db inst) (createQ model row))"

definition org_update :: "'d OrgRuntime \<Rightarrow> string \<Rightarrow> Where list \<Rightarrow> Record \<Rightarrow> ('d, Record option) action" where
  "org_update inst model ws update = onDB (db_update (org_db inst) (updateQ model ws update))"

definition org_updateMany :: "'d OrgRuntime \<Rightarrow> string \<Rightarrow> Where list \<Rightarrow> Record \<Rightarrow> ('d, unit) action" where
  "org_updateMany inst model ws update =
     bindM (onDB (db_updateMany (org_db inst) (updateQ model ws update))) (\<lambda>_. ret ())"

definition org_delete :: "'d OrgRuntime \<Rightarrow> string \<Rightarrow> Where list \<Rightarrow> ('d, unit) action" where
  "org_delete inst model ws = onDB (db_delete (org_db inst) (deleteQ model ws))"

definition org_deleteMany :: "'d OrgRuntime \<Rightarrow> string \<Rightarrow> Where list \<Rightarrow> ('d, unit) action" where
  "org_deleteMany inst model ws = bindM (onDB (db_deleteMany (org_db inst) (deleteQ model ws))) (\<lambda>_. ret ())"

text \<open>A row that must be there: a nil row is \<open>ErrNotFound\<close> (or another error the caller names).\<close>

definition present :: "go_error \<Rightarrow> ('d, 'a option) action \<Rightarrow> ('d, 'a) action" where
  "present absent m = bindM m (\<lambda>row. case row of None \<Rightarrow> fail absent | Some r \<Rightarrow> ret r)"

text \<open>An absent row, whether the adapter gives nil or \<open>ErrNotFound\<close>.\<close>

definition missing_ok :: "('d, 'a option) action \<Rightarrow> ('d, 'a option) action" where
  "missing_ok m = bindM (tryM m) (\<lambda>res.
     case res of Inr row \<Rightarrow> ret row | Inl err \<Rightarrow> if errors_Is err ErrNotFound then ret None else fail err)"

section \<open>Members and permissions\<close>

definition userID_of :: "HookContext \<Rightarrow> string" where
  "userID_of c = u_ID (the (cx_User c))"

definition org_member :: "'d OrgRuntime \<Rightarrow> string \<Rightarrow> string \<Rightarrow> ('d, Member) action" where
  "org_member inst organizationID userID =
     bindM (present ErrNotFound (org_findOne inst ModelMember
         [Eq ''organizationId'' (VStr organizationID), Eq ''userId'' (VStr userID)] [])) (\<lambda>row.
       lift (memberFromRecord inst row))"

text \<open>The loop of \<open>permission\<close> over the role names of a member.\<close>

fun dynamic_permission ::
  "'d OrgRuntime \<Rightarrow> string \<Rightarrow> string \<Rightarrow> string \<Rightarrow> string list \<Rightarrow> ('d, bool) action" where
  "dynamic_permission inst organizationID resource action [] = ret False"
| "dynamic_permission inst organizationID resource action (name # names) =
     bindM (missing_ok (org_findOne inst ModelOrganizationRole
         [Eq ''organizationId'' (VStr organizationID), Eq ''role'' (VStr name)] [])) (\<lambda>row.
     case row of
       None \<Rightarrow> dynamic_permission inst organizationID resource action names
     | Some r \<Rightarrow>
         bindM (lift (roleFromRecord inst r)) (\<lambda>role.
           if action \<in> set (actions_of (orr_Permission role) resource) then ret True
           else dynamic_permission inst organizationID resource action names))"

definition org_permission ::
  "'d OrgRuntime \<Rightarrow> string \<Rightarrow> string \<Rightarrow> string \<Rightarrow> string \<Rightarrow> ('d, bool) action" where
  "org_permission inst organizationID roles resource action =
     (if staticPermission inst roles resource action then ret True
      else dynamic_permission inst organizationID resource action (role_names roles))"

definition org_authorize ::
  "'d OrgRuntime \<Rightarrow> HookContext \<Rightarrow> string \<Rightarrow> string \<Rightarrow> string \<Rightarrow> ('d, Member) action" where
  "org_authorize inst c organizationID resource action =
     bindM (mapErr (\<lambda>err. org_forbidden (Some err)) (org_member inst organizationID (userID_of c))) (\<lambda>member.
     bindM (mapErr org_internalError (org_permission inst organizationID (mb_Role member) resource action)) (\<lambda>allowed.
       if \<not> allowed then fail (org_forbidden None) else ret member))"

section \<open>Inputs\<close>

definition org_body :: "HookContext \<Rightarrow> (string \<times> any) list" where
  "org_body c = (case cx_Body c of AObject m \<Rightarrow> m | _ \<Rightarrow> [])"

definition bodyString :: "HookContext \<Rightarrow> string \<Rightarrow> string" where
  "bodyString c key = (case map_of (org_body c) key of Some (AString v) \<Rightarrow> TrimSpace v | _ \<Rightarrow> '''')"

definition bodyObject :: "HookContext \<Rightarrow> string \<Rightarrow> (string \<times> any) list option" where
  "bodyObject c key = (case map_of (org_body c) key of Some (AObject m) \<Rightarrow> Some m | _ \<Rightarrow> None)"

text \<open>A decoded value as the adapter stores it; a number keeps its text.\<close>

fun stored_any :: "any \<Rightarrow> val" where
  "stored_any ANil = VNil"
| "stored_any (ABool b) = VBool b"
| "stored_any (AString s) = VStr s"
| "stored_any (ANumber s) = VStruct ''json.Number'' [(''text'', VStr s)]"
| "stored_any (AFloat k) = VStruct ''float64'' []"
| "stored_any (AObject m) = VMap (map (\<lambda>(k, v). (k, stored_any v)) m)"
| "stored_any (AArray vs) = VArr (map stored_any vs)"
| "stored_any (AStrings vs) = VStrs vs"
| "stored_any (AValues m) = VMap (map (\<lambda>(k, vs). (k, VStrs vs)) m)"

definition activeOrganizationID :: "'d OrgRuntime \<Rightarrow> HookContext \<Rightarrow> ('d, string) action" where
  "activeOrganizationID inst c =
     bindM (present ErrNotFound (org_findOne inst ModelSession
         [Eq ''id'' (VStr (ss_ID (the (cx_Session c)))), Eq ''userId'' (VStr (userID_of c))] [''activeOrganizationId'']))
       (\<lambda>row. ret (TrimSpace (optionalString (fld row ''activeOrganizationId''))))"

definition selectedOrganizationID :: "'d OrgRuntime \<Rightarrow> HookContext \<Rightarrow> ('d, string) action" where
  "selectedOrganizationID inst c =
     (let named = bodyString c ''organizationId'';
          named = (if named = '''' then TrimSpace (first_value (cx_Query c) ''organizationId'') else named) in
      bindM (if named = '''' then mapErr org_internalError (activeOrganizationID inst c) else ret named) (\<lambda>v.
        if v = '''' \<or> length v > 512 then fail (org_badRequest ''An organization must be selected.'' None) else ret v))"

definition page_value :: "string \<Rightarrow> int \<Rightarrow> int \<Rightarrow> string \<Rightarrow> int \<Rightarrow> go_error + int" where
  "page_value text least greatest message fallback =
     (if text = '''' then Inr fallback
      else case Atoi text of
        None \<Rightarrow> Inl (org_badRequest message (Some (ErrText ''strconv.Atoi'')))
      | Some n \<Rightarrow> if n < least \<or> n > greatest then Inl (org_badRequest message None) else Inr n)"

definition queryPage :: "HookContext \<Rightarrow> int \<Rightarrow> go_error + int \<times> int" where
  "queryPage c maximum =
     (if maximum < 1 then Inl (ErrText ''organization: invalid pagination maximum'')
      else
        bindE (page_value (TrimSpace (first_value (cx_Query c) ''limit'')) 1 (min maximum 1000)
               ''The pagination limit is invalid.'' (min maximum 100)) (\<lambda>limit.
        bindE (page_value (TrimSpace (first_value (cx_Query c) ''offset'')) 0 1000000
               ''The pagination offset is invalid.'' 0) (\<lambda>offset.
          Inr (limit, offset))))"

section \<open>Bounded listing\<close>

text \<open>
  The loop of \<open>findManyBounded\<close> over pages of at most 1000 rows, with fuel for its pages; \<open>pages_enough\<close>
  shows that one page per thousand rows is enough.
\<close>

fun org_pages ::
  "nat \<Rightarrow> 'd OrgRuntime \<Rightarrow> string \<Rightarrow> Where list \<Rightarrow> int \<Rightarrow> int \<Rightarrow> Record list \<Rightarrow> ('d, Record list) action" where
  "org_pages 0 inst model ws maximum offset result = ret result"
| "org_pages (Suc n) inst model ws maximum offset result =
     (if offset \<ge> maximum then ret result
      else
        let limit = min (maximum - offset) 1000 in
        bindM (org_findMany inst model ws limit offset None) (\<lambda>rows.
          if int (length rows) < limit then ret (result @ rows)
          else org_pages n inst model ws maximum (offset + int (length rows)) (result @ rows)))"

definition findManyBounded :: "'d OrgRuntime \<Rightarrow> string \<Rightarrow> Where list \<Rightarrow> int \<Rightarrow> ('d, Record list) action" where
  "findManyBounded inst model ws maximum =
     (if maximum < 1 then fail (ErrText ''organization: invalid storage bound'')
      else org_pages (Suc (nat (maximum div 1000))) inst model ws maximum 0 [])"

lemma pages_enough:
  "maximum - offset \<le> 1000 * int n \<Longrightarrow>
     org_pages (n + k) inst model ws maximum offset result = org_pages n inst model ws maximum offset result"
proof (induction n arbitrary: offset result)
  case 0
  then show ?case by (cases k) auto
next
  case (Suc n)
  have "org_pages (n + k) inst model ws maximum (offset + int (length rows)) (result @ rows) =
      org_pages n inst model ws maximum (offset + int (length rows)) (result @ rows)"
    if "\<not> int (length rows) < min (maximum - offset) 1000" for rows :: "Record list"
  proof (cases "maximum - (offset + int (length rows)) \<le> 1000 * int n")
    case True
    then show ?thesis by (rule Suc.IH)
  next
    case False
    with that Suc.prems show ?thesis by (auto simp: min_def split: if_splits)
  qed
  then show ?case
    by (auto simp: Let_def fun_eq_iff bindM_def split: prod.split sum.split)
qed

lemma findManyBounded_fuel:
  assumes "1 \<le> maximum"
  shows "findManyBounded inst model ws maximum =
    org_pages (Suc (nat (maximum div 1000)) + k) inst model ws maximum 0 []"
proof -
  define n where "n = maximum div 1000"
  obtain m where "maximum = 1000 * n + m" "m < 1000"
    by (rule that [of "maximum mod 1000"]) (simp_all add: n_def)
  moreover have "0 \<le> n" using assms by (simp add: n_def pos_imp_zdiv_nonneg_iff)
  ultimately have "maximum - 0 \<le> 1000 * int (Suc (nat n))" by simp
  note enough = pages_enough [OF this]
  have "\<not> maximum < 1" using assms by simp
  then show ?thesis unfolding findManyBounded_def n_def [symmetric] by (simp only: enough if_False)
qed

text \<open>\<open>ownerCount\<close>, with the roles it counts.\<close>

definition count_owners :: "string \<Rightarrow> Record list \<Rightarrow> go_error + int" where
  "count_owners ownerRole rows =
     foldE (\<lambda>n row. bindE (requiredString row ''role'') (\<lambda>role. Inr (if roleIncludes role ownerRole then n + 1 else n))) 0 rows"

definition ownerCount :: "'d OrgRuntime \<Rightarrow> string \<Rightarrow> string \<Rightarrow> ('d, int) action" where
  "ownerCount inst organizationID ownerRole =
     bindM (findManyBounded inst ModelMember [Eq ''organizationId'' (VStr organizationID)] 100000) (\<lambda>rows.
       lift (count_owners ownerRole rows))"

section \<open>Audit\<close>

definition trimBounded :: "string \<Rightarrow> nat \<Rightarrow> string" where
  "trimBounded v maximum = take maximum (TrimSpace v)"

definition org_requestDetails :: "'d OrgRuntime \<Rightarrow> Request \<Rightarrow> (string \<times> val) list" where
  "org_requestDetails inst r =
     (let ip = (case sv_SplitHostPort (srv_services (or_server inst)) (rq_RemoteAddr r) of
                  Some host \<Rightarrow> host | None \<Rightarrow> rq_RemoteAddr r) in
      [(''ip'', VStr (trimBounded ip 128)), (''userAgent'', VStr (trimBounded (rl_UserAgent (or_lib inst) r) 512))])"

definition org_audit ::
  "'d OrgRuntime \<Rightarrow> Request \<Rightarrow> HookContext \<Rightarrow> string \<Rightarrow> string \<Rightarrow> string \<Rightarrow> (string \<times> val) list \<Rightarrow> ('d, unit) action" where
  "org_audit inst r c action subjectID organizationID details =
     bindM (newID (or_server inst)) (\<lambda>aid.
     bindM (Now (or_server inst)) (\<lambda>now.
     bindM (org_create inst ModelAuditEvent
        [''id'' \<mapsto> VStr aid, ''schemaVersion'' \<mapsto> VFloat 1, ''action'' \<mapsto> VStr action, ''actorUserId'' \<mapsto> VStr (userID_of c),
         ''subjectUserId'' \<mapsto> VStr subjectID,
         ''sessionId'' \<mapsto> VStr (case cx_Session c of Some session \<Rightarrow> ss_ID session | None \<Rightarrow> ''''),
         ''occurredAt'' \<mapsto> VTime now, ''request'' \<mapsto> VMap (org_requestDetails inst r),
         ''details'' \<mapsto> VMap (put ''organizationId'' (VStr organizationID) details)]) (\<lambda>_. ret ())))"

section \<open>Hooks and responses\<close>

abbreviation org_hooks :: "'d OrgRuntime \<Rightarrow> 'd OrgHooks" where
  "org_hooks inst \<equiv> oc_Hooks (or_config inst)"

definition org_hook :: "('a \<Rightarrow> 'b \<Rightarrow> ('d, unit) action) option \<Rightarrow> 'a \<Rightarrow> 'b \<Rightarrow> ('d, unit) action" where
  "org_hook h c v = (case h of None \<Rightarrow> ret () | Some f \<Rightarrow> f c v)"

definition before_mutation :: "'d OrgRuntime \<Rightarrow> HookContext \<Rightarrow> MutationEvent \<Rightarrow> ('d, unit) action" where
  "before_mutation inst c event = org_hook (oh_BeforeMutation (org_hooks inst)) c event"

definition after_mutation :: "'d OrgRuntime \<Rightarrow> HookContext \<Rightarrow> MutationEvent \<Rightarrow> ('d, unit) action" where
  "after_mutation inst c event = org_hook (oh_AfterMutation (org_hooks inst)) c event"

definition mutation_event :: "string \<Rightarrow> string \<Rightarrow> string \<Rightarrow> (string \<times> val) list \<Rightarrow> MutationEvent" where
  "mutation_event action organizationID subjectID details =
     \<lparr>me_Action = action, me_OrganizationID = organizationID, me_SubjectID = subjectID, me_Data = details\<rparr>"

definition org_JSON :: "'d OrgRuntime \<Rightarrow> org_json \<Rightarrow> ('d, PluginResponse option) action" where
  "org_JSON inst v = bindM (lift (JSONResponse 200 (rl_Marshal (or_lib inst) v))) (\<lambda>response. ret (Some response))"

text \<open>A mutation in a transaction: its error is mapped to a public one.\<close>

definition mutation :: "'d OrgRuntime \<Rightarrow> ('d, 'a) action \<Rightarrow> ('d, 'a) action" where
  "mutation inst callback = mapErr mapMutationError (org_transaction inst callback)"

end
