(* ===== verification/Organization_Members.thy ===== *)
theory Organization_Members
  imports Organization
begin

text \<open>The endpoints of \<open>plugin/organization/members.go\<close>, and \<open>Manager.AddMember\<close> of \<open>config.go\<close>.\<close>

section \<open>Shared steps\<close>

definition memberRecord :: "Member \<Rightarrow> Record" where
  "memberRecord v =
     [''id'' \<mapsto> VStr (mb_ID v), ''organizationId'' \<mapsto> VStr (mb_OrganizationID v), ''userId'' \<mapsto> VStr (mb_UserID v),
      ''role'' \<mapsto> VStr (mb_Role v), ''createdAt'' \<mapsto> VTime (mb_CreatedAt v), ''updatedAt'' \<mapsto> VTime (mb_UpdatedAt v)]"

definition findMemberByID :: "'d OrgRuntime \<Rightarrow> string \<Rightarrow> string \<Rightarrow> ('d, Member) action" where
  "findMemberByID inst organizationID memberID =
     bindM (present ErrNotFound (org_findOne inst ModelMember
         [Eq ''id'' (VStr memberID), Eq ''organizationId'' (VStr organizationID)] [])) (\<lambda>row.
       lift (memberFromRecord inst row))"

fun requireRoles :: "'d OrgRuntime \<Rightarrow> string \<Rightarrow> string list \<Rightarrow> ('d, unit) action" where
  "requireRoles inst organizationID [] = ret ()"
| "requireRoles inst organizationID (name # names) =
     (if map_of (or_roles inst) name \<noteq> None then requireRoles inst organizationID names
      else
        bindM (mapErr org_internalError (missing_ok (org_findOne inst ModelOrganizationRole
            [Eq ''organizationId'' (VStr organizationID), Eq ''role'' (VStr name)] [''id'']))) (\<lambda>row.
          if row = None then fail (org_badRequest ''The member role is not defined.'' None)
          else requireRoles inst organizationID names))"

definition requireDefinedRoles :: "'d OrgRuntime \<Rightarrow> string \<Rightarrow> string \<Rightarrow> ('d, unit) action" where
  "requireDefinedRoles inst organizationID roles = requireRoles inst organizationID (role_names roles)"

fun leave_teams :: "'d OrgRuntime \<Rightarrow> string \<Rightarrow> Record list \<Rightarrow> ('d, unit) action" where
  "leave_teams inst userID [] = ret ()"
| "leave_teams inst userID (row # rows) =
     bindM (lift (requiredString row ''id'')) (\<lambda>teamID.
     bindM (org_deleteMany inst ModelTeamMember [Eq ''teamId'' (VStr teamID), Eq ''userId'' (VStr userID)]) (\<lambda>_.
       leave_teams inst userID rows))"

definition removeUserFromOrganizationTeams :: "'d OrgRuntime \<Rightarrow> string \<Rightarrow> string \<Rightarrow> ('d, unit) action" where
  "removeUserFromOrganizationTeams inst organizationID userID =
     bindM (findManyBounded inst ModelTeam [Eq ''organizationId'' (VStr organizationID)] 100000) (\<lambda>teams.
       leave_teams inst userID teams)"

definition inactive_update :: "gtime \<Rightarrow> Record" where
  "inactive_update now = [''activeOrganizationId'' \<mapsto> VNil, ''activeTeamId'' \<mapsto> VNil, ''updatedAt'' \<mapsto> VTime now]"

text \<open>What a member leaves behind: the memberships in teams and the active organization of the sessions.\<close>

definition forget_member :: "'d OrgRuntime \<Rightarrow> string \<Rightarrow> string \<Rightarrow> ('d, unit) action" where
  "forget_member inst organizationID userID =
     bindM (removeUserFromOrganizationTeams inst organizationID userID) (\<lambda>_.
     bindM (Now (or_server inst)) (\<lambda>now.
       org_updateMany inst ModelSession
         [Eq ''userId'' (VStr userID), Eq ''activeOrganizationId'' (VStr organizationID)] (inactive_update now)))"

text \<open>The guard of the final owner.\<close>

definition keep_an_owner :: "'d OrgRuntime \<Rightarrow> string \<Rightarrow> string \<Rightarrow> ('d, unit) action" where
  "keep_an_owner inst organizationID message =
     bindM (ownerCount inst organizationID (oc_CreatorRole (or_config inst))) (\<lambda>count.
       failIf (count \<le> 1) (org_conflict message None))"

section \<open>Removing a member\<close>

text \<open>The callback of the transaction, with the guards in front of the deletion apart.\<close>

definition remove_guards :: "'d OrgRuntime \<Rightarrow> HookContext \<Rightarrow> string \<Rightarrow> string \<Rightarrow> ('d, Member) action" where
  "remove_guards inst c organizationID memberID =
     bindM (org_authorize inst c organizationID ''member'' ''delete'') (\<lambda>actor.
     bindM (findMemberByID inst organizationID memberID) (\<lambda>gone.
     bindM (if roleIncludes (mb_Role gone) (oc_CreatorRole (or_config inst))
            then if \<not> roleIncludes (mb_Role actor) (oc_CreatorRole (or_config inst)) then fail (org_forbidden None)
              else keep_an_owner inst organizationID ''The final organization owner cannot be removed.''
            else ret ()) (\<lambda>_.
       ret gone)))"

definition removeMember_tx ::
  "'d OrgRuntime \<Rightarrow> Request \<Rightarrow> HookContext \<Rightarrow> string \<Rightarrow> string \<Rightarrow> ('d, Member) action" where
  "removeMember_tx inst r c organizationID memberID =
     bindM (remove_guards inst c organizationID memberID) (\<lambda>gone.
     let event = mutation_event ''organization.member.removed'' organizationID (mb_UserID gone)
           [(''memberId'', VStr (mb_ID gone))] in
     bindM (before_mutation inst c event) (\<lambda>_.
     bindM (org_authorize inst c organizationID ''member'' ''delete'') (\<lambda>_.
     bindM (org_delete inst ModelMember
         [Eq ''id'' (VStr (mb_ID gone)), Eq ''organizationId'' (VStr organizationID)]) (\<lambda>_.
     bindM (forget_member inst organizationID (mb_UserID gone)) (\<lambda>_.
     bindM (org_audit inst r c ''organization.member.removed'' (mb_UserID gone) organizationID
         [(''memberId'', VStr (mb_ID gone))]) (\<lambda>_.
     bindM (after_mutation inst c event) (\<lambda>_.
       ret gone)))))))"

definition removeMember :: "'d OrgRuntime \<Rightarrow> Request \<Rightarrow> HookContext \<Rightarrow> ('d, PluginResponse option) action" where
  "removeMember inst r c =
     bindM (selectedOrganizationID inst c) (\<lambda>organizationID.
     bindM (org_authorize inst c organizationID ''member'' ''delete'') (\<lambda>_.
     bindM (mutation inst (removeMember_tx inst r c organizationID (bodyString c ''memberId''))) (\<lambda>gone.
       org_JSON inst (OJMember gone))))"

section \<open>Changing a role\<close>

definition role_guards :: "'d OrgRuntime \<Rightarrow> HookContext \<Rightarrow> string \<Rightarrow> string \<Rightarrow> string \<Rightarrow> ('d, Member) action" where
  "role_guards inst c organizationID memberID role =
     bindM (org_authorize inst c organizationID ''member'' ''update'') (\<lambda>actor.
     bindM (findMemberByID inst organizationID memberID) (\<lambda>current.
     bindM (if roleIncludes (mb_Role current) (oc_CreatorRole (or_config inst)) \<and>
               \<not> roleIncludes role (oc_CreatorRole (or_config inst))
            then if \<not> roleIncludes (mb_Role actor) (oc_CreatorRole (or_config inst)) then fail (org_forbidden None)
              else keep_an_owner inst organizationID ''The final organization owner cannot be demoted.''
            else ret ()) (\<lambda>_.
       ret current)))"

definition updateMemberRole_tx ::
  "'d OrgRuntime \<Rightarrow> Request \<Rightarrow> HookContext \<Rightarrow> string \<Rightarrow> string \<Rightarrow> string \<Rightarrow> ('d, Member) action" where
  "updateMemberRole_tx inst r c organizationID memberID role =
     bindM (role_guards inst c organizationID memberID role) (\<lambda>current.
     let event = mutation_event ''organization.member.role_updated'' organizationID (mb_UserID current)
           [(''memberId'', VStr (mb_ID current)), (''role'', VStr role)] in
     bindM (before_mutation inst c event) (\<lambda>_.
     bindM (org_authorize inst c organizationID ''member'' ''update'') (\<lambda>_.
     bindM (Now (or_server inst)) (\<lambda>now.
     bindM (present ErrNotFound (org_update inst ModelMember
         [Eq ''id'' (VStr memberID), Eq ''organizationId'' (VStr organizationID), Eq ''role'' (VStr (mb_Role current))]
         [''role'' \<mapsto> VStr role, ''updatedAt'' \<mapsto> VTime now])) (\<lambda>row.
     bindM (lift (memberFromRecord inst row)) (\<lambda>updated.
     bindM (org_audit inst r c ''organization.member.role_updated'' (mb_UserID updated) organizationID
         [(''memberId'', VStr (mb_ID updated)), (''previousRole'', VStr (mb_Role current)), (''role'', VStr role)]) (\<lambda>_.
     bindM (after_mutation inst c event) (\<lambda>_.
       ret updated))))))))"

definition updateMemberRole :: "'d OrgRuntime \<Rightarrow> Request \<Rightarrow> HookContext \<Rightarrow> ('d, PluginResponse option) action" where
  "updateMemberRole inst r c =
     bindM (selectedOrganizationID inst c) (\<lambda>organizationID.
     bindM (org_authorize inst c organizationID ''member'' ''update'') (\<lambda>actor.
     bindM (mapErr (\<lambda>err. org_badRequest ''The member role is invalid.'' (Some err))
         (lift (canonicalRoles [bodyString c ''role'']))) (\<lambda>role.
     bindM (requireDefinedRoles inst organizationID role) (\<lambda>_.
     if \<not> roleIncludes (mb_Role actor) (oc_CreatorRole (or_config inst)) \<and>
        roleIncludes role (oc_CreatorRole (or_config inst))
     then fail (org_forbidden None)
     else
       bindM (mutation inst (updateMemberRole_tx inst r c organizationID (bodyString c ''memberId'') role)) (\<lambda>updated.
         org_JSON inst (OJMember updated))))))"

section \<open>Leaving\<close>

definition leave_tx :: "'d OrgRuntime \<Rightarrow> Request \<Rightarrow> HookContext \<Rightarrow> string \<Rightarrow> Member \<Rightarrow> ('d, unit) action" where
  "leave_tx inst r c organizationID member =
     (let event = mutation_event ''organization.member.left'' organizationID (userID_of c)
            [(''memberId'', VStr (mb_ID member))] in
      bindM (findMemberByID inst organizationID (mb_ID member)) (\<lambda>current.
      bindM (if roleIncludes (mb_Role current) (oc_CreatorRole (or_config inst))
             then keep_an_owner inst organizationID ''The final organization owner cannot leave.''
             else ret ()) (\<lambda>_.
      bindM (before_mutation inst c event) (\<lambda>_.
      bindM (org_delete inst ModelMember
          [Eq ''id'' (VStr (mb_ID member)), Eq ''organizationId'' (VStr organizationID), Eq ''userId'' (VStr (userID_of c))])
        (\<lambda>_.
      bindM (forget_member inst organizationID (userID_of c)) (\<lambda>_.
      bindM (org_audit inst r c ''organization.member.left'' (userID_of c) organizationID
          [(''memberId'', VStr (mb_ID member))]) (\<lambda>_.
        after_mutation inst c event)))))))"

definition leaveOrganization :: "'d OrgRuntime \<Rightarrow> Request \<Rightarrow> HookContext \<Rightarrow> ('d, PluginResponse option) action" where
  "leaveOrganization inst r c =
     (let organizationID = bodyString c ''organizationId'' in
      bindM (mapErr (\<lambda>err. org_forbidden (Some err)) (org_member inst organizationID (userID_of c))) (\<lambda>member.
      bindM (mutation inst (leave_tx inst r c organizationID member)) (\<lambda>_.
        org_JSON inst (OJMember member))))"

section \<open>Reading members\<close>

definition own_membership :: "'d OrgRuntime \<Rightarrow> HookContext \<Rightarrow> ('d, Member) action" where
  "own_membership inst c =
     bindM (selectedOrganizationID inst c) (\<lambda>organizationID.
       mapErr (\<lambda>err. org_forbidden (Some err)) (org_member inst organizationID (userID_of c)))"

definition getActiveMember :: "'d OrgRuntime \<Rightarrow> HookContext \<Rightarrow> ('d, PluginResponse option) action" where
  "getActiveMember inst c = bindM (own_membership inst c) (\<lambda>member. org_JSON inst (OJMember member))"

definition getActiveMemberRole :: "'d OrgRuntime \<Rightarrow> HookContext \<Rightarrow> ('d, PluginResponse option) action" where
  "getActiveMemberRole inst c = bindM (own_membership inst c) (\<lambda>member. org_JSON inst (OJRoleName (mb_Role member)))"

definition by_creation :: "string \<Rightarrow> Sort" where
  "by_creation direction = \<lparr>s_Field = ''createdAt'', s_Direction = direction\<rparr>"

definition listMembers :: "'d OrgRuntime \<Rightarrow> HookContext \<Rightarrow> ('d, PluginResponse option) action" where
  "listMembers inst c =
     bindM (selectedOrganizationID inst c) (\<lambda>organizationID.
     bindM (org_authorize inst c organizationID ''member'' ''read'') (\<lambda>_.
     bindM (lift (queryPage c (oc_MaxMembersPerOrganization (or_config inst)))) (\<lambda>(limit, offset).
     bindM (mapErr org_internalError (org_findMany inst ModelMember [Eq ''organizationId'' (VStr organizationID)]
         limit offset (Some (by_creation ''asc'')))) (\<lambda>rows.
     bindM (mapErr org_internalError (lift (rows_to (memberFromRecord inst) rows))) (\<lambda>members.
     bindM (mapErr org_internalError (org_count inst ModelMember [Eq ''organizationId'' (VStr organizationID)])) (\<lambda>total.
       org_JSON inst (OJMembers members total)))))))"

section \<open>Adding a member from server code\<close>

record 'd AddMemberInput =
  ami_OrganizationID :: string
  ami_UserID :: string
  ami_Roles :: "string list"
  ami_ActorUserID :: string
  ami_Now :: "('d, gtime) action"
  ami_GenerateID :: "('d, string) action"

fun add_roles :: "'d OrgRuntime \<Rightarrow> string \<Rightarrow> string list \<Rightarrow> ('d, unit) action" where
  "add_roles inst organizationID [] = ret ()"
| "add_roles inst organizationID (name # names) =
     (if map_of (or_roles inst) name \<noteq> None then add_roles inst organizationID names
      else
        bindM (present (ErrText ''organization: role is not defined'') (org_findOne inst ModelOrganizationRole
            [Eq ''organizationId'' (VStr organizationID), Eq ''role'' (VStr name)] [''id''])) (\<lambda>_.
          add_roles inst organizationID names))"

text \<open>\<open>BeforeMemberCreate\<close> may change the member it is given; its keys, role and times are set again.\<close>

definition hooked_member :: "'d OrgRuntime \<Rightarrow> HookContext \<Rightarrow> Member \<Rightarrow> ('d, Member) action" where
  "hooked_member inst c member =
     (case oh_BeforeMemberCreate (org_hooks inst) of
        None \<Rightarrow> ret member
      | Some f \<Rightarrow> bindM (f c member) (\<lambda>changed. ret (changed\<lparr>mb_ID := mb_ID member,
          mb_OrganizationID := mb_OrganizationID member, mb_UserID := mb_UserID member, mb_Role := mb_Role member,
          mb_CreatedAt := mb_CreatedAt member, mb_UpdatedAt := mb_UpdatedAt member\<rparr>)))"

definition create_member :: "'d OrgRuntime \<Rightarrow> Member \<Rightarrow> ('d, Member) action" where
  "create_member inst member =
     bindM (org_create inst ModelMember (memberRecord member)) (\<lambda>row. lift (memberFromRecord inst row))"

definition addMember_tx ::
  "'d OrgRuntime \<Rightarrow> HookContext \<Rightarrow> string \<Rightarrow> Member \<Rightarrow> ('d, Member) action" where
  "addMember_tx inst c auditID member =
     (let organizationID = mb_OrganizationID member; userID = mb_UserID member;
          event = mutation_event ''organization.member.added'' organizationID userID
            [(''memberId'', VStr (mb_ID member)), (''role'', VStr (mb_Role member))] in
      bindM (present ErrNotFound (org_findOne inst ModelOrganization [Eq ''id'' (VStr organizationID)] [''id''])) (\<lambda>_.
      bindM (present ErrNotFound (org_findOne inst ModelUser [Eq ''id'' (VStr userID)] [''id''])) (\<lambda>_.
      bindM (org_count inst ModelMember [Eq ''organizationId'' (VStr organizationID)]) (\<lambda>count.
      if count \<ge> oc_MaxMembersPerOrganization (or_config inst)
      then fail (ErrText ''organization: member limit reached'')
      else
        bindM (add_roles inst organizationID (role_names (mb_Role member))) (\<lambda>_.
        bindM (before_mutation inst c event) (\<lambda>_.
        bindM (hooked_member inst c member) (\<lambda>member.
        bindM (create_member inst member) (\<lambda>created.
        bindM (org_create inst ModelAuditEvent
           [''id'' \<mapsto> VStr auditID, ''schemaVersion'' \<mapsto> VFloat 1, ''action'' \<mapsto> VStr ''organization.member.added'',
            ''actorUserId'' \<mapsto> VStr (userID_of c), ''subjectUserId'' \<mapsto> VStr userID,
            ''occurredAt'' \<mapsto> VTime (mb_CreatedAt member), ''request'' \<mapsto> VMap [],
            ''details'' \<mapsto> VMap [(''organizationId'', VStr organizationID), (''memberId'', VStr (mb_ID created))]]) (\<lambda>_.
        bindM (org_hook (oh_AfterMemberCreate (org_hooks inst)) c created) (\<lambda>_.
        bindM (after_mutation inst c event) (\<lambda>_.
          ret created)))))))))))"

text \<open>\<open>c\<close> is the context made for the hooks, whose user is the actor of the input.\<close>

definition AddMember :: "'d OrgRuntime \<Rightarrow> HookContext \<Rightarrow> 'd AddMemberInput \<Rightarrow> ('d, Member) action" where
  "AddMember inst c input =
     (let organizationID = TrimSpace (ami_OrganizationID input); userID = TrimSpace (ami_UserID input);
          actorID = TrimSpace (ami_ActorUserID input);
          invalid = ErrText ''organization: valid organization, user, actor, and role are required'' in
      case canonicalRoles (ami_Roles input) of
        Inl err \<Rightarrow> fail invalid
      | Inr role \<Rightarrow>
          if organizationID = '''' \<or> userID = '''' \<or> actorID = '''' then fail invalid
          else
            bindM (ami_Now input) (\<lambda>now.
            bindM (mapErr (ErrWrap ''organization: generate member id'') (ami_GenerateID input)) (\<lambda>rid.
            bindM (mapErr (ErrWrap ''organization: generate audit id'') (ami_GenerateID input)) (\<lambda>auditID.
              org_transaction inst (addMember_tx inst c auditID
                \<lparr>mb_ID = rid, mb_OrganizationID = organizationID, mb_UserID = userID, mb_Role = role,
                 mb_CreatedAt = now, mb_UpdatedAt = now\<rparr>)))))"

end
