(* ===== verification/Organization_Roles.thy ===== *)
theory Organization_Roles
  imports Organization_Members
begin

text \<open>The roles an organization defines itself, \<open>plugin/organization/roles.go\<close>.\<close>

section \<open>Permissions in requests\<close>

fun input_actions :: "any list \<Rightarrow> go_error + string list" where
  "input_actions [] = Inr []"
| "input_actions (v # vs) =
     (case v of
        AString action \<Rightarrow> bindE (input_actions vs) (\<lambda>actions. Inr (action # actions))
      | _ \<Rightarrow> Inl (ErrText ''organization: permission action must be a string''))"

definition add_input :: "Permission \<Rightarrow> string \<times> any \<Rightarrow> go_error + Permission" where
  "add_input result item =
     (case snd item of
        AArray vs \<Rightarrow> bindE (input_actions vs) (\<lambda>actions. Inr (put (fst item) actions result))
      | AStrings vs \<Rightarrow> Inr (put (fst item) vs result)
      | _ \<Rightarrow> Inl (ErrText ''organization: permission actions must be an array''))"

definition permissionFromInput :: "any \<Rightarrow> go_error + Permission" where
  "permissionFromInput v =
     (case v of
        AObject (item # items) \<Rightarrow> foldE add_input [] (item # items)
      | _ \<Rightarrow> Inl (ErrText ''organization: permission must be a non-empty object''))"

definition input_permission :: "HookContext \<Rightarrow> any" where
  "input_permission c = (case map_of (org_body c) ''permission'' of Some v \<Rightarrow> v | None \<Rightarrow> ANil)"

text \<open>Every resource with every action, in order.\<close>

definition permission_pairs :: "Permission \<Rightarrow> (string \<times> string) list" where
  "permission_pairs p = concat (map (\<lambda>(resource, actions). map (Pair resource) actions) p)"

fun holds_all :: "'d OrgRuntime \<Rightarrow> string \<Rightarrow> string \<Rightarrow> (string \<times> string) list \<Rightarrow> ('d, bool) action" where
  "holds_all inst organizationID roles [] = ret True"
| "holds_all inst organizationID roles (item # items) =
     bindM (mapErr org_internalError (org_permission inst organizationID roles (fst item) (snd item))) (\<lambda>allowed.
       if allowed then holds_all inst organizationID roles items else ret False)"

definition requireGrantablePermission :: "'d OrgRuntime \<Rightarrow> string \<Rightarrow> string \<Rightarrow> Permission \<Rightarrow> ('d, unit) action" where
  "requireGrantablePermission inst organizationID actorRoles p =
     bindM (holds_all inst organizationID actorRoles (permission_pairs p)) (\<lambda>allowed.
       failIf (\<not> allowed) (org_forbidden None))"

definition hasPermission :: "'d OrgRuntime \<Rightarrow> HookContext \<Rightarrow> ('d, PluginResponse option) action" where
  "hasPermission inst c =
     bindM (selectedOrganizationID inst c) (\<lambda>organizationID.
     bindM (mapErr (\<lambda>err. org_forbidden (Some err)) (org_member inst organizationID (userID_of c))) (\<lambda>member.
     bindM (mapErr (\<lambda>err. org_badRequest ''The permission request is invalid.'' (Some err))
         (lift (permissionFromInput (input_permission c)))) (\<lambda>requested.
     bindM (holds_all inst organizationID (mb_Role member) (permission_pairs requested)) (\<lambda>allowed.
       org_JSON inst (OJSuccess allowed)))))"

section \<open>Creating a role\<close>

definition permission_value :: "Permission \<Rightarrow> val" where
  "permission_value p = VMap (map (\<lambda>(resource, actions). (resource, VStrs actions)) p)"

definition roleRecord :: "OrganizationRole \<Rightarrow> Record" where
  "roleRecord v =
     [''id'' \<mapsto> VStr (orr_ID v), ''organizationId'' \<mapsto> VStr (orr_OrganizationID v), ''role'' \<mapsto> VStr (orr_Role v),
      ''permission'' \<mapsto> permission_value (orr_Permission v), ''createdAt'' \<mapsto> VTime (orr_CreatedAt v),
      ''updatedAt'' \<mapsto> VTime (orr_UpdatedAt v)]"

definition granting_actor :: "'d OrgRuntime \<Rightarrow> HookContext \<Rightarrow> string \<Rightarrow> string \<Rightarrow> Permission \<Rightarrow> ('d, unit) action" where
  "granting_actor inst c organizationID action p =
     bindM (org_authorize inst c organizationID ''ac'' action) (\<lambda>actor.
       requireGrantablePermission inst organizationID (mb_Role actor) p)"

text \<open>The name and the permission of a request, and the permission check in front of the transaction.\<close>

definition valid_permission :: "'d OrgRuntime \<Rightarrow> HookContext \<Rightarrow> ('d, Permission) action" where
  "valid_permission inst c =
     mapErr (\<lambda>err. org_badRequest ''The role permission is invalid.'' (Some err))
       (lift (bindE (permissionFromInput (input_permission c)) (\<lambda>p.
          normalizePermission p (oc_Statements (or_config inst)))))"

definition createRole_tx ::
  "'d OrgRuntime \<Rightarrow> Request \<Rightarrow> HookContext \<Rightarrow> OrganizationRole \<Rightarrow> ('d, OrganizationRole) action" where
  "createRole_tx inst r c role =
     (let organizationID = orr_OrganizationID role; p = orr_Permission role;
          event = mutation_event ''organization.role.created'' organizationID (orr_ID role) [(''role'', VStr (orr_Role role))] in
      bindM (granting_actor inst c organizationID ''create'' p) (\<lambda>_.
      bindM (org_count inst ModelOrganizationRole [Eq ''organizationId'' (VStr organizationID)]) (\<lambda>count.
      if count \<ge> oc_MaxRolesPerOrganization (or_config inst)
      then fail (org_conflict ''The organization role limit has been reached.'' None)
      else
        bindM (before_mutation inst c event) (\<lambda>_.
        bindM (granting_actor inst c organizationID ''create'' p) (\<lambda>_.
        bindM (org_create inst ModelOrganizationRole (roleRecord role)) (\<lambda>row.
        bindM (lift (roleFromRecord inst row)) (\<lambda>created.
        bindM (org_audit inst r c ''organization.role.created'' (orr_ID created) organizationID
            [(''role'', VStr (orr_Role created))]) (\<lambda>_.
        bindM (after_mutation inst c event) (\<lambda>_.
          ret created)))))))))"

definition createRole :: "'d OrgRuntime \<Rightarrow> Request \<Rightarrow> HookContext \<Rightarrow> ('d, PluginResponse option) action" where
  "createRole inst r c =
     bindM (selectedOrganizationID inst c) (\<lambda>organizationID.
     bindM (org_authorize inst c organizationID ''ac'' ''create'') (\<lambda>actor.
     let name = ToLower (bodyString c ''role'') in
     if \<not> org_validRoleName name then fail (org_badRequest ''The role name is invalid.'' None)
     else if map_of (or_roles inst) name \<noteq> None then fail (org_conflict ''The role name is reserved.'' None)
     else
       bindM (valid_permission inst c) (\<lambda>p.
       bindM (requireGrantablePermission inst organizationID (mb_Role actor) p) (\<lambda>_.
       bindM (mapErr org_internalError (newID (or_server inst))) (\<lambda>rid.
       bindM (Now (or_server inst)) (\<lambda>now.
       bindM (mutation inst (createRole_tx inst r c
           \<lparr>orr_ID = rid, orr_OrganizationID = organizationID, orr_Role = name, orr_Permission = p,
            orr_CreatedAt = now, orr_UpdatedAt = now\<rparr>)) (\<lambda>created.
         org_JSON inst (OJRole created))))))))"

section \<open>Deleting a role\<close>

definition role_unused :: "string \<Rightarrow> go_error \<Rightarrow> Record list \<Rightarrow> go_error + unit" where
  "role_unused name used rows =
     foldE (\<lambda>_ row. bindE (requiredString row ''role'') (\<lambda>names. if roleIncludes names name then Inl used else Inr ())) () rows"

definition deleteRole_tx ::
  "'d OrgRuntime \<Rightarrow> Request \<Rightarrow> HookContext \<Rightarrow> string \<Rightarrow> string \<Rightarrow> ('d, OrganizationRole) action" where
  "deleteRole_tx inst r c organizationID name =
     bindM (org_authorize inst c organizationID ''ac'' ''delete'') (\<lambda>_.
     bindM (present ErrNotFound (org_findOne inst ModelOrganizationRole
         [Eq ''organizationId'' (VStr organizationID), Eq ''role'' (VStr name)] [])) (\<lambda>row.
     bindM (lift (roleFromRecord inst row)) (\<lambda>gone.
     let event = mutation_event ''organization.role.deleted'' organizationID (orr_ID gone) [(''role'', VStr name)] in
     bindM (findManyBounded inst ModelMember [Eq ''organizationId'' (VStr organizationID)]
         (oc_MaxMembersPerOrganization (or_config inst))) (\<lambda>members.
     bindM (lift (role_unused name (org_conflict ''The role is assigned to an organization member.'' None) members)) (\<lambda>_.
     bindM (findManyBounded inst ModelInvitation
         [Eq ''organizationId'' (VStr organizationID), Eq ''status'' (VStr ''pending'')]
         (oc_MaxInvitationsPerOrganization (or_config inst))) (\<lambda>invitations.
     bindM (lift (role_unused name (org_conflict ''The role is assigned to a pending invitation.'' None) invitations)) (\<lambda>_.
     bindM (before_mutation inst c event) (\<lambda>_.
     bindM (org_authorize inst c organizationID ''ac'' ''delete'') (\<lambda>_.
     bindM (org_delete inst ModelOrganizationRole
         [Eq ''id'' (VStr (orr_ID gone)), Eq ''organizationId'' (VStr organizationID)]) (\<lambda>_.
     bindM (org_audit inst r c ''organization.role.deleted'' (orr_ID gone) organizationID [(''role'', VStr name)]) (\<lambda>_.
     bindM (after_mutation inst c event) (\<lambda>_.
       ret gone))))))))))))"

definition deleteRole :: "'d OrgRuntime \<Rightarrow> Request \<Rightarrow> HookContext \<Rightarrow> ('d, PluginResponse option) action" where
  "deleteRole inst r c =
     bindM (selectedOrganizationID inst c) (\<lambda>organizationID.
     bindM (org_authorize inst c organizationID ''ac'' ''delete'') (\<lambda>_.
     let name = ToLower (bodyString c ''role'') in
     if map_of (or_roles inst) name \<noteq> None then fail (org_conflict ''Built-in roles cannot be deleted.'' None)
     else
       bindM (mutation inst (deleteRole_tx inst r c organizationID name)) (\<lambda>gone.
         org_JSON inst (OJRole gone))))"

section \<open>Reading roles\<close>

definition listRoles :: "'d OrgRuntime \<Rightarrow> HookContext \<Rightarrow> ('d, PluginResponse option) action" where
  "listRoles inst c =
     bindM (selectedOrganizationID inst c) (\<lambda>organizationID.
     bindM (org_authorize inst c organizationID ''ac'' ''read'') (\<lambda>_.
     bindM (lift (queryPage c (oc_MaxRolesPerOrganization (or_config inst)))) (\<lambda>(limit, offset).
     bindM (mapErr org_internalError (org_findMany inst ModelOrganizationRole
         [Eq ''organizationId'' (VStr organizationID)] limit offset None)) (\<lambda>rows.
     bindM (mapErr org_internalError (lift (rows_to (roleFromRecord inst) rows))) (\<lambda>roles.
       org_JSON inst (OJRoles roles))))))"

text \<open>A lookup whose failure, of either kind, is answered with \<open>notFound\<close>.\<close>

definition found_or_404 :: "('d, Record option) action \<Rightarrow> ('d, Record) action" where
  "found_or_404 m = bindM (tryM m) (\<lambda>res. case res of
     Inl err \<Rightarrow> fail (org_notFound (Some err))
   | Inr None \<Rightarrow> fail (org_notFound None)
   | Inr (Some row) \<Rightarrow> ret row)"

definition getRole :: "'d OrgRuntime \<Rightarrow> HookContext \<Rightarrow> ('d, PluginResponse option) action" where
  "getRole inst c =
     bindM (selectedOrganizationID inst c) (\<lambda>organizationID.
     bindM (org_authorize inst c organizationID ''ac'' ''read'') (\<lambda>_.
     let name = ToLower (TrimSpace (first_value (cx_Query c) ''role'')) in
     case map_of (or_roles inst) name of
       Some static \<Rightarrow> org_JSON inst (OJStaticRole organizationID name static)
     | None \<Rightarrow>
         bindM (found_or_404 (org_findOne inst ModelOrganizationRole
             [Eq ''organizationId'' (VStr organizationID), Eq ''role'' (VStr name)] [])) (\<lambda>row.
         bindM (mapErr org_internalError (lift (roleFromRecord inst row))) (\<lambda>role.
           org_JSON inst (OJRole role)))))"

section \<open>Updating a role\<close>

definition updateRole_tx ::
  "'d OrgRuntime \<Rightarrow> Request \<Rightarrow> HookContext \<Rightarrow> string \<Rightarrow> string \<Rightarrow> Permission \<Rightarrow> ('d, OrganizationRole) action" where
  "updateRole_tx inst r c organizationID name p =
     (let event = mutation_event ''organization.role.updated'' organizationID '''' [(''role'', VStr name)] in
      bindM (granting_actor inst c organizationID ''update'' p) (\<lambda>_.
      bindM (before_mutation inst c event) (\<lambda>_.
      bindM (granting_actor inst c organizationID ''update'' p) (\<lambda>_.
      bindM (Now (or_server inst)) (\<lambda>now.
      bindM (present ErrNotFound (org_update inst ModelOrganizationRole
          [Eq ''organizationId'' (VStr organizationID), Eq ''role'' (VStr name)]
          [''permission'' \<mapsto> permission_value p, ''updatedAt'' \<mapsto> VTime now])) (\<lambda>row.
      bindM (lift (roleFromRecord inst row)) (\<lambda>role.
      bindM (org_audit inst r c ''organization.role.updated'' (orr_ID role) organizationID
          [(''role'', VStr (orr_Role role))]) (\<lambda>_.
      bindM (after_mutation inst c (event\<lparr>me_SubjectID := orr_ID role\<rparr>)) (\<lambda>_.
        ret role)))))))))"

definition updateRole :: "'d OrgRuntime \<Rightarrow> Request \<Rightarrow> HookContext \<Rightarrow> ('d, PluginResponse option) action" where
  "updateRole inst r c =
     bindM (selectedOrganizationID inst c) (\<lambda>organizationID.
     bindM (org_authorize inst c organizationID ''ac'' ''update'') (\<lambda>actor.
     let name = ToLower (bodyString c ''role'') in
     if map_of (or_roles inst) name \<noteq> None then fail (org_conflict ''Built-in roles cannot be updated.'' None)
     else
       bindM (valid_permission inst c) (\<lambda>p.
       bindM (requireGrantablePermission inst organizationID (mb_Role actor) p) (\<lambda>_.
       bindM (mutation inst (updateRole_tx inst r c organizationID name p)) (\<lambda>role.
         org_JSON inst (OJRole role))))))"

end
