(* ===== verification/Organizations.thy ===== *)
theory Organizations
  imports Organization_Roles
begin

text \<open>The life of an organization, \<open>plugin/organization/organizations.go\<close>.\<close>

section \<open>Creating\<close>

definition metadata_value :: "(string \<times> val) list option \<Rightarrow> val" where
  "metadata_value m = VMap (case m of None \<Rightarrow> [] | Some kvs \<Rightarrow> kvs)"

definition organizationRecord :: "Organization \<Rightarrow> Record" where
  "organizationRecord v =
     [''id'' \<mapsto> VStr (og_ID v), ''name'' \<mapsto> VStr (og_Name v), ''slug'' \<mapsto> VStr (og_Slug v), ''logo'' \<mapsto> VStr (og_Logo v),
      ''metadata'' \<mapsto> metadata_value (og_Metadata v), ''createdAt'' \<mapsto> VTime (og_CreatedAt v),
      ''updatedAt'' \<mapsto> VTime (og_UpdatedAt v)]"

definition organizationData :: "Organization \<Rightarrow> (string \<times> val) list" where
  "organizationData v =
     [(''id'', VStr (og_ID v)), (''name'', VStr (og_Name v)), (''slug'', VStr (og_Slug v)), (''logo'', VStr (og_Logo v)),
      (''metadata'', metadata_value (og_Metadata v))]"

text \<open>\<open>BeforeOrganizationCreate\<close> may change the organization; its id and times are set again, its names checked.\<close>

definition hooked_organization :: "'d OrgRuntime \<Rightarrow> HookContext \<Rightarrow> Organization \<Rightarrow> ('d, Organization) action" where
  "hooked_organization inst c organization =
     (case oh_BeforeOrganizationCreate (org_hooks inst) of
        None \<Rightarrow> ret organization
      | Some f \<Rightarrow>
          bindM (f c organization) (\<lambda>changed.
          let v = changed\<lparr>og_ID := og_ID organization, og_Slug := ToLower (TrimSpace (og_Slug changed)),
                og_Name := TrimSpace (og_Name changed), og_CreatedAt := og_CreatedAt organization,
                og_UpdatedAt := og_UpdatedAt organization\<rparr> in
          if og_Name v = '''' \<or> length (og_Name v) > 128 \<or> og_Slug v = '''' \<or> length (og_Slug v) > 128
          then fail (org_badRequest ''The organization hook produced invalid data.'' None)
          else ret v))"

definition createOrganization_tx ::
  "'d OrgRuntime \<Rightarrow> Request \<Rightarrow> HookContext \<Rightarrow> Organization \<Rightarrow> Member \<Rightarrow> ('d, Organization) action" where
  "createOrganization_tx inst r c organization member =
     (let event = mutation_event ''organization.created'' (og_ID organization) (og_ID organization)
            (organizationData organization) in
      bindM (org_count inst ModelMember [Eq ''userId'' (VStr (userID_of c))]) (\<lambda>count.
      if count \<ge> oc_MaxOrganizationsPerUser (or_config inst)
      then fail (org_conflict ''The organization limit has been reached.'' None)
      else
        bindM (before_mutation inst c event) (\<lambda>_.
        bindM (hooked_organization inst c organization) (\<lambda>organization.
        bindM (org_create inst ModelOrganization (organizationRecord organization)) (\<lambda>row.
        bindM (lift (organizationFromRecord inst row)) (\<lambda>created.
        bindM (hooked_member inst c member) (\<lambda>member.
        bindM (create_member inst member) (\<lambda>member.
        bindM (org_audit inst r c ''organization.created'' (og_ID organization) (og_ID organization)
            [(''slug'', VStr (og_Slug created))]) (\<lambda>_.
        bindM (org_hook (oh_AfterMemberCreate (org_hooks inst)) c member) (\<lambda>_.
        bindM (org_hook (oh_AfterOrganizationCreate (org_hooks inst)) c created) (\<lambda>_.
        bindM (after_mutation inst c (event\<lparr>me_Data := organizationData created\<rparr>)) (\<lambda>_.
          ret created))))))))))))"

definition createOrganization :: "'d OrgRuntime \<Rightarrow> Request \<Rightarrow> HookContext \<Rightarrow> ('d, PluginResponse option) action" where
  "createOrganization inst r c =
     bindM (Now (or_server inst)) (\<lambda>now.
     bindM (mapErr org_internalError (newID (or_server inst))) (\<lambda>oid.
     bindM (mapErr org_internalError (newID (or_server inst))) (\<lambda>mid.
     bindM (mutation inst (createOrganization_tx inst r c
        \<lparr>og_ID = oid, og_Name = bodyString c ''name'', og_Slug = ToLower (bodyString c ''slug''),
         og_Logo = bodyString c ''logo'',
         og_Metadata = map_option (map (\<lambda>(k, v). (k, stored_any v))) (bodyObject c ''metadata''),
         og_CreatedAt = now, og_UpdatedAt = now\<rparr>
        \<lparr>mb_ID = mid, mb_OrganizationID = oid, mb_UserID = userID_of c, mb_Role = oc_CreatorRole (or_config inst),
         mb_CreatedAt = now, mb_UpdatedAt = now\<rparr>)) (\<lambda>created.
       org_JSON inst (OJOrganization created)))))"

definition checkSlug :: "'d OrgRuntime \<Rightarrow> HookContext \<Rightarrow> ('d, PluginResponse option) action" where
  "checkSlug inst c =
     bindM (mapErr org_internalError (missing_ok (org_findOne inst ModelOrganization
         [Eq ''slug'' (VStr (ToLower (bodyString c ''slug'')))] [''id'']))) (\<lambda>row.
       org_JSON inst (OJStatus (row = None)))"

section \<open>Updating\<close>

text \<open>
  The fields of an update. The body has passed its validator, so a name or a slug that is there is a string;
  another value would panic.
\<close>

definition organization_update :: "HookContext \<Rightarrow> gtime \<Rightarrow> Record" where
  "organization_update c now =
     (let given = map_of (org_body c);
          text = (\<lambda>v. case v of AString s \<Rightarrow> TrimSpace s | _ \<Rightarrow> '''');
          m = [''updatedAt'' \<mapsto> VTime now];
          m = (case given ''name'' of Some v \<Rightarrow> m(''name'' \<mapsto> VStr (text v)) | None \<Rightarrow> m);
          m = (case given ''slug'' of Some v \<Rightarrow> m(''slug'' \<mapsto> VStr (ToLower (text v))) | None \<Rightarrow> m);
          m = (case given ''logo'' of Some v \<Rightarrow> m(''logo'' \<mapsto> stored_any v) | None \<Rightarrow> m);
          m = (case given ''metadata'' of Some v \<Rightarrow> m(''metadata'' \<mapsto> stored_any v) | None \<Rightarrow> m)
      in m)"

definition update_data :: "Record \<Rightarrow> (string \<times> val) list" where
  "update_data m =
     concat (map (\<lambda>k. case m k of Some v \<Rightarrow> [(k, v)] | None \<Rightarrow> []) [''updatedAt'', ''name'', ''slug'', ''logo'', ''metadata''])"

definition updateOrganization_tx ::
  "'d OrgRuntime \<Rightarrow> Request \<Rightarrow> HookContext \<Rightarrow> string \<Rightarrow> Record \<Rightarrow> ('d, Organization) action" where
  "updateOrganization_tx inst r c organizationID update =
     (let event = mutation_event ''organization.updated'' organizationID organizationID (update_data update) in
      bindM (org_authorize inst c organizationID ''organization'' ''update'') (\<lambda>_.
      bindM (before_mutation inst c event) (\<lambda>_.
      bindM (org_authorize inst c organizationID ''organization'' ''update'') (\<lambda>_.
      bindM (present ErrNotFound (org_update inst ModelOrganization [Eq ''id'' (VStr organizationID)] update)) (\<lambda>row.
      bindM (lift (organizationFromRecord inst row)) (\<lambda>updated.
      bindM (org_audit inst r c ''organization.updated'' organizationID organizationID []) (\<lambda>_.
      bindM (after_mutation inst c (event\<lparr>me_Data := organizationData updated\<rparr>)) (\<lambda>_.
        ret updated))))))))"

definition updateOrganization :: "'d OrgRuntime \<Rightarrow> Request \<Rightarrow> HookContext \<Rightarrow> ('d, PluginResponse option) action" where
  "updateOrganization inst r c =
     (let organizationID = bodyString c ''organizationId'' in
      bindM (org_authorize inst c organizationID ''organization'' ''update'') (\<lambda>_.
      bindM (Now (or_server inst)) (\<lambda>now.
      if list_all (\<lambda>k. map_of (org_body c) k = None) [''name'', ''slug'', ''logo'', ''metadata'']
      then fail (org_badRequest ''At least one organization field must be updated.'' None)
      else
        bindM (mutation inst (updateOrganization_tx inst r c organizationID (organization_update c now))) (\<lambda>updated.
          org_JSON inst (OJOrganization updated)))))"

section \<open>Deleting\<close>

fun delete_teams :: "'d OrgRuntime \<Rightarrow> Record list \<Rightarrow> ('d, unit) action" where
  "delete_teams inst [] = ret ()"
| "delete_teams inst (row # rows) =
     bindM (lift (requiredString row ''id'')) (\<lambda>teamID.
     bindM (org_deleteMany inst ModelTeamMember [Eq ''teamId'' (VStr teamID)]) (\<lambda>_. delete_teams inst rows))"

fun delete_models :: "'d OrgRuntime \<Rightarrow> string \<Rightarrow> string list \<Rightarrow> ('d, unit) action" where
  "delete_models inst organizationID [] = ret ()"
| "delete_models inst organizationID (model # models) =
     bindM (org_deleteMany inst model [Eq ''organizationId'' (VStr organizationID)]) (\<lambda>_.
       delete_models inst organizationID models)"

definition deleteOrganization_tx :: "'d OrgRuntime \<Rightarrow> Request \<Rightarrow> HookContext \<Rightarrow> string \<Rightarrow> ('d, unit) action" where
  "deleteOrganization_tx inst r c organizationID =
     (let event = mutation_event ''organization.deleted'' organizationID organizationID [] in
      bindM (org_authorize inst c organizationID ''organization'' ''delete'') (\<lambda>_.
      bindM (before_mutation inst c event) (\<lambda>_.
      bindM (org_authorize inst c organizationID ''organization'' ''delete'') (\<lambda>_.
      bindM (findManyBounded inst ModelTeam [Eq ''organizationId'' (VStr organizationID)]
          (oc_MaxTeamsPerOrganization (or_config inst))) (\<lambda>teams.
      bindM (delete_teams inst teams) (\<lambda>_.
      bindM (delete_models inst organizationID [ModelInvitation, ModelMember, ModelTeam, ModelOrganizationRole]) (\<lambda>_.
      bindM (org_delete inst ModelOrganization [Eq ''id'' (VStr organizationID)]) (\<lambda>_.
      bindM (Now (or_server inst)) (\<lambda>now.
      bindM (org_updateMany inst ModelSession [Eq ''activeOrganizationId'' (VStr organizationID)] (inactive_update now)) (\<lambda>_.
      bindM (org_audit inst r c ''organization.deleted'' organizationID organizationID []) (\<lambda>_.
        after_mutation inst c event)))))))))))"

definition deleteOrganization :: "'d OrgRuntime \<Rightarrow> Request \<Rightarrow> HookContext \<Rightarrow> ('d, PluginResponse option) action" where
  "deleteOrganization inst r c =
     (let organizationID = bodyString c ''organizationId'' in
      bindM (org_authorize inst c organizationID ''organization'' ''delete'') (\<lambda>_.
      bindM (mutation inst (deleteOrganization_tx inst r c organizationID)) (\<lambda>_.
        org_JSON inst (OJSuccess True))))"

section \<open>Reading\<close>

definition adapterPageLimit :: "int \<Rightarrow> int" where
  "adapterPageLimit maximum = (if maximum > 1000 then 1000 else maximum)"

definition getFullOrganization :: "'d OrgRuntime \<Rightarrow> HookContext \<Rightarrow> ('d, PluginResponse option) action" where
  "getFullOrganization inst c =
     bindM (selectedOrganizationID inst c) (\<lambda>organizationID.
     bindM (org_authorize inst c organizationID ''organization'' ''read'') (\<lambda>_.
     bindM (found_or_404 (org_findOne inst ModelOrganization [Eq ''id'' (VStr organizationID)] [])) (\<lambda>row.
     bindM (mapErr org_internalError (lift (organizationFromRecord inst row))) (\<lambda>organization.
     bindM (mapErr org_internalError (org_findMany inst ModelMember [Eq ''organizationId'' (VStr organizationID)]
         (adapterPageLimit (oc_MaxMembersPerOrganization (or_config inst))) 0 None)) (\<lambda>memberRows.
     bindM (mapErr org_internalError (org_findMany inst ModelTeam [Eq ''organizationId'' (VStr organizationID)]
         (adapterPageLimit (oc_MaxTeamsPerOrganization (or_config inst))) 0 None)) (\<lambda>teamRows.
     bindM (mapErr org_internalError (lift (rows_to (memberFromRecord inst) memberRows))) (\<lambda>members.
     bindM (mapErr org_internalError (lift (rows_to (teamFromRecord inst) teamRows))) (\<lambda>teams.
       org_JSON inst (OJFull organization members teams)))))))))"

fun organizations_of :: "'d OrgRuntime \<Rightarrow> Record list \<Rightarrow> ('d, Organization list) action" where
  "organizations_of inst [] = ret []"
| "organizations_of inst (memberRow # rows) =
     bindM (mapErr org_internalError (lift (requiredString memberRow ''organizationId''))) (\<lambda>organizationID.
     bindM (tryM (org_findOne inst ModelOrganization [Eq ''id'' (VStr organizationID)] [])) (\<lambda>res.
     case res of
       Inr (Some row) \<Rightarrow>
         bindM (mapErr org_internalError (lift (organizationFromRecord inst row))) (\<lambda>organization.
         bindM (organizations_of inst rows) (\<lambda>rest. ret (organization # rest)))
     | _ \<Rightarrow> organizations_of inst rows))"

definition listOrganizations :: "'d OrgRuntime \<Rightarrow> HookContext \<Rightarrow> ('d, PluginResponse option) action" where
  "listOrganizations inst c =
     bindM (lift (queryPage c (oc_MaxOrganizationsPerUser (or_config inst)))) (\<lambda>(limit, offset).
     bindM (mapErr org_internalError (org_findMany inst ModelMember [Eq ''userId'' (VStr (userID_of c))]
         limit offset None)) (\<lambda>memberRows.
     bindM (organizations_of inst memberRows) (\<lambda>organizations.
       org_JSON inst (OJOrganizations organizations))))"

section \<open>The active organization and team\<close>

definition org_applied :: "'d OrgRuntime \<Rightarrow> IssuedSession \<Rightarrow> PluginResponse \<Rightarrow> go_error + PluginResponse" where
  "org_applied inst issued response =
     (case Apply \<lparr>ps_cookies = map (rl_pluginCookie (or_lib inst)) (is_cookies issued), ps_csrf = is_csrf issued\<rparr> response of
        ((Some err, _), _) \<Rightarrow> Inl err
      | ((None, response), _) \<Rightarrow> Inr response)"

definition found_or_403 :: "('d, 'a option) action \<Rightarrow> ('d, 'a) action" where
  "found_or_403 m = bindM (tryM m) (\<lambda>res. case res of
     Inl err \<Rightarrow> fail (org_forbidden (Some err))
   | Inr None \<Rightarrow> fail (org_forbidden None)
   | Inr (Some row) \<Rightarrow> ret row)"

definition active_update :: "string \<Rightarrow> string \<Rightarrow> gtime \<Rightarrow> Record" where
  "active_update organizationID teamID now =
     [''activeOrganizationId'' \<mapsto> (if organizationID \<noteq> '''' then VStr organizationID else VNil),
      ''activeTeamId'' \<mapsto> (if teamID \<noteq> '''' then VStr teamID else VNil), ''updatedAt'' \<mapsto> VTime now]"

definition rotate_tx ::
  "'d OrgRuntime \<Rightarrow> Request \<Rightarrow> HookContext \<Rightarrow> string \<Rightarrow> string \<Rightarrow> string \<Rightarrow> string \<Rightarrow> Record \<Rightarrow> MutationEvent \<Rightarrow>
   ('d, unit) action" where
  "rotate_tx inst r c organizationID teamID action sessionID update event =
     bindM (if organizationID \<noteq> ''''
            then bindM (mapErr (\<lambda>err. org_forbidden (Some err)) (org_member inst organizationID (userID_of c))) (\<lambda>_. ret ())
            else ret ()) (\<lambda>_.
     bindM (if teamID \<noteq> ''''
            then
              bindM (found_or_403 (org_findOne inst ModelTeam
                  [Eq ''id'' (VStr teamID), Eq ''organizationId'' (VStr organizationID)] [''id''])) (\<lambda>_.
              bindM (found_or_403 (org_findOne inst ModelTeamMember
                  [Eq ''teamId'' (VStr teamID), Eq ''userId'' (VStr (userID_of c))] [''id''])) (\<lambda>_. ret ()))
            else ret ()) (\<lambda>_.
     bindM (present ErrNotFound (org_update inst ModelSession
         [Eq ''id'' (VStr sessionID), Eq ''userId'' (VStr (userID_of c)), Eq ''revokedAt'' VNil] update)) (\<lambda>_.
     bindM (org_audit inst r c action (userID_of c) organizationID
         [(''teamId'', VStr teamID), (''newSessionId'', VStr sessionID)]) (\<lambda>_.
       after_mutation inst c event))))"

definition rotateActiveSession ::
  "'d OrgRuntime \<Rightarrow> Request \<Rightarrow> HookContext \<Rightarrow> PluginResponse \<Rightarrow> string \<Rightarrow> string \<Rightarrow> string \<Rightarrow>
   ('d, PluginResponse) action" where
  "rotateActiveSession inst r c response organizationID teamID action =
     (let event = mutation_event action organizationID (userID_of c) [(''teamId'', VStr teamID)] in
      bindM (before_mutation inst c event) (\<lambda>_.
      bindM (mapErr org_internalError (issuePluginSession (or_server inst) r (userID_of c))) (\<lambda>issued.
      bindM (Now (or_server inst)) (\<lambda>now.
      bindM (mapErr org_internalError (org_transaction inst (rotate_tx inst r c organizationID teamID action
          (ss_ID (is_Session issued)) (active_update organizationID teamID now) event))) (\<lambda>_.
        mapErr org_internalError (lift (org_applied inst issued response)))))))"

definition setActiveOrganization :: "'d OrgRuntime \<Rightarrow> Request \<Rightarrow> HookContext \<Rightarrow> ('d, PluginResponse option) action" where
  "setActiveOrganization inst r c =
     (let organizationID = bodyString c ''organizationId'' in
      bindM (if organizationID = '''' then ret OJNil
             else
               bindM (mapErr (\<lambda>err. org_forbidden (Some err)) (org_member inst organizationID (userID_of c))) (\<lambda>_.
               bindM (found_or_404 (org_findOne inst ModelOrganization [Eq ''id'' (VStr organizationID)] [])) (\<lambda>row.
               bindM (mapErr org_internalError (lift (organizationFromRecord inst row))) (\<lambda>organization.
                 ret (OJOrganization organization))))) (\<lambda>v.
      bindM (lift (JSONResponse 200 (rl_Marshal (or_lib inst) v))) (\<lambda>response.
      bindM (rotateActiveSession inst r c response organizationID '''' ''organization.active.changed'') (\<lambda>response.
        ret (Some response)))))"

end
