(* ===== verification/Organization_Invitations.thy ===== *)
theory Organization_Invitations
  imports Organizations
begin

text \<open>Invitations, \<open>plugin/organization/invitations.go\<close>: they are sent, accepted once, rejected or canceled.\<close>

section \<open>Records and lookups\<close>

definition invitationUpdateRecord :: "Invitation \<Rightarrow> Record" where
  "invitationUpdateRecord v =
     [''email'' \<mapsto> VStr (iv_Email v), ''role'' \<mapsto> VStr (iv_Role v), ''teamId'' \<mapsto> VStr (iv_TeamID v),
      ''status'' \<mapsto> VStr (iv_Status v), ''inviterId'' \<mapsto> VStr (iv_InviterID v), ''expiresAt'' \<mapsto> VTime (iv_ExpiresAt v),
      ''updatedAt'' \<mapsto> VTime (iv_UpdatedAt v)]"

definition invitationRecord :: "Invitation \<Rightarrow> Record" where
  "invitationRecord v = (invitationUpdateRecord v)(''id'' \<mapsto> VStr (iv_ID v),
     ''organizationId'' \<mapsto> VStr (iv_OrganizationID v), ''createdAt'' \<mapsto> VTime (iv_CreatedAt v))"

definition findTeam :: "'d OrgRuntime \<Rightarrow> string \<Rightarrow> string \<Rightarrow> ('d, Team) action" where
  "findTeam inst organizationID teamID =
     bindM (present ErrNotFound (org_findOne inst ModelTeam
         [Eq ''id'' (VStr teamID), Eq ''organizationId'' (VStr organizationID)] [])) (\<lambda>row.
       lift (teamFromRecord inst row))"

definition memberByEmail :: "'d OrgRuntime \<Rightarrow> string \<Rightarrow> string \<Rightarrow> ('d, bool) action" where
  "memberByEmail inst organizationID email =
     bindM (missing_ok (org_findOne inst ModelUser
         [(Cond ''email'' WhereEQ (VStr email))\<lparr>Mode := StringInsensitive\<rparr>] [''id''])) (\<lambda>user.
     case user of
       None \<Rightarrow> ret False
     | Some u \<Rightarrow>
         bindM (lift (requiredString u ''id'')) (\<lambda>userID.
         bindM (missing_ok (org_findOne inst ModelMember
             [Eq ''organizationId'' (VStr organizationID), Eq ''userId'' (VStr userID)] [''id''])) (\<lambda>row.
           ret (row \<noteq> None))))"

section \<open>Inviting\<close>

text \<open>Only an owner may offer the role of an owner.\<close>

definition inviting_actor :: "'d OrgRuntime \<Rightarrow> HookContext \<Rightarrow> string \<Rightarrow> string \<Rightarrow> ('d, unit) action" where
  "inviting_actor inst c organizationID role =
     bindM (org_authorize inst c organizationID ''invitation'' ''create'') (\<lambda>actor.
       failIf (roleIncludes role (oc_CreatorRole (or_config inst)) \<and>
               \<not> roleIncludes (mb_Role actor) (oc_CreatorRole (or_config inst))) (org_forbidden None))"

text \<open>\<open>BeforeInvitationCreate\<close> may change the invitation; every field the code knows is set again.\<close>

definition hooked_invitation :: "'d OrgRuntime \<Rightarrow> HookContext \<Rightarrow> Invitation \<Rightarrow> ('d, unit) action" where
  "hooked_invitation inst c invitation =
     (case oh_BeforeInvitationCreate (org_hooks inst) of
        None \<Rightarrow> ret ()
      | Some f \<Rightarrow> bindM (f c invitation) (\<lambda>_. ret ()))"

text \<open>An invitation to the same address is renewed, unless it is still open and not to be sent again.\<close>

definition store_invitation :: "'d OrgRuntime \<Rightarrow> Invitation \<Rightarrow> bool \<Rightarrow> gtime \<Rightarrow> ('d, Invitation) action" where
  "store_invitation inst invitation resend now =
     bindM (missing_ok (org_findOne inst ModelInvitation
         [Eq ''organizationId'' (VStr (iv_OrganizationID invitation)), Eq ''email'' (VStr (iv_Email invitation))] []))
       (\<lambda>existing.
     bindM (case existing of
         None \<Rightarrow> bindM (org_create inst ModelInvitation (invitationRecord invitation)) (\<lambda>row. ret row)
       | Some old \<Rightarrow>
           bindM (lift (invitationFromRecord inst old)) (\<lambda>current.
           if iv_Status current = ''pending'' \<and> iv_ExpiresAt current > now \<and> \<not> resend
           then fail (org_conflict ''An active invitation already exists.'' None)
           else
             bindM (org_update inst ModelInvitation
                 [Eq ''id'' (VStr (iv_ID current)), Eq ''organizationId'' (VStr (iv_OrganizationID invitation))]
                 (invitationUpdateRecord invitation)) (\<lambda>row.
               ret (case row of Some updated \<Rightarrow> updated | None \<Rightarrow> Map.empty)))) (\<lambda>row.
       lift (invitationFromRecord inst row)))"

definition invite_tx ::
  "'d OrgRuntime \<Rightarrow> Request \<Rightarrow> HookContext \<Rightarrow> Invitation \<Rightarrow> bool \<Rightarrow> gtime \<Rightarrow> ('d, Invitation \<times> Organization) action" where
  "invite_tx inst r c invitation resend now =
     (let organizationID = iv_OrganizationID invitation; role = iv_Role invitation; email = iv_Email invitation;
          event = mutation_event ''organization.invitation.created'' organizationID (iv_ID invitation)
            [(''email'', VStr email), (''role'', VStr role), (''teamId'', VStr (iv_TeamID invitation))] in
      bindM (inviting_actor inst c organizationID role) (\<lambda>_.
      bindM (org_count inst ModelMember [Eq ''organizationId'' (VStr organizationID)]) (\<lambda>memberCount.
      bindM (failIf (memberCount \<ge> oc_MaxMembersPerOrganization (or_config inst))
          (org_conflict ''The organization member limit has been reached.'' None)) (\<lambda>_.
      bindM (org_count inst ModelInvitation
          [Eq ''organizationId'' (VStr organizationID), Eq ''status'' (VStr ''pending'')]) (\<lambda>invitationCount.
      bindM (failIf (invitationCount \<ge> oc_MaxInvitationsPerOrganization (or_config inst))
          (org_conflict ''The organization invitation limit has been reached.'' None)) (\<lambda>_.
      bindM (memberByEmail inst organizationID email) (\<lambda>existing.
      bindM (failIf existing (org_conflict ''A member already uses this email address.'' None)) (\<lambda>_.
      bindM (present ErrNotFound (org_findOne inst ModelOrganization [Eq ''id'' (VStr organizationID)] [])) (\<lambda>row.
      bindM (lift (organizationFromRecord inst row)) (\<lambda>organization.
      bindM (before_mutation inst c event) (\<lambda>_.
      bindM (hooked_invitation inst c invitation) (\<lambda>_.
      bindM (inviting_actor inst c organizationID role) (\<lambda>_.
      bindM (store_invitation inst invitation resend now) (\<lambda>stored.
      bindM (org_audit inst r c ''organization.invitation.created'' (iv_ID stored) organizationID
          [(''email'', VStr email), (''role'', VStr role)]) (\<lambda>_.
      bindM (org_hook (oh_AfterInvitationCreate (org_hooks inst)) c stored) (\<lambda>_.
      bindM (after_mutation inst c event) (\<lambda>_.
        ret (stored, organization))))))))))))))))))"

definition bodyFlag :: "HookContext \<Rightarrow> string \<Rightarrow> bool" where
  "bodyFlag c key = (case map_of (org_body c) key of Some (ABool b) \<Rightarrow> b | _ \<Rightarrow> False)"

definition inviteMember :: "'d OrgRuntime \<Rightarrow> Request \<Rightarrow> HookContext \<Rightarrow> ('d, PluginResponse option) action" where
  "inviteMember inst r c =
     bindM (selectedOrganizationID inst c) (\<lambda>organizationID.
     bindM (org_authorize inst c organizationID ''invitation'' ''create'') (\<lambda>actor.
     bindM (mapErr (\<lambda>err. org_badRequest ''The invitation role is invalid.'' (Some err))
         (lift (canonicalRoles [bodyString c ''role'']))) (\<lambda>role.
     bindM (requireDefinedRoles inst organizationID role) (\<lambda>_.
     bindM (failIf (roleIncludes role (oc_CreatorRole (or_config inst)) \<and>
                    \<not> roleIncludes (mb_Role actor) (oc_CreatorRole (or_config inst))) (org_forbidden None)) (\<lambda>_.
     let email = ToLower (bodyString c ''email''); teamID = bodyString c ''teamId'' in
     bindM (if teamID = '''' then ret ()
            else bindM (mapErr (\<lambda>err. org_notFound (Some err)) (findTeam inst organizationID teamID)) (\<lambda>_. ret ())) (\<lambda>_.
     bindM (mapErr org_internalError (newID (or_server inst))) (\<lambda>rid.
     bindM (Now (or_server inst)) (\<lambda>now.
     bindM (mutation inst (invite_tx inst r c
        \<lparr>iv_ID = rid, iv_OrganizationID = organizationID, iv_Email = email, iv_Role = role, iv_TeamID = teamID,
         iv_Status = ''pending'', iv_InviterID = userID_of c, iv_ExpiresAt = now + oc_InvitationTTL (or_config inst),
         iv_CreatedAt = now, iv_UpdatedAt = now\<rparr> (bodyFlag c ''resend'') now)) (\<lambda>(stored, organization).
     bindM (case oc_DeliverInvitation (or_config inst) of
         None \<Rightarrow> ret ()
       | Some deliver \<Rightarrow> mapErr org_internalError (deliver c stored organization (the (cx_User c)))) (\<lambda>_.
       org_JSON inst (OJInvitation stored)))))))))))"

section \<open>Accepting\<close>

definition accept_update :: "gtime \<Rightarrow> Record" where
  "accept_update now = [''status'' \<mapsto> VStr ''accepted'', ''updatedAt'' \<mapsto> VTime now]"

text \<open>The invitation of the user's address, which is taken by changing its status while it is pending.\<close>

definition take_invitation :: "'d OrgRuntime \<Rightarrow> HookContext \<Rightarrow> string \<Rightarrow> gtime \<Rightarrow> ('d, Invitation) action" where
  "take_invitation inst c invitationID now =
     bindM (present ErrNotFound (org_findOne inst ModelInvitation
         [Eq ''id'' (VStr invitationID), Eq ''status'' (VStr ''pending''),
          Eq ''email'' (VStr (ToLower (u_Email (the (cx_User c)))))] [])) (\<lambda>row.
     bindM (lift (invitationFromRecord inst row)) (\<lambda>invitation.
     bindM (failIf (\<not> iv_ExpiresAt invitation > now) (org_badRequest ''The invitation is invalid or expired.'' None)) (\<lambda>_.
     bindM (requireDefinedRoles inst (iv_OrganizationID invitation) (iv_Role invitation)) (\<lambda>_.
     bindM (org_count inst ModelMember [Eq ''organizationId'' (VStr (iv_OrganizationID invitation))]) (\<lambda>count.
     bindM (failIf (count \<ge> oc_MaxMembersPerOrganization (or_config inst))
         (org_conflict ''The organization member limit has been reached.'' None)) (\<lambda>_.
     bindM (present ErrReplay (org_update inst ModelInvitation
         [Eq ''id'' (VStr (iv_ID invitation)), Eq ''status'' (VStr ''pending''), Cond ''expiresAt'' WhereGT (VTime now)]
         (accept_update now))) (\<lambda>_.
       ret invitation)))))))"

definition join_team :: "'d OrgRuntime \<Rightarrow> Invitation \<Rightarrow> string \<Rightarrow> string \<Rightarrow> gtime \<Rightarrow> ('d, unit) action" where
  "join_team inst invitation userID rid now =
     (if iv_TeamID invitation = '''' then ret ()
      else
        bindM (findTeam inst (iv_OrganizationID invitation) (iv_TeamID invitation)) (\<lambda>team.
        bindM (org_create inst ModelTeamMember
            [''id'' \<mapsto> VStr rid, ''teamId'' \<mapsto> VStr (tm_ID team), ''userId'' \<mapsto> VStr userID, ''createdAt'' \<mapsto> VTime now]) (\<lambda>_.
          ret ())))"

definition accept_tx ::
  "'d OrgRuntime \<Rightarrow> Request \<Rightarrow> HookContext \<Rightarrow> string \<Rightarrow> string \<Rightarrow> string \<Rightarrow> gtime \<Rightarrow> ('d, Invitation) action" where
  "accept_tx inst r c invitationID memberID teamMemberID now =
     bindM (take_invitation inst c invitationID now) (\<lambda>invitation.
     let organizationID = iv_OrganizationID invitation;
         event = mutation_event ''organization.invitation.accepted'' organizationID (userID_of c)
           [(''invitationId'', VStr (iv_ID invitation))] in
     bindM (before_mutation inst c event) (\<lambda>_.
     bindM (hooked_member inst c
        \<lparr>mb_ID = memberID, mb_OrganizationID = organizationID, mb_UserID = userID_of c, mb_Role = iv_Role invitation,
         mb_CreatedAt = now, mb_UpdatedAt = now\<rparr>) (\<lambda>member.
     bindM (create_member inst member) (\<lambda>member.
     bindM (join_team inst invitation (userID_of c) teamMemberID now) (\<lambda>_.
     bindM (org_audit inst r c ''organization.invitation.accepted'' (userID_of c) organizationID
         [(''invitationId'', VStr (iv_ID invitation))]) (\<lambda>_.
     bindM (org_hook (oh_AfterMemberCreate (org_hooks inst)) c member) (\<lambda>_.
     bindM (after_mutation inst c event) (\<lambda>_.
       ret invitation))))))))"

definition accept_error :: "go_error \<Rightarrow> go_error" where
  "accept_error err =
     (if errors_Is err ErrReplay \<or> errors_Is err ErrNotFound
      then org_badRequest ''The invitation is invalid or expired.'' (Some err) else mapMutationError err)"

definition acceptInvitation :: "'d OrgRuntime \<Rightarrow> Request \<Rightarrow> HookContext \<Rightarrow> ('d, PluginResponse option) action" where
  "acceptInvitation inst r c =
     (if \<not> u_EmailVerified (the (cx_User c))
      then fail (org_forbidden (Some (ErrText ''organization: verified email required'')))
      else
        bindM (Now (or_server inst)) (\<lambda>now.
        bindM (mapErr org_internalError (newID (or_server inst))) (\<lambda>memberID.
        bindM (mapErr org_internalError (newID (or_server inst))) (\<lambda>teamMemberID.
        bindM (mapErr accept_error (org_transaction inst
            (accept_tx inst r c (bodyString c ''invitationId'') memberID teamMemberID now))) (\<lambda>invitation.
          org_JSON inst (OJInvitation invitation))))))"

section \<open>Rejecting and canceling\<close>

definition transition_tx ::
  "'d OrgRuntime \<Rightarrow> Request \<Rightarrow> HookContext \<Rightarrow> string \<Rightarrow> bool \<Rightarrow> Invitation \<Rightarrow> ('d, Invitation) action" where
  "transition_tx inst r c status requireManagement invitation =
     (let organizationID = iv_OrganizationID invitation;
          event = mutation_event (''organization.invitation.'' @ status) organizationID (iv_ID invitation) [];
          manager = (if requireManagement
                     then bindM (org_authorize inst c organizationID ''invitation'' ''cancel'') (\<lambda>_. ret ()) else ret ()) in
      bindM manager (\<lambda>_.
      bindM (before_mutation inst c event) (\<lambda>_.
      bindM manager (\<lambda>_.
      bindM (Now (or_server inst)) (\<lambda>now.
      bindM (present ErrReplay (org_update inst ModelInvitation
          [Eq ''id'' (VStr (iv_ID invitation)), Eq ''status'' (VStr ''pending'')]
          [''status'' \<mapsto> VStr status, ''updatedAt'' \<mapsto> VTime now])) (\<lambda>row.
      bindM (lift (invitationFromRecord inst row)) (\<lambda>updated.
      bindM (org_audit inst r c (me_Action event) (iv_ID updated) (iv_OrganizationID updated) []) (\<lambda>_.
      bindM (after_mutation inst c event) (\<lambda>_.
        ret updated)))))))))"

definition transition_error :: "go_error \<Rightarrow> go_error" where
  "transition_error err =
     (if errors_Is err ErrReplay then org_badRequest ''The invitation is invalid or expired.'' (Some err)
      else mapMutationError err)"

text \<open>\<open>strings.EqualFold\<close>, on ASCII.\<close>

definition EqualFold :: "string \<Rightarrow> string \<Rightarrow> bool" where
  "EqualFold a b \<longleftrightarrow> ToLower a = ToLower b"

definition transitionInvitation ::
  "'d OrgRuntime \<Rightarrow> Request \<Rightarrow> HookContext \<Rightarrow> string \<Rightarrow> bool \<Rightarrow> ('d, PluginResponse option) action" where
  "transitionInvitation inst r c status requireManagement =
     bindM (tryM (org_findOne inst ModelInvitation
         [Eq ''id'' (VStr (bodyString c ''invitationId'')), Eq ''status'' (VStr ''pending'')] [])) (\<lambda>res.
     case res of
       Inl err \<Rightarrow> fail (org_badRequest ''The invitation is invalid or expired.'' (Some err))
     | Inr None \<Rightarrow> fail (org_badRequest ''The invitation is invalid or expired.'' None)
     | Inr (Some row) \<Rightarrow>
         bindM (mapErr org_internalError (lift (invitationFromRecord inst row))) (\<lambda>invitation.
         bindM (if requireManagement
                then bindM (org_authorize inst c (iv_OrganizationID invitation) ''invitation'' ''cancel'') (\<lambda>_. ret ())
                else failIf (\<not> u_EmailVerified (the (cx_User c)) \<or>
                       \<not> EqualFold (iv_Email invitation) (u_Email (the (cx_User c)))) (org_forbidden None)) (\<lambda>_.
         bindM (mapErr transition_error (org_transaction inst (transition_tx inst r c status requireManagement invitation)))
           (\<lambda>updated.
           org_JSON inst (OJInvitation updated)))))"

definition rejectInvitation :: "'d OrgRuntime \<Rightarrow> Request \<Rightarrow> HookContext \<Rightarrow> ('d, PluginResponse option) action" where
  "rejectInvitation inst r c = transitionInvitation inst r c ''rejected'' False"

definition cancelInvitation :: "'d OrgRuntime \<Rightarrow> Request \<Rightarrow> HookContext \<Rightarrow> ('d, PluginResponse option) action" where
  "cancelInvitation inst r c = transitionInvitation inst r c ''canceled'' True"

section \<open>Reading\<close>

definition getInvitation :: "'d OrgRuntime \<Rightarrow> HookContext \<Rightarrow> ('d, PluginResponse option) action" where
  "getInvitation inst c =
     bindM (found_or_404 (org_findOne inst ModelInvitation
         [Eq ''id'' (VStr (TrimSpace (first_value (cx_Query c) ''invitationId'')))] [])) (\<lambda>row.
     bindM (mapErr org_internalError (lift (invitationFromRecord inst row))) (\<lambda>invitation.
     bindM (if EqualFold (iv_Email invitation) (u_Email (the (cx_User c)))
            then failIf (\<not> u_EmailVerified (the (cx_User c))) (org_forbidden None)
            else bindM (org_authorize inst c (iv_OrganizationID invitation) ''invitation'' ''read'') (\<lambda>_. ret ())) (\<lambda>_.
       org_JSON inst (OJInvitation invitation))))"

definition page_of_invitations ::
  "'d OrgRuntime \<Rightarrow> HookContext \<Rightarrow> Where list \<Rightarrow> ('d, PluginResponse option) action" where
  "page_of_invitations inst c ws =
     bindM (lift (queryPage c (oc_MaxInvitationsPerOrganization (or_config inst)))) (\<lambda>(limit, offset).
     bindM (mapErr org_internalError (org_findMany inst ModelInvitation ws limit offset (Some (by_creation ''desc'')))) (\<lambda>rows.
     bindM (mapErr org_internalError (lift (rows_to (invitationFromRecord inst) rows))) (\<lambda>invitations.
       org_JSON inst (OJInvitations invitations))))"

definition listInvitations :: "'d OrgRuntime \<Rightarrow> HookContext \<Rightarrow> ('d, PluginResponse option) action" where
  "listInvitations inst c =
     bindM (selectedOrganizationID inst c) (\<lambda>organizationID.
     bindM (org_authorize inst c organizationID ''invitation'' ''read'') (\<lambda>_.
       page_of_invitations inst c [Eq ''organizationId'' (VStr organizationID)]))"

definition listUserInvitations :: "'d OrgRuntime \<Rightarrow> HookContext \<Rightarrow> ('d, PluginResponse option) action" where
  "listUserInvitations inst c =
     (if \<not> u_EmailVerified (the (cx_User c)) then fail (org_forbidden None)
      else page_of_invitations inst c
        [Eq ''email'' (VStr (ToLower (u_Email (the (cx_User c))))), Eq ''status'' (VStr ''pending'')])"

end
