(* ===== verification/Organization_Teams.thy ===== *)
theory Organization_Teams
  imports Organization_Invitations
begin

text \<open>Teams of an organization, \<open>plugin/organization/teams.go\<close>, and the descriptor of \<open>plugin.go\<close>.\<close>

section \<open>Teams\<close>

definition findTeamByID :: "'d OrgRuntime \<Rightarrow> string \<Rightarrow> ('d, Team) action" where
  "findTeamByID inst teamID =
     bindM (present ErrNotFound (org_findOne inst ModelTeam [Eq ''id'' (VStr teamID)] [])) (\<lambda>row.
       lift (teamFromRecord inst row))"

definition authorized :: "'d OrgRuntime \<Rightarrow> HookContext \<Rightarrow> string \<Rightarrow> string \<Rightarrow> ('d, unit) action" where
  "authorized inst c organizationID action =
     bindM (org_authorize inst c organizationID ''team'' action) (\<lambda>_. ret ())"

text \<open>The team of a request and the permission for it, in front of every change.\<close>

definition managed_team :: "'d OrgRuntime \<Rightarrow> HookContext \<Rightarrow> string \<Rightarrow> string \<Rightarrow> ('d, Team) action" where
  "managed_team inst c teamID action =
     bindM (mapErr (\<lambda>err. org_notFound (Some err)) (findTeamByID inst teamID)) (\<lambda>team.
     bindM (authorized inst c (tm_OrganizationID team) action) (\<lambda>_. ret team))"

definition createTeam_tx :: "'d OrgRuntime \<Rightarrow> Request \<Rightarrow> HookContext \<Rightarrow> Team \<Rightarrow> ('d, Team) action" where
  "createTeam_tx inst r c team =
     (let organizationID = tm_OrganizationID team;
          event = mutation_event ''organization.team.created'' organizationID (tm_ID team) [(''name'', VStr (tm_Name team))] in
      bindM (authorized inst c organizationID ''create'') (\<lambda>_.
      bindM (org_count inst ModelTeam [Eq ''organizationId'' (VStr organizationID)]) (\<lambda>count.
      bindM (failIf (count \<ge> oc_MaxTeamsPerOrganization (or_config inst))
          (org_conflict ''The organization team limit has been reached.'' None)) (\<lambda>_.
      bindM (before_mutation inst c event) (\<lambda>_.
      bindM (authorized inst c organizationID ''create'') (\<lambda>_.
      bindM (org_create inst ModelTeam
          [''id'' \<mapsto> VStr (tm_ID team), ''organizationId'' \<mapsto> VStr organizationID, ''name'' \<mapsto> VStr (tm_Name team),
           ''createdAt'' \<mapsto> VTime (tm_CreatedAt team), ''updatedAt'' \<mapsto> VTime (tm_UpdatedAt team)]) (\<lambda>row.
      bindM (lift (teamFromRecord inst row)) (\<lambda>created.
      bindM (org_audit inst r c ''organization.team.created'' (tm_ID created) organizationID
          [(''name'', VStr (tm_Name created))]) (\<lambda>_.
      bindM (after_mutation inst c (event\<lparr>me_Data := [(''name'', VStr (tm_Name created))]\<rparr>)) (\<lambda>_.
        ret created))))))))))"

definition createTeam :: "'d OrgRuntime \<Rightarrow> Request \<Rightarrow> HookContext \<Rightarrow> ('d, PluginResponse option) action" where
  "createTeam inst r c =
     bindM (selectedOrganizationID inst c) (\<lambda>organizationID.
     bindM (authorized inst c organizationID ''create'') (\<lambda>_.
     bindM (mapErr org_internalError (newID (or_server inst))) (\<lambda>rid.
     bindM (Now (or_server inst)) (\<lambda>now.
     bindM (mutation inst (createTeam_tx inst r c
        \<lparr>tm_ID = rid, tm_OrganizationID = organizationID, tm_Name = bodyString c ''name'', tm_CreatedAt = now,
         tm_UpdatedAt = now\<rparr>)) (\<lambda>created.
       org_JSON inst (OJTeam created))))))"

definition inactive_team :: "gtime \<Rightarrow> Record" where
  "inactive_team now = [''activeTeamId'' \<mapsto> VNil, ''updatedAt'' \<mapsto> VTime now]"

definition removeTeam_tx :: "'d OrgRuntime \<Rightarrow> Request \<Rightarrow> HookContext \<Rightarrow> Team \<Rightarrow> ('d, unit) action" where
  "removeTeam_tx inst r c team =
     (let organizationID = tm_OrganizationID team;
          event = mutation_event ''organization.team.removed'' organizationID (tm_ID team) [(''name'', VStr (tm_Name team))] in
      bindM (authorized inst c organizationID ''delete'') (\<lambda>_.
      bindM (before_mutation inst c event) (\<lambda>_.
      bindM (authorized inst c organizationID ''delete'') (\<lambda>_.
      bindM (org_deleteMany inst ModelTeamMember [Eq ''teamId'' (VStr (tm_ID team))]) (\<lambda>_.
      bindM (org_delete inst ModelTeam
          [Eq ''id'' (VStr (tm_ID team)), Eq ''organizationId'' (VStr organizationID)]) (\<lambda>_.
      bindM (Now (or_server inst)) (\<lambda>now.
      bindM (org_updateMany inst ModelSession [Eq ''activeTeamId'' (VStr (tm_ID team))] (inactive_team now)) (\<lambda>_.
      bindM (org_audit inst r c ''organization.team.removed'' (tm_ID team) organizationID
          [(''name'', VStr (tm_Name team))]) (\<lambda>_.
        after_mutation inst c event)))))))))"

definition removeTeam :: "'d OrgRuntime \<Rightarrow> Request \<Rightarrow> HookContext \<Rightarrow> ('d, PluginResponse option) action" where
  "removeTeam inst r c =
     bindM (managed_team inst c (bodyString c ''teamId'') ''delete'') (\<lambda>team.
     bindM (mutation inst (removeTeam_tx inst r c team)) (\<lambda>_.
       org_JSON inst (OJTeam team)))"

definition updateTeam_tx :: "'d OrgRuntime \<Rightarrow> Request \<Rightarrow> HookContext \<Rightarrow> Team \<Rightarrow> ('d, Team) action" where
  "updateTeam_tx inst r c team =
     (let organizationID = tm_OrganizationID team; name = bodyString c ''name'';
          event = mutation_event ''organization.team.updated'' organizationID (tm_ID team) [(''name'', VStr name)] in
      bindM (authorized inst c organizationID ''update'') (\<lambda>_.
      bindM (before_mutation inst c event) (\<lambda>_.
      bindM (authorized inst c organizationID ''update'') (\<lambda>_.
      bindM (Now (or_server inst)) (\<lambda>now.
      bindM (present ErrNotFound (org_update inst ModelTeam
          [Eq ''id'' (VStr (tm_ID team)), Eq ''organizationId'' (VStr organizationID)]
          [''name'' \<mapsto> VStr name, ''updatedAt'' \<mapsto> VTime now])) (\<lambda>row.
      bindM (lift (teamFromRecord inst row)) (\<lambda>updated.
      bindM (org_audit inst r c ''organization.team.updated'' (tm_ID updated) (tm_OrganizationID updated)
          [(''name'', VStr (tm_Name updated))]) (\<lambda>_.
      bindM (after_mutation inst c event) (\<lambda>_.
        ret updated)))))))))"

definition updateTeam :: "'d OrgRuntime \<Rightarrow> Request \<Rightarrow> HookContext \<Rightarrow> ('d, PluginResponse option) action" where
  "updateTeam inst r c =
     bindM (managed_team inst c (bodyString c ''teamId'') ''update'') (\<lambda>team.
     bindM (mutation inst (updateTeam_tx inst r c team)) (\<lambda>updated.
       org_JSON inst (OJTeam updated)))"

section \<open>Reading\<close>

definition listTeams :: "'d OrgRuntime \<Rightarrow> HookContext \<Rightarrow> ('d, PluginResponse option) action" where
  "listTeams inst c =
     bindM (selectedOrganizationID inst c) (\<lambda>organizationID.
     bindM (authorized inst c organizationID ''read'') (\<lambda>_.
     bindM (lift (queryPage c (oc_MaxTeamsPerOrganization (or_config inst)))) (\<lambda>(limit, offset).
     bindM (mapErr org_internalError (org_findMany inst ModelTeam [Eq ''organizationId'' (VStr organizationID)]
         limit offset (Some (by_creation ''asc'')))) (\<lambda>rows.
     bindM (mapErr org_internalError (lift (rows_to (teamFromRecord inst) rows))) (\<lambda>teams.
       org_JSON inst (OJTeams teams))))))"

fun teams_of_user :: "'d OrgRuntime \<Rightarrow> string \<Rightarrow> Record list \<Rightarrow> ('d, Team list) action" where
  "teams_of_user inst userID [] = ret []"
| "teams_of_user inst userID (row # rows) =
     bindM (mapErr org_internalError (lift (teamFromRecord inst row))) (\<lambda>team.
     bindM (mapErr org_internalError (missing_ok (org_findOne inst ModelTeamMember
         [Eq ''teamId'' (VStr (tm_ID team)), Eq ''userId'' (VStr userID)] [''id'']))) (\<lambda>membership.
     bindM (teams_of_user inst userID rows) (\<lambda>rest.
       ret (if membership \<noteq> None then team # rest else rest))))"

definition listUserTeams :: "'d OrgRuntime \<Rightarrow> HookContext \<Rightarrow> ('d, PluginResponse option) action" where
  "listUserTeams inst c =
     bindM (selectedOrganizationID inst c) (\<lambda>organizationID.
     bindM (mapErr (\<lambda>err. org_forbidden (Some err)) (org_member inst organizationID (userID_of c))) (\<lambda>_.
     bindM (lift (queryPage c (oc_MaxTeamsPerOrganization (or_config inst)))) (\<lambda>(limit, offset).
     bindM (mapErr org_internalError (org_findMany inst ModelTeam [Eq ''organizationId'' (VStr organizationID)]
         limit offset None)) (\<lambda>rows.
     bindM (teams_of_user inst (userID_of c) rows) (\<lambda>teams.
       org_JSON inst (OJTeams teams))))))"

definition listTeamMembers :: "'d OrgRuntime \<Rightarrow> HookContext \<Rightarrow> ('d, PluginResponse option) action" where
  "listTeamMembers inst c =
     bindM (managed_team inst c (TrimSpace (first_value (cx_Query c) ''teamId'')) ''read'') (\<lambda>team.
     bindM (lift (queryPage c (oc_MaxMembersPerOrganization (or_config inst)))) (\<lambda>(limit, offset).
     bindM (mapErr org_internalError (org_findMany inst ModelTeamMember [Eq ''teamId'' (VStr (tm_ID team))]
         limit offset None)) (\<lambda>rows.
     bindM (mapErr org_internalError (lift (rows_to (teamMemberFromRecord inst) rows))) (\<lambda>members.
       org_JSON inst (OJTeamMembers members)))))"

section \<open>The active team\<close>

definition setActiveTeam :: "'d OrgRuntime \<Rightarrow> Request \<Rightarrow> HookContext \<Rightarrow> ('d, PluginResponse option) action" where
  "setActiveTeam inst r c =
     (let teamID = bodyString c ''teamId'' in
      bindM (if teamID = '''' then ret (OJNil, '''')
             else
               bindM (mapErr (\<lambda>err. org_notFound (Some err)) (findTeamByID inst teamID)) (\<lambda>team.
               bindM (mapErr (\<lambda>err. org_forbidden (Some err)) (org_member inst (tm_OrganizationID team) (userID_of c))) (\<lambda>_.
               bindM (found_or_403 (org_findOne inst ModelTeamMember
                   [Eq ''teamId'' (VStr (tm_ID team)), Eq ''userId'' (VStr (userID_of c))] [''id''])) (\<lambda>_.
                 ret (OJTeam team, tm_OrganizationID team))))) (\<lambda>(v, organizationID).
      bindM (lift (JSONResponse 200 (rl_Marshal (or_lib inst) v))) (\<lambda>response.
      bindM (rotateActiveSession inst r c response organizationID teamID ''organization.active_team.changed'') (\<lambda>response.
        ret (Some response)))))"

section \<open>Members of teams\<close>

definition organization_member :: "'d OrgRuntime \<Rightarrow> string \<Rightarrow> string \<Rightarrow> ('d, unit) action" where
  "organization_member inst organizationID userID =
     bindM (mapErr (\<lambda>err. org_badRequest ''The user is not an organization member.'' (Some err))
        (org_member inst organizationID userID)) (\<lambda>_. ret ())"

definition addTeamMember_tx ::
  "'d OrgRuntime \<Rightarrow> Request \<Rightarrow> HookContext \<Rightarrow> Team \<Rightarrow> string \<Rightarrow> string \<Rightarrow> gtime \<Rightarrow> ('d, TeamMember) action" where
  "addTeamMember_tx inst r c team userID rid now =
     (let organizationID = tm_OrganizationID team;
          event = mutation_event ''organization.team.member_added'' organizationID userID [(''teamId'', VStr (tm_ID team))] in
      bindM (authorized inst c organizationID ''update'') (\<lambda>_.
      bindM (organization_member inst organizationID userID) (\<lambda>_.
      bindM (before_mutation inst c event) (\<lambda>_.
      bindM (authorized inst c organizationID ''update'') (\<lambda>_.
      bindM (organization_member inst organizationID userID) (\<lambda>_.
      bindM (org_create inst ModelTeamMember
          [''id'' \<mapsto> VStr rid, ''teamId'' \<mapsto> VStr (tm_ID team), ''userId'' \<mapsto> VStr userID, ''createdAt'' \<mapsto> VTime now]) (\<lambda>row.
      bindM (lift (teamMemberFromRecord inst row)) (\<lambda>membership.
      bindM (org_audit inst r c ''organization.team.member_added'' userID organizationID
          [(''teamId'', VStr (tm_ID team))]) (\<lambda>_.
      bindM (after_mutation inst c event) (\<lambda>_.
        ret membership))))))))))"

definition addTeamMember :: "'d OrgRuntime \<Rightarrow> Request \<Rightarrow> HookContext \<Rightarrow> ('d, PluginResponse option) action" where
  "addTeamMember inst r c =
     (let userID = bodyString c ''userId'' in
      bindM (managed_team inst c (bodyString c ''teamId'') ''update'') (\<lambda>team.
      bindM (organization_member inst (tm_OrganizationID team) userID) (\<lambda>_.
      bindM (mapErr org_internalError (newID (or_server inst))) (\<lambda>rid.
      bindM (Now (or_server inst)) (\<lambda>now.
      bindM (mutation inst (addTeamMember_tx inst r c team userID rid now)) (\<lambda>membership.
        org_JSON inst (OJTeamMember membership)))))))"

definition removeTeamMember_tx ::
  "'d OrgRuntime \<Rightarrow> Request \<Rightarrow> HookContext \<Rightarrow> Team \<Rightarrow> string \<Rightarrow> ('d, unit) action" where
  "removeTeamMember_tx inst r c team userID =
     (let organizationID = tm_OrganizationID team;
          event = mutation_event ''organization.team.member_removed'' organizationID userID [(''teamId'', VStr (tm_ID team))] in
      bindM (authorized inst c organizationID ''update'') (\<lambda>_.
      bindM (before_mutation inst c event) (\<lambda>_.
      bindM (authorized inst c organizationID ''update'') (\<lambda>_.
      bindM (org_delete inst ModelTeamMember
          [Eq ''teamId'' (VStr (tm_ID team)), Eq ''userId'' (VStr userID)]) (\<lambda>_.
      bindM (Now (or_server inst)) (\<lambda>now.
      bindM (org_updateMany inst ModelSession
          [Eq ''userId'' (VStr userID), Eq ''activeTeamId'' (VStr (tm_ID team))] (inactive_team now)) (\<lambda>_.
      bindM (org_audit inst r c ''organization.team.member_removed'' userID organizationID
          [(''teamId'', VStr (tm_ID team))]) (\<lambda>_.
        after_mutation inst c event))))))))"

definition removeTeamMember :: "'d OrgRuntime \<Rightarrow> Request \<Rightarrow> HookContext \<Rightarrow> ('d, PluginResponse option) action" where
  "removeTeamMember inst r c =
     bindM (managed_team inst c (bodyString c ''teamId'') ''update'') (\<lambda>team.
     bindM (mutation inst (removeTeamMember_tx inst r c team (bodyString c ''userId''))) (\<lambda>_.
       org_JSON inst (OJSuccess True)))"

end
