(* ===== verification/Organization_Plugin.thy ===== *)
theory Organization_Plugin
  imports Organization_Teams
begin

text \<open>
  The descriptor of the organization plugin, \<open>plugin/organization/plugin.go\<close>, and the validators of its
  endpoints, \<open>validators.go\<close>.
\<close>

section \<open>Validators\<close>

definition kind_rule :: "ValidationKind \<Rightarrow> FieldValidation" where
  "kind_rule kind = \<lparr>fv_Kind = kind, fv_Required = False, fv_Nullable = False, fv_MinLength = 0, fv_MaxLength = 0, fv_Enum = []\<rparr>"

definition stringRule :: "bool \<Rightarrow> int \<Rightarrow> FieldValidation" where
  "stringRule required maximum = (kind_rule ValidationString)\<lparr>fv_Required := required,
     fv_MinLength := (if required then 1 else 0), fv_MaxLength := maximum\<rparr>"

definition nullable :: "ValidationKind \<Rightarrow> int \<Rightarrow> FieldValidation" where
  "nullable kind maximum = (kind_rule kind)\<lparr>fv_Nullable := True, fv_MaxLength := maximum\<rparr>"

definition requiredStringField :: "string \<Rightarrow> int \<Rightarrow> (string \<times> FieldValidation) list" where
  "requiredStringField name maximum = [(name, stringRule True maximum)]"

definition objectValidator :: "(string \<times> FieldValidation) list \<Rightarrow> EndpointValidator" where
  "objectValidator fs = ValidatorObject \<lparr>ov_Fields = fs, ov_AllowUnknown = False\<rparr>"

definition page_fields :: "(string \<times> FieldValidation) list" where
  "page_fields = [(''limit'', kind_rule ValidationInteger), (''offset'', kind_rule ValidationInteger)]"

definition organizationQueryValidator :: EndpointValidator where
  "organizationQueryValidator = objectValidator [(''organizationId'', stringRule False 512)]"

definition pagedOrganizationQueryValidator :: EndpointValidator where
  "pagedOrganizationQueryValidator = objectValidator ((''organizationId'', stringRule False 512) # page_fields)"

definition paginationQueryValidator :: "(string \<times> FieldValidation) list \<Rightarrow> EndpointValidator" where
  "paginationQueryValidator fs = objectValidator (fs @ page_fields)"

definition createOrganizationValidator :: EndpointValidator where
  "createOrganizationValidator = objectValidator
     [(''name'', stringRule True 128), (''slug'', stringRule True 128), (''logo'', stringRule False 2048),
      (''metadata'', kind_rule ValidationObject)]"

definition updateOrganizationValidator :: EndpointValidator where
  "updateOrganizationValidator = objectValidator
     [(''organizationId'', stringRule True 512), (''name'', stringRule False 128), (''slug'', stringRule False 128),
      (''logo'', nullable ValidationString 2048), (''metadata'', nullable ValidationObject 0)]"

definition nullableOrganizationValidator :: EndpointValidator where
  "nullableOrganizationValidator = objectValidator [(''organizationId'', nullable ValidationString 512)]"

definition memberMutationValidator :: "string \<Rightarrow> EndpointValidator" where
  "memberMutationValidator name = objectValidator [(name, stringRule True 512), (''organizationId'', stringRule False 512)]"

definition updateMemberRoleValidator :: EndpointValidator where
  "updateMemberRoleValidator = objectValidator
     [(''memberId'', stringRule True 512), (''role'', stringRule True 512), (''organizationId'', stringRule False 512)]"

text \<open>\<open>inviteMemberValidator\<close>: behind the rules of the fields, the address must be one that \<open>net/mail\<close> reads as itself.\<close>

definition invite_fields :: "(string \<times> FieldValidation) list" where
  "invite_fields =
     [(''email'', stringRule True 320), (''role'', stringRule True 512), (''teamId'', stringRule False 512),
      (''organizationId'', stringRule False 512), (''resend'', kind_rule ValidationBoolean)]"

definition inviteMemberValidator ::
  "(string \<Rightarrow> number_class option) \<Rightarrow> (string \<Rightarrow> string option) \<Rightarrow> EndpointValidator" where
  "inviteMemberValidator parse parseAddress = ValidatorFunc (\<lambda>v.
     case Validate parse \<lparr>ov_Fields = invite_fields, ov_AllowUnknown = False\<rparr> v of
       Some err \<Rightarrow> Some (Some err)
     | None \<Rightarrow>
         let email = TrimSpace (case v of AObject m \<Rightarrow> (case map_of m ''email'' of Some (AString e) \<Rightarrow> e | _ \<Rightarrow> '''') | _ \<Rightarrow> '''') in
         case parseAddress email of
           None \<Rightarrow> Some (Some (ErrText ''email is invalid''))
         | Some address \<Rightarrow> if EqualFold address email then Some None else Some (Some (ErrText ''email is invalid'')))"

definition teamMutationValidator :: "bool \<Rightarrow> EndpointValidator" where
  "teamMutationValidator requireName =
     objectValidator [(''name'', stringRule requireName 128), (''organizationId'', stringRule False 512)]"

definition teamIDValidator :: EndpointValidator where
  "teamIDValidator = objectValidator (requiredStringField ''teamId'' 512)"

definition updateTeamValidator :: EndpointValidator where
  "updateTeamValidator = objectValidator [(''teamId'', stringRule True 512), (''name'', stringRule True 128)]"

definition nullableTeamValidator :: EndpointValidator where
  "nullableTeamValidator = objectValidator [(''teamId'', nullable ValidationString 512)]"

definition teamMemberValidator :: EndpointValidator where
  "teamMemberValidator = objectValidator [(''teamId'', stringRule True 512), (''userId'', stringRule True 512)]"

definition required_object :: "string \<times> FieldValidation" where
  "required_object = (''permission'', (kind_rule ValidationObject)\<lparr>fv_Required := True\<rparr>)"

definition hasPermissionValidator :: EndpointValidator where
  "hasPermissionValidator = objectValidator [(''organizationId'', stringRule False 512), required_object]"

definition roleCreateValidator :: EndpointValidator where
  "roleCreateValidator =
     objectValidator [(''organizationId'', stringRule False 512), (''role'', stringRule True 64), required_object]"

definition roleMutationValidator :: EndpointValidator where
  "roleMutationValidator = objectValidator [(''organizationId'', stringRule False 512), (''role'', stringRule True 64)]"

definition roleUpdateValidator :: EndpointValidator where
  "roleUpdateValidator =
     objectValidator [(''organizationId'', stringRule False 512), (''role'', stringRule True 64), required_object]"

definition roleQueryValidator :: EndpointValidator where
  "roleQueryValidator = roleMutationValidator"

section \<open>The descriptor\<close>

text \<open>\<open>requestOf\<close> is the request of a context, \<open>parse\<close> reads a number.\<close>

type_synonym 'd org_handler = "HookContext \<Rightarrow> ('d, PluginResponse option) action"

definition org_post ::
  "string \<Rightarrow> string \<Rightarrow> 'd RequestHook option list \<Rightarrow> EndpointValidator \<Rightarrow> 'd org_handler \<Rightarrow> 'd PluginEndpoint" where
  "org_post name path use validator handler =
     \<lparr>pe_Name = name, pe_Path = path, pe_Method = ''POST'', pe_SkipOriginCheck = False, pe_AllowNonKebabPath = False,
      pe_Use = use, pe_BodyValidator = Some validator, pe_QueryValidator = None, pe_Handler = Some (hook_of handler)\<rparr>"

definition org_get ::
  "string \<Rightarrow> string \<Rightarrow> 'd RequestHook option list \<Rightarrow> EndpointValidator \<Rightarrow> 'd org_handler \<Rightarrow> 'd PluginEndpoint" where
  "org_get name path use validator handler =
     \<lparr>pe_Name = name, pe_Path = path, pe_Method = ''GET'', pe_SkipOriginCheck = False, pe_AllowNonKebabPath = False,
      pe_Use = use, pe_BodyValidator = None, pe_QueryValidator = Some validator, pe_Handler = Some (hook_of handler)\<rparr>"

definition session_use :: "'d RequestHook option list" where
  "session_use = [Some (hook_of SessionMiddleware)]"

definition mutation_use :: "'d OrgRuntime \<Rightarrow> (HookContext \<Rightarrow> Request) \<Rightarrow> 'd RequestHook option list" where
  "mutation_use inst requestOf =
     [Some (hook_of SessionMiddleware), Some (hook_of (\<lambda>c. CSRFMiddleware (or_server inst) (requestOf c) c))]"

definition sensitive_use :: "'d OrgRuntime \<Rightarrow> (HookContext \<Rightarrow> Request) \<Rightarrow> 'd RequestHook option list" where
  "sensitive_use inst requestOf =
     [Some (hook_of (FreshSessionMiddleware (or_server inst))),
      Some (hook_of (\<lambda>c. CSRFMiddleware (or_server inst) (requestOf c) c))]"

definition org_endpoints :: "(string \<Rightarrow> number_class option) \<Rightarrow> 'd OrgRuntime \<Rightarrow> (HookContext \<Rightarrow> Request) \<Rightarrow> 'd PluginEndpoint list" where
  "org_endpoints parse inst requestOf =
     (let session = session_use; changes = mutation_use inst requestOf; sensitive = sensitive_use inst requestOf;
          on = (\<lambda>handler c. handler inst (requestOf c) c) in
      [org_post ''createOrganization'' ''/organization/create'' changes createOrganizationValidator (on createOrganization),
       org_post ''checkOrganizationSlug'' ''/organization/check-slug'' session
         (objectValidator (requiredStringField ''slug'' 128)) (checkSlug inst),
       org_post ''updateOrganization'' ''/organization/update'' changes updateOrganizationValidator (on updateOrganization),
       org_post ''deleteOrganization'' ''/organization/delete'' sensitive
         (objectValidator (requiredStringField ''organizationId'' 512)) (on deleteOrganization),
       org_get ''getFullOrganization'' ''/organization/get-full-organization'' session organizationQueryValidator
         (getFullOrganization inst),
       org_post ''setActiveOrganization'' ''/organization/set-active'' changes nullableOrganizationValidator
         (on setActiveOrganization),
       org_get ''listOrganizations'' ''/organization/list'' session (paginationQueryValidator []) (listOrganizations inst),
       org_post ''removeMember'' ''/organization/remove-member'' sensitive (memberMutationValidator ''memberId'')
         (on removeMember),
       org_post ''updateMemberRole'' ''/organization/update-member-role'' sensitive updateMemberRoleValidator
         (on updateMemberRole),
       org_get ''getActiveMember'' ''/organization/get-active-member'' session organizationQueryValidator
         (getActiveMember inst),
       org_post ''leaveOrganization'' ''/organization/leave'' sensitive
         (objectValidator (requiredStringField ''organizationId'' 512)) (on leaveOrganization),
       org_get ''listMembers'' ''/organization/list-members'' session pagedOrganizationQueryValidator (listMembers inst),
       org_get ''getActiveMemberRole'' ''/organization/get-active-member-role'' session organizationQueryValidator
         (getActiveMemberRole inst),
       org_post ''inviteMember'' ''/organization/invite-member'' changes
         (inviteMemberValidator parse (sv_ParseAddress (srv_services (or_server inst)))) (on inviteMember),
       org_post ''acceptInvitation'' ''/organization/accept-invitation'' changes
         (objectValidator (requiredStringField ''invitationId'' 512)) (on acceptInvitation),
       org_post ''rejectInvitation'' ''/organization/reject-invitation'' changes
         (objectValidator (requiredStringField ''invitationId'' 512)) (on rejectInvitation),
       org_post ''cancelInvitation'' ''/organization/cancel-invitation'' changes
         (objectValidator (requiredStringField ''invitationId'' 512)) (on cancelInvitation),
       org_get ''getInvitation'' ''/organization/get-invitation'' session
         (objectValidator (requiredStringField ''invitationId'' 512)) (getInvitation inst),
       org_get ''listInvitations'' ''/organization/list-invitations'' session pagedOrganizationQueryValidator
         (listInvitations inst),
       org_get ''listUserInvitations'' ''/organization/list-user-invitations'' session (paginationQueryValidator [])
         (listUserInvitations inst),
       org_post ''createTeam'' ''/organization/create-team'' changes (teamMutationValidator True) (on createTeam),
       org_post ''removeTeam'' ''/organization/remove-team'' sensitive teamIDValidator (on removeTeam),
       org_post ''updateTeam'' ''/organization/update-team'' changes updateTeamValidator (on updateTeam),
       org_get ''listTeams'' ''/organization/list-teams'' session pagedOrganizationQueryValidator (listTeams inst),
       org_post ''setActiveTeam'' ''/organization/set-active-team'' changes nullableTeamValidator (on setActiveTeam),
       org_get ''listUserTeams'' ''/organization/list-user-teams'' session pagedOrganizationQueryValidator
         (listUserTeams inst),
       org_get ''listTeamMembers'' ''/organization/list-team-members'' session
         (paginationQueryValidator (requiredStringField ''teamId'' 512)) (listTeamMembers inst),
       org_post ''addTeamMember'' ''/organization/add-team-member'' changes teamMemberValidator (on addTeamMember),
       org_post ''removeTeamMember'' ''/organization/remove-team-member'' changes teamMemberValidator (on removeTeamMember),
       org_post ''hasPermission'' ''/organization/has-permission'' session hasPermissionValidator (hasPermission inst),
       org_post ''createOrganizationRole'' ''/organization/create-role'' sensitive roleCreateValidator (on createRole),
       org_post ''deleteOrganizationRole'' ''/organization/delete-role'' sensitive roleMutationValidator (on deleteRole),
       org_get ''listOrganizationRoles'' ''/organization/list-roles'' session pagedOrganizationQueryValidator (listRoles inst),
       org_get ''getOrganizationRole'' ''/organization/get-role'' session roleQueryValidator (getRole inst),
       org_post ''updateOrganizationRole'' ''/organization/update-role'' sensitive roleUpdateValidator (on updateRole)])"

definition org_rateLimit :: "(HookContext \<Rightarrow> Request) \<Rightarrow> 'd PluginRateLimitRule" where
  "org_rateLimit requestOf =
     \<lparr>prl_Matcher = Some (\<lambda>c w. (Some (HasPrefix (cx_Path c) ''/organization/'' \<and> rq_Method (requestOf c) = ''POST''), c, w)),
      prl_Action = ''organization.mutation'',
      prl_AccountKey = Some (\<lambda>c w. (Some (case cx_User c of Some user \<Rightarrow> u_ID user | None \<Rightarrow> ''''), c, w)),
      prl_Window = 60 * 1000000000, prl_Max = 60\<rparr>"

definition org_plugin :: "(string \<Rightarrow> number_class option) \<Rightarrow> 'd OrgRuntime \<Rightarrow> (HookContext \<Rightarrow> Request) \<Rightarrow> 'd Plugin" where
  "org_plugin parse inst requestOf =
     \<lparr>pl_ID = ''organization'', pl_Dependencies = [], pl_Init = None, pl_Schema = Some (or_schema inst),
      pl_Endpoints = org_endpoints parse inst requestOf, pl_Middlewares = [], pl_Before = [], pl_After = [], pl_OnRequest = None,
      pl_OnResponse = None, pl_TrustedOrigins = [], pl_RateLimits = [org_rateLimit requestOf]\<rparr>"

end
