(* ===== verification/Configuration.thy ===== *)
theory Configuration
  imports Pipeline_Theorems Schema_Theorems Server_Theorems
begin

text \<open>
  The configuration of a server, \<open>config.go\<close>: the defaults, checks and initialization of \<open>normalized\<close>.
  A default that is a service (clock, token source, limiter, background runner) has no field here.
\<close>

section \<open>The configuration of an application\<close>

text \<open>
  \<open>Config\<close> as the application gives it: the fields the server reads later (\<open>raw_cfg\<close>, where the schema is
  the application's extension) and those that only \<open>normalized\<close> reads. A nil interface is \<open>None\<close> or a flag
  that is off; \<open>raw_WithSchema\<close> is the adapter's optional method, \<open>raw_Argon\<close> the error of building the
  default password verifier.
\<close>

record 'd RawConfig =
  raw_cfg :: "'d Config"
  raw_Database :: "'d database_adapter option"
  raw_Capabilities :: AdapterCapabilities
  raw_WithSchema :: "(Schema \<Rightarrow> go_error + 'd database_adapter) option"
  raw_Plugins :: "'d Plugin list"
  raw_TrustedOrigins :: "string list"
  raw_TrustedOriginResolver :: bool
  raw_TrustedProviderResolver :: bool
  raw_Mailer :: bool
  raw_ImpersonationAuthorizer :: bool
  raw_Passwords :: bool
  raw_Argon :: "int \<Rightarrow> go_error option"
  raw_ProviderTokenCipher :: bool
  raw_SocialProviders :: "(string \<times> OAuthProvider option) list"
  raw_AllowedRedirectURLs :: "string list"
  raw_CookiePath :: string
  raw_ProviderTimeout :: gtime
  raw_MaxRequestBytes :: int
  raw_MaxResponseBytes :: int

definition seconds_of :: "int \<Rightarrow> gtime" where "seconds_of n = n * 1000000000"
definition minutes :: "int \<Rightarrow> gtime" where "minutes n = seconds_of (60 * n)"
definition hours :: "int \<Rightarrow> gtime" where "hours n = minutes (60 * n)"
definition days :: "int \<Rightarrow> gtime" where "days n = hours (24 * n)"

text \<open>The checks are computations without a state; \<open>orZero\<close> is the default of a field left zero.\<close>

definition refuse :: "bool \<Rightarrow> string \<Rightarrow> go_error + unit" where
  "refuse b text = (if b then Inl (ErrText text) else Inr ())"

definition orZero :: "int \<Rightarrow> int \<Rightarrow> int" where "orZero v d = (if v = 0 then d else v)"

definition orEmpty :: "string \<Rightarrow> string \<Rightarrow> string" where "orEmpty v d = (if v = '''' then d else v)"

lemma refuse_Inr: "refuse b text = Inr u \<longleftrightarrow> \<not> b"
  by (simp add: refuse_def)

section \<open>Parts\<close>

text \<open>The base path and the public URL.\<close>

definition normalize_urls :: "NetLib \<Rightarrow> 'd Config \<Rightarrow> go_error + 'd Config" where
  "normalize_urls nl cfg =
     (let basePath = cleanAbsolutePath (orEmpty (cfg_BasePath cfg) ''/api/auth'') in
      bindE (refuse (basePath = ''/'') ''betterauth: base path may not be root'') (\<lambda>_.
      bindE (refuse (cfg_PublicURL cfg = '''') ''betterauth: public URL is required'') (\<lambda>_.
      case validateHTTPSURL nl (cfg_PublicURL cfg) False of
        Inl e \<Rightarrow> Inl (ErrWrap ''betterauth: public URL'' e)
      | Inr u \<Rightarrow> Inr (cfg\<lparr>cfg_BasePath := basePath, cfg_PublicURL := TrimSuffix (nl_String nl u) ''/''\<rparr>))))"

text \<open>\<open>normalizeAdminConfig\<close>: roles and user ids are trimmed, checked and kept once.\<close>

definition add_admin_role :: "string list \<Rightarrow> string \<Rightarrow> go_error + string list" where
  "add_admin_role roles raw =
     (let role = ToLower (TrimSpace raw) in
      if \<not> validRoleName role then Inl (ErrText ''betterauth: invalid admin role'')
      else Inr (if role \<in> set roles then roles else roles @ [role]))"

definition add_admin_id :: "string list \<Rightarrow> string \<Rightarrow> go_error + string list" where
  "add_admin_id ids raw =
     (let v = TrimSpace raw in
      if v = '''' \<or> length v > 512 then Inl (ErrText ''betterauth: invalid admin user ID'')
      else Inr (if v \<in> set ids then ids else ids @ [v]))"

definition normalizeAdminConfig :: "AdminConfig \<Rightarrow> go_error + AdminConfig" where
  "normalizeAdminConfig config =
     (let role = orEmpty (ToLower (TrimSpace (ad_DefaultRole config))) ''user'' in
      bindE (refuse (\<not> validRoleName role) ''betterauth: invalid default admin role'') (\<lambda>_.
      bindE (foldE add_admin_role [] (ad_AdminRoles config)) (\<lambda>roles.
      let roles = (if ad_RoleResolver config \<noteq> None \<and> roles = [] then [''admin''] else roles) in
      bindE (refuse (roles \<noteq> [] \<and> ad_RoleResolver config = None)
             ''betterauth: admin role resolver is required when admin roles are configured'') (\<lambda>_.
      bindE (foldE add_admin_id [] (ad_AdminUserIDs config)) (\<lambda>ids.
        Inr (config\<lparr>ad_DefaultRole := role, ad_AdminRoles := roles, ad_AdminUserIDs := ids\<rparr>))))))"

definition normalize_cookies :: "CookieConfig \<Rightarrow> string \<Rightarrow> go_error + CookieConfig" where
  "normalize_cookies ck path =
     (let name = orEmpty (ck_Name ck) ''__Host-better_auth_session'';
          csrf = orEmpty (ck_CSRFName ck) ''__Host-better_auth_csrf'';
          sameSite = orZero (ck_SameSite ck) 2 in
      bindE (refuse (\<not> HasPrefix name ''__Host-'' \<or> \<not> HasPrefix csrf ''__Host-'')
             ''betterauth: cookie names must use the __Host- prefix'') (\<lambda>_.
      bindE (refuse (orEmpty path ''/'' \<noteq> ''/'') ''betterauth: __Host- cookies require path /'') (\<lambda>_.
      bindE (refuse (sameSite \<noteq> 2 \<and> sameSite \<noteq> 3) ''betterauth: SameSite must be Lax or Strict'') (\<lambda>_.
        Inr (ck\<lparr>ck_Name := name, ck_CSRFName := csrf, ck_SameSite := sameSite\<rparr>)))))"

text \<open>
  The durations. The last check visits the four lifetimes in the order of a Go map, so any of their names may be
  the one reported.
\<close>

definition normalize_durations :: "'d RawConfig \<Rightarrow> go_error + 'd RawConfig" where
  "normalize_durations raw =
     (let cfg = raw_cfg raw;
          session = orZero (cfg_SessionDuration cfg) (days 30);
          fresh = orZero (cfg_SessionFreshAge cfg) (hours 24);
          impersonation = orZero (cfg_ImpersonationDuration cfg) (hours 1);
          reset = orZero (cfg_PasswordResetTTL cfg) (hours 1);
          verification = orZero (cfg_EmailVerificationTTL cfg) (hours 1);
          deletion = orZero (cfg_DeleteUserTTL cfg) (hours 24);
          state = orZero (cfg_OAuthStateTTL cfg) (minutes 10);
          timeout = orZero (raw_ProviderTimeout raw) (seconds_of 15) in
      bindE (refuse (session < minutes 5 \<or> session > days 365) ''betterauth: session duration is out of bounds'') (\<lambda>_.
      bindE (refuse (fresh < minutes 1 \<or> fresh > days 30) ''betterauth: session fresh age is out of bounds'') (\<lambda>_.
      bindE (refuse (impersonation \<le> 0 \<or> impersonation > hours 1)
             ''betterauth: impersonation duration must not exceed one hour'') (\<lambda>_.
      bindE (refuse (timeout < seconds_of 1 \<or> timeout > minutes 1) ''betterauth: provider timeout is out of bounds'') (\<lambda>_.
      bindE (refuse (list_ex (\<lambda>v. v < minutes 1 \<or> v > days 7) [reset, verification, deletion, state])
             ''betterauth: TTL is out of bounds'') (\<lambda>_.
        Inr (raw\<lparr>raw_ProviderTimeout := timeout,
          raw_cfg := cfg\<lparr>cfg_SessionDuration := session, cfg_SessionFreshAge := fresh,
            cfg_ImpersonationDuration := impersonation, cfg_PasswordResetTTL := reset,
            cfg_EmailVerificationTTL := verification, cfg_DeleteUserTTL := deletion, cfg_OAuthStateTTL := state\<rparr>\<rparr>)))))))"

definition defaultMaxPasswordBytes :: int where "defaultMaxPasswordBytes = 128"

definition normalize_limits :: "'d RawConfig \<Rightarrow> go_error + 'd RawConfig" where
  "normalize_limits raw =
     (let cfg = raw_cfg raw;
          request = orZero (raw_MaxRequestBytes raw) (64 * 1024);
          response = orZero (raw_MaxResponseBytes raw) (1024 * 1024);
          shortest = orZero (cfg_MinPasswordBytes cfg) 8;
          longest = orZero (cfg_MaxPasswordBytes cfg) defaultMaxPasswordBytes in
      bindE (refuse (um_SendDeleteAccountVerification (cfg_User cfg) \<and> \<not> um_DeleteUserEnabled (cfg_User cfg))
             ''betterauth: delete verification requires user deletion to be enabled'') (\<lambda>_.
      bindE (refuse (request < 1024 \<or> request > 1024 * 1024) ''betterauth: max request bytes is out of bounds'') (\<lambda>_.
      bindE (refuse (response < 1024 \<or> response > 16 * 1024 * 1024) ''betterauth: max response bytes is out of bounds'') (\<lambda>_.
      bindE (refuse (shortest < 8 \<or> longest < shortest \<or> longest > 1024 * 1024)
             ''betterauth: password length policy is invalid'') (\<lambda>_.
      case (if raw_Passwords raw then None else raw_Argon raw longest) of
        Some e \<Rightarrow> Inl e
      | None \<Rightarrow>
        Inr (raw\<lparr>raw_MaxRequestBytes := request, raw_MaxResponseBytes := response,
          raw_cfg := cfg\<lparr>cfg_MinPasswordBytes := shortest, cfg_MaxPasswordBytes := longest\<rparr>\<rparr>))))))"

text \<open>The redirect URLs, the social providers and the trusted providers.\<close>

definition add_return :: "NetLib \<Rightarrow> string list \<Rightarrow> string \<Rightarrow> go_error + string list" where
  "add_return nl returns url =
     (case validateHTTPSURL nl url True of
        Inl e \<Rightarrow> Inl (ErrWrap ''betterauth: allowed redirect URL'' e)
      | Inr u \<Rightarrow> Inr (returns @ [nl_String nl u]))"

definition add_trusted_provider ::
  "(string \<times> OAuthProvider option) list \<Rightarrow> string list \<Rightarrow> string \<Rightarrow> go_error + string list" where
  "add_trusted_provider providers trusted text =
     (let providerID = ToLower (TrimSpace text) in
      if \<not> validProviderID providerID then Inl (ErrText ''betterauth: invalid trusted provider'')
      else if map_of providers providerID = None \<and> providerID \<noteq> ''email-password''
      then Inl (ErrText ''betterauth: trusted provider is not configured'')
      else Inr (if providerID \<in> set trusted then trusted else trusted @ [providerID]))"

definition normalize_providers :: "NetLib \<Rightarrow> 'd RawConfig \<Rightarrow> go_error + 'd RawConfig" where
  "normalize_providers nl raw =
     (let providers = raw_SocialProviders raw; account = cfg_Account (raw_cfg raw) in
      bindE (refuse (providers \<noteq> [] \<and> raw_AllowedRedirectURLs raw = [])
             ''betterauth: allowed redirect URLs are required when social providers are configured'') (\<lambda>_.
      bindE (refuse (providers \<noteq> [] \<and> \<not> raw_ProviderTokenCipher raw)
             ''betterauth: provider token cipher is required when social providers are configured'') (\<lambda>_.
      bindE (foldE (add_return nl) [] (raw_AllowedRedirectURLs raw)) (\<lambda>returns.
      bindE (refuse (list_ex (\<lambda>(providerID, provider). provider = None \<or> \<not> validProviderID providerID) providers)
             ''betterauth: invalid social provider'') (\<lambda>_.
      bindE (refuse (raw_TrustedProviderResolver raw \<and> am_TrustedProviders account \<noteq> [])
             ''betterauth: static and request-resolved trusted providers are mutually exclusive'') (\<lambda>_.
      bindE (foldE (add_trusted_provider providers) [] (am_TrustedProviders account)) (\<lambda>trusted.
        Inr (raw\<lparr>raw_AllowedRedirectURLs := returns,
          raw_cfg := (raw_cfg raw)\<lparr>cfg_Account := account\<lparr>am_TrustedProviders := trusted\<rparr>\<rparr>\<rparr>))))))))"

section \<open>The whole\<close>

text \<open>The adapter with the merged schema, behind the schema adapter.\<close>

definition configure_database ::
  "codecs \<Rightarrow> 'd RawConfig \<Rightarrow> 'd database_adapter \<Rightarrow> Schema \<Rightarrow> go_error + 'd database_adapter" where
  "configure_database cd raw db schema =
     bindE (validateSchema schema) (\<lambda>_.
     bindE (case raw_WithSchema raw of
             None \<Rightarrow> Inr db
           | Some f \<Rightarrow>
               (case f schema of Inl e \<Rightarrow> Inl (ErrWrap ''betterauth: configure database schema'' e) | Inr db \<Rightarrow> Inr db)) (\<lambda>db.
       WrapDatabaseAdapter cd (raw_Capabilities raw) (Some db) schema))"

text \<open>The checks behind the initialization of the plugins, none of which reads the database.\<close>

definition normalize_rest :: "NetLib \<Rightarrow> 'd RawConfig \<Rightarrow> go_error + 'd RawConfig \<times> trustedOriginPolicy" where
  "normalize_rest nl raw =
     bindE (refuse (\<not> raw_Mailer raw) ''betterauth: mailer is required'') (\<lambda>_.
     bindE (refuse (\<not> raw_ImpersonationAuthorizer raw) ''betterauth: impersonation authorizer is required'') (\<lambda>_.
     bindE (normalizeAdminConfig (cfg_Admin (raw_cfg raw))) (\<lambda>admin.
     bindE (refuse (raw_TrustedOrigins raw = [] \<and> \<not> raw_TrustedOriginResolver raw)
            ''betterauth: at least one trusted origin or a trusted-origin resolver is required'') (\<lambda>_.
     case compileTrustedOriginPolicy nl (raw_TrustedOrigins raw) of
       Inl e \<Rightarrow> Inl (ErrWrap ''betterauth: trusted origins'' e)
     | Inr origins \<Rightarrow>
         bindE (normalize_cookies (cfg_Cookie (raw_cfg raw)) (raw_CookiePath raw)) (\<lambda>cookie.
         bindE (normalize_durations (raw\<lparr>raw_TrustedOrigins := to_values origins, raw_CookiePath := ''/'',
             raw_cfg := (raw_cfg raw)\<lparr>cfg_Admin := admin, cfg_Cookie := cookie\<rparr>\<rparr>)) (\<lambda>raw.
         bindE (normalize_limits raw) (\<lambda>raw.
         bindE (normalize_providers nl raw) (\<lambda>raw.
           Inr (raw, origins)))))))))"

text \<open>
  \<open>normalized\<close>: the configuration with its plugins in order, the policy of trusted origins; the set \<open>returnTo\<close>
  is the list of redirect URLs. Hooks on the database are put around the adapter behind this.
\<close>

definition normalized ::
  "NetLib \<Rightarrow> codecs \<Rightarrow> 'd RawConfig \<Rightarrow> ('d, 'd RawConfig \<times> trustedOriginPolicy) prog" where
  "normalized nl cd raw =
     (case compilePlugins (raw_Plugins raw) of
        None \<Rightarrow> fail (ErrText ''unreachable'')
      | Some (Inl e) \<Rightarrow> fail e
      | Some (Inr plugins) \<Rightarrow>
      (case raw_Database raw of
        None \<Rightarrow> fail (ErrText ''betterauth: database adapter is required'')
      | Some db \<Rightarrow>
          if \<not> cap_Transactions (raw_Capabilities raw)
          then fail (ErrText ''betterauth: enabled core flows require database transactions'')
          else
            bindM (lift (normalize_urls nl (raw_cfg raw))) (\<lambda>cfg.
            bindM (initializePlugins db (cfg_Schema cfg) (raw_TrustedOrigins raw) (cfg_BasePath cfg) (cfg_PublicURL cfg)
                plugins) (\<lambda>(schema, trustedOrigins).
            bindM (lift (configure_database cd raw db schema)) (\<lambda>wrapped.
              lift (normalize_rest nl (raw\<lparr>raw_Plugins := plugins, raw_TrustedOrigins := trustedOrigins,
                raw_Database := Some wrapped,
                raw_cfg := cfg\<lparr>cfg_Schema := schema, cfg_Database := wrapped\<rparr>\<rparr>)))))))"

text \<open>
  \<open>New\<close>: the host of a configuration, from \<open>normalized\<close> and the compiled runtime of its plugins. The services
  are those of the configuration, \<open>check\<close> is the schema checker of the adapter the application passed in.
\<close>

definition New ::
  "codecs \<Rightarrow> HTTPLib \<Rightarrow> Services \<Rightarrow> (nat \<Rightarrow> check_error option) \<Rightarrow> 'd ServerHooks \<Rightarrow> 'd RawConfig \<Rightarrow> ('d, 'd Host) prog" where
  "New cd lib services check hooks raw =
     bindM (normalized (sv_Net services) cd raw) (\<lambda>(cfg, origins).
     lift (bindE (newPluginRuntime (raw_Plugins cfg) hooks) (\<lambda>plugins.
       Inr \<lparr>ho_server = \<lparr>srv_cfg = raw_cfg cfg, srv_services = services, srv_trustedOrigins = origins,
              srv_allowedReturns = raw_AllowedRedirectURLs cfg\<rparr>,
            ho_plugins = plugins, ho_CheckSchema = check, ho_MaxRequestBytes = raw_MaxRequestBytes cfg,
            ho_MaxResponseBytes = raw_MaxResponseBytes cfg, ho_lib = lib\<rparr>)))"

section \<open>What an accepted configuration is\<close>

lemma normalize_cookies_ok:
  assumes "normalize_cookies ck path = Inr ck'"
  shows "HasPrefix (ck_Name ck') ''__Host-'' \<and> HasPrefix (ck_CSRFName ck') ''__Host-'' \<and> ck_SameSite ck' \<in> {2, 3}"
  using assms by (auto simp: normalize_cookies_def Let_def bindE_Inr refuse_Inr)

definition durations_ok :: "'d RawConfig \<Rightarrow> bool" where
  "durations_ok raw \<longleftrightarrow>
     (let cfg = raw_cfg raw in
      minutes 5 \<le> cfg_SessionDuration cfg \<and> cfg_SessionDuration cfg \<le> days 365 \<and>
      minutes 1 \<le> cfg_SessionFreshAge cfg \<and> cfg_SessionFreshAge cfg \<le> days 30 \<and>
      0 < cfg_ImpersonationDuration cfg \<and> cfg_ImpersonationDuration cfg \<le> hours 1 \<and>
      seconds_of 1 \<le> raw_ProviderTimeout raw \<and> raw_ProviderTimeout raw \<le> minutes 1 \<and>
      (\<forall>ttl \<in> {cfg_PasswordResetTTL cfg, cfg_EmailVerificationTTL cfg, cfg_DeleteUserTTL cfg, cfg_OAuthStateTTL cfg}.
         minutes 1 \<le> ttl \<and> ttl \<le> days 7))"

definition limits_ok :: "'d RawConfig \<Rightarrow> bool" where
  "limits_ok raw \<longleftrightarrow>
     1024 \<le> raw_MaxRequestBytes raw \<and> raw_MaxRequestBytes raw \<le> 1024 * 1024 \<and>
     1024 \<le> raw_MaxResponseBytes raw \<and> raw_MaxResponseBytes raw \<le> 16 * 1024 * 1024 \<and>
     8 \<le> cfg_MinPasswordBytes (raw_cfg raw) \<and> cfg_MinPasswordBytes (raw_cfg raw) \<le> cfg_MaxPasswordBytes (raw_cfg raw) \<and>
     cfg_MaxPasswordBytes (raw_cfg raw) \<le> 1024 * 1024"

lemma normalize_durations_ok:
  assumes "normalize_durations raw = Inr raw'"
  shows "durations_ok raw' \<and> cfg_Cookie (raw_cfg raw') = cfg_Cookie (raw_cfg raw) \<and>
    cfg_Admin (raw_cfg raw') = cfg_Admin (raw_cfg raw) \<and> raw_TrustedOrigins raw' = raw_TrustedOrigins raw \<and>
    raw_TrustedOriginResolver raw' = raw_TrustedOriginResolver raw"
  using assms by (auto simp: normalize_durations_def durations_ok_def Let_def bindE_Inr refuse_Inr not_less not_le)

lemma normalize_limits_ok:
  assumes "normalize_limits raw = Inr raw'"
  shows "limits_ok raw' \<and> (durations_ok raw \<longrightarrow> durations_ok raw') \<and>
    cfg_Cookie (raw_cfg raw') = cfg_Cookie (raw_cfg raw) \<and> cfg_Admin (raw_cfg raw') = cfg_Admin (raw_cfg raw) \<and>
    raw_TrustedOrigins raw' = raw_TrustedOrigins raw \<and> raw_TrustedOriginResolver raw' = raw_TrustedOriginResolver raw"
  using assms by (auto simp: normalize_limits_def limits_ok_def durations_ok_def Let_def bindE_Inr refuse_Inr not_less not_le
      split: option.splits if_splits)

definition admin_ok :: "AdminConfig \<Rightarrow> bool" where
  "admin_ok ad \<longleftrightarrow> validRoleName (ad_DefaultRole ad) \<and> list_all validRoleName (ad_AdminRoles ad) \<and>
     distinct (ad_AdminRoles ad) \<and> distinct (ad_AdminUserIDs ad) \<and>
     list_all (\<lambda>v. v \<noteq> '''' \<and> length v \<le> 512) (ad_AdminUserIDs ad) \<and>
     (ad_AdminRoles ad = [] \<longleftrightarrow> ad_RoleResolver ad = None)"

lemma normalizeAdminConfig_ok:
  assumes "normalizeAdminConfig ad = Inr ad'"
  shows "admin_ok ad'"
proof -
  from assms obtain roles ids where roles: "foldE add_admin_role [] (ad_AdminRoles ad) = Inr roles"
    and ids: "foldE add_admin_id [] (ad_AdminUserIDs ad) = Inr ids"
    and ad': "validRoleName (ad_DefaultRole ad')" "ad_RoleResolver ad' = ad_RoleResolver ad" "ad_AdminUserIDs ad' = ids"
      "ad_AdminRoles ad' = (if ad_RoleResolver ad \<noteq> None \<and> roles = [] then [''admin''] else roles)"
      "ad_AdminRoles ad' \<noteq> [] \<longrightarrow> ad_RoleResolver ad \<noteq> None"
    by (auto simp: normalizeAdminConfig_def Let_def bindE_Inr refuse_Inr)
  have "list_all validRoleName roles \<and> distinct roles"
    by (rule foldE_invariant [OF roles]) (auto simp: add_admin_role_def Let_def split: if_splits)
  moreover have "list_all (\<lambda>v. v \<noteq> '''' \<and> length v \<le> 512) ids \<and> distinct ids"
    by (rule foldE_invariant [OF ids]) (auto simp: add_admin_id_def Let_def split: if_splits)
  moreover have "validRoleName ''admin''" by code_simp
  ultimately show ?thesis using ad' by (auto simp: admin_ok_def)
qed

definition providers_ok :: "'d RawConfig \<Rightarrow> bool" where
  "providers_ok raw \<longleftrightarrow>
     list_all (\<lambda>(providerID, provider). provider \<noteq> None \<and> validProviderID providerID) (raw_SocialProviders raw) \<and>
     (raw_SocialProviders raw \<noteq> [] \<longrightarrow> raw_AllowedRedirectURLs raw \<noteq> [] \<and> raw_ProviderTokenCipher raw) \<and>
     distinct (am_TrustedProviders (cfg_Account (raw_cfg raw))) \<and>
     (\<forall>p \<in> set (am_TrustedProviders (cfg_Account (raw_cfg raw))).
        p = ''email-password'' \<or> map_of (raw_SocialProviders raw) p \<noteq> None)"

lemma foldE_returns:
  "foldE (add_return nl) acc urls = Inr res \<Longrightarrow> length res = length acc + length urls"
  by (induction urls arbitrary: acc) (fastforce simp: add_return_def split: sum.splits)+

lemma normalize_providers_ok:
  assumes "normalize_providers nl raw = Inr raw'"
  shows "providers_ok raw' \<and> (durations_ok raw \<longrightarrow> durations_ok raw') \<and> (limits_ok raw \<longrightarrow> limits_ok raw') \<and>
    cfg_Cookie (raw_cfg raw') = cfg_Cookie (raw_cfg raw) \<and> cfg_Admin (raw_cfg raw') = cfg_Admin (raw_cfg raw) \<and>
    raw_TrustedOrigins raw' = raw_TrustedOrigins raw \<and> raw_TrustedOriginResolver raw' = raw_TrustedOriginResolver raw"
proof -
  let ?account = "cfg_Account (raw_cfg raw)"
  from assms obtain returns trusted where
    returns: "foldE (add_return nl) [] (raw_AllowedRedirectURLs raw) = Inr returns"
    and trusted: "foldE (add_trusted_provider (raw_SocialProviders raw)) [] (am_TrustedProviders ?account) = Inr trusted"
    and raw': "raw' = raw\<lparr>raw_AllowedRedirectURLs := returns,
          raw_cfg := (raw_cfg raw)\<lparr>cfg_Account := ?account\<lparr>am_TrustedProviders := trusted\<rparr>\<rparr>\<rparr>"
    and guards: "\<not> list_ex (\<lambda>(providerID, provider). provider = None \<or> \<not> validProviderID providerID) (raw_SocialProviders raw)"
      "\<not> (raw_SocialProviders raw \<noteq> [] \<and> raw_AllowedRedirectURLs raw = [])"
      "\<not> (raw_SocialProviders raw \<noteq> [] \<and> \<not> raw_ProviderTokenCipher raw)"
    by (auto simp: normalize_providers_def Let_def bindE_Inr refuse_Inr)
  have "distinct trusted \<and> (\<forall>p \<in> set trusted. p = ''email-password'' \<or> map_of (raw_SocialProviders raw) p \<noteq> None)"
    by (rule foldE_invariant [OF trusted]) (auto simp: add_trusted_provider_def Let_def split: if_splits)
  moreover have "length returns = length (raw_AllowedRedirectURLs raw)" using foldE_returns [OF returns] by simp
  ultimately show ?thesis
    using guards by (auto simp: raw' providers_ok_def durations_ok_def limits_ok_def Let_def list_ex_iff list_all_iff)
qed

lemma normalize_durations_keeps:
  "normalize_durations raw = Inr raw' \<Longrightarrow>
     raw_Plugins raw' = raw_Plugins raw \<and> cfg_Schema (raw_cfg raw') = cfg_Schema (raw_cfg raw)"
  by (auto simp: normalize_durations_def Let_def bindE_Inr)

lemma normalize_limits_keeps:
  "normalize_limits raw = Inr raw' \<Longrightarrow>
     raw_Plugins raw' = raw_Plugins raw \<and> cfg_Schema (raw_cfg raw') = cfg_Schema (raw_cfg raw)"
  by (auto simp: normalize_limits_def Let_def bindE_Inr split: option.splits)

lemma normalize_providers_keeps:
  "normalize_providers nl raw = Inr raw' \<Longrightarrow>
     raw_Plugins raw' = raw_Plugins raw \<and> cfg_Schema (raw_cfg raw') = cfg_Schema (raw_cfg raw)"
  by (auto simp: normalize_providers_def Let_def bindE_Inr)

lemma normalized_accepted:
  assumes "normalized nl cd raw s = (Inr (raw', origins), s')"
  shows "HasPrefix (ck_Name (cfg_Cookie (raw_cfg raw'))) ''__Host-'' \<and>
    HasPrefix (ck_CSRFName (cfg_Cookie (raw_cfg raw'))) ''__Host-'' \<and> ck_SameSite (cfg_Cookie (raw_cfg raw')) \<in> {2, 3} \<and>
    durations_ok raw' \<and> limits_ok raw' \<and> providers_ok raw' \<and> admin_ok (cfg_Admin (raw_cfg raw')) \<and>
    validateSchema (cfg_Schema (raw_cfg raw')) = Inr () \<and> cap_Transactions (raw_Capabilities raw) \<and>
    raw_TrustedOrigins raw' = to_values origins \<and>
    mset (raw_Plugins raw') = mset (raw_Plugins raw) \<and> in_order (raw_Plugins raw')"
proof -
  obtain plugins where plugins: "compilePlugins (raw_Plugins raw) = Some (Inr plugins)"
    using assms by (auto simp: normalized_def fail_def split: option.splits sum.splits)
  obtain db where db: "raw_Database raw = Some db" and tx: "cap_Transactions (raw_Capabilities raw)"
    using assms plugins by (auto simp: normalized_def fail_def split: option.splits if_splits)
  obtain cfg schema trustedOrigins wrapped where
    schema: "validateSchema schema = Inr ()"
    and rest: "normalize_rest nl (raw\<lparr>raw_Plugins := plugins, raw_TrustedOrigins := trustedOrigins,
        raw_Database := Some wrapped, raw_cfg := cfg\<lparr>cfg_Schema := schema, cfg_Database := wrapped\<rparr>\<rparr>) = Inr (raw', origins)"
    using assms plugins db tx
    by (auto simp: normalized_def lift_def configure_database_def bindE_Inr elim!: bindM_Inr_elim)
  let ?raw = "raw\<lparr>raw_Plugins := plugins, raw_TrustedOrigins := trustedOrigins, raw_Database := Some wrapped,
    raw_cfg := cfg\<lparr>cfg_Schema := schema, cfg_Database := wrapped\<rparr>\<rparr>"
  from rest obtain admin cookie r1 r2 where admin: "normalizeAdminConfig (cfg_Admin (raw_cfg ?raw)) = Inr admin"
    and cookie: "normalize_cookies (cfg_Cookie (raw_cfg ?raw)) (raw_CookiePath ?raw) = Inr cookie"
    and r1: "normalize_durations (?raw\<lparr>raw_TrustedOrigins := to_values origins, raw_CookiePath := ''/'',
        raw_cfg := (raw_cfg ?raw)\<lparr>cfg_Admin := admin, cfg_Cookie := cookie\<rparr>\<rparr>) = Inr r1"
    and r2: "normalize_limits r1 = Inr r2" and r3: "normalize_providers nl r2 = Inr raw'"
    unfolding normalize_rest_def
    by (cases "compileTrustedOriginPolicy nl (raw_TrustedOrigins ?raw)") (auto simp: bindE_Inr)
  have kept: "raw_Plugins raw' = plugins" "cfg_Schema (raw_cfg raw') = schema"
    using normalize_durations_keeps [OF r1] normalize_limits_keeps [OF r2] normalize_providers_keeps [OF r3] by simp_all
  show ?thesis
    using normalize_durations_ok [OF r1] normalize_limits_ok [OF r2] normalize_providers_ok [OF r3]
      normalize_cookies_ok [OF cookie] normalizeAdminConfig_ok [OF admin] schema tx compilePlugins_result [OF plugins] kept
    by simp
qed

section \<open>Property\<close>

text \<open>
  C35. A configuration that \<open>normalized\<close> accepts is one the server can run on: the cookies carry the
  \<open>__Host-\<close> prefix and a strict or lax same-site mode, every duration, size and length is within its bounds,
  administrators, providers and redirect addresses are consistent, the merged schema is valid, the adapter has
  transactions, and the plugins are the configured ones, each behind those it depends on.
\<close>

theorem normalized_config_ok:
  assumes "normalized nl cd raw s = (Inr (raw', origins), s')"
  shows "HasPrefix (ck_Name (cfg_Cookie (raw_cfg raw'))) ''__Host-'' \<and>
    HasPrefix (ck_CSRFName (cfg_Cookie (raw_cfg raw'))) ''__Host-'' \<and> ck_SameSite (cfg_Cookie (raw_cfg raw')) \<in> {2, 3} \<and>
    durations_ok raw' \<and> limits_ok raw' \<and> providers_ok raw' \<and> admin_ok (cfg_Admin (raw_cfg raw')) \<and>
    validateSchema (cfg_Schema (raw_cfg raw')) = Inr () \<and> cap_Transactions (raw_Capabilities raw) \<and>
    raw_TrustedOrigins raw' = to_values origins \<and>
    mset (raw_Plugins raw') = mset (raw_Plugins raw) \<and> in_order (raw_Plugins raw')"
  by (rule normalized_accepted [OF assms])

text \<open>A configuration with every default left to \<open>normalized\<close>, over the schema of the core.\<close>

definition ex_raw :: "mem RawConfig" where
  "ex_raw = \<lparr>raw_cfg = ex_config\<lparr>cfg_BasePath := '''', cfg_Schema := [],
       cfg_Cookie := \<lparr>ck_Name = '''', ck_CSRFName = '''', ck_SameSite = 0\<rparr>,
       cfg_Admin := (cfg_Admin ex_config)\<lparr>ad_AdminRoles := []\<rparr>,
       cfg_SessionDuration := 0, cfg_SessionFreshAge := 0, cfg_ImpersonationDuration := 0, cfg_PasswordResetTTL := 0,
       cfg_EmailVerificationTTL := 0, cfg_DeleteUserTTL := 0, cfg_OAuthStateTTL := 0, cfg_MinPasswordBytes := 0,
       cfg_MaxPasswordBytes := 0\<rparr>,
     raw_Database = Some core_db, raw_Capabilities = memory_caps, raw_WithSchema = None, raw_Plugins = [],
     raw_TrustedOrigins = [], raw_TrustedOriginResolver = True, raw_TrustedProviderResolver = False, raw_Mailer = True,
     raw_ImpersonationAuthorizer = True, raw_Passwords = True, raw_Argon = (\<lambda>_. None), raw_ProviderTokenCipher = False,
     raw_SocialProviders = [], raw_AllowedRedirectURLs = [], raw_CookiePath = '''', raw_ProviderTimeout = 0,
     raw_MaxRequestBytes = 0, raw_MaxResponseBytes = 0\<rparr>"

lemma ex_urls:
  "normalize_urls ex_net (raw_cfg ex_raw) =
     Inr ((raw_cfg ex_raw)\<lparr>cfg_BasePath := ''/api/auth'', cfg_PublicURL := ''https://x.io''\<rparr>)"
proof -
  have "cleanAbsolutePath ''/api/auth'' = ''/api/auth''" "\<not> strings_Contains ''https://x.io'' ''*''"
    "ToLower ''https://x.io'' = ''https://x.io''" "TrimSuffix ''https://x.io'' ''/'' = ''https://x.io''" by code_simp+
  then show ?thesis
    by (simp add: normalize_urls_def ex_raw_def ex_config_def orEmpty_def refuse_def validateHTTPSURL_def ex_net_def Let_def)
qed

lemma ex_rest:
  assumes "cfg = raw_cfg ex_raw"
  shows "\<exists>raw' origins. normalize_rest ex_net (ex_raw\<lparr>raw_Plugins := [], raw_TrustedOrigins := [], raw_Database := Some db,
      raw_cfg := cfg\<lparr>cfg_BasePath := bp, cfg_PublicURL := pub, cfg_Schema := schema, cfg_Database := db\<rparr>\<rparr>) = Inr (raw', origins)"
proof -
  have texts: "ToLower (TrimSpace ''user'') = ''user''" "validRoleName ''user''" "TrimSpace ''u1'' = ''u1''"
    "HasPrefix ''__Host-better_auth_session'' ''__Host-''" "HasPrefix ''__Host-better_auth_csrf'' ''__Host-''"
    by code_simp+
  show ?thesis unfolding assms
    by (simp add: texts normalize_rest_def ex_raw_def ex_config_def refuse_def normalizeAdminConfig_def add_admin_id_def
        orEmpty_def orZero_def compileTrustedOriginPolicy_def normalize_cookies_def normalize_durations_def
        normalize_limits_def normalize_providers_def defaultMaxPasswordBytes_def days_def hours_def minutes_def
        seconds_of_def)
qed

theorem normalized_config_ok_witness:
  "\<exists>raw' origins. normalized ex_net ex_codecs ex_raw empty_mem = (Inr (raw', origins), empty_mem) \<and>
     durations_ok raw' \<and> limits_ok raw' \<and> validateSchema (cfg_Schema (raw_cfg raw')) = Inr ()"
proof -
  obtain db where db: "configure_database ex_codecs ex_raw core_db CoreSchema = Inr db"
    by (simp add: configure_database_def core_schema_valid ex_raw_def WrapDatabaseAdapter_def)
  obtain raw' origins where rest: "normalize_rest ex_net (ex_raw\<lparr>raw_Plugins := [], raw_TrustedOrigins := [],
      raw_Database := Some db, raw_cfg := (raw_cfg ex_raw)\<lparr>cfg_BasePath := ''/api/auth'', cfg_PublicURL := ''https://x.io'',
        cfg_Schema := CoreSchema, cfg_Database := db\<rparr>\<rparr>) = Inr (raw', origins)"
    using ex_rest [OF refl] by blast
  have fields: "raw_Plugins ex_raw = []" "raw_Database ex_raw = Some core_db" "cap_Transactions (raw_Capabilities ex_raw)"
    "raw_TrustedOrigins ex_raw = []" "cfg_Schema (raw_cfg ex_raw) = []"
    by (simp_all add: ex_raw_def memory_caps_def)
  have eq: "normalized ex_net ex_codecs ex_raw empty_mem = (Inr (raw', origins), empty_mem)"
    by (simp add: normalized_def fields compilePlugins_def ex_urls lift_def bindM_def initializePlugins_def MergeSchema_def
        ret_def db rest)
  from normalized_config_ok [OF eq] eq show ?thesis by blast
qed

text \<open>A host that \<open>New\<close> returns has the limits of an accepted configuration.\<close>

lemma New_limits:
  assumes "New cd lib services check hooks raw s = (Inr host, s')"
  shows "1024 \<le> ho_MaxRequestBytes host \<and> ho_MaxRequestBytes host \<le> 1024 * 1024 \<and>
    1024 \<le> ho_MaxResponseBytes host \<and> ho_MaxResponseBytes host \<le> 16 * 1024 * 1024 \<and>
    (\<exists>plugins. mset plugins = mset (raw_Plugins raw) \<and> in_order plugins \<and>
       newPluginRuntime plugins hooks = Inr (ho_plugins host))"
proof -
  obtain cfg origins s1 where cfg: "normalized (sv_Net services) cd raw s = (Inr (cfg, origins), s1)"
    and host: "newPluginRuntime (raw_Plugins cfg) hooks = Inr (ho_plugins host)"
      "ho_MaxRequestBytes host = raw_MaxRequestBytes cfg" "ho_MaxResponseBytes host = raw_MaxResponseBytes cfg"
    using assms by (auto simp: New_def lift_def bindE_Inr elim!: bindM_Inr_elim)
  show ?thesis using normalized_accepted [OF cfg] host by (auto simp: limits_ok_def)
qed

end
