(* ===== verification/Findings.thy ===== *)
theory Findings
  imports Store_Theorems
begin

text \<open>
  Behaviour of the code that differs from what its comments or its callers expect.
\<close>

text \<open>
  C28. \<open>FindPasswordCredential\<close> of a user without a password account: the adapter's \<open>FindOne\<close> returns
  no row and no error, and the empty row has no password. The error is not \<open>ErrNotFound\<close>, which
  \<open>VerifyPassword\<close> and \<open>handleDeleteUser\<close> test for.
\<close>

theorem missing_credential_not_ErrNotFound:
  assumes "core_inv s" and "hits (mem_table s ModelAccount) (credentialIdentityWhere uid) = {}"
  shows "\<exists>e. FindPasswordCredential core_db uid s = (Inl e, s) \<and> \<not> errors_Is e ErrNotFound"
proof -
  have inv: "mem_inv (Some (rulesFromSchema CoreSchema)) s" using assms(1) by (simp add: core_inv_def)
  have v: "ValidateWhere (credentialIdentityWhere uid) True = Inr (credentialIdentityWhere uid)"
    by (simp add: credentialIdentityWhere_def accountKeyWhere_def where_simps)
  from inv v show ?thesis
  proof (cases rule: core.findOne_step [where m = ModelAccount])
    case none
    then show ?thesis
      by (simp add: FindPasswordCredential_def bindM_def orNil_def recordString_def lift_def)
  next
    case (some i r)
    with assms(2) show ?thesis by (auto simp: hits_def)
  qed
qed

text \<open>A user who signed in with a provider only: no password account in a reachable state.\<close>

theorem missing_credential_example:
  "\<exists>e. FindPasswordCredential core_db ''u9'' ex_state = (Inl e, ex_state) \<and> \<not> errors_Is e ErrNotFound"
  by (rule missing_credential_not_ErrNotFound [OF ex_inv])
    (auto simp: hits_def credentialIdentityWhere_def accountKeyWhere_def where_simps row_defs ex_defs split: if_splits)

end
