(* ===== verification/Spec2Isabelle.thy ===== *)
theory Spec2Isabelle
  imports Schema_Theorems Store_Theorems Server_Theorems Schema_Gate Outbox Hooks_Refinement One_Time_Token Organization_Plugin Configuration Findings
begin

text \<open>
  Verification of better-auth-go, an authentication server: an HTTP server with the endpoints for
  sign-up, sign-in, sessions, accounts, recovery and social providers, over a typed store, over a
  database adapter with dynamic rows.

  \<^bold>\<open>The program and its parts.\<close> A request arrives at \<open>ServeHTTP\<close> (\<open>server.go\<close>), is routed to a
  handler (\<open>handlers_*.go\<close>), and the handler calls the store (\<open>store.go\<close>, interface
  \<open>authStore\<close> of \<open>ports.go\<close>). The store turns its typed values into rows and calls the methods of a
  \<open>DatabaseAdapter\<close> (\<open>database.go\<close>). Between the two, \<open>New\<close> puts two wrappers: the schema adapter
  (\<open>schema_adapter.go\<close>), which renames models and fields and converts values the database has no type
  for, and the hooked adapter (\<open>database_hooks.go\<close>), which runs the hooks of plugins around every write.
  The adapter modelled is the one in memory (\<open>adapter/memory/memory.go\<close>). Beside the requests, the
  outbox dispatcher (\<open>outbox.go\<close>) delivers the events the store has written, and the schema check
  (\<open>schema_check.go\<close>) compares the tables of the database with the schema before the first request.

  \<^bold>\<open>How the code is modelled.\<close> A Go function that returns an error is a computation of the type
  \<open>'s m\<close> of \<^theory_text>\<open>Prelude\<close>: from a state to an error or a value, with the state after it, so that an early
  \<open>return err\<close> is \<open>throw\<close> and keeps the writes made before it. A struct is a record, a \<open>map[string]any\<close>
  a partial map to a datatype of the dynamic types the code stores, a Go map that is ranged over an
  association list in any order the range may take. Times are integers in nanoseconds. The text of an
  error keeps its constant part; the quoted names in it are dropped. A nil map and an empty one are the
  same. Services an application injects (clock, token source, hasher, mailer, limiter, role resolver,
  hooks, providers) and the packages outside the repository (\<open>net/url\<close>, \<open>idna\<close>, the formats of \<open>time\<close>
  and \<open>encoding/json\<close>) are functions in records of parameters; each service takes the number of
  external calls so far, so that it may answer differently every time. What a theorem needs of them is a
  hypothesis of the theorem.
\<close>

section \<open>The theories\<close>

text \<open>
  \<^item> \<^theory_text>\<open>Prelude\<close>: errors (\<open>errors.go\<close>), computations and their rules, \<open>strings\<close> and \<open>strconv\<close>.
  \<^item> \<^theory_text>\<open>Go_Values\<close>, \<^theory_text>\<open>Schema\<close>: dynamic values, predicates and queries (\<open>database.go\<close>); models, fields,
    \<open>CoreSchema\<close>, \<open>MergeSchema\<close> and \<open>validateSchema\<close> (\<open>schema.go\<close>, \<open>schema_adapter.go\<close>).
  \<^item> \<^theory_text>\<open>Adapter\<close>: the interface \<open>DatabaseAdapter\<close> as a record of methods, and its contract as a locale.
    \<^theory_text>\<open>Memory\<close>, \<^theory_text>\<open>Memory_Laws\<close>: the in-memory adapter and the interpretation of the contract on it.
  \<^item> \<^theory_text>\<open>Models\<close>, \<^theory_text>\<open>Store\<close>: the domain types with their conversions to rows (\<open>types.go\<close>, \<open>ports.go\<close>), and
    every method of the store (\<open>store.go\<close>, \<open>account_identity.go\<close>, \<open>oauth_scopes.go\<close>).
  \<^item> \<^theory_text>\<open>Store_Laws\<close>, \<^theory_text>\<open>Store_Logic\<close>, \<^theory_text>\<open>Store_Keeps\<close>: the adapter's methods on the queries of the store, as
    rules of elimination, as weakest preconditions, and as properties of tables that every method keeps.
  \<^item> \<^theory_text>\<open>Store_Calls\<close>, \<^theory_text>\<open>Store_Safety\<close>: the store's interface as a datatype of calls, the states it can
    reach, and what holds in all of them.
  \<^item> \<^theory_text>\<open>Store_Props\<close>, \<^theory_text>\<open>Store_Accounts\<close>, \<^theory_text>\<open>Store_Tokens\<close>, \<^theory_text>\<open>Store_OAuth\<close>: each method of the store on each
    of its branches, over any adapter that keeps the contract; \<^theory_text>\<open>Store_Theorems\<close> states it for the adapter
    in memory. \<^theory_text>\<open>Examples\<close> is a concrete database.
  \<^item> \<^theory_text>\<open>Schema_Adapter\<close>, \<^theory_text>\<open>Schema_Refinement\<close>, \<^theory_text>\<open>Schema_Simulation\<close>, \<^theory_text>\<open>Store_Refinement\<close>, \<^theory_text>\<open>Schema_Theorems\<close>:
    the wrapper for renamed schemas, that each of its methods simulates the method of the adapter below,
    and the simulation carried through every method of the store.
  \<^item> \<^theory_text>\<open>Database_Hooks\<close>, \<^theory_text>\<open>Hooks_Refinement\<close>: the hooked adapter, and what hooks can and cannot change.
  \<^item> \<^theory_text>\<open>Trusted_Origins\<close>, \<^theory_text>\<open>Server\<close>, \<^theory_text>\<open>Server_Core\<close>: the origin policy (\<open>trusted_origins.go\<close>), the server's
    state, and the helpers of \<open>server.go\<close>. \<^theory_text>\<open>Handlers_Session\<close>, \<^theory_text>\<open>Handlers_Management\<close>,
    \<^theory_text>\<open>Handlers_Email\<close>, \<^theory_text>\<open>Handlers_Social\<close>: every handler of \<open>handlers_*.go\<close>. \<^theory_text>\<open>Router\<close>: the core router.
  \<^item> \<^theory_text>\<open>Server_Keeps\<close>, \<^theory_text>\<open>Server_Safety\<close>, \<^theory_text>\<open>Server_Guards\<close>, \<^theory_text>\<open>Server_SignIn\<close>, \<^theory_text>\<open>Server_Theorems\<close>: what every
    request keeps, what no request can do, and the endpoints that hand out sessions.
  \<^item> \<^theory_text>\<open>Schema_Check\<close>, \<^theory_text>\<open>Schema_Gate\<close>: the comparison of tables, and the gate that shares a running check,
    as a step relation over interleaved callers. \<^theory_text>\<open>Outbox\<close>: the dispatcher. \<^theory_text>\<open>Validation\<close>: the validators
    of plugin endpoints. \<^theory_text>\<open>Findings\<close>: behaviour that differs from what its comments promise.
\<close>

section \<open>What is shown\<close>

text \<open>
  \<^bold>\<open>Of the store:\<close> the invariant of its tables (unique emails, token hashes and provider accounts) in
  every reachable state; what each method does on every branch, with the atomicity of those that write
  several rows; that a revoked session never comes back and a single-use token works once.

  \<^bold>\<open>Of the server:\<close> for every list of requests the invariant of the store; that a session is accepted
  only while its row is live, that a sign-out is final, that state-changing requests need a trusted origin
  and the CSRF pair, that sign-in, password reset and impersonation check what they must; and that every
  request is answered with a status and without the text of an internal error.

  \<^bold>\<open>Of the wrappers:\<close> the store over a renamed schema refines the store over the logical one; hooks that
  only watch change nothing, and \<open>After\<close> hooks run behind the commit.

  \<^bold>\<open>Of the rest:\<close> the schema check finds nothing exactly when every insert will find its columns, its gate
  runs one check at a time and leaves no caller stuck; the outbox delivers each event at least once and
  drains; a validator accepts exactly the inputs its rules describe.
\<close>

section \<open>Bounds and assumptions\<close>

text \<open>
  Loops of the code run over finite lists, so their models are total functions and no fuel is needed. The bounds
  that occur are the code's own: \<open>Count\<close> of the in-memory adapter counts to 1000 (\<open>memory.go\<close>), a
  batch of the outbox has at most 1000 events, a delay for \<open>Retry-After\<close> at most a day. A transaction of
  the in-memory adapter runs alone under its lock, so requests are serialised in the model of the server;
  the schema gate, which is the shared state outside the database, is modelled with all interleavings. Integers of
  the code that are compared or counted stay far below \<open>2 ^ 63\<close> and are \<open>int\<close> or \<open>nat\<close>.
\<close>

section \<open>Not modelled\<close>

text \<open>
  \<^item> \<open>New\<close> with the defaults of a \<open>Config\<close>, and the panics that \<open>ServeHTTP\<close> recovers from.
  \<^item> Password hashing, the token cipher and the token source: primitives of the standard library and
    \<open>x/crypto\<close>, which the server takes as services.
  \<^item> The SQL and MongoDB adapters, which produce statements for a database engine outside the repository; the
    contract of \<^theory_text>\<open>Adapter\<close> says what the store relies on.
  \<^item> The exchanges with social providers (\<open>social/\<close>), the passkey and SSO plugins: HTTP, JWT, WebAuthn and
    SAML of third-party libraries. A provider is a record of functions.
  \<^item> The plugins for two factors, organizations, one-time tokens and SCIM.
  \<^item> Migrations, sample programs and test helpers.
\<close>

end
